(* ===== verification/Prelude.thy ===== *)
theory Prelude
  imports "HOL-Library.Word" "HOL-Library.List_Lexorder" "HOL-Library.Char_ord"
begin

text \<open>
  Shared vocabulary of the development: the Rust \<open>Result\<close> type with an explicit
  outcome for panics, the sequencing operators that the question mark and the
  checking loops of the source become, machine integers, instants, and the
  blank-string test \<open>str::trim().is_empty()\<close>.
\<close>

section \<open>Results\<close>

named_theorems result_iff \<open>when a computation built from the result combinators succeeds\<close>

type_synonym u32 = "32 word"
type_synonym u64 = "64 word"

text \<open>
  An instant (\<open>DateTime<Utc>\<close>). The source only copies instants and compares
  them, so the integers with their order carry everything the code observes.
\<close>

type_synonym timestamp = int

text \<open>
  \<open>Result<T, E>\<close>, with \<open>Panic\<close> as the third outcome: an \<open>expect\<close> on \<open>None\<close>, a
  \<open>BTreeMap\<close> index without its key, an overflowing addition.
\<close>

datatype ('e, 'a) result = Ok 'a | Err 'e | Panic

primrec and_then :: "('e, 'a) result \<Rightarrow> ('a \<Rightarrow> ('e, 'b) result) \<Rightarrow> ('e, 'b) result" where
  "and_then (Ok a) f = f a"
| "and_then (Err e) f = Err e"
| "and_then Panic f = Panic"

primrec map_err :: "('e \<Rightarrow> 'f) \<Rightarrow> ('e, 'a) result \<Rightarrow> ('f, 'a) result" where
  "map_err g (Ok a) = Ok a"
| "map_err g (Err e) = Err (g e)"
| "map_err g Panic = Panic"

primrec is_ok :: "('e, 'a) result \<Rightarrow> bool" where
  "is_ok (Ok a) = True"
| "is_ok (Err e) = False"
| "is_ok Panic = False"

text \<open>\<open>if !b { return Err(e) }\<close>, \<open>option.ok_or(e)\<close> and \<open>option.expect(..)\<close>.\<close>

definition require :: "bool \<Rightarrow> 'e \<Rightarrow> ('e, unit) result" where
  "require b e = (if b then Ok () else Err e)"

primrec ok_or :: "'a option \<Rightarrow> 'e \<Rightarrow> ('e, 'a) result" where
  "ok_or None e = Err e"
| "ok_or (Some a) e = Ok a"

primrec expect :: "'a option \<Rightarrow> ('e, 'a) result" where
  "expect None = Panic"
| "expect (Some a) = Ok a"

text \<open>
  A run of statements \<open>c1?; c2?; ...\<close> that only check: the first failure is the
  result. A checking loop over a list is \<open>checks\<close> of the mapped list.
\<close>

primrec checks :: "('e, unit) result list \<Rightarrow> ('e, unit) result" where
  "checks [] = Ok ()"
| "checks (c # cs) = and_then c (\<lambda>_. checks cs)"

text \<open>A loop that carries a state and may stop with an error.\<close>

primrec try_fold :: "('s \<Rightarrow> 'x \<Rightarrow> ('e, 's) result) \<Rightarrow> 's \<Rightarrow> 'x list \<Rightarrow> ('e, 's) result" where
  "try_fold f s [] = Ok s"
| "try_fold f s (x # xs) = and_then (f s x) (\<lambda>s'. try_fold f s' xs)"

lemma and_then_Ok_iff [result_iff]:
  "and_then r f = Ok b \<longleftrightarrow> (\<exists>a. r = Ok a \<and> f a = Ok b)"
  by (cases r) auto

lemma and_then_Err_iff:
  "and_then r f = Err e \<longleftrightarrow> r = Err e \<or> (\<exists>a. r = Ok a \<and> f a = Err e)"
  by (cases r) auto

lemma and_then_Panic_iff:
  "and_then r f = Panic \<longleftrightarrow> r = Panic \<or> (\<exists>a. r = Ok a \<and> f a = Panic)"
  by (cases r) auto

lemma and_then_assoc: "and_then (and_then r f) g = and_then r (\<lambda>a. and_then (f a) g)"
  by (cases r) auto

lemma map_err_Ok_iff [result_iff]: "map_err g r = Ok a \<longleftrightarrow> r = Ok a"
  by (cases r) auto

lemma map_err_Panic_iff [simp]: "map_err g r = Panic \<longleftrightarrow> r = Panic"
  by (cases r) auto

lemma is_ok_iff: "is_ok r \<longleftrightarrow> (\<exists>a. r = Ok a)"
  by (cases r) auto

lemma require_Ok_iff [result_iff]: "require b e = Ok u \<longleftrightarrow> b"
  by (simp add: require_def)

lemma require_not_Panic [simp]: "require b e \<noteq> Panic" "Panic \<noteq> require b e"
  by (simp_all add: require_def)

lemma require_simps [simp]: "require True e = Ok ()" "require False e = Err e"
  by (simp_all add: require_def)

lemma ok_or_Ok_iff [result_iff]: "ok_or x e = Ok a \<longleftrightarrow> x = Some a"
  by (cases x) auto

lemma ok_or_not_Panic [simp]: "ok_or x e \<noteq> Panic"
  by (cases x) auto

lemma expect_Ok_iff [result_iff]: "expect x = Ok a \<longleftrightarrow> x = Some a"
  by (cases x) auto

lemma expect_Panic_iff: "expect x = Panic \<longleftrightarrow> x = None"
  by (cases x) auto

lemma checks_Ok_iff [result_iff]: "checks cs = Ok u \<longleftrightarrow> (\<forall>c \<in> set cs. c = Ok ())"
proof (induction cs)
  case Nil
  then show ?case by simp
next
  case (Cons c cs)
  then show ?case by (cases c) auto
qed

lemma checks_append: "checks (cs @ ds) = and_then (checks cs) (\<lambda>_. checks ds)"
  by (induction cs) (auto simp: and_then_assoc)

lemma checks_no_Panic: "(\<And>c. c \<in> set cs \<Longrightarrow> c \<noteq> Panic) \<Longrightarrow> checks cs \<noteq> Panic"
  by (induction cs) (auto simp: and_then_Panic_iff)

lemma try_fold_append:
  "try_fold f s (xs @ ys) = and_then (try_fold f s xs) (\<lambda>s'. try_fold f s' ys)"
  by (induction xs arbitrary: s) (auto simp: and_then_assoc)

text \<open>An invariant of every successful step is an invariant of the loop.\<close>

lemma try_fold_invariant:
  assumes "try_fold f s xs = Ok s'" and "P s"
    and "\<And>s x s'. x \<in> set xs \<Longrightarrow> P s \<Longrightarrow> f s x = Ok s' \<Longrightarrow> P s'"
  shows "P s'"
  using assms
proof (induction xs arbitrary: s)
  case Nil
  then show ?case by simp
next
  case (Cons x xs)
  then show ?case by (auto simp: result_iff)
qed

lemma try_fold_no_Panic:
  assumes "\<And>s x. x \<in> set xs \<Longrightarrow> f s x \<noteq> Panic"
  shows "try_fold f s xs \<noteq> Panic"
  using assms by (induction xs arbitrary: s) (auto simp: and_then_Panic_iff)

lemma find_Some_elem: "find P xs = Some x \<Longrightarrow> x \<in> set xs \<and> P x"
  by (auto simp: find_Some_iff)

section \<open>Lists\<close>

text \<open>\<open>windows(2).any(|pair| pair[0] > pair[1])\<close>.\<close>

fun descends :: "'a::linorder list \<Rightarrow> bool" where
  "descends (a # b # rest) = (b < a \<or> descends (b # rest))"
| "descends _ = False"

lemma descends_iff: "descends xs \<longleftrightarrow> \<not> sorted xs"
  by (induction xs rule: descends.induct) (auto simp: not_less, meson order_trans)

lemma sorted_wrt_pair:
  "sorted_wrt R xs \<Longrightarrow> a \<in> set xs \<Longrightarrow> b \<in> set xs \<Longrightarrow> a \<noteq> b \<Longrightarrow> R a b \<or> R b a"
  by (induction xs) auto

text \<open>Loops over \<open>iter().enumerate()\<close> whose checks do not depend on the index.\<close>

lemma ball_enumerate: "(\<forall>e \<in> set (enumerate n xs). P (snd e)) \<longleftrightarrow> (\<forall>x \<in> set xs. P x)"
  by (induction xs arbitrary: n) auto

lemma checks_enumerate_Ok_iff:
  assumes "\<And>i x. c (i, x) = Ok () \<longleftrightarrow> P x"
  shows "checks (map c (enumerate n xs)) = Ok u \<longleftrightarrow> (\<forall>x \<in> set xs. P x)"
  by (induction xs arbitrary: n) (simp_all add: result_iff assms)

text \<open>A loop that inserts each element into a set and stops at a duplicate.\<close>

definition insert_new :: "('a \<Rightarrow> 'e) \<Rightarrow> 'a set \<Rightarrow> 'a \<Rightarrow> ('e, 'a set) result" where
  "insert_new err seen x = (if x \<in> seen then Err (err x) else Ok (insert x seen))"

lemma insert_new_Ok_iff [result_iff]:
  "insert_new err seen x = Ok seen' \<longleftrightarrow> x \<notin> seen \<and> seen' = insert x seen"
  by (auto simp: insert_new_def)

lemma insert_new_not_Panic [simp]: "insert_new err seen x \<noteq> Panic"
  by (simp add: insert_new_def)

lemma try_fold_insert_new:
  assumes "\<And>seen i x seen'. step seen (i, x) = Ok seen' \<longleftrightarrow> P x \<and> x \<notin> seen \<and> seen' = insert x seen"
  shows "try_fold step seen (enumerate n xs) = Ok seen' \<longleftrightarrow>
    (\<forall>x \<in> set xs. P x) \<and> distinct xs \<and> set xs \<inter> seen = {} \<and> seen' = seen \<union> set xs"
  by (induction xs arbitrary: n seen) (auto simp: result_iff assms)

text \<open>
  A seen set with the previous element, as loops over IDs that must be sorted and free
  of duplicates keep them.
\<close>

definition tracks :: "'a::linorder set \<Rightarrow> 'a option \<Rightarrow> bool" where
  "tracks seen previous \<longleftrightarrow>
    (case previous of None \<Rightarrow> seen = {} | Some p \<Rightarrow> p \<in> seen \<and> (\<forall>x \<in> seen. x \<le> p))"

lemma tracks_start [simp]: "tracks {} None"
  by (simp add: tracks_def)

lemma tracks_next:
  "tracks seen previous \<Longrightarrow>
   x \<notin> seen \<and> (case previous of None \<Rightarrow> True | Some p \<Rightarrow> \<not> x < p) \<longleftrightarrow> (\<forall>y \<in> seen. y < x)"
  by (fastforce simp: tracks_def not_less less_le split: option.splits)

lemma tracks_insert: "(\<forall>y \<in> seen. y < x) \<Longrightarrow> tracks (insert x seen) (Some x)"
  by (auto simp: tracks_def)

lemma try_fold_sorted:
  assumes step: "\<And>s i x s'. tracks (seen s) (previous s) \<Longrightarrow> step s (i, x) = Ok s' \<longleftrightarrow>
      P x \<and> key x \<notin> seen s
      \<and> (case previous s of None \<Rightarrow> True | Some p \<Rightarrow> \<not> key x < p) \<and> s' = upd x s"
    and upd: "\<And>x s. seen (upd x s) = insert (key x) (seen s)"
      "\<And>x s. previous (upd x s) = Some (key x)"
    and "tracks (seen s) (previous s)"
  shows "try_fold step s (enumerate n xs) = Ok s' \<longleftrightarrow>
    (\<forall>x \<in> set xs. P x) \<and> sorted_wrt (<) (map key xs) \<and> (\<forall>y \<in> seen s. \<forall>x \<in> set xs. y < key x)
    \<and> s' = fold upd xs s"
  using assms(4)
proof (induction xs arbitrary: n s)
  case Nil
  then show ?case by auto
next
  case (Cons x xs)
  have next_iff: "step s (n, x) = Ok t \<longleftrightarrow> P x \<and> (\<forall>y \<in> seen s. y < key x) \<and> t = upd x s" for t
    using step [OF Cons.prems] tracks_next [OF Cons.prems, of "key x"] by blast
  show ?case
  proof (cases "\<forall>y \<in> seen s. y < key x")
    case True
    then have "tracks (seen (upd x s)) (previous (upd x s))"
      by (simp add: upd tracks_insert)
    from Cons.IH [OF this, of "Suc n"] True show ?thesis
      by (auto simp: result_iff next_iff upd intro: less_trans)
  next
    case False
    then show ?thesis by (auto simp: result_iff next_iff)
  qed
qed

section \<open>Strings\<close>

text \<open>
  A Rust \<open>String\<close> is its UTF-8 bytes; \<open>Ord\<close> on strings is the lexicographic order
  of the bytes, the order of \<open>List_Lexorder\<close> over \<open>Char_ord\<close>. \<open>trim().is_empty()\<close>
  holds when every scalar value of the string is Unicode white space:
  U+0009..U+000D, U+0020, U+0085, U+00A0, U+1680, U+2000..U+200A, U+2028, U+2029,
  U+202F, U+205F and U+3000, written here by their encodings.
\<close>

fun white_space_only :: "nat list \<Rightarrow> bool" where
  "white_space_only [] = True"
| "white_space_only [a] = (9 \<le> a \<and> a \<le> 13 \<or> a = 32)"
| "white_space_only [a, b] =
    ((9 \<le> a \<and> a \<le> 13 \<or> a = 32) \<and> white_space_only [b]
     \<or> a = 194 \<and> (b = 133 \<or> b = 160))"
| "white_space_only (a # b # c # rest) =
    ((9 \<le> a \<and> a \<le> 13 \<or> a = 32) \<and> white_space_only (b # c # rest)
     \<or> a = 194 \<and> (b = 133 \<or> b = 160) \<and> white_space_only (c # rest)
     \<or> (a = 225 \<and> b = 154 \<and> c = 128
        \<or> a = 226 \<and> b = 128 \<and> (128 \<le> c \<and> c \<le> 138 \<or> c = 168 \<or> c = 169 \<or> c = 175)
        \<or> a = 226 \<and> b = 129 \<and> c = 159
        \<or> a = 227 \<and> b = 128 \<and> c = 128) \<and> white_space_only rest)"

definition is_blank :: "string \<Rightarrow> bool" where
  "is_blank s = white_space_only (map of_char s)"

lemma is_blank_Nil [simp]: "is_blank []"
  by (simp add: is_blank_def)

lemma is_blank_examples:
  "is_blank '' ''" "\<not> is_blank ''a''" "\<not> is_blank '' run-1''"
  "is_blank [CHR 0xE2, CHR 0x80, CHR 0x83, CHR 0x20]"
  by (simp_all add: is_blank_def)

text \<open>\<open>Display\<close> of an unsigned index, for the indexed field names in errors.\<close>

fun show_nat :: "nat \<Rightarrow> string" where
  "show_nat n = (if n < 10 then [char_of (48 + n)]
                 else show_nat (n div 10) @ [char_of (48 + n mod 10)])"

declare show_nat.simps [simp del]

definition indexed :: "string \<Rightarrow> nat \<Rightarrow> string" where
  "indexed name i = name @ ''['' @ show_nat i @ '']''"

end
