(* ===== verification/Ordered_Map.thy ===== *)
theory Ordered_Map
  imports Prelude
begin

text \<open>
  \<open>BTreeMap<K, V>\<close>: a finite map whose iteration order is the key order. The type is
  the set of association lists with strictly increasing keys, so two maps are equal
  exactly when they have the same lookups, and every operation evaluates.
  \<open>BTreeSet<T>\<close> is a HOL set where only membership and equality are observed;
  iteration over one is the sorted list of its elements.
\<close>

section \<open>Sorted association lists\<close>

fun put_entry :: "'k::linorder \<Rightarrow> 'v \<Rightarrow> ('k \<times> 'v) list \<Rightarrow> ('k \<times> 'v) list" where
  "put_entry k v [] = [(k, v)]"
| "put_entry k v ((k', v') # es) =
    (if k' < k then (k', v') # put_entry k v es
     else if k' = k then (k, v) # es
     else (k, v) # (k', v') # es)"

lemma map_of_put_entry [simp]: "map_of (put_entry k v es) = (map_of es)(k \<mapsto> v)"
  by (induction k v es rule: put_entry.induct) auto

lemma fst_set_put_entry [simp]: "fst ` set (put_entry k v es) = insert k (fst ` set es)"
  by (induction k v es rule: put_entry.induct) auto

lemma sorted_put_entry:
  "sorted_wrt (<) (map fst es) \<Longrightarrow> sorted_wrt (<) (map fst (put_entry k v es))"
proof (induction k v es rule: put_entry.induct)
  case (1 k v)
  then show ?case by simp
next
  case (2 k v k' v' es)
  have "\<forall>x \<in> fst ` set es. k' < x"
    using "2.prems" by simp
  then show ?case using "2" by force
qed

lemma sorted_strict_filter:
  "sorted_wrt (<) (map fst es) \<Longrightarrow> sorted_wrt (<) (map fst (filter P es))"
  by (induction es) auto

lemma sorted_strict_distinct: "sorted_wrt (<) (xs :: 'k::linorder list) \<Longrightarrow> distinct xs"
  by (induction xs) auto

lemma map_of_sorted_filter:
  "sorted_wrt (<) (map fst (es :: ('k::linorder \<times> 'v) list)) \<Longrightarrow>
   map_of (filter P es) k =
     (case map_of es k of Some x \<Rightarrow> if P (k, x) then Some x else None | None \<Rightarrow> None)"
proof (induction es)
  case Nil
  then show ?case by simp
next
  case (Cons e es)
  obtain k' v' where e: "e = (k', v')" by (cases e)
  from Cons.prems e have "k' \<notin> fst ` set es" by auto
  then have "map_of es k' = None" by (simp add: map_of_eq_None_iff)
  with Cons e show ?case by (auto split: option.splits)
qed

lemma sorted_entries_unique:
  assumes "sorted_wrt (<) (map fst es)" "sorted_wrt (<) (map fst es')"
    and "map_of es = map_of es'"
  shows "es = (es' :: ('k::linorder \<times> 'v) list)"
proof -
  have d: "distinct (map fst es)" "distinct (map fst es')"
    using assms(1,2) by (auto dest: sorted_strict_distinct)
  then have s: "set es = set es'"
    using assms(3) map_of_inject_set by blast
  moreover have "inj_on fst (set es \<union> set es')"
    using d s by (simp add: distinct_map)
  ultimately show ?thesis
    using assms(1,2) by (intro map_sorted_distinct_set_unique [where f = fst])
      (simp_all add: strict_sorted_iff)
qed

section \<open>The map type and its operations\<close>

typedef (overloaded) ('k::linorder, 'v) btree_map =
    "{es :: ('k \<times> 'v) list. sorted_wrt (<) (map fst es)}"
  morphisms bm_entries BTree_Map
  by (intro exI [of _ "[]"]) simp

setup_lifting type_definition_btree_map

lift_definition bm_empty :: "('k::linorder, 'v) btree_map" is "[]" by simp

lift_definition bm_get :: "('k::linorder, 'v) btree_map \<Rightarrow> 'k \<Rightarrow> 'v option" is map_of .

lift_definition bm_insert :: "'k::linorder \<Rightarrow> 'v \<Rightarrow> ('k, 'v) btree_map \<Rightarrow> ('k, 'v) btree_map"
  is put_entry by (rule sorted_put_entry)

lift_definition bm_retain ::
    "('k \<times> 'v \<Rightarrow> bool) \<Rightarrow> ('k::linorder, 'v) btree_map \<Rightarrow> ('k, 'v) btree_map"
  is filter by (rule sorted_strict_filter)

lift_definition bm_map :: "('v \<Rightarrow> 'w) \<Rightarrow> ('k::linorder, 'v) btree_map \<Rightarrow> ('k, 'w) btree_map"
  is "\<lambda>f. map (map_prod id f)" by simp

definition bm_keys :: "('k::linorder, 'v) btree_map \<Rightarrow> 'k list" where
  "bm_keys m = map fst (bm_entries m)"

text \<open>\<open>collect\<close> from pairs: a later pair replaces an earlier one with the same key.\<close>

definition bm_collect :: "('k::linorder \<times> 'v) list \<Rightarrow> ('k, 'v) btree_map" where
  "bm_collect ps = fold (\<lambda>(k, v) m. bm_insert k v m) ps bm_empty"

definition bm_contains :: "('k::linorder, 'v) btree_map \<Rightarrow> 'k \<Rightarrow> bool" where
  "bm_contains m k = (bm_get m k \<noteq> None)"

instantiation btree_map :: (linorder, equal) equal
begin

definition equal_btree_map :: "('a, 'b) btree_map \<Rightarrow> ('a, 'b) btree_map \<Rightarrow> bool" where
  "equal_btree_map m m' = (bm_entries m = bm_entries m')"

instance
  by standard (simp add: equal_btree_map_def bm_entries_inject)

end

lemma bm_eqI: "(\<And>k. bm_get m k = bm_get m' k) \<Longrightarrow> m = m'"
  by transfer (auto intro: sorted_entries_unique)

lemma bm_eqI_Some: "(\<And>k v. bm_get m k = Some v \<longleftrightarrow> bm_get m' k = Some v) \<Longrightarrow> m = m'"
  by (intro bm_eqI) (metis not_None_eq)

lemma bm_eq_iff: "m = m' \<longleftrightarrow> (\<forall>k. bm_get m k = bm_get m' k)"
  using bm_eqI by blast

lemma bm_get_empty [simp]: "bm_get bm_empty k = None"
  by transfer simp

lemma bm_get_insert [simp]:
  "bm_get (bm_insert k v m) k' = (if k' = k then Some v else bm_get m k')"
  by transfer simp

lemma bm_get_retain:
  "bm_get (bm_retain P m) k =
     (case bm_get m k of Some x \<Rightarrow> if P (k, x) then Some x else None | None \<Rightarrow> None)"
  by transfer (rule map_of_sorted_filter)

lemma bm_get_retain_Some [simp]:
  "bm_get (bm_retain P m) k = Some v \<longleftrightarrow> bm_get m k = Some v \<and> P (k, v)"
  by (auto simp: bm_get_retain split: option.splits)

lemma bm_get_map [simp]: "bm_get (bm_map f m) k = map_option f (bm_get m k)"
  by transfer (simp add: map_prod_def split_beta map_of_map)

lemma bm_insert_same: "bm_get m k = Some v \<Longrightarrow> bm_insert k v m = m"
  by (rule bm_eqI) simp

lemma bm_insert_twice [simp]: "bm_insert k v (bm_insert k w m) = bm_insert k v m"
  by (rule bm_eqI) simp

lemma bm_entries_iff: "(k, v) \<in> set (bm_entries m) \<longleftrightarrow> bm_get m k = Some v"
  by transfer (simp add: sorted_strict_distinct)

lemma bm_keys_iff: "k \<in> set (bm_keys m) \<longleftrightarrow> (\<exists>v. bm_get m k = Some v)"
  unfolding bm_keys_def by (force simp flip: bm_entries_iff)

lemma bm_keys_sorted: "sorted_wrt (<) (bm_keys m)"
  unfolding bm_keys_def by transfer simp

lemma bm_keys_distinct: "distinct (bm_keys m)"
  using bm_keys_sorted by (rule sorted_strict_distinct)

lemma bm_contains_iff: "bm_contains m k \<longleftrightarrow> k \<in> set (bm_keys m)"
  by (auto simp: bm_contains_def bm_keys_iff)

lemma bm_entries_empty [simp]: "bm_entries bm_empty = []"
  by transfer simp

lemma bm_entries_insert [simp]: "bm_entries (bm_insert k v m) = put_entry k v (bm_entries m)"
  by transfer simp

lemma bm_entries_retain [simp]: "bm_entries (bm_retain P m) = filter P (bm_entries m)"
  by transfer simp

lemma bm_keys_empty [simp]: "bm_keys bm_empty = []"
  by (simp add: bm_keys_def)

lemma set_bm_keys_insert [simp]: "set (bm_keys (bm_insert k v m)) = insert k (set (bm_keys m))"
  by (auto simp: bm_keys_iff split: if_splits)

lemma bm_entries_distinct: "distinct (map fst (bm_entries m))"
  using bm_keys_distinct by (simp add: bm_keys_def)

lemma bm_get_fold_insert:
  "bm_get (fold (\<lambda>(k, v) m. bm_insert k v m) ps m) k =
     (case map_of (rev ps) k of None \<Rightarrow> bm_get m k | Some v \<Rightarrow> Some v)"
  by (induction ps arbitrary: m) (auto simp: map_add_def split: option.splits)

lemma bm_get_collect: "bm_get (bm_collect ps) k = map_of (rev ps) k"
  by (simp add: bm_collect_def bm_get_fold_insert split: option.splits)

lemma bm_get_collect_distinct:
  "distinct (map fst ps) \<Longrightarrow> bm_get (bm_collect ps) k = map_of ps k"
  by (metis bm_get_collect distinct_rev map_of_inject_set rev_map set_rev)

lemma bm_keys_collect: "set (bm_keys (bm_collect ps)) = fst ` set ps"
proof -
  have "k \<in> set (bm_keys (bm_collect ps)) \<longleftrightarrow> map_of (rev ps) k \<noteq> None" for k
    by (simp add: bm_keys_iff bm_get_collect)
  then show ?thesis by (auto simp: map_of_eq_None_iff)
qed

section \<open>Ordered sets\<close>

text \<open>The elements of a \<open>BTreeSet\<close> built from a list, in iteration order.\<close>

fun put_key :: "'k::linorder \<Rightarrow> 'k list \<Rightarrow> 'k list" where
  "put_key k [] = [k]"
| "put_key k (x # xs) =
    (if x < k then x # put_key k xs else if x = k then x # xs else k # x # xs)"

definition ordered_set :: "'k::linorder list \<Rightarrow> 'k list" where
  "ordered_set xs = fold put_key xs []"

lemma set_put_key [simp]: "set (put_key k xs) = insert k (set xs)"
  by (induction k xs rule: put_key.induct) auto

lemma sorted_put_key: "sorted_wrt (<) xs \<Longrightarrow> sorted_wrt (<) (put_key k xs)"
  by (induction k xs rule: put_key.induct) fastforce+

lemma set_fold_put_key: "set (fold put_key xs ys) = set xs \<union> set ys"
  by (induction xs arbitrary: ys) auto

lemma sorted_fold_put_key: "sorted_wrt (<) ys \<Longrightarrow> sorted_wrt (<) (fold put_key xs ys)"
  by (induction xs arbitrary: ys) (auto simp: sorted_put_key)

lemma set_ordered_set [simp]: "set (ordered_set xs) = set xs"
  by (simp add: ordered_set_def set_fold_put_key)

lemma ordered_set_sorted: "sorted_wrt (<) (ordered_set xs)"
  by (simp add: ordered_set_def sorted_fold_put_key)

lemma ordered_set_distinct: "distinct (ordered_set xs)"
  using ordered_set_sorted by (rule sorted_strict_distinct)

lemma ordered_set_cong: "set xs = set ys \<Longrightarrow> ordered_set xs = ordered_set ys"
  using ordered_set_sorted [of xs] ordered_set_sorted [of ys]
  by (metis set_ordered_set strict_sorted_equal)

lemma length_ordered_set_iff: "length (ordered_set xs) = length xs \<longleftrightarrow> distinct xs"
  by (metis ordered_set_distinct distinct_card set_ordered_set card_distinct)

end
