(* ===== verification/Contracts.thy ===== *)
theory Contracts
  imports Ordered_Map
begin

text \<open>
  The provider-independent data contracts of \<open>ovca-types/src/goal_runtime.rs\<close>:
  every struct is a record whose fields carry a short prefix for the struct (record
  fields share one name space), every enum a datatype with the source's constructors.
  Typed identifiers are transparent wrappers of strings. \<open>Ord\<close> is derived from the
  declaration order, so the ordered enums get the order of their position.
\<close>

section \<open>Versions and identifiers\<close>

type_synonym contract_version = u32

definition goal_runtime_contract_version :: contract_version where
  "goal_runtime_contract_version = 1"

definition current_version :: contract_version where
  "current_version = goal_runtime_contract_version"
type_synonym project_id = string
type_synonym goal_id = string
type_synonym task_id = string
type_synonym run_id = string
type_synonym evidence_id = string
type_synonym event_id = string
type_synonym worker_id = string
type_synonym lease_id = string
type_synonym idempotency_key = string
type_synonym guard_request_id = string
type_synonym approval_request_id = string
type_synonym review_decision_id = string
type_synonym audit_decision_id = string

section \<open>Roles, tiers and guard vocabulary\<close>

datatype role = Coordinator | Engineer | Reviewer | Auditor

definition role_as_str :: "role \<Rightarrow> string" where
  "role_as_str r = (case r of
     Coordinator \<Rightarrow> ''coordinator''
   | Engineer \<Rightarrow> ''engineer''
   | Reviewer \<Rightarrow> ''reviewer''
   | Auditor \<Rightarrow> ''auditor'')"

datatype risk_tier = R0 | R1 | R2 | R3

definition risk_tier_as_str :: "risk_tier \<Rightarrow> string" where
  "risk_tier_as_str t = (case t of R0 \<Rightarrow> ''r0'' | R1 \<Rightarrow> ''r1'' | R2 \<Rightarrow> ''r2'' | R3 \<Rightarrow> ''r3'')"

primrec risk_tier_rank :: "risk_tier \<Rightarrow> nat" where
  "risk_tier_rank R0 = 0"
| "risk_tier_rank R1 = 1"
| "risk_tier_rank R2 = 2"
| "risk_tier_rank R3 = 3"

lemma risk_tier_rank_inject [simp]: "risk_tier_rank a = risk_tier_rank b \<longleftrightarrow> a = b"
  by (cases a; cases b) simp_all

instantiation risk_tier :: linorder
begin

definition less_eq_risk_tier :: "risk_tier \<Rightarrow> risk_tier \<Rightarrow> bool" where
  "less_eq_risk_tier a b = (risk_tier_rank a \<le> risk_tier_rank b)"

definition less_risk_tier :: "risk_tier \<Rightarrow> risk_tier \<Rightarrow> bool" where
  "less_risk_tier a b = (risk_tier_rank a < risk_tier_rank b)"

instance
  by standard (auto simp: less_eq_risk_tier_def less_risk_tier_def)

end

record permission_profile =
  pp_contract_version :: contract_version
  pp_risk_tier :: risk_tier
  pp_resource_keys :: "string list"
  pp_write_keys :: "string list"
  pp_approval_required :: bool
  pp_review_required :: bool
  pp_audit_required :: bool

datatype guard_surface = Input | Output | Tool

datatype side_effect_class =
    ReadOnly | ReversibleLocalWrite | RepositoryWrite | NetworkAction | Publication
  | ExternalSideEffect | Destructive | SecretBearing | Irreversible | Privileged

datatype guard_requirement = OwnerApprovalGate | ReviewerGate | AuditorGate

primrec guard_requirement_rank :: "guard_requirement \<Rightarrow> nat" where
  "guard_requirement_rank OwnerApprovalGate = 0"
| "guard_requirement_rank ReviewerGate = 1"
| "guard_requirement_rank AuditorGate = 2"

lemma guard_requirement_rank_inject [simp]:
  "guard_requirement_rank a = guard_requirement_rank b \<longleftrightarrow> a = b"
  by (cases a; cases b) simp_all

instantiation guard_requirement :: linorder
begin

definition less_eq_guard_requirement :: "guard_requirement \<Rightarrow> guard_requirement \<Rightarrow> bool" where
  "less_eq_guard_requirement a b = (guard_requirement_rank a \<le> guard_requirement_rank b)"

definition less_guard_requirement :: "guard_requirement \<Rightarrow> guard_requirement \<Rightarrow> bool" where
  "less_guard_requirement a b = (guard_requirement_rank a < guard_requirement_rank b)"

instance
  by standard (auto simp: less_eq_guard_requirement_def less_guard_requirement_def)

end

datatype guard_deny_reason =
    UnsupportedContractVersion | BlankGuardRequestId | BlankApprovalRequestId
  | BlankOperationLabel | InvalidKey | DuplicateKey | BlankKey | RiskTierMismatch
  | MissingResourcePermission | MissingWritePermission | MissingRequiredDeclaration
  | R3DenyByDefault

datatype approval_authority = ExplicitOwner

datatype approval_disposition = DispositionApproved | DispositionDenied

datatype approval_state = ApprovalPending | ApprovalApproved | ApprovalDenied | ApprovalConsumed

record guard_request =
  gr_contract_version :: contract_version
  gr_id :: guard_request_id
  gr_surface :: guard_surface
  gr_side_effect :: side_effect_class
  gr_operation_label :: string
  gr_resource_keys :: "string list"
  gr_write_keys :: "string list"
  gr_permission_profile :: permission_profile

record approval_request =
  ar_contract_version :: contract_version
  ar_id :: approval_request_id
  ar_guard_request :: guard_request
  ar_requested_at :: timestamp

record approval_decision_record =
  ad_contract_version :: contract_version
  ad_approval_request_id :: approval_request_id
  ad_guard_request_id :: guard_request_id
  ad_authority :: approval_authority
  ad_disposition :: approval_disposition
  ad_decided_at :: timestamp

datatype guard_outcome =
    GuardAllow "guard_requirement set"
  | PauseForApproval approval_request "guard_requirement set"
  | GuardDeny "guard_deny_reason set"

datatype run_guard_decision =
    RunGuardAllow "guard_requirement set"
  | RunGuardPause "guard_requirement set"
  | RunGuardDeny "guard_deny_reason set"

record run_guard_projection =
  rgp_contract_version :: contract_version
  rgp_outcome :: run_guard_decision

record review_audit_requirements =
  rar_contract_version :: contract_version
  rar_guard_requirements :: "guard_requirement set"

section \<open>Projects, goals, tasks and leases\<close>

record project =
  prj_contract_version :: contract_version
  prj_id :: project_id
  prj_name :: string
  prj_description :: "string option"
  prj_goal_ids :: "goal_id list"
  prj_created_at :: timestamp
  prj_updated_at :: timestamp

record completion_precondition =
  cp_contract_version :: contract_version
  cp_minimum_evidence_refs :: u32
  cp_require_all_acceptance_criteria :: bool
  cp_require_all_verification_criteria :: bool

definition default_completion_precondition :: completion_precondition where
  "default_completion_precondition =
     \<lparr>cp_contract_version = current_version, cp_minimum_evidence_refs = 1,
      cp_require_all_acceptance_criteria = True, cp_require_all_verification_criteria = True\<rparr>"

record goal_contract =
  gc_contract_version :: contract_version
  gc_id :: goal_id
  gc_project_id :: project_id
  gc_objective :: string
  gc_constraints :: "string list"
  gc_acceptance_criteria :: "string list"
  gc_verification_criteria :: "string list"
  gc_permission_profile :: permission_profile
  gc_definition_of_done :: "string list"
  gc_completion_precondition :: completion_precondition
  gc_created_at :: timestamp
  gc_updated_at :: timestamp

datatype task_status =
    TaskPending | TaskReady | TaskRunning | TaskAwaitingApproval | TaskReviewing
  | TaskCompleted | TaskFailed | TaskCancelled

record task =
  task_contract_version :: contract_version
  task_id_of :: task_id
  task_goal_id :: goal_id
  task_outcome :: string
  task_dependencies :: "task_id list"
  task_assigned_role :: role
  task_resource_keys :: "string list"
  task_write_keys :: "string list"
  task_status_of :: task_status
  task_created_at :: timestamp
  task_updated_at :: timestamp

record retry_budget =
  rb_contract_version :: contract_version
  rb_max_attempts :: u32

record task_lease =
  tl_contract_version :: contract_version
  tl_run_id :: run_id
  tl_task_id :: task_id
  tl_worker_id :: worker_id
  tl_worker_role :: role
  tl_lease_id :: lease_id
  tl_write_keys :: "string set"
  tl_attempt :: u32
  tl_max_attempts :: u32
  tl_claimed_at :: timestamp
  tl_heartbeat_at :: timestamp
  tl_expires_at :: timestamp

datatype task_terminal_outcome = OutcomeCompleted | OutcomeCancelled

record task_terminal_record =
  tr_contract_version :: contract_version
  tr_run_id :: run_id
  tr_task_id :: task_id
  tr_worker_id :: worker_id
  tr_lease_id :: lease_id
  tr_idempotency_key :: idempotency_key
  tr_outcome :: task_terminal_outcome
  tr_occurred_at :: timestamp
  tr_reason :: "string option"

section \<open>Evidence and decisions\<close>

datatype evidence_kind =
    Artifact | Document | TestResult | Log | ReviewEvidence | AuditEvidence
  | ExternalReference | OtherEvidence

record integrity_metadata =
  im_contract_version :: contract_version
  im_algorithm :: string
  im_digest :: string

record evidence_ref =
  er_contract_version :: contract_version
  er_id :: evidence_id
  er_kind :: evidence_kind
  er_reference :: string
  er_producer_role :: role
  er_integrity :: "integrity_metadata option"
  er_produced_at :: timestamp

datatype criterion_kind = Acceptance | Verification | DefinitionOfDone

datatype criterion_assessment_verdict = Satisfied | Unsatisfied

datatype review_verdict = VerdictPass | VerdictFail

record criterion_assessment =
  ca_contract_version :: contract_version
  ca_kind :: criterion_kind
  ca_criterion :: string
  ca_verdict :: criterion_assessment_verdict
  ca_evidence_refs :: "evidence_id list"
  ca_rationale :: string

record review_decision =
  rd_contract_version :: contract_version
  rd_id :: review_decision_id
  rd_run_id :: run_id
  rd_goal_id :: goal_id
  rd_producer_role :: role
  rd_verdict :: review_verdict
  rd_assessments :: "criterion_assessment list"
  rd_summary :: string
  rd_decided_at :: timestamp

record audit_decision =
  aud_contract_version :: contract_version
  aud_id :: audit_decision_id
  aud_run_id :: run_id
  aud_goal_id :: goal_id
  aud_review_decision_id :: review_decision_id
  aud_producer_role :: role
  aud_verdict :: review_verdict
  aud_assessments :: "criterion_assessment list"
  aud_summary :: string
  aud_decided_at :: timestamp

datatype review_audit_resolution =
    ResolutionPass "review_decision_id option" "audit_decision_id option"
  | AwaitingReview
  | AwaitingAudit review_decision_id
  | ResolutionFail review_decision_id "audit_decision_id option"
  | OwnerEscalation review_decision_id audit_decision_id review_verdict review_verdict

section \<open>Run records, plans and events\<close>

datatype run_status =
    Draft | Accepted | Planned | Running | AwaitingApproval | Reviewing | Auditing
  | Completed | Failed | Cancelled

definition run_status_as_str :: "run_status \<Rightarrow> string" where
  "run_status_as_str s = (case s of
     Draft \<Rightarrow> ''draft''
   | Accepted \<Rightarrow> ''accepted''
   | Planned \<Rightarrow> ''planned''
   | Running \<Rightarrow> ''running''
   | AwaitingApproval \<Rightarrow> ''awaiting_approval''
   | Reviewing \<Rightarrow> ''reviewing''
   | Auditing \<Rightarrow> ''auditing''
   | Completed \<Rightarrow> ''completed''
   | Failed \<Rightarrow> ''failed''
   | Cancelled \<Rightarrow> ''cancelled'')"

definition is_terminal :: "run_status \<Rightarrow> bool" where
  "is_terminal s = (s = Completed \<or> s = Failed \<or> s = Cancelled)"

record run_record =
  rr_contract_version :: contract_version
  rr_id :: run_id
  rr_project_id :: project_id
  rr_goal_id :: goal_id
  rr_task_ids :: "task_id list"
  rr_status :: run_status
  rr_event_count :: u64
  rr_last_event_sequence :: "u64 option"
  rr_last_event_id :: "event_id option"
  rr_evidence_refs :: "evidence_id list"
  rr_created_at :: timestamp
  rr_updated_at :: timestamp
  rr_started_at :: "timestamp option"
  rr_finished_at :: "timestamp option"

datatype execution_mode = Sequential | Parallel

record execution_wave =
  ew_index :: u32
  ew_mode :: execution_mode
  ew_task_ids :: "task_id list"

record execution_plan =
  ep_contract_version :: contract_version
  ep_waves :: "execution_wave list"

record specialist_output =
  so_contract_version :: contract_version
  so_task_id :: task_id
  so_specialist_role :: role
  so_summary :: string
  so_evidence_refs :: "evidence_id list"

record coordinator_final_response =
  cfr_contract_version :: contract_version
  cfr_response :: string
  cfr_evidence_refs :: "evidence_id list"

record completion_evidence =
  ce_contract_version :: contract_version
  ce_evidence_refs :: "evidence_id list"
  ce_satisfied_acceptance_criteria :: "string list"
  ce_satisfied_verification_criteria :: "string list"
  ce_satisfied_definition_of_done :: "string list"

text \<open>The fields of the \<open>RunCreated\<close> variant.\<close>

record run_created =
  rc_project_id :: project_id
  rc_goal_id :: goal_id
  rc_task_ids :: "task_id list"
  rc_status :: run_status
  rc_created_at :: timestamp
  rc_updated_at :: timestamp
  rc_started_at :: "timestamp option"
  rc_finished_at :: "timestamp option"

datatype run_event_payload =
    RunCreated run_created
  | ExecutionPlanRecorded execution_plan
  | StatusTransition run_status run_status
  | TaskStatusChanged task_id task_status task_status
  | EvidenceAttached evidence_id
  | EvidenceReferenceRecorded evidence_ref
  | GuardOutcomeRecorded run_guard_projection
  | ReviewAuditRequirementsRecorded review_audit_requirements
  | ReviewDecisionRecorded review_decision
  | AuditDecisionRecorded audit_decision
  | CompletionEvidenceRecorded completion_evidence
  | SpecialistOutputRecorded specialist_output
  | CoordinatorFinalResponseRecorded coordinator_final_response
  | NoteRecorded string

text \<open>
  A JSON value as the metadata map holds it (numbers by their text). The code here
  only moves and compares metadata.
\<close>

datatype json =
    JNull | JBool bool | JNumber string | JString string | JArray "json list"
  | JObject "(string \<times> json) list"

record run_event =
  ev_contract_version :: contract_version
  ev_id :: event_id
  ev_run_id :: run_id
  ev_sequence :: u64
  ev_previous_event_id :: "event_id option"
  ev_occurred_at :: timestamp
  ev_producer_role :: role
  ev_payload :: run_event_payload
  ev_metadata :: "(string, json) btree_map"

primrec is_run_created :: "run_event_payload \<Rightarrow> bool" where
  "is_run_created (RunCreated c) = True"
| "is_run_created (ExecutionPlanRecorded p) = False"
| "is_run_created (StatusTransition f t) = False"
| "is_run_created (TaskStatusChanged i f t) = False"
| "is_run_created (EvidenceAttached e) = False"
| "is_run_created (EvidenceReferenceRecorded e) = False"
| "is_run_created (GuardOutcomeRecorded p) = False"
| "is_run_created (ReviewAuditRequirementsRecorded r) = False"
| "is_run_created (ReviewDecisionRecorded d) = False"
| "is_run_created (AuditDecisionRecorded d) = False"
| "is_run_created (CompletionEvidenceRecorded e) = False"
| "is_run_created (SpecialistOutputRecorded s) = False"
| "is_run_created (CoordinatorFinalResponseRecorded r) = False"
| "is_run_created (NoteRecorded n) = False"

lemma is_run_created_iff: "is_run_created p \<longleftrightarrow> (\<exists>c. p = RunCreated c)"
  by (cases p) auto

lemma current_version_eq [simp]: "current_version = 1"
  by (simp add: current_version_def goal_runtime_contract_version_def)

lemma goal_runtime_contract_version_eq [simp]: "goal_runtime_contract_version = 1"
  by (simp add: goal_runtime_contract_version_def)

end
