(* ===== verification/Guardrails.thy ===== *)
theory Guardrails
  imports Contracts
begin

text \<open>
  The policy evaluation of \<open>ovca-runtime-core/src/guardrails.rs\<close>. The code collects deny
  reasons and then decides by risk tier; the theorems give the exact conditions of each
  outcome over sets of keys, so they also show that the binary search of \<open>is_subset\<close>
  is only trusted on sorted keys.
\<close>

section \<open>Binary search\<close>

text \<open>
  \<open>slice::binary_search\<close>: \<open>n\<close> candidates from \<open>base\<close>, halved until one is left, which is
  then compared. On unsorted input the result is whatever the halving finds.
\<close>

function search_base :: "'a::linorder list \<Rightarrow> 'a \<Rightarrow> nat \<Rightarrow> nat \<Rightarrow> nat" where
  "search_base xs k base n =
    (if n \<le> 1 then base
     else let half = n div 2; mid = base + half
          in search_base xs k (if k < xs ! mid then base else mid) (n - half))"
  by pat_completeness auto

termination
  by (relation "measure (\<lambda>(_, _, _, n). n)") auto

declare search_base.simps [simp del]

definition binary_search :: "'a::linorder list \<Rightarrow> 'a \<Rightarrow> bool" where
  "binary_search xs k \<longleftrightarrow> xs \<noteq> [] \<and> xs ! search_base xs k 0 (length xs) = k"

lemma search_base_sorted:
  assumes "sorted xs" and "0 < n" and "base + n \<le> length xs"
    and "base = 0 \<or> xs ! base \<le> k" and "\<forall>i < length xs. base + n \<le> i \<longrightarrow> k < xs ! i"
  shows "search_base xs k base n < length xs
    \<and> (k \<in> set xs \<longrightarrow> xs ! search_base xs k base n = k)"
  using assms
proof (induction xs k base n rule: search_base.induct)
  case (1 xs k base n)
  show ?case
  proof (cases "n \<le> 1")
    case True
    have "xs ! base = k" if k: "k \<in> set xs"
    proof -
      obtain j where j: "j < length xs" "xs ! j = k" using k by (auto simp: in_set_conv_nth)
      then have "j \<le> base" using "1.prems"(5) True
        by (metis Suc_eq_plus1 less_irrefl add_le_cancel_left le_trans not_less_eq_eq)
      moreover have "base < length xs" using "1.prems" by linarith
      ultimately have "xs ! j \<le> xs ! base"
        using "1.prems"(1) by (intro sorted_nth_mono) auto
      then show ?thesis using "1.prems"(4) j \<open>j \<le> base\<close> by auto
    qed
    moreover have "base < length xs" using "1.prems"(2,3) by linarith
    ultimately show ?thesis
      using True by (simp add: search_base.simps [of xs k base n])
  next
    case False
    let ?half = "n div 2"
    let ?mid = "base + ?half"
    have step: "search_base xs k base n =
        search_base xs k (if k < xs ! ?mid then base else ?mid) (n - ?half)"
      using False by (simp add: search_base.simps [of xs k base n] Let_def)
    have half: "0 < ?half" "0 < n - ?half" "?half \<le> n - ?half" "?mid < length xs"
      using False "1.prems"(3) by linarith+
    have upper: "k < xs ! i" if "k < xs ! ?mid" "i < length xs" "?mid \<le> i" for i
      using that "1.prems"(1) sorted_nth_mono [of xs ?mid i] by auto
    show ?thesis
      unfolding step
    proof (rule "1.IH" [OF False refl refl "1.prems"(1) half(2)])
      show "(if k < xs ! ?mid then base else ?mid) + (n - ?half) \<le> length xs"
        using "1.prems"(3) half by auto
      show "(if k < xs ! ?mid then base else ?mid) = 0 \<or>
          xs ! (if k < xs ! ?mid then base else ?mid) \<le> k"
        using "1.prems"(4) by auto
      show "\<forall>i < length xs. (if k < xs ! ?mid then base else ?mid) + (n - ?half) \<le> i
          \<longrightarrow> k < xs ! i"
        using "1.prems"(5) half(3) upper by auto
    qed
  qed
qed

lemma binary_search_sorted:
  assumes "sorted xs" shows "binary_search xs k \<longleftrightarrow> k \<in> set xs"
proof (cases xs)
  case Nil
  then show ?thesis by (simp add: binary_search_def)
next
  case (Cons x ys)
  then have "search_base xs k 0 (length xs) < length xs
      \<and> (k \<in> set xs \<longrightarrow> xs ! search_base xs k 0 (length xs) = k)"
    using assms by (intro search_base_sorted) auto
  then show ?thesis
    using Cons by (metis binary_search_def list.distinct(1) nth_mem)
qed

section \<open>The evaluator\<close>

record guard_evaluation_context =
  gec_approval_request_id :: approval_request_id
  gec_requested_at :: timestamp

primrec minimum_risk_tier :: "side_effect_class \<Rightarrow> risk_tier" where
  "minimum_risk_tier ReadOnly = R0"
| "minimum_risk_tier ReversibleLocalWrite = R1"
| "minimum_risk_tier RepositoryWrite = R2"
| "minimum_risk_tier NetworkAction = R2"
| "minimum_risk_tier Publication = R2"
| "minimum_risk_tier ExternalSideEffect = R2"
| "minimum_risk_tier Destructive = R3"
| "minimum_risk_tier SecretBearing = R3"
| "minimum_risk_tier Irreversible = R3"
| "minimum_risk_tier Privileged = R3"

definition is_subset :: "string list \<Rightarrow> string list \<Rightarrow> bool" where
  "is_subset requested permitted = list_all (binary_search permitted) requested"

definition reason_if :: "bool \<Rightarrow> guard_deny_reason \<Rightarrow> guard_deny_reason set \<Rightarrow> guard_deny_reason set" where
  "reason_if b r reasons = (if b then insert r reasons else reasons)"

definition validate_keys :: "string list \<Rightarrow> guard_deny_reason set \<Rightarrow> guard_deny_reason set" where
  "validate_keys keys reasons =
    (reason_if (descends keys) InvalidKey
    (reason_if (length (ordered_set keys) \<noteq> length keys) DuplicateKey
    (reason_if (list_ex is_blank keys) BlankKey reasons)))"

definition validate_request :: "guard_request \<Rightarrow> guard_deny_reason set" where
  "validate_request request =
    (let profile = gr_permission_profile request;
         reasons = reason_if (is_blank (gr_id request)) BlankGuardRequestId {};
         reasons = reason_if (gr_contract_version request \<noteq> current_version
             \<or> pp_contract_version profile \<noteq> current_version) UnsupportedContractVersion reasons;
         reasons = reason_if (is_blank (gr_operation_label request)) BlankOperationLabel reasons;
         reasons = validate_keys (gr_resource_keys request) reasons;
         reasons = validate_keys (gr_write_keys request) reasons;
         reasons = validate_keys (pp_resource_keys profile) reasons;
         reasons = validate_keys (pp_write_keys profile) reasons;
         reasons = reason_if (\<not> is_subset (gr_resource_keys request) (pp_resource_keys profile))
           MissingResourcePermission reasons;
         reasons = reason_if (\<not> is_subset (gr_write_keys request) (pp_write_keys profile))
           MissingWritePermission reasons
     in reason_if (gr_side_effect request = ReadOnly \<and> gr_write_keys request \<noteq> [])
          MissingWritePermission reasons)"

definition deny_missing_declaration :: guard_outcome where
  "deny_missing_declaration = GuardDeny {MissingRequiredDeclaration}"

definition evaluate_r2 :: "guard_request \<Rightarrow> guard_evaluation_context \<Rightarrow> guard_outcome" where
  "evaluate_r2 request context =
    (let profile = gr_permission_profile request;
         conditional_audit =
           gr_side_effect request \<in> {NetworkAction, Publication, ExternalSideEffect}
     in if \<not> pp_approval_required profile \<or> \<not> pp_review_required profile
           \<or> (conditional_audit \<and> \<not> pp_audit_required profile)
        then deny_missing_declaration
        else PauseForApproval
          \<lparr>ar_contract_version = current_version, ar_id = gec_approval_request_id context,
           ar_guard_request = request, ar_requested_at = gec_requested_at context\<rparr>
          ({OwnerApprovalGate, ReviewerGate}
             \<union> (if pp_audit_required profile then {AuditorGate} else {})))"

definition guard_reasons ::
    "guard_request \<Rightarrow> guard_evaluation_context \<Rightarrow> guard_deny_reason set" where
  "guard_reasons request context =
    (let minimum_tier = minimum_risk_tier (gr_side_effect request);
         tier = pp_risk_tier (gr_permission_profile request)
     in reason_if (minimum_tier = R3 \<or> tier = R3) R3DenyByDefault
       (reason_if (tier < minimum_tier) RiskTierMismatch
       (reason_if (is_blank (gec_approval_request_id context)) BlankApprovalRequestId
       (validate_request request))))"

definition evaluate_guard_request ::
    "guard_request \<Rightarrow> guard_evaluation_context \<Rightarrow> guard_outcome" where
  "evaluate_guard_request request context =
    (let reasons = guard_reasons request context; profile = gr_permission_profile request
     in if reasons \<noteq> {} then GuardDeny reasons
        else case pp_risk_tier profile of
          R0 \<Rightarrow> GuardAllow {}
        | R1 \<Rightarrow> if \<not> pp_review_required profile then deny_missing_declaration
               else GuardAllow {ReviewerGate}
        | R2 \<Rightarrow> evaluate_r2 request context
        | R3 \<Rightarrow> GuardDeny {R3DenyByDefault})"

section \<open>What the evaluator permits\<close>

text \<open>Key lists that raise no reason: strictly increasing, no blank key.\<close>

definition keys_ok :: "string list \<Rightarrow> bool" where
  "keys_ok keys \<longleftrightarrow> sorted_wrt (<) keys \<and> (\<forall>k \<in> set keys. \<not> is_blank k)"

definition request_ok :: "guard_request \<Rightarrow> guard_evaluation_context \<Rightarrow> bool" where
  "request_ok request context \<longleftrightarrow>
    (let profile = gr_permission_profile request in
      \<not> is_blank (gr_id request) \<and> \<not> is_blank (gr_operation_label request)
    \<and> \<not> is_blank (gec_approval_request_id context)
    \<and> gr_contract_version request = 1 \<and> pp_contract_version profile = 1
    \<and> keys_ok (gr_resource_keys request) \<and> keys_ok (gr_write_keys request)
    \<and> keys_ok (pp_resource_keys profile) \<and> keys_ok (pp_write_keys profile)
    \<and> set (gr_resource_keys request) \<subseteq> set (pp_resource_keys profile)
    \<and> set (gr_write_keys request) \<subseteq> set (pp_write_keys profile)
    \<and> (gr_side_effect request = ReadOnly \<longrightarrow> gr_write_keys request = [])
    \<and> minimum_risk_tier (gr_side_effect request) \<le> pp_risk_tier profile
    \<and> minimum_risk_tier (gr_side_effect request) \<noteq> R3 \<and> pp_risk_tier profile \<noteq> R3)"

lemma reason_if_empty_iff [simp]: "reason_if b r reasons = {} \<longleftrightarrow> \<not> b \<and> reasons = {}"
  by (simp add: reason_if_def)

lemma validate_keys_empty_iff [simp]:
  "validate_keys keys reasons = {} \<longleftrightarrow> keys_ok keys \<and> reasons = {}"
  by (auto simp: validate_keys_def keys_ok_def descends_iff length_ordered_set_iff
      list_ex_iff strict_sorted_iff)

lemma keys_ok_is_subset: "keys_ok permitted \<Longrightarrow> is_subset requested permitted \<longleftrightarrow> set requested \<subseteq> set permitted"
  by (auto simp: is_subset_def keys_ok_def binary_search_sorted list_all_iff strict_sorted_iff)

lemma guard_reasons_empty_iff: "guard_reasons request context = {} \<longleftrightarrow> request_ok request context"
  by (auto simp: guard_reasons_def validate_request_def request_ok_def Let_def keys_ok_is_subset
      not_less)

lemma evaluate_r2_cases:
  "evaluate_r2 request context =
    (if pp_approval_required (gr_permission_profile request)
        \<and> pp_review_required (gr_permission_profile request)
        \<and> (gr_side_effect request \<in> {NetworkAction, Publication, ExternalSideEffect}
             \<longrightarrow> pp_audit_required (gr_permission_profile request))
     then PauseForApproval
       \<lparr>ar_contract_version = 1, ar_id = gec_approval_request_id context,
        ar_guard_request = request, ar_requested_at = gec_requested_at context\<rparr>
       ({OwnerApprovalGate, ReviewerGate}
         \<union> (if pp_audit_required (gr_permission_profile request) then {AuditorGate} else {}))
     else GuardDeny {MissingRequiredDeclaration})"
  by (auto simp: evaluate_r2_def deny_missing_declaration_def Let_def)

lemma evaluate_allow_iff:
  "evaluate_guard_request request context = GuardAllow gates \<longleftrightarrow>
     request_ok request context
   \<and> (pp_risk_tier (gr_permission_profile request) = R0 \<and> gates = {}
      \<or> pp_risk_tier (gr_permission_profile request) = R1
        \<and> pp_review_required (gr_permission_profile request) \<and> gates = {ReviewerGate})"
  by (auto simp: evaluate_guard_request_def Let_def guard_reasons_empty_iff evaluate_r2_cases
      deny_missing_declaration_def split: risk_tier.splits)

text \<open>
  Immediate permission: a request is allowed without an owner's approval exactly
  when it raises no objection, that is labels and versions are valid, its sorted keys are
  among the profile's, its side effect is within the tier, and the tier is R0, or R1
  with review declared. The gates returned are none for R0 and the reviewer for R1.
\<close>

theorem guard_allow_iff:
  "evaluate_guard_request request context = GuardAllow gates \<longleftrightarrow>
     request_ok request context
   \<and> (pp_risk_tier (gr_permission_profile request) = R0 \<and> gates = {}
      \<or> pp_risk_tier (gr_permission_profile request) = R1
        \<and> pp_review_required (gr_permission_profile request) \<and> gates = {ReviewerGate})"
  by (rule evaluate_allow_iff)

lemma evaluate_pause_iff:
  "evaluate_guard_request request context = PauseForApproval approval gates \<longleftrightarrow>
     request_ok request context \<and> pp_risk_tier (gr_permission_profile request) = R2
   \<and> evaluate_r2 request context = PauseForApproval approval gates"
  by (auto simp: evaluate_guard_request_def Let_def guard_reasons_empty_iff
      deny_missing_declaration_def split: risk_tier.splits)

text \<open>
  C3 (risky effects are never immediate): whatever the profile declares, a repository
  write, network action, publication or external effect is denied or paused for the
  owner with the owner and reviewer gates, and network, publication and external
  effects also with the auditor gate; a destructive, secret-bearing, irreversible or
  privileged effect, and every R3 profile, is denied with the R3 reason. Every denial
  names a reason.
\<close>

theorem guard_risky_effects:
  "(case evaluate_guard_request request context of
      GuardAllow gates \<Rightarrow>
        gr_side_effect request \<in> {ReadOnly, ReversibleLocalWrite}
      \<and> (gr_side_effect request = ReadOnly \<or> ReviewerGate \<in> gates)
    | PauseForApproval approval gates \<Rightarrow>
        minimum_risk_tier (gr_side_effect request) \<le> R2
      \<and> {OwnerApprovalGate, ReviewerGate} \<subseteq> gates
      \<and> (gr_side_effect request \<in> {NetworkAction, Publication, ExternalSideEffect}
           \<longrightarrow> AuditorGate \<in> gates)
      \<and> ar_guard_request approval = request \<and> ar_id approval = gec_approval_request_id context
    | GuardDeny reasons \<Rightarrow> reasons \<noteq> {}
      \<and> (minimum_risk_tier (gr_side_effect request) = R3
         \<or> pp_risk_tier (gr_permission_profile request) = R3 \<longrightarrow> R3DenyByDefault \<in> reasons))"
proof (cases "evaluate_guard_request request context")
  case (GuardAllow gates)
  then have "request_ok request context"
    "pp_risk_tier (gr_permission_profile request) = R0
     \<or> pp_risk_tier (gr_permission_profile request) = R1 \<and> gates = {ReviewerGate}"
    by (auto simp: evaluate_allow_iff)
  then show ?thesis
    using GuardAllow
    by (cases "gr_side_effect request")
      (auto simp: request_ok_def Let_def less_eq_risk_tier_def)
next
  case (PauseForApproval approval gates)
  then have "minimum_risk_tier (gr_side_effect request) \<noteq> R3"
    and "evaluate_r2 request context = PauseForApproval approval gates"
    by (simp_all add: evaluate_pause_iff request_ok_def Let_def)
  then show ?thesis
    unfolding PauseForApproval
    by (cases "gr_side_effect request")
      (auto simp: evaluate_r2_cases less_eq_risk_tier_def split: if_splits)
next
  case (GuardDeny reasons)
  then show ?thesis
    by (auto simp: evaluate_guard_request_def guard_reasons_def reason_if_def Let_def
        evaluate_r2_cases deny_missing_declaration_def split: if_splits risk_tier.splits)
qed

section \<open>Concrete requests\<close>

definition sample_guard_request :: "side_effect_class \<Rightarrow> risk_tier \<Rightarrow> guard_request" where
  "sample_guard_request effect tier =
    \<lparr>gr_contract_version = 1, gr_id = ''g1'', gr_surface = Tool, gr_side_effect = effect,
     gr_operation_label = ''op'', gr_resource_keys = [''a'', ''b''], gr_write_keys = [''b''],
     gr_permission_profile = \<lparr>pp_contract_version = 1, pp_risk_tier = tier,
       pp_resource_keys = [''a'', ''b'', ''c''], pp_write_keys = [''b''],
       pp_approval_required = True, pp_review_required = True, pp_audit_required = True\<rparr>\<rparr>"

definition sample_guard_context :: guard_evaluation_context where
  "sample_guard_context = \<lparr>gec_approval_request_id = ''ap1'', gec_requested_at = 7\<rparr>"

lemma sample_guard_outcomes:
  "evaluate_guard_request (sample_guard_request ReversibleLocalWrite R1) sample_guard_context
     = GuardAllow {ReviewerGate}"
  "evaluate_guard_request (sample_guard_request NetworkAction R2) sample_guard_context
     = PauseForApproval
         \<lparr>ar_contract_version = 1, ar_id = ''ap1'',
          ar_guard_request = sample_guard_request NetworkAction R2, ar_requested_at = 7\<rparr>
         {OwnerApprovalGate, ReviewerGate, AuditorGate}"
  "evaluate_guard_request (sample_guard_request Destructive R3) sample_guard_context
     = GuardDeny {R3DenyByDefault}"
  by code_simp+

theorem guard_risky_effects_witness:
  "(\<exists>reasons. evaluate_guard_request (sample_guard_request Privileged R2) sample_guard_context
      = GuardDeny reasons \<and> R3DenyByDefault \<in> reasons)"
proof -
  have "evaluate_guard_request (sample_guard_request Privileged R2) sample_guard_context
      = GuardDeny {R3DenyByDefault, RiskTierMismatch}"
    by code_simp
  then show ?thesis
    using guard_risky_effects [of "sample_guard_request Privileged R2" sample_guard_context]
    by (simp add: sample_guard_request_def)
qed

end
