(* ===== verification/Verification_Digest.thy ===== *)
theory Verification_Digest
  imports Prelude
begin

text \<open>
  The SHA-256 of \<open>ovca-types/src/goal_runtime/local_verification.rs\<close>, written out in the
  contract layer so that it stays free of dependencies: padding, the message schedule
  filled in place, the 64 rounds and the lowercase hexadecimal digest. The reference section
  states the schedule and the padding as the standard gives them, and the lemmas show that
  the loops of the source compute them.
\<close>

unbundle bit_operations_syntax

type_synonym byte = "8 word"

section \<open>The code\<close>

text \<open>The constants, four to a row.\<close>

definition initial_hash :: "u32 list" where
  "initial_hash = concat
    [[0x6a09e667, 0xbb67ae85, 0x3c6ef372, 0xa54ff53a],
     [0x510e527f, 0x9b05688c, 0x1f83d9ab, 0x5be0cd19]]"

definition round_constants :: "u32 list" where
  "round_constants = concat
    [[0x428a2f98, 0x71374491, 0xb5c0fbcf, 0xe9b5dba5],
     [0x3956c25b, 0x59f111f1, 0x923f82a4, 0xab1c5ed5],
     [0xd807aa98, 0x12835b01, 0x243185be, 0x550c7dc3],
     [0x72be5d74, 0x80deb1fe, 0x9bdc06a7, 0xc19bf174],
     [0xe49b69c1, 0xefbe4786, 0x0fc19dc6, 0x240ca1cc],
     [0x2de92c6f, 0x4a7484aa, 0x5cb0a9dc, 0x76f988da],
     [0x983e5152, 0xa831c66d, 0xb00327c8, 0xbf597fc7],
     [0xc6e00bf3, 0xd5a79147, 0x06ca6351, 0x14292967],
     [0x27b70a85, 0x2e1b2138, 0x4d2c6dfc, 0x53380d13],
     [0x650a7354, 0x766a0abb, 0x81c2c92e, 0x92722c85],
     [0xa2bfe8a1, 0xa81a664b, 0xc24b8b70, 0xc76c51a3],
     [0xd192e819, 0xd6990624, 0xf40e3585, 0x106aa070],
     [0x19a4c116, 0x1e376c08, 0x2748774c, 0x34b0bcb5],
     [0x391c0cb3, 0x4ed8aa4a, 0x5b9cca4f, 0x682e6ff3],
     [0x748f82ee, 0x78a5636f, 0x84c87814, 0x8cc70208],
     [0x90befffa, 0xa4506ceb, 0xbef9a3f7, 0xc67178f2]]"

text \<open>\<open>u64::to_be_bytes\<close> and \<open>u32::from_be_bytes\<close>.\<close>

definition be_bytes :: "u64 \<Rightarrow> byte list" where
  "be_bytes w = map (\<lambda>i. ucast (drop_bit (8 * (7 - i)) w)) [0..<8]"

definition from_be_bytes :: "byte list \<Rightarrow> u32" where
  "from_be_bytes bs = fold (\<lambda>b w. push_bit 8 w OR ucast b) bs 0"

definition missing_zeros :: "byte list \<Rightarrow> nat" where
  "missing_zeros padded = (120 - length padded mod 64) mod 64"

lemma missing_zeros_step:
  assumes "length padded mod 64 \<noteq> 56"
  shows "missing_zeros padded = Suc (missing_zeros (padded @ [0]))"
proof -
  define r where "r = length padded mod 64"
  have len: "length (padded @ [0]) mod 64 = (if r = 63 then 0 else Suc r)"
    by (simp add: r_def mod_Suc)
  consider "r < 56" | "56 < r" "r < 63" | "r = 63"
    using assms mod_less_divisor [of 64 "length padded"] unfolding r_def by linarith
  then show ?thesis
  proof cases
    case 1
    have "(64 + k) mod 64 = k" if "k < 64" for k :: nat using that by simp
    from this [of "56 - r"] this [of "55 - r"] 1
    have "(120 - r) mod 64 = 56 - r" "(120 - Suc r) mod 64 = 55 - r"
      by simp_all
    with 1 show ?thesis
      unfolding missing_zeros_def len r_def [symmetric] by simp
  qed (unfold missing_zeros_def len r_def [symmetric], simp_all)
qed

text \<open>\<open>while padded.len() % 64 != 56 { padded.push(0) }\<close>.\<close>

function pad_zeros :: "byte list \<Rightarrow> byte list" where
  "pad_zeros padded = (if length padded mod 64 \<noteq> 56 then pad_zeros (padded @ [0]) else padded)"
  by pat_completeness auto

termination
  by (relation "measure missing_zeros") (simp_all add: missing_zeros_step)

declare pad_zeros.simps [simp del]

definition padded_message :: "byte list \<Rightarrow> byte list" where
  "padded_message input =
    pad_zeros (input @ [0x80]) @ be_bytes (of_nat (length input) * 8)"

fun chunks_exact :: "nat \<Rightarrow> 'a list \<Rightarrow> 'a list list" where
  "chunks_exact n xs =
    (if n = 0 \<or> length xs < n then [] else take n xs # chunks_exact n (drop n xs))"

declare chunks_exact.simps [simp del]

definition small_sigma0 :: "u32 \<Rightarrow> u32" where
  "small_sigma0 x = (word_rotr 7 x XOR word_rotr 18 x) XOR drop_bit 3 x"

definition small_sigma1 :: "u32 \<Rightarrow> u32" where
  "small_sigma1 x = (word_rotr 17 x XOR word_rotr 19 x) XOR drop_bit 10 x"

text \<open>The array of 64 words: the block, then the loop over the indices from 16.\<close>

definition load_block :: "byte list \<Rightarrow> u32 list" where
  "load_block block =
    fold (\<lambda>(index, chunk) schedule. schedule[index := from_be_bytes chunk])
      (enumerate 0 (chunks_exact 4 block)) (replicate 64 0)"

definition extend_schedule :: "nat \<Rightarrow> u32 list \<Rightarrow> u32 list" where
  "extend_schedule index schedule =
    schedule[index := schedule ! (index - 16) + small_sigma0 (schedule ! (index - 15))
       + schedule ! (index - 7) + small_sigma1 (schedule ! (index - 2))]"

definition message_schedule :: "byte list \<Rightarrow> u32 list" where
  "message_schedule block = fold extend_schedule [16..<64] (load_block block)"

type_synonym sha_state = "u32 \<times> u32 \<times> u32 \<times> u32 \<times> u32 \<times> u32 \<times> u32 \<times> u32"

fun sha_round :: "u32 list \<Rightarrow> nat \<Rightarrow> sha_state \<Rightarrow> sha_state" where
  "sha_round schedule index (a, b, c, d, e, f, g, h) =
    (let s1 = (word_rotr 6 e XOR word_rotr 11 e) XOR word_rotr 25 e;
         choice = (e AND f) XOR (NOT e AND g);
         temp1 = h + s1 + choice + round_constants ! index + schedule ! index;
         s0 = (word_rotr 2 a XOR word_rotr 13 a) XOR word_rotr 22 a;
         majority = ((a AND b) XOR (a AND c)) XOR (b AND c);
         temp2 = s0 + majority
     in (temp1 + temp2, a, b, c, d + temp1, e, f, g))"

fun state_words :: "sha_state \<Rightarrow> u32 list" where
  "state_words (a, b, c, d, e, f, g, h) = [a, b, c, d, e, f, g, h]"

fun state_of :: "u32 list \<Rightarrow> sha_state" where
  "state_of [a, b, c, d, e, f, g, h] = (a, b, c, d, e, f, g, h)"
| "state_of _ = (0, 0, 0, 0, 0, 0, 0, 0)"

definition process_block :: "byte list \<Rightarrow> u32 list \<Rightarrow> u32 list" where
  "process_block block hash =
    map2 (+) hash
      (state_words (fold (sha_round (message_schedule block)) [0..<64] (state_of hash)))"

definition hex_digit :: "nat \<Rightarrow> char" where
  "hex_digit n = (if n < 10 then char_of (48 + n) else char_of (87 + n))"

text \<open>\<open>format!("{word:08x}")\<close>: the eight nibbles, the highest first.\<close>

definition hex_word :: "u32 \<Rightarrow> string" where
  "hex_word w = map (\<lambda>i. hex_digit (unat (drop_bit (4 * (7 - i)) w AND 15))) [0..<8]"

definition verification_sha256_hex :: "byte list \<Rightarrow> string" where
  "verification_sha256_hex input =
    concat (map hex_word (fold process_block (chunks_exact 64 (padded_message input)) initial_hash))"


lemma nth_be_bytes: "i < 8 \<Longrightarrow> be_bytes w ! i = ucast (drop_bit (8 * (7 - i)) w)"
  by (simp add: be_bytes_def)

lemma length_be_bytes [simp]: "length (be_bytes w) = 8"
  by (simp add: be_bytes_def)

lemma be_bytes_inject: "be_bytes v = be_bytes w \<longleftrightarrow> v = w"
proof
  assume same: "be_bytes v = be_bytes w"
  show "v = w"
  proof (rule bit_word_eqI)
    fix n assume "n < LENGTH(64)"
    then have n: "n < 64" by simp
    define i where "i = 7 - n div 8"
    have i: "i < 8" "8 * (7 - i) + n mod 8 = n"
      using n by (simp_all add: i_def) 
    have "bit (be_bytes u ! i) (n mod 8) = bit u n" for u :: u64
      using i n by (simp add: nth_be_bytes bit_simps)
    from this [of v] this [of w] same show "bit v n = bit w n" by simp
  qed
qed simp

text \<open>What the padding loop adds: as many zeros as are missing, none otherwise.\<close>

lemma pad_zeros_eq: "pad_zeros padded = padded @ replicate (missing_zeros padded) 0"
proof (induction padded rule: pad_zeros.induct)
  case (1 padded)
  show ?case
  proof (cases "length padded mod 64 = 56")
    case True
    then show ?thesis by (simp add: pad_zeros.simps missing_zeros_def)
  next
    case False
    then show ?thesis
      using 1 missing_zeros_step [OF False] by (simp add: pad_zeros.simps [of padded])
  qed
qed

lemma pad_zeros_length: "length (pad_zeros padded) mod 64 = 56"
  by (induction padded rule: pad_zeros.induct) (metis pad_zeros.simps)

lemma padded_message_eq:
  "padded_message input =
     input @ 0x80 # replicate (missing_zeros (input @ [0x80])) 0
       @ be_bytes (of_nat (length input) * 8)"
  by (simp add: padded_message_def pad_zeros_eq)

lemma padded_message_length: "length (padded_message input) mod 64 = 0"
proof -
  let ?n = "length (pad_zeros (input @ [0x80]))"
  have "(?n + 8) mod 64 = (?n mod 64 + 8) mod 64" by (simp add: mod_add_left_eq)
  then show ?thesis by (simp add: padded_message_def pad_zeros_length)
qed

lemma length_chunks_exact: "length (chunks_exact n xs) = length xs div n"
proof (induction n xs rule: chunks_exact.induct)
  case (1 n xs)
  show ?case
  proof (cases "n = 0 \<or> length xs < n")
    case True
    then show ?thesis by (auto simp: chunks_exact.simps)
  next
    case False
    then have "length xs div n = Suc ((length xs - n) div n)"
      by (simp add: le_div_geq)
    with 1 False show ?thesis by (simp add: chunks_exact.simps [of n xs])
  qed
qed

lemma chunks_exact_lengths: "c \<in> set (chunks_exact n xs) \<Longrightarrow> length c = n"
proof (induction n xs rule: chunks_exact.induct)
  case (1 n xs)
  then show ?case by (subst (asm) (2) chunks_exact.simps) (auto split: if_splits)
qed

lemma chunks_exact_concat: "length xs mod n = 0 \<Longrightarrow> concat (chunks_exact n xs) = xs"
proof (induction n xs rule: chunks_exact.induct)
  case (1 n xs)
  show ?case
  proof (cases "n = 0 \<or> length xs < n")
    case True
    then show ?thesis using "1.prems" by (auto simp: chunks_exact.simps)
  next
    case False
    then have "(length xs - n) mod n = 0" using "1.prems" by (simp add: le_mod_geq)
    with 1 False show ?thesis by (simp add: chunks_exact.simps [of n xs])
  qed
qed

lemma fold_update_enumerate:
  "k + length xs \<le> length s \<Longrightarrow>
   fold (\<lambda>(i, x) s. s[i := g x]) (enumerate k xs) s = take k s @ map g xs @ drop (k + length xs) s"
proof (induction xs arbitrary: k s)
  case Nil
  then show ?case by simp
next
  case (Cons x xs)
  from Cons.prems have "k < length s" by simp
  then show ?case
    using Cons.IH [of "Suc k" "s[k := g x]"] Cons.prems
    by (simp add: take_Suc_conv_app_nth)
qed

section \<open>The reference\<close>

text \<open>The schedule of the standard: word \<open>t\<close> of a block of 16 words.\<close>

fun schedule_word :: "u32 list \<Rightarrow> nat \<Rightarrow> u32" where
  "schedule_word M t =
    (if t < 16 then M ! t
     else small_sigma1 (schedule_word M (t - 2)) + schedule_word M (t - 7)
       + small_sigma0 (schedule_word M (t - 15)) + schedule_word M (t - 16))"

declare schedule_word.simps [simp del]

definition block_words :: "byte list \<Rightarrow> u32 list" where
  "block_words block = map from_be_bytes (chunks_exact 4 block)"

lemma load_block_eq:
  "length block = 64 \<Longrightarrow> load_block block = block_words block @ replicate 48 0"
  by (simp add: load_block_def fold_update_enumerate length_chunks_exact block_words_def)

lemma extend_schedule_words:
  assumes "length s = 64" and "\<And>t. t < 16 \<Longrightarrow> s ! t = M ! t" and "n \<le> 48"
  shows "length (fold extend_schedule [16..<16 + n] s) = 64
    \<and> (\<forall>t < 16 + n. fold extend_schedule [16..<16 + n] s ! t = schedule_word M t)"
  using assms(3)
proof (induction n)
  case 0
  then show ?case using assms(1,2) by (simp add: schedule_word.simps)
next
  case (Suc n)
  define s' where "s' = fold extend_schedule [16..<16 + n] s"
  have IH: "length s' = 64" "\<And>t. t < 16 + n \<Longrightarrow> s' ! t = schedule_word M t"
    using Suc unfolding s'_def by simp_all
  have step: "fold extend_schedule [16..<16 + Suc n] s = extend_schedule (16 + n) s'"
    by (simp only: s'_def add_Suc_right upt_Suc_append [OF le_add1] fold_append) simp
  have "extend_schedule (16 + n) s' ! t = schedule_word M t" if "t < 16 + Suc n" for t
  proof (cases "t = 16 + n")
    case True
    then show ?thesis
      using Suc.prems IH by (simp add: extend_schedule_def schedule_word.simps [of M "16 + n"])
  next
    case False
    then show ?thesis using that IH by (simp add: extend_schedule_def)
  qed
  moreover have "length (extend_schedule (16 + n) s') = 64"
    using IH by (simp add: extend_schedule_def)
  ultimately show ?case unfolding step by blast
qed

lemma message_schedule_eq:
  assumes "length block = 64"
  shows "message_schedule block = map (schedule_word (block_words block)) [0..<64]"
proof -
  have len: "length (block_words block) = 16"
    by (simp add: block_words_def length_chunks_exact assms)
  have "length (message_schedule block) = 64
    \<and> (\<forall>t < 16 + 48. message_schedule block ! t = schedule_word (block_words block) t)"
    unfolding message_schedule_def load_block_eq [OF assms]
    using extend_schedule_words [of "block_words block @ replicate 48 0" "block_words block" 48] len
    by (simp add: nth_append)
  then show ?thesis by (intro nth_equalityI) simp_all
qed

text \<open>One step of the compression function, with the functions of the standard.\<close>

definition Ch :: "u32 \<Rightarrow> u32 \<Rightarrow> u32 \<Rightarrow> u32" where
  "Ch x y z = (x AND y) XOR (NOT x AND z)"

definition Maj :: "u32 \<Rightarrow> u32 \<Rightarrow> u32 \<Rightarrow> u32" where
  "Maj x y z = ((x AND y) XOR (x AND z)) XOR (y AND z)"

definition big_sigma0 :: "u32 \<Rightarrow> u32" where
  "big_sigma0 x = (word_rotr 2 x XOR word_rotr 13 x) XOR word_rotr 22 x"

definition big_sigma1 :: "u32 \<Rightarrow> u32" where
  "big_sigma1 x = (word_rotr 6 x XOR word_rotr 11 x) XOR word_rotr 25 x"

fun sha_step :: "u32 \<times> u32 \<Rightarrow> sha_state \<Rightarrow> sha_state" where
  "sha_step (k, w) (a, b, c, d, e, f, g, h) =
    (let t1 = h + big_sigma1 e + Ch e f g + k + w; t2 = big_sigma0 a + Maj a b c
     in (t1 + t2, a, b, c, d + t1, e, f, g))"

definition reference_block :: "u32 list \<Rightarrow> u32 list \<Rightarrow> u32 list" where
  "reference_block M hash =
    map2 (+) hash
      (state_words (fold sha_step (zip round_constants (map (schedule_word M) [0..<64])) (state_of hash)))"

definition reference_padding :: "byte list \<Rightarrow> byte list" where
  "reference_padding input =
    input @ 0x80 # replicate ((119 - length input mod 64) mod 64) 0
      @ be_bytes (of_nat (length input) * 8)"

lemma padded_message_reference: "padded_message input = reference_padding input"
proof -
  have "missing_zeros (input @ [0x80]) = (119 - length input mod 64) mod 64"
    using mod_less_divisor [of 64 "length input"]
    by (cases "length input mod 64 = 63") (simp_all add: missing_zeros_def mod_Suc)
  then show ?thesis by (simp add: padded_message_eq reference_padding_def)
qed

lemma sha_round_step:
  "sha_round schedule i st = sha_step (round_constants ! i, schedule ! i) st"
  by (cases st rule: state_words.cases) (simp add: Let_def Ch_def Maj_def big_sigma0_def big_sigma1_def)

lemma length_round_constants: "length round_constants = 64"
  by (simp add: round_constants_def)

lemma process_block_reference:
  assumes "length block = 64"
  shows "process_block block = reference_block (block_words block)"
proof
  fix hash
  let ?W = "map (schedule_word (block_words block)) [0..<64]"
  have "zip round_constants ?W = map (\<lambda>i. (round_constants ! i, ?W ! i)) [0..<64]"
    by (intro nth_equalityI) (simp_all add: length_round_constants)
  moreover have "sha_round schedule = (\<lambda>i. sha_step (round_constants ! i, schedule ! i))" for schedule
    by (intro ext) (rule sha_round_step)
  ultimately show "process_block block hash = reference_block (block_words block) hash"
    by (simp add: process_block_def reference_block_def message_schedule_eq [OF assms] fold_map
        comp_def)
qed

text \<open>
  C28 (sha256 reference). Digest loops against the standard. The digest the loops of the source compute, with their
  padding loop, their schedule filled in place and their rotating state, is the one of the
  standard: its padding, its message schedule as a recurrence and its round function in terms
  of choice, majority and the two big sigmas, over the blocks of the padded message.
\<close>

lemma sha256_reference:
  "verification_sha256_hex input =
     concat (map hex_word (fold reference_block
       (map block_words (chunks_exact 64 (reference_padding input))) initial_hash))
   \<and> concat (chunks_exact 64 (reference_padding input)) = reference_padding input"
proof -
  have "fold process_block blocks hash = fold reference_block (map block_words blocks) hash"
    if "\<And>b. b \<in> set blocks \<Longrightarrow> length b = 64" for blocks hash
    using that by (induction blocks arbitrary: hash) (simp_all add: process_block_reference)
  from this [OF chunks_exact_lengths] show ?thesis
    using padded_message_length [of input]
    by (simp add: verification_sha256_hex_def padded_message_reference chunks_exact_concat)
qed

text \<open>Two messages of less than \<open>2^61\<close> bytes with the same padding are equal.\<close>

lemma reference_padding_inject:
  assumes "reference_padding xs = reference_padding ys"
    and "length xs < 2 ^ 61" "length ys < 2 ^ 61"
  shows "xs = ys"
proof -
  have split: "reference_padding zs =
      (zs @ 0x80 # replicate ((119 - length zs mod 64) mod 64) 0) @ be_bytes (of_nat (length zs) * 8)"
    for zs by (simp add: reference_padding_def)
  have eq: "(xs @ 0x80 # replicate ((119 - length xs mod 64) mod 64) 0) = (ys @ 0x80 # replicate ((119 - length ys mod 64) mod 64) 0)
      \<and> be_bytes (of_nat (length xs) * 8) = be_bytes (of_nat (length ys) * 8)"
    using assms(1) unfolding split by (subst (asm) append_eq_append_conv) simp_all
  have bits: "unat (of_nat (length zs) * 8 :: u64) = length zs * 8" if "length zs < 2 ^ 61" for zs :: "byte list"
  proof -
    have "unat (of_nat (length zs * 8) :: u64) = length zs * 8"
      using that by (simp only: unat_of_nat) simp
    then show ?thesis by simp
  qed
  from eq have "(of_nat (length xs) * 8 :: u64) = of_nat (length ys) * 8"
    by (simp only: be_bytes_inject)
  then have "length xs * 8 = length ys * 8"
    using bits [OF assms(2)] bits [OF assms(3)] by (metis (no_types))
  then have "length xs = length ys" by simp
  with eq show ?thesis by (simp add: append_eq_append_conv)
qed

section \<open>The digest as text\<close>

definition hex_digits :: string where "hex_digits = ''0123456789abcdef''"

lemma hex_digit_in: "n < 16 \<Longrightarrow> hex_digit n \<in> set hex_digits"
proof -
  assume "n < 16"
  then have "n \<in> set [0..<16]" by simp
  moreover have "\<forall>n \<in> set [0..<16]. hex_digit n \<in> set hex_digits"
    by code_simp
  ultimately show ?thesis by blast
qed

lemma hex_word_digits: "length (hex_word w) = 8" "set (hex_word w) \<subseteq> set hex_digits"
proof -
  have "unat (v AND 15) < 16" for v :: u32
  proof -
    have "v AND 15 \<le> 15" by (rule word_and_le1)
    then have "unat (v AND 15) \<le> unat (15 :: u32)" by (simp only: word_le_nat_alt)
    then show ?thesis by simp
  qed
  then show "set (hex_word w) \<subseteq> set hex_digits"
    by (auto simp: hex_word_def intro!: hex_digit_in)
qed (simp add: hex_word_def)

lemma length_process_block: "length hash = 8 \<Longrightarrow> length (process_block block hash) = 8"
proof -
  have "length (state_words st) = 8" for st by (cases st rule: state_words.cases) simp
  then show "length hash = 8 \<Longrightarrow> length (process_block block hash) = 8"
    by (simp add: process_block_def)
qed

lemma length_hash: "length hash = 8 \<Longrightarrow> length (fold process_block blocks hash) = 8"
  by (induction blocks arbitrary: hash) (simp_all add: length_process_block)

lemma length_concat_words: "length (concat (map hex_word ws)) = 8 * length ws"
  by (induction ws) (simp_all add: hex_word_digits)

lemma sha256_hex_digits:
  "length (verification_sha256_hex input) = 64"
  "set (verification_sha256_hex input) \<subseteq> set hex_digits"
proof -
  have "length initial_hash = 8" by (simp add: initial_hash_def)
  then show "length (verification_sha256_hex input) = 64"
    by (simp add: verification_sha256_hex_def length_concat_words length_hash)
  show "set (verification_sha256_hex input) \<subseteq> set hex_digits"
    unfolding verification_sha256_hex_def using hex_word_digits(2) by auto
qed

section \<open>A test vector\<close>

text \<open>The vector of the source's own test, the three bytes of "abc", evaluated in two halves.\<close>

definition abc_schedule :: "u32 list" where
  "abc_schedule =
    [1633837952, 0, 0, 0, 0, 0, 0, 0, 0, 0, 0, 0, 0, 0, 0, 24, 1633837952,
     983040, 2108187653, 1610613702, 1050508152, 25426944, 316456923,
     3806512014, 3357629466, 3073800610, 3854317833, 845560923, 2636160359,
     3968280267, 1881225380, 3552024379, 2482346367, 996719219, 2952069057,
     4043988066, 176896406, 1924104970, 2483675966, 610538786, 2672279444,
     4037431130, 1042573945, 657669027, 206005234, 2215296807, 2049510749,
     106709978, 4215179723, 3430291419, 3118885940, 2845390439, 2226839261,
     3256115900, 344409900, 2987358873, 4015503821, 3957764664, 2682456414,
     2025622859, 2755645205, 1720397816, 4004225740, 313650667]"

lemma abc_message_schedule: "message_schedule (padded_message [0x61, 0x62, 0x63]) = abc_schedule"
  unfolding abc_schedule_def by code_simp

lemma abc_first_rounds:
  "fold (sha_round abc_schedule) [0..<32] (state_of initial_hash) =
     (1941126133, 3935906338, 2684750640, 909411017, 3126399250, 17410874, 2917635127, 1628611511)"
  by code_simp

lemma abc_last_rounds:
  "fold (sha_round abc_schedule) [32..<64]
     (1941126133, 3935906338, 2684750640, 909411017, 3126399250, 17410874, 2917635127, 1628611511) =
     (1349398616, 3550093669, 80891244, 3093179625, 1593118500, 4212265488, 2492278198, 2518632596)"
  by code_simp

lemma abc_blocks:
  "chunks_exact 64 (padded_message [0x61, 0x62, 0x63]) = [padded_message [0x61, 0x62, 0x63]]"
  by code_simp

lemma sha256_abc:
  "verification_sha256_hex [0x61, 0x62, 0x63]
     = ''ba7816bf8f01cfea414140de5dae2223b00361a396177a9cb410ff61f20015ad''"
proof -
  have "[0..<64] = [0..<32] @ [32..<64]" by code_simp
  then have "process_block (padded_message [0x61, 0x62, 0x63]) initial_hash =
      map2 (+) initial_hash (state_words
        (1349398616, 3550093669, 80891244, 3093179625, 1593118500, 4212265488, 2492278198, 2518632596))"
    by (simp only: process_block_def abc_message_schedule fold_append comp_apply abc_first_rounds
        abc_last_rounds)
  then show ?thesis
    by (simp only: verification_sha256_hex_def abc_blocks fold.simps comp_apply id_apply) code_simp
qed

end
