(* ===== verification/Verification_Contracts.thy ===== *)
theory Verification_Contracts
  imports Contracts Guardrails Verification_Digest "HOL-Library.Product_Lexorder"
begin

text \<open>
  The contracts of local verification, \<open>ovca-types/src/goal_runtime/local_verification.rs\<close>:
  what a task promises (behaviors), how each promise is checked (capabilities with their
  machine policy and commands) and what a verifier observed (bundles), with every validator.
  An error is the pair of the source, a code and a detail text.
\<close>

section \<open>Errors\<close>

record local_verification_error =
  lve_code :: string
  lve_detail :: string

type_synonym 'a verification_result = "(local_verification_error, 'a) result"

definition invalid :: "string \<Rightarrow> string \<Rightarrow> local_verification_error" where
  "invalid code detail = \<lparr>lve_code = code, lve_detail = detail\<rparr>"

definition display_error :: "local_verification_error \<Rightarrow> string" where
  "display_error e = lve_code e @ '': '' @ lve_detail e"

definition local_verification_contract_version :: contract_version where
  "local_verification_contract_version = 1"

section \<open>Fields\<close>

definition lv_validate_version :: "contract_version \<Rightarrow> string \<Rightarrow> unit verification_result" where
  "lv_validate_version version contract =
    require (version = local_verification_contract_version)
      (invalid ''unsupported_contract_version''
        (contract @ '' expected '' @ show_nat (unat local_verification_contract_version)
          @ '', got '' @ show_nat (unat version)))"

text \<open>Bytes, as \<open>u8::is_ascii_..\<close> and the character ranges of the source see them.\<close>

abbreviation ascii_upper :: "char \<Rightarrow> bool" where
  "ascii_upper c \<equiv> (65 :: nat) \<le> of_char c \<and> of_char c \<le> (90 :: nat)"

abbreviation ascii_lower :: "char \<Rightarrow> bool" where
  "ascii_lower c \<equiv> (97 :: nat) \<le> of_char c \<and> of_char c \<le> (122 :: nat)"

abbreviation ascii_digit :: "char \<Rightarrow> bool" where
  "ascii_digit c \<equiv> (48 :: nat) \<le> of_char c \<and> of_char c \<le> (57 :: nat)"

definition ascii_alphabetic :: "char \<Rightarrow> bool" where
  "ascii_alphabetic c \<longleftrightarrow> ascii_upper c \<or> ascii_lower c"

definition ascii_alphanumeric :: "char \<Rightarrow> bool" where
  "ascii_alphanumeric c \<longleftrightarrow> ascii_alphabetic c \<or> ascii_digit c"

definition control_char :: "char \<Rightarrow> bool" where
  "control_char c \<longleftrightarrow> of_char c \<le> (31 :: nat) \<or> of_char c = (127 :: nat)"

definition to_ascii_lowercase :: "string \<Rightarrow> string" where
  "to_ascii_lowercase s = map (\<lambda>c. if ascii_upper c then char_of ((of_char c :: nat) + 32) else c) s"

definition stable_id_char :: "char \<Rightarrow> bool" where
  "stable_id_char c \<longleftrightarrow> ascii_alphanumeric c \<or> c \<in> set ''-_.:''"

definition validate_stable_id :: "string \<Rightarrow> string \<Rightarrow> unit verification_result" where
  "validate_stable_id value field =
    (if value = [] \<or> \<not> list_all (\<lambda>c. of_char c < (128 :: nat)) value
       \<or> \<not> list_all stable_id_char value
       \<or> (case value of [] \<Rightarrow> True | c # _ \<Rightarrow> \<not> ascii_alphanumeric c)
     then Err (invalid ''invalid_stable_id'' (field @ '' must be a non-blank stable ASCII identifier''))
     else Ok ())"

definition validate_text :: "string \<Rightarrow> string \<Rightarrow> unit verification_result" where
  "validate_text value field =
    (if is_blank value then Err (invalid ''blank_text'' (field @ '' must not be blank''))
     else if char_of (0 :: nat) \<in> set value
     then Err (invalid ''invalid_text'' (field @ '' must not contain NUL''))
     else Ok ())"

text \<open>\<open>windows(2)\<close> with a pair out of strictly increasing order.\<close>

fun strictly_sorted :: "'a::linorder list \<Rightarrow> bool" where
  "strictly_sorted (a # b # rest) = (a < b \<and> strictly_sorted (b # rest))"
| "strictly_sorted _ = True"

definition validate_sorted_unique_ids :: "string list \<Rightarrow> string \<Rightarrow> unit verification_result" where
  "validate_sorted_unique_ids values field =
    and_then (checks (map (\<lambda>v. validate_stable_id v field) values)) (\<lambda>_.
    require (strictly_sorted values)
      (invalid ''noncanonical_or_duplicate_id'' (field @ '' must be strictly sorted and unique'')))"

definition lower_hex_digit :: "char \<Rightarrow> bool" where
  "lower_hex_digit c \<longleftrightarrow> ascii_digit c \<or> (97 :: nat) \<le> of_char c \<and> of_char c \<le> (102 :: nat)"

definition validate_digest :: "string \<Rightarrow> string \<Rightarrow> unit verification_result" where
  "validate_digest value field =
    require (length value = 64 \<and> list_all lower_hex_digit value)
      (invalid ''invalid_sha256_digest'' (field @ '' must be lowercase 64-hex SHA-256''))"

text \<open>\<open>str::split\<close> at one character.\<close>

fun split_on :: "char \<Rightarrow> string \<Rightarrow> string list" where
  "split_on c [] = [[]]"
| "split_on c (x # xs) =
    (if x = c then [] # split_on c xs
     else case split_on c xs of [] \<Rightarrow> [[x]] | s # ss \<Rightarrow> (x # s) # ss)"

definition validate_logical_path :: "string \<Rightarrow> unit verification_result" where
  "validate_logical_path value =
    (if value = [] \<or> list_ex control_char value \<or> take 1 value = ''/'' \<or> take 2 value = ''//''
       \<or> CHR 0x5C \<in> set value \<or> CHR '':'' \<in> set value
     then Err (invalid ''unsafe_logical_path''
       ''path must be relative and cannot contain a drive, URI, UNC, or backslash'')
     else checks (map (\<lambda>segment.
       require (\<not> (segment = [] \<or> segment = ''.'' \<or> segment = ''..''))
         (invalid ''unsafe_logical_path'' ''path contains an empty, dot, or parent segment''))
       (split_on CHR ''/'' value)))"

definition forbidden_shells :: "string list" where
  "forbidden_shells = [''sh'', ''sh.exe'', ''bash'', ''bash.exe'', ''zsh'', ''zsh.exe'', ''cmd'',
     ''cmd.exe'', ''powershell'', ''powershell.exe'', ''pwsh'', ''pwsh.exe'']"

definition is_forbidden_verification_shell :: "string \<Rightarrow> bool" where
  "is_forbidden_verification_shell value \<longleftrightarrow> to_ascii_lowercase value \<in> set forbidden_shells"

definition validate_executable_id :: "string \<Rightarrow> string \<Rightarrow> unit verification_result" where
  "validate_executable_id value field =
    and_then (validate_stable_id value field) (\<lambda>_.
    and_then (require (value = to_ascii_lowercase value)
      (invalid ''noncanonical_executable_id'' (field @ '' must be lowercase''))) (\<lambda>_.
    require (\<not> is_forbidden_verification_shell value)
      (invalid ''raw_shell_forbidden'' (value @ '' cannot be used as an executable ID''))))"

section \<open>Command arguments\<close>

text \<open>\<open>bytes.windows(3)\<close> with a letter, a colon and a slash.\<close>

fun drive_absolute_anywhere :: "string \<Rightarrow> bool" where
  "drive_absolute_anywhere (a # b # c # rest) =
    (ascii_alphabetic a \<and> b = CHR '':'' \<and> c = CHR ''/'' \<or> drive_absolute_anywhere (b # c # rest))"
| "drive_absolute_anywhere _ = False"

fun single_colon_anywhere :: "string \<Rightarrow> bool" where
  "single_colon_anywhere (a # b # rest) =
    (ascii_alphabetic a \<and> b = CHR '':''
       \<and> (case rest of [] \<Rightarrow> True | c # _ \<Rightarrow> c \<noteq> CHR '':'' \<and> c \<noteq> CHR ''/'')
     \<or> single_colon_anywhere (b # rest))"
| "single_colon_anywhere _ = False"

text \<open>The \<open>find_map\<close> over the bytes after the first.\<close>

fun scheme_scan :: "string \<Rightarrow> bool" where
  "scheme_scan [] = False"
| "scheme_scan (c # rest) =
    (if c = CHR '':'' then (case rest of [] \<Rightarrow> True | d # _ \<Rightarrow> d \<noteq> CHR '':'')
     else if ascii_alphanumeric c \<or> c \<in> set ''+-.'' then scheme_scan rest
     else False)"

definition scheme_at_boundary :: "string \<Rightarrow> bool" where
  "scheme_at_boundary candidate \<longleftrightarrow>
    (case candidate of [] \<Rightarrow> False | c # rest \<Rightarrow> ascii_alphabetic c \<and> scheme_scan rest)"

fun contains_text :: "string \<Rightarrow> string \<Rightarrow> bool" where
  "contains_text needle [] = (needle = [])"
| "contains_text needle (c # cs) =
    (take (length needle) (c # cs) = needle \<or> contains_text needle cs)"

definition argv_reference_is_unsafe :: "string \<Rightarrow> bool" where
  "argv_reference_is_unsafe candidate \<longleftrightarrow>
     take 1 candidate = ''/'' \<or> drive_absolute_anywhere candidate
   \<or> single_colon_anywhere candidate \<or> scheme_at_boundary candidate
   \<or> contains_text ''://'' candidate"

text \<open>The suffixes after each \<open>=\<close>, from \<open>match_indices\<close>.\<close>

fun suffixes_after :: "char \<Rightarrow> string \<Rightarrow> string list" where
  "suffixes_after c [] = []"
| "suffixes_after c (x # xs) = (if x = c then [xs] else []) @ suffixes_after c xs"

definition validate_argv_token :: "string \<Rightarrow> unit verification_result" where
  "validate_argv_token value =
    and_then (require (\<not> (list_ex control_char value \<or> CHR 0x5C \<in> set value))
      (invalid ''invalid_argv'' ''argv entries cannot contain backslashes, C0 controls, or DEL'')) (\<lambda>_.
    require (\<not> (argv_reference_is_unsafe value
        \<or> list_ex argv_reference_is_unsafe (suffixes_after CHR ''='' value)))
      (invalid ''unsafe_argv_reference''
        ''argv cannot contain absolute, drive/scheme-like, UNC, URL, or external references''))"

definition validate_environment_name :: "string \<Rightarrow> unit verification_result" where
  "validate_environment_name value =
    (case value of
       [] \<Rightarrow> Err (invalid ''invalid_environment_name'' ''environment name is blank'')
     | first # rest \<Rightarrow>
         require ((ascii_upper first \<or> first = CHR ''_'')
             \<and> list_all (\<lambda>c. ascii_upper c \<or> ascii_digit c \<or> c = CHR ''_'') rest)
           (invalid ''invalid_environment_name''
             (value @ '' is not an uppercase environment-name token'')))"

section \<open>Data\<close>

text \<open>A \<open>BTreeSet\<close> that is iterated over: a \<open>BTreeMap\<close> to the unit type.\<close>

type_synonym 'a btree_set = "('a, unit) btree_map"

definition bs_collect :: "'a::linorder list \<Rightarrow> 'a btree_set" where
  "bs_collect xs = bm_collect (map (\<lambda>x. (x, ())) xs)"

datatype behavior_kind = BehaviorAcceptance | BehaviorVerification | BehaviorDefinitionOfDone

primrec criterion_kind_of :: "behavior_kind \<Rightarrow> criterion_kind" where
  "criterion_kind_of BehaviorAcceptance = Acceptance"
| "criterion_kind_of BehaviorVerification = Verification"
| "criterion_kind_of BehaviorDefinitionOfDone = DefinitionOfDone"

primrec behavior_kind_rank :: "behavior_kind \<Rightarrow> nat" where
  "behavior_kind_rank BehaviorAcceptance = 0"
| "behavior_kind_rank BehaviorVerification = 1"
| "behavior_kind_rank BehaviorDefinitionOfDone = 2"

lemma behavior_kind_rank_inject [simp]: "behavior_kind_rank a = behavior_kind_rank b \<longleftrightarrow> a = b"
  by (cases a; cases b) simp_all

instantiation behavior_kind :: linorder
begin

definition less_eq_behavior_kind :: "behavior_kind \<Rightarrow> behavior_kind \<Rightarrow> bool" where
  "less_eq_behavior_kind a b = (behavior_kind_rank a \<le> behavior_kind_rank b)"

definition less_behavior_kind :: "behavior_kind \<Rightarrow> behavior_kind \<Rightarrow> bool" where
  "less_behavior_kind a b = (behavior_kind_rank a < behavior_kind_rank b)"

instance
  by standard (auto simp: less_eq_behavior_kind_def less_behavior_kind_def)

end

datatype behavior_binding = Bound goal_id task_id | Unbound

record behavior_criterion =
  bc_criterion_id :: string
  bc_order :: u32
  bc_kind :: behavior_kind
  bc_text :: string
  bc_required :: bool
  bc_capability_ids :: "string list"

record behavioral_acceptance_contract =
  bac_contract_version :: contract_version
  bac_contract_id :: string
  bac_binding :: behavior_binding
  bac_criteria :: "behavior_criterion list"

datatype path_selector_kind = Exact | Prefix

primrec path_selector_kind_rank :: "path_selector_kind \<Rightarrow> nat" where
  "path_selector_kind_rank Exact = 0"
| "path_selector_kind_rank Prefix = 1"

lemma path_selector_kind_rank_inject [simp]:
  "path_selector_kind_rank a = path_selector_kind_rank b \<longleftrightarrow> a = b"
  by (cases a; cases b) simp_all

instantiation path_selector_kind :: linorder
begin

definition less_eq_path_selector_kind :: "path_selector_kind \<Rightarrow> path_selector_kind \<Rightarrow> bool" where
  "less_eq_path_selector_kind a b = (path_selector_kind_rank a \<le> path_selector_kind_rank b)"

definition less_path_selector_kind :: "path_selector_kind \<Rightarrow> path_selector_kind \<Rightarrow> bool" where
  "less_path_selector_kind a b = (path_selector_kind_rank a < path_selector_kind_rank b)"

instance
  by standard (auto simp: less_eq_path_selector_kind_def less_path_selector_kind_def)

end

record changed_path_selector =
  cps_kind :: path_selector_kind
  cps_path :: string

datatype denied_access = AccessDenied

datatype shell_policy = ShellForbidden

datatype digest_algorithm = Sha256

record local_machine_policy =
  lmp_local_only :: bool
  lmp_network :: denied_access
  lmp_provider :: denied_access
  lmp_telemetry :: denied_access
  lmp_egress :: denied_access
  lmp_external_evidence :: denied_access
  lmp_external_storage :: denied_access
  lmp_raw_shell :: shell_policy
  lmp_inherit_environment :: bool
  lmp_fingerprint_algorithm :: digest_algorithm
  lmp_allowed_executable_ids :: "string btree_set"
  lmp_allowed_environment_names :: "string btree_set"

datatype working_directory = SnapshotRoot | Relative string

record verification_command =
  vcm_command_id :: string
  vcm_executable_id :: string
  vcm_argv :: "string list"
  vcm_cwd :: working_directory
  vcm_environment_names :: "string btree_set"

record capability_definition =
  cd_contract_version :: contract_version
  cd_capability_id :: string
  cd_revision :: u64
  cd_criterion_ids :: "string list"
  cd_dependencies :: "string list"
  cd_changed_path_selectors :: "changed_path_selector list"
  cd_policy :: local_machine_policy
  cd_commands :: "verification_command list"

datatype verification_failure_category =
    CategoryTimeout | PolicyBlock | ContractViolation | SourceDrift | CategoryEnvironment
  | Infrastructure | TestFailedUnclassified | ProductBug | TestFragility

datatype failure_confirmation = Provisional | Confirmed

record verification_failure =
  vf_contract_version :: contract_version
  vf_failure_id :: string
  vf_category :: verification_failure_category
  vf_confirmation :: failure_confirmation
  vf_supersedes_failure_id :: "string option"
  vf_criterion_id :: "string option"
  vf_summary :: string
  vf_recorded_at :: timestamp

datatype verification_verdict =
    BundlePass | BundleFail | BundleBlocked | BundleTimeout | BundleInvalid

datatype criterion_result_verdict =
    ResultPass | ResultFail | ResultBlocked | ResultTimeout | ResultInvalid

record criterion_result =
  cr_criterion_id :: string
  cr_order :: u32
  cr_kind :: behavior_kind
  cr_text :: string
  cr_verdict :: criterion_result_verdict

record verification_fingerprints =
  vfp_source_pre :: string
  vfp_source_post :: string
  vfp_behavior_contract :: string
  vfp_capability_set :: string
  vfp_command :: string
  vfp_policy :: string
  vfp_environment :: string

record verification_bundle =
  vb_contract_version :: contract_version
  vb_bundle_id :: string
  vb_run_id :: run_id
  vb_goal_id :: goal_id
  vb_task_id :: task_id
  vb_behavior_contract_id :: string
  vb_capability_ids :: "string list"
  vb_implementation_actor :: worker_id
  vb_verifier_actor :: worker_id
  vb_fingerprints :: verification_fingerprints
  vb_criterion_results :: "criterion_result list"
  vb_failures :: "verification_failure list"
  vb_verdict :: verification_verdict
  vb_created_at :: timestamp

record current_bundle_proof =
  cbp_contract_version :: contract_version
  cbp_bundle_digest :: string
  cbp_checksum_verified :: bool
  cbp_integrity_verified :: bool
  cbp_current_pointer_verified :: bool
  cbp_current_pointer_digest :: string
  cbp_expected_run_id :: run_id
  cbp_expected_goal_id :: goal_id
  cbp_expected_task_id :: task_id
  cbp_expected_behavior_contract_digest :: string
  cbp_expected_capability_set_digest :: string
  cbp_expected_command_digest :: string
  cbp_expected_policy_digest :: string
  cbp_expected_source_digest :: string
  cbp_expected_environment_digest :: string

record authoritative_criterion_satisfaction =
  acs_criterion_id :: string
  acs_kind :: behavior_kind
  acs_text :: string

record admitted_task_evidence =
  ate_contract_version :: contract_version
  ate_run_id :: run_id
  ate_goal_id :: goal_id
  ate_task_id :: task_id
  ate_evidence_ref :: evidence_ref
  ate_satisfactions :: "authoritative_criterion_satisfaction list"

section \<open>Behaviors\<close>

definition lv_insert_new :: "string \<Rightarrow> string set \<Rightarrow> string \<Rightarrow> string set verification_result" where
  "lv_insert_new code seen x = insert_new (invalid code) seen x"

definition validate_behavior_criterion ::
    "string set \<Rightarrow> nat \<times> behavior_criterion \<Rightarrow> string set verification_result" where
  "validate_behavior_criterion ids entry =
    (let (index, criterion) = entry in
     and_then (validate_stable_id (bc_criterion_id criterion) ''criterion_id'') (\<lambda>_.
     and_then (lv_insert_new ''duplicate_criterion_id'' ids (bc_criterion_id criterion)) (\<lambda>ids.
     and_then (require (bc_order criterion = of_nat index)
       (invalid ''noncanonical_criterion_order''
         ''criterion order must be contiguous and match declaration order'')) (\<lambda>_.
     and_then (validate_text (bc_text criterion) ''criterion.text'') (\<lambda>_.
     and_then (validate_sorted_unique_ids (bc_capability_ids criterion) ''capability_ids'') (\<lambda>_.
     Ok ids))))))"

definition validate_behavior :: "behavioral_acceptance_contract \<Rightarrow> unit verification_result" where
  "validate_behavior self =
    and_then (lv_validate_version (bac_contract_version self) ''behavioral_acceptance_contract'') (\<lambda>_.
    and_then (validate_stable_id (bac_contract_id self) ''contract_id'') (\<lambda>_.
    and_then (case bac_binding self of
       Bound goal_id task_id \<Rightarrow>
         and_then (validate_stable_id goal_id ''goal_id'') (\<lambda>_. validate_stable_id task_id ''task_id'')
     | Unbound \<Rightarrow> Ok ()) (\<lambda>_.
    and_then (require (bac_criteria self \<noteq> [])
      (invalid ''empty_behavior_criteria'' ''at least one criterion is required'')) (\<lambda>_.
    and_then (try_fold validate_behavior_criterion {} (enumerate 0 (bac_criteria self))) (\<lambda>_.
    Ok ())))))"

definition bound_ids :: "behavioral_acceptance_contract \<Rightarrow> (goal_id \<times> task_id) verification_result" where
  "bound_ids self = (case bac_binding self of
     Bound goal_id task_id \<Rightarrow> Ok (goal_id, task_id)
   | Unbound \<Rightarrow> Err (invalid ''unbound_behavior_contract''
       ''unbound behavior is not admissible as completion evidence''))"

section \<open>Policies, commands and capabilities\<close>

definition validate_machine_policy :: "local_machine_policy \<Rightarrow> unit verification_result" where
  "validate_machine_policy self =
    checks
      ([require (lmp_local_only self) (invalid ''unsafe_machine_policy'' ''local_only must be true''),
        require (\<not> lmp_inherit_environment self)
          (invalid ''unsafe_machine_policy'' ''environment inheritance is forbidden''),
        require (bm_keys (lmp_allowed_executable_ids self) \<noteq> [])
          (invalid ''empty_executable_allowlist''
            ''at least one logical executable ID is required'')]
       @ map (\<lambda>i. validate_executable_id i ''allowed_executable_ids'')
           (bm_keys (lmp_allowed_executable_ids self))
       @ map validate_environment_name (bm_keys (lmp_allowed_environment_names self)))"

definition validate_command ::
    "local_machine_policy \<Rightarrow> verification_command \<Rightarrow> unit verification_result" where
  "validate_command policy self =
    checks
      ([validate_stable_id (vcm_command_id self) ''command_id'',
        validate_executable_id (vcm_executable_id self) ''executable_id'',
        require (bm_contains (lmp_allowed_executable_ids policy) (vcm_executable_id self))
          (invalid ''executable_not_allowlisted'' (vcm_executable_id self)),
        (case vcm_cwd self of Relative path \<Rightarrow> validate_logical_path path | SnapshotRoot \<Rightarrow> Ok ())]
       @ map validate_argv_token (vcm_argv self)
       @ map (\<lambda>name. and_then (validate_environment_name name) (\<lambda>_.
           require (bm_contains (lmp_allowed_environment_names policy) name)
             (invalid ''environment_not_allowlisted'' name)))
           (bm_keys (vcm_environment_names self)))"

text \<open>A loop that keeps the previous key and stops unless the next one is greater.\<close>

definition after_prior :: "'k::linorder option \<Rightarrow> 'k \<Rightarrow> local_verification_error \<Rightarrow> 'k option verification_result" where
  "after_prior prior key err =
    (case prior of
       None \<Rightarrow> Ok (Some key)
     | Some p \<Rightarrow> if key \<le> p then Err err else Ok (Some key))"

definition validate_selector ::
    "(path_selector_kind \<times> string) option \<Rightarrow> changed_path_selector \<Rightarrow>
     (path_selector_kind \<times> string) option verification_result" where
  "validate_selector prior selector =
    and_then (validate_logical_path (cps_path selector)) (\<lambda>_.
    after_prior prior (cps_kind selector, cps_path selector)
      (invalid ''noncanonical_path_selectors''
        ''changed path selectors must be strictly sorted and unique''))"

definition validate_non_command_fields :: "capability_definition \<Rightarrow> unit verification_result" where
  "validate_non_command_fields self =
    and_then (checks
      [lv_validate_version (cd_contract_version self) ''capability_definition'',
       validate_stable_id (cd_capability_id self) ''capability_id'',
       require (cd_revision self \<noteq> 0)
         (invalid ''invalid_capability_revision'' ''revision must be greater than zero''),
       validate_sorted_unique_ids (cd_criterion_ids self) ''criterion_ids'',
       validate_sorted_unique_ids (cd_dependencies self) ''dependencies'',
       require (\<not> list_ex (\<lambda>i. i = cd_capability_id self) (cd_dependencies self))
         (invalid ''self_capability_dependency'' (cd_capability_id self)),
       validate_machine_policy (cd_policy self)]) (\<lambda>_.
    and_then (try_fold validate_selector None (cd_changed_path_selectors self)) (\<lambda>_. Ok ()))"

definition validate_capability_command ::
    "local_machine_policy \<Rightarrow> string option \<Rightarrow> verification_command \<Rightarrow> string option verification_result" where
  "validate_capability_command policy prior command =
    and_then (validate_command policy command) (\<lambda>_.
    after_prior prior (vcm_command_id command)
      (invalid ''noncanonical_or_duplicate_command'' ''commands must be strictly sorted by command_id''))"

definition validate_commands :: "capability_definition \<Rightarrow> unit verification_result" where
  "validate_commands self =
    and_then (require (cd_commands self \<noteq> [])
      (invalid ''empty_verification_commands'' ''at least one command is required'')) (\<lambda>_.
    and_then (try_fold (validate_capability_command (cd_policy self)) None (cd_commands self)) (\<lambda>_.
    Ok ()))"

definition validate_capability :: "capability_definition \<Rightarrow> unit verification_result" where
  "validate_capability self =
    and_then (validate_non_command_fields self) (\<lambda>_. validate_commands self)"

section \<open>Failures and bundles\<close>

definition confirmation_required :: "verification_failure_category \<Rightarrow> bool" where
  "confirmation_required category \<longleftrightarrow> category = ProductBug \<or> category = TestFragility"

definition validate_failure :: "verification_failure \<Rightarrow> unit verification_result" where
  "validate_failure self =
    checks
      [lv_validate_version (vf_contract_version self) ''verification_failure'',
       validate_stable_id (vf_failure_id self) ''failure_id'',
       validate_text (vf_summary self) ''summary'',
       (case vf_criterion_id self of
          Some criterion_id \<Rightarrow> validate_stable_id criterion_id ''criterion_id'' | None \<Rightarrow> Ok ()),
       (case vf_supersedes_failure_id self of
          Some supersedes \<Rightarrow>
            and_then (validate_stable_id supersedes ''supersedes_failure_id'') (\<lambda>_.
            require (supersedes \<noteq> vf_failure_id self)
              (invalid ''self_superseding_failure'' (vf_failure_id self)))
        | None \<Rightarrow> Ok ()),
       (if confirmation_required (vf_category self) then
          (case vf_confirmation self of
             Provisional \<Rightarrow> require (vf_supersedes_failure_id self = None)
               (invalid ''provisional_failure_cannot_supersede'' (vf_failure_id self))
           | Confirmed \<Rightarrow> require (vf_supersedes_failure_id self \<noteq> None)
               (invalid ''confirmed_failure_requires_superseded_record'' (vf_failure_id self)))
        else Ok ())]"

definition validate_fingerprints :: "verification_fingerprints \<Rightarrow> unit verification_result" where
  "validate_fingerprints self =
    checks
      [validate_digest (vfp_source_pre self) ''source_pre'',
       validate_digest (vfp_source_post self) ''source_post'',
       validate_digest (vfp_behavior_contract self) ''behavior_contract'',
       validate_digest (vfp_capability_set self) ''capability_set'',
       validate_digest (vfp_command self) ''command'',
       validate_digest (vfp_policy self) ''policy'',
       validate_digest (vfp_environment self) ''environment'']"

fun failure_matches_verdict :: "verification_failure_category \<Rightarrow> verification_verdict \<Rightarrow> bool" where
  "failure_matches_verdict category BundlePass = False"
| "failure_matches_verdict category BundleTimeout = (category = CategoryTimeout)"
| "failure_matches_verdict category BundleBlocked =
    (category \<in> {PolicyBlock, CategoryEnvironment, Infrastructure})"
| "failure_matches_verdict category BundleInvalid = (category \<in> {ContractViolation, SourceDrift})"
| "failure_matches_verdict category BundleFail =
    (category \<in> {TestFailedUnclassified, ProductBug, TestFragility, CategoryEnvironment, Infrastructure})"

definition validate_result ::
    "string set \<Rightarrow> nat \<times> criterion_result \<Rightarrow> string set verification_result" where
  "validate_result result_ids entry =
    (let (index, result) = entry in
     and_then (validate_stable_id (cr_criterion_id result) ''criterion_result.criterion_id'') (\<lambda>_.
     and_then (validate_text (cr_text result) ''criterion_result.text'') (\<lambda>_.
     and_then (lv_insert_new ''duplicate_criterion_result'' result_ids (cr_criterion_id result)) (\<lambda>result_ids.
     and_then (require (cr_order result = of_nat index)
       (invalid ''noncanonical_result_order'' ''criterion result order must be contiguous'')) (\<lambda>_.
     Ok result_ids)))))"

definition validate_bundle_failure ::
    "string set \<Rightarrow> string option \<Rightarrow> verification_failure \<Rightarrow> string option verification_result" where
  "validate_bundle_failure result_ids prior failure =
    and_then (validate_failure failure) (\<lambda>_.
    and_then (case vf_criterion_id failure of
       Some criterion_id \<Rightarrow> require (criterion_id \<in> result_ids)
         (invalid ''failure_criterion_not_in_bundle'' criterion_id)
     | None \<Rightarrow> Ok ()) (\<lambda>_.
    after_prior prior (vf_failure_id failure)
      (invalid ''noncanonical_or_duplicate_failure'' ''failures must be strictly sorted by failure_id'')))"

definition validate_pass_bundle :: "verification_bundle \<Rightarrow> unit verification_result" where
  "validate_pass_bundle self =
    checks
      [require (vb_criterion_results self \<noteq> [])
         (invalid ''empty_pass_coverage'' ''a pass bundle requires criterion coverage''),
       require (vb_failures self = [])
         (invalid ''pass_with_failure'' ''pass cannot contain failures''),
       require (\<not> list_ex (\<lambda>result. cr_verdict result \<noteq> ResultPass) (vb_criterion_results self))
         (invalid ''pass_with_nonpass_result'' ''every result in a pass bundle must pass''),
       require (vfp_source_pre (vb_fingerprints self) = vfp_source_post (vb_fingerprints self))
         (invalid ''source_drift'' ''pass requires identical source pre/post digests'')]"

definition has_source_drift :: "verification_bundle \<Rightarrow> bool" where
  "has_source_drift self \<longleftrightarrow> list_ex (\<lambda>failure. vf_category failure = SourceDrift) (vb_failures self)"

definition validate_nonpass_bundle :: "verification_bundle \<Rightarrow> unit verification_result" where
  "validate_nonpass_bundle self =
    (let drifted = vfp_source_pre (vb_fingerprints self) \<noteq> vfp_source_post (vb_fingerprints self) in
     checks
      [require (list_ex (\<lambda>failure. failure_matches_verdict (vf_category failure) (vb_verdict self))
           (vb_failures self))
         (invalid ''nonpass_without_matching_failure''
           ''non-pass verdict requires a matching failure category''),
       require (\<not> (drifted \<and> \<not> (vb_verdict self = BundleInvalid \<and> has_source_drift self)))
         (invalid ''unclassified_source_drift''
           ''source drift requires invalid verdict and source_drift failure''),
       require (\<not> (\<not> drifted \<and> has_source_drift self))
         (invalid ''source_drift_failure_without_drift''
           ''source_drift failure requires different pre/post digests'')])"

definition validate_bundle_fields :: "verification_bundle \<Rightarrow> unit verification_result" where
  "validate_bundle_fields self =
    checks
      [lv_validate_version (vb_contract_version self) ''verification_bundle'',
       validate_stable_id (vb_bundle_id self) ''bundle_id'',
       validate_stable_id (vb_run_id self) ''run_id'',
       validate_stable_id (vb_goal_id self) ''goal_id'',
       validate_stable_id (vb_task_id self) ''task_id'',
       validate_stable_id (vb_behavior_contract_id self) ''behavior_contract_id'',
       validate_sorted_unique_ids (vb_capability_ids self) ''capability_ids'',
       validate_stable_id (vb_implementation_actor self) ''implementation_actor'',
       validate_stable_id (vb_verifier_actor self) ''verifier_actor'',
       require (vb_implementation_actor self \<noteq> vb_verifier_actor self)
         (invalid ''verifier_not_independent'' ''implementation and verifier actors must differ''),
       validate_fingerprints (vb_fingerprints self)]"

definition validate_bundle :: "verification_bundle \<Rightarrow> unit verification_result" where
  "validate_bundle self =
    and_then (validate_bundle_fields self) (\<lambda>_.
    and_then (try_fold validate_result {} (enumerate 0 (vb_criterion_results self))) (\<lambda>result_ids.
    and_then (try_fold (validate_bundle_failure result_ids) None (vb_failures self)) (\<lambda>_.
    if vb_verdict self = BundlePass then validate_pass_bundle self else validate_nonpass_bundle self)))"

definition validate_proof :: "current_bundle_proof \<Rightarrow> unit verification_result" where
  "validate_proof self =
    checks
      [lv_validate_version (cbp_contract_version self) ''current_bundle_proof'',
       validate_digest (cbp_bundle_digest self) ''bundle_digest'',
       validate_digest (cbp_current_pointer_digest self) ''current_pointer_digest'',
       validate_digest (cbp_expected_behavior_contract_digest self) ''expected_behavior_contract_digest'',
       validate_digest (cbp_expected_capability_set_digest self) ''expected_capability_set_digest'',
       validate_digest (cbp_expected_command_digest self) ''expected_command_digest'',
       validate_digest (cbp_expected_policy_digest self) ''expected_policy_digest'',
       validate_digest (cbp_expected_source_digest self) ''expected_source_digest'',
       validate_digest (cbp_expected_environment_digest self) ''expected_environment_digest'',
       require (cbp_checksum_verified self \<and> cbp_integrity_verified self)
         (invalid ''bundle_integrity_unverified''
           ''checksum and integrity assertions must both be true''),
       require (cbp_current_pointer_verified self
           \<and> cbp_current_pointer_digest self = cbp_bundle_digest self)
         (invalid ''current_pointer_mismatch''
           ''current pointer must be verified and equal the canonical bundle digest'')]"

end
