(* ===== verification/Verification_Acceptance.thy ===== *)
theory Verification_Acceptance
  imports Verification_Contracts
begin

text \<open>
  What the validators of \<open>Verification_Contracts\<close> accept: one predicate per kind of value
  (\<open>stable_id\<close>, \<open>valid_digest\<close>, \<open>path_ok\<close>, \<open>capability_ok\<close>, \<open>bundle_ok\<close>, \<open>proof_ok\<close> and so on) and
  the equivalence of the validator with it, in the collection \<open>result_iff\<close>.
\<close>

section \<open>What the validators accept\<close>

definition valid_digest :: "string \<Rightarrow> bool" where
  "valid_digest s \<longleftrightarrow> length s = 64 \<and> list_all lower_hex_digit s"

definition stable_id :: "string \<Rightarrow> bool" where
  "stable_id s \<longleftrightarrow> s \<noteq> [] \<and> ascii_alphanumeric (hd s) \<and> list_all stable_id_char s"

lemma validate_version_iff [result_iff]:
  "lv_validate_version v contract = Ok u \<longleftrightarrow> v = 1"
  by (simp add: lv_validate_version_def result_iff local_verification_contract_version_def)

lemma stable_id_char_ascii: "stable_id_char c \<Longrightarrow> of_char c < (128 :: nat)"
  by (auto simp: stable_id_char_def ascii_alphanumeric_def ascii_alphabetic_def)

lemma validate_stable_id_iff [result_iff]: "validate_stable_id s field = Ok u \<longleftrightarrow> stable_id s"
  by (cases s)
    (auto simp: validate_stable_id_def stable_id_def list_all_iff intro: stable_id_char_ascii)

lemma validate_digest_iff [result_iff]: "validate_digest s field = Ok u \<longleftrightarrow> valid_digest s"
  by (simp add: validate_digest_def valid_digest_def result_iff)

lemma validate_text_iff [result_iff]:
  "validate_text s field = Ok u \<longleftrightarrow> \<not> is_blank s \<and> char_of (0 :: nat) \<notin> set s"
  by (simp add: validate_text_def)

lemma strictly_sorted_iff: "strictly_sorted xs \<longleftrightarrow> sorted_wrt (<) (xs :: 'a::linorder list)"
  by (induction xs rule: strictly_sorted.induct) (auto intro: less_trans)

lemma validate_sorted_unique_ids_iff [result_iff]:
  "validate_sorted_unique_ids xs field = Ok u \<longleftrightarrow> (\<forall>x \<in> set xs. stable_id x) \<and> sorted_wrt (<) xs"
  by (auto simp: validate_sorted_unique_ids_def result_iff strictly_sorted_iff)

text \<open>The digest the code computes always has the form it demands.\<close>

lemma hex_digits_lower: "c \<in> set hex_digits \<Longrightarrow> lower_hex_digit c"
proof -
  have "\<forall>c \<in> set hex_digits. lower_hex_digit c" by code_simp
  then show "c \<in> set hex_digits \<Longrightarrow> lower_hex_digit c" by blast
qed

lemma sha256_valid_digest [simp]: "valid_digest (verification_sha256_hex input)"
  using sha256_hex_digits [of input] hex_digits_lower by (auto simp: valid_digest_def list_all_iff)

lemma valid_digest_chars:
  assumes "valid_digest s"
  shows "list_all stable_id_char s" and "\<And>c. c \<in> set s \<Longrightarrow> \<not> control_char c"
    and "CHR ''/'' \<notin> set s" "CHR 0x5C \<notin> set s" "CHR '':'' \<notin> set s" "CHR ''.'' \<notin> set s"
proof -
  from assms have hex: "list_all lower_hex_digit s" by (simp add: valid_digest_def)
  then show "list_all stable_id_char s"
    by (auto simp: list_all_iff stable_id_char_def ascii_alphanumeric_def ascii_alphabetic_def
        lower_hex_digit_def)
  show "\<not> control_char c" if "c \<in> set s" for c
    using hex that by (auto simp: list_all_iff lower_hex_digit_def control_char_def)
  show "CHR ''/'' \<notin> set s" "CHR 0x5C \<notin> set s" "CHR '':'' \<notin> set s" "CHR ''.'' \<notin> set s"
    using hex by (auto simp: list_all_iff lower_hex_digit_def)
qed

text \<open>Loops that insert a key into a set, and loops that keep the previous key.\<close>

lemma try_fold_insert_key:
  assumes "\<And>seen i x seen'. step seen (i, x) = Ok seen' \<longleftrightarrow> P i x \<and> key x \<notin> seen \<and> seen' = insert (key x) seen"
  shows "try_fold step seen (enumerate n xs) = Ok seen' \<longleftrightarrow>
    (\<forall>(i, x) \<in> set (enumerate n xs). P i x) \<and> distinct (map key xs) \<and> key ` set xs \<inter> seen = {}
    \<and> seen' = seen \<union> key ` set xs"
  by (induction xs arbitrary: n seen) (auto simp: result_iff assms)

lemma after_prior_iff [result_iff]:
  "after_prior prior key err = Ok p \<longleftrightarrow>
     p = Some key \<and> (case prior of None \<Rightarrow> True | Some k \<Rightarrow> k < key)"
  by (auto simp: after_prior_def not_le split: option.splits)

lemma try_fold_after_prior:
  assumes "\<And>prior x. step prior x = and_then (c x) (\<lambda>_. after_prior prior (key x) (err x))"
  shows "(\<exists>p. try_fold step prior xs = Ok p) \<longleftrightarrow>
    (\<forall>x \<in> set xs. \<exists>u. c x = Ok u) \<and> sorted_wrt (<) (map key xs)
    \<and> (case prior of None \<Rightarrow> True | Some k \<Rightarrow> \<forall>x \<in> set xs. k < key x)"
proof (induction xs arbitrary: prior)
  case Nil
  then show ?case by (simp split: option.splits)
next
  case (Cons x xs)
  have "(\<exists>p. try_fold step prior (x # xs) = Ok p) \<longleftrightarrow>
    (\<exists>u. c x = Ok u) \<and> (case prior of None \<Rightarrow> True | Some k \<Rightarrow> k < key x)
      \<and> (\<exists>p. try_fold step (Some (key x)) xs = Ok p)"
    by (auto simp: assms result_iff)
  then show ?case
    unfolding Cons.IH by (auto split: option.splits intro: less_trans)
qed

lemma lv_insert_new_iff [result_iff]:
  "lv_insert_new code seen x = Ok seen' \<longleftrightarrow> x \<notin> seen \<and> seen' = insert x seen"
  by (simp add: lv_insert_new_def result_iff)

definition text_ok :: "string \<Rightarrow> bool" where
  "text_ok s \<longleftrightarrow> \<not> is_blank s \<and> char_of (0 :: nat) \<notin> set s"

definition ids_ok :: "string list \<Rightarrow> bool" where
  "ids_ok xs \<longleftrightarrow> (\<forall>x \<in> set xs. stable_id x) \<and> sorted_wrt (<) xs"

definition in_order :: "('a \<Rightarrow> u32) \<Rightarrow> 'a list \<Rightarrow> bool" where
  "in_order order xs \<longleftrightarrow> (\<forall>(i, x) \<in> set (enumerate 0 xs). order x = of_nat i)"

definition criteria_ok :: "behavior_criterion list \<Rightarrow> bool" where
  "criteria_ok cs \<longleftrightarrow> in_order bc_order cs \<and> distinct (map bc_criterion_id cs)
     \<and> (\<forall>c \<in> set cs. stable_id (bc_criterion_id c) \<and> text_ok (bc_text c)
          \<and> ids_ok (bc_capability_ids c))"

lemma criteria_loop_iff:
  "try_fold validate_behavior_criterion {} (enumerate 0 cs) = Ok seen
     \<longleftrightarrow> criteria_ok cs \<and> seen = bc_criterion_id ` set cs"
proof -
  have "validate_behavior_criterion seen (i, c) = Ok seen' \<longleftrightarrow>
      (bc_order c = of_nat i \<and> stable_id (bc_criterion_id c) \<and> text_ok (bc_text c)
        \<and> ids_ok (bc_capability_ids c))
      \<and> bc_criterion_id c \<notin> seen \<and> seen' = insert (bc_criterion_id c) seen" for seen i c seen'
    by (auto simp: validate_behavior_criterion_def result_iff text_ok_def ids_ok_def)
  from try_fold_insert_key [of validate_behavior_criterion, OF this, of "{}" 0 cs] show ?thesis
    using ball_enumerate [of 0 cs "\<lambda>c. stable_id (bc_criterion_id c) \<and> text_ok (bc_text c)
        \<and> ids_ok (bc_capability_ids c)"]
    by (auto simp: criteria_ok_def in_order_def split_beta)
qed

definition binding_ok :: "behavior_binding \<Rightarrow> bool" where
  "binding_ok b = (case b of Bound g t \<Rightarrow> stable_id g \<and> stable_id t | Unbound \<Rightarrow> True)"

lemma validate_behavior_iff [result_iff]:
  "validate_behavior self = Ok u \<longleftrightarrow>
     bac_contract_version self = 1 \<and> stable_id (bac_contract_id self) \<and> binding_ok (bac_binding self)
   \<and> bac_criteria self \<noteq> [] \<and> criteria_ok (bac_criteria self)"
  by (cases "bac_binding self")
    (auto simp: validate_behavior_def result_iff binding_ok_def criteria_loop_iff)

lemma bound_ids_iff [result_iff]:
  "bound_ids self = Ok (g, t) \<longleftrightarrow> bac_binding self = Bound g t"
  by (simp add: bound_ids_def split: behavior_binding.splits)

definition executable_ok :: "string \<Rightarrow> bool" where
  "executable_ok i \<longleftrightarrow> stable_id i \<and> to_ascii_lowercase i = i \<and> i \<notin> set forbidden_shells"

lemma validate_executable_id_iff [result_iff]:
  "validate_executable_id i field = Ok u \<longleftrightarrow> executable_ok i"
  by (auto simp: validate_executable_id_def result_iff executable_ok_def
      is_forbidden_verification_shell_def)

definition environment_name_ok :: "string \<Rightarrow> bool" where
  "environment_name_ok name \<longleftrightarrow> name \<noteq> [] \<and> (ascii_upper (hd name) \<or> hd name = CHR ''_'')
     \<and> (\<forall>c \<in> set (tl name). ascii_upper c \<or> ascii_digit c \<or> c = CHR ''_'')"

lemma validate_environment_name_iff [result_iff]:
  "validate_environment_name name = Ok u \<longleftrightarrow> environment_name_ok name"
  by (cases name)
    (simp_all add: validate_environment_name_def result_iff environment_name_ok_def list_all_iff)

definition policy_ok :: "local_machine_policy \<Rightarrow> bool" where
  "policy_ok p \<longleftrightarrow> lmp_local_only p \<and> \<not> lmp_inherit_environment p
     \<and> bm_keys (lmp_allowed_executable_ids p) \<noteq> []
     \<and> (\<forall>i \<in> set (bm_keys (lmp_allowed_executable_ids p)). executable_ok i)
     \<and> (\<forall>n \<in> set (bm_keys (lmp_allowed_environment_names p)). environment_name_ok n)"

lemma validate_machine_policy_iff [result_iff]:
  "validate_machine_policy p = Ok u \<longleftrightarrow> policy_ok p"
  by (simp add: validate_machine_policy_def result_iff policy_ok_def ball_Un)

definition path_ok :: "string \<Rightarrow> bool" where
  "path_ok p \<longleftrightarrow> p \<noteq> [] \<and> hd p \<noteq> CHR ''/'' \<and> (\<forall>c \<in> set p. \<not> control_char c \<and> c \<noteq> CHR 0x5C \<and> c \<noteq> CHR '':'')
     \<and> (\<forall>segment \<in> set (split_on CHR ''/'' p). segment \<notin> {[], ''.'', ''..''})"

lemma validate_logical_path_iff [result_iff]: "validate_logical_path p = Ok u \<longleftrightarrow> path_ok p"
  by (cases p) (auto simp: validate_logical_path_def result_iff path_ok_def list_ex_iff)

definition argument_ok :: "string \<Rightarrow> bool" where
  "argument_ok a \<longleftrightarrow> (\<forall>c \<in> set a. \<not> control_char c \<and> c \<noteq> CHR 0x5C) \<and> \<not> argv_reference_is_unsafe a
     \<and> (\<forall>suffix \<in> set (suffixes_after CHR ''='' a). \<not> argv_reference_is_unsafe suffix)"

lemma validate_argv_token_iff [result_iff]: "validate_argv_token a = Ok u \<longleftrightarrow> argument_ok a"
  by (auto simp: validate_argv_token_def result_iff argument_ok_def list_ex_iff)

definition command_ok :: "local_machine_policy \<Rightarrow> verification_command \<Rightarrow> bool" where
  "command_ok policy c \<longleftrightarrow> stable_id (vcm_command_id c) \<and> executable_ok (vcm_executable_id c)
     \<and> vcm_executable_id c \<in> set (bm_keys (lmp_allowed_executable_ids policy))
     \<and> (\<forall>path. vcm_cwd c = Relative path \<longrightarrow> path_ok path)
     \<and> (\<forall>a \<in> set (vcm_argv c). argument_ok a)
     \<and> (\<forall>n \<in> set (bm_keys (vcm_environment_names c)). environment_name_ok n
          \<and> n \<in> set (bm_keys (lmp_allowed_environment_names policy)))"

lemma validate_command_iff [result_iff]:
  "validate_command policy c = Ok u \<longleftrightarrow> command_ok policy c"
  by (cases "vcm_cwd c")
    (auto simp: validate_command_def result_iff command_ok_def bm_contains_iff ball_Un)

definition selector_key :: "changed_path_selector \<Rightarrow> path_selector_kind \<times> string" where
  "selector_key s = (cps_kind s, cps_path s)"

lemma selectors_loop_iff:
  "(\<exists>p. try_fold validate_selector None ss = Ok p) \<longleftrightarrow>
     (\<forall>s \<in> set ss. path_ok (cps_path s)) \<and> sorted_wrt (<) (map selector_key ss)"
  by (subst try_fold_after_prior [where key = selector_key and c = "\<lambda>s. validate_logical_path (cps_path s)"])
    (auto simp: validate_selector_def selector_key_def result_iff)

lemma commands_loop_iff:
  "(\<exists>p. try_fold (validate_capability_command policy) None cs = Ok p) \<longleftrightarrow>
     (\<forall>c \<in> set cs. command_ok policy c) \<and> sorted_wrt (<) (map vcm_command_id cs)"
  by (subst try_fold_after_prior [where key = vcm_command_id and c = "validate_command policy"])
    (auto simp: validate_capability_command_def result_iff)

definition non_command_fields_ok :: "capability_definition \<Rightarrow> bool" where
  "non_command_fields_ok d \<longleftrightarrow> cd_contract_version d = 1 \<and> stable_id (cd_capability_id d)
     \<and> cd_revision d \<noteq> 0 \<and> ids_ok (cd_criterion_ids d) \<and> ids_ok (cd_dependencies d)
     \<and> cd_capability_id d \<notin> set (cd_dependencies d) \<and> policy_ok (cd_policy d)
     \<and> (\<forall>s \<in> set (cd_changed_path_selectors d). path_ok (cps_path s))
     \<and> sorted_wrt (<) (map selector_key (cd_changed_path_selectors d))"

definition capability_ok :: "capability_definition \<Rightarrow> bool" where
  "capability_ok d \<longleftrightarrow> non_command_fields_ok d \<and> cd_commands d \<noteq> []
     \<and> (\<forall>c \<in> set (cd_commands d). command_ok (cd_policy d) c)
     \<and> sorted_wrt (<) (map vcm_command_id (cd_commands d))"

lemma validate_non_command_fields_iff [result_iff]:
  "validate_non_command_fields d = Ok u \<longleftrightarrow> non_command_fields_ok d"
  using selectors_loop_iff [of "cd_changed_path_selectors d"]
  by (auto simp: validate_non_command_fields_def result_iff non_command_fields_ok_def list_ex_iff
      ids_ok_def)

lemma validate_capability_iff [result_iff]: "validate_capability d = Ok u \<longleftrightarrow> capability_ok d"
  using commands_loop_iff [of "cd_policy d" "cd_commands d"]
  by (auto simp: validate_capability_def validate_commands_def result_iff capability_ok_def)

definition failure_ok :: "verification_failure \<Rightarrow> bool" where
  "failure_ok f \<longleftrightarrow> vf_contract_version f = 1 \<and> stable_id (vf_failure_id f) \<and> text_ok (vf_summary f)
     \<and> (\<forall>i. vf_criterion_id f = Some i \<longrightarrow> stable_id i)
     \<and> (\<forall>i. vf_supersedes_failure_id f = Some i \<longrightarrow> stable_id i \<and> i \<noteq> vf_failure_id f)
     \<and> (confirmation_required (vf_category f) \<longrightarrow>
          (vf_confirmation f = Confirmed \<longleftrightarrow> vf_supersedes_failure_id f \<noteq> None))"

lemma validate_failure_iff [result_iff]: "validate_failure f = Ok u \<longleftrightarrow> failure_ok f"
  by (cases "vf_criterion_id f"; cases "vf_supersedes_failure_id f"; cases "vf_confirmation f")
    (auto simp: validate_failure_def result_iff failure_ok_def text_ok_def)

definition fingerprints_ok :: "verification_fingerprints \<Rightarrow> bool" where
  "fingerprints_ok f \<longleftrightarrow> valid_digest (vfp_source_pre f) \<and> valid_digest (vfp_source_post f)
     \<and> valid_digest (vfp_behavior_contract f) \<and> valid_digest (vfp_capability_set f)
     \<and> valid_digest (vfp_command f) \<and> valid_digest (vfp_policy f) \<and> valid_digest (vfp_environment f)"

lemma validate_fingerprints_iff [result_iff]:
  "validate_fingerprints f = Ok u \<longleftrightarrow> fingerprints_ok f"
  by (auto simp: validate_fingerprints_def result_iff fingerprints_ok_def)

definition results_ok :: "criterion_result list \<Rightarrow> bool" where
  "results_ok rs \<longleftrightarrow> in_order cr_order rs \<and> distinct (map cr_criterion_id rs)
     \<and> (\<forall>r \<in> set rs. stable_id (cr_criterion_id r) \<and> text_ok (cr_text r))"

lemma results_loop_iff:
  "try_fold validate_result {} (enumerate 0 rs) = Ok seen
     \<longleftrightarrow> results_ok rs \<and> seen = cr_criterion_id ` set rs"
proof -
  have "validate_result seen (i, r) = Ok seen' \<longleftrightarrow>
      (cr_order r = of_nat i \<and> stable_id (cr_criterion_id r) \<and> text_ok (cr_text r))
      \<and> cr_criterion_id r \<notin> seen \<and> seen' = insert (cr_criterion_id r) seen" for seen i r seen'
    by (auto simp: validate_result_def result_iff text_ok_def)
  from try_fold_insert_key [of validate_result, OF this, of "{}" 0 rs] show ?thesis
    using ball_enumerate [of 0 rs "\<lambda>r. stable_id (cr_criterion_id r) \<and> text_ok (cr_text r)"]
    by (auto simp: results_ok_def in_order_def split_beta)
qed

lemma failures_loop_iff:
  "(\<exists>p. try_fold (validate_bundle_failure ids) None fs = Ok p) \<longleftrightarrow>
     (\<forall>f \<in> set fs. failure_ok f \<and> (\<forall>i. vf_criterion_id f = Some i \<longrightarrow> i \<in> ids))
     \<and> sorted_wrt (<) (map vf_failure_id fs)"
proof -
  let ?check = "\<lambda>f. and_then (validate_failure f) (\<lambda>_. case vf_criterion_id f of
       Some i \<Rightarrow> require (i \<in> ids) (invalid ''failure_criterion_not_in_bundle'' i) | None \<Rightarrow> Ok ())"
  have "(\<exists>u. ?check f = Ok u) \<longleftrightarrow> failure_ok f \<and> (\<forall>i. vf_criterion_id f = Some i \<longrightarrow> i \<in> ids)" for f
    by (cases "vf_criterion_id f") (auto simp: result_iff)
  then show ?thesis
    by (subst try_fold_after_prior [where key = vf_failure_id and c = ?check])
      (simp_all add: validate_bundle_failure_def and_then_assoc)
qed

text \<open>A verdict fits the results, failures and source digests of its bundle.\<close>

definition verdict_ok :: "verification_bundle \<Rightarrow> bool" where
  "verdict_ok b \<longleftrightarrow>
    (let drifted = vfp_source_pre (vb_fingerprints b) \<noteq> vfp_source_post (vb_fingerprints b) in
     if vb_verdict b = BundlePass then
       vb_criterion_results b \<noteq> [] \<and> vb_failures b = []
       \<and> (\<forall>r \<in> set (vb_criterion_results b). cr_verdict r = ResultPass) \<and> \<not> drifted
     else
       (\<exists>f \<in> set (vb_failures b). failure_matches_verdict (vf_category f) (vb_verdict b))
       \<and> (drifted \<longrightarrow> vb_verdict b = BundleInvalid)
       \<and> (drifted \<longleftrightarrow> (\<exists>f \<in> set (vb_failures b). vf_category f = SourceDrift)))"

definition bundle_ok :: "verification_bundle \<Rightarrow> bool" where
  "bundle_ok b \<longleftrightarrow> vb_contract_version b = 1 \<and> stable_id (vb_bundle_id b)
     \<and> stable_id (vb_run_id b) \<and> stable_id (vb_goal_id b) \<and> stable_id (vb_task_id b)
     \<and> stable_id (vb_behavior_contract_id b) \<and> ids_ok (vb_capability_ids b)
     \<and> stable_id (vb_implementation_actor b) \<and> stable_id (vb_verifier_actor b)
     \<and> vb_implementation_actor b \<noteq> vb_verifier_actor b
     \<and> fingerprints_ok (vb_fingerprints b) \<and> results_ok (vb_criterion_results b)
     \<and> (\<forall>f \<in> set (vb_failures b). failure_ok f
          \<and> (\<forall>i. vf_criterion_id f = Some i \<longrightarrow> i \<in> cr_criterion_id ` set (vb_criterion_results b)))
     \<and> sorted_wrt (<) (map vf_failure_id (vb_failures b)) \<and> verdict_ok b"

lemma verdict_iff:
  "(if vb_verdict b = BundlePass then validate_pass_bundle b else validate_nonpass_bundle b) = Ok u
     \<longleftrightarrow> verdict_ok b"
  by (auto simp: validate_pass_bundle_def validate_nonpass_bundle_def verdict_ok_def result_iff
      Let_def list_ex_iff has_source_drift_def)

lemma validate_bundle_ok [result_iff]: "validate_bundle b = Ok u \<longleftrightarrow> bundle_ok b"
proof -
  have fields: "validate_bundle_fields b = Ok () \<longleftrightarrow>
      vb_contract_version b = 1 \<and> stable_id (vb_bundle_id b)
     \<and> stable_id (vb_run_id b) \<and> stable_id (vb_goal_id b) \<and> stable_id (vb_task_id b)
     \<and> stable_id (vb_behavior_contract_id b) \<and> ids_ok (vb_capability_ids b)
     \<and> stable_id (vb_implementation_actor b) \<and> stable_id (vb_verifier_actor b)
     \<and> vb_implementation_actor b \<noteq> vb_verifier_actor b \<and> fingerprints_ok (vb_fingerprints b)"
    by (simp add: validate_bundle_fields_def result_iff ids_ok_def)
  have "validate_bundle b = Ok u \<longleftrightarrow> validate_bundle_fields b = Ok ()
      \<and> results_ok (vb_criterion_results b)
      \<and> (\<exists>p. try_fold (validate_bundle_failure (cr_criterion_id ` set (vb_criterion_results b))) None
            (vb_failures b) = Ok p)
      \<and> verdict_ok b"
    unfolding validate_bundle_def and_then_Ok_iff verdict_iff results_loop_iff by auto
  then show ?thesis
    unfolding fields failures_loop_iff bundle_ok_def by blast
qed

definition proof_ok :: "current_bundle_proof \<Rightarrow> bool" where
  "proof_ok p \<longleftrightarrow> cbp_contract_version p = 1 \<and> valid_digest (cbp_bundle_digest p)
     \<and> cbp_current_pointer_digest p = cbp_bundle_digest p
     \<and> valid_digest (cbp_expected_behavior_contract_digest p)
     \<and> valid_digest (cbp_expected_capability_set_digest p)
     \<and> valid_digest (cbp_expected_command_digest p) \<and> valid_digest (cbp_expected_policy_digest p)
     \<and> valid_digest (cbp_expected_source_digest p) \<and> valid_digest (cbp_expected_environment_digest p)
     \<and> cbp_checksum_verified p \<and> cbp_integrity_verified p \<and> cbp_current_pointer_verified p"

lemma validate_proof_iff [result_iff]: "validate_proof p = Ok u \<longleftrightarrow> proof_ok p"
  by (auto simp: validate_proof_def result_iff proof_ok_def)
end
