(* ===== verification/Targeted_Rerun.thy ===== *)
theory Targeted_Rerun
  imports Verification_Acceptance
begin

text \<open>
  Which capabilities a change makes a task verify again,
  \<open>ovca-types/src/goal_runtime/local_verification/targeted_rerun.rs\<close>: the manifest of
  changed paths, the snapshot of the capability registry with its digests, the dependency
  graph with its cycle check, the closure of the capabilities a change touches, the selection
  and the routing of classified failures. JSON encoders (\<open>serde_json\<close>) are the fields of a
  codec; an encoder fails with a text.
\<close>

section \<open>Encoding\<close>

record capability_state_digest =
  csd_capability_id :: string
  csd_revision :: u64
  csd_record_digest :: string
  csd_generation :: u64

record registry_identity =
  ri_capability_id :: string
  ri_revision :: u64
  ri_record_digest :: string
  ri_generation :: u64
  ri_state_digest :: string

datatype changed_path_kind = PathAdded | PathModified | PathDeleted | PathRenamed

primrec changed_path_kind_rank :: "changed_path_kind \<Rightarrow> nat" where
  "changed_path_kind_rank PathAdded = 0"
| "changed_path_kind_rank PathModified = 1"
| "changed_path_kind_rank PathDeleted = 2"
| "changed_path_kind_rank PathRenamed = 3"

lemma changed_path_kind_rank_inject [simp]:
  "changed_path_kind_rank a = changed_path_kind_rank b \<longleftrightarrow> a = b"
  by (cases a; cases b) simp_all

instantiation changed_path_kind :: linorder
begin

definition less_eq_changed_path_kind :: "changed_path_kind \<Rightarrow> changed_path_kind \<Rightarrow> bool" where
  "less_eq_changed_path_kind a b = (changed_path_kind_rank a \<le> changed_path_kind_rank b)"

definition less_changed_path_kind :: "changed_path_kind \<Rightarrow> changed_path_kind \<Rightarrow> bool" where
  "less_changed_path_kind a b = (changed_path_kind_rank a < changed_path_kind_rank b)"

instance
  by standard (auto simp: less_eq_changed_path_kind_def less_changed_path_kind_def)

end

record changed_path_entry =
  cpe_kind :: changed_path_kind
  cpe_path :: string
  cpe_previous_path :: "string option"

type_synonym changed_path_manifest = "changed_path_entry list"

datatype unknown_path_policy = PolicyFullSafe | PolicyBlocked

record capability_registry_row =
  crr_definition :: capability_definition
  crr_record_digest :: string
  crr_generation :: u64
  crr_state_digest :: string

record capability_registry_snapshot =
  crs_capabilities :: "capability_registry_row list"
  crs_registry_snapshot_digest :: string

record targeted_rerun_request =
  trr_contract_version :: contract_version
  trr_run_id :: run_id
  trr_goal_id :: goal_id
  trr_task_id :: task_id
  trr_source_fingerprint :: string
  trr_policy_digest :: string
  trr_changed_paths :: changed_path_manifest
  trr_unknown_path_policy :: unknown_path_policy

datatype targeted_rerun_mode = ModeTargeted | ModeFullSafe

record selected_capability =
  sc_capability_id :: string
  sc_revision :: u64
  sc_record_digest :: string

text \<open>The fields a selection is digested over; the selection adds the digest.\<close>

record selection_payload =
  trs_contract_version :: contract_version
  trs_run_id :: run_id
  trs_goal_id :: goal_id
  trs_task_id :: task_id
  trs_source_fingerprint :: string
  trs_policy_digest :: string
  trs_unknown_path_policy :: unknown_path_policy
  trs_registry_snapshot_digest :: string
  trs_changed_path_manifest :: changed_path_manifest
  trs_changed_path_manifest_digest :: string
  trs_mode :: targeted_rerun_mode
  trs_unknown_paths :: "string list"
  trs_capabilities :: "selected_capability list"

record targeted_rerun_selection = selection_payload +
  trs_selection_digest :: string

record rerun_codec =
  rc_capability :: "capability_definition \<Rightarrow> string + byte list"
  rc_manifest :: "changed_path_manifest \<Rightarrow> string + byte list"
  rc_state :: "capability_state_digest \<Rightarrow> string + byte list"
  rc_registry :: "registry_identity list \<Rightarrow> string + byte list"
  rc_selection :: "selection_payload \<Rightarrow> string + byte list"

definition serialized :: "string + byte list \<Rightarrow> byte list verification_result" where
  "serialized encoded = (case encoded of
     Inl error \<Rightarrow> Err (invalid ''canonical_serialization_failed'' error) | Inr bytes \<Rightarrow> Ok bytes)"

text \<open>The source repeats the digest function of the contract layer line by line in this file.\<close>

definition sha256_hex :: "byte list \<Rightarrow> string" where
  "sha256_hex input = verification_sha256_hex input"

section \<open>Changed paths\<close>

definition invalid_manifest :: "string \<Rightarrow> local_verification_error" where
  "invalid_manifest detail = invalid ''invalid_changed_path_manifest'' detail"

definition validate_previous_path :: "changed_path_entry \<Rightarrow> unit verification_result" where
  "validate_previous_path entry =
    (if cpe_kind entry = PathRenamed then
       (case cpe_previous_path entry of
          Some previous_path \<Rightarrow>
            and_then (validate_logical_path previous_path) (\<lambda>_.
            require (previous_path \<noteq> cpe_path entry)
              (invalid_manifest ''rename source and destination must differ''))
        | None \<Rightarrow> Err (invalid_manifest ''rename entries require previous_path''))
     else require (cpe_previous_path entry = None)
       (invalid_manifest ''previous_path is valid only for rename entries''))"

definition entry_key :: "changed_path_entry \<Rightarrow> string \<times> changed_path_kind \<times> string" where
  "entry_key entry = (cpe_path entry, cpe_kind entry,
     case cpe_previous_path entry of None \<Rightarrow> [] | Some p \<Rightarrow> p)"

definition take_affected :: "string set \<Rightarrow> string \<Rightarrow> string set verification_result" where
  "take_affected affected path =
    insert_new (\<lambda>p. invalid_manifest (''duplicate affected path '' @ p)) affected path"

definition validate_entry ::
    "(string \<times> changed_path_kind \<times> string) option \<times> string set \<Rightarrow> changed_path_entry \<Rightarrow>
     ((string \<times> changed_path_kind \<times> string) option \<times> string set) verification_result" where
  "validate_entry acc entry =
    and_then (validate_logical_path (cpe_path entry)) (\<lambda>_.
    and_then (validate_previous_path entry) (\<lambda>_.
    and_then (after_prior (fst acc) (entry_key entry)
      (invalid_manifest ''changed paths must be strictly sorted and unique'')) (\<lambda>prior.
    and_then (take_affected (snd acc) (cpe_path entry)) (\<lambda>affected.
    and_then (case cpe_previous_path entry of
       Some previous_path \<Rightarrow> take_affected affected previous_path
     | None \<Rightarrow> Ok affected) (\<lambda>affected.
    Ok (prior, affected))))))"

definition validate_manifest :: "changed_path_manifest \<Rightarrow> unit verification_result" where
  "validate_manifest entries = and_then (try_fold validate_entry (None, {}) entries) (\<lambda>_. Ok ())"

definition manifest_bytes :: "rerun_codec \<Rightarrow> changed_path_manifest \<Rightarrow> byte list verification_result" where
  "manifest_bytes C manifest =
    and_then (validate_manifest manifest) (\<lambda>_. serialized (rc_manifest C manifest))"

definition logical_paths :: "changed_path_manifest \<Rightarrow> string list" where
  "logical_paths entries =
    concat (map (\<lambda>entry. cpe_path entry
      # (case cpe_previous_path entry of None \<Rightarrow> [] | Some p \<Rightarrow> [p])) entries)"

section \<open>The registry snapshot\<close>

definition row_identity :: "capability_registry_row \<Rightarrow> registry_identity" where
  "row_identity row =
    \<lparr>ri_capability_id = cd_capability_id (crr_definition row),
     ri_revision = cd_revision (crr_definition row), ri_record_digest = crr_record_digest row,
     ri_generation = crr_generation row, ri_state_digest = crr_state_digest row\<rparr>"

definition registry_snapshot_digest ::
    "rerun_codec \<Rightarrow> capability_registry_row list \<Rightarrow> string verification_result" where
  "registry_snapshot_digest C capabilities =
    and_then (serialized (rc_registry C (map row_identity capabilities))) (\<lambda>bytes.
    Ok (sha256_hex bytes))"

definition capability_bytes :: "rerun_codec \<Rightarrow> capability_definition \<Rightarrow> byte list verification_result" where
  "capability_bytes C d = and_then (validate_capability d) (\<lambda>_. serialized (rc_capability C d))"

definition row_state :: "capability_registry_row \<Rightarrow> capability_state_digest" where
  "row_state row =
    \<lparr>csd_capability_id = cd_capability_id (crr_definition row),
     csd_revision = cd_revision (crr_definition row), csd_record_digest = crr_record_digest row,
     csd_generation = crr_generation row\<rparr>"

definition validate_row ::
    "rerun_codec \<Rightarrow> string option \<Rightarrow> capability_registry_row \<Rightarrow> string option verification_result" where
  "validate_row C prior row =
    (let i = cd_capability_id (crr_definition row) in
     and_then (validate_capability (crr_definition row)) (\<lambda>_.
     and_then (after_prior prior i (invalid ''duplicate_or_noncanonical_current_identity''
       ''current capabilities must be strictly sorted by capability_id'')) (\<lambda>prior.
     and_then (validate_digest (crr_record_digest row) ''capability_record_digest'') (\<lambda>_.
     and_then (validate_digest (crr_state_digest row) ''capability_state_digest'') (\<lambda>_.
     and_then (require (crr_generation row \<noteq> 0) (invalid ''invalid_capability_generation''
       ''current capability generation must be greater than zero'')) (\<lambda>_.
     and_then (capability_bytes C (crr_definition row)) (\<lambda>canonical.
     and_then (require (sha256_hex canonical = crr_record_digest row)
       (invalid ''inconsistent_registry_snapshot'' (''record digest mismatch for '' @ i))) (\<lambda>_.
     and_then (serialized (rc_state C (row_state row))) (\<lambda>state.
     and_then (require (sha256_hex state = crr_state_digest row)
       (invalid ''inconsistent_registry_snapshot'' (''state digest mismatch for '' @ i))) (\<lambda>_.
     Ok prior))))))))))"

definition validate_rows :: "rerun_codec \<Rightarrow> capability_registry_row list \<Rightarrow> unit verification_result" where
  "validate_rows C rows = and_then (try_fold (validate_row C) None rows) (\<lambda>_. Ok ())"

definition new_snapshot ::
    "rerun_codec \<Rightarrow> capability_registry_row list \<Rightarrow> capability_registry_snapshot verification_result" where
  "new_snapshot C capabilities =
    and_then (registry_snapshot_digest C capabilities) (\<lambda>digest.
    and_then (validate_rows C capabilities) (\<lambda>_.
    Ok \<lparr>crs_capabilities = capabilities, crs_registry_snapshot_digest = digest\<rparr>))"

definition validate_snapshot ::
    "rerun_codec \<Rightarrow> capability_registry_snapshot \<Rightarrow> unit verification_result" where
  "validate_snapshot C self =
    and_then (validate_rows C (crs_capabilities self)) (\<lambda>_.
    and_then (validate_digest (crs_registry_snapshot_digest self) ''registry_snapshot_digest'') (\<lambda>_.
    and_then (registry_snapshot_digest C (crs_capabilities self)) (\<lambda>digest.
    require (digest = crs_registry_snapshot_digest self)
      (invalid ''inconsistent_registry_snapshot'' ''registry snapshot digest mismatch''))))"

section \<open>Requests and selections\<close>

definition validate_rerun_request :: "targeted_rerun_request \<Rightarrow> unit verification_result" where
  "validate_rerun_request self =
    checks
      [require (trr_contract_version self = local_verification_contract_version)
         (invalid ''unsupported_contract_version''
           ''targeted rerun request must use the local verification contract version''),
       validate_stable_id (trr_run_id self) ''run_id'',
       validate_stable_id (trr_goal_id self) ''goal_id'',
       validate_stable_id (trr_task_id self) ''task_id'',
       validate_digest (trr_source_fingerprint self) ''source_fingerprint'',
       validate_digest (trr_policy_digest self) ''policy_digest'',
       validate_manifest (trr_changed_paths self)]"

definition expected_selection_digest ::
    "rerun_codec \<Rightarrow> targeted_rerun_selection \<Rightarrow> string verification_result" where
  "expected_selection_digest C self =
    and_then (serialized (rc_selection C (selection_payload.truncate self))) (\<lambda>bytes.
    Ok (sha256_hex bytes))"

definition validate_unknown_path ::
    "string set \<Rightarrow> string option \<Rightarrow> string \<Rightarrow> string option verification_result" where
  "validate_unknown_path manifest_paths prior path =
    and_then (validate_logical_path path) (\<lambda>_.
    and_then (after_prior prior path (invalid ''noncanonical_unknown_paths''
      ''unknown paths must be strictly sorted and unique'')) (\<lambda>prior.
    and_then (require (path \<in> manifest_paths) (invalid ''unknown_path_not_in_manifest'' path)) (\<lambda>_.
    Ok prior)))"

definition validate_selected ::
    "string option \<Rightarrow> selected_capability \<Rightarrow> string option verification_result" where
  "validate_selected prior capability =
    and_then (validate_stable_id (sc_capability_id capability) ''capability_id'') (\<lambda>_.
    and_then (after_prior prior (sc_capability_id capability)
      (invalid ''noncanonical_selected_capabilities''
        ''selected capabilities must be strictly sorted and unique'')) (\<lambda>prior.
    and_then (require (sc_revision capability \<noteq> 0)
      (invalid ''invalid_capability_revision'' (sc_capability_id capability))) (\<lambda>_.
    and_then (validate_digest (sc_record_digest capability) ''capability_record_digest'') (\<lambda>_.
    Ok prior))))"

definition validate_mode :: "targeted_rerun_selection \<Rightarrow> unit verification_result" where
  "validate_mode self =
    (case trs_mode self of
       ModeTargeted \<Rightarrow> require (trs_unknown_paths self = [])
         (invalid ''targeted_mode_has_unknown_paths'' ''targeted mode requires an empty unknown path set'')
     | ModeFullSafe \<Rightarrow> checks
         [require (trs_unknown_path_policy self = PolicyFullSafe)
            (invalid ''full_safe_mode_requires_policy''
              ''full-safe mode requires the full-safe unknown path policy''),
          require (trs_unknown_paths self \<noteq> [])
            (invalid ''full_safe_mode_requires_unknown_paths''
              ''full-safe mode requires a nonempty unknown path set'')])"

definition validate_selection ::
    "rerun_codec \<Rightarrow> targeted_rerun_selection \<Rightarrow> unit verification_result" where
  "validate_selection C self =
    and_then (checks
      [require (trs_contract_version self = local_verification_contract_version)
         (invalid ''unsupported_contract_version''
           ''targeted rerun selection must use the local verification contract version''),
       validate_stable_id (trs_run_id self) ''run_id'',
       validate_stable_id (trs_goal_id self) ''goal_id'',
       validate_stable_id (trs_task_id self) ''task_id'',
       validate_digest (trs_source_fingerprint self) ''source_fingerprint'',
       validate_digest (trs_policy_digest self) ''policy_digest'',
       validate_digest (trs_registry_snapshot_digest self) ''registry_snapshot_digest'',
       validate_manifest (trs_changed_path_manifest self),
       validate_digest (trs_changed_path_manifest_digest self) ''changed_path_manifest_digest'']) (\<lambda>_.
    and_then (manifest_bytes C (trs_changed_path_manifest self)) (\<lambda>bytes.
    and_then (require (sha256_hex bytes = trs_changed_path_manifest_digest self)
      (invalid ''changed_path_manifest_digest_mismatch'' ''changed path manifest digest mismatch'')) (\<lambda>_.
    and_then (try_fold (validate_unknown_path (set (logical_paths (trs_changed_path_manifest self))))
      None (trs_unknown_paths self)) (\<lambda>_.
    and_then (require (trs_capabilities self \<noteq> [])
      (invalid ''empty_targeted_rerun_selection'' ''selected capabilities must not be empty'')) (\<lambda>_.
    and_then (try_fold validate_selected None (trs_capabilities self)) (\<lambda>_.
    and_then (validate_mode self) (\<lambda>_.
    and_then (validate_digest (trs_selection_digest self) ''selection_digest'') (\<lambda>_.
    and_then (expected_selection_digest C self) (\<lambda>digest.
    require (digest = trs_selection_digest self)
      (invalid ''selection_digest_mismatch'' ''targeted rerun selection digest mismatch''))))))))))"

definition new_selection ::
    "rerun_codec \<Rightarrow> targeted_rerun_request \<Rightarrow> capability_registry_snapshot \<Rightarrow> targeted_rerun_mode \<Rightarrow>
     string list \<Rightarrow> selected_capability list \<Rightarrow> targeted_rerun_selection verification_result" where
  "new_selection C request snapshot mode unknown_paths capabilities =
    and_then (manifest_bytes C (trr_changed_paths request)) (\<lambda>bytes.
    let unsealed = \<lparr>trs_contract_version = trr_contract_version request,
       trs_run_id = trr_run_id request, trs_goal_id = trr_goal_id request,
       trs_task_id = trr_task_id request,
       trs_source_fingerprint = trr_source_fingerprint request,
       trs_policy_digest = trr_policy_digest request,
       trs_unknown_path_policy = trr_unknown_path_policy request,
       trs_registry_snapshot_digest = crs_registry_snapshot_digest snapshot,
       trs_changed_path_manifest = trr_changed_paths request,
       trs_changed_path_manifest_digest = sha256_hex bytes, trs_mode = mode,
       trs_unknown_paths = unknown_paths, trs_capabilities = capabilities,
       trs_selection_digest = []\<rparr> in
    and_then (expected_selection_digest C unsealed) (\<lambda>digest.
    let sealed = unsealed\<lparr>trs_selection_digest := digest\<rparr> in
    and_then (validate_selection C sealed) (\<lambda>_. Ok sealed)))"

section \<open>The dependency graph\<close>

type_synonym visit_state = "(string, nat) btree_map"

definition visit_color :: "visit_state \<Rightarrow> string \<Rightarrow> nat" where
  "visit_color state i = (case bm_get state i of None \<Rightarrow> 0 | Some c \<Rightarrow> c)"

definition rerun_dependencies_of :: "(string, string list) btree_map \<Rightarrow> string \<Rightarrow> string list" where
  "rerun_dependencies_of dependencies i = (case bm_get dependencies i of None \<Rightarrow> [] | Some ds \<Rightarrow> ds)"

text \<open>A visit only colours nodes, so fewer and fewer nodes of the graph are white.\<close>

definition whites :: "(string, string list) btree_map \<Rightarrow> visit_state \<Rightarrow> string set" where
  "whites dependencies state = {i \<in> set (bm_keys dependencies). visit_color state i \<notin> {1, 2}}"

lemma visit_color_insert [simp]:
  "visit_color (bm_insert i c state) j = (if j = i then c else visit_color state j)"
  by (simp add: visit_color_def)

text \<open>
  The recursive visit and its loop over the dependencies: white (0) nodes turn grey (1) while
  their dependencies are visited and black (2) afterwards; meeting a grey node is a cycle.
\<close>

function visit_dependency ::
    "(string, string list) btree_map \<Rightarrow> string \<Rightarrow> visit_state \<Rightarrow> bool \<times> visit_state"
  and visit_dependencies ::
    "(string, string list) btree_map \<Rightarrow> string list \<Rightarrow> visit_state \<Rightarrow> bool \<times> visit_state" where
  "visit_dependency dependencies i state =
    (if visit_color state i = 1 then (True, state)
     else if visit_color state i = 2 then (False, state)
     else case visit_dependencies dependencies (rerun_dependencies_of dependencies i) (bm_insert i 1 state) of
         (True, state) \<Rightarrow> (True, state)
       | (False, state) \<Rightarrow> (False, bm_insert i 2 state))"
| "visit_dependencies dependencies [] state = (False, state)"
| "visit_dependencies dependencies (d # ds) state =
    (case visit_dependency dependencies d state of
       (True, state) \<Rightarrow> (True, state)
     | (False, state) \<Rightarrow> visit_dependencies dependencies ds state)"
  by pat_completeness auto

termination
proof -
  have visit_whites:
    "visit_dependency_visit_dependencies_dom (Inl (deps, i, state)) \<Longrightarrow>
       whites deps (snd (visit_dependency deps i state)) \<subseteq> whites deps state"
    "visit_dependency_visit_dependencies_dom (Inr (deps, ds, state)) \<Longrightarrow>
       whites deps (snd (visit_dependencies deps ds state)) \<subseteq> whites deps state"
    for deps i ds state
  proof (induction rule: visit_dependency_visit_dependencies.pinduct)
    case (1 deps i state)
    obtain c s where inner: "visit_dependencies deps (rerun_dependencies_of deps i) (bm_insert i 1 state) = (c, s)"
      by fastforce
    have "whites deps (bm_insert i 1 state) \<subseteq> whites deps state"
      and "whites deps (bm_insert i 2 s) \<subseteq> whites deps s"
      by (auto simp: whites_def)
    then show ?case
      using 1 inner by (cases c) (auto simp: visit_dependency.psimps)
  next
    case (2 deps state)
    then show ?case by (simp add: visit_dependencies.psimps)
  next
    case (3 deps d ds state)
    obtain c s where inner: "visit_dependency deps d state = (c, s)"
      by fastforce
    then show ?case
      using 3 by (cases c) (auto simp: visit_dependencies.psimps)
  qed
  show ?thesis
  proof (relation "measures
      [\<lambda>x. case x of Inl (deps, i, state) \<Rightarrow> card (whites deps state)
              | Inr (deps, ds, state) \<Rightarrow> card (whites deps state),
       \<lambda>x. case x of Inl _ \<Rightarrow> 1 | Inr (deps, ds, state) \<Rightarrow> 2 * length ds]", goal_cases)
    case 1
    then show ?case by simp
  next
    case (2 deps i state)
    show ?case
    proof (cases "i \<in> set (bm_keys deps)")
      case True
      then have "whites deps (bm_insert i 1 state) \<subset> whites deps state"
        using 2 True by (auto simp: whites_def psubset_eq)
      moreover have "finite (whites deps state)" by (simp add: whites_def)
      ultimately show ?thesis by (simp add: psubset_card_mono)
    next
      case False
      then have "rerun_dependencies_of deps i = []"
        by (simp add: rerun_dependencies_of_def bm_keys_iff split: option.splits)
      moreover have "whites deps (bm_insert i 1 state) = whites deps state"
        using False by (auto simp: whites_def)
      ultimately show ?thesis by simp
    qed
  next
    case (3 deps d ds state)
    then show ?case by simp
  next
    case (4 deps d ds state c s)
    then have "whites deps s \<subseteq> whites deps state"
      using visit_whites(1) [of deps d state] by (metis snd_conv)
    moreover have "finite (whites deps state)" by (simp add: whites_def)
    ultimately have "card (whites deps s) \<le> card (whites deps state)" by (rule card_mono [rotated])
    then show ?case by (auto simp: order_le_less)
  qed
qed

declare visit_dependency.simps [simp del]

section \<open>The closure\<close>

text \<open>One pass of the inner loop over the registry, in key order, then passes until nothing grows.\<close>

definition impact_step :: "string \<times> string list \<Rightarrow> string set \<Rightarrow> string set" where
  "impact_step row impacted =
    (if list_ex (\<lambda>d. d \<in> impacted) (snd row) then insert (fst row) impacted else impacted)"

definition impact_pass :: "(string, string list) btree_map \<Rightarrow> string set \<Rightarrow> string set" where
  "impact_pass by_id impacted = fold impact_step (bm_entries by_id) impacted"

lemma impact_fold_grows: "impacted \<subseteq> fold impact_step rows impacted"
proof (induction rows arbitrary: impacted)
  case (Cons row rows)
  have "impacted \<subseteq> impact_step row impacted" by (auto simp: impact_step_def)
  then show ?case using Cons [of "impact_step row impacted"] by auto
qed simp

lemma impact_fold_bound: "fold impact_step rows impacted \<subseteq> impacted \<union> fst ` set rows"
proof (induction rows arbitrary: impacted)
  case (Cons row rows)
  have "impact_step row impacted \<subseteq> insert (fst row) impacted" by (auto simp: impact_step_def)
  then show ?case using Cons [of "impact_step row impacted"] by auto
qed simp

lemma impact_pass_bounds:
  "impacted \<subseteq> impact_pass by_id impacted"
  "impact_pass by_id impacted \<subseteq> impacted \<union> set (bm_keys by_id)"
  using impact_fold_grows [of impacted "bm_entries by_id"] impact_fold_bound [of "bm_entries by_id" impacted]
  by (simp_all add: impact_pass_def bm_keys_def)

function impact_loop :: "(string, string list) btree_map \<Rightarrow> string set \<Rightarrow> string set" where
  "impact_loop by_id impacted =
    (let after = impact_pass by_id impacted in
     if card after = card impacted then after else impact_loop by_id after)"
  by pat_completeness auto

termination
proof (relation "measure (\<lambda>(by_id, impacted). card (set (bm_keys by_id) - impacted))", goal_cases)
  case (2 by_id impacted after)
  then have grown: "impacted \<subset> impact_pass by_id impacted"
    using impact_pass_bounds(1) [of impacted by_id] by auto
  then have "set (bm_keys by_id) - after \<subset> set (bm_keys by_id) - impacted"
    using 2 impact_pass_bounds(2) [of by_id impacted] by blast
  then show ?case by (simp add: psubset_card_mono)
qed simp

declare impact_loop.simps [simp del]

definition push_dependency :: "string \<Rightarrow> string set \<times> string list \<Rightarrow> string set \<times> string list" where
  "push_dependency d acc =
    (if d \<in> fst acc then acc else (insert d (fst acc), d # snd acc))"

text \<open>The work list; its head is the end of the vector that \<open>pop\<close> takes.\<close>

definition all_dependencies :: "(string, string list) btree_map \<Rightarrow> string set" where
  "all_dependencies by_id = \<Union> (set ` snd ` set (bm_entries by_id))"

lemma push_measure:
  assumes "finite U" "set ds \<subseteq> U"
  shows "length (snd (fold push_dependency ds acc)) + card (U - fst (fold push_dependency ds acc))
    = length (snd acc) + card (U - fst acc)"
  using assms(2)
proof (induction ds arbitrary: acc)
  case Nil
  then show ?case by simp
next
  case (Cons d ds)
  have "length (snd (push_dependency d acc)) + card (U - fst (push_dependency d acc))
      = length (snd acc) + card (U - fst acc)"
  proof (cases "d \<in> fst acc")
    case False
    then have "U - fst acc = insert d (U - insert d (fst acc))" using Cons.prems by auto
    then have "card (U - fst acc) = Suc (card (U - insert d (fst acc)))"
      using assms(1) by (metis DiffD2 card_insert_disjoint finite_Diff insertI1)
    then show ?thesis using False by (simp add: push_dependency_def)
  qed (simp add: push_dependency_def)
  then show ?case using Cons by simp
qed

function closure_loop ::
    "(string, string list) btree_map \<Rightarrow> string set \<Rightarrow> string list \<Rightarrow> (string, string set) result" where
  "closure_loop by_id selected [] = Ok selected"
| "closure_loop by_id selected (capability_id # pending) =
    (case bm_get by_id capability_id of
       None \<Rightarrow> Err (''closure references missing capability '' @ capability_id)
     | Some ds \<Rightarrow>
         let (selected, pending) = fold push_dependency ds (selected, pending)
         in closure_loop by_id selected pending)"
  by pat_completeness auto

termination
proof (relation "measure (\<lambda>(by_id, selected, pending). length pending + card (all_dependencies by_id - selected))",
    goal_cases)
  case (2 by_id selected i pending ds x selected' pending')
  have fin: "finite (all_dependencies by_id)" by (simp add: all_dependencies_def)
  have "set ds \<subseteq> all_dependencies by_id"
    using 2(1) by (force simp: all_dependencies_def simp flip: bm_entries_iff)
  from push_measure [OF fin this, of "(selected, pending)"] 2(3) [symmetric] 2(2) show ?case
    by (cases "fold push_dependency ds (selected, pending)") auto
qed simp

definition selection_closure ::
    "string set \<Rightarrow> (string, string list) btree_map \<Rightarrow> (string, string set) result" where
  "selection_closure direct by_id =
    (let impacted = impact_loop by_id direct
     in closure_loop by_id impacted (rev (sorted_list_of_set impacted)))"

section \<open>Selection\<close>

datatype no_applicable_reason = ZeroChangedPaths | NoDirectMatch

datatype rerun_block_code =
    BlockedInvalidRequest | BlockedInvalidManifest | BlockedInconsistentRegistry
  | BlockedDuplicateCurrentIdentity | BlockedMissingDependency | BlockedDependencyCycle
  | BlockedUnknownPath | BlockedEmptyRegistry

datatype targeted_rerun_outcome =
    RerunSelected targeted_rerun_selection
  | NoApplicableCapability no_applicable_reason
  | RerunBlocked rerun_block_code string

definition row_id :: "capability_registry_row \<Rightarrow> string" where
  "row_id row = cd_capability_id (crr_definition row)"

definition row_dependencies :: "capability_registry_row \<Rightarrow> string list" where
  "row_dependencies row = cd_dependencies (crr_definition row)"

definition check_dependency ::
    "string set \<Rightarrow> capability_registry_row \<Rightarrow> string \<Rightarrow> (rerun_block_code \<times> string, unit) result" where
  "check_dependency ids row dependency =
    require (dependency \<in> ids)
      (BlockedMissingDependency, row_id row @ '' depends on missing '' @ dependency)"

fun visit_all ::
    "(string, string list) btree_map \<Rightarrow> string list \<Rightarrow> visit_state \<Rightarrow>
     (rerun_block_code \<times> string, unit) result" where
  "visit_all dependencies [] state = Ok ()"
| "visit_all dependencies (i # ids) state =
    (case visit_dependency dependencies i state of
       (True, state) \<Rightarrow> Err (BlockedDependencyCycle, ''dependency cycle includes '' @ i)
     | (False, state) \<Rightarrow> visit_all dependencies ids state)"

definition validate_dependency_graph ::
    "capability_registry_row list \<Rightarrow> (rerun_block_code \<times> string, unit) result" where
  "validate_dependency_graph rows =
    (let ids = map row_id rows in
     and_then (checks (concat (map (\<lambda>row. map (check_dependency (set ids) row) (row_dependencies row)) rows))) (\<lambda>_.
     visit_all (bm_collect (map (\<lambda>row. (row_id row, row_dependencies row)) rows)) (ordered_set ids)
       (bm_collect (map (\<lambda>i. (i, 0)) (ordered_set ids)))))"

definition selector_matches :: "path_selector_kind \<Rightarrow> string \<Rightarrow> string \<Rightarrow> bool" where
  "selector_matches kind selector path \<longleftrightarrow>
    (case kind of
       Exact \<Rightarrow> path = selector
     | Prefix \<Rightarrow> path = selector
         \<or> take (length selector) path = selector \<and> take 1 (drop (length selector) path) = ''/'')"

definition matching_ids :: "capability_registry_row list \<Rightarrow> string \<Rightarrow> string list" where
  "matching_ids rows path =
    map row_id (filter (\<lambda>row. list_ex (\<lambda>s. selector_matches (cps_kind s) (cps_path s) path)
      (cd_changed_path_selectors (crr_definition row))) rows)"

text \<open>The loop over the changed paths: matched capabilities, and paths nothing matches.\<close>

definition sort_path ::
    "capability_registry_row list \<Rightarrow> string \<Rightarrow> string set \<times> string set \<Rightarrow> string set \<times> string set" where
  "sort_path rows path acc =
    (case acc of (direct, unknown_paths) \<Rightarrow>
     let matches = matching_ids rows path in
     if matches = [] then (direct, insert path unknown_paths)
     else (direct \<union> set matches, unknown_paths))"

fun join_with :: "string \<Rightarrow> string list \<Rightarrow> string" where
  "join_with sep [] = []"
| "join_with sep [s] = s"
| "join_with sep (s # ss) = s @ sep @ join_with sep ss"

text \<open>The mode and the selected IDs, or the outcome that ends the selection here.\<close>

definition choose_capabilities ::
    "targeted_rerun_request \<Rightarrow> (string, capability_registry_row) btree_map \<Rightarrow> string set \<Rightarrow> string list \<Rightarrow>
     targeted_rerun_outcome + targeted_rerun_mode \<times> string list" where
  "choose_capabilities request by_id direct unknown_paths =
    (if unknown_paths = [] then
       if direct = {} then Inl (NoApplicableCapability NoDirectMatch)
       else (case selection_closure direct (bm_map row_dependencies by_id) of
          Ok selected \<Rightarrow> Inr (ModeTargeted, sorted_list_of_set selected)
        | Err detail \<Rightarrow> Inl (RerunBlocked BlockedInconsistentRegistry detail)
        | Panic \<Rightarrow> Inl (RerunBlocked BlockedInconsistentRegistry []))
     else (case trr_unknown_path_policy request of
          PolicyBlocked \<Rightarrow> Inl (RerunBlocked BlockedUnknownPath
            (''unrecognized changed paths: '' @ join_with '','' unknown_paths))
        | PolicyFullSafe \<Rightarrow> Inr (ModeFullSafe, bm_keys by_id)))"

definition pick_capability ::
    "(string, capability_registry_row) btree_map \<Rightarrow> selected_capability list \<Rightarrow> string \<Rightarrow>
     (string, selected_capability list) result" where
  "pick_capability by_id capabilities capability_id =
    and_then (ok_or (bm_get by_id capability_id)
      (''closure references missing capability '' @ capability_id)) (\<lambda>row.
    Ok (capabilities @ [\<lparr>sc_capability_id = capability_id,
       sc_revision = cd_revision (crr_definition row),
       sc_record_digest = crr_record_digest row\<rparr>]))"

definition seal_selection ::
    "rerun_codec \<Rightarrow> targeted_rerun_request \<Rightarrow> capability_registry_snapshot \<Rightarrow>
     (string, capability_registry_row) btree_map \<Rightarrow> string list \<Rightarrow> targeted_rerun_mode \<times> string list \<Rightarrow>
     targeted_rerun_outcome" where
  "seal_selection C request snapshot by_id unknown_paths choice =
    (case try_fold (pick_capability by_id) [] (snd choice) of
       Err detail \<Rightarrow> RerunBlocked BlockedInconsistentRegistry detail
     | Panic \<Rightarrow> RerunBlocked BlockedInconsistentRegistry []
     | Ok capabilities \<Rightarrow>
         (case new_selection C request snapshot (fst choice) unknown_paths capabilities of
            Ok selection \<Rightarrow> RerunSelected selection
          | Err error \<Rightarrow> RerunBlocked BlockedInconsistentRegistry (display_error error)
          | Panic \<Rightarrow> RerunBlocked BlockedInconsistentRegistry []))"

definition request_block_code :: "local_verification_error \<Rightarrow> rerun_block_code" where
  "request_block_code error =
    (if lve_code error = ''invalid_changed_path_manifest'' \<or> lve_code error = ''unsafe_logical_path''
     then BlockedInvalidManifest else BlockedInvalidRequest)"

definition snapshot_block_code :: "local_verification_error \<Rightarrow> rerun_block_code" where
  "snapshot_block_code error =
    (if lve_code error = ''duplicate_or_noncanonical_current_identity''
     then BlockedDuplicateCurrentIdentity else BlockedInconsistentRegistry)"

definition select_changed ::
    "rerun_codec \<Rightarrow> targeted_rerun_request \<Rightarrow> capability_registry_snapshot \<Rightarrow> targeted_rerun_outcome" where
  "select_changed C request snapshot =
    (let rows = crs_capabilities snapshot;
         by_id = bm_collect (map (\<lambda>row. (row_id row, row)) rows);
         (direct, unknown) = fold (sort_path rows) (logical_paths (trr_changed_paths request)) ({}, {});
         unknown_paths = sorted_list_of_set unknown
     in case choose_capabilities request by_id direct unknown_paths of
          Inl outcome \<Rightarrow> outcome
        | Inr choice \<Rightarrow> seal_selection C request snapshot by_id unknown_paths choice)"

text \<open>
  The two outer failures of the source are plain early returns; a validator never panics, so
  the third result is never met.
\<close>

definition select_targeted_rerun ::
    "rerun_codec \<Rightarrow> targeted_rerun_request \<Rightarrow> capability_registry_snapshot \<Rightarrow> targeted_rerun_outcome" where
  "select_targeted_rerun C request snapshot =
    (case validate_rerun_request request of
       Err error \<Rightarrow> RerunBlocked (request_block_code error) (display_error error)
     | Panic \<Rightarrow> RerunBlocked BlockedInvalidRequest []
     | Ok _ \<Rightarrow>
    (case validate_snapshot C snapshot of
       Err error \<Rightarrow> RerunBlocked (snapshot_block_code error) (display_error error)
     | Panic \<Rightarrow> RerunBlocked BlockedInconsistentRegistry []
     | Ok _ \<Rightarrow>
    (case validate_dependency_graph (crs_capabilities snapshot) of
       Err (code, detail) \<Rightarrow> RerunBlocked code detail
     | Panic \<Rightarrow> RerunBlocked BlockedInconsistentRegistry []
     | Ok _ \<Rightarrow>
       if trr_changed_paths request = [] then NoApplicableCapability ZeroChangedPaths
       else if crs_capabilities snapshot = [] then
         (case trr_unknown_path_policy request of
            PolicyFullSafe \<Rightarrow> RerunBlocked BlockedEmptyRegistry
              ''full-safe selection cannot run an empty registry''
          | PolicyBlocked \<Rightarrow> RerunBlocked BlockedUnknownPath
              ''no current capability recognizes the changed paths'')
       else select_changed C request snapshot)))"

definition validate_against ::
    "rerun_codec \<Rightarrow> targeted_rerun_selection \<Rightarrow> targeted_rerun_request \<Rightarrow>
     capability_registry_snapshot \<Rightarrow> unit verification_result" where
  "validate_against C self request snapshot =
    and_then (validate_selection C self) (\<lambda>_.
    and_then (validate_rerun_request request) (\<lambda>_.
    and_then (validate_snapshot C snapshot) (\<lambda>_.
    case select_targeted_rerun C request snapshot of
      RerunSelected selection \<Rightarrow> require (selection = self)
        (invalid ''selection_context_mismatch''
          ''selection is not the exact deterministic result for the supplied request and registry snapshot'')
    | _ \<Rightarrow> Err (invalid ''selection_context_mismatch''
          ''selection is not the exact deterministic result for the supplied request and registry snapshot''))))"

end
