(* ===== verification/Targeted_Rerun_Safety.thy ===== *)
theory Targeted_Rerun_Safety
  imports Targeted_Rerun
begin

text \<open>
  What the rerun selection computes: the visit of the dependency graph finds exactly the
  cycles, the two closure loops compute reachability, and a selection is the set of
  capabilities a change concerns, or the whole registry. \<open>select_iff\<close> and
  \<open>new_selection_succeeds\<close> say when there is one.
\<close>

section \<open>Cycles\<close>

definition depends :: "(string, string list) btree_map \<Rightarrow> (string \<times> string) set" where
  "depends deps = {(a, b). b \<in> set (rerun_dependencies_of deps a)}"

definition grey :: "visit_state \<Rightarrow> string set" where
  "grey state = {i. visit_color state i = 1}"

definition black :: "visit_state \<Rightarrow> string set" where
  "black state = {i. visit_color state i = 2}"

text \<open>Black nodes only depend on black nodes and lie on no cycle.\<close>

definition explored :: "(string, string list) btree_map \<Rightarrow> visit_state \<Rightarrow> bool" where
  "explored deps state \<longleftrightarrow> depends deps `` black state \<subseteq> black state
     \<and> (\<forall>i \<in> black state. (i, i) \<notin> (depends deps)\<^sup>+)"

definition leads_to :: "(string, string list) btree_map \<Rightarrow> visit_state \<Rightarrow> string \<Rightarrow> bool" where
  "leads_to deps state i \<longleftrightarrow> (\<forall>g \<in> grey state. (g, i) \<in> (depends deps)\<^sup>+)"

text \<open>The outcome of a visit to some nodes: a cycle, or these nodes are explored as well.\<close>

definition visited ::
    "(string, string list) btree_map \<Rightarrow> visit_state \<Rightarrow> string set \<Rightarrow> bool \<times> visit_state \<Rightarrow> bool" where
  "visited deps state nodes result \<longleftrightarrow>
     (if fst result then \<not> acyclic (depends deps)
      else grey (snd result) = grey state \<and> black state \<union> nodes \<subseteq> black (snd result)
        \<and> explored deps (snd result))"

lemma closed_rtrancl: "R `` B \<subseteq> B \<Longrightarrow> (a, b) \<in> R\<^sup>* \<Longrightarrow> a \<in> B \<Longrightarrow> b \<in> B"
  by (metis Image_closed_trancl ImageI)

lemma blacken:
  assumes "explored deps s" and "set (rerun_dependencies_of deps i) \<subseteq> black s" and "i \<in> grey s"
  shows "explored deps (bm_insert i 2 s)" "black (bm_insert i 2 s) = insert i (black s)"
    "grey (bm_insert i 2 s) = grey s - {i}"
proof -
  show blacks: "black (bm_insert i 2 s) = insert i (black s)" "grey (bm_insert i 2 s) = grey s - {i}"
    by (auto simp: black_def grey_def split: if_splits)
  have closed: "depends deps `` black s \<subseteq> black s"
    using assms(1) by (simp add: explored_def)
  have "(i, i) \<notin> (depends deps)\<^sup>+"
  proof
    assume "(i, i) \<in> (depends deps)\<^sup>+"
    then obtain d where "(i, d) \<in> depends deps" "(d, i) \<in> (depends deps)\<^sup>*"
      by (meson tranclD)
    then have "i \<in> black s"
      using closed_rtrancl [OF closed] assms(2) by (auto simp: depends_def)
    then show False using assms(3) by (simp add: black_def grey_def)
  qed
  then show "explored deps (bm_insert i 2 s)"
    using assms(1,2) unfolding explored_def blacks by (auto simp: depends_def)
qed

lemma visit_explores:
  "explored deps state \<Longrightarrow> leads_to deps state i \<Longrightarrow>
     visited deps state {i} (visit_dependency deps i state)"
  "explored deps state \<Longrightarrow> (\<And>d. d \<in> set ds \<Longrightarrow> leads_to deps state d) \<Longrightarrow>
     visited deps state (set ds) (visit_dependencies deps ds state)"
proof (induction deps i state and deps ds state rule: visit_dependency_visit_dependencies.induct)
  case (1 deps i state)
  consider "visit_color state i = 1" | "visit_color state i = 2"
    | "visit_color state i \<noteq> 1" "visit_color state i \<noteq> 2" by blast
  then show ?case
  proof cases
    case 1
    then have "(i, i) \<in> (depends deps)\<^sup>+"
      using "1.prems"(2) by (simp add: leads_to_def grey_def)
    then show ?thesis
      using 1 by (auto simp: visit_dependency.simps visited_def acyclic_def)
  next
    case 2
    then show ?thesis
      using "1.prems" by (auto simp: visit_dependency.simps visited_def black_def)
  next
    case 3
    let ?s = "bm_insert i 1 state"
    obtain c s where inner: "visit_dependencies deps (rerun_dependencies_of deps i) ?s = (c, s)"
      by fastforce
    have start: "black ?s = black state" "grey ?s = insert i (grey state)"
      using 3 by (auto simp: black_def grey_def)
    then have "explored deps ?s" using "1.prems"(1) by (simp add: explored_def)
    moreover have "leads_to deps ?s d" if "d \<in> set (rerun_dependencies_of deps i)" for d
      using "1.prems"(2) that unfolding leads_to_def start
      by (auto simp: depends_def intro: trancl_into_trancl)
    ultimately have IH: "visited deps ?s (set (rerun_dependencies_of deps i)) (c, s)"
      using "1.IH" 3 inner by simp
    show ?thesis
    proof (cases c)
      case True
      then show ?thesis using IH inner 3 by (simp add: visit_dependency.simps visited_def)
    next
      case False
      then have s: "explored deps s" "set (rerun_dependencies_of deps i) \<subseteq> black s" "i \<in> grey s"
          "grey s = insert i (grey state)" "black state \<subseteq> black s"
        using IH start by (auto simp: visited_def)
      moreover have "i \<notin> grey state" using 3 by (simp add: grey_def)
      ultimately show ?thesis
        using blacken [OF s(1-3)] inner 3 False
        by (simp add: visit_dependency.simps visited_def) blast
    qed
  qed
next
  case (2 deps state)
  then show ?case by (simp add: visited_def)
next
  case (3 deps d ds state)
  obtain c s where inner: "visit_dependency deps d state = (c, s)"
    by fastforce
  have IH: "visited deps state {d} (c, s)"
    using "3.IH"(1) "3.prems" inner by simp
  show ?case
  proof (cases c)
    case True
    then show ?thesis using IH inner by (simp add: visited_def)
  next
    case False
    then have s: "explored deps s" "grey s = grey state" "insert d (black state) \<subseteq> black s"
      using IH by (simp_all add: visited_def)
    then have "visited deps s (set ds) (visit_dependencies deps ds s)"
      using "3.IH"(2) [OF inner [symmetric]] "3.prems"(2) False inner by (simp add: leads_to_def)
    then show ?thesis
      using s inner False by (auto simp: visited_def) blast
  qed
qed
section \<open>What is selected\<close>

lemma depends_iff: "(a, b) \<in> depends by_id \<longleftrightarrow> (\<exists>ds. bm_get by_id a = Some ds \<and> b \<in> set ds)"
  by (cases "bm_get by_id a") (simp_all add: depends_def rerun_dependencies_of_def)

lemma impact_fold_closed:
  assumes "impact_pass by_id impacted = impacted"
    and "bm_get by_id a = Some ds" "b \<in> set ds" "b \<in> impacted"
  shows "a \<in> impacted"
proof -
  have "(a, ds) \<in> set rows \<Longrightarrow> b \<in> I \<Longrightarrow> a \<in> fold impact_step rows I" for rows I
  proof (induction rows arbitrary: I)
    case (Cons row rows)
    show ?case
    proof (cases "row = (a, ds)")
      case True
      then have "a \<in> impact_step row I"
        using Cons.prems(2) assms(3) by (auto simp: impact_step_def list_ex_iff)
      then show ?thesis using impact_fold_grows [of "impact_step row I" rows] by auto
    next
      case False
      have "b \<in> impact_step row I" using Cons.prems(2) by (auto simp: impact_step_def)
      then show ?thesis using Cons False by simp
    qed
  qed simp
  then have "a \<in> impact_pass by_id impacted"
    using assms(2,4) by (simp add: impact_pass_def bm_entries_iff)
  then show ?thesis by (simp add: assms(1))
qed

lemma impact_step_sound:
  assumes "row \<in> set (bm_entries by_id)" and "I \<subseteq> ((depends by_id)\<inverse>)\<^sup>* `` D"
  shows "impact_step row I \<subseteq> ((depends by_id)\<inverse>)\<^sup>* `` D"
proof (cases "list_ex (\<lambda>d. d \<in> I) (snd row)")
  case True
  then obtain b where b: "b \<in> set (snd row)" "b \<in> I" by (auto simp: list_ex_iff)
  then obtain d where d: "d \<in> D" "(d, b) \<in> ((depends by_id)\<inverse>)\<^sup>*" using assms(2) by blast
  moreover have "(b, fst row) \<in> (depends by_id)\<inverse>"
  proof -
    have "(fst row, snd row) \<in> set (bm_entries by_id)" using assms(1) by simp
    then have "bm_get by_id (fst row) = Some (snd row)" by (simp only: bm_entries_iff)
    then show ?thesis using b(1) by (auto simp: depends_iff)
  qed
  ultimately have "(d, fst row) \<in> ((depends by_id)\<inverse>)\<^sup>*" by (simp add: rtrancl_into_rtrancl)
  then show ?thesis using assms(2) d(1) by (auto simp: impact_step_def)
qed (simp add: impact_step_def assms(2))

lemma impact_pass_sound:
  assumes "I \<subseteq> ((depends by_id)\<inverse>)\<^sup>* `` D"
  shows "impact_pass by_id I \<subseteq> ((depends by_id)\<inverse>)\<^sup>* `` D"
proof -
  have "set rows \<subseteq> set (bm_entries by_id) \<Longrightarrow> I \<subseteq> ((depends by_id)\<inverse>)\<^sup>* `` D \<Longrightarrow>
      fold impact_step rows I \<subseteq> ((depends by_id)\<inverse>)\<^sup>* `` D" for rows I
    by (induction rows arbitrary: I) (simp_all add: impact_step_sound)
  then show ?thesis using assms by (simp add: impact_pass_def)
qed

lemma impact_loop_eq:
  assumes "finite D"
  shows "impact_loop by_id D = ((depends by_id)\<inverse>)\<^sup>* `` D"
proof -
  have "finite I \<Longrightarrow> D \<subseteq> I \<Longrightarrow> I \<subseteq> ((depends by_id)\<inverse>)\<^sup>* `` D \<Longrightarrow>
      impact_loop by_id I = ((depends by_id)\<inverse>)\<^sup>* `` D" for I
  proof (induction by_id I rule: impact_loop.induct)
    case (1 by_id I)
    let ?after = "impact_pass by_id I"
    have after: "finite ?after" "I \<subseteq> ?after" "?after \<subseteq> ((depends by_id)\<inverse>)\<^sup>* `` D"
      using impact_pass_bounds(1) [of I by_id] impact_pass_bounds(2) [of by_id I] 1(2)
        impact_pass_sound [OF 1(4)] by (auto intro: finite_subset)
    show ?case
    proof (cases "card ?after = card I")
      case True
      then have fixed: "?after = I" using after card_subset_eq [of ?after I] by simp
      have "(depends by_id)\<inverse> `` I \<subseteq> I"
        using impact_fold_closed [OF fixed] by (auto simp: depends_iff)
      then have "((depends by_id)\<inverse>)\<^sup>* `` D \<subseteq> I"
        using 1(3) by (metis Image_closed_trancl Image_mono order_refl)
      then show ?thesis
        using 1(4) fixed by (simp add: impact_loop.simps [of by_id I] Let_def)
    next
      case False
      then show ?thesis
        using 1 after by (simp add: impact_loop.simps [of by_id I] Let_def)
    qed
  qed
  from this [OF assms] show ?thesis by auto
qed

lemma fold_push_fst: "fst (fold push_dependency ds acc) = fst acc \<union> set ds"
  by (induction ds arbitrary: acc) (auto simp: push_dependency_def)

lemma fold_push_snd: "set (snd (fold push_dependency ds acc)) = set (snd acc) \<union> (set ds - fst acc)"
  by (induction ds arbitrary: acc) (auto simp: push_dependency_def)

text \<open>Every selected node that is no longer pending has all its dependencies selected.\<close>

lemma closure_loop_eq:
  assumes "\<And>a. a \<in> depends by_id `` UNIV \<union> set stack \<Longrightarrow> a \<in> set (bm_keys by_id)"
    and "set stack \<subseteq> selected" "depends by_id `` (selected - set stack) \<subseteq> selected"
  shows "closure_loop by_id selected stack = Ok ((depends by_id)\<^sup>* `` selected)"
  using assms
proof (induction by_id selected stack rule: closure_loop.induct)
  case (1 by_id selected)
  then have "(depends by_id)\<^sup>* `` selected = selected"
    by (intro Image_closed_trancl) simp
  then show ?case by simp
next
  case (2 by_id selected i pending)
  obtain ds where ds: "bm_get by_id i = Some ds"
    using "2.prems"(1) [of i] by (auto simp: bm_keys_iff)
  obtain selected' pending' where push: "fold push_dependency ds (selected, pending) = (selected', pending')"
    by fastforce
  have sets: "selected' = selected \<union> set ds" "set pending' = set pending \<union> (set ds - selected)"
    using fold_push_fst [of ds "(selected, pending)"] fold_push_snd [of ds "(selected, pending)"] push
    by simp_all
  have succ: "depends by_id `` {i} = set ds" using ds by (auto simp: depends_iff)
  have "closure_loop by_id selected' pending' = Ok ((depends by_id)\<^sup>* `` selected')"
  proof (rule "2.IH" [OF ds push [symmetric] refl])
    show "a \<in> set (bm_keys by_id)" if "a \<in> depends by_id `` UNIV \<union> set pending'" for a
      using that "2.prems"(1) sets succ by auto
    show "set pending' \<subseteq> selected'" using "2.prems"(2) sets by auto
    show "depends by_id `` (selected' - set pending') \<subseteq> selected'"
      using "2.prems"(3) sets succ by auto
  qed
  moreover have "(depends by_id)\<^sup>* `` selected' = (depends by_id)\<^sup>* `` selected"
    using "2.prems"(2) succ unfolding sets
    by (auto intro: converse_rtrancl_into_rtrancl)
  ultimately show ?case using ds push by simp
qed

text \<open>
  The closure: every capability that depends, through any number of steps, on one the change
  touches, and everything these depend on.
\<close>

lemma selection_closure_eq:
  assumes "finite direct" and "direct \<union> depends by_id `` UNIV \<subseteq> set (bm_keys by_id)"
  shows "selection_closure direct by_id
    = Ok ((depends by_id)\<^sup>* `` (((depends by_id)\<inverse>)\<^sup>* `` direct))"
proof -
  let ?impacted = "((depends by_id)\<inverse>)\<^sup>* `` direct"
  have keys: "?impacted \<subseteq> set (bm_keys by_id)"
  proof
    fix a assume "a \<in> ?impacted"
    then obtain d where "(a, d) \<in> (depends by_id)\<^sup>*" "d \<in> direct"
      by (auto simp: rtrancl_converse)
    then show "a \<in> set (bm_keys by_id)"
      using assms(2) by (cases rule: converse_rtranclE) (auto simp: depends_iff bm_keys_iff)
  qed
  then have "finite ?impacted" by (rule finite_subset) simp
  then show ?thesis
    using keys assms(2)
    by (simp add: selection_closure_def impact_loop_eq [OF assms(1)] Let_def)
      (subst closure_loop_eq; auto)
qed


section \<open>The registry\<close>

definition registry_depends :: "capability_registry_row list \<Rightarrow> (string \<times> string) set" where
  "registry_depends rows = {(a, b). \<exists>row \<in> set rows. row_id row = a \<and> b \<in> set (row_dependencies row)}"

definition registry_complete :: "capability_registry_row list \<Rightarrow> bool" where
  "registry_complete rows \<longleftrightarrow> Range (registry_depends rows) \<subseteq> row_id ` set rows"

lemma visit_all_iff:
  assumes "explored deps state" "grey state = {}"
    and "\<And>a. rerun_dependencies_of deps a \<noteq> [] \<Longrightarrow> a \<in> set ids \<union> black state"
  shows "visit_all deps ids state = Ok u \<longleftrightarrow> acyclic (depends deps)"
  using assms
proof (induction ids arbitrary: state)
  case Nil
  have "(i, i) \<notin> (depends deps)\<^sup>+" for i
  proof
    assume cycle: "(i, i) \<in> (depends deps)\<^sup>+"
    then obtain d where "(i, d) \<in> depends deps" by (meson tranclD)
    then have "rerun_dependencies_of deps i \<noteq> []" by (auto simp: depends_def)
    then have "i \<in> black state" using Nil.prems(3) [of i] by simp
    then show False using Nil.prems(1) cycle by (simp add: explored_def)
  qed
  then show ?case by (simp add: acyclic_def)
next
  case (Cons i ids)
  obtain c s where visit: "visit_dependency deps i state = (c, s)" by fastforce
  have outcome: "visited deps state {i} (c, s)"
    using visit_explores(1) [OF Cons.prems(1), of i] Cons.prems(2) visit by (simp add: leads_to_def)
  show ?case
  proof (cases c)
    case True
    then show ?thesis using outcome visit by (simp add: visited_def)
  next
    case False
    then have s: "explored deps s" "grey s = {}" "insert i (black state) \<subseteq> black s"
      using outcome Cons.prems(2) by (simp_all add: visited_def)
    have "visit_all deps ids s = Ok u \<longleftrightarrow> acyclic (depends deps)"
    proof (rule Cons.IH [OF s(1,2)])
      fix a assume "rerun_dependencies_of deps a \<noteq> []"
      then show "a \<in> set ids \<union> black s" using Cons.prems(3) s(3) by auto
    qed
    then show ?thesis using visit False by simp
  qed
qed

lemma depends_rows:
  assumes "distinct (map row_id rows)"
  shows "depends (bm_collect (map (\<lambda>row. (row_id row, row_dependencies row)) rows)) = registry_depends rows"
proof -
  have "bm_get (bm_collect (map (\<lambda>row. (row_id row, row_dependencies row)) rows)) a = Some ds \<longleftrightarrow>
      (\<exists>row \<in> set rows. row_id row = a \<and> ds = row_dependencies row)" for a ds
    using assms
    by (subst bm_get_collect_distinct) (auto simp: comp_def map_of_eq_Some_iff)
  then show ?thesis by (auto simp: set_eq_iff depends_iff registry_depends_def)
qed

lemma white_start:
  "explored deps (bm_collect (map (\<lambda>i. (i, 0)) ids))" "grey (bm_collect (map (\<lambda>i. (i, 0)) ids)) = {}"
  "black (bm_collect (map (\<lambda>i. (i, 0)) ids)) = {}"
proof -
  have "visit_color (bm_collect (map (\<lambda>i. (i, 0)) ids)) j = 0" for j
    by (auto simp: visit_color_def bm_get_collect split: option.splits dest!: map_of_SomeD)
  then show "grey (bm_collect (map (\<lambda>i. (i, 0)) ids)) = {}" "black (bm_collect (map (\<lambda>i. (i, 0)) ids)) = {}"
    by (simp_all add: grey_def black_def)
  then show "explored deps (bm_collect (map (\<lambda>i. (i, 0)) ids))" by (simp add: explored_def)
qed

lemma dependency_graph_iff:
  assumes "distinct (map row_id rows)"
  shows "validate_dependency_graph rows = Ok u \<longleftrightarrow> registry_complete rows \<and> acyclic (registry_depends rows)"
proof -
  let ?deps = "bm_collect (map (\<lambda>row. (row_id row, row_dependencies row)) rows)"
  let ?ids = "ordered_set (map row_id rows)"
  have "visit_all ?deps ?ids (bm_collect (map (\<lambda>i. (i, 0)) ?ids)) = Ok u \<longleftrightarrow> acyclic (depends ?deps)"
  proof (rule visit_all_iff [OF white_start(1,2)])
    fix a assume "rerun_dependencies_of ?deps a \<noteq> []"
    then have "a \<in> set (bm_keys ?deps)"
      by (auto simp: rerun_dependencies_of_def bm_keys_iff split: option.splits)
    then show "a \<in> set ?ids \<union> black (bm_collect (map (\<lambda>i. (i, 0)) ?ids))"
      by (auto simp: bm_keys_collect)
  qed
  then show ?thesis
    unfolding depends_rows [OF assms]
    by (auto simp: validate_dependency_graph_def Let_def result_iff check_dependency_def
        registry_complete_def registry_depends_def)
qed

lemma visit_all_no_panic: "visit_all deps ids state \<noteq> Panic"
  by (induction deps ids state rule: visit_all.induct) (auto split: prod.splits bool.splits)

lemma dependency_graph_no_panic: "validate_dependency_graph rows \<noteq> Panic"
  unfolding validate_dependency_graph_def Let_def and_then_Panic_iff
  using visit_all_no_panic by (auto intro!: checks_no_Panic simp: check_dependency_def)

section \<open>The selection\<close>

definition touches :: "capability_registry_row \<Rightarrow> string \<Rightarrow> bool" where
  "touches row path \<longleftrightarrow> (\<exists>s \<in> set (cd_changed_path_selectors (crr_definition row)).
     selector_matches (cps_kind s) (cps_path s) path)"

definition touched_ids :: "capability_registry_row list \<Rightarrow> string set \<Rightarrow> string set" where
  "touched_ids rows paths = {row_id row | row. row \<in> set rows \<and> (\<exists>p \<in> paths. touches row p)}"

definition unknown_among :: "capability_registry_row list \<Rightarrow> string set \<Rightarrow> string set" where
  "unknown_among rows paths = {p \<in> paths. \<forall>row \<in> set rows. \<not> touches row p}"

lemma matching_ids_set: "set (matching_ids rows p) = touched_ids rows {p}"
  by (auto simp: matching_ids_def touched_ids_def touches_def list_ex_iff)

lemma sort_paths:
  "fold (sort_path rows) ps (direct, unknown) =
     (direct \<union> touched_ids rows (set ps), unknown \<union> unknown_among rows (set ps))"
proof (induction ps arbitrary: direct unknown)
  case Nil
  then show ?case by (simp add: touched_ids_def unknown_among_def)
next
  case (Cons p ps)
  have split: "touched_ids rows (set (p # ps)) = touched_ids rows {p} \<union> touched_ids rows (set ps)"
    "unknown_among rows (set (p # ps)) = unknown_among rows {p} \<union> unknown_among rows (set ps)"
    by (auto simp: touched_ids_def unknown_among_def)
  have "matching_ids rows p = [] \<longleftrightarrow> touched_ids rows {p} = {}"
    using matching_ids_set [of rows p] by (metis set_empty)
  moreover have "unknown_among rows {p} = (if touched_ids rows {p} = {} then {p} else {})"
    by (auto simp: touched_ids_def unknown_among_def)
  ultimately have "sort_path rows p (direct, unknown) =
      (direct \<union> touched_ids rows {p}, unknown \<union> unknown_among rows {p})"
    by (simp add: sort_path_def Let_def matching_ids_set)
  then show ?case unfolding split by (simp add: Cons Un_assoc)
qed

definition rows_of :: "capability_registry_row list \<Rightarrow> (string, capability_registry_row) btree_map" where
  "rows_of rows = bm_collect (map (\<lambda>row. (row_id row, row)) rows)"

lemma rows_of_get:
  assumes "distinct (map row_id rows)"
  shows "bm_get (rows_of rows) i = Some row \<longleftrightarrow> row \<in> set rows \<and> row_id row = i"
  using assms unfolding rows_of_def
  by (subst bm_get_collect_distinct) (auto simp: comp_def map_of_eq_Some_iff)

lemma rows_of_keys: "set (bm_keys (rows_of rows)) = row_id ` set rows"
  by (simp add: rows_of_def bm_keys_collect image_image)

lemma rows_of_depends:
  assumes "distinct (map row_id rows)"
  shows "depends (bm_map row_dependencies (rows_of rows)) = registry_depends rows"
  by (auto simp: set_eq_iff depends_iff registry_depends_def rows_of_get [OF assms])

definition selected_of :: "capability_registry_row \<Rightarrow> selected_capability" where
  "selected_of row = \<lparr>sc_capability_id = row_id row, sc_revision = cd_revision (crr_definition row),
     sc_record_digest = crr_record_digest row\<rparr>"

definition row_at :: "capability_registry_row list \<Rightarrow> string \<Rightarrow> capability_registry_row" where
  "row_at rows i = the (bm_get (rows_of rows) i)"

lemma pick_capabilities:
  assumes "distinct (map row_id rows)" and "set ids \<subseteq> row_id ` set rows"
  shows "try_fold (pick_capability (rows_of rows)) caps ids
    = Ok (caps @ map (\<lambda>i. selected_of (row_at rows i)) ids)"
  using assms(2)
proof (induction ids arbitrary: caps)
  case (Cons i ids)
  then obtain row where row: "row \<in> set rows" "row_id row = i" by auto
  then have "bm_get (rows_of rows) i = Some row" by (simp add: rows_of_get [OF assms(1)])
  then have "pick_capability (rows_of rows) caps i = Ok (caps @ [selected_of (row_at rows i)])"
    by (simp add: pick_capability_def row_at_def selected_of_def row)
  then show ?case using Cons by simp
qed simp

lemma row_at_row:
  assumes "distinct (map row_id rows)" "i \<in> row_id ` set rows"
  shows "row_at rows i \<in> set rows" "row_id (row_at rows i) = i"
  using assms(2) rows_of_get [OF assms(1)] unfolding row_at_def by (metis imageE option.sel)+

definition row_ok :: "rerun_codec \<Rightarrow> capability_registry_row \<Rightarrow> bool" where
  "row_ok C row \<longleftrightarrow> capability_ok (crr_definition row) \<and> valid_digest (crr_record_digest row)
     \<and> valid_digest (crr_state_digest row) \<and> crr_generation row \<noteq> 0
     \<and> (\<exists>bytes. rc_capability C (crr_definition row) = Inr bytes \<and> sha256_hex bytes = crr_record_digest row)
     \<and> (\<exists>bytes. rc_state C (row_state row) = Inr bytes \<and> sha256_hex bytes = crr_state_digest row)"

lemma serialized_iff [result_iff]: "serialized e = Ok bytes \<longleftrightarrow> e = Inr bytes"
  by (simp add: serialized_def split: sum.splits)

lemma validate_row_iff:
  "validate_row C prior row = Ok p \<longleftrightarrow> row_ok C row
     \<and> after_prior prior (row_id row) (invalid ''duplicate_or_noncanonical_current_identity''
       ''current capabilities must be strictly sorted by capability_id'') = Ok p"
  by (auto simp: validate_row_def Let_def result_iff row_ok_def row_id_def capability_bytes_def)

text \<open>Loops whose step makes a check of its own besides the order of the keys.\<close>

lemma try_fold_prior_iff:
  assumes "\<And>prior x p. step prior x = Ok p \<longleftrightarrow> P x \<and> after_prior prior (key x) (err x) = Ok p"
  shows "(\<exists>p. try_fold step None xs = Ok p) \<longleftrightarrow> (\<forall>x \<in> set xs. P x) \<and> sorted_wrt (<) (map key xs)"
proof -
  have "(\<exists>p. try_fold step prior xs = Ok p) \<longleftrightarrow> (\<forall>x \<in> set xs. P x) \<and> sorted_wrt (<) (map key xs)
      \<and> (case prior of None \<Rightarrow> True | Some k \<Rightarrow> \<forall>x \<in> set xs. k < key x)" for prior
  proof (induction xs arbitrary: prior)
    case (Cons x xs)
    have "(\<exists>p. try_fold step prior (x # xs) = Ok p) \<longleftrightarrow>
      P x \<and> (case prior of None \<Rightarrow> True | Some k \<Rightarrow> k < key x)
        \<and> (\<exists>p. try_fold step (Some (key x)) xs = Ok p)"
      by (auto simp: assms result_iff)
    then show ?case
      unfolding Cons.IH by (auto split: option.splits intro: less_trans)
  qed (simp split: option.splits)
  then show ?thesis by simp
qed

definition rows_ok :: "rerun_codec \<Rightarrow> capability_registry_row list \<Rightarrow> bool" where
  "rows_ok C rows \<longleftrightarrow> (\<forall>row \<in> set rows. row_ok C row) \<and> sorted_wrt (<) (map row_id rows)"

lemma validate_rows_iff [result_iff]: "validate_rows C rows = Ok u \<longleftrightarrow> rows_ok C rows"
  using try_fold_prior_iff [of "validate_row C", OF validate_row_iff, of rows]
  by (auto simp: validate_rows_def result_iff rows_ok_def)

lemma rows_ok_distinct: "rows_ok C rows \<Longrightarrow> distinct (map row_id rows)"
  by (simp add: rows_ok_def sorted_strict_distinct)

text \<open>
  What a change concerns: the capabilities that depend on a touched one, directly or not, and
  all that those depend on.
\<close>

definition concerned :: "capability_registry_row list \<Rightarrow> string set \<Rightarrow> string set" where
  "concerned rows direct = (registry_depends rows)\<^sup>* `` (((registry_depends rows)\<inverse>)\<^sup>* `` direct)"

lemma finite_touched: "finite (touched_ids rows paths)"
  by (rule finite_subset [of _ "row_id ` set rows"]) (auto simp: touched_ids_def)

lemma closure_concerned:
  assumes "distinct (map row_id rows)" "registry_complete rows"
  shows "selection_closure (touched_ids rows paths) (bm_map row_dependencies (rows_of rows))
    = Ok (concerned rows (touched_ids rows paths))"
proof -
  have keys: "set (bm_keys (bm_map row_dependencies (rows_of rows))) = row_id ` set rows"
    using rows_of_keys [of rows] by (auto simp: bm_keys_iff)
  have "touched_ids rows paths \<union> registry_depends rows `` UNIV \<subseteq> row_id ` set rows"
    using assms(2) by (auto simp: touched_ids_def registry_complete_def)
  then show ?thesis
    using selection_closure_eq [OF finite_touched, of rows paths "bm_map row_dependencies (rows_of rows)"]
    by (simp add: rows_of_depends [OF assms(1)] keys concerned_def)
qed

lemma concerned_ids:
  assumes "registry_complete rows"
  shows "concerned rows (touched_ids rows paths) \<subseteq> row_id ` set rows"
proof -
  have ahead: "a \<in> row_id ` set rows" if "(a, d) \<in> (registry_depends rows)\<^sup>*" "d \<in> row_id ` set rows" for a d
    using that by (cases rule: converse_rtranclE) (auto simp: registry_depends_def)
  have forth: "b \<in> row_id ` set rows" if "(a, b) \<in> (registry_depends rows)\<^sup>*" "a \<in> row_id ` set rows" for a b
    using that assms by (cases rule: rtranclE) (auto simp: registry_complete_def)
  show ?thesis
    using ahead forth by (fastforce simp: concerned_def rtrancl_converse touched_ids_def)
qed

lemma manifest_paths_ok:
  assumes "validate_manifest entries = Ok u" "p \<in> set (logical_paths entries)"
  shows "path_ok p"
proof -
  have "try_fold validate_entry acc es = Ok acc' \<Longrightarrow> e \<in> set es \<Longrightarrow>
      path_ok (cpe_path e) \<and> (\<forall>q. cpe_previous_path e = Some q \<longrightarrow> path_ok q)" for acc acc' es e
  proof (induction es arbitrary: acc)
    case (Cons e' es)
    then obtain acc'' where step: "validate_entry acc e' = Ok acc''" "try_fold validate_entry acc'' es = Ok acc'"
      by (auto simp: result_iff)
    have "path_ok (cpe_path e') \<and> (\<forall>q. cpe_previous_path e' = Some q \<longrightarrow> path_ok q)"
      using step(1) by (auto simp: validate_entry_def validate_previous_path_def result_iff split: if_splits)
    then show ?case using Cons.IH [OF step(2)] Cons.prems(2) by auto
  qed simp
  from this [of "(None, {})" entries] assms show ?thesis
    by (fastforce simp: validate_manifest_def result_iff logical_paths_def split: option.splits)
qed

definition snapshot_ok :: "rerun_codec \<Rightarrow> capability_registry_snapshot \<Rightarrow> bool" where
  "snapshot_ok C s \<longleftrightarrow> validate_snapshot C s = Ok () \<and> validate_dependency_graph (crs_capabilities s) = Ok ()"

lemma snapshot_ok_rows:
  assumes "snapshot_ok C s"
  shows "rows_ok C (crs_capabilities s)" "distinct (map row_id (crs_capabilities s))"
    "registry_complete (crs_capabilities s)" "acyclic (registry_depends (crs_capabilities s))"
    "valid_digest (crs_registry_snapshot_digest s)"
proof -
  show rows: "rows_ok C (crs_capabilities s)" "valid_digest (crs_registry_snapshot_digest s)"
    using assms by (auto simp: snapshot_ok_def validate_snapshot_def result_iff)
  then show d: "distinct (map row_id (crs_capabilities s))" by (auto intro: rows_ok_distinct)
  show "registry_complete (crs_capabilities s)" "acyclic (registry_depends (crs_capabilities s))"
    using assms dependency_graph_iff [OF d] by (auto simp: snapshot_ok_def)
qed

text \<open>The mode and the IDs that are selected, where something is.\<close>

definition selected_ids ::
    "targeted_rerun_request \<Rightarrow> capability_registry_row list \<Rightarrow> (targeted_rerun_mode \<times> string set) option" where
  "selected_ids request rows =
    (let paths = set (logical_paths (trr_changed_paths request)) in
     if unknown_among rows paths = {} then Some (ModeTargeted, concerned rows (touched_ids rows paths))
     else if trr_unknown_path_policy request = PolicyFullSafe then Some (ModeFullSafe, row_id ` set rows)
     else None)"

definition picked :: "capability_registry_row list \<Rightarrow> string set \<Rightarrow> selected_capability list" where
  "picked rows ids = map (\<lambda>i. selected_of (row_at rows i)) (sorted_list_of_set ids)"

lemma touched_nonempty:
  assumes "trr_changed_paths request \<noteq> []"
    and "unknown_among rows (set (logical_paths (trr_changed_paths request))) = {}"
  shows "touched_ids rows (set (logical_paths (trr_changed_paths request))) \<noteq> {}"
proof -
  obtain e es where "trr_changed_paths request = e # es" using assms(1) by (cases "trr_changed_paths request") auto
  then have "cpe_path e \<in> set (logical_paths (trr_changed_paths request))"
    by (simp add: logical_paths_def)
  then show ?thesis using assms(2) by (fastforce simp: unknown_among_def touched_ids_def)
qed

lemma select_changed_eq:
  assumes "snapshot_ok C s" and "trr_changed_paths request \<noteq> []"
  shows "select_changed C request s = RerunSelected selection \<longleftrightarrow>
    (\<exists>mode ids. selected_ids request (crs_capabilities s) = Some (mode, ids)
      \<and> new_selection C request s mode
          (sorted_list_of_set (unknown_among (crs_capabilities s) (set (logical_paths (trr_changed_paths request)))))
          (picked (crs_capabilities s) ids) = Ok selection)"
proof -
  let ?rows = "crs_capabilities s"
  let ?paths = "set (logical_paths (trr_changed_paths request))"
  let ?unknown = "sorted_list_of_set (unknown_among ?rows ?paths)"
  let ?by_id = "rows_of ?rows"
  note rows = snapshot_ok_rows [OF assms(1)]
  have finite: "finite (unknown_among ?rows ?paths)" by (simp add: unknown_among_def)
  then have empty: "?unknown = [] \<longleftrightarrow> unknown_among ?rows ?paths = {}" by simp
  have changed: "select_changed C request s =
      (case choose_capabilities request ?by_id (touched_ids ?rows ?paths) ?unknown of
         Inl outcome \<Rightarrow> outcome | Inr choice \<Rightarrow> seal_selection C request s ?by_id ?unknown choice)"
    by (simp add: select_changed_def Let_def sort_paths flip: rows_of_def)
  have seal: "seal_selection C request s ?by_id ?unknown (mode, sorted_list_of_set ids) = RerunSelected selection
      \<longleftrightarrow> new_selection C request s mode ?unknown (picked ?rows ids) = Ok selection"
    if "ids \<subseteq> row_id ` set ?rows" for mode ids
  proof -
    have "finite ids" using that by (rule finite_subset) simp
    then have "try_fold (pick_capability ?by_id) [] (sorted_list_of_set ids) = Ok (picked ?rows ids)"
      using that by (simp add: pick_capabilities [OF rows(2)] picked_def)
    then show ?thesis by (auto simp: seal_selection_def split: result.splits)
  qed
  have keys: "bm_keys ?by_id = sorted_list_of_set (row_id ` set ?rows)"
    using bm_keys_sorted [of ?by_id] rows_of_keys [of ?rows]
    by (metis finite_set sorted_list_of_set_unique strict_sorted_iff distinct_card)
  show ?thesis
  proof (cases "unknown_among ?rows ?paths = {}")
    case True
    then have "choose_capabilities request ?by_id (touched_ids ?rows ?paths) ?unknown
        = Inr (ModeTargeted, sorted_list_of_set (concerned ?rows (touched_ids ?rows ?paths)))"
      using touched_nonempty [OF assms(2) True] closure_concerned [OF rows(2,3), of ?paths]
      by (simp add: choose_capabilities_def)
    then show ?thesis
      using True seal [OF concerned_ids [OF rows(3)], of ModeTargeted ?paths]
      by (simp add: changed selected_ids_def Let_def)
  next
    case False
    then show ?thesis
      using seal [of "row_id ` set ?rows" ModeFullSafe] empty
      by (cases "trr_unknown_path_policy request")
        (simp_all add: changed selected_ids_def Let_def choose_capabilities_def keys)
  qed
qed

lemma selected_case_iff:
  "(case r of Ok a \<Rightarrow> f a | Err e \<Rightarrow> RerunBlocked (g e) (h e) | Panic \<Rightarrow> RerunBlocked c d)
     = RerunSelected x \<longleftrightarrow> (\<exists>a. r = Ok a \<and> f a = RerunSelected x)"
  by (cases r) auto

lemma selected_case_pair_iff:
  "(case r of Ok a \<Rightarrow> f a | Err (g, h) \<Rightarrow> RerunBlocked g h | Panic \<Rightarrow> RerunBlocked c d)
     = RerunSelected x \<longleftrightarrow> (\<exists>a. r = Ok a \<and> f a = RerunSelected x)"
  by (cases r) auto

lemma select_iff:
  "select_targeted_rerun C request s = RerunSelected selection \<longleftrightarrow>
     validate_rerun_request request = Ok () \<and> snapshot_ok C s \<and> trr_changed_paths request \<noteq> []
   \<and> crs_capabilities s \<noteq> []
   \<and> (\<exists>mode ids. selected_ids request (crs_capabilities s) = Some (mode, ids)
        \<and> new_selection C request s mode
            (sorted_list_of_set (unknown_among (crs_capabilities s)
              (set (logical_paths (trr_changed_paths request)))))
            (picked (crs_capabilities s) ids) = Ok selection)"
proof -
  have "select_targeted_rerun C request s = RerunSelected selection \<longleftrightarrow>
      validate_rerun_request request = Ok () \<and> snapshot_ok C s \<and> trr_changed_paths request \<noteq> []
      \<and> crs_capabilities s \<noteq> [] \<and> select_changed C request s = RerunSelected selection"
    unfolding select_targeted_rerun_def snapshot_ok_def selected_case_iff selected_case_pair_iff
    by (auto split: unknown_path_policy.splits)
  then show ?thesis using select_changed_eq [of C s request selection] by blast
qed

lemma new_selection_fields:
  assumes "new_selection C request s mode unknown capabilities = Ok selection"
  shows "validate_selection C selection = Ok ()" "trs_mode selection = mode"
    "trs_unknown_paths selection = unknown" "trs_capabilities selection = capabilities"
    "trs_unknown_path_policy selection = trr_unknown_path_policy request"
  using assms unfolding new_selection_def Let_def by (auto simp: result_iff)

lemma picked_ids:
  assumes "distinct (map row_id rows)" "ids \<subseteq> row_id ` set rows"
  shows "map sc_capability_id (picked rows ids) = sorted_list_of_set ids"
    "c \<in> set (picked rows ids) \<Longrightarrow> \<exists>row \<in> set rows. c = selected_of row"
proof -
  have fin: "finite ids" using assms(2) by (rule finite_subset) simp
  have row: "row_at rows i \<in> set rows \<and> row_id (row_at rows i) = i" if "i \<in> ids" for i
    using row_at_row [OF assms(1) subsetD [OF assms(2) that]] by simp
  show "map sc_capability_id (picked rows ids) = sorted_list_of_set ids"
    using row fin unfolding picked_def map_map by (intro map_idI) (simp add: selected_of_def)
  show "c \<in> set (picked rows ids) \<Longrightarrow> \<exists>row \<in> set rows. c = selected_of row"
    using row fin by (auto simp: picked_def)
qed

lemma selected_ids_rows:
  assumes "registry_complete rows" "selected_ids request rows = Some (mode, ids)"
  shows "ids \<subseteq> row_id ` set rows"
  using assms(2) concerned_ids [OF assms(1)]
  by (auto simp: selected_ids_def Let_def split: if_splits)

lemma selected_loop_iff:
  "(\<exists>p. try_fold validate_selected None cs = Ok p) \<longleftrightarrow>
     (\<forall>c \<in> set cs. stable_id (sc_capability_id c) \<and> sc_revision c \<noteq> 0 \<and> valid_digest (sc_record_digest c))
     \<and> sorted_wrt (<) (map sc_capability_id cs)"
  by (rule try_fold_prior_iff) (auto simp: validate_selected_def result_iff)

lemma unknown_loop_iff:
  "(\<exists>p. try_fold (validate_unknown_path M) None ps = Ok p) \<longleftrightarrow>
     (\<forall>p \<in> set ps. path_ok p \<and> p \<in> M) \<and> sorted_wrt (<) ps"
  using try_fold_prior_iff [of "validate_unknown_path M" "\<lambda>p. path_ok p \<and> p \<in> M" id
      "\<lambda>_. invalid ''noncanonical_unknown_paths'' ''unknown paths must be strictly sorted and unique''" ps]
  by (auto simp: validate_unknown_path_def result_iff)

lemma validate_selection_iff:
  "validate_selection C self = Ok u \<longleftrightarrow>
     trs_contract_version self = 1 \<and> stable_id (trs_run_id self) \<and> stable_id (trs_goal_id self)
   \<and> stable_id (trs_task_id self) \<and> valid_digest (trs_source_fingerprint self)
   \<and> valid_digest (trs_policy_digest self) \<and> valid_digest (trs_registry_snapshot_digest self)
   \<and> validate_manifest (trs_changed_path_manifest self) = Ok ()
   \<and> (\<exists>bytes. rc_manifest C (trs_changed_path_manifest self) = Inr bytes
        \<and> trs_changed_path_manifest_digest self = sha256_hex bytes)
   \<and> (\<exists>p. try_fold (validate_unknown_path (set (logical_paths (trs_changed_path_manifest self)))) None
        (trs_unknown_paths self) = Ok p)
   \<and> trs_capabilities self \<noteq> [] \<and> (\<exists>p. try_fold validate_selected None (trs_capabilities self) = Ok p)
   \<and> validate_mode self = Ok ()
   \<and> expected_selection_digest C self = Ok (trs_selection_digest self)"
proof -
  have "valid_digest (sha256_hex bytes)" for bytes by (simp add: sha256_hex_def)
  moreover have "expected_selection_digest C self = Ok d \<Longrightarrow> valid_digest d" for d
    by (auto simp: expected_selection_digest_def result_iff sha256_hex_def)
  ultimately show ?thesis
    unfolding validate_selection_def manifest_bytes_def
    by (auto simp: result_iff local_verification_contract_version_def)
qed

definition unsealed ::
    "targeted_rerun_request \<Rightarrow> capability_registry_snapshot \<Rightarrow> string \<Rightarrow> targeted_rerun_mode \<Rightarrow>
     string list \<Rightarrow> selected_capability list \<Rightarrow> string \<Rightarrow> targeted_rerun_selection" where
  "unsealed request snapshot manifest_digest mode unknown_paths capabilities digest =
    \<lparr>trs_contract_version = trr_contract_version request,
     trs_run_id = trr_run_id request, trs_goal_id = trr_goal_id request,
     trs_task_id = trr_task_id request,
     trs_source_fingerprint = trr_source_fingerprint request,
     trs_policy_digest = trr_policy_digest request,
     trs_unknown_path_policy = trr_unknown_path_policy request,
     trs_registry_snapshot_digest = crs_registry_snapshot_digest snapshot,
     trs_changed_path_manifest = trr_changed_paths request,
     trs_changed_path_manifest_digest = manifest_digest, trs_mode = mode,
     trs_unknown_paths = unknown_paths, trs_capabilities = capabilities,
     trs_selection_digest = digest\<rparr>"

lemma new_selection_eq:
  "new_selection C request snapshot mode unknown_paths capabilities = Ok selection \<longleftrightarrow>
     (\<exists>bytes digest. manifest_bytes C (trr_changed_paths request) = Ok bytes
       \<and> expected_selection_digest C (unsealed request snapshot (sha256_hex bytes) mode unknown_paths capabilities []) = Ok digest
       \<and> selection = unsealed request snapshot (sha256_hex bytes) mode unknown_paths capabilities digest
       \<and> validate_selection C selection = Ok ())"
  by (auto simp: new_selection_def Let_def result_iff unsealed_def)

lemma unsealed_fields [simp]:
  "trs_contract_version (unsealed r s m mode us cs d) = trr_contract_version r"
  "trs_run_id (unsealed r s m mode us cs d) = trr_run_id r"
  "trs_goal_id (unsealed r s m mode us cs d) = trr_goal_id r"
  "trs_task_id (unsealed r s m mode us cs d) = trr_task_id r"
  "trs_source_fingerprint (unsealed r s m mode us cs d) = trr_source_fingerprint r"
  "trs_policy_digest (unsealed r s m mode us cs d) = trr_policy_digest r"
  "trs_unknown_path_policy (unsealed r s m mode us cs d) = trr_unknown_path_policy r"
  "trs_registry_snapshot_digest (unsealed r s m mode us cs d) = crs_registry_snapshot_digest s"
  "trs_changed_path_manifest (unsealed r s m mode us cs d) = trr_changed_paths r"
  "trs_changed_path_manifest_digest (unsealed r s m mode us cs d) = m"
  "trs_mode (unsealed r s m mode us cs d) = mode"
  "trs_unknown_paths (unsealed r s m mode us cs d) = us"
  "trs_capabilities (unsealed r s m mode us cs d) = cs"
  "trs_selection_digest (unsealed r s m mode us cs d) = d"
  by (simp_all add: unsealed_def)

definition encodes_selections :: "rerun_codec \<Rightarrow> targeted_rerun_request \<Rightarrow> bool" where
  "encodes_selections C request \<longleftrightarrow> (\<exists>bytes. rc_manifest C (trr_changed_paths request) = Inr bytes)
     \<and> (\<forall>p. \<exists>bytes. rc_selection C p = Inr bytes)"

lemma new_selection_succeeds:
  assumes "validate_rerun_request request = Ok ()" "snapshot_ok C s" "encodes_selections C request"
    and ids: "selected_ids request (crs_capabilities s) = Some (mode, ids)" "ids \<noteq> {}"
  shows "\<exists>selection. new_selection C request s mode
      (sorted_list_of_set (unknown_among (crs_capabilities s) (set (logical_paths (trr_changed_paths request)))))
      (picked (crs_capabilities s) ids) = Ok selection"
proof -
  let ?rows = "crs_capabilities s"
  let ?U = "unknown_among ?rows (set (logical_paths (trr_changed_paths request)))"
  note rows = snapshot_ok_rows [OF assms(2)]
  have sub: "ids \<subseteq> row_id ` set ?rows" using selected_ids_rows [OF rows(3) ids(1)] .
  then have fin: "finite ids" by (rule finite_subset) simp
  have unknown: "finite ?U" "?U \<subseteq> set (logical_paths (trr_changed_paths request))"
    by (auto simp: unknown_among_def)
  have request: "trr_contract_version request = 1" "stable_id (trr_run_id request)"
      "stable_id (trr_goal_id request)" "stable_id (trr_task_id request)"
      "valid_digest (trr_source_fingerprint request)" "valid_digest (trr_policy_digest request)"
      "validate_manifest (trr_changed_paths request) = Ok ()"
    using assms(1)
    by (simp_all add: validate_rerun_request_def result_iff local_verification_contract_version_def)
  have caps: "\<exists>p. try_fold validate_selected None (picked ?rows ids) = Ok p"
    unfolding selected_loop_iff picked_ids(1) [OF rows(2) sub]
    using picked_ids(2) [OF rows(2) sub] rows(1)
    by (fastforce simp: selected_of_def rows_ok_def row_ok_def row_id_def capability_ok_def
        non_command_fields_ok_def)
  have paths: "\<exists>p. try_fold (validate_unknown_path (set (logical_paths (trr_changed_paths request)))) None
      (sorted_list_of_set ?U) = Ok p"
    unfolding unknown_loop_iff using unknown manifest_paths_ok [OF request(7)] by auto
  obtain bytes where bytes: "rc_manifest C (trr_changed_paths request) = Inr bytes"
    using assms(3) by (auto simp: encodes_selections_def)
  let ?sel = "unsealed request s (sha256_hex bytes) mode (sorted_list_of_set ?U) (picked ?rows ids)"
  have same: "selection_payload.truncate (?sel d) = selection_payload.truncate (?sel [])" for d
    by (simp add: unsealed_def selection_payload.truncate_def)
  obtain sealed where "rc_selection C (selection_payload.truncate (?sel [])) = Inr sealed"
    using assms(3) by (auto simp: encodes_selections_def)
  then have digest: "expected_selection_digest C (?sel d) = Ok (sha256_hex sealed)" for d
    unfolding expected_selection_digest_def same [of d] by (simp add: result_iff)
  have "picked ?rows ids \<noteq> []" using ids(2) fin by (simp add: picked_def)
  moreover have "validate_mode (?sel d) = Ok ()" for d
    using ids(1) unknown(1)
    by (auto simp: selected_ids_def Let_def validate_mode_def result_iff split: if_splits)
  ultimately have "validate_selection C (?sel (sha256_hex sealed)) = Ok ()"
    using request rows(5) caps paths bytes digest by (simp add: validate_selection_iff)
  then show ?thesis
    using request(7) bytes digest by (auto simp: new_selection_eq manifest_bytes_def result_iff)
qed
end
