(* ===== verification/Transitions.thy ===== *)
theory Transitions
  imports Contracts "HOL-Library.Sublist"
begin

text \<open>
  The closed run state machine of \<open>ovca-types/src/goal_runtime.rs\<close>: the transition
  table, the completion gate a permission profile and the guard requirements select,
  and the transition validator. The lemmas give the validator's exact acceptance
  condition and what sequences of accepted transitions can reach.
\<close>

section \<open>The validator\<close>

definition run_status_transitions :: "(run_status \<times> run_status) list" where
  "run_status_transitions =
    [(Draft, Accepted), (Draft, Cancelled),
     (Accepted, Planned), (Accepted, Cancelled),
     (Planned, Running), (Planned, Cancelled),
     (Running, AwaitingApproval), (Running, Reviewing), (Running, Completed),
     (Running, Failed), (Running, Cancelled),
     (AwaitingApproval, Running), (AwaitingApproval, Failed), (AwaitingApproval, Cancelled),
     (Reviewing, Running), (Reviewing, Auditing), (Reviewing, Completed),
     (Reviewing, Failed), (Reviewing, Cancelled),
     (Auditing, Reviewing), (Auditing, Completed), (Auditing, Failed), (Auditing, Cancelled)]"

datatype run_transition_error =
    RT_TerminalState run_status run_status
  | RT_InvalidTransition run_status run_status
  | RT_CompletionContractMissing
  | RT_CompletionEvidenceMissing
  | RT_WrongCompletionGate run_status run_status
  | RT_UnsupportedContractVersion string contract_version contract_version
  | RT_InsufficientCompletionEvidence u32 u32
  | RT_AcceptanceCriteriaUnsatisfied "string list"
  | RT_VerificationCriteriaUnsatisfied "string list"
  | RT_DefinitionOfDoneUnsatisfied "string list"

definition required_completion_gate ::
    "permission_profile \<Rightarrow> guard_requirement set \<Rightarrow> run_status" where
  "required_completion_gate profile guards =
    (if pp_audit_required profile \<or> AuditorGate \<in> guards then Auditing
     else if pp_review_required profile \<or> ReviewerGate \<in> guards then Reviewing
     else Running)"

definition validate_contract_version ::
    "string \<Rightarrow> contract_version \<Rightarrow> (run_transition_error, unit) result" where
  "validate_contract_version contract actual =
    require (actual = goal_runtime_contract_version)
      (RT_UnsupportedContractVersion contract goal_runtime_contract_version actual)"

definition missing_criteria :: "string list \<Rightarrow> string set \<Rightarrow> string list" where
  "missing_criteria criteria satisfied = filter (\<lambda>c. c \<notin> satisfied) criteria"

definition unique_evidence_count :: "evidence_id list \<Rightarrow> u32" where
  "unique_evidence_count refs = of_nat (length (ordered_set refs))"

definition validate_criteria ::
    "bool \<Rightarrow> string list \<Rightarrow> string list \<Rightarrow> (string list \<Rightarrow> run_transition_error) \<Rightarrow>
     (run_transition_error, unit) result" where
  "validate_criteria needed criteria satisfied err =
    (let missing = missing_criteria criteria (set satisfied)
     in require (\<not> needed \<or> missing = []) (err missing))"

definition validate_run_transition_with_guard_requirements ::
    "run_status \<Rightarrow> run_status \<Rightarrow> goal_contract option \<Rightarrow> completion_evidence option \<Rightarrow>
     guard_requirement set \<Rightarrow> (run_transition_error, unit) result" where
  "validate_run_transition_with_guard_requirements from to goal_contract completion_evidence guards =
    (if is_terminal from then Err (RT_TerminalState from to)
     else if (from, to) \<notin> set run_status_transitions then Err (RT_InvalidTransition from to)
     else if to \<noteq> Completed then Ok ()
     else
       and_then (ok_or goal_contract RT_CompletionContractMissing) (\<lambda>goal.
       and_then (checks
         [validate_contract_version ''goal_contract'' (gc_contract_version goal),
          validate_contract_version ''permission_profile''
            (pp_contract_version (gc_permission_profile goal)),
          validate_contract_version ''completion_precondition''
            (cp_contract_version (gc_completion_precondition goal))]) (\<lambda>_.
       let required_gate = required_completion_gate (gc_permission_profile goal) guards in
       and_then (require (from = required_gate) (RT_WrongCompletionGate from required_gate)) (\<lambda>_.
       and_then (ok_or completion_evidence RT_CompletionEvidenceMissing) (\<lambda>evidence.
       let pre = gc_completion_precondition goal;
           count = unique_evidence_count (ce_evidence_refs evidence);
           required_evidence = max (cp_minimum_evidence_refs pre) 1
       in checks
         [validate_contract_version ''completion_evidence'' (ce_contract_version evidence),
          require (\<not> count < required_evidence)
            (RT_InsufficientCompletionEvidence required_evidence count),
          validate_criteria (cp_require_all_acceptance_criteria pre)
            (gc_acceptance_criteria goal) (ce_satisfied_acceptance_criteria evidence)
            RT_AcceptanceCriteriaUnsatisfied,
          validate_criteria (cp_require_all_verification_criteria pre)
            (gc_verification_criteria goal) (ce_satisfied_verification_criteria evidence)
            RT_VerificationCriteriaUnsatisfied,
          validate_criteria True
            (gc_definition_of_done goal) (ce_satisfied_definition_of_done evidence)
            RT_DefinitionOfDoneUnsatisfied])))))"

definition validate_run_transition ::
    "run_status \<Rightarrow> run_status \<Rightarrow> goal_contract option \<Rightarrow> completion_evidence option \<Rightarrow>
     (run_transition_error, unit) result" where
  "validate_run_transition from to goal_contract completion_evidence =
    validate_run_transition_with_guard_requirements from to goal_contract completion_evidence {}"

section \<open>What the validator accepts\<close>

lemma missing_criteria_Nil_iff [simp]:
  "missing_criteria criteria satisfied = [] \<longleftrightarrow> set criteria \<subseteq> satisfied"
  by (auto simp: missing_criteria_def filter_empty_conv)

lemma validate_criteria_Ok_iff [result_iff]:
  "validate_criteria needed criteria satisfied err = Ok u
     \<longleftrightarrow> (needed \<longrightarrow> set criteria \<subseteq> set satisfied)"
  by (auto simp: validate_criteria_def Let_def result_iff)

lemma validate_contract_version_Ok_iff [result_iff]:
  "validate_contract_version contract v = Ok u \<longleftrightarrow> v = 1"
  by (simp add: validate_contract_version_def result_iff)

lemma unique_evidence_count_card:
  "unique_evidence_count refs = of_nat (card (set refs))"
  by (metis unique_evidence_count_def ordered_set_distinct distinct_card set_ordered_set)

text \<open>The conditions under which a goal's completion is accepted from a state.\<close>

definition completion_admissible ::
    "run_status \<Rightarrow> goal_contract \<Rightarrow> completion_evidence \<Rightarrow> guard_requirement set \<Rightarrow> bool" where
  "completion_admissible from goal evidence guards \<longleftrightarrow>
     from = required_completion_gate (gc_permission_profile goal) guards
   \<and> gc_contract_version goal = 1
   \<and> pp_contract_version (gc_permission_profile goal) = 1
   \<and> cp_contract_version (gc_completion_precondition goal) = 1
   \<and> ce_contract_version evidence = 1
   \<and> max (cp_minimum_evidence_refs (gc_completion_precondition goal)) 1
       \<le> unique_evidence_count (ce_evidence_refs evidence)
   \<and> (cp_require_all_acceptance_criteria (gc_completion_precondition goal) \<longrightarrow>
        set (gc_acceptance_criteria goal) \<subseteq> set (ce_satisfied_acceptance_criteria evidence))
   \<and> (cp_require_all_verification_criteria (gc_completion_precondition goal) \<longrightarrow>
        set (gc_verification_criteria goal) \<subseteq> set (ce_satisfied_verification_criteria evidence))
   \<and> set (gc_definition_of_done goal) \<subseteq> set (ce_satisfied_definition_of_done evidence)"

lemma required_completion_gate_cases:
  "required_completion_gate p g \<in> {Running, Reviewing, Auditing}"
  by (simp add: required_completion_gate_def)

lemma gate_to_Completed_in_table:
  "(required_completion_gate p g, Completed) \<in> set run_status_transitions"
  "\<not> is_terminal (required_completion_gate p g)"
  by (simp_all add: required_completion_gate_def run_status_transitions_def is_terminal_def)

lemma validate_completion_iff:
  "validate_run_transition_with_guard_requirements from Completed g e guards = Ok () \<longleftrightarrow>
     (\<exists>goal evidence. g = Some goal \<and> e = Some evidence
        \<and> completion_admissible from goal evidence guards)"
  using gate_to_Completed_in_table
  unfolding validate_run_transition_with_guard_requirements_def completion_admissible_def Let_def
  by (auto simp: result_iff not_less simp del: max.bounded_iff)

lemma validate_other_iff:
  "to \<noteq> Completed \<Longrightarrow>
   validate_run_transition_with_guard_requirements from to g e guards = Ok () \<longleftrightarrow>
     (from, to) \<in> set run_status_transitions"
  by (auto simp: validate_run_transition_with_guard_requirements_def run_status_transitions_def
      is_terminal_def)

lemma validate_in_table:
  "validate_run_transition_with_guard_requirements from to g e guards = Ok () \<Longrightarrow>
   (from, to) \<in> set run_status_transitions"
  by (auto simp: validate_run_transition_with_guard_requirements_def split: if_splits)

lemma validate_never_panics:
  "validate_run_transition_with_guard_requirements from to g e guards \<noteq> Panic"
  unfolding validate_run_transition_with_guard_requirements_def Let_def
    validate_contract_version_def validate_criteria_def
  by (auto simp: and_then_Panic_iff)

section \<open>Mandatory phases\<close>

text \<open>Consecutive table transitions from a state.\<close>

fun status_path :: "run_status \<Rightarrow> run_status list \<Rightarrow> bool" where
  "status_path s [] = True"
| "status_path s (t # ts) = ((s, t) \<in> set run_status_transitions \<and> status_path t ts)"

text \<open>The phases a run in a live state has been through, in this order.\<close>

primrec milestones :: "run_status \<Rightarrow> run_status list" where
  "milestones Draft = []"
| "milestones Accepted = [Accepted]"
| "milestones Planned = [Accepted, Planned]"
| "milestones Running = [Accepted, Planned, Running]"
| "milestones AwaitingApproval = [Accepted, Planned, Running, AwaitingApproval]"
| "milestones Reviewing = [Accepted, Planned, Running, Reviewing]"
| "milestones Auditing = [Accepted, Planned, Running, Reviewing, Auditing]"
| "milestones Completed = []"
| "milestones Failed = []"
| "milestones Cancelled = []"

lemma milestones_step:
  "(s, t) \<in> set run_status_transitions \<Longrightarrow> subseq (milestones t) (milestones s @ [t])"
  by (cases s; cases t) (simp_all add: run_status_transitions_def)

lemma status_path_milestones:
  "status_path s ts \<Longrightarrow> subseq (milestones s) pre \<Longrightarrow>
   subseq (milestones (last (s # ts))) (pre @ ts)"
proof (induction ts arbitrary: s pre)
  case Nil
  then show ?case by simp
next
  case (Cons t ts)
  have "subseq (milestones t) (milestones s @ [t])"
    using Cons.prems(1) by (simp add: milestones_step)
  also have "subseq (milestones s @ [t]) (pre @ [t])"
    using Cons.prems(2) by (simp add: list_emb_append_mono)
  finally have "subseq (milestones t) (pre @ [t])" .
  then show ?case using Cons.IH [of t "pre @ [t]"] Cons.prems(1) by simp
qed

lemma status_path_append:
  "status_path s (xs @ ys) \<longleftrightarrow> status_path s xs \<and> status_path (last (s # xs)) ys"
  by (induction xs arbitrary: s) auto

lemma table_from_terminal: "is_terminal s \<Longrightarrow> (s, t) \<notin> set run_status_transitions"
  by (auto simp: is_terminal_def run_status_transitions_def)

lemma table_irreflexive: "(s, s) \<notin> set run_status_transitions"
  by (cases s) (simp_all add: run_status_transitions_def)

text \<open>A path that ends in \<open>Completed\<close> ran through the phases of its gate.\<close>

lemma completed_path_phases:
  assumes "status_path Draft (ts @ [Completed])" and "last (Draft # ts) = gate"
    and "gate \<in> {Running, Reviewing, Auditing}"
  shows "subseq (milestones gate @ [Completed]) (ts @ [Completed])"
proof -
  have "subseq (milestones gate) ([] @ ts)"
    using assms(1,2) by (metis status_path_append status_path_milestones milestones.simps(1)
        subseq_order.order_refl)
  then show ?thesis by (simp add: list_emb_append_mono)
qed

section \<open>Runs of accepted transitions\<close>

text \<open>A transition as the validator is asked for it, and a run of accepted ones.\<close>

record transition_request =
  tq_to :: run_status
  tq_goal :: "goal_contract option"
  tq_evidence :: "completion_evidence option"
  tq_guards :: "guard_requirement set"

fun transitions_accepted :: "run_status \<Rightarrow> transition_request list \<Rightarrow> bool" where
  "transitions_accepted from [] = True"
| "transitions_accepted from (q # qs) =
    (validate_run_transition_with_guard_requirements from (tq_to q) (tq_goal q) (tq_evidence q)
       (tq_guards q) = Ok ()
     \<and> transitions_accepted (tq_to q) qs)"

lemma transitions_accepted_append:
  "transitions_accepted s (xs @ ys) \<longleftrightarrow>
     transitions_accepted s xs \<and> transitions_accepted (last (s # map tq_to xs)) ys"
  by (induction xs arbitrary: s) auto

lemma transitions_accepted_path: "transitions_accepted s qs \<Longrightarrow> status_path s (map tq_to qs)"
  by (induction qs arbitrary: s) (auto dest: validate_in_table)

lemma path_live: "status_path s (ts @ [t]) \<Longrightarrow> \<forall>u \<in> set (s # ts). \<not> is_terminal u"
  by (induction ts arbitrary: s) (auto dest: table_from_terminal)

lemma live_cancellable: "(s, Cancelled) \<in> set run_status_transitions \<longleftrightarrow> \<not> is_terminal s"
  by (cases s) (simp_all add: run_status_transitions_def is_terminal_def)

text \<open>What a goal demands of the evidence of its completion.\<close>

definition evidence_suffices :: "goal_contract \<Rightarrow> completion_evidence \<Rightarrow> bool" where
  "evidence_suffices goal evidence \<longleftrightarrow>
    (let pre = gc_completion_precondition goal in
      gc_contract_version goal = 1 \<and> pp_contract_version (gc_permission_profile goal) = 1
    \<and> cp_contract_version pre = 1 \<and> ce_contract_version evidence = 1
    \<and> max (unat (cp_minimum_evidence_refs pre)) 1
        \<le> card (set (ce_evidence_refs evidence)) mod 2 ^ 32
    \<and> (cp_require_all_acceptance_criteria pre \<longrightarrow>
         set (gc_acceptance_criteria goal) \<subseteq> set (ce_satisfied_acceptance_criteria evidence))
    \<and> (cp_require_all_verification_criteria pre \<longrightarrow>
         set (gc_verification_criteria goal) \<subseteq> set (ce_satisfied_verification_criteria evidence))
    \<and> set (gc_definition_of_done goal) \<subseteq> set (ce_satisfied_definition_of_done evidence))"

lemma enough_evidence_iff:
  "max m 1 \<le> (of_nat n :: u32) \<longleftrightarrow> max (unat m) 1 \<le> n mod 2 ^ 32"
proof -
  have "unat (max m 1) = max (unat m) 1"
    by (simp add: max_def word_le_nat_alt)
  then show ?thesis by (simp add: word_le_nat_alt unat_of_nat)
qed

lemma completion_admissible_iff:
  "completion_admissible from goal evidence guards \<longleftrightarrow>
     from = required_completion_gate (gc_permission_profile goal) guards
   \<and> evidence_suffices goal evidence"
  unfolding completion_admissible_def evidence_suffices_def Let_def unique_evidence_count_card
    enough_evidence_iff
  by (simp only: conj_assoc)

text \<open>The phases of a run up to its gate.\<close>

definition phases_up_to_gate :: "bool \<Rightarrow> bool \<Rightarrow> run_status list" where
  "phases_up_to_gate reviewed audited =
    [Accepted, Planned, Running]
      @ (if audited then [Reviewing, Auditing] else if reviewed then [Reviewing] else [])"

lemma gate_milestones:
  "milestones (required_completion_gate profile guards) =
     phases_up_to_gate (pp_review_required profile \<or> ReviewerGate \<in> guards)
       (pp_audit_required profile \<or> AuditorGate \<in> guards)"
  by (simp add: required_completion_gate_def phases_up_to_gate_def)

lemma milestones_last:
  "last (milestones (required_completion_gate profile guards)) = required_completion_gate profile guards"
  by (simp add: required_completion_gate_def)

lemma accepted_run_milestones:
  assumes "transitions_accepted Draft qs"
  shows "subseq (milestones (last (Draft # map tq_to qs))) (map tq_to qs)"
  using status_path_milestones [OF transitions_accepted_path [OF assms], of "[]"] by simp

lemma run_then_live:
  assumes "transitions_accepted Draft qs" and "\<not> is_terminal (last (Draft # map tq_to qs))"
  shows "{Completed, Failed, Cancelled} \<inter> set (map tq_to qs) = {}"
proof -
  have "status_path Draft (map tq_to qs @ [Cancelled])"
    using assms transitions_accepted_path [OF assms(1)]
    by (simp add: status_path_append live_cancellable)
  from path_live [OF this] show ?thesis by (auto simp: is_terminal_def)
qed

text \<open>A transition after an accepted run.\<close>

lemma accepted_next:
  "transitions_accepted Draft qs \<Longrightarrow> transitions_accepted Draft (qs @ [q]) \<longleftrightarrow>
     validate_run_transition_with_guard_requirements (last (Draft # map tq_to qs)) (tq_to q)
       (tq_goal q) (tq_evidence q) (tq_guards q) = Ok ()"
  by (simp add: transitions_accepted_append)

lemma no_ended_status_iff:
  assumes "transitions_accepted Draft qs"
  shows "{Completed, Failed, Cancelled} \<inter> set (map tq_to qs) = {}
     \<longleftrightarrow> \<not> is_terminal (last (Draft # map tq_to qs))"
proof
  assume "{Completed, Failed, Cancelled} \<inter> set (map tq_to qs) = {}"
  moreover have "last (Draft # map tq_to qs) \<in> set (Draft # map tq_to qs)"
    by (rule last_in_set) simp
  ultimately show "\<not> is_terminal (last (Draft # map tq_to qs))"
    by (auto simp: is_terminal_def)
qed (rule run_then_live [OF assms])

text \<open>The states a run works in; only an end leaves them.\<close>

definition working :: "run_status \<Rightarrow> bool" where
  "working s \<longleftrightarrow> s \<in> {Running, AwaitingApproval, Reviewing, Auditing}"

lemma working_live: "working s \<Longrightarrow> \<not> is_terminal s"
  by (auto simp: working_def is_terminal_def)

lemma failure_in_table: "(s, Failed) \<in> set run_status_transitions \<longleftrightarrow> working s"
  by (cases s) (simp_all add: run_status_transitions_def working_def)

lemma working_step:
  "(s, t) \<in> set run_status_transitions \<Longrightarrow> working s \<Longrightarrow> working t \<or> is_terminal t"
  by (cases s; cases t) (simp_all add: run_status_transitions_def working_def is_terminal_def)

lemma work_goes_on:
  "status_path s ts \<Longrightarrow> working s \<or> Running \<in> set ts \<Longrightarrow>
   working (last (s # ts)) \<or> is_terminal (last (s # ts))"
proof (induction ts arbitrary: s)
  case (Cons t ts)
  show ?case
  proof (cases "is_terminal t")
    case True
    with Cons.prems(1) have "ts = []" by (cases ts) (auto dest: table_from_terminal)
    with True show ?thesis by simp
  next
    case False
    with Cons.prems have "working t \<or> Running \<in> set ts"
      by (auto dest: working_step simp: working_def)
    with Cons.IH [of t] Cons.prems(1) show ?thesis by simp
  qed
qed simp

lemma working_ran:
  assumes "working s" and "subseq (milestones s) ts"
  shows "Running \<in> set ts"
proof -
  have "Running \<in> set (milestones s)" using assms(1) by (auto simp: working_def)
  with assms(2) show ?thesis by (rule list_emb_set) simp
qed

lemma failure_next:
  assumes "transitions_accepted Draft qs" and "tq_to q = Failed"
  shows "transitions_accepted Draft (qs @ [q]) \<longleftrightarrow>
     Running \<in> set (map tq_to qs) \<and> \<not> is_terminal (last (Draft # map tq_to qs))"
proof -
  let ?now = "last (Draft # map tq_to qs)"
  have "transitions_accepted Draft (qs @ [q]) \<longleftrightarrow> working ?now"
    unfolding accepted_next [OF assms(1)] assms(2)
    by (simp only: validate_other_iff failure_in_table run_status.distinct not_False_eq_True)
  moreover have "working ?now \<Longrightarrow> Running \<in> set (map tq_to qs) \<and> \<not> is_terminal ?now"
    using working_ran [OF _ accepted_run_milestones [OF assms(1)]]
      working_live by blast
  moreover have "Running \<in> set (map tq_to qs) \<Longrightarrow> \<not> is_terminal ?now \<Longrightarrow> working ?now"
    using work_goes_on [OF transitions_accepted_path [OF assms(1)]] by blast
  ultimately show ?thesis by blast
qed

lemma completion_next:
  assumes "transitions_accepted Draft qs" and "tq_to q = Completed"
  shows "transitions_accepted Draft (qs @ [q]) \<longleftrightarrow>
     (\<exists>goal evidence. tq_goal q = Some goal \<and> tq_evidence q = Some evidence
      \<and> last (Draft # map tq_to qs) = required_completion_gate (gc_permission_profile goal) (tq_guards q)
      \<and> evidence_suffices goal evidence)"
  unfolding accepted_next [OF assms(1)] assms(2) validate_completion_iff completion_admissible_iff
  by (rule refl)

lemma at_gate_iff:
  assumes "transitions_accepted Draft qs"
  shows "last (Draft # map tq_to qs) = required_completion_gate profile guards \<longleftrightarrow>
     subseq (milestones (required_completion_gate profile guards)) (map tq_to qs)
   \<and> last (map tq_to qs) = required_completion_gate profile guards
   \<and> {Completed, Failed, Cancelled} \<inter> set (map tq_to qs) = {}" (is "?now = ?gate \<longleftrightarrow> ?there")
proof
  assume now: "?now = ?gate"
  then have "qs \<noteq> []" using required_completion_gate_cases [of profile guards] by auto
  then have "last (map tq_to qs) = ?gate" using now by simp
  then show ?there
    using accepted_run_milestones [OF assms] now gate_to_Completed_in_table(2) [of profile guards]
    by (simp only: no_ended_status_iff [OF assms] simp_thms)
next
  assume ?there
  moreover have "milestones ?gate \<noteq> []"
    using required_completion_gate_cases [of profile guards] by auto
  ultimately have "map tq_to qs \<noteq> []" by auto
  with \<open>?there\<close> show "?now = ?gate" by simp
qed

lemma exists_equal: "(\<exists>x. P \<and> Q \<and> x = m \<and> R x) \<longleftrightarrow> P \<and> Q \<and> R m"
  by blast

text \<open>
  C6 (completion_passes_phases): after any sequence of transitions that the validator has
  accepted from the initial draft, completion is accepted exactly when the run has gone
  through acceptance, planning and running, then through review if the profile or a guard
  requires a review or an audit, then through the audit if one is required, in this order;
  it stands at the last of these phases and has not ended before; and the evidence
  suffices, with every repeated reference counted once (the count is kept in 32 bits).
  Failing is possible exactly after running has begun, cancelling at any time before the
  end, and the phases themselves, taken in order, are always accepted.
\<close>

theorem completion_passes_phases:
  assumes "transitions_accepted Draft qs"
  shows "(tq_to q = Completed \<longrightarrow> (transitions_accepted Draft (qs @ [q]) \<longleftrightarrow>
     (\<exists>goal evidence phases. tq_goal q = Some goal \<and> tq_evidence q = Some evidence
      \<and> phases = phases_up_to_gate
          (pp_review_required (gc_permission_profile goal) \<or> ReviewerGate \<in> tq_guards q)
          (pp_audit_required (gc_permission_profile goal) \<or> AuditorGate \<in> tq_guards q)
      \<and> subseq phases (map tq_to qs) \<and> last (map tq_to qs) = last phases
      \<and> {Completed, Failed, Cancelled} \<inter> set (map tq_to qs) = {}
      \<and> evidence_suffices goal evidence)))
   \<and> (tq_to q = Failed \<longrightarrow> (transitions_accepted Draft (qs @ [q]) \<longleftrightarrow>
      Running \<in> tq_to ` set qs \<and> {Completed, Failed, Cancelled} \<inter> set (map tq_to qs) = {}))
   \<and> (tq_to q = Cancelled \<longrightarrow> (transitions_accepted Draft (qs @ [q]) \<longleftrightarrow>
      {Completed, Failed, Cancelled} \<inter> set (map tq_to qs) = {}))
   \<and> transitions_accepted Draft (map (\<lambda>s. q\<lparr>tq_to := s\<rparr>) (phases_up_to_gate reviewed audited))"
proof (intro conjI impI)
  let ?now = "last (Draft # map tq_to qs)"
  note live = no_ended_status_iff [OF assms] and ran = accepted_run_milestones [OF assms]
  {
    assume completed: "tq_to q = Completed"
    show "transitions_accepted Draft (qs @ [q]) \<longleftrightarrow>
     (\<exists>goal evidence phases. tq_goal q = Some goal \<and> tq_evidence q = Some evidence
      \<and> phases = phases_up_to_gate
          (pp_review_required (gc_permission_profile goal) \<or> ReviewerGate \<in> tq_guards q)
          (pp_audit_required (gc_permission_profile goal) \<or> AuditorGate \<in> tq_guards q)
      \<and> subseq phases (map tq_to qs) \<and> last (map tq_to qs) = last phases
      \<and> {Completed, Failed, Cancelled} \<inter> set (map tq_to qs) = {}
      \<and> evidence_suffices goal evidence)"
      unfolding completion_next [OF assms completed] at_gate_iff [OF assms] exists_equal
        gate_milestones [symmetric] milestones_last conj_assoc
      by (rule refl)
  next
    assume "tq_to q = Failed"
    then show "transitions_accepted Draft (qs @ [q]) \<longleftrightarrow>
        Running \<in> tq_to ` set qs \<and> {Completed, Failed, Cancelled} \<inter> set (map tq_to qs) = {}"
      unfolding live using failure_next [OF assms] by simp
  next
    assume "tq_to q = Cancelled"
    then show "transitions_accepted Draft (qs @ [q]) \<longleftrightarrow>
        {Completed, Failed, Cancelled} \<inter> set (map tq_to qs) = {}"
      unfolding live accepted_next [OF assms]
      by (simp only: validate_other_iff live_cancellable run_status.distinct not_False_eq_True)
  next
    show "transitions_accepted Draft (map (\<lambda>s. q\<lparr>tq_to := s\<rparr>) (phases_up_to_gate reviewed audited))"
      by (simp add: phases_up_to_gate_def validate_other_iff run_status_transitions_def)
  }
qed

text \<open>A run with an approval on its way, and its completion behind review and audit.\<close>

definition audited_goal :: goal_contract where
  "audited_goal =
    \<lparr>gc_contract_version = 1, gc_id = ''goal'', gc_project_id = ''project'', gc_objective = ''objective'',
     gc_constraints = [], gc_acceptance_criteria = [''works''], gc_verification_criteria = [],
     gc_permission_profile =
       \<lparr>pp_contract_version = 1, pp_risk_tier = R1, pp_resource_keys = [], pp_write_keys = [],
        pp_approval_required = False, pp_review_required = False, pp_audit_required = True\<rparr>,
     gc_definition_of_done = [''done''],
     gc_completion_precondition =
       \<lparr>cp_contract_version = 1, cp_minimum_evidence_refs = 2,
        cp_require_all_acceptance_criteria = True, cp_require_all_verification_criteria = True\<rparr>,
     gc_created_at = 0, gc_updated_at = 0\<rparr>"

definition audited_completion :: "evidence_id list \<Rightarrow> transition_request" where
  "audited_completion refs =
    \<lparr>tq_to = Completed, tq_goal = Some audited_goal,
     tq_evidence = Some \<lparr>ce_contract_version = 1, ce_evidence_refs = refs,
       ce_satisfied_acceptance_criteria = [''works''], ce_satisfied_verification_criteria = [],
       ce_satisfied_definition_of_done = [''done'']\<rparr>,
     tq_guards = {}\<rparr>"

definition audited_run :: "transition_request list" where
  "audited_run =
    map (\<lambda>s. \<lparr>tq_to = s, tq_goal = None, tq_evidence = None, tq_guards = {}\<rparr>)
      [Accepted, Planned, Running, AwaitingApproval, Running, Reviewing, Auditing]"

lemma audited_run_accepted: "transitions_accepted Draft audited_run"
  by (simp add: audited_run_def validate_other_iff run_status_transitions_def)

lemma audited_run_statuses:
  "map tq_to audited_run = [Accepted, Planned, Running, AwaitingApproval, Running, Reviewing, Auditing]"
  by (simp add: audited_run_def)

lemma audited_completion_simps [simp]:
  "tq_to (audited_completion refs) = Completed"
  "tq_goal (audited_completion refs) = Some audited_goal"
  "tq_guards (audited_completion refs) = {}"
  "pp_audit_required (gc_permission_profile audited_goal)"
  by (simp_all add: audited_completion_def audited_goal_def)

lemma audited_evidence_suffices:
  "(\<exists>evidence. tq_evidence (audited_completion refs) = Some evidence
      \<and> evidence_suffices audited_goal evidence)
   \<longleftrightarrow> 2 \<le> card (set refs) mod 2 ^ 32"
  by (simp add: evidence_suffices_def audited_completion_def audited_goal_def) linarith

theorem completion_passes_phases_witness:
  "transitions_accepted Draft (audited_run @ [audited_completion [''report'', ''log'']])
   \<and> \<not> transitions_accepted Draft (audited_run @ [audited_completion [''log'', ''log'']])"
proof -
  have "transitions_accepted Draft (audited_run @ [audited_completion refs]) \<longleftrightarrow>
      2 \<le> card (set refs) mod 2 ^ 32" for refs
    using completion_passes_phases [OF audited_run_accepted, of "audited_completion refs"]
    by (simp add: audited_run_statuses phases_up_to_gate_def audited_evidence_suffices [simplified])
  then show ?thesis by simp
qed

end
