(* ===== verification/Verification_Admission.thy ===== *)
theory Verification_Admission
  imports Verification_Acceptance Transitions
begin

text \<open>
  From a verifier's bundle to completion evidence, the second half of
  \<open>ovca-types/src/goal_runtime/local_verification.rs\<close>: the admission of a current pass bundle
  against its behavior, its capabilities and the proof that it is current, and the aggregation
  of the admitted evidence of all tasks over the criteria of the goal. \<open>admit_iff\<close> and
  \<open>aggregate_iff\<close> give both exactly, on every input.
\<close>

section \<open>Admission\<close>

definition check_criterion_result ::
    "behavior_criterion \<times> criterion_result \<Rightarrow> unit verification_result" where
  "check_criterion_result entry =
    (let (criterion, result) = entry in
     checks
      [require (bc_criterion_id criterion = cr_criterion_id result
           \<and> bc_order criterion = cr_order result \<and> bc_kind criterion = cr_kind result
           \<and> bc_text criterion = cr_text result)
         (invalid ''criterion_identity_mismatch''
           ''criterion ID, order, kind, and exact text must match''),
       require (\<not> (bc_required criterion \<and> cr_verdict result \<noteq> ResultPass))
         (invalid ''required_criterion_not_passed'' (bc_criterion_id criterion))])"

definition add_capability ::
    "(string, capability_definition) btree_map \<Rightarrow> capability_definition \<Rightarrow>
     (string, capability_definition) btree_map verification_result" where
  "add_capability capability_map capability =
    and_then (validate_capability capability) (\<lambda>_.
    if bm_contains capability_map (cd_capability_id capability)
    then Err (invalid ''duplicate_capability_definition'' (cd_capability_id capability))
    else Ok (bm_insert (cd_capability_id capability) capability capability_map))"

definition check_criterion_capability ::
    "(string, capability_definition) btree_map \<Rightarrow> behavior_criterion \<Rightarrow> string \<Rightarrow>
     unit verification_result" where
  "check_criterion_capability capability_map criterion capability_id =
    and_then (ok_or (bm_get capability_map capability_id)
      (invalid ''missing_capability_definition'' capability_id)) (\<lambda>capability.
    require (binary_search (cd_criterion_ids capability) (bc_criterion_id criterion))
      (invalid ''capability_criterion_binding_mismatch''
        (capability_id @ '':'' @ bc_criterion_id criterion)))"

definition check_criterion_capabilities ::
    "(string, capability_definition) btree_map \<Rightarrow> behavior_criterion \<Rightarrow> unit verification_result" where
  "check_criterion_capabilities capability_map criterion =
    and_then (require (bc_capability_ids criterion \<noteq> [])
      (invalid ''missing_criterion_capability'' (bc_criterion_id criterion))) (\<lambda>_.
    checks (map (check_criterion_capability capability_map criterion) (bc_capability_ids criterion)))"

definition check_capability_closure ::
    "(string, capability_definition) btree_map \<Rightarrow> string set \<Rightarrow> capability_definition \<Rightarrow>
     unit verification_result" where
  "check_capability_closure capability_map behavior_criterion_ids capability =
    checks
      (map (\<lambda>dependency. require (bm_contains capability_map dependency)
         (invalid ''missing_capability_dependency'' (cd_capability_id capability @ '':'' @ dependency)))
         (cd_dependencies capability)
       @ [require (\<not> list_ex (\<lambda>i. i \<notin> behavior_criterion_ids) (cd_criterion_ids capability))
            (invalid ''extra_capability_criterion'' (cd_capability_id capability))])"

definition digest_matches :: "verification_fingerprints \<Rightarrow> current_bundle_proof \<Rightarrow> bool" where
  "digest_matches fingerprints proof_value \<longleftrightarrow>
     vfp_behavior_contract fingerprints = cbp_expected_behavior_contract_digest proof_value
   \<and> vfp_capability_set fingerprints = cbp_expected_capability_set_digest proof_value
   \<and> vfp_command fingerprints = cbp_expected_command_digest proof_value
   \<and> vfp_policy fingerprints = cbp_expected_policy_digest proof_value
   \<and> vfp_source_pre fingerprints = cbp_expected_source_digest proof_value
   \<and> vfp_source_post fingerprints = cbp_expected_source_digest proof_value
   \<and> vfp_environment fingerprints = cbp_expected_environment_digest proof_value"

definition evidence_id_of :: "string \<Rightarrow> evidence_id" where
  "evidence_id_of digest = ''verification-bundle-sha256-'' @ digest"

definition evidence_reference_of :: "string \<Rightarrow> string" where
  "evidence_reference_of digest = ''verification-bundles/sha256/'' @ digest"

definition bundle_evidence_ref :: "string \<Rightarrow> timestamp \<Rightarrow> evidence_ref" where
  "bundle_evidence_ref digest created_at =
    \<lparr>er_contract_version = current_version, er_id = evidence_id_of digest,
     er_kind = TestResult, er_reference = evidence_reference_of digest,
     er_producer_role = Coordinator,
     er_integrity = Some \<lparr>im_contract_version = current_version, im_algorithm = ''sha256'',
       im_digest = digest\<rparr>,
     er_produced_at = created_at\<rparr>"

definition criterion_satisfaction :: "behavior_criterion \<Rightarrow> authoritative_criterion_satisfaction" where
  "criterion_satisfaction criterion =
    \<lparr>acs_criterion_id = bc_criterion_id criterion, acs_kind = bc_kind criterion,
     acs_text = bc_text criterion\<rparr>"

definition check_bundle_identity ::
    "behavioral_acceptance_contract \<Rightarrow> verification_bundle \<Rightarrow> current_bundle_proof \<Rightarrow>
     goal_id \<times> task_id \<Rightarrow> unit verification_result" where
  "check_bundle_identity behavior bundle proof_value bound =
    checks
      [require (vb_verdict bundle = BundlePass)
         (invalid ''nonpass_not_admissible'' ''only a pass bundle may become completion evidence''),
       require (vb_goal_id bundle = fst bound \<and> vb_task_id bundle = snd bound)
         (invalid ''behavior_bundle_binding_mismatch''
           ''bundle GoalId/TaskId must match the bound behavior contract''),
       require (vb_behavior_contract_id bundle = bac_contract_id behavior)
         (invalid ''behavior_contract_id_mismatch'' ''bundle behavior contract ID differs''),
       require (cbp_expected_run_id proof_value = vb_run_id bundle
           \<and> cbp_expected_goal_id proof_value = vb_goal_id bundle
           \<and> cbp_expected_task_id proof_value = vb_task_id bundle)
         (invalid ''proof_binding_mismatch'' ''proof RunId/GoalId/TaskId must match the bundle''),
       require (length (vb_criterion_results bundle) = length (bac_criteria behavior))
         (invalid ''incomplete_criterion_coverage''
           ''bundle must cover every declared task criterion'')]"

definition admit_current_pass_bundle ::
    "behavioral_acceptance_contract \<Rightarrow> capability_definition list \<Rightarrow> verification_bundle \<Rightarrow>
     current_bundle_proof \<Rightarrow> admitted_task_evidence verification_result" where
  "admit_current_pass_bundle behavior capabilities bundle proof_value =
    and_then (validate_behavior behavior) (\<lambda>_.
    and_then (validate_bundle bundle) (\<lambda>_.
    and_then (validate_proof proof_value) (\<lambda>_.
    and_then (bound_ids behavior) (\<lambda>bound.
    and_then (check_bundle_identity behavior bundle proof_value bound) (\<lambda>_.
    and_then (checks (map check_criterion_result
      (zip (bac_criteria behavior) (vb_criterion_results bundle)))) (\<lambda>_.
    and_then (try_fold add_capability bm_empty capabilities) (\<lambda>capability_map.
    and_then (require (bm_keys capability_map = vb_capability_ids bundle)
      (invalid ''capability_set_mismatch''
        ''provided definitions must exactly match bundle capability IDs'')) (\<lambda>_.
    and_then (checks (map (check_criterion_capabilities capability_map) (bac_criteria behavior))) (\<lambda>_.
    and_then (checks (map (check_capability_closure capability_map
        (set (map bc_criterion_id (bac_criteria behavior)))) (map snd (bm_entries capability_map)))) (\<lambda>_.
    and_then (require (digest_matches (vb_fingerprints bundle) proof_value)
      (invalid ''stale_or_mismatched_fingerprint''
        ''one or more expected current digests differ'')) (\<lambda>_.
    let evidence = bundle_evidence_ref (cbp_bundle_digest proof_value) (vb_created_at bundle) in
    and_then (validate_logical_path (er_reference evidence)) (\<lambda>_.
    Ok \<lparr>ate_contract_version = local_verification_contract_version,
        ate_run_id = vb_run_id bundle, ate_goal_id = vb_goal_id bundle,
        ate_task_id = vb_task_id bundle, ate_evidence_ref = evidence,
        ate_satisfactions = map criterion_satisfaction (bac_criteria behavior)\<rparr>))))))))))))"

section \<open>Aggregation\<close>

definition insert_goal_criterion ::
    "behavior_kind \<Rightarrow> (behavior_kind \<times> string) set \<Rightarrow> string \<Rightarrow>
     (behavior_kind \<times> string) set verification_result" where
  "insert_goal_criterion kind expected criterion =
    and_then (validate_text criterion ''goal criterion'') (\<lambda>_.
    if (kind, criterion) \<in> expected
    then Err (invalid ''duplicate_goal_criterion''
      ''goal criteria must be unique by kind and exact text'')
    else Ok (insert (kind, criterion) expected))"

definition validate_admitted_task_evidence :: "admitted_task_evidence \<Rightarrow> unit verification_result" where
  "validate_admitted_task_evidence admitted =
    (let evidence = ate_evidence_ref admitted in
     and_then (checks
       [lv_validate_version (ate_contract_version admitted) ''admitted_task_evidence'',
        validate_stable_id (ate_run_id admitted) ''admitted.run_id'',
        validate_stable_id (ate_goal_id admitted) ''admitted.goal_id'',
        validate_stable_id (ate_task_id admitted) ''admitted.task_id'',
        require (er_contract_version evidence = current_version \<and> er_kind evidence = TestResult
            \<and> er_producer_role evidence = Coordinator)
          (invalid ''invalid_admitted_evidence_ref''
            ''admitted evidence must be a current TestResult produced by Coordinator'')]) (\<lambda>_.
     and_then (ok_or (er_integrity evidence)
       (invalid ''missing_admitted_integrity''
         ''admitted evidence requires SHA-256 integrity metadata'')) (\<lambda>integrity.
     checks
       [require (im_contract_version integrity = current_version \<and> im_algorithm integrity = ''sha256'')
          (invalid ''invalid_admitted_integrity''
            ''admitted integrity must use current contract version and sha256''),
        validate_digest (im_digest integrity) ''admitted integrity digest'',
        require (er_id evidence = evidence_id_of (im_digest integrity)
            \<and> er_reference evidence = evidence_reference_of (im_digest integrity))
          (invalid ''forged_admitted_evidence_ref''
            ''evidence ID and reference must derive from the integrity digest''),
        validate_logical_path (er_reference evidence),
        require (ate_satisfactions admitted \<noteq> [])
          (invalid ''empty_admitted_satisfactions''
            ''admitted evidence must carry authoritative satisfactions'')])))"

record aggregation =
  ag_evidence_ids :: "evidence_id set"
  ag_task_ids :: "task_id set"
  ag_criterion_ids :: "string set"
  ag_owners :: "(behavior_kind \<times> string, task_id) btree_map"

definition take_satisfaction ::
    "(behavior_kind \<times> string) set \<Rightarrow> task_id \<Rightarrow> aggregation \<Rightarrow>
     authoritative_criterion_satisfaction \<Rightarrow> aggregation verification_result" where
  "take_satisfaction expected task_id ag satisfaction =
    (let key = (acs_kind satisfaction, acs_text satisfaction) in
     and_then (validate_stable_id (acs_criterion_id satisfaction) ''criterion_id'') (\<lambda>_.
     and_then (validate_text (acs_text satisfaction) ''criterion text'') (\<lambda>_.
     and_then (lv_insert_new ''duplicate_criterion_id_ownership'' (ag_criterion_ids ag)
       (acs_criterion_id satisfaction)) (\<lambda>criterion_ids.
     and_then (require (key \<in> expected)
       (invalid ''extra_or_mismatched_criterion'' (acs_text satisfaction))) (\<lambda>_.
     and_then (require (\<not> bm_contains (ag_owners ag) key)
       (invalid ''duplicate_criterion_ownership'' (acs_text satisfaction))) (\<lambda>_.
     Ok (ag\<lparr>ag_criterion_ids := criterion_ids,
            ag_owners := bm_insert key task_id (ag_owners ag)\<rparr>)))))))"

definition take_task_evidence ::
    "goal_contract \<Rightarrow> run_id \<Rightarrow> (behavior_kind \<times> string) set \<Rightarrow> aggregation \<Rightarrow>
     admitted_task_evidence \<Rightarrow> aggregation verification_result" where
  "take_task_evidence goal expected_run_id expected ag evidence =
    and_then (validate_admitted_task_evidence evidence) (\<lambda>_.
    and_then (require (\<not> (ate_run_id evidence \<noteq> expected_run_id \<or> ate_goal_id evidence \<noteq> gc_id goal))
      (invalid ''admitted_binding_mismatch''
        ''all admitted evidence must share the authoritative run and goal'')) (\<lambda>_.
    and_then (lv_insert_new ''duplicate_task_evidence'' (ag_task_ids ag) (ate_task_id evidence)) (\<lambda>task_ids.
    and_then (lv_insert_new ''duplicate_evidence_id'' (ag_evidence_ids ag)
      (er_id (ate_evidence_ref evidence))) (\<lambda>evidence_ids.
    try_fold (take_satisfaction expected (ate_task_id evidence))
      (ag\<lparr>ag_task_ids := task_ids, ag_evidence_ids := evidence_ids\<rparr>)
      (ate_satisfactions evidence)))))"

definition expected_criteria :: "goal_contract \<Rightarrow> (behavior_kind \<times> string) set verification_result" where
  "expected_criteria goal =
    and_then (try_fold (insert_goal_criterion BehaviorAcceptance) {} (gc_acceptance_criteria goal)) (\<lambda>expected.
    and_then (try_fold (insert_goal_criterion BehaviorVerification) expected
      (gc_verification_criteria goal)) (\<lambda>expected.
    try_fold (insert_goal_criterion BehaviorDefinitionOfDone) expected (gc_definition_of_done goal)))"

definition aggregate_completion_evidence ::
    "goal_contract \<Rightarrow> run_id \<Rightarrow> admitted_task_evidence list \<Rightarrow> completion_evidence verification_result" where
  "aggregate_completion_evidence goal expected_run_id admitted =
    and_then (checks
      [lv_validate_version (gc_contract_version goal) ''goal_contract'',
       lv_validate_version (pp_contract_version (gc_permission_profile goal)) ''permission_profile'',
       lv_validate_version (cp_contract_version (gc_completion_precondition goal))
         ''completion_precondition'',
       validate_stable_id (gc_id goal) ''goal_id'',
       validate_stable_id expected_run_id ''run_id'',
       require (admitted \<noteq> [])
         (invalid ''missing_admitted_evidence''
           ''at least one admitted task evidence record is required'')]) (\<lambda>_.
    and_then (expected_criteria goal) (\<lambda>expected.
    and_then (try_fold (take_task_evidence goal expected_run_id expected)
      \<lparr>ag_evidence_ids = {}, ag_task_ids = {}, ag_criterion_ids = {}, ag_owners = bm_empty\<rparr>
      admitted) (\<lambda>ag.
    let minimum = unat (max (cp_minimum_evidence_refs (gc_completion_precondition goal)) 1) in
    and_then (checks
      [require (length (bm_entries (ag_owners ag)) = card expected)
         (invalid ''partial_goal_coverage''
           ''admitted task evidence does not cover the full GoalContract''),
       require (\<not> card (ag_evidence_ids ag) < minimum)
         (invalid ''insufficient_goal_evidence''
           (''goal requires '' @ show_nat minimum @ '' unique evidence refs, got ''
             @ show_nat (card (ag_evidence_ids ag))))]) (\<lambda>_.
    Ok \<lparr>ce_contract_version = current_version,
        ce_evidence_refs = sorted_list_of_set (ag_evidence_ids ag),
        ce_satisfied_acceptance_criteria = gc_acceptance_criteria goal,
        ce_satisfied_verification_criteria = gc_verification_criteria goal,
        ce_satisfied_definition_of_done = gc_definition_of_done goal\<rparr>))))"

section \<open>What is admitted\<close>

lemma split_on_no_sep: "c \<notin> set a \<Longrightarrow> split_on c a = [a]"
  by (induction a) auto

lemma split_on_append: "c \<notin> set a \<Longrightarrow> split_on c (a @ c # b) = a # split_on c b"
  by (induction a) auto

lemma evidence_reference_path:
  assumes "valid_digest digest"
  shows "path_ok (evidence_reference_of digest)"
proof -
  note chars = valid_digest_chars [OF assms]
  have "digest \<noteq> []" "digest \<noteq> ''.''" "digest \<noteq> ''..''"
    using assms by (auto simp: valid_digest_def)
  moreover have "split_on CHR ''/'' (''verification-bundles'' @ CHR ''/'' # ''sha256'' @ CHR ''/'' # digest)
      = [''verification-bundles'', ''sha256'', digest]"
    using split_on_append [of "CHR ''/''" "''verification-bundles''" "''sha256'' @ CHR ''/'' # digest"]
      split_on_append [of "CHR ''/''" "''sha256''" digest] split_on_no_sep [OF chars(3)]
    by simp
  moreover have "\<forall>c \<in> set ''verification-bundles/sha256/''. \<not> control_char c \<and> c \<noteq> CHR 0x5C \<and> c \<noteq> CHR '':''"
    by code_simp
  ultimately show ?thesis
    using chars(2,4,5) by (auto simp: path_ok_def evidence_reference_of_def)
qed

lemma add_capability_iff:
  "add_capability m d = Ok m' \<longleftrightarrow> capability_ok d \<and> cd_capability_id d \<notin> set (bm_keys m)
     \<and> m' = bm_insert (cd_capability_id d) d m"
  by (auto simp: add_capability_def result_iff bm_contains_iff)

lemma add_capabilities_iff:
  "try_fold add_capability m ds = Ok m' \<longleftrightarrow> (\<forall>d \<in> set ds. capability_ok d)
     \<and> distinct (map cd_capability_id ds) \<and> cd_capability_id ` set ds \<inter> set (bm_keys m) = {}
     \<and> m' = fold (\<lambda>d. bm_insert (cd_capability_id d) d) ds m"
  by (induction ds arbitrary: m) (auto simp: result_iff add_capability_iff)

definition capability_map_of ::
    "capability_definition list \<Rightarrow> (string, capability_definition) btree_map" where
  "capability_map_of ds = fold (\<lambda>d. bm_insert (cd_capability_id d) d) ds bm_empty"

lemma capability_map_keys: "set (bm_keys (capability_map_of ds)) = cd_capability_id ` set ds"
proof -
  have "set (bm_keys (fold (\<lambda>d. bm_insert (cd_capability_id d) d) ds m)) = cd_capability_id ` set ds \<union> set (bm_keys m)"
    for m :: "(string, capability_definition) btree_map"
    by (induction ds arbitrary: m) auto
  then show ?thesis by (simp add: capability_map_of_def)
qed

lemma capability_map_get:
  assumes "distinct (map cd_capability_id ds)"
  shows "bm_get (capability_map_of ds) i = Some d \<longleftrightarrow> d \<in> set ds \<and> cd_capability_id d = i"
proof -
  have "bm_get (fold (\<lambda>d. bm_insert (cd_capability_id d) d) ds m) i = Some d \<longleftrightarrow>
      d \<in> set ds \<and> cd_capability_id d = i \<or> i \<notin> cd_capability_id ` set ds \<and> bm_get m i = Some d"
    for m :: "(string, capability_definition) btree_map"
    using assms by (induction ds arbitrary: m) (auto split: if_splits)
  then show ?thesis by (simp add: capability_map_of_def)
qed

lemma capability_map_entries:
  assumes "distinct (map cd_capability_id ds)"
  shows "set (map snd (bm_entries (capability_map_of ds))) = set ds"
proof -
  have "d \<in> set (map snd (bm_entries (capability_map_of ds))) \<longleftrightarrow> (\<exists>i. bm_get (capability_map_of ds) i = Some d)" for d
    by (force simp flip: bm_entries_iff)
  then show ?thesis by (auto simp: capability_map_get [OF assms])
qed

text \<open>Every criterion has a capability that claims it, and nothing dangles.\<close>

definition capabilities_bound ::
    "behavior_criterion list \<Rightarrow> capability_definition list \<Rightarrow> bool" where
  "capabilities_bound criteria capabilities \<longleftrightarrow>
     (\<forall>c \<in> set criteria. bc_capability_ids c \<noteq> []
        \<and> (\<forall>i \<in> set (bc_capability_ids c). \<exists>d \<in> set capabilities. cd_capability_id d = i
             \<and> bc_criterion_id c \<in> set (cd_criterion_ids d)))
   \<and> (\<forall>d \<in> set capabilities. set (cd_dependencies d) \<subseteq> cd_capability_id ` set capabilities
        \<and> set (cd_criterion_ids d) \<subseteq> bc_criterion_id ` set criteria)"

lemma capability_ok_search:
  "capability_ok d \<Longrightarrow> binary_search (cd_criterion_ids d) i \<longleftrightarrow> i \<in> set (cd_criterion_ids d)"
  by (intro binary_search_sorted)
    (simp add: capability_ok_def non_command_fields_ok_def ids_ok_def strict_sorted_imp_sorted)

lemma checks_map_iff: "checks (map f xs) = Ok u \<longleftrightarrow> (\<forall>x \<in> set xs. f x = Ok ())"
  by (simp add: checks_Ok_iff)

lemma criteria_capabilities_iff:
  assumes "\<forall>d \<in> set ds. capability_ok d" "distinct (map cd_capability_id ds)"
  shows "checks (map (check_criterion_capabilities (capability_map_of ds)) cs) = Ok u
      \<and> checks (map (check_capability_closure (capability_map_of ds) (set (map bc_criterion_id cs)))
          (map snd (bm_entries (capability_map_of ds)))) = Ok v
    \<longleftrightarrow> capabilities_bound cs ds"
proof -
  have one: "check_criterion_capabilities (capability_map_of ds) c = Ok () \<longleftrightarrow>
      bc_capability_ids c \<noteq> [] \<and> (\<forall>i \<in> set (bc_capability_ids c). \<exists>d \<in> set ds.
        cd_capability_id d = i \<and> bc_criterion_id c \<in> set (cd_criterion_ids d))" for c
    using assms(1)
    by (simp add: check_criterion_capabilities_def check_criterion_capability_def
        result_iff capability_map_get [OF assms(2)]) (use capability_ok_search in blast)
  have two: "check_capability_closure (capability_map_of ds) (set (map bc_criterion_id cs)) d = Ok () \<longleftrightarrow>
      set (cd_dependencies d) \<subseteq> cd_capability_id ` set ds
      \<and> set (cd_criterion_ids d) \<subseteq> bc_criterion_id ` set cs" for d
    by (auto simp: check_capability_closure_def result_iff bm_contains_iff capability_map_keys
        list_ex_iff)
  show ?thesis
    by (simp only: checks_map_iff capability_map_entries [OF assms(2)] one two capabilities_bound_def)
qed

definition results_match :: "behavior_criterion list \<Rightarrow> criterion_result list \<Rightarrow> bool" where
  "results_match criteria results \<longleftrightarrow>
     list_all2 (\<lambda>c r. bc_criterion_id c = cr_criterion_id r \<and> bc_order c = cr_order r
       \<and> bc_kind c = cr_kind r \<and> bc_text c = cr_text r
       \<and> (bc_required c \<longrightarrow> cr_verdict r = ResultPass)) criteria results"

lemma results_match_iff:
  "length results = length criteria \<and> checks (map check_criterion_result (zip criteria results)) = Ok u
     \<longleftrightarrow> results_match criteria results"
  by (auto simp: results_match_def list_all2_iff check_criterion_result_def result_iff)

definition behavior_ok :: "behavioral_acceptance_contract \<Rightarrow> bool" where
  "behavior_ok b \<longleftrightarrow> validate_behavior b = Ok ()"

definition admitted_evidence ::
    "behavioral_acceptance_contract \<Rightarrow> verification_bundle \<Rightarrow> string \<Rightarrow> admitted_task_evidence" where
  "admitted_evidence behavior bundle digest =
    \<lparr>ate_contract_version = 1, ate_run_id = vb_run_id bundle, ate_goal_id = vb_goal_id bundle,
     ate_task_id = vb_task_id bundle,
     ate_evidence_ref = bundle_evidence_ref digest (vb_created_at bundle),
     ate_satisfactions = map criterion_satisfaction (bac_criteria behavior)\<rparr>"

definition bundle_admissible ::
    "behavioral_acceptance_contract \<Rightarrow> capability_definition list \<Rightarrow> verification_bundle \<Rightarrow>
     current_bundle_proof \<Rightarrow> bool" where
  "bundle_admissible behavior capabilities bundle p \<longleftrightarrow>
     behavior_ok behavior \<and> bundle_ok bundle \<and> proof_ok p \<and> (\<forall>d \<in> set capabilities. capability_ok d)
   \<and> vb_verdict bundle = BundlePass
   \<and> bac_binding behavior = Bound (vb_goal_id bundle) (vb_task_id bundle)
   \<and> vb_behavior_contract_id bundle = bac_contract_id behavior
   \<and> cbp_expected_run_id p = vb_run_id bundle \<and> cbp_expected_goal_id p = vb_goal_id bundle
   \<and> cbp_expected_task_id p = vb_task_id bundle
   \<and> results_match (bac_criteria behavior) (vb_criterion_results bundle)
   \<and> distinct (map cd_capability_id capabilities)
   \<and> cd_capability_id ` set capabilities = set (vb_capability_ids bundle)
   \<and> capabilities_bound (bac_criteria behavior) capabilities
   \<and> digest_matches (vb_fingerprints bundle) p"

lemma check_bundle_identity_iff:
  "check_bundle_identity behavior bundle p (g, t) = Ok u \<longleftrightarrow>
     vb_verdict bundle = BundlePass \<and> vb_goal_id bundle = g \<and> vb_task_id bundle = t
   \<and> vb_behavior_contract_id bundle = bac_contract_id behavior
   \<and> cbp_expected_run_id p = vb_run_id bundle \<and> cbp_expected_goal_id p = vb_goal_id bundle
   \<and> cbp_expected_task_id p = vb_task_id bundle
   \<and> length (vb_criterion_results bundle) = length (bac_criteria behavior)"
  by (auto simp: check_bundle_identity_def result_iff)


lemma admit_iff:
  "admit_current_pass_bundle behavior capabilities bundle p = Ok admitted \<longleftrightarrow>
     bundle_admissible behavior capabilities bundle p
   \<and> admitted = admitted_evidence behavior bundle (cbp_bundle_digest p)"
  (is "?code \<longleftrightarrow> ?spec")
proof -
  let ?map = "capability_map_of capabilities"
  have fold_iff: "try_fold add_capability bm_empty capabilities = Ok m \<longleftrightarrow>
      (\<forall>d \<in> set capabilities. capability_ok d) \<and> distinct (map cd_capability_id capabilities) \<and> m = ?map" for m
    by (simp add: add_capabilities_iff capability_map_of_def)
  have path: "proof_ok p \<Longrightarrow> path_ok (er_reference (bundle_evidence_ref (cbp_bundle_digest p) t))" for t
    by (simp add: bundle_evidence_ref_def evidence_reference_path proof_ok_def)
  have keys: "bundle_ok bundle \<Longrightarrow> bm_keys ?map = vb_capability_ids bundle \<longleftrightarrow>
      cd_capability_id ` set capabilities = set (vb_capability_ids bundle)"
    using strict_sorted_equal [OF bm_keys_sorted [of ?map]]
    by (auto simp: capability_map_keys [symmetric] bundle_ok_def ids_ok_def)
  have "?code \<longleftrightarrow> behavior_ok behavior \<and> bundle_ok bundle \<and> proof_ok p
      \<and> (\<exists>g t. bac_binding behavior = Bound g t
          \<and> check_bundle_identity behavior bundle p (g, t) = Ok ())
      \<and> checks (map check_criterion_result
          (zip (bac_criteria behavior) (vb_criterion_results bundle))) = Ok ()
      \<and> (\<forall>d \<in> set capabilities. capability_ok d) \<and> distinct (map cd_capability_id capabilities)
      \<and> bm_keys ?map = vb_capability_ids bundle
      \<and> (checks (map (check_criterion_capabilities ?map) (bac_criteria behavior)) = Ok ()
         \<and> checks (map (check_capability_closure ?map (set (map bc_criterion_id (bac_criteria behavior))))
             (map snd (bm_entries ?map))) = Ok ())
      \<and> digest_matches (vb_fingerprints bundle) p
      \<and> admitted = admitted_evidence behavior bundle (cbp_bundle_digest p)"
    unfolding admit_current_pass_bundle_def Let_def and_then_Ok_iff fold_iff require_Ok_iff
      validate_logical_path_iff validate_bundle_ok validate_proof_iff
    using path
    by (fastforce simp: behavior_ok_def bound_ids_iff admitted_evidence_def
        local_verification_contract_version_def)
  also have "\<dots> \<longleftrightarrow> ?spec"
    unfolding check_bundle_identity_iff bundle_admissible_def
    using keys criteria_capabilities_iff [of capabilities "bac_criteria behavior" "()" "()"]
      results_match_iff [of "vb_criterion_results bundle" "bac_criteria behavior" "()"]
    by auto
  finally show ?thesis .
qed

section \<open>What is aggregated\<close>

definition admitted_ok :: "admitted_task_evidence \<Rightarrow> bool" where
  "admitted_ok a \<longleftrightarrow> validate_admitted_task_evidence a = Ok ()"

lemma admitted_evidence_ok:
  assumes "bundle_admissible behavior capabilities bundle p"
  shows "admitted_ok (admitted_evidence behavior bundle (cbp_bundle_digest p))"
  using assms
  by (auto simp: admitted_ok_def validate_admitted_task_evidence_def admitted_evidence_def Let_def
      bundle_evidence_ref_def bundle_admissible_def bundle_ok_def proof_ok_def result_iff
      evidence_reference_path behavior_ok_def)

definition criterion_key :: "authoritative_criterion_satisfaction \<Rightarrow> behavior_kind \<times> string" where
  "criterion_key s = (acs_kind s, acs_text s)"

text \<open>The criteria of a goal, by kind and text, and when they are distinct.\<close>

definition goal_criteria :: "goal_contract \<Rightarrow> (behavior_kind \<times> string) list" where
  "goal_criteria goal =
     map (Pair BehaviorAcceptance) (gc_acceptance_criteria goal)
   @ map (Pair BehaviorVerification) (gc_verification_criteria goal)
   @ map (Pair BehaviorDefinitionOfDone) (gc_definition_of_done goal)"

lemma insert_goal_criterion_loop_iff:
  "try_fold (insert_goal_criterion kind) S xs = Ok S' \<longleftrightarrow>
     (\<forall>x \<in> set xs. text_ok x) \<and> distinct (map (Pair kind) xs) \<and> Pair kind ` set xs \<inter> S = {}
     \<and> S' = S \<union> Pair kind ` set xs"
  by (induction xs arbitrary: S) (auto simp: result_iff insert_goal_criterion_def text_ok_def)

lemma expected_criteria_iff:
  "expected_criteria goal = Ok expected \<longleftrightarrow>
     (\<forall>c \<in> set (goal_criteria goal). text_ok (snd c)) \<and> distinct (goal_criteria goal)
     \<and> expected = set (goal_criteria goal)"
  unfolding expected_criteria_def and_then_Ok_iff insert_goal_criterion_loop_iff goal_criteria_def
    set_append set_map distinct_append ball_Un Un_assoc
  by auto

definition satisfaction_pairs ::
    "admitted_task_evidence list \<Rightarrow> ((behavior_kind \<times> string) \<times> task_id) list" where
  "satisfaction_pairs es =
    concat (map (\<lambda>e. map (\<lambda>s. (criterion_key s, ate_task_id e)) (ate_satisfactions e)) es)"

definition fresh_satisfactions ::
    "(behavior_kind \<times> string) set \<Rightarrow> string set \<Rightarrow> (behavior_kind \<times> string) set \<Rightarrow>
     authoritative_criterion_satisfaction list \<Rightarrow> bool" where
  "fresh_satisfactions expected criterion_ids keys ss \<longleftrightarrow>
     (\<forall>s \<in> set ss. stable_id (acs_criterion_id s) \<and> text_ok (acs_text s) \<and> criterion_key s \<in> expected)
   \<and> distinct (map acs_criterion_id ss) \<and> acs_criterion_id ` set ss \<inter> criterion_ids = {}
   \<and> distinct (map criterion_key ss) \<and> criterion_key ` set ss \<inter> keys = {}"

lemma fresh_satisfactions_append:
  "fresh_satisfactions expected C K (xs @ ys) \<longleftrightarrow> fresh_satisfactions expected C K xs
     \<and> fresh_satisfactions expected (C \<union> acs_criterion_id ` set xs) (criterion_key ` set xs \<union> K) ys"
  unfolding fresh_satisfactions_def by auto

lemma take_satisfactions_iff:
  "try_fold (take_satisfaction expected t) ag ss = Ok ag' \<longleftrightarrow>
     fresh_satisfactions expected (ag_criterion_ids ag) (set (bm_keys (ag_owners ag))) ss
   \<and> ag' = ag\<lparr>ag_criterion_ids := ag_criterion_ids ag \<union> acs_criterion_id ` set ss,
            ag_owners := fold (\<lambda>s. bm_insert (criterion_key s) t) ss (ag_owners ag)\<rparr>"
proof (induction ss arbitrary: ag)
  case Nil
  then show ?case by (auto simp: fresh_satisfactions_def)
next
  case (Cons s ss)
  have step: "take_satisfaction expected t ag s = Ok m \<longleftrightarrow>
      stable_id (acs_criterion_id s) \<and> text_ok (acs_text s) \<and> criterion_key s \<in> expected
      \<and> acs_criterion_id s \<notin> ag_criterion_ids ag \<and> criterion_key s \<notin> set (bm_keys (ag_owners ag))
      \<and> m = ag\<lparr>ag_criterion_ids := insert (acs_criterion_id s) (ag_criterion_ids ag),
             ag_owners := bm_insert (criterion_key s) t (ag_owners ag)\<rparr>" for m
    by (auto simp: take_satisfaction_def Let_def result_iff text_ok_def criterion_key_def bm_contains_iff)
  show ?case
    unfolding try_fold.simps and_then_Ok_iff step Cons.IH fresh_satisfactions_def by auto
qed

lemma keys_fold_insert:
  "set (bm_keys (fold (\<lambda>s. bm_insert (k s) (v s)) ss m)) = k ` set ss \<union> set (bm_keys m)"
  by (induction ss arbitrary: m) auto

lemma take_task_evidence_iff:
  "take_task_evidence goal run expected ag e = Ok ag' \<longleftrightarrow>
     admitted_ok e \<and> ate_run_id e = run \<and> ate_goal_id e = gc_id goal
   \<and> ate_task_id e \<notin> ag_task_ids ag \<and> er_id (ate_evidence_ref e) \<notin> ag_evidence_ids ag
   \<and> fresh_satisfactions expected (ag_criterion_ids ag) (set (bm_keys (ag_owners ag)))
       (ate_satisfactions e)
   \<and> ag' = \<lparr>ag_evidence_ids = insert (er_id (ate_evidence_ref e)) (ag_evidence_ids ag),
           ag_task_ids = insert (ate_task_id e) (ag_task_ids ag),
           ag_criterion_ids = ag_criterion_ids ag \<union> acs_criterion_id ` set (ate_satisfactions e),
           ag_owners = fold (\<lambda>s. bm_insert (criterion_key s) (ate_task_id e)) (ate_satisfactions e)
             (ag_owners ag)\<rparr>"
  unfolding take_task_evidence_def and_then_Ok_iff take_satisfactions_iff
  by (auto simp: result_iff admitted_ok_def)

definition all_satisfactions ::
    "admitted_task_evidence list \<Rightarrow> authoritative_criterion_satisfaction list" where
  "all_satisfactions es = concat (map ate_satisfactions es)"

abbreviation evidence_id :: "admitted_task_evidence \<Rightarrow> evidence_id" where
  "evidence_id e \<equiv> er_id (ate_evidence_ref e)"

definition fresh_tasks ::
    "goal_contract \<Rightarrow> run_id \<Rightarrow> task_id set \<Rightarrow> evidence_id set \<Rightarrow> admitted_task_evidence list \<Rightarrow> bool" where
  "fresh_tasks goal run tasks evidence es \<longleftrightarrow>
     (\<forall>e \<in> set es. admitted_ok e \<and> ate_run_id e = run \<and> ate_goal_id e = gc_id goal)
   \<and> distinct (map ate_task_id es) \<and> ate_task_id ` set es \<inter> tasks = {}
   \<and> distinct (map evidence_id es) \<and> evidence_id ` set es \<inter> evidence = {}"

lemma fresh_tasks_Cons:
  "fresh_tasks goal run T E (e # es) \<longleftrightarrow>
     admitted_ok e \<and> ate_run_id e = run \<and> ate_goal_id e = gc_id goal
     \<and> ate_task_id e \<notin> T \<and> evidence_id e \<notin> E
     \<and> fresh_tasks goal run (insert (ate_task_id e) T) (insert (evidence_id e) E) es"
  unfolding fresh_tasks_def by auto

definition take_all :: "admitted_task_evidence list \<Rightarrow> aggregation \<Rightarrow> aggregation" where
  "take_all es ag =
    \<lparr>ag_evidence_ids = ag_evidence_ids ag \<union> evidence_id ` set es,
     ag_task_ids = ag_task_ids ag \<union> ate_task_id ` set es,
     ag_criterion_ids = ag_criterion_ids ag \<union> acs_criterion_id ` set (all_satisfactions es),
     ag_owners = fold (\<lambda>(k, t). bm_insert k t) (satisfaction_pairs es) (ag_owners ag)\<rparr>"

lemma take_all_Cons:
  "take_all (e # es) ag = take_all es
     \<lparr>ag_evidence_ids = insert (evidence_id e) (ag_evidence_ids ag),
      ag_task_ids = insert (ate_task_id e) (ag_task_ids ag),
      ag_criterion_ids = ag_criterion_ids ag \<union> acs_criterion_id ` set (ate_satisfactions e),
      ag_owners = fold (\<lambda>s. bm_insert (criterion_key s) (ate_task_id e)) (ate_satisfactions e)
        (ag_owners ag)\<rparr>"
  by (simp add: take_all_def all_satisfactions_def satisfaction_pairs_def image_Un Un_assoc
      fold_map comp_def)

lemma take_tasks_iff:
  "try_fold (take_task_evidence goal run expected) ag es = Ok ag' \<longleftrightarrow>
     fresh_tasks goal run (ag_task_ids ag) (ag_evidence_ids ag) es
   \<and> fresh_satisfactions expected (ag_criterion_ids ag) (set (bm_keys (ag_owners ag)))
       (all_satisfactions es)
   \<and> ag' = take_all es ag"
proof (induction es arbitrary: ag)
  case Nil
  then show ?case
    by (cases ag) (auto simp: fresh_tasks_def fresh_satisfactions_def all_satisfactions_def
        take_all_def satisfaction_pairs_def)
next
  case (Cons e es)
  have all: "all_satisfactions (e # es) = ate_satisfactions e @ all_satisfactions es"
    by (simp add: all_satisfactions_def)
  show ?case
    unfolding try_fold.simps and_then_Ok_iff take_task_evidence_iff Cons.IH take_all_Cons
      fresh_tasks_Cons all fresh_satisfactions_append
    by (auto simp: keys_fold_insert)
qed

lemma length_entries: "length (bm_entries m) = card (set (bm_keys m))"
  by (metis bm_keys_distinct bm_keys_def distinct_card length_map)

lemma owners_keys:
  "set (bm_keys (fold (\<lambda>(k, t). bm_insert k t) (satisfaction_pairs es) bm_empty))
     = criterion_key ` set (all_satisfactions es)"
proof -
  have "map fst (satisfaction_pairs es) = map criterion_key (all_satisfactions es)"
    by (simp add: satisfaction_pairs_def all_satisfactions_def map_concat comp_def)
  then have "fst ` set (satisfaction_pairs es) = criterion_key ` set (all_satisfactions es)"
    by (metis set_map)
  then show ?thesis
    using keys_fold_insert [of fst snd "satisfaction_pairs es" bm_empty]
    by (simp add: case_prod_unfold)
qed

definition aggregable :: "goal_contract \<Rightarrow> run_id \<Rightarrow> admitted_task_evidence list \<Rightarrow> bool" where
  "aggregable goal run admitted \<longleftrightarrow>
     gc_contract_version goal = 1 \<and> pp_contract_version (gc_permission_profile goal) = 1
   \<and> cp_contract_version (gc_completion_precondition goal) = 1
   \<and> stable_id (gc_id goal) \<and> stable_id run \<and> admitted \<noteq> []
   \<and> (\<forall>c \<in> set (goal_criteria goal). text_ok (snd c)) \<and> distinct (goal_criteria goal)
   \<and> (\<forall>a \<in> set admitted. admitted_ok a \<and> ate_run_id a = run \<and> ate_goal_id a = gc_id goal)
   \<and> distinct (map ate_task_id admitted) \<and> distinct (map (evidence_id) admitted)
   \<and> (\<forall>s \<in> set (all_satisfactions admitted). stable_id (acs_criterion_id s))
   \<and> distinct (map acs_criterion_id (all_satisfactions admitted))
   \<and> distinct (map criterion_key (all_satisfactions admitted))
   \<and> criterion_key ` set (all_satisfactions admitted) = set (goal_criteria goal)
   \<and> unat (max (cp_minimum_evidence_refs (gc_completion_precondition goal)) 1) \<le> length admitted"

definition aggregated :: "goal_contract \<Rightarrow> admitted_task_evidence list \<Rightarrow> completion_evidence" where
  "aggregated goal admitted =
    \<lparr>ce_contract_version = 1,
     ce_evidence_refs = sort (map (evidence_id) admitted),
     ce_satisfied_acceptance_criteria = gc_acceptance_criteria goal,
     ce_satisfied_verification_criteria = gc_verification_criteria goal,
     ce_satisfied_definition_of_done = gc_definition_of_done goal\<rparr>"

lemma aggregate_iff:
  "aggregate_completion_evidence goal run admitted = Ok evidence \<longleftrightarrow>
     aggregable goal run admitted \<and> evidence = aggregated goal admitted"
  (is "?code \<longleftrightarrow> ?spec")
proof -
  let ?expected = "set (goal_criteria goal)"
  let ?sats = "all_satisfactions admitted"
  let ?ids = "map (evidence_id) admitted"
  let ?minimum = "unat (max (cp_minimum_evidence_refs (gc_completion_precondition goal)) 1)"
  have cover: "keys \<subseteq> ?expected \<Longrightarrow> card keys = card ?expected \<longleftrightarrow> keys = ?expected" for keys
    using card_subset_eq [of ?expected keys] by auto
  have ids: "distinct ?ids \<Longrightarrow> card (set ?ids) = length admitted"
      "distinct ?ids \<Longrightarrow> sorted_list_of_set (set ?ids) = sort ?ids"
    by (simp_all add: distinct_card sorted_list_of_set_sort_remdups distinct_remdups_id del: set_map)
  have texts: "c \<in> ?expected \<Longrightarrow> criterion_key s = c \<Longrightarrow> \<forall>c \<in> ?expected. text_ok (snd c) \<Longrightarrow> text_ok (acs_text s)"
    for c s by (force simp: criterion_key_def)
  have fresh: "fresh_satisfactions ?expected {} {} ?sats \<and> card (criterion_key ` set ?sats) = card ?expected
      \<longleftrightarrow> (\<forall>s \<in> set ?sats. stable_id (acs_criterion_id s)) \<and> distinct (map acs_criterion_id ?sats)
        \<and> distinct (map criterion_key ?sats) \<and> criterion_key ` set ?sats = ?expected"
    if "\<forall>c \<in> ?expected. text_ok (snd c)"
    unfolding fresh_satisfactions_def using cover [of "criterion_key ` set ?sats"] texts that by blast
  have tasks: "fresh_tasks goal run {} {} admitted \<longleftrightarrow>
      (\<forall>a \<in> set admitted. admitted_ok a \<and> ate_run_id a = run \<and> ate_goal_id a = gc_id goal)
      \<and> distinct (map ate_task_id admitted) \<and> distinct ?ids"
    by (simp add: fresh_tasks_def)
  have "?code \<longleftrightarrow>
     gc_contract_version goal = 1 \<and> pp_contract_version (gc_permission_profile goal) = 1
   \<and> cp_contract_version (gc_completion_precondition goal) = 1
   \<and> stable_id (gc_id goal) \<and> stable_id run \<and> admitted \<noteq> []
   \<and> (\<forall>c \<in> ?expected. text_ok (snd c)) \<and> distinct (goal_criteria goal)
   \<and> fresh_tasks goal run {} {} admitted
   \<and> (fresh_satisfactions ?expected {} {} ?sats \<and> card (criterion_key ` set ?sats) = card ?expected)
   \<and> ?minimum \<le> card (set ?ids)
   \<and> evidence = \<lparr>ce_contract_version = 1, ce_evidence_refs = sorted_list_of_set (set ?ids),
          ce_satisfied_acceptance_criteria = gc_acceptance_criteria goal,
          ce_satisfied_verification_criteria = gc_verification_criteria goal,
          ce_satisfied_definition_of_done = gc_definition_of_done goal\<rparr>"
    unfolding aggregate_completion_evidence_def Let_def and_then_Ok_iff expected_criteria_iff
      take_tasks_iff
    by (auto simp: result_iff current_version_def goal_runtime_contract_version_def length_entries
        owners_keys take_all_def not_less)
  also have "\<dots> \<longleftrightarrow> ?spec"
    unfolding aggregable_def aggregated_def tasks using fresh ids by (auto simp del: set_map)
  finally show ?thesis .
qed
end
