(* ===== verification/Verification_Binding.thy ===== *)
theory Verification_Binding
  imports Targeted_Rerun_Safety Verification_Admission
begin

text \<open>
  The binding of a verifier's bundle to what it claims to have verified, the middle of
  \<open>ovca-types/src/goal_runtime/local_verification.rs\<close>: the transcript of the commands that
  ran, the canonical digests of commands, behaviors, capabilities and policies, the identity of a
  bundle, and the validator that checks a bundle of any verdict against its behavior, its
  selection, its capabilities and its transcript. JSON encoders are the fields of a codec.
\<close>

section \<open>Transcripts\<close>

datatype verification_termination =
    RunCompleted | RunTimeout | RunOutputLimit | RunInvalid

text \<open>An \<open>i32\<close> by its bits.\<close>

type_synonym i32 = "32 word"

record transcript_command_identity =
  tci_sequence :: u32
  tci_command_digest :: string
  tci_executable_digest :: string
  tci_termination :: verification_termination
  tci_exit_code :: "i32 option"
  tci_stdout_sha256 :: string
  tci_stderr_sha256 :: string
  tci_stdout_bytes :: u64
  tci_stderr_bytes :: u64

record verification_transcript_identity =
  vti_commands :: "transcript_command_identity list"

definition check_termination :: "transcript_command_identity \<Rightarrow> unit verification_result" where
  "check_termination command =
    (case tci_termination command of
       RunCompleted \<Rightarrow> require (tci_exit_code command \<noteq> None)
         (invalid ''missing_completed_exit_code''
           ''completed transcript entries require an exit code'')
     | RunTimeout \<Rightarrow> require (tci_exit_code command = None)
         (invalid ''terminal_exit_code_forbidden''
           ''timeout and output-limit entries cannot carry an exit code'')
     | RunOutputLimit \<Rightarrow> require (tci_exit_code command = None)
         (invalid ''terminal_exit_code_forbidden''
           ''timeout and output-limit entries cannot carry an exit code'')
     | RunInvalid \<Rightarrow> Ok ())"

definition validate_transcript_command ::
    "nat \<times> transcript_command_identity \<Rightarrow> unit verification_result" where
  "validate_transcript_command entry =
    (let (index, command) = entry in
     checks
       [require (tci_sequence command = of_nat index)
          (invalid ''noncanonical_transcript_sequence''
            ''transcript sequence must be contiguous and zero based''),
        validate_digest (tci_command_digest command) ''transcript.command_digest'',
        validate_digest (tci_executable_digest command) ''transcript.executable_digest'',
        validate_digest (tci_stdout_sha256 command) ''transcript.stdout_sha256'',
        validate_digest (tci_stderr_sha256 command) ''transcript.stderr_sha256'',
        check_termination command])"

definition validate_transcript :: "verification_transcript_identity \<Rightarrow> unit verification_result" where
  "validate_transcript self =
    checks (map validate_transcript_command (enumerate 0 (vti_commands self)))"

section \<open>Encoding\<close>

record transcript_payload =
  trp_version :: string
  trp_commands :: "transcript_command_identity list"

record command_payload =
  cmp_version :: string
  cmp_capability_id :: string
  cmp_capability_revision :: u64
  cmp_command_index :: u32
  cmp_command :: verification_command

record bundle_identity_payload =
  bip_version :: string
  bip_run_id :: run_id
  bip_goal_id :: goal_id
  bip_task_id :: task_id
  bip_selection_digest :: string
  bip_transcript_sha256 :: string
  bip_implementation_actor :: worker_id
  bip_verifier_actor :: worker_id
  bip_created_at :: timestamp

record capability_set_payload =
  csp_version :: string
  csp_capabilities :: "selected_capability list"

record command_set_entry =
  cse_capability_id :: string
  cse_capability_revision :: u64
  cse_command_index :: u32
  cse_command_digest :: string

record command_set_payload =
  cosp_version :: string
  cosp_commands :: "command_set_entry list"

record policy_set_entry =
  pse_capability_id :: string
  pse_capability_revision :: u64
  pse_policy :: local_machine_policy

record policy_set_payload =
  psp_version :: string
  psp_capabilities :: "policy_set_entry list"

record bundle_codec =
  bcd_rerun :: rerun_codec
  bcd_behavior :: "behavioral_acceptance_contract \<Rightarrow> string + byte list"
  bcd_transcript :: "transcript_payload \<Rightarrow> string + byte list"
  bcd_command :: "command_payload \<Rightarrow> string + byte list"
  bcd_identity :: "bundle_identity_payload \<Rightarrow> string + byte list"
  bcd_capability_set :: "capability_set_payload \<Rightarrow> string + byte list"
  bcd_command_set :: "command_set_payload \<Rightarrow> string + byte list"
  bcd_policy_set :: "policy_set_payload \<Rightarrow> string + byte list"

definition canonical_json_lf :: "string + byte list \<Rightarrow> byte list verification_result" where
  "canonical_json_lf encoded = and_then (serialized encoded) (\<lambda>bytes. Ok (bytes @ [10]))"

definition behavior_bytes ::
    "bundle_codec \<Rightarrow> behavioral_acceptance_contract \<Rightarrow> byte list verification_result" where
  "behavior_bytes C self =
    and_then (validate_behavior self) (\<lambda>_. serialized (bcd_behavior C self))"

definition transcript_bytes ::
    "bundle_codec \<Rightarrow> verification_transcript_identity \<Rightarrow> byte list verification_result" where
  "transcript_bytes C self =
    and_then (validate_transcript self) (\<lambda>_.
    canonical_json_lf (bcd_transcript C
      \<lparr>trp_version = ''ovca.verification-transcript.v1'', trp_commands = vti_commands self\<rparr>))"

definition transcript_sha256 ::
    "bundle_codec \<Rightarrow> verification_transcript_identity \<Rightarrow> string verification_result" where
  "transcript_sha256 C self =
    and_then (transcript_bytes C self) (\<lambda>bytes. Ok (verification_sha256_hex bytes))"

section \<open>Digests\<close>

definition verification_command_digest ::
    "bundle_codec \<Rightarrow> capability_definition \<Rightarrow> nat \<Rightarrow> string verification_result" where
  "verification_command_digest C capability command_index =
    and_then (ok_or (if command_index < length (cd_commands capability)
        then Some (cd_commands capability ! command_index) else None)
      (invalid ''invalid_command_index''
        ''command index is outside the capability command array'')) (\<lambda>command.
    and_then (require (command_index < 2 ^ 32)
      (invalid ''invalid_command_index'' ''command index exceeds u32'')) (\<lambda>_.
    and_then (canonical_json_lf (bcd_command C
      \<lparr>cmp_version = ''ovca.verification-command.v1'',
       cmp_capability_id = cd_capability_id capability,
       cmp_capability_revision = cd_revision capability,
       cmp_command_index = of_nat command_index, cmp_command = command\<rparr>)) (\<lambda>bytes.
    Ok (verification_sha256_hex bytes))))"

definition derive_verification_bundle_id ::
    "bundle_codec \<Rightarrow> run_id \<Rightarrow> goal_id \<Rightarrow> task_id \<Rightarrow> string \<Rightarrow> verification_transcript_identity \<Rightarrow>
     worker_id \<Rightarrow> worker_id \<Rightarrow> timestamp \<Rightarrow> string verification_result" where
  "derive_verification_bundle_id C run_id goal_id task_id selection_digest transcript
     implementation_actor verifier_actor created_at =
    and_then (validate_digest selection_digest ''selection_digest'') (\<lambda>_.
    and_then (transcript_sha256 C transcript) (\<lambda>transcript_digest.
    and_then (canonical_json_lf (bcd_identity C
      \<lparr>bip_version = ''ovca.verification-bundle-identity.v1'', bip_run_id = run_id,
       bip_goal_id = goal_id, bip_task_id = task_id, bip_selection_digest = selection_digest,
       bip_transcript_sha256 = transcript_digest,
       bip_implementation_actor = implementation_actor, bip_verifier_actor = verifier_actor,
       bip_created_at = created_at\<rparr>)) (\<lambda>bytes.
    Ok (''bundle.sha256.'' @ verification_sha256_hex bytes))))"

definition verification_behavior_digest ::
    "bundle_codec \<Rightarrow> behavioral_acceptance_contract \<Rightarrow> string verification_result" where
  "verification_behavior_digest C behavior =
    and_then (behavior_bytes C behavior) (\<lambda>bytes. Ok (verification_sha256_hex bytes))"

definition verification_selected_capability_set_digest ::
    "bundle_codec \<Rightarrow> selected_capability list \<Rightarrow> string verification_result" where
  "verification_selected_capability_set_digest C capabilities =
    and_then (require (capabilities \<noteq> [])
      (invalid ''empty_selected_capability_set'' ''selected capability set must not be empty'')) (\<lambda>_.
    and_then (try_fold validate_selected None capabilities) (\<lambda>_.
    and_then (canonical_json_lf (bcd_capability_set C
      \<lparr>csp_version = ''ovca.verification-capability-set.v1'',
       csp_capabilities = capabilities\<rparr>)) (\<lambda>bytes.
    Ok (verification_sha256_hex bytes))))"

definition verification_capability_set_digest ::
    "bundle_codec \<Rightarrow> targeted_rerun_selection \<Rightarrow> string verification_result" where
  "verification_capability_set_digest C selection =
    and_then (validate_selection (bcd_rerun C) selection) (\<lambda>_.
    verification_selected_capability_set_digest C (trs_capabilities selection))"

definition push_command_entry ::
    "bundle_codec \<Rightarrow> capability_definition \<Rightarrow> command_set_entry list \<Rightarrow> nat \<Rightarrow>
     command_set_entry list verification_result" where
  "push_command_entry C capability commands command_index =
    and_then (verification_command_digest C capability command_index) (\<lambda>digest.
    Ok (commands @ [\<lparr>cse_capability_id = cd_capability_id capability,
      cse_capability_revision = cd_revision capability,
      cse_command_index = of_nat command_index, cse_command_digest = digest\<rparr>]))"

definition push_command_entries ::
    "bundle_codec \<Rightarrow> command_set_entry list \<Rightarrow> capability_definition \<Rightarrow>
     command_set_entry list verification_result" where
  "push_command_entries C commands capability =
    and_then (validate_capability capability) (\<lambda>_.
    try_fold (push_command_entry C capability) commands [0..<length (cd_commands capability)])"

definition verification_command_set_digest ::
    "bundle_codec \<Rightarrow> capability_definition list \<Rightarrow> string verification_result" where
  "verification_command_set_digest C capabilities =
    and_then (try_fold (push_command_entries C) [] capabilities) (\<lambda>commands.
    and_then (canonical_json_lf (bcd_command_set C
      \<lparr>cosp_version = ''ovca.verification-command-set.v1'', cosp_commands = commands\<rparr>)) (\<lambda>bytes.
    Ok (verification_sha256_hex bytes)))"

definition push_policy ::
    "policy_set_entry list \<Rightarrow> capability_definition \<Rightarrow> policy_set_entry list verification_result" where
  "push_policy policies capability =
    and_then (validate_non_command_fields capability) (\<lambda>_.
    Ok (policies @ [\<lparr>pse_capability_id = cd_capability_id capability,
      pse_capability_revision = cd_revision capability, pse_policy = cd_policy capability\<rparr>]))"

definition verification_policy_digest ::
    "bundle_codec \<Rightarrow> capability_definition list \<Rightarrow> string verification_result" where
  "verification_policy_digest C capabilities =
    and_then (try_fold push_policy [] capabilities) (\<lambda>policies.
    and_then (canonical_json_lf (bcd_policy_set C
      \<lparr>psp_version = ''ovca.verification-policy-set.v1'', psp_capabilities = policies\<rparr>)) (\<lambda>bytes.
    Ok (verification_sha256_hex bytes)))"

section \<open>Bindings\<close>

primrec result_verdict_rank :: "criterion_result_verdict \<Rightarrow> nat" where
  "result_verdict_rank ResultPass = 0"
| "result_verdict_rank ResultFail = 1"
| "result_verdict_rank ResultBlocked = 2"
| "result_verdict_rank ResultTimeout = 3"
| "result_verdict_rank ResultInvalid = 4"

primrec result_verdict_bundle :: "criterion_result_verdict \<Rightarrow> verification_verdict" where
  "result_verdict_bundle ResultPass = BundlePass"
| "result_verdict_bundle ResultFail = BundleFail"
| "result_verdict_bundle ResultBlocked = BundleBlocked"
| "result_verdict_bundle ResultTimeout = BundleTimeout"
| "result_verdict_bundle ResultInvalid = BundleInvalid"

definition check_binding_identity ::
    "behavioral_acceptance_contract \<Rightarrow> targeted_rerun_selection \<Rightarrow> verification_bundle \<Rightarrow>
     goal_id \<times> task_id \<Rightarrow> unit verification_result" where
  "check_binding_identity behavior selection bundle bound =
    checks
      [require (\<not> (fst bound \<noteq> trs_goal_id selection \<or> snd bound \<noteq> trs_task_id selection
          \<or> vb_run_id bundle \<noteq> trs_run_id selection \<or> vb_goal_id bundle \<noteq> trs_goal_id selection
          \<or> vb_task_id bundle \<noteq> trs_task_id selection))
         (invalid ''verification_identity_binding_mismatch''
           ''Behavior, selection, and bundle RunId/GoalId/TaskId must match''),
       require (vb_behavior_contract_id bundle = bac_contract_id behavior)
         (invalid ''behavior_contract_id_mismatch'' ''bundle behavior contract ID differs'')]"

definition check_selected_definition ::
    "bundle_codec \<Rightarrow> capability_definition \<times> selected_capability \<Rightarrow> unit verification_result" where
  "check_selected_definition C entry =
    (let (definition, selected) = entry;
         mismatch = invalid ''capability_selection_binding_mismatch''
           ''capability identity, revision, or record digest differs'' in
     and_then (validate_capability definition) (\<lambda>_.
     and_then (require (\<not> (cd_capability_id definition \<noteq> sc_capability_id selected
         \<or> cd_revision definition \<noteq> sc_revision selected)) mismatch) (\<lambda>_.
     and_then (capability_bytes (bcd_rerun C) definition) (\<lambda>bytes.
     require (verification_sha256_hex bytes = sc_record_digest selected) mismatch))))"

definition check_selected_definitions ::
    "bundle_codec \<Rightarrow> capability_definition list \<Rightarrow> targeted_rerun_selection \<Rightarrow> verification_bundle \<Rightarrow>
     unit verification_result" where
  "check_selected_definitions C capabilities selection bundle =
    and_then (require (length capabilities = length (trs_capabilities selection))
      (invalid ''capability_set_mismatch''
        ''selected definitions and selection must have equal length'')) (\<lambda>_.
    and_then (checks (map (check_selected_definition C) (zip capabilities (trs_capabilities selection)))) (\<lambda>_.
    require (vb_capability_ids bundle = map sc_capability_id (trs_capabilities selection))
      (invalid ''capability_set_mismatch''
        ''bundle capability IDs differ from the exact selection'')))"

definition check_claimed_capability ::
    "capability_definition list \<Rightarrow> behavior_criterion \<Rightarrow> string \<Rightarrow> unit verification_result" where
  "check_claimed_capability capabilities criterion capability_id =
    and_then (ok_or (find (\<lambda>capability. cd_capability_id capability = capability_id) capabilities)
      (invalid ''missing_capability_definition'' capability_id)) (\<lambda>capability.
    require (binary_search (cd_criterion_ids capability) (bc_criterion_id criterion))
      (invalid ''capability_criterion_binding_mismatch'' capability_id))"

definition check_bound_result ::
    "capability_definition list \<Rightarrow> string list \<Rightarrow> behavior_criterion \<times> criterion_result \<Rightarrow>
     unit verification_result" where
  "check_bound_result capabilities expected_capability_ids entry =
    (let (criterion, result) = entry in
     checks
       ([require (bc_criterion_id criterion = cr_criterion_id result
            \<and> bc_order criterion = cr_order result \<and> bc_kind criterion = cr_kind result
            \<and> bc_text criterion = cr_text result)
           (invalid ''criterion_identity_mismatch''
             ''criterion identity and declaration order must match''),
         require (\<not> (bc_capability_ids criterion = []
             \<or> list_ex (\<lambda>i. \<not> binary_search expected_capability_ids i) (bc_capability_ids criterion)))
           (invalid ''capability_criterion_binding_mismatch'' (bc_criterion_id criterion))]
        @ map (check_claimed_capability capabilities criterion) (bc_capability_ids criterion)))"

definition check_claimed_criterion ::
    "behavioral_acceptance_contract \<Rightarrow> capability_definition \<Rightarrow> string \<Rightarrow> unit verification_result" where
  "check_claimed_criterion behavior capability criterion_id =
    and_then (ok_or (find (\<lambda>criterion. bc_criterion_id criterion = criterion_id) (bac_criteria behavior))
      (invalid ''extra_capability_criterion'' (cd_capability_id capability))) (\<lambda>criterion.
    require (binary_search (bc_capability_ids criterion) (cd_capability_id capability))
      (invalid ''capability_criterion_binding_mismatch'' (cd_capability_id capability)))"

definition check_bound_capability ::
    "behavioral_acceptance_contract \<Rightarrow> string list \<Rightarrow> capability_definition \<Rightarrow> unit verification_result" where
  "check_bound_capability behavior expected_capability_ids capability =
    checks
      (require (\<not> list_ex (\<lambda>i. \<not> binary_search expected_capability_ids i) (cd_dependencies capability))
         (invalid ''missing_capability_dependency'' (cd_capability_id capability))
       # map (check_claimed_criterion behavior capability) (cd_criterion_ids capability))"

definition check_bound_fingerprints ::
    "bundle_codec \<Rightarrow> behavioral_acceptance_contract \<Rightarrow> capability_definition list \<Rightarrow>
     targeted_rerun_selection \<Rightarrow> verification_bundle \<Rightarrow> unit verification_result" where
  "check_bound_fingerprints C behavior capabilities selection bundle =
    and_then (verification_behavior_digest C behavior) (\<lambda>expected_behavior.
    and_then (verification_capability_set_digest C selection) (\<lambda>expected_capabilities.
    and_then (verification_command_set_digest C capabilities) (\<lambda>expected_commands.
    and_then (verification_policy_digest C capabilities) (\<lambda>expected_policy.
    let fingerprints = vb_fingerprints bundle in
    require (\<not> (vfp_behavior_contract fingerprints \<noteq> expected_behavior
        \<or> vfp_capability_set fingerprints \<noteq> expected_capabilities
        \<or> vfp_command fingerprints \<noteq> expected_commands
        \<or> vfp_policy fingerprints \<noteq> expected_policy
        \<or> trs_policy_digest selection \<noteq> expected_policy
        \<or> vfp_source_pre fingerprints \<noteq> trs_source_fingerprint selection))
      (invalid ''verification_fingerprint_binding_mismatch''
        ''bundle fingerprints differ from Behavior, Capability, or selection identities'')))))"

text \<open>The planned commands, each a capability and an index into its commands.\<close>

definition planned_commands :: "capability_definition list \<Rightarrow> (capability_definition \<times> nat) list" where
  "planned_commands capabilities =
    concat (map (\<lambda>capability. map (Pair capability) [0..<length (cd_commands capability)]) capabilities)"

definition check_planned_command ::
    "bundle_codec \<Rightarrow> transcript_command_identity \<times> capability_definition \<times> nat \<Rightarrow>
     unit verification_result" where
  "check_planned_command C entry =
    (let (command, capability, command_index) = entry in
     and_then (verification_command_digest C capability command_index) (\<lambda>digest.
     require (tci_command_digest command = digest)
       (invalid ''transcript_command_binding_mismatch''
         ''transcript command digest differs from the selected command'')))"

definition check_transcript_plan ::
    "bundle_codec \<Rightarrow> capability_definition list \<Rightarrow> verification_bundle \<Rightarrow>
     transcript_command_identity list \<Rightarrow> unit verification_result" where
  "check_transcript_plan C capabilities bundle commands =
    (let planned = planned_commands capabilities in
     and_then (require (\<not> (planned = [] \<or> length planned < length commands))
       (invalid ''invalid_transcript_coverage''
         ''transcript cannot be empty for an empty plan or exceed the command plan'')) (\<lambda>_.
     and_then (checks (map (check_planned_command C) (zip commands planned))) (\<lambda>_.
     require (\<not> (vb_verdict bundle = BundlePass
         \<and> (length commands \<noteq> length planned
            \<or> list_ex (\<lambda>entry. tci_termination entry \<noteq> RunCompleted \<or> tci_exit_code entry \<noteq> Some 0)
                commands)))
       (invalid ''invalid_pass_transcript''
         ''PASS requires every planned command to complete with exit zero''))))"

text \<open>\<open>max_by_key\<close> keeps the last of the greatest.\<close>

definition worst_verdict :: "criterion_result_verdict list \<Rightarrow> criterion_result_verdict option" where
  "worst_verdict verdicts =
    fold (\<lambda>v worst. case worst of
        None \<Rightarrow> Some v
      | Some w \<Rightarrow> if result_verdict_rank v < result_verdict_rank w then Some w else Some v)
      verdicts None"

definition check_verdict_precedence :: "verification_bundle \<Rightarrow> unit verification_result" where
  "check_verdict_precedence bundle =
    (case worst_verdict (map cr_verdict (vb_criterion_results bundle)) of
       Some worst \<Rightarrow> require (result_verdict_bundle worst = vb_verdict bundle)
         (invalid ''bundle_verdict_precedence_mismatch''
           ''bundle verdict must equal Invalid > Timeout > Blocked > Fail > Pass reduction'')
     | None \<Rightarrow> Ok ())"

definition check_failure_shape ::
    "verification_bundle \<Rightarrow> verification_failure \<Rightarrow> unit verification_result" where
  "check_failure_shape bundle failure =
    require (\<not> (vf_recorded_at failure \<noteq> vb_created_at bundle \<or> vf_criterion_id failure \<noteq> None
        \<or> vf_supersedes_failure_id failure \<noteq> None))
      (invalid ''invalid_verifier_failure_shape''
        ''verifier failures use bundle timestamp and no criterion or supersedes binding'')"

definition check_bundle_id ::
    "bundle_codec \<Rightarrow> targeted_rerun_selection \<Rightarrow> verification_bundle \<Rightarrow>
     verification_transcript_identity \<Rightarrow> unit verification_result" where
  "check_bundle_id C selection bundle transcript =
    and_then (derive_verification_bundle_id C (vb_run_id bundle) (vb_goal_id bundle)
      (vb_task_id bundle) (trs_selection_digest selection) transcript
      (vb_implementation_actor bundle) (vb_verifier_actor bundle) (vb_created_at bundle)) (\<lambda>expected.
    require (vb_bundle_id bundle = expected)
      (invalid ''verification_bundle_identity_mismatch''
        ''bundle ID does not match the canonical transcript-bound identity''))"

definition validate_verification_bundle_bindings ::
    "bundle_codec \<Rightarrow> behavioral_acceptance_contract \<Rightarrow> capability_definition list \<Rightarrow>
     targeted_rerun_selection \<Rightarrow> verification_bundle \<Rightarrow> verification_transcript_identity \<Rightarrow>
     unit verification_result" where
  "validate_verification_bundle_bindings C behavior capabilities selection bundle transcript =
    (let expected_capability_ids = map sc_capability_id (trs_capabilities selection) in
     and_then (validate_behavior behavior) (\<lambda>_.
     and_then (validate_selection (bcd_rerun C) selection) (\<lambda>_.
     and_then (validate_bundle bundle) (\<lambda>_.
     and_then (validate_transcript transcript) (\<lambda>_.
     and_then (bound_ids behavior) (\<lambda>bound.
     and_then (check_binding_identity behavior selection bundle bound) (\<lambda>_.
     and_then (check_selected_definitions C capabilities selection bundle) (\<lambda>_.
     and_then (require (length (vb_criterion_results bundle) = length (bac_criteria behavior))
       (invalid ''incomplete_criterion_coverage''
         ''bundle must cover every behavior criterion exactly once'')) (\<lambda>_.
     and_then (checks (map (check_bound_result capabilities expected_capability_ids)
       (zip (bac_criteria behavior) (vb_criterion_results bundle)))) (\<lambda>_.
     and_then (checks (map (check_bound_capability behavior expected_capability_ids) capabilities)) (\<lambda>_.
     and_then (check_bound_fingerprints C behavior capabilities selection bundle) (\<lambda>_.
     and_then (check_transcript_plan C capabilities bundle (vti_commands transcript)) (\<lambda>_.
     and_then (check_verdict_precedence bundle) (\<lambda>_.
     and_then (checks (map (check_failure_shape bundle) (vb_failures bundle))) (\<lambda>_.
     check_bundle_id C selection bundle transcript)))))))))))))))"

section \<open>What the bindings accept\<close>

definition termination_ok :: "transcript_command_identity \<Rightarrow> bool" where
  "termination_ok c \<longleftrightarrow> (tci_termination c = RunCompleted \<longrightarrow> tci_exit_code c \<noteq> None)
     \<and> (tci_termination c \<in> {RunTimeout, RunOutputLimit} \<longrightarrow> tci_exit_code c = None)"

definition transcript_ok :: "verification_transcript_identity \<Rightarrow> bool" where
  "transcript_ok t \<longleftrightarrow> in_order tci_sequence (vti_commands t)
     \<and> (\<forall>c \<in> set (vti_commands t). valid_digest (tci_command_digest c)
          \<and> valid_digest (tci_executable_digest c) \<and> valid_digest (tci_stdout_sha256 c)
          \<and> valid_digest (tci_stderr_sha256 c) \<and> termination_ok c)"

lemma check_termination_iff [result_iff]: "check_termination c = Ok u \<longleftrightarrow> termination_ok c"
  by (cases "tci_termination c") (simp_all add: check_termination_def termination_ok_def result_iff)

lemma validate_transcript_iff [result_iff]: "validate_transcript t = Ok u \<longleftrightarrow> transcript_ok t"
proof -
  let ?ok = "\<lambda>c. valid_digest (tci_command_digest c) \<and> valid_digest (tci_executable_digest c)
      \<and> valid_digest (tci_stdout_sha256 c) \<and> valid_digest (tci_stderr_sha256 c) \<and> termination_ok c"
  have "validate_transcript_command (i, c) = Ok () \<longleftrightarrow> tci_sequence c = of_nat i \<and> ?ok c" for i c
    by (auto simp: validate_transcript_command_def result_iff)
  then show ?thesis
    using ball_enumerate [of 0 "vti_commands t" ?ok]
    unfolding validate_transcript_def checks_map_iff transcript_ok_def in_order_def by fastforce
qed

lemma canonical_json_lf_iff [result_iff]:
  "canonical_json_lf enc = Ok bs \<longleftrightarrow> (\<exists>bytes. enc = Inr bytes \<and> bs = bytes @ [10])"
  by (auto simp: canonical_json_lf_def result_iff)

lemma digest_values:
  "verification_behavior_digest C b = Ok d \<Longrightarrow> valid_digest d"
  "verification_capability_set_digest C s = Ok d \<Longrightarrow> valid_digest d"
  "verification_command_set_digest C ds = Ok d \<Longrightarrow> valid_digest d"
  "verification_policy_digest C ds = Ok d \<Longrightarrow> valid_digest d"
  by (auto simp: verification_behavior_digest_def verification_capability_set_digest_def
      verification_selected_capability_set_digest_def verification_command_set_digest_def
      verification_policy_digest_def result_iff)

text \<open>A definition is the selected one: same identity, revision and recorded digest.\<close>

definition is_selected :: "bundle_codec \<Rightarrow> capability_definition \<Rightarrow> selected_capability \<Rightarrow> bool" where
  "is_selected C d s \<longleftrightarrow> capability_ok d \<and> cd_capability_id d = sc_capability_id s
     \<and> cd_revision d = sc_revision s
     \<and> (\<exists>bytes. rc_capability (bcd_rerun C) d = Inr bytes
          \<and> verification_sha256_hex bytes = sc_record_digest s)"

lemma check_selected_definition_iff [result_iff]:
  "check_selected_definition C (d, s) = Ok u \<longleftrightarrow> is_selected C d s"
  by (auto simp: check_selected_definition_def Let_def result_iff is_selected_def capability_bytes_def)

lemma check_selected_definitions_iff [result_iff]:
  "check_selected_definitions C ds selection bundle = Ok u \<longleftrightarrow>
     list_all2 (is_selected C) ds (trs_capabilities selection)
   \<and> vb_capability_ids bundle = map sc_capability_id (trs_capabilities selection)"
  by (auto simp: check_selected_definitions_def result_iff list_all2_iff)

lemma is_selected_ids:
  "list_all2 (is_selected C) ds ss \<Longrightarrow> map sc_capability_id ss = map cd_capability_id ds"
  by (induction rule: list_all2_induct) (auto simp: is_selected_def)

text \<open>The criterion is answered by a result of the same identity.\<close>

definition same_criterion :: "behavior_criterion \<Rightarrow> criterion_result \<Rightarrow> bool" where
  "same_criterion c r \<longleftrightarrow> bc_criterion_id c = cr_criterion_id r \<and> bc_order c = cr_order r
     \<and> bc_kind c = cr_kind r \<and> bc_text c = cr_text r"

text \<open>Criteria and capabilities name each other, and dependencies stay within the selection.\<close>

definition claims_match :: "behavior_criterion list \<Rightarrow> capability_definition list \<Rightarrow> bool" where
  "claims_match criteria capabilities \<longleftrightarrow>
     (\<forall>c \<in> set criteria. bc_capability_ids c \<noteq> []
        \<and> (\<forall>i \<in> set (bc_capability_ids c). \<exists>d \<in> set capabilities. cd_capability_id d = i
             \<and> bc_criterion_id c \<in> set (cd_criterion_ids d)))
   \<and> (\<forall>d \<in> set capabilities. set (cd_dependencies d) \<subseteq> cd_capability_id ` set capabilities
        \<and> (\<forall>k \<in> set (cd_criterion_ids d). \<exists>c \<in> set criteria. bc_criterion_id c = k
             \<and> cd_capability_id d \<in> set (bc_capability_ids c)))"

lemma claims_bound: "claims_match criteria capabilities \<Longrightarrow> capabilities_bound criteria capabilities"
  unfolding claims_match_def capabilities_bound_def by fast

lemma find_distinct:
  "distinct (map key xs) \<Longrightarrow> find (\<lambda>x. key x = k) xs = Some x \<longleftrightarrow> x \<in> set xs \<and> key x = k"
  by (induction xs) auto

lemma binary_search_ids: "ids_ok xs \<Longrightarrow> binary_search xs i \<longleftrightarrow> i \<in> set xs"
  by (intro binary_search_sorted) (simp add: ids_ok_def strict_sorted_imp_sorted)

lemma zip_first_iff:
  "length ys = length xs \<and> (\<forall>e \<in> set (zip xs ys). R (fst e) (snd e) \<and> Q (fst e))
     \<longleftrightarrow> list_all2 R xs ys \<and> (\<forall>x \<in> set xs. Q x)"
proof (cases "length ys = length xs")
  case True
  then show ?thesis by (induction ys xs rule: list_induct2) auto
qed (auto dest: list_all2_lengthD)

lemma claims_match_iff:
  assumes "criteria_ok criteria" "bac_criteria behavior = criteria"
    and caps: "\<forall>d \<in> set ds. capability_ok d" and ids: "ids_ok (map cd_capability_id ds)"
  shows "length results = length criteria
     \<and> checks (map (check_bound_result ds (map cd_capability_id ds)) (zip criteria results)) = Ok u
     \<and> checks (map (check_bound_capability behavior (map cd_capability_id ds)) ds) = Ok v
    \<longleftrightarrow> list_all2 same_criterion criteria results \<and> claims_match criteria ds"
proof -
  have distinct: "distinct (map cd_capability_id ds)" "distinct (map bc_criterion_id criteria)"
    using ids assms(1) by (auto simp: ids_ok_def criteria_ok_def sorted_strict_distinct)
  have search: "binary_search (cd_criterion_ids d) k \<longleftrightarrow> k \<in> set (cd_criterion_ids d)" if "d \<in> set ds" for d k
    using that caps by (simp add: capability_ok_search)
  have listed: "binary_search (bc_capability_ids c) i \<longleftrightarrow> i \<in> set (bc_capability_ids c)"
    if "c \<in> set criteria" for c i
    using that assms(1) by (simp add: criteria_ok_def binary_search_ids)
  let ?claims = "\<lambda>c. bc_capability_ids c \<noteq> [] \<and> (\<forall>i \<in> set (bc_capability_ids c). \<exists>d \<in> set ds.
      cd_capability_id d = i \<and> bc_criterion_id c \<in> set (cd_criterion_ids d))"
  let ?serves = "\<lambda>d. set (cd_dependencies d) \<subseteq> cd_capability_id ` set ds
      \<and> (\<forall>k \<in> set (cd_criterion_ids d). \<exists>c \<in> set criteria. bc_criterion_id c = k
           \<and> cd_capability_id d \<in> set (bc_capability_ids c))"
  have claimed: "check_claimed_capability ds c i = Ok () \<longleftrightarrow> (\<exists>d \<in> set ds. cd_capability_id d = i
      \<and> bc_criterion_id c \<in> set (cd_criterion_ids d))" for c i
    using search by (auto simp: check_claimed_capability_def result_iff find_distinct [OF distinct(1)])
  have served: "check_claimed_criterion behavior d k = Ok () \<longleftrightarrow> (\<exists>c \<in> set criteria.
      bc_criterion_id c = k \<and> cd_capability_id d \<in> set (bc_capability_ids c))" for d k
    using listed
    by (auto simp: check_claimed_criterion_def result_iff assms(2) find_distinct [OF distinct(2)])
  have one: "check_bound_result ds (map cd_capability_id ds) (c, r) = Ok () \<longleftrightarrow>
      same_criterion c r \<and> ?claims c" for c r
    by (auto simp: check_bound_result_def claimed result_iff binary_search_ids [OF ids] list_ex_iff
        same_criterion_def)
  have two: "check_bound_capability behavior (map cd_capability_id ds) d = Ok () \<longleftrightarrow> ?serves d" for d
    by (auto simp: check_bound_capability_def served result_iff binary_search_ids [OF ids] list_ex_iff)
  have split: "check_bound_result ds (map cd_capability_id ds) e = Ok () \<longleftrightarrow>
      same_criterion (fst e) (snd e) \<and> ?claims (fst e)" for e
    using one [of "fst e" "snd e"] by simp
  show ?thesis
    unfolding checks_map_iff split two claims_match_def
    using zip_first_iff [of results criteria same_criterion ?claims] by blast
qed

text \<open>The worst verdict of a nonempty list is one of its elements, and none is worse.\<close>

lemma result_verdict_rank_inject [simp]:
  "result_verdict_rank a = result_verdict_rank b \<longleftrightarrow> a = b"
  by (cases a; cases b) simp_all

lemma worst_from:
  "\<exists>w \<in> insert v (set vs). (\<forall>x \<in> insert v (set vs). result_verdict_rank x \<le> result_verdict_rank w)
     \<and> fold (\<lambda>v worst. case worst of None \<Rightarrow> Some v
         | Some w \<Rightarrow> if result_verdict_rank v < result_verdict_rank w then Some w else Some v)
         vs (Some v) = Some w"
proof (induction vs arbitrary: v)
  case Nil
  then show ?case by simp
next
  case (Cons x vs)
  show ?case
  proof (cases "result_verdict_rank x < result_verdict_rank v")
    case True
    with Cons [of v] show ?thesis by fastforce
  next
    case False
    with Cons [of x] show ?thesis by fastforce
  qed
qed

lemma worst_verdict_eq:
  assumes "vs \<noteq> []"
  shows "worst_verdict vs = Some w \<longleftrightarrow>
    w \<in> set vs \<and> (\<forall>x \<in> set vs. result_verdict_rank x \<le> result_verdict_rank w)"
proof -
  obtain v rest where vs: "vs = v # rest" using assms by (cases vs) auto
  from worst_from [of v rest] obtain m where m: "m \<in> set vs" "worst_verdict vs = Some m"
      "\<And>x. x \<in> set vs \<Longrightarrow> result_verdict_rank x \<le> result_verdict_rank m"
    by (auto simp: vs worst_verdict_def)
  then show ?thesis by (metis antisym option.inject result_verdict_rank_inject)
qed

definition worst_result :: "verification_bundle \<Rightarrow> bool" where
  "worst_result b \<longleftrightarrow> (\<exists>r \<in> set (vb_criterion_results b).
     result_verdict_bundle (cr_verdict r) = vb_verdict b
     \<and> (\<forall>r' \<in> set (vb_criterion_results b). result_verdict_rank (cr_verdict r') \<le> result_verdict_rank (cr_verdict r)))"

lemma check_verdict_precedence_iff:
  assumes "vb_criterion_results b \<noteq> []"
  shows "check_verdict_precedence b = Ok u \<longleftrightarrow> worst_result b"
proof -
  let ?vs = "map cr_verdict (vb_criterion_results b)"
  from worst_from [of "hd ?vs" "tl ?vs"] assms obtain w where w: "worst_verdict ?vs = Some w"
    by (cases "vb_criterion_results b") (auto simp: worst_verdict_def)
  with worst_verdict_eq [of ?vs w] assms
  have top: "w \<in> set ?vs" "\<forall>x \<in> set ?vs. result_verdict_rank x \<le> result_verdict_rank w" by simp_all
  have "worst_result b \<longleftrightarrow> result_verdict_bundle w = vb_verdict b"
  proof
    assume "worst_result b"
    then obtain r where r: "r \<in> set (vb_criterion_results b)"
        "result_verdict_bundle (cr_verdict r) = vb_verdict b"
        "\<forall>r' \<in> set (vb_criterion_results b). result_verdict_rank (cr_verdict r') \<le> result_verdict_rank (cr_verdict r)"
      by (auto simp: worst_result_def)
    then have "result_verdict_rank w = result_verdict_rank (cr_verdict r)"
      using top by (intro antisym) auto
    with r(2) show "result_verdict_bundle w = vb_verdict b" by simp
  next
    assume "result_verdict_bundle w = vb_verdict b"
    with top show "worst_result b" by (fastforce simp: worst_result_def)
  qed
  with w show ?thesis by (simp add: check_verdict_precedence_def result_iff)
qed

text \<open>The commands that ran are the first planned ones; a pass ran all of them successfully.\<close>

definition ran_as_planned ::
    "bundle_codec \<Rightarrow> capability_definition list \<Rightarrow> transcript_command_identity list \<Rightarrow> bool" where
  "ran_as_planned C ds commands \<longleftrightarrow> length commands \<le> length (planned_commands ds)
     \<and> (\<forall>i < length commands.
          verification_command_digest C (fst (planned_commands ds ! i)) (snd (planned_commands ds ! i))
            = Ok (tci_command_digest (commands ! i)))"

definition all_succeeded ::
    "capability_definition list \<Rightarrow> transcript_command_identity list \<Rightarrow> bool" where
  "all_succeeded ds commands \<longleftrightarrow> length commands = length (planned_commands ds)
     \<and> (\<forall>c \<in> set commands. tci_termination c = RunCompleted \<and> tci_exit_code c = Some 0)"

lemma check_planned_command_iff [result_iff]:
  "check_planned_command C (c, d, i) = Ok u \<longleftrightarrow>
     verification_command_digest C d i = Ok (tci_command_digest c)"
  by (auto simp: check_planned_command_def result_iff)

lemma checks_planned_iff:
  assumes "length commands \<le> length planned"
  shows "checks (map (check_planned_command C) (zip commands planned)) = Ok u \<longleftrightarrow>
    (\<forall>i < length commands. verification_command_digest C (fst (planned ! i)) (snd (planned ! i))
       = Ok (tci_command_digest (commands ! i)))"
proof -
  have "check_planned_command C e = Ok () \<longleftrightarrow>
      verification_command_digest C (fst (snd e)) (snd (snd e)) = Ok (tci_command_digest (fst e))" for e
    by (cases e) (auto simp: result_iff)
  then show ?thesis
    unfolding checks_map_iff using assms by (auto simp: all_set_conv_all_nth)
qed

lemma check_transcript_plan_iff [result_iff]:
  "check_transcript_plan C ds b commands = Ok u \<longleftrightarrow> planned_commands ds \<noteq> []
     \<and> ran_as_planned C ds commands \<and> (vb_verdict b = BundlePass \<longrightarrow> all_succeeded ds commands)"
  unfolding check_transcript_plan_def Let_def and_then_Ok_iff require_Ok_iff ran_as_planned_def
    all_succeeded_def
  using checks_planned_iff [of commands "planned_commands ds" C]
  by (auto simp: list_ex_iff not_less)

text \<open>Everything a bundle of any verdict is bound to.\<close>

definition bundle_bound ::
    "bundle_codec \<Rightarrow> behavioral_acceptance_contract \<Rightarrow> capability_definition list \<Rightarrow>
     targeted_rerun_selection \<Rightarrow> verification_bundle \<Rightarrow> verification_transcript_identity \<Rightarrow> bool" where
  "bundle_bound C behavior ds selection bundle transcript \<longleftrightarrow>
     behavior_ok behavior \<and> validate_selection (bcd_rerun C) selection = Ok () \<and> bundle_ok bundle
   \<and> transcript_ok transcript
   \<and> bac_binding behavior = Bound (vb_goal_id bundle) (vb_task_id bundle)
   \<and> vb_run_id bundle = trs_run_id selection \<and> vb_goal_id bundle = trs_goal_id selection
   \<and> vb_task_id bundle = trs_task_id selection
   \<and> vb_behavior_contract_id bundle = bac_contract_id behavior
   \<and> list_all2 (is_selected C) ds (trs_capabilities selection)
   \<and> vb_capability_ids bundle = map cd_capability_id ds
   \<and> list_all2 same_criterion (bac_criteria behavior) (vb_criterion_results bundle)
   \<and> claims_match (bac_criteria behavior) ds
   \<and> verification_behavior_digest C behavior = Ok (vfp_behavior_contract (vb_fingerprints bundle))
   \<and> verification_capability_set_digest C selection = Ok (vfp_capability_set (vb_fingerprints bundle))
   \<and> verification_command_set_digest C ds = Ok (vfp_command (vb_fingerprints bundle))
   \<and> verification_policy_digest C ds = Ok (vfp_policy (vb_fingerprints bundle))
   \<and> vfp_policy (vb_fingerprints bundle) = trs_policy_digest selection
   \<and> vfp_source_pre (vb_fingerprints bundle) = trs_source_fingerprint selection
   \<and> planned_commands ds \<noteq> [] \<and> ran_as_planned C ds (vti_commands transcript)
   \<and> (vb_verdict bundle = BundlePass \<longrightarrow> all_succeeded ds (vti_commands transcript))
   \<and> worst_result bundle
   \<and> (\<forall>f \<in> set (vb_failures bundle). vf_recorded_at f = vb_created_at bundle
        \<and> vf_criterion_id f = None \<and> vf_supersedes_failure_id f = None)
   \<and> derive_verification_bundle_id C (vb_run_id bundle) (vb_goal_id bundle) (vb_task_id bundle)
       (trs_selection_digest selection) transcript (vb_implementation_actor bundle)
       (vb_verifier_actor bundle) (vb_created_at bundle) = Ok (vb_bundle_id bundle)"

lemma check_binding_identity_iff [result_iff]:
  "check_binding_identity behavior selection bundle (g, t) = Ok u \<longleftrightarrow>
     g = trs_goal_id selection \<and> t = trs_task_id selection \<and> vb_run_id bundle = trs_run_id selection
   \<and> vb_goal_id bundle = trs_goal_id selection \<and> vb_task_id bundle = trs_task_id selection
   \<and> vb_behavior_contract_id bundle = bac_contract_id behavior"
  by (auto simp: check_binding_identity_def result_iff)

lemma check_bound_fingerprints_iff [result_iff]:
  "check_bound_fingerprints C behavior ds selection bundle = Ok u \<longleftrightarrow>
     verification_behavior_digest C behavior = Ok (vfp_behavior_contract (vb_fingerprints bundle))
   \<and> verification_capability_set_digest C selection = Ok (vfp_capability_set (vb_fingerprints bundle))
   \<and> verification_command_set_digest C ds = Ok (vfp_command (vb_fingerprints bundle))
   \<and> verification_policy_digest C ds = Ok (vfp_policy (vb_fingerprints bundle))
   \<and> vfp_policy (vb_fingerprints bundle) = trs_policy_digest selection
   \<and> vfp_source_pre (vb_fingerprints bundle) = trs_source_fingerprint selection"
  by (auto simp: check_bound_fingerprints_def Let_def result_iff)

lemma check_failure_shape_iff [result_iff]:
  "check_failure_shape bundle f = Ok u \<longleftrightarrow> vf_recorded_at f = vb_created_at bundle
     \<and> vf_criterion_id f = None \<and> vf_supersedes_failure_id f = None"
  by (auto simp: check_failure_shape_def result_iff)

lemma check_bundle_id_iff [result_iff]:
  "check_bundle_id C selection bundle transcript = Ok u \<longleftrightarrow>
     derive_verification_bundle_id C (vb_run_id bundle) (vb_goal_id bundle) (vb_task_id bundle)
       (trs_selection_digest selection) transcript (vb_implementation_actor bundle)
       (vb_verifier_actor bundle) (vb_created_at bundle) = Ok (vb_bundle_id bundle)"
  by (auto simp: check_bundle_id_def result_iff)

lemma bindings_iff:
  "validate_verification_bundle_bindings C behavior ds selection bundle transcript = Ok ()
     \<longleftrightarrow> bundle_bound C behavior ds selection bundle transcript"
proof (cases "behavior_ok behavior \<and> validate_selection (bcd_rerun C) selection = Ok () \<and> bundle_ok bundle
    \<and> list_all2 (is_selected C) ds (trs_capabilities selection)
    \<and> vb_capability_ids bundle = map sc_capability_id (trs_capabilities selection)")
  case True
  then have ids: "map sc_capability_id (trs_capabilities selection) = map cd_capability_id ds"
    by (blast dest: is_selected_ids)
  have criteria: "criteria_ok (bac_criteria behavior)" "bac_criteria behavior \<noteq> []"
    using True by (simp_all add: behavior_ok_def result_iff)
  have caps: "\<forall>d \<in> set ds. capability_ok d"
    using True by (auto simp: list_all2_conv_all_nth in_set_conv_nth is_selected_def)
  have listed: "ids_ok (map cd_capability_id ds)"
  proof -
    have "ids_ok (vb_capability_ids bundle)" using True unfolding bundle_ok_def by blast
    then show ?thesis using True ids by metis
  qed
  have results: "length (vb_criterion_results bundle) = length (bac_criteria behavior) \<Longrightarrow>
      vb_criterion_results bundle \<noteq> []"
    using criteria(2) by auto
  note claims = claims_match_iff [OF criteria(1) refl caps listed, of "vb_criterion_results bundle" "()" "()"]
  show ?thesis
    unfolding validate_verification_bundle_bindings_def Let_def ids and_then_Ok_iff bundle_bound_def
    using True claims results
    by (fastforce simp: result_iff behavior_ok_def ids check_verdict_precedence_iff
        dest: list_all2_lengthD)
next
  case False
  then show ?thesis
    unfolding validate_verification_bundle_bindings_def Let_def bundle_bound_def
    by (auto simp: result_iff behavior_ok_def dest: is_selected_ids)
qed

end
