(* ===== verification/Versioned_State.thy ===== *)
theory Versioned_State
  imports Ordered_Map
begin

text \<open>
  The revisioned key-value store of \<open>ovca-storage/src/versioned_state.rs\<close>, and the
  interface through which the durable authorities use it. The store's one table is an
  ordered map from entity keys to rows; the SQL statements act on it as documented by
  SQLite. An \<open>io\<close> argument says which input/output steps fail: such a step is a value of
  the error type, and a transaction that is not committed leaves the table as it was.
\<close>

section \<open>Rows and errors\<close>

type_synonym bytes = "8 word list"

record versioned_state =
  vs_payload :: bytes
  vs_revision :: u64

datatype initialize_outcome = Initialized versioned_state | Existing versioned_state

datatype compare_and_swap_outcome = Applied versioned_state | Conflict versioned_state

datatype versioned_state_error =
    VS_CreateDirectory
  | VS_OpenDatabase
  | VS_ConfigureDatabase
  | VS_InitializeSchema
  | VS_Database string
  | VS_NegativeRevision string int
  | VS_RevisionOutOfRange u64
  | VS_RevisionOverflow u64
  | VS_EntityNotFound string
  | VS_ConcurrentRowRemoval string

text \<open>A row holds its revision as SQLite's signed 64-bit integer.\<close>

record stored_row =
  sr_payload :: bytes
  sr_revision :: int

type_synonym database = "(string, stored_row) btree_map"

datatype io_step = CreateDirectory | OpenDatabase | ConfigureDatabase | CreateSchema
  | Statement string

primrec io_error :: "io_step \<Rightarrow> versioned_state_error" where
  "io_error CreateDirectory = VS_CreateDirectory"
| "io_error OpenDatabase = VS_OpenDatabase"
| "io_error ConfigureDatabase = VS_ConfigureDatabase"
| "io_error CreateSchema = VS_InitializeSchema"
| "io_error (Statement operation) = VS_Database operation"

type_synonym io = "io_step \<Rightarrow> bool"

definition perform :: "io \<Rightarrow> io_step \<Rightarrow> (versioned_state_error, unit) result" where
  "perform io step = require (\<not> io step) (io_error step)"

section \<open>SQL statements\<close>

text \<open>Each statement gives the number of rows it changed and the new table.\<close>

definition sql_insert :: "string \<Rightarrow> bytes \<Rightarrow> database \<Rightarrow> nat \<times> database" where
  "sql_insert key payload db =
    (if bm_contains db key then (0, db)
     else (1, bm_insert key \<lparr>sr_payload = payload, sr_revision = 0\<rparr> db))"

definition sql_update :: "bytes \<Rightarrow> int \<Rightarrow> string \<Rightarrow> int \<Rightarrow> database \<Rightarrow> nat \<times> database" where
  "sql_update payload revision key expected db =
    (case bm_get db key of
       None \<Rightarrow> (0, db)
     | Some row \<Rightarrow>
         if sr_revision row = expected
         then (1, bm_insert key \<lparr>sr_payload = payload, sr_revision = revision\<rparr> db)
         else (0, db))"

section \<open>Operations\<close>

definition open_connection :: "io \<Rightarrow> (versioned_state_error, unit) result" where
  "open_connection io = checks
    [perform io CreateDirectory, perform io OpenDatabase, perform io ConfigureDatabase,
     perform io CreateSchema]"

definition sqlite_revision :: "u64 \<Rightarrow> (versioned_state_error, int) result" where
  "sqlite_revision revision =
    (if uint revision < 2 ^ 63 then Ok (uint revision) else Err (VS_RevisionOutOfRange revision))"

definition state_of_row ::
    "string \<Rightarrow> stored_row \<Rightarrow> (versioned_state_error, versioned_state) result" where
  "state_of_row key row =
    (if 0 \<le> sr_revision row
     then Ok \<lparr>vs_payload = sr_payload row, vs_revision = word_of_int (sr_revision row)\<rparr>
     else Err (VS_NegativeRevision key (sr_revision row)))"

definition load_from_connection ::
    "io \<Rightarrow> string \<Rightarrow> string \<Rightarrow> database \<Rightarrow> (versioned_state_error, versioned_state option) result"
  where
  "load_from_connection io operation key db =
    and_then (perform io (Statement operation)) (\<lambda>_.
    case bm_get db key of
      None \<Rightarrow> Ok None
    | Some row \<Rightarrow> and_then (state_of_row key row) (\<lambda>state. Ok (Some state)))"

definition load_state ::
    "io \<Rightarrow> string \<Rightarrow> database \<Rightarrow> (versioned_state_error, versioned_state option) result" where
  "load_state io key db =
    and_then (open_connection io) (\<lambda>_. load_from_connection io ''load'' key db)"

text \<open>
  \<open>initialize\<close> reads back an existing row in a second statement, outside a transaction;
  \<open>others\<close> is what other clients did in between.
\<close>

definition initialize ::
    "io \<Rightarrow> (database \<Rightarrow> database) \<Rightarrow> string \<Rightarrow> bytes \<Rightarrow> database \<Rightarrow>
     (versioned_state_error, initialize_outcome) result \<times> database" where
  "initialize io others key payload db =
    (case and_then (open_connection io) (\<lambda>_. perform io (Statement ''initialize'')) of
       Err e \<Rightarrow> (Err e, db)
     | Panic \<Rightarrow> (Panic, db)
     | Ok _ \<Rightarrow>
         (let (inserted, db') = sql_insert key payload db in
          if inserted = 1
          then (Ok (Initialized \<lparr>vs_payload = payload, vs_revision = 0\<rparr>), db')
          else
            (let db'' = others db' in
             (and_then (load_from_connection io ''load existing initialized state'' key db'')
               (\<lambda>found. and_then (ok_or found (VS_EntityNotFound key)) (\<lambda>state.
               Ok (Existing state))), db''))))"

text \<open>The body of the immediate transaction; it takes effect only when it is committed.\<close>

definition swap_transaction ::
    "io \<Rightarrow> string \<Rightarrow> int \<Rightarrow> bytes \<Rightarrow> database \<Rightarrow>
     (versioned_state_error, compare_and_swap_outcome \<times> database) result" where
  "swap_transaction io key expected payload db =
    and_then (load_from_connection io ''load for compare-and-swap'' key db) (\<lambda>found.
    and_then (ok_or found (VS_EntityNotFound key)) (\<lambda>current.
    if vs_revision current \<noteq> word_of_int expected
    then and_then (perform io (Statement ''commit compare-and-swap conflict''))
      (\<lambda>_. Ok (Conflict current, db))
    else
      and_then (require (vs_revision current \<noteq> - 1) (VS_RevisionOverflow (vs_revision current)))
        (\<lambda>_.
      let next_revision = vs_revision current + 1 in
      and_then (sqlite_revision next_revision) (\<lambda>next_sqlite_revision.
      and_then (perform io (Statement ''apply compare-and-swap'')) (\<lambda>_.
      let (updated, db') = sql_update payload next_sqlite_revision key expected db in
      and_then (require (updated = 1) (VS_ConcurrentRowRemoval key)) (\<lambda>_.
      and_then (perform io (Statement ''commit compare-and-swap'')) (\<lambda>_.
      Ok (Applied \<lparr>vs_payload = payload, vs_revision = next_revision\<rparr>, db'))))))))"

definition compare_and_swap ::
    "io \<Rightarrow> string \<Rightarrow> u64 \<Rightarrow> bytes \<Rightarrow> database \<Rightarrow>
     (versioned_state_error, compare_and_swap_outcome) result \<times> database" where
  "compare_and_swap io key expected_revision payload db =
    (case and_then (sqlite_revision expected_revision) (\<lambda>expected.
          and_then (open_connection io) (\<lambda>_.
          and_then (perform io (Statement ''begin immediate compare-and-swap transaction'')) (\<lambda>_.
          swap_transaction io key expected payload db))) of
       Ok (outcome, db') \<Rightarrow> (Ok outcome, db')
     | Err e \<Rightarrow> (Err e, db)
     | Panic \<Rightarrow> (Panic, db))"

section \<open>The store interface\<close>

text \<open>
  What a client may see of the entities: their payloads and revisions. Later contents keep
  every entity, never lower a revision and never change a payload without raising it.
\<close>

type_synonym contents = "string \<Rightarrow> versioned_state option"

definition later :: "contents \<Rightarrow> contents \<Rightarrow> bool" where
  "later c c' \<longleftrightarrow> (\<forall>key v. c key = Some v \<longrightarrow> (\<exists>w. c' key = Some w
     \<and> vs_revision v \<le> vs_revision w \<and> (vs_revision w = vs_revision v \<longrightarrow> w = v)))"

lemma later_refl [simp]: "later c c"
  by (simp add: later_def)

lemma later_trans: "later c c' \<Longrightarrow> later c' c'' \<Longrightarrow> later c c''"
  unfolding later_def
proof (intro allI impI)
  fix key v
  assume 1: "\<forall>key v. c key = Some v \<longrightarrow> (\<exists>w. c' key = Some w
      \<and> vs_revision v \<le> vs_revision w \<and> (vs_revision w = vs_revision v \<longrightarrow> w = v))"
    and 2: "\<forall>key v. c' key = Some v \<longrightarrow> (\<exists>w. c'' key = Some w
      \<and> vs_revision v \<le> vs_revision w \<and> (vs_revision w = vs_revision v \<longrightarrow> w = v))"
    and "c key = Some v"
  then obtain w where w: "c' key = Some w" "vs_revision v \<le> vs_revision w"
    "vs_revision w = vs_revision v \<longrightarrow> w = v" by blast
  then obtain x where "c'' key = Some x" "vs_revision w \<le> vs_revision x"
    "vs_revision x = vs_revision w \<longrightarrow> x = w" using 2 by blast
  then show "\<exists>w. c'' key = Some w \<and> vs_revision v \<le> vs_revision w
      \<and> (vs_revision w = vs_revision v \<longrightarrow> w = v)"
    using w by (intro exI [of _ x]) auto
qed

lemma later_Some:
  "later c c' \<Longrightarrow> c key = Some v \<Longrightarrow> c' key = Some w \<Longrightarrow>
   vs_revision v \<le> vs_revision w \<and> (vs_revision w = vs_revision v \<longrightarrow> w = v)"
  unfolding later_def by fastforce

locale versioned_store =
  fixes valid :: "'s \<Rightarrow> bool"
    and contents :: "'s \<Rightarrow> contents"
    and look :: "string \<Rightarrow> 's \<Rightarrow> ('e, versioned_state option) result"
    and swap :: "string \<Rightarrow> u64 \<Rightarrow> bytes \<Rightarrow> 's \<Rightarrow> ('e, compare_and_swap_outcome) result \<times> 's"
  assumes look: "valid s \<Longrightarrow> look key s = Ok found \<Longrightarrow> found = contents s key"
    and swap_valid: "valid s \<Longrightarrow> swap key expected payload s = (r, s') \<Longrightarrow> valid s'"
    and swap_applied: "valid s \<Longrightarrow> swap key expected payload s = (Ok (Applied w), s') \<Longrightarrow>
      \<exists>v. contents s key = Some v \<and> vs_revision v = expected \<and> expected < expected + 1
        \<and> w = \<lparr>vs_payload = payload, vs_revision = expected + 1\<rparr>
        \<and> contents s' = (contents s)(key \<mapsto> w)"
    and swap_refused: "valid s \<Longrightarrow> swap key expected payload s = (Ok (Conflict w), s') \<Longrightarrow>
      contents s key = Some w \<and> vs_revision w \<noteq> expected \<and> s' = s"
    and swap_failed: "valid s \<Longrightarrow> swap key expected payload s = (Err e, s') \<Longrightarrow> s' = s"
    and swap_total: "valid s \<Longrightarrow> fst (swap key expected payload s) \<noteq> Panic"
begin

lemma swap_later:
  assumes "valid s" and "swap key expected payload s = (r, s')"
  shows "later (contents s) (contents s')"
proof (cases r)
  case (Ok outcome)
  show ?thesis
  proof (cases outcome)
    case (Applied w)
    then obtain v where v: "contents s key = Some v" "vs_revision v = expected"
      "expected < expected + 1" "w = \<lparr>vs_payload = payload, vs_revision = expected + 1\<rparr>"
      "contents s' = (contents s)(key \<mapsto> w)"
      using assms Ok swap_applied by blast
    have "vs_revision v \<le> vs_revision w" "vs_revision w \<noteq> vs_revision v"
      using v(2-4) by auto
    then show ?thesis using v(1,5) by (simp add: later_def)
  next
    case (Conflict w)
    then show ?thesis using assms Ok swap_refused by fastforce
  qed
next
  case (Err e)
  then show ?thesis using assms swap_failed by fastforce
next
  case Panic
  then show ?thesis using assms swap_total by (metis fst_conv)
qed

text \<open>
  A swap at the revision of an earlier load is applied only to the very state that was
  loaded, whatever happened in between: no update of another client is lost.
\<close>

lemma no_lost_update:
  assumes "contents s key = Some v" and "later (contents s) (contents t)" and "valid t"
    and "swap key (vs_revision v) payload t = (Ok (Applied w), t')"
  shows "contents t key = Some v \<and> vs_revision w = vs_revision v + 1
    \<and> contents t' = (contents t)(key \<mapsto> w) \<and> vs_payload w = payload"
proof -
  obtain u where u: "contents t key = Some u" "vs_revision u = vs_revision v"
    "w = \<lparr>vs_payload = payload, vs_revision = vs_revision v + 1\<rparr>"
    "contents t' = (contents t)(key \<mapsto> w)"
    using swap_applied [OF assms(3,4)] by blast
  moreover have "u = v" using later_Some [OF assms(2,1) u(1)] u(2) by simp
  ultimately show ?thesis by simp
qed

end

section \<open>The SQLite store provides it\<close>

definition valid_database :: "database \<Rightarrow> bool" where
  "valid_database db \<longleftrightarrow>
     (\<forall>key row. bm_get db key = Some row \<longrightarrow> 0 \<le> sr_revision row \<and> sr_revision row < 2 ^ 63)"

definition entity_of :: "stored_row \<Rightarrow> versioned_state" where
  "entity_of row = \<lparr>vs_payload = sr_payload row, vs_revision = word_of_int (sr_revision row)\<rparr>"

definition stored :: "database \<Rightarrow> contents" where
  "stored db key = map_option entity_of (bm_get db key)"

lemma perform_Ok_iff [result_iff]: "perform io step = Ok u \<longleftrightarrow> \<not> io step"
  by (simp add: perform_def result_iff)

lemma perform_not_Panic [simp]: "perform io step \<noteq> Panic" "Panic \<noteq> perform io step"
  by (simp_all add: perform_def)

lemma open_connection_not_Panic [simp]: "open_connection io \<noteq> Panic"
  unfolding open_connection_def by (rule checks_no_Panic) auto

lemma sqlite_revision_Ok_iff [result_iff]:
  "sqlite_revision r = Ok i \<longleftrightarrow> i = uint r \<and> uint r < 2 ^ 63"
  by (auto simp: sqlite_revision_def)

lemma sqlite_revision_not_Panic [simp]: "sqlite_revision r \<noteq> Panic"
  by (simp add: sqlite_revision_def)

lemma load_from_connection_Ok:
  assumes "valid_database db"
  shows "load_from_connection io operation key db = Ok found \<longleftrightarrow>
    \<not> io (Statement operation) \<and> found = stored db key"
  using assms by (auto simp: load_from_connection_def result_iff state_of_row_def stored_def
      entity_of_def valid_database_def split: option.splits)

lemma load_from_connection_not_Panic [simp]:
  "load_from_connection io operation key db \<noteq> Panic"
  by (auto simp: load_from_connection_def and_then_Panic_iff state_of_row_def split: option.splits)

lemma load_state_Ok:
  "valid_database db \<Longrightarrow> load_state io key db = Ok found \<Longrightarrow> found = stored db key"
  by (auto simp: load_state_def load_from_connection_Ok result_iff)

lemma word_succ_less:
  assumes "r \<noteq> (- 1 :: u64)" shows "r < r + 1 \<and> uint (r + 1) = uint r + 1"
proof -
  have "1 + r \<noteq> 0" using assms eq_neg_iff_add_eq_0 [of r 1] by (simp add: add.commute)
  then have "unat (r + 1) = Suc (unat r)" using unatSuc [of r] by (simp add: add.commute)
  then show ?thesis by (simp add: word_less_nat_alt) (metis of_nat_Suc uint_nat add.commute)
qed

lemma swap_transaction_Ok:
  assumes valid: "valid_database db" and range: "uint expected < 2 ^ 63"
    and run: "swap_transaction io key (uint expected) payload db = Ok (outcome, db')"
  obtains (applied) row where "bm_get db key = Some row" "sr_revision row = uint expected"
      "expected < expected + 1" "uint (expected + 1) = uint expected + 1"
      "uint (expected + 1) < 2 ^ 63"
      "outcome = Applied \<lparr>vs_payload = payload, vs_revision = expected + 1\<rparr>"
      "db' = bm_insert key \<lparr>sr_payload = payload, sr_revision = uint (expected + 1)\<rparr> db"
  | (refused) v where "stored db key = Some v" "vs_revision v \<noteq> expected" "outcome = Conflict v"
      "db' = db"
proof -
  from run obtain v where v: "stored db key = Some v"
    by (auto simp: swap_transaction_def result_iff load_from_connection_Ok [OF valid])
  then obtain row where row: "bm_get db key = Some row" "v = entity_of row" by (auto simp: stored_def)
  have in_range: "0 \<le> sr_revision row" "sr_revision row < 2 ^ 63"
    using valid row(1) by (auto simp: valid_database_def)
  show ?thesis
  proof (cases "vs_revision v = expected")
    case False
    then show ?thesis
      using run v by (intro refused [OF v]) (auto simp: swap_transaction_def result_iff
          load_from_connection_Ok [OF valid])
  next
    case True
    then have rev: "sr_revision row = uint expected"
      using row(2) in_range by (auto simp: entity_of_def uint_word_of_int take_bit_int_eq_self)
    then show ?thesis
      using run v True row word_succ_less [of expected]
      by (intro applied [OF row(1) rev]) (auto simp: swap_transaction_def result_iff Let_def
          load_from_connection_Ok [OF valid] sql_update_def split: prod.splits if_splits)
  qed
qed

lemma compare_and_swap_Ok:
  assumes "compare_and_swap io key expected payload db = (Ok outcome, db')"
  shows "swap_transaction io key (uint expected) payload db = Ok (outcome, db')
    \<and> uint expected < 2 ^ 63"
  using assms by (auto simp: compare_and_swap_def result_iff split: result.splits prod.splits)

lemma swap_transaction_not_Panic [simp]: "swap_transaction io key expected payload db \<noteq> Panic"
  by (auto simp: swap_transaction_def and_then_Panic_iff Let_def split: prod.splits)

lemma compare_and_swap_not_Ok:
  assumes "compare_and_swap io key expected payload db = (r, db')" and "\<forall>outcome. r \<noteq> Ok outcome"
  shows "db' = db \<and> r \<noteq> Panic"
  using assms by (auto simp: compare_and_swap_def and_then_Panic_iff split: result.splits prod.splits)

interpretation sqlite: versioned_store valid_database stored "load_state io" "compare_and_swap io"
  for io
proof unfold_locales
  fix s :: database and key expected payload r s' w found e
  assume valid: "valid_database s"
  show "found = stored s key" if "load_state io key s = Ok found"
    using valid that by (rule load_state_Ok)
  show "\<exists>v. stored s key = Some v \<and> vs_revision v = expected \<and> expected < expected + 1
      \<and> w = \<lparr>vs_payload = payload, vs_revision = expected + 1\<rparr> \<and> stored s' = (stored s)(key \<mapsto> w)"
    if "compare_and_swap io key expected payload s = (Ok (Applied w), s')"
    using compare_and_swap_Ok [OF that]
    by (elim conjE swap_transaction_Ok [OF valid, rotated])
      (auto simp: stored_def entity_of_def fun_eq_iff)
  show "stored s key = Some w \<and> vs_revision w \<noteq> expected \<and> s' = s"
    if "compare_and_swap io key expected payload s = (Ok (Conflict w), s')"
    using compare_and_swap_Ok [OF that] by (elim conjE swap_transaction_Ok [OF valid, rotated]) auto
  show "s' = s" if "compare_and_swap io key expected payload s = (Err e, s')"
    using compare_and_swap_not_Ok [OF that] by simp
  show "fst (compare_and_swap io key expected payload s) \<noteq> Panic"
    using compare_and_swap_not_Ok [of io key expected payload s]
    by (cases "compare_and_swap io key expected payload s") fastforce
  show "valid_database s'" if "compare_and_swap io key expected payload s = (r, s')"
  proof (cases r)
    case (Ok outcome)
    with that have "swap_transaction io key (uint expected) payload s = Ok (outcome, s')"
      "uint expected < 2 ^ 63"
      using compare_and_swap_Ok by auto
    then show ?thesis
      using valid by (elim swap_transaction_Ok [OF valid, rotated]) (auto simp: valid_database_def)
  qed (use compare_and_swap_not_Ok [OF that] valid in auto)
qed

section \<open>Calls among other clients\<close>

text \<open>
  Every store call is atomic, but other clients act between the calls of one operation:
  \<open>env n\<close> gives the failing input/output steps of the \<open>n\<close>-th call of the operation and what
  the others did to the table before it. The others are orderly when they use the store
  only through its operations, so that contents only become later.
\<close>

type_synonym environment = "nat \<Rightarrow> io \<times> (database \<Rightarrow> database)"

definition load_call ::
    "environment \<Rightarrow> nat \<Rightarrow> string \<Rightarrow> database \<Rightarrow>
     (versioned_state_error, versioned_state option) result \<times> database" where
  "load_call env n key db =
    (let db' = snd (env n) db in (load_state (fst (env n)) key db', db'))"

definition swap_call ::
    "environment \<Rightarrow> nat \<Rightarrow> string \<Rightarrow> u64 \<Rightarrow> bytes \<Rightarrow> database \<Rightarrow>
     (versioned_state_error, compare_and_swap_outcome) result \<times> database" where
  "swap_call env n key revision payload db =
    compare_and_swap (fst (env n)) key revision payload (snd (env n) db)"

definition initialize_call ::
    "environment \<Rightarrow> nat \<Rightarrow> string \<Rightarrow> bytes \<Rightarrow> database \<Rightarrow>
     (versioned_state_error, initialize_outcome) result \<times> database" where
  "initialize_call env n key payload db =
    initialize (fst (env n)) (snd (env (Suc n))) key payload (snd (env n) db)"

definition orderly :: "environment \<Rightarrow> bool" where
  "orderly env \<longleftrightarrow> (\<forall>n db. valid_database db \<longrightarrow>
     valid_database (snd (env n) db) \<and> later (stored db) (stored (snd (env n) db)))"

lemma orderlyD:
  "orderly env \<Longrightarrow> valid_database db \<Longrightarrow> valid_database (snd (env n) db)"
  "orderly env \<Longrightarrow> valid_database db \<Longrightarrow> later (stored db) (stored (snd (env n) db))"
  by (auto simp: orderly_def)

definition alone :: environment where
  "alone n = (\<lambda>_. False, id)"

lemma orderly_alone [simp]: "orderly alone"
  by (simp add: orderly_def alone_def)

lemma load_call_Ok:
  assumes "orderly env" "valid_database db" "load_call env n key db = (Ok found, db')"
  shows "valid_database db'" "later (stored db) (stored db')" "found = stored db' key"
  using assms orderlyD [of env db n] sqlite.look
  by (auto simp: load_call_def Let_def)

lemma swap_call_later:
  assumes "orderly env" "valid_database db" "swap_call env n key revision payload db = (r, db')"
  shows "valid_database db' \<and> later (stored db) (stored db')"
  using assms orderlyD [of env db n] sqlite.swap_valid sqlite.swap_later later_trans
  unfolding swap_call_def by blast

lemma swap_call_applied:
  assumes "orderly env" "valid_database db" "stored db key = Some v"
    and "swap_call env n key (vs_revision v) payload db = (Ok (Applied w), db')"
  shows "stored (snd (env n) db) key = Some v \<and> vs_revision w = vs_revision v + 1
    \<and> stored db' = (stored (snd (env n) db))(key \<mapsto> w) \<and> vs_payload w = payload"
  using assms orderlyD [of env db n] sqlite.no_lost_update unfolding swap_call_def by blast

lemma swap_call_conflict:
  assumes "orderly env" "valid_database db"
    and "swap_call env n key revision payload db = (Ok (Conflict w), db')"
  shows "stored db' key = Some w \<and> db' = snd (env n) db"
  using assms orderlyD [of env db n] sqlite.swap_refused unfolding swap_call_def by blast

lemma swap_call_failed:
  assumes "orderly env" "valid_database db"
    and "swap_call env n key revision payload db = (Err e, db')"
  shows "db' = snd (env n) db"
  using assms orderlyD [of env db n] sqlite.swap_failed unfolding swap_call_def by blast

lemma swap_call_not_Panic:
  assumes "orderly env" "valid_database db"
  shows "swap_call env n key revision payload db \<noteq> (Panic, db')"
  using assms orderlyD [of env db n] sqlite.swap_total unfolding swap_call_def by (metis fst_conv)

text \<open>A lone client's calls succeed.\<close>

lemma alone_calls [simp]:
  "load_call alone n key db = (load_state (\<lambda>_. False) key db, db)"
  "swap_call alone n key revision payload db = compare_and_swap (\<lambda>_. False) key revision payload db"
  by (simp_all add: load_call_def swap_call_def alone_def)

lemma load_state_succeeds:
  "valid_database db \<Longrightarrow> load_state (\<lambda>_. False) key db = Ok (stored db key)"
  by (simp add: load_state_def load_from_connection_Ok open_connection_def perform_def)

lemma compare_and_swap_succeeds:
  assumes valid: "valid_database db" and v: "stored db key = Some v"
    and range: "uint (vs_revision v) + 1 < 2 ^ 63"
  shows "\<exists>db'. compare_and_swap (\<lambda>_. False) key (vs_revision v) payload db
    = (Ok (Applied \<lparr>vs_payload = payload, vs_revision = vs_revision v + 1\<rparr>), db')"
proof -
  from v obtain row where row: "bm_get db key = Some row" "v = entity_of row"
    by (auto simp: stored_def)
  have rev: "sr_revision row = uint (vs_revision v)"
  proof -
    have "0 \<le> sr_revision row" "sr_revision row < 2 ^ 63"
      using valid row(1) by (auto simp: valid_database_def)
    then show ?thesis
      using row(2) by (simp add: entity_of_def uint_word_of_int take_bit_int_eq_self)
  qed
  have max: "vs_revision v \<noteq> - 1"
    using range by (auto simp: unsigned_minus_1_eq_mask mask_eq_exp_minus_1)
  have incremented: "sqlite_revision (vs_revision v + 1) = Ok (uint (vs_revision v) + 1)"
    using word_succ_less [OF max] range by (simp add: sqlite_revision_def)
  have now: "sqlite_revision (vs_revision v) = Ok (uint (vs_revision v))"
    using range by (simp add: sqlite_revision_def)
  have "load_from_connection (\<lambda>_. False) op key db = Ok (Some v)" for op
    using v by (simp add: load_from_connection_Ok [OF valid])
  then show ?thesis
    using row rev max incremented now by (simp add: compare_and_swap_def swap_transaction_def
        open_connection_def perform_def sql_update_def Let_def)
qed

end
