(* ===== verification/Evidence_Bank.thy ===== *)
theory Evidence_Bank
  imports Verification_Binding Versioned_State
begin

text \<open>
  The evidence bank and the capability registry of \<open>ovca-storage/src/local_verification.rs\<close>.
  Immutable records are addressed by the digest of their canonical bytes; a row per capability
  and per task of a run says which record is current, under a generation that only grows. The
  tables of the SQLite database are ordered maps from their primary keys, after the schema has
  been created; a statement that the engine refuses, or that breaks a constraint of the
  schema, is an error. Encoders, decoders and the \<open>sha2\<close> crate are the fields of a codec.
\<close>

section \<open>Records, tokens and outcomes\<close>

datatype bank_error =
    SE_InvalidRoot string
  | SE_CreateDirectory
  | SE_OpenDatabase
  | SE_ConfigureDatabase
  | SE_InitializeSchema
  | SE_UnsupportedSchemaVersion int
  | SE_Database string
  | SE_InvalidContract string string
  | SE_Serialize string string
  | SE_Deserialize string string
  | SE_InvalidDigest string string
  | SE_ImmutableConflict string string
  | SE_CorruptRecord string string string
  | SE_MissingRecord string string
  | SE_BindingMismatch string
  | SE_GenerationOutOfRange u64
  | SE_GenerationOverflow u64
  | SE_EmptyStaleCauses
  | SE_StaleRevivalRequiresDifferentBundle
  | SE_InvalidProjectionSelection string
  | SE_NonMonotonicGeneration string u64 u64
  | SE_CasWriteLost string
  | SE_InjectedFailure
  | SE_CapabilitySeedPolicy string
  | SE_ArchiveIo string
  | SE_InvalidArchive string
  | SE_ArchiveTooLarge
  | SE_RecoveryRequiresFreshGeneration string u64 u64

type_synonym 'a bank_result = "(bank_error, 'a) result"

datatype 'a publish_outcome = Inserted 'a | ExistingIdentical 'a

datatype 'a cas_outcome = CasApplied 'a | CasConflict "'a option" | CasUnchanged 'a

record cas_token =
  ct_generation :: u64
  ct_state_digest :: string

record capability_record =
  car_definition :: capability_definition
  car_digest :: string

record bundle_record =
  bur_bundle :: verification_bundle
  bur_digest :: string
  bur_logical_reference :: string

datatype stale_cause =
    StaleBehavior | StaleCapabilitySet | StaleCapabilityDefinition | StaleCommand | StalePolicy
  | StaleSource | StaleEnvironment | StaleIntegrity

datatype evidence_freshness = FreshCurrent | FreshStale "stale_cause set"

record capability_current =
  cc_capability_id :: string
  cc_revision :: u64
  cc_record_digest :: string
  cc_token :: cas_token

record evidence_key =
  ek_run_id :: run_id
  ek_goal_id :: goal_id
  ek_task_id :: task_id

record evidence_current =
  ec_key :: evidence_key
  ec_bundle_id :: string
  ec_record_digest :: string
  ec_freshness :: evidence_freshness
  ec_token :: cas_token

record completion_admission_capability =
  cac_current :: capability_current
  cac_record :: capability_record

record completion_admission_bundle =
  cab_current :: evidence_current
  cab_record :: bundle_record

record completion_admission_snapshot =
  cas_capabilities :: "completion_admission_capability list"
  cas_bundles :: "completion_admission_bundle list"

datatype projection_rebuild_intent = RebuildReplace | RebuildGenesis | RebuildReset

record projection_selection =
  aps_intent :: projection_rebuild_intent
  aps_capabilities :: "capability_current list"
  aps_bundles :: "evidence_current list"
  aps_selection_set_digest :: string

datatype projection_expectation = ExpectAbsent | ExpectToken cas_token

record publish_and_cas_outcome =
  pco_publication :: "bundle_record publish_outcome"
  pco_projection :: "evidence_current cas_outcome"

text \<open>The derived order of \<open>EvidenceKey\<close>, and the primary key of its row.\<close>

definition key_columns :: "evidence_key \<Rightarrow> string \<times> string \<times> string" where
  "key_columns key = (ek_run_id key, ek_goal_id key, ek_task_id key)"

section \<open>Tables\<close>

record capability_row =
  car_row_digest :: string
  car_row_json :: "byte list"

record bundle_row =
  bur_row_digest :: string
  bur_row_key :: "string \<times> string \<times> string"
  bur_row_json :: "byte list"

record capability_current_row =
  ccr_revision :: int
  ccr_record_digest :: string
  ccr_generation :: int
  ccr_state_digest :: string

record bundle_current_row =
  bcr_bundle_id :: string
  bcr_record_digest :: string
  bcr_freshness_json :: "byte list"
  bcr_generation :: int
  bcr_state_digest :: string

record bank =
  bk_schema_version :: int
  bk_capability_records :: "(string \<times> int, capability_row) btree_map"
  bk_bundle_records :: "(string, bundle_row) btree_map"
  bk_capability_generations :: "(string, int \<times> string) btree_map"
  bk_bundle_generations :: "(string \<times> string \<times> string, int \<times> string) btree_map"
  bk_capability_current :: "(string, capability_current_row) btree_map"
  bk_bundle_current :: "(string \<times> string \<times> string, bundle_current_row) btree_map"

section \<open>Encoding\<close>

record capability_state =
  cst_capability_id :: string
  cst_revision :: u64
  cst_record_digest :: string
  cst_generation :: u64

record evidence_state =
  est_key :: evidence_key
  est_bundle_id :: string
  est_record_digest :: string
  est_freshness :: evidence_freshness
  est_generation :: u64

record selection_state =
  sst_intent :: projection_rebuild_intent
  sst_capabilities :: "capability_current list"
  sst_bundles :: "evidence_current list"

record bank_codec =
  bkc_sha256 :: "byte list \<Rightarrow> string"
  bkc_rerun :: rerun_codec
  bkc_bundle :: "verification_bundle \<Rightarrow> string + byte list"
  bkc_freshness :: "evidence_freshness \<Rightarrow> string + byte list"
  bkc_capability_state :: "capability_state \<Rightarrow> string + byte list"
  bkc_evidence_state :: "evidence_state \<Rightarrow> string + byte list"
  bkc_selection_state :: "selection_state \<Rightarrow> string + byte list"
  bkc_decode_capability :: "byte list \<Rightarrow> string + capability_definition"
  bkc_decode_bundle :: "byte list \<Rightarrow> string + verification_bundle"
  bkc_decode_freshness :: "byte list \<Rightarrow> string + evidence_freshness"

definition canonical_json :: "string + byte list \<Rightarrow> string \<Rightarrow> byte list bank_result" where
  "canonical_json encoded kind = (case encoded of Inl e \<Rightarrow> Err (SE_Serialize kind e) | Inr bytes \<Rightarrow> Ok bytes)"

definition from_slice :: "string + 'a \<Rightarrow> string \<Rightarrow> 'a bank_result" where
  "from_slice decoded kind = (case decoded of Inl e \<Rightarrow> Err (SE_Deserialize kind e) | Inr x \<Rightarrow> Ok x)"

definition canonical_capability :: "bank_codec \<Rightarrow> capability_definition \<Rightarrow> byte list bank_result" where
  "canonical_capability C definition =
    map_err (\<lambda>e. SE_InvalidContract ''capability_definition'' (display_error e))
      (capability_bytes (bkc_rerun C) definition)"

definition bundle_bytes :: "bank_codec \<Rightarrow> verification_bundle \<Rightarrow> byte list verification_result" where
  "bundle_bytes C self = and_then (validate_bundle self) (\<lambda>_. serialized (bkc_bundle C self))"

definition canonical_bundle :: "bank_codec \<Rightarrow> verification_bundle \<Rightarrow> byte list bank_result" where
  "canonical_bundle C bundle =
    map_err (\<lambda>e. SE_InvalidContract ''verification_bundle'' (display_error e)) (bundle_bytes C bundle)"

definition show_int :: "int \<Rightarrow> string" where
  "show_int i = (if i < 0 then ''-'' @ show_nat (nat (- i)) else show_nat (nat i))"

definition evidence_key_label :: "evidence_key \<Rightarrow> string" where
  "evidence_key_label key = ek_run_id key @ '':'' @ ek_goal_id key @ '':'' @ ek_task_id key"

definition capability_label :: "string \<Rightarrow> u64 \<Rightarrow> string" where
  "capability_label capability_id revision = capability_id @ ''@'' @ show_nat (unat revision)"

section \<open>Checks of values\<close>

definition check_digest :: "string \<Rightarrow> string \<Rightarrow> unit bank_result" where
  "check_digest digest field =
    require (length digest = 64 \<and> list_all lower_hex_digit digest)
      (SE_InvalidDigest field digest)"

definition sqlite_u64 :: "u64 \<Rightarrow> int bank_result" where
  "sqlite_u64 value =
    (if uint value < 2 ^ 63 then Ok (uint value) else Err (SE_GenerationOutOfRange value))"

definition validate_generation :: "u64 \<Rightarrow> int bank_result" where
  "validate_generation generation =
    (if generation = 0 then Err (SE_GenerationOutOfRange generation) else sqlite_u64 generation)"

definition stored_generation :: "int \<Rightarrow> u64 bank_result" where
  "stored_generation value =
    (if 0 \<le> value then Ok (word_of_int value) else Err (SE_GenerationOutOfRange 0))"

definition increment_generation :: "u64 option \<Rightarrow> u64 bank_result" where
  "increment_generation found =
    (let current = (case found of None \<Rightarrow> 0 | Some g \<Rightarrow> g) in
     if current = - 1 then Err (SE_GenerationOverflow current) else Ok (current + 1))"

definition validate_freshness :: "evidence_freshness \<Rightarrow> unit bank_result" where
  "validate_freshness self = require (self \<noteq> FreshStale {}) SE_EmptyStaleCauses"

definition capability_state_sha256 :: "bank_codec \<Rightarrow> capability_current \<Rightarrow> string bank_result" where
  "capability_state_sha256 C self =
    and_then (canonical_json (bkc_capability_state C
      \<lparr>cst_capability_id = cc_capability_id self, cst_revision = cc_revision self,
       cst_record_digest = cc_record_digest self, cst_generation = ct_generation (cc_token self)\<rparr>)
      ''capability state'') (\<lambda>bytes. Ok (bkc_sha256 C bytes))"

definition evidence_state_digest :: "bank_codec \<Rightarrow> evidence_current \<Rightarrow> string bank_result" where
  "evidence_state_digest C self =
    and_then (canonical_json (bkc_evidence_state C
      \<lparr>est_key = ec_key self, est_bundle_id = ec_bundle_id self,
       est_record_digest = ec_record_digest self, est_freshness = ec_freshness self,
       est_generation = ct_generation (ec_token self)\<rparr>)
      ''bundle state'') (\<lambda>bytes. Ok (bkc_sha256 C bytes))"

definition projection_selection_digest :: "bank_codec \<Rightarrow> projection_selection \<Rightarrow> string bank_result" where
  "projection_selection_digest C self =
    and_then (canonical_json (bkc_selection_state C
      \<lparr>sst_intent = aps_intent self, sst_capabilities = aps_capabilities self,
       sst_bundles = aps_bundles self\<rparr>)
      ''projection selection'') (\<lambda>bytes. Ok (bkc_sha256 C bytes))"

definition new_capability_current ::
    "bank_codec \<Rightarrow> string \<Rightarrow> u64 \<Rightarrow> string \<Rightarrow> u64 \<Rightarrow> capability_current bank_result" where
  "new_capability_current C capability_id revision record_digest generation =
    (let token = \<lparr>ct_generation = generation, ct_state_digest = ''''\<rparr>;
         self = \<lparr>cc_capability_id = capability_id, cc_revision = revision,
           cc_record_digest = record_digest, cc_token = token\<rparr> in
     and_then (capability_state_sha256 C self) (\<lambda>digest.
     Ok (self\<lparr>cc_token := token\<lparr>ct_state_digest := digest\<rparr>\<rparr>)))"

definition validate_capability_state :: "bank_codec \<Rightarrow> capability_current \<Rightarrow> unit bank_result" where
  "validate_capability_state C self =
    and_then (check_digest (cc_record_digest self) ''capability record digest'') (\<lambda>_.
    and_then (validate_generation (ct_generation (cc_token self))) (\<lambda>_.
    and_then (check_digest (ct_state_digest (cc_token self)) ''capability state digest'') (\<lambda>_.
    and_then (capability_state_sha256 C self) (\<lambda>digest.
    require (digest = ct_state_digest (cc_token self))
      (SE_InvalidProjectionSelection (''bad capability state digest for '' @ cc_capability_id self))))))"

definition new_evidence_current ::
    "bank_codec \<Rightarrow> evidence_key \<Rightarrow> string \<Rightarrow> string \<Rightarrow> evidence_freshness \<Rightarrow> u64 \<Rightarrow>
     evidence_current bank_result" where
  "new_evidence_current C key bundle_id record_digest freshness generation =
    and_then (validate_freshness freshness) (\<lambda>_.
     let token = \<lparr>ct_generation = generation, ct_state_digest = ''''\<rparr>;
         self = \<lparr>ec_key = key, ec_bundle_id = bundle_id, ec_record_digest = record_digest,
           ec_freshness = freshness, ec_token = token\<rparr> in
     and_then (evidence_state_digest C self) (\<lambda>digest.
     Ok (self\<lparr>ec_token := token\<lparr>ct_state_digest := digest\<rparr>\<rparr>)))"

definition validate_evidence_state :: "bank_codec \<Rightarrow> evidence_current \<Rightarrow> unit bank_result" where
  "validate_evidence_state C self =
    and_then (validate_freshness (ec_freshness self)) (\<lambda>_.
    and_then (check_digest (ec_record_digest self) ''bundle record digest'') (\<lambda>_.
    and_then (validate_generation (ct_generation (ec_token self))) (\<lambda>_.
    and_then (check_digest (ct_state_digest (ec_token self)) ''bundle state digest'') (\<lambda>_.
    and_then (evidence_state_digest C self) (\<lambda>digest.
    require (digest = ct_state_digest (ec_token self))
      (SE_InvalidProjectionSelection
        (''bad bundle state digest for '' @ evidence_key_label (ec_key self))))))))"

definition validate_shape :: "bank_codec \<Rightarrow> projection_selection \<Rightarrow> unit bank_result" where
  "validate_shape C self =
    (let empty = (aps_capabilities self = [] \<and> aps_bundles self = []);
         ids = map cc_capability_id (aps_capabilities self);
         keys = map (key_columns \<circ> ec_key) (aps_bundles self) in
     checks
       ([require (\<not> (empty \<and> aps_intent self \<notin> {RebuildGenesis, RebuildReset}))
           (SE_InvalidProjectionSelection ''empty rebuild requires explicit genesis or reset intent''),
         require (\<not> (\<not> empty \<and> aps_intent self \<noteq> RebuildReplace))
           (SE_InvalidProjectionSelection ''nonempty rebuild requires replace intent'')]
        @ map (validate_capability_state C) (aps_capabilities self)
        @ [require (strictly_sorted ids)
             (SE_InvalidProjectionSelection ''capability selections must be strictly sorted and unique'')]
        @ map (validate_evidence_state C) (aps_bundles self)
        @ [require (strictly_sorted keys)
             (SE_InvalidProjectionSelection ''bundle selections must be strictly sorted and unique'')]))"

definition new_projection_selection ::
    "bank_codec \<Rightarrow> projection_rebuild_intent \<Rightarrow> capability_current list \<Rightarrow> evidence_current list \<Rightarrow>
     projection_selection bank_result" where
  "new_projection_selection C intent capabilities bundles =
    (let self = \<lparr>aps_intent = intent, aps_capabilities = capabilities, aps_bundles = bundles,
       aps_selection_set_digest = ''''\<rparr> in
     and_then (validate_shape C self) (\<lambda>_.
     and_then (projection_selection_digest C self) (\<lambda>digest.
     Ok (self\<lparr>aps_selection_set_digest := digest\<rparr>))))"

definition validate_projection_selection :: "bank_codec \<Rightarrow> projection_selection \<Rightarrow> unit bank_result" where
  "validate_projection_selection C self =
    and_then (validate_shape C self) (\<lambda>_.
    and_then (check_digest (aps_selection_set_digest self) ''selection set digest'') (\<lambda>_.
    and_then (projection_selection_digest C self) (\<lambda>digest.
    require (digest = aps_selection_set_digest self)
      (SE_InvalidProjectionSelection ''selection set digest mismatch''))))"

section \<open>Connections and statements\<close>

primrec bank_io_error :: "io_step \<Rightarrow> bank_error" where
  "bank_io_error CreateDirectory = SE_CreateDirectory"
| "bank_io_error OpenDatabase = SE_OpenDatabase"
| "bank_io_error ConfigureDatabase = SE_ConfigureDatabase"
| "bank_io_error CreateSchema = SE_InitializeSchema"
| "bank_io_error (Statement operation) = SE_Database operation"

definition bank_perform :: "io \<Rightarrow> io_step \<Rightarrow> unit bank_result" where
  "bank_perform io step = require (\<not> io step) (bank_io_error step)"

text \<open>A statement fails when the engine does or when a constraint of the schema is broken.\<close>

definition execute :: "io \<Rightarrow> string \<Rightarrow> bool \<Rightarrow> unit bank_result" where
  "execute io operation constraints =
    and_then (bank_perform io (Statement operation)) (\<lambda>_. require constraints (SE_Database operation))"

definition bank_open_connection :: "io \<Rightarrow> bank \<Rightarrow> unit bank_result" where
  "bank_open_connection io db = checks
    [bank_perform io CreateDirectory, bank_perform io OpenDatabase,
     bank_perform io ConfigureDatabase, bank_perform io CreateSchema,
     require (bk_schema_version db = 1) (SE_UnsupportedSchemaVersion (bk_schema_version db))]"

text \<open>An immediate transaction: what its body did takes effect only when it ends well.\<close>

definition transaction ::
    "io \<Rightarrow> string \<Rightarrow> (bank \<Rightarrow> ('a \<times> bank) bank_result) \<Rightarrow> bank \<Rightarrow> 'a bank_result \<times> bank" where
  "transaction io operation body db =
    (case and_then (bank_open_connection io db) (\<lambda>_.
          and_then (bank_perform io (Statement operation)) (\<lambda>_. body db)) of
       Ok (outcome, db') \<Rightarrow> (Ok outcome, db')
     | Err e \<Rightarrow> (Err e, db)
     | Panic \<Rightarrow> (Panic, db))"

definition bank_commit :: "io \<Rightarrow> string \<Rightarrow> 'a \<Rightarrow> bank \<Rightarrow> ('a \<times> bank) bank_result" where
  "bank_commit io operation outcome db =
    and_then (bank_perform io (Statement operation)) (\<lambda>_. Ok (outcome, db))"

section \<open>Loading\<close>

definition capability_of_row ::
    "bank_codec \<Rightarrow> string \<Rightarrow> u64 \<Rightarrow> string \<times> int \<Rightarrow> capability_row \<Rightarrow> capability_record bank_result"
  where
  "capability_of_row C capability_id revision columns row =
    (let (stored_id, stored_revision) = columns; digest = car_row_digest row;
         identity = stored_id @ ''@'' @ show_int stored_revision in
     and_then (check_digest digest ''stored capability digest'') (\<lambda>_.
     and_then (require (bkc_sha256 C (car_row_json row) = digest)
       (SE_CorruptRecord ''capability'' identity ''checksum mismatch'')) (\<lambda>_.
     and_then (from_slice (bkc_decode_capability C (car_row_json row)) ''capability record'') (\<lambda>definition.
     and_then (canonical_capability C definition) (\<lambda>canonical.
     and_then (require (canonical = car_row_json row)
       (SE_CorruptRecord ''capability'' identity ''noncanonical bytes'')) (\<lambda>_.
     and_then (if cd_capability_id definition \<noteq> stored_id then Ok False
         else and_then (stored_generation stored_revision) (\<lambda>r.
           Ok (cd_revision definition = r \<and> cd_capability_id definition = capability_id
             \<and> cd_revision definition = revision))) (\<lambda>same.
     and_then (require same (SE_CorruptRecord ''capability'' identity ''identity-column mismatch'')) (\<lambda>_.
     Ok \<lparr>car_definition = definition, car_digest = digest\<rparr>))))))))"

definition load_capability ::
    "bank_codec \<Rightarrow> io \<Rightarrow> string \<Rightarrow> u64 \<Rightarrow> bank \<Rightarrow> capability_record option bank_result" where
  "load_capability C io capability_id revision db =
    and_then (sqlite_u64 revision) (\<lambda>stored_revision.
    and_then (bank_perform io (Statement ''load capability record'')) (\<lambda>_.
    case bm_get (bk_capability_records db) (capability_id, stored_revision) of
      None \<Rightarrow> Ok None
    | Some row \<Rightarrow> and_then (capability_of_row C capability_id revision (capability_id, stored_revision) row)
        (\<lambda>found. Ok (Some found))))"

definition bundle_record_of :: "verification_bundle \<Rightarrow> string \<Rightarrow> bundle_record" where
  "bundle_record_of bundle digest =
    \<lparr>bur_bundle = bundle, bur_digest = digest,
     bur_logical_reference = ''verification-bundles/sha256/'' @ digest\<rparr>"

definition bundle_key :: "verification_bundle \<Rightarrow> evidence_key" where
  "bundle_key bundle =
    \<lparr>ek_run_id = vb_run_id bundle, ek_goal_id = vb_goal_id bundle, ek_task_id = vb_task_id bundle\<rparr>"

definition bundle_of_row :: "bank_codec \<Rightarrow> string \<times> bundle_row \<Rightarrow> bundle_record bank_result" where
  "bundle_of_row C entry =
    (let (bundle_id, row) = entry; digest = bur_row_digest row in
     and_then (check_digest digest ''stored bundle digest'') (\<lambda>_.
     and_then (require (bkc_sha256 C (bur_row_json row) = digest)
       (SE_CorruptRecord ''bundle'' bundle_id ''checksum mismatch'')) (\<lambda>_.
     and_then (from_slice (bkc_decode_bundle C (bur_row_json row)) ''bundle record'') (\<lambda>bundle.
     and_then (canonical_bundle C bundle) (\<lambda>canonical.
     and_then (require (canonical = bur_row_json row)
       (SE_CorruptRecord ''bundle'' bundle_id ''noncanonical bytes'')) (\<lambda>_.
     and_then (require (\<not> (vb_bundle_id bundle \<noteq> bundle_id
         \<or> key_columns (bundle_key bundle) \<noteq> bur_row_key row))
       (SE_CorruptRecord ''bundle'' bundle_id ''identity-column mismatch'')) (\<lambda>_.
     Ok (bundle_record_of bundle digest))))))))"

definition load_bundle_row ::
    "bank_codec \<Rightarrow> io \<Rightarrow> (string \<times> bundle_row \<Rightarrow> bool) \<Rightarrow> bank \<Rightarrow> bundle_record option bank_result"
  where
  "load_bundle_row C io selected db =
    and_then (bank_perform io (Statement ''load bundle record'')) (\<lambda>_.
    case find selected (bm_entries (bk_bundle_records db)) of
      None \<Rightarrow> Ok None
    | Some entry \<Rightarrow> and_then (bundle_of_row C entry) (\<lambda>found. Ok (Some found)))"

definition load_bundle_by_id ::
    "bank_codec \<Rightarrow> io \<Rightarrow> string \<Rightarrow> bank \<Rightarrow> bundle_record option bank_result" where
  "load_bundle_by_id C io bundle_id = load_bundle_row C io (\<lambda>(i, _). i = bundle_id)"

definition load_bundle_by_digest ::
    "bank_codec \<Rightarrow> io \<Rightarrow> string \<Rightarrow> bank \<Rightarrow> bundle_record option bank_result" where
  "load_bundle_by_digest C io digest db =
    and_then (check_digest digest ''bundle digest'') (\<lambda>_.
    load_bundle_row C io (\<lambda>(_, row). bur_row_digest row = digest) db)"

definition validate_capability_selection ::
    "bank_codec \<Rightarrow> io \<Rightarrow> capability_current \<Rightarrow> bank \<Rightarrow> unit bank_result" where
  "validate_capability_selection C io current db =
    (let label = capability_label (cc_capability_id current) (cc_revision current) in
     and_then (validate_capability_state C current) (\<lambda>_.
     and_then (load_capability C io (cc_capability_id current) (cc_revision current) db) (\<lambda>found.
     and_then (ok_or found (SE_MissingRecord ''capability'' label)) (\<lambda>record.
     require (car_digest record = cc_record_digest current)
       (SE_BindingMismatch (''capability '' @ label))))))"

definition validate_bundle_selection ::
    "bank_codec \<Rightarrow> io \<Rightarrow> evidence_current \<Rightarrow> bank \<Rightarrow> unit bank_result" where
  "validate_bundle_selection C io current db =
    and_then (validate_evidence_state C current) (\<lambda>_.
    and_then (load_bundle_by_digest C io (ec_record_digest current) db) (\<lambda>found.
    and_then (ok_or found (SE_MissingRecord ''bundle'' (ec_record_digest current))) (\<lambda>record.
    require (\<not> (vb_bundle_id (bur_bundle record) \<noteq> ec_bundle_id current
        \<or> bundle_key (bur_bundle record) \<noteq> ec_key current))
      (SE_BindingMismatch (evidence_key_label (ec_key current))))))"

text \<open>The durable binding of a generation to the digest of the projection it was given to.\<close>

record durable_generation_binding =
  dgb_generation :: u64
  dgb_state_digest :: string

definition binding_of_row :: "string \<Rightarrow> int \<times> string \<Rightarrow> durable_generation_binding bank_result" where
  "binding_of_row field row =
    (let (generation, state_digest) = row in
     and_then (check_digest state_digest field) (\<lambda>_.
     and_then (stored_generation generation) (\<lambda>g.
     Ok \<lparr>dgb_generation = g, dgb_state_digest = state_digest\<rparr>)))"

definition load_capability_generation :: "io \<Rightarrow> string \<Rightarrow> bank \<Rightarrow> durable_generation_binding option bank_result" where
  "load_capability_generation io capability_id db =
    and_then (bank_perform io (Statement ''load capability generation binding'')) (\<lambda>_.
    case bm_get (bk_capability_generations db) capability_id of
      None \<Rightarrow> Ok None
    | Some row \<Rightarrow> and_then (binding_of_row ''capability generation state digest'' row)
        (\<lambda>found. Ok (Some found)))"

definition load_bundle_generation :: "io \<Rightarrow> evidence_key \<Rightarrow> bank \<Rightarrow> durable_generation_binding option bank_result" where
  "load_bundle_generation io key db =
    and_then (bank_perform io (Statement ''load bundle generation binding'')) (\<lambda>_.
    case bm_get (bk_bundle_generations db) (key_columns key) of
      None \<Rightarrow> Ok None
    | Some row \<Rightarrow> and_then (binding_of_row ''bundle generation state digest'' row)
        (\<lambda>found. Ok (Some found)))"

definition binds :: "durable_generation_binding option \<Rightarrow> cas_token \<Rightarrow> bool" where
  "binds durable token =
    (durable = Some \<lparr>dgb_generation = ct_generation token, dgb_state_digest = ct_state_digest token\<rparr>)"

definition validate_allocator_at_least_capability :: "io \<Rightarrow> capability_current \<Rightarrow> bank \<Rightarrow> unit bank_result" where
  "validate_allocator_at_least_capability io current db =
    and_then (load_capability_generation io (cc_capability_id current) db) (\<lambda>durable.
    require (binds durable (cc_token current))
      (SE_CorruptRecord ''capability_projection'' (cc_capability_id current)
        ''generation binding does not match projection''))"

definition validate_allocator_at_least_bundle :: "io \<Rightarrow> evidence_current \<Rightarrow> bank \<Rightarrow> unit bank_result" where
  "validate_allocator_at_least_bundle io current db =
    and_then (load_bundle_generation io (ec_key current) db) (\<lambda>durable.
    require (binds durable (ec_token current))
      (SE_CorruptRecord ''bundle_projection'' (evidence_key_label (ec_key current))
        ''generation binding does not match projection''))"

definition load_capability_current ::
    "bank_codec \<Rightarrow> io \<Rightarrow> string \<Rightarrow> bank \<Rightarrow> capability_current option bank_result" where
  "load_capability_current C io capability_id db =
    and_then (bank_perform io (Statement ''load capability current'')) (\<lambda>_.
    case bm_get (bk_capability_current db) capability_id of
      None \<Rightarrow> Ok None
    | Some row \<Rightarrow>
        and_then (stored_generation (ccr_revision row)) (\<lambda>revision.
        and_then (stored_generation (ccr_generation row)) (\<lambda>generation.
        let current = \<lparr>cc_capability_id = capability_id, cc_revision = revision,
          cc_record_digest = ccr_record_digest row,
          cc_token = \<lparr>ct_generation = generation, ct_state_digest = ccr_state_digest row\<rparr>\<rparr> in
        and_then (validate_capability_state C current) (\<lambda>_.
        and_then (validate_capability_selection C io current db) (\<lambda>_.
        and_then (validate_allocator_at_least_capability io current db) (\<lambda>_.
        Ok (Some current)))))))"

definition load_bundle_current ::
    "bank_codec \<Rightarrow> io \<Rightarrow> evidence_key \<Rightarrow> bank \<Rightarrow> evidence_current option bank_result" where
  "load_bundle_current C io key db =
    and_then (bank_perform io (Statement ''load bundle current'')) (\<lambda>_.
    case bm_get (bk_bundle_current db) (key_columns key) of
      None \<Rightarrow> Ok None
    | Some row \<Rightarrow>
        and_then (from_slice (bkc_decode_freshness C (bcr_freshness_json row)) ''bundle freshness'') (\<lambda>freshness.
        and_then (canonical_json (bkc_freshness C freshness) ''bundle freshness'') (\<lambda>canonical.
        and_then (require (canonical = bcr_freshness_json row)
          (SE_CorruptRecord ''bundle_projection'' (evidence_key_label key) ''noncanonical freshness'')) (\<lambda>_.
        and_then (stored_generation (bcr_generation row)) (\<lambda>generation.
        let current = \<lparr>ec_key = key, ec_bundle_id = bcr_bundle_id row,
          ec_record_digest = bcr_record_digest row, ec_freshness = freshness,
          ec_token = \<lparr>ct_generation = generation, ct_state_digest = bcr_state_digest row\<rparr>\<rparr> in
        and_then (validate_evidence_state C current) (\<lambda>_.
        and_then (validate_bundle_selection C io current db) (\<lambda>_.
        and_then (validate_allocator_at_least_bundle io current db) (\<lambda>_.
        Ok (Some current)))))))))"

section \<open>Writing\<close>

definition validate_generation_transition ::
    "string \<Rightarrow> cas_token \<Rightarrow> durable_generation_binding option \<Rightarrow> unit bank_result" where
  "validate_generation_transition key selected durable =
    (case durable of
       None \<Rightarrow> Ok ()
     | Some binding \<Rightarrow> checks
         [require (\<not> ct_generation selected < dgb_generation binding)
            (SE_NonMonotonicGeneration key (ct_generation selected) (dgb_generation binding)),
          require (\<not> (ct_generation selected = dgb_generation binding
              \<and> ct_state_digest selected \<noteq> dgb_state_digest binding))
            (SE_InvalidProjectionSelection (key @ '' reuses generation ''
              @ show_nat (unat (ct_generation selected)) @ '' with different state digest''))])"

definition next_capability_generation :: "io \<Rightarrow> string \<Rightarrow> bank \<Rightarrow> u64 bank_result" where
  "next_capability_generation io capability_id db =
    and_then (load_capability_generation io capability_id db) (\<lambda>found.
    increment_generation (map_option dgb_generation found))"

definition next_bundle_generation :: "io \<Rightarrow> evidence_key \<Rightarrow> bank \<Rightarrow> u64 bank_result" where
  "next_bundle_generation io key db =
    and_then (load_bundle_generation io key db) (\<lambda>found.
    increment_generation (map_option dgb_generation found))"

definition ensure_monotonic_capability_generation :: "io \<Rightarrow> capability_current \<Rightarrow> bank \<Rightarrow> unit bank_result" where
  "ensure_monotonic_capability_generation io current db =
    and_then (load_capability_generation io (cc_capability_id current) db) (\<lambda>durable.
    validate_generation_transition (''capability:'' @ cc_capability_id current) (cc_token current) durable)"

definition ensure_monotonic_bundle_generation :: "io \<Rightarrow> evidence_current \<Rightarrow> bank \<Rightarrow> unit bank_result" where
  "ensure_monotonic_bundle_generation io current db =
    and_then (load_bundle_generation io (ec_key current) db) (\<lambda>durable.
    validate_generation_transition (''bundle:'' @ evidence_key_label (ec_key current)) (ec_token current) durable)"

definition persist_capability_generation ::
    "bank_codec \<Rightarrow> io \<Rightarrow> capability_current \<Rightarrow> bank \<Rightarrow> bank bank_result" where
  "persist_capability_generation C io current db =
    and_then (validate_capability_state C current) (\<lambda>_.
    and_then (load_capability_generation io (cc_capability_id current) db) (\<lambda>durable.
    and_then (validate_generation_transition (''capability:'' @ cc_capability_id current)
      (cc_token current) durable) (\<lambda>_.
    if binds durable (cc_token current) then Ok db
    else
      and_then (sqlite_u64 (ct_generation (cc_token current))) (\<lambda>generation.
      and_then (execute io ''persist capability generation binding'' (0 < generation)) (\<lambda>_.
      Ok (db\<lparr>bk_capability_generations := bm_insert (cc_capability_id current)
        (generation, ct_state_digest (cc_token current)) (bk_capability_generations db)\<rparr>))))))"

definition persist_bundle_generation ::
    "bank_codec \<Rightarrow> io \<Rightarrow> evidence_current \<Rightarrow> bank \<Rightarrow> bank bank_result" where
  "persist_bundle_generation C io current db =
    and_then (validate_evidence_state C current) (\<lambda>_.
    and_then (load_bundle_generation io (ec_key current) db) (\<lambda>durable.
    and_then (validate_generation_transition (''bundle:'' @ evidence_key_label (ec_key current))
      (ec_token current) durable) (\<lambda>_.
    if binds durable (ec_token current) then Ok db
    else
      and_then (sqlite_u64 (ct_generation (ec_token current))) (\<lambda>generation.
      and_then (execute io ''persist bundle generation binding'' (0 < generation)) (\<lambda>_.
      Ok (db\<lparr>bk_bundle_generations := bm_insert (key_columns (ec_key current))
        (generation, ct_state_digest (ec_token current)) (bk_bundle_generations db)\<rparr>))))))"

text \<open>Rows of the projections with the foreign keys the schema gives them.\<close>

definition capability_current_row_of :: "capability_current \<Rightarrow> capability_current_row bank_result" where
  "capability_current_row_of current =
    and_then (sqlite_u64 (cc_revision current)) (\<lambda>revision.
    and_then (sqlite_u64 (ct_generation (cc_token current))) (\<lambda>generation.
    Ok \<lparr>ccr_revision = revision, ccr_record_digest = cc_record_digest current,
      ccr_generation = generation, ccr_state_digest = ct_state_digest (cc_token current)\<rparr>))"

definition capability_row_allowed :: "string \<Rightarrow> capability_current_row \<Rightarrow> bank \<Rightarrow> bool" where
  "capability_row_allowed capability_id row db \<longleftrightarrow>
     0 < ccr_generation row
   \<and> map_option car_row_digest (bm_get (bk_capability_records db) (capability_id, ccr_revision row))
       = Some (ccr_record_digest row)"

definition bundle_current_row_of :: "bank_codec \<Rightarrow> evidence_current \<Rightarrow> bundle_current_row bank_result" where
  "bundle_current_row_of C current =
    and_then (canonical_json (bkc_freshness C (ec_freshness current)) ''bundle freshness'') (\<lambda>freshness.
    and_then (sqlite_u64 (ct_generation (ec_token current))) (\<lambda>generation.
    Ok \<lparr>bcr_bundle_id = ec_bundle_id current, bcr_record_digest = ec_record_digest current,
      bcr_freshness_json = freshness, bcr_generation = generation,
      bcr_state_digest = ct_state_digest (ec_token current)\<rparr>))"

definition bundle_row_allowed :: "evidence_key \<Rightarrow> bundle_current_row \<Rightarrow> bank \<Rightarrow> bool" where
  "bundle_row_allowed key row db \<longleftrightarrow>
     0 < bcr_generation row
   \<and> map_option (\<lambda>r. (bur_row_digest r, bur_row_key r)) (bm_get (bk_bundle_records db) (bcr_bundle_id row))
       = Some (bcr_record_digest row, key_columns key)"

definition write_capability_current ::
    "io \<Rightarrow> capability_current \<Rightarrow> bank \<Rightarrow> bank bank_result" where
  "write_capability_current io current db =
    and_then (capability_current_row_of current) (\<lambda>row.
    and_then (execute io ''write capability current''
      (capability_row_allowed (cc_capability_id current) row db)) (\<lambda>_.
    Ok (db\<lparr>bk_capability_current :=
      bm_insert (cc_capability_id current) row (bk_capability_current db)\<rparr>)))"

definition write_bundle_current ::
    "bank_codec \<Rightarrow> io \<Rightarrow> evidence_current \<Rightarrow> bank \<Rightarrow> bank bank_result" where
  "write_bundle_current C io current db =
    and_then (bundle_current_row_of C current) (\<lambda>row.
    and_then (execute io ''write bundle current'' (bundle_row_allowed (ec_key current) row db)) (\<lambda>_.
    Ok (db\<lparr>bk_bundle_current :=
      bm_insert (key_columns (ec_key current)) row (bk_bundle_current db)\<rparr>)))"

text \<open>
  Of the two guarded writes one inserts only where no row is, the other updates only the row with
  the expected token; either says whether it changed a row.
\<close>

definition write_capability_current_cas ::
    "io \<Rightarrow> capability_current \<Rightarrow> projection_expectation \<Rightarrow> bank \<Rightarrow> bank bank_result" where
  "write_capability_current_cas io current expectation db =
    (let capability_id = cc_capability_id current;
         found = bm_get (bk_capability_current db) capability_id in
     and_then (capability_current_row_of current) (\<lambda>row.
     and_then (case expectation of
         ExpectAbsent \<Rightarrow>
           and_then (execute io ''insert absent capability current''
             (found = None \<longrightarrow> capability_row_allowed capability_id row db)) (\<lambda>_. Ok (found = None))
       | ExpectToken expected \<Rightarrow>
           and_then (sqlite_u64 (ct_generation expected)) (\<lambda>generation.
           let changed = (map_option (\<lambda>r. (ccr_generation r, ccr_state_digest r)) found
             = Some (generation, ct_state_digest expected)) in
           and_then (execute io ''CAS update capability current''
             (changed \<longrightarrow> capability_row_allowed capability_id row db)) (\<lambda>_. Ok changed)))
       (\<lambda>changed.
     and_then (require changed (SE_CasWriteLost (''capability:'' @ capability_id))) (\<lambda>_.
     Ok (db\<lparr>bk_capability_current := bm_insert capability_id row (bk_capability_current db)\<rparr>)))))"

definition write_bundle_current_cas ::
    "bank_codec \<Rightarrow> io \<Rightarrow> evidence_current \<Rightarrow> projection_expectation \<Rightarrow> bank \<Rightarrow> bank bank_result" where
  "write_bundle_current_cas C io current expectation db =
    (let key = ec_key current; found = bm_get (bk_bundle_current db) (key_columns key) in
     and_then (bundle_current_row_of C current) (\<lambda>row.
     and_then (case expectation of
         ExpectAbsent \<Rightarrow>
           and_then (execute io ''insert absent bundle current''
             (found = None \<longrightarrow> bundle_row_allowed key row db)) (\<lambda>_. Ok (found = None))
       | ExpectToken expected \<Rightarrow>
           and_then (sqlite_u64 (ct_generation expected)) (\<lambda>generation.
           let changed = (map_option (\<lambda>r. (bcr_generation r, bcr_state_digest r)) found
             = Some (generation, ct_state_digest expected)) in
           and_then (execute io ''CAS update bundle current''
             (changed \<longrightarrow> bundle_row_allowed key row db)) (\<lambda>_. Ok changed)))
       (\<lambda>changed.
     and_then (require changed (SE_CasWriteLost (''bundle:'' @ evidence_key_label key))) (\<lambda>_.
     Ok (db\<lparr>bk_bundle_current := bm_insert (key_columns key) row (bk_bundle_current db)\<rparr>)))))"

section \<open>Publishing\<close>

definition publish_capability_tx ::
    "bank_codec \<Rightarrow> io \<Rightarrow> capability_definition \<Rightarrow> bank \<Rightarrow>
     (capability_record publish_outcome \<times> bank) bank_result" where
  "publish_capability_tx C io definition db =
    (let i = cd_capability_id definition; revision = cd_revision definition in
     and_then (canonical_capability C definition) (\<lambda>canonical.
     let digest = bkc_sha256 C canonical in
     and_then (load_capability C io i revision db) (\<lambda>found.
     case found of
       Some existing \<Rightarrow>
         and_then (if car_digest existing \<noteq> digest then Ok False
             else and_then (canonical_capability C (car_definition existing)) (\<lambda>c. Ok (c = canonical)))
           (\<lambda>identical.
         and_then (require identical
           (SE_ImmutableConflict ''capability'' (capability_label i revision))) (\<lambda>_.
         Ok (ExistingIdentical existing, db)))
     | None \<Rightarrow>
         and_then (bank_perform io (Statement ''check capability digest owner'')) (\<lambda>_.
         and_then (require (\<not> list_ex (\<lambda>(_, row). car_row_digest row = digest)
             (bm_entries (bk_capability_records db)))
           (SE_ImmutableConflict ''capability_digest'' digest)) (\<lambda>_.
         and_then (sqlite_u64 revision) (\<lambda>stored_revision.
         and_then (execute io ''insert capability record''
           (0 < stored_revision \<and> bm_get (bk_capability_records db) (i, stored_revision) = None)) (\<lambda>_.
         Ok (Inserted \<lparr>car_definition = definition, car_digest = digest\<rparr>,
             db\<lparr>bk_capability_records := bm_insert (i, stored_revision)
               \<lparr>car_row_digest = digest, car_row_json = canonical\<rparr> (bk_capability_records db)\<rparr>))))))))"

definition publish_bundle_tx ::
    "bank_codec \<Rightarrow> io \<Rightarrow> verification_bundle \<Rightarrow> bank \<Rightarrow>
     (bundle_record publish_outcome \<times> bank) bank_result" where
  "publish_bundle_tx C io bundle db =
    (let i = vb_bundle_id bundle in
     and_then (canonical_bundle C bundle) (\<lambda>canonical.
     let digest = bkc_sha256 C canonical in
     and_then (load_bundle_by_id C io i db) (\<lambda>found.
     case found of
       Some existing \<Rightarrow>
         and_then (if bur_digest existing \<noteq> digest then Ok False
             else and_then (canonical_bundle C (bur_bundle existing)) (\<lambda>c. Ok (c = canonical)))
           (\<lambda>identical.
         and_then (require identical (SE_ImmutableConflict ''bundle'' i)) (\<lambda>_.
         Ok (ExistingIdentical existing, db)))
     | None \<Rightarrow>
         and_then (bank_perform io (Statement ''check bundle digest owner'')) (\<lambda>_.
         and_then (require (\<not> list_ex (\<lambda>(_, row). bur_row_digest row = digest)
             (bm_entries (bk_bundle_records db)))
           (SE_ImmutableConflict ''bundle_digest'' digest)) (\<lambda>_.
         and_then (execute io ''insert bundle record'' (bm_get (bk_bundle_records db) i = None)) (\<lambda>_.
         Ok (Inserted (bundle_record_of bundle digest),
             db\<lparr>bk_bundle_records := bm_insert i
               \<lparr>bur_row_digest = digest, bur_row_key = key_columns (bundle_key bundle),
                bur_row_json = canonical\<rparr> (bk_bundle_records db)\<rparr>)))))))"

definition publish_capability ::
    "bank_codec \<Rightarrow> io \<Rightarrow> capability_definition \<Rightarrow> bank \<Rightarrow>
     capability_record publish_outcome bank_result \<times> bank" where
  "publish_capability C io definition =
    transaction io ''begin capability publication'' (\<lambda>db.
      and_then (publish_capability_tx C io definition db) (\<lambda>(outcome, db').
      bank_commit io ''commit capability publication'' outcome db'))"

definition publish_bundle ::
    "bank_codec \<Rightarrow> io \<Rightarrow> verification_bundle \<Rightarrow> bank \<Rightarrow> bundle_record publish_outcome bank_result \<times> bank"
  where
  "publish_bundle C io bundle =
    transaction io ''begin bundle publication'' (\<lambda>db.
      and_then (publish_bundle_tx C io bundle db) (\<lambda>(outcome, db').
      bank_commit io ''commit bundle publication'' outcome db'))"

text \<open>Loads open a connection of their own.\<close>

definition registry_load ::
    "bank_codec \<Rightarrow> io \<Rightarrow> string \<Rightarrow> u64 \<Rightarrow> bank \<Rightarrow> capability_record option bank_result" where
  "registry_load C io capability_id revision db =
    and_then (bank_open_connection io db) (\<lambda>_. load_capability C io capability_id revision db)"

definition registry_load_current ::
    "bank_codec \<Rightarrow> io \<Rightarrow> string \<Rightarrow> bank \<Rightarrow> capability_current option bank_result" where
  "registry_load_current C io capability_id db =
    and_then (bank_open_connection io db) (\<lambda>_. load_capability_current C io capability_id db)"

definition bank_load_bundle ::
    "bank_codec \<Rightarrow> io \<Rightarrow> string \<Rightarrow> bank \<Rightarrow> bundle_record option bank_result" where
  "bank_load_bundle C io digest db =
    and_then (check_digest digest ''bundle digest'') (\<lambda>_.
    and_then (bank_open_connection io db) (\<lambda>_. load_bundle_by_digest C io digest db))"

definition bank_load_current ::
    "bank_codec \<Rightarrow> io \<Rightarrow> evidence_key \<Rightarrow> bank \<Rightarrow> evidence_current option bank_result" where
  "bank_load_current C io key db =
    and_then (bank_open_connection io db) (\<lambda>_. load_bundle_current C io key db)"

section \<open>Choosing what is current\<close>

definition expectation_matches :: "projection_expectation \<Rightarrow> cas_token option \<Rightarrow> bool" where
  "expectation_matches expectation current =
    (case (expectation, current) of
       (ExpectAbsent, None) \<Rightarrow> True
     | (ExpectToken expected, Some token) \<Rightarrow> expected = token
     | _ \<Rightarrow> False)"

definition swap_capability_current ::
    "bank_codec \<Rightarrow> io \<Rightarrow> string \<Rightarrow> u64 \<Rightarrow> string \<Rightarrow> projection_expectation \<Rightarrow> bank \<Rightarrow>
     capability_current cas_outcome bank_result \<times> bank" where
  "swap_capability_current C io capability_id revision record_digest expectation =
    (let label = capability_label capability_id revision in
     transaction io ''begin capability CAS'' (\<lambda>db.
       and_then (load_capability C io capability_id revision db) (\<lambda>found.
       and_then (ok_or found (SE_MissingRecord ''capability'' label)) (\<lambda>record.
       and_then (require (car_digest record = record_digest)
         (SE_BindingMismatch (''capability '' @ label @ '' digest''))) (\<lambda>_.
       and_then (load_capability_current C io capability_id db) (\<lambda>current.
       if \<not> expectation_matches expectation (map_option cc_token current)
       then bank_commit io ''commit capability CAS conflict'' (CasConflict current) db
       else
         and_then (next_capability_generation io capability_id db) (\<lambda>generation.
         and_then (new_capability_current C capability_id revision record_digest generation) (\<lambda>fresh.
         and_then (write_capability_current_cas io fresh expectation db) (\<lambda>db1.
         and_then (persist_capability_generation C io fresh db1) (\<lambda>db2.
         bank_commit io ''commit capability CAS'' (CasApplied fresh) db2))))))))))"

definition is_stale :: "evidence_freshness \<Rightarrow> bool" where
  "is_stale freshness = (freshness \<noteq> FreshCurrent)"

definition apply_bundle_cas ::
    "bank_codec \<Rightarrow> io \<Rightarrow> bundle_record \<Rightarrow> projection_expectation \<Rightarrow> evidence_freshness \<Rightarrow> bank \<Rightarrow>
     (evidence_current cas_outcome \<times> bank) bank_result" where
  "apply_bundle_cas C io record expectation freshness db =
    (let key = bundle_key (bur_bundle record) in
     and_then (load_bundle_current C io key db) (\<lambda>current.
     if \<not> expectation_matches expectation (map_option ec_token current)
     then Ok (CasConflict current, db)
     else
       and_then (require (\<not> (case current of None \<Rightarrow> False
           | Some value \<Rightarrow> is_stale (ec_freshness value) \<and> ec_record_digest value = bur_digest record))
         SE_StaleRevivalRequiresDifferentBundle) (\<lambda>_.
       and_then (next_bundle_generation io key db) (\<lambda>generation.
       and_then (new_evidence_current C key (vb_bundle_id (bur_bundle record)) (bur_digest record)
         freshness generation) (\<lambda>fresh.
       and_then (write_bundle_current_cas C io fresh expectation db) (\<lambda>db1.
       and_then (persist_bundle_generation C io fresh db1) (\<lambda>db2.
       Ok (CasApplied fresh, db2))))))))"

definition swap_bundle_current ::
    "bank_codec \<Rightarrow> io \<Rightarrow> string \<Rightarrow> projection_expectation \<Rightarrow> bank \<Rightarrow>
     evidence_current cas_outcome bank_result \<times> bank" where
  "swap_bundle_current C io record_digest expectation =
    transaction io ''begin bundle CAS'' (\<lambda>db.
      and_then (load_bundle_by_digest C io record_digest db) (\<lambda>found.
      and_then (ok_or found (SE_MissingRecord ''bundle'' record_digest)) (\<lambda>record.
      and_then (apply_bundle_cas C io record expectation FreshCurrent db) (\<lambda>(outcome, db').
      bank_commit io ''commit bundle CAS'' outcome db'))))"

definition published_record :: "'a publish_outcome \<Rightarrow> 'a" where
  "published_record publication =
    (case publication of Inserted record \<Rightarrow> record | ExistingIdentical record \<Rightarrow> record)"

definition publish_bundle_and_cas_inner ::
    "bank_codec \<Rightarrow> io \<Rightarrow> verification_bundle \<Rightarrow> projection_expectation \<Rightarrow> bool \<Rightarrow> bank \<Rightarrow>
     publish_and_cas_outcome bank_result \<times> bank" where
  "publish_bundle_and_cas_inner C io bundle expectation fail_after_publish =
    transaction io ''begin atomic bundle publish and CAS'' (\<lambda>db.
      and_then (publish_bundle_tx C io bundle db) (\<lambda>(publication, db1).
      and_then (require (\<not> fail_after_publish) SE_InjectedFailure) (\<lambda>_.
      and_then (apply_bundle_cas C io (published_record publication) expectation FreshCurrent db1)
        (\<lambda>(projection, db2).
      bank_commit io ''commit atomic bundle publish and CAS''
        \<lparr>pco_publication = publication, pco_projection = projection\<rparr> db2))))"

definition publish_bundle_and_cas ::
    "bank_codec \<Rightarrow> io \<Rightarrow> verification_bundle \<Rightarrow> projection_expectation \<Rightarrow> bank \<Rightarrow>
     publish_and_cas_outcome bank_result \<times> bank" where
  "publish_bundle_and_cas C io bundle expectation =
    publish_bundle_and_cas_inner C io bundle expectation False"

section \<open>Staleness\<close>

definition merged_causes :: "evidence_freshness \<Rightarrow> stale_cause set \<Rightarrow> stale_cause set" where
  "merged_causes freshness causes =
    (case freshness of FreshCurrent \<Rightarrow> causes | FreshStale existing \<Rightarrow> existing \<union> causes)"

definition mark_stale ::
    "bank_codec \<Rightarrow> io \<Rightarrow> evidence_key \<Rightarrow> cas_token \<Rightarrow> stale_cause set \<Rightarrow> bank \<Rightarrow>
     evidence_current cas_outcome bank_result \<times> bank" where
  "mark_stale C io key expected causes db =
    (if causes = {} then (Err SE_EmptyStaleCauses, db)
     else transaction io ''begin stale transition'' (\<lambda>db.
       and_then (load_bundle_current C io key db) (\<lambda>found.
       case found of
         None \<Rightarrow> bank_commit io ''commit missing stale conflict'' (CasConflict None) db
       | Some current \<Rightarrow>
           (let merged = merged_causes (ec_freshness current) causes in
            if ec_token current \<noteq> expected
            then bank_commit io ''commit stale CAS conflict'' (CasConflict (Some current)) db
            else if ec_freshness current = FreshStale merged
            then bank_commit io ''commit unchanged stale transition'' (CasUnchanged current) db
            else
              and_then (next_bundle_generation io key db) (\<lambda>generation.
              and_then (new_evidence_current C key (ec_bundle_id current) (ec_record_digest current)
                (FreshStale merged) generation) (\<lambda>fresh.
              and_then (write_bundle_current_cas C io fresh (ExpectToken expected) db) (\<lambda>db1.
              and_then (persist_bundle_generation C io fresh db1) (\<lambda>db2.
              bank_commit io ''commit stale transition'' (CasApplied fresh) db2))))))) db)"

definition changed_causes :: "verification_fingerprints \<Rightarrow> verification_fingerprints \<Rightarrow> stale_cause set" where
  "changed_causes actual expected =
    (if vfp_behavior_contract actual \<noteq> vfp_behavior_contract expected then {StaleBehavior} else {})
    \<union> (if vfp_capability_set actual \<noteq> vfp_capability_set expected then {StaleCapabilitySet} else {})
    \<union> (if vfp_command actual \<noteq> vfp_command expected then {StaleCommand} else {})
    \<union> (if vfp_policy actual \<noteq> vfp_policy expected then {StalePolicy} else {})
    \<union> (if vfp_source_pre actual \<noteq> vfp_source_pre expected
          \<or> vfp_source_post actual \<noteq> vfp_source_post expected then {StaleSource} else {})
    \<union> (if vfp_environment actual \<noteq> vfp_environment expected then {StaleEnvironment} else {})"

text \<open>Three connections in a row; \<open>others\<close> is what other clients did between them.\<close>

definition mark_stale_if_fingerprints_changed ::
    "bank_codec \<Rightarrow> io \<Rightarrow> (bank \<Rightarrow> bank) \<Rightarrow> (bank \<Rightarrow> bank) \<Rightarrow> evidence_key \<Rightarrow> cas_token \<Rightarrow>
     verification_fingerprints \<Rightarrow> bank \<Rightarrow> evidence_current cas_outcome bank_result \<times> bank" where
  "mark_stale_if_fingerprints_changed C io others others' key expected_token expected db =
    (case bank_load_current C io key db of
       Err e \<Rightarrow> (Err e, db)
     | Panic \<Rightarrow> (Panic, db)
     | Ok None \<Rightarrow> (Ok (CasConflict None), db)
     | Ok (Some current) \<Rightarrow>
         (if ec_token current \<noteq> expected_token then (Ok (CasConflict (Some current)), db)
          else
            (let db1 = others db in
             case and_then (bank_load_bundle C io (ec_record_digest current) db1) (\<lambda>found.
                 ok_or found (SE_MissingRecord ''bundle'' (ec_record_digest current))) of
               Err e \<Rightarrow> (Err e, db1)
             | Panic \<Rightarrow> (Panic, db1)
             | Ok record \<Rightarrow>
                 (let causes = changed_causes (vb_fingerprints (bur_bundle record)) expected in
                  if causes = {} then (Ok (CasUnchanged current), db1)
                  else mark_stale C io key expected_token causes (others' db1)))))"

section \<open>Rebuilding the projections\<close>

definition rebuild_capability :: "bank_codec \<Rightarrow> io \<Rightarrow> bank \<Rightarrow> capability_current \<Rightarrow> bank bank_result" where
  "rebuild_capability C io db current =
    and_then (write_capability_current io current db) (\<lambda>db'.
    persist_capability_generation C io current db')"

definition rebuild_bundle :: "bank_codec \<Rightarrow> io \<Rightarrow> bank \<Rightarrow> evidence_current \<Rightarrow> bank bank_result" where
  "rebuild_bundle C io db current =
    and_then (write_bundle_current C io current db) (\<lambda>db'.
    persist_bundle_generation C io current db')"

definition rebuild_projections ::
    "bank_codec \<Rightarrow> io \<Rightarrow> projection_selection \<Rightarrow> bank \<Rightarrow> unit bank_result \<times> bank" where
  "rebuild_projections C io selection db =
    (case validate_projection_selection C selection of
       Err e \<Rightarrow> (Err e, db)
     | Panic \<Rightarrow> (Panic, db)
     | Ok _ \<Rightarrow>
         transaction io ''begin projection rebuild'' (\<lambda>db.
           and_then (checks (map (\<lambda>current. and_then (validate_capability_selection C io current db) (\<lambda>_.
             ensure_monotonic_capability_generation io current db)) (aps_capabilities selection))) (\<lambda>_.
           and_then (checks (map (\<lambda>current. and_then (validate_bundle_selection C io current db) (\<lambda>_.
             ensure_monotonic_bundle_generation io current db)) (aps_bundles selection))) (\<lambda>_.
           and_then (bank_perform io (Statement ''clear capability projection'')) (\<lambda>_.
           and_then (bank_perform io (Statement ''clear bundle projection'')) (\<lambda>_.
           and_then (try_fold (rebuild_capability C io)
             (db\<lparr>bk_capability_current := bm_empty, bk_bundle_current := bm_empty\<rparr>)
             (aps_capabilities selection)) (\<lambda>db1.
           and_then (try_fold (rebuild_bundle C io) db1 (aps_bundles selection)) (\<lambda>db2.
           bank_commit io ''commit projection rebuild'' () db2))))))) db)"

section \<open>The completion lease\<close>

definition validate_completion_admission_keys :: "evidence_key list \<Rightarrow> unit bank_result" where
  "validate_completion_admission_keys keys =
    (let refused = SE_InvalidContract ''completion_admission_keys'' in
     checks
       ([require (keys \<noteq> []) (refused ''at least one evidence key is required'')]
        @ map (\<lambda>key. require (\<not> (is_blank (ek_run_id key) \<or> is_blank (ek_goal_id key)
              \<or> is_blank (ek_task_id key))) (refused ''run, goal, and task IDs must be nonempty'')) keys
        @ [require (strictly_sorted (map key_columns keys))
             (refused ''evidence keys must be strictly sorted and unique'')]))"

definition push_current_capability ::
    "bank_codec \<Rightarrow> io \<Rightarrow> bank \<Rightarrow> completion_admission_capability list \<Rightarrow> string \<Rightarrow>
     completion_admission_capability list bank_result" where
  "push_current_capability C io db capabilities capability_id =
    and_then (load_capability_current C io capability_id db) (\<lambda>found.
    and_then (ok_or found (SE_MissingRecord ''capability projection'' capability_id)) (\<lambda>current.
    let label = capability_label capability_id (cc_revision current) in
    and_then (load_capability C io capability_id (cc_revision current) db) (\<lambda>loaded.
    and_then (ok_or loaded (SE_MissingRecord ''capability'' label)) (\<lambda>record.
    and_then (require (car_digest record = cc_record_digest current)
      (SE_BindingMismatch (''current capability '' @ label))) (\<lambda>_.
    Ok (capabilities @ [\<lparr>cac_current = current, cac_record = record\<rparr>]))))))"

definition push_current_bundle ::
    "bank_codec \<Rightarrow> io \<Rightarrow> bank \<Rightarrow> completion_admission_bundle list \<Rightarrow> evidence_key \<Rightarrow>
     completion_admission_bundle list bank_result" where
  "push_current_bundle C io db bundles key =
    and_then (load_bundle_current C io key db) (\<lambda>found.
    and_then (ok_or found (SE_MissingRecord ''bundle projection'' (evidence_key_label key))) (\<lambda>current.
    and_then (require (ec_freshness current = FreshCurrent)
      (SE_InvalidProjectionSelection
        (''completion evidence is not current for '' @ evidence_key_label key))) (\<lambda>_.
    and_then (load_bundle_by_digest C io (ec_record_digest current) db) (\<lambda>loaded.
    and_then (ok_or loaded (SE_MissingRecord ''bundle'' (ec_record_digest current))) (\<lambda>record.
    and_then (require (\<not> (bur_digest record \<noteq> ec_record_digest current
        \<or> vb_bundle_id (bur_bundle record) \<noteq> ec_bundle_id current
        \<or> bundle_key (bur_bundle record) \<noteq> ec_key current))
      (SE_BindingMismatch (evidence_key_label key))) (\<lambda>_.
    Ok (bundles @ [\<lparr>cab_current = current, cab_record = record\<rparr>])))))))"

definition read_completion_snapshot ::
    "bank_codec \<Rightarrow> io \<Rightarrow> evidence_key list \<Rightarrow> bank \<Rightarrow> completion_admission_snapshot bank_result" where
  "read_completion_snapshot C io keys db =
    (let capability_ids = bm_keys (bk_capability_current db) in
     and_then (checks ([bank_perform io (Statement ''prepare completion capability snapshot''),
         bank_perform io (Statement ''query completion capability snapshot'')]
       @ map (\<lambda>_. bank_perform io (Statement ''read completion capability snapshot row''))
           capability_ids)) (\<lambda>_.
     and_then (try_fold (push_current_capability C io db) [] capability_ids) (\<lambda>capabilities.
     and_then (try_fold (push_current_bundle C io db) [] keys) (\<lambda>bundles.
     Ok \<lparr>cas_capabilities = capabilities, cas_bundles = bundles\<rparr>))))"

text \<open>
  The callback runs while the writer reservation is held; it changes a state \<open>'s\<close> of its own (the
  event log of the caller), which a failing commit does not undo. \<open>lift\<close> is the conversion of
  errors into those of the caller.
\<close>

definition with_completion_admission_lease ::
    "bank_codec \<Rightarrow> io \<Rightarrow> (bank_error \<Rightarrow> 'e) \<Rightarrow> evidence_key list \<Rightarrow>
     (completion_admission_snapshot \<Rightarrow> 's \<Rightarrow> ('e, 't) result \<times> 's) \<Rightarrow> bank \<Rightarrow> 's \<Rightarrow> ('e, 't) result \<times> 's"
  where
  "with_completion_admission_lease C io lift keys callback db s =
    (case map_err lift (and_then (validate_completion_admission_keys keys) (\<lambda>_.
         and_then (bank_open_connection io db) (\<lambda>_.
         and_then (bank_perform io (Statement ''begin completion admission lease'')) (\<lambda>_.
         read_completion_snapshot C io keys db)))) of
       Err e \<Rightarrow> (Err e, s)
     | Panic \<Rightarrow> (Panic, s)
     | Ok snapshot \<Rightarrow>
         (let (r, s') = callback snapshot s in
          (and_then r (\<lambda>result.
           and_then (map_err lift (bank_perform io (Statement ''commit completion admission lease''))) (\<lambda>_.
           Ok result)), s')))"

end
