(* ===== verification/Evidence_Bank_Safety.thy ===== *)
theory Evidence_Bank_Safety
  imports Evidence_Bank
begin

text \<open>
  What the operations of \<open>Evidence_Bank\<close> keep of its state: rows stay intact (records are
  canonical bytes under their digest, a projection is sealed, refers to a record and sits at its
  durable generation), records are never changed, generations never go back, and a projection
  only changes to a generation above all earlier ones of its key.
\<close>

section \<open>Values\<close>

lemma check_digest_iff [result_iff]: "check_digest d field = Ok u \<longleftrightarrow> valid_digest d"
  by (simp add: check_digest_def valid_digest_def result_iff)

lemma sqlite_u64_iff [result_iff]: "sqlite_u64 v = Ok i \<longleftrightarrow> i = uint v \<and> uint v < 2 ^ 63"
  by (auto simp: sqlite_u64_def)

lemma uint_pos: "0 < uint (g :: u64) \<longleftrightarrow> g \<noteq> 0"
  by (metis less_le unsigned_greater_eq unsigned_eq_0_iff)

lemma validate_generation_iff [result_iff]:
  "validate_generation g = Ok i \<longleftrightarrow> i = uint g \<and> 0 < uint g \<and> uint g < 2 ^ 63"
  by (auto simp: validate_generation_def result_iff uint_pos)

lemma stored_generation_iff [result_iff]:
  "stored_generation i = Ok g \<longleftrightarrow> 0 \<le> i \<and> g = word_of_int i"
  by (auto simp: stored_generation_def)

lemma validate_freshness_iff [result_iff]: "validate_freshness f = Ok u \<longleftrightarrow> f \<noteq> FreshStale {}"
  by (simp add: validate_freshness_def result_iff)

lemma from_slice_iff [result_iff]: "from_slice x kind = Ok a \<longleftrightarrow> x = Inr a"
  by (auto simp: from_slice_def split: sum.splits)

lemma canonical_json_iff [result_iff]: "canonical_json x kind = Ok a \<longleftrightarrow> x = Inr a"
  by (auto simp: canonical_json_def split: sum.splits)

lemma bank_perform_iff [result_iff]: "bank_perform io step = Ok u \<longleftrightarrow> \<not> io step"
  by (simp add: bank_perform_def result_iff)

lemma execute_iff [result_iff]: "execute io operation ok = Ok u \<longleftrightarrow> \<not> io (Statement operation) \<and> ok"
  by (simp add: execute_def result_iff)

lemma bank_commit_iff [result_iff]:
  "bank_commit io operation x db = Ok (y, db') \<longleftrightarrow> \<not> io (Statement operation) \<and> y = x \<and> db' = db"
  by (auto simp: bank_commit_def result_iff)

lemma canonical_capability_iff [result_iff]:
  "canonical_capability C d = Ok b \<longleftrightarrow> capability_bytes (bkc_rerun C) d = Ok b"
  by (simp add: canonical_capability_def result_iff)

lemma canonical_bundle_iff [result_iff]: "canonical_bundle C b = Ok bs \<longleftrightarrow> bundle_bytes C b = Ok bs"
  by (simp add: canonical_bundle_def result_iff)

lemma uint_word_of_int [simp]: "0 \<le> i \<Longrightarrow> i < 2 ^ 63 \<Longrightarrow> uint (word_of_int i :: u64) = i"
  by (simp add: uint_word_of_int_eq take_bit_int_eq_self)

lemma increment_generation_Ok:
  "increment_generation found = Ok g \<Longrightarrow> (case found of None \<Rightarrow> g = 1 | Some h \<Rightarrow> uint g = uint h + 1)"
  by (cases found) (auto simp: increment_generation_def Let_def split: if_splits dest: word_succ_less)

section \<open>What a row holds\<close>

text \<open>A record row is content addressed: its bytes are the canonical ones of a valid record.\<close>

definition holds_capability :: "bank_codec \<Rightarrow> string \<times> int \<Rightarrow> capability_row \<Rightarrow> capability_definition \<Rightarrow> bool" where
  "holds_capability C columns row d \<longleftrightarrow>
     capability_bytes (bkc_rerun C) d = Ok (car_row_json row)
   \<and> car_row_digest row = bkc_sha256 C (car_row_json row)
   \<and> columns = (cd_capability_id d, uint (cd_revision d)) \<and> uint (cd_revision d) < 2 ^ 63"

definition holds_bundle :: "bank_codec \<Rightarrow> string \<Rightarrow> bundle_row \<Rightarrow> verification_bundle \<Rightarrow> bool" where
  "holds_bundle C i row b \<longleftrightarrow>
     bundle_bytes C b = Ok (bur_row_json row) \<and> bur_row_digest row = bkc_sha256 C (bur_row_json row)
   \<and> i = vb_bundle_id b \<and> bur_row_key row = key_columns (bundle_key b)"

lemma key_columns_inject [simp]: "key_columns k = key_columns k' \<longleftrightarrow> k = k'"
  by (auto simp: key_columns_def intro: evidence_key.equality)

lemma load_capability_Ok:
  assumes "load_capability C io i r db = Ok found"
  shows "uint r < 2 ^ 63 \<and> (case found of
      None \<Rightarrow> bm_get (bk_capability_records db) (i, uint r) = None
    | Some record \<Rightarrow> \<exists>row. bm_get (bk_capability_records db) (i, uint r) = Some row
        \<and> holds_capability C (i, uint r) row (car_definition record)
        \<and> cd_revision (car_definition record) = r \<and> car_digest record = car_row_digest row)"
  using assms
  by (auto simp: load_capability_def capability_of_row_def result_iff holds_capability_def Let_def
      split: option.splits if_splits)

lemma find_entry:
  "find P (bm_entries m) = Some (k, v) \<Longrightarrow> bm_get m k = Some v \<and> P (k, v)"
  using find_Some_elem [of P "bm_entries m"] by (auto simp: bm_entries_iff)

lemma load_bundle_row_Ok:
  assumes "load_bundle_row C io P db = Ok found"
  shows "case found of
      None \<Rightarrow> \<forall>i row. bm_get (bk_bundle_records db) i = Some row \<longrightarrow> \<not> P (i, row)
    | Some record \<Rightarrow> \<exists>i row. bm_get (bk_bundle_records db) i = Some row \<and> P (i, row)
        \<and> holds_bundle C i row (bur_bundle record) \<and> record = bundle_record_of (bur_bundle record) (bur_row_digest row)"
proof (cases "find P (bm_entries (bk_bundle_records db))")
  case None
  then have "found = None" using assms by (simp add: load_bundle_row_def result_iff)
  moreover have "\<not> P (i, row)" if "bm_get (bk_bundle_records db) i = Some row" for i row
    using None that by (auto simp: find_None_iff bm_entries_iff)
  ultimately show ?thesis by simp
next
  case (Some entry)
  obtain i row where entry: "entry = (i, row)" by (cases entry)
  show ?thesis
    using assms Some find_entry [OF Some [unfolded entry]]
    by (auto simp: load_bundle_row_def bundle_of_row_def result_iff holds_bundle_def entry Let_def
        bundle_record_of_def)
qed

lemma load_bundle_by_id_Ok:
  assumes "load_bundle_by_id C io i db = Ok found"
  shows "case found of None \<Rightarrow> bm_get (bk_bundle_records db) i = None
    | Some record \<Rightarrow> \<exists>row. bm_get (bk_bundle_records db) i = Some row
        \<and> holds_bundle C i row (bur_bundle record) \<and> record = bundle_record_of (bur_bundle record) (bur_row_digest row)"
  using load_bundle_row_Ok [OF assms [unfolded load_bundle_by_id_def]]
  by (auto split: option.splits)

lemma load_bundle_by_digest_Ok:
  assumes "load_bundle_by_digest C io d db = Ok (Some record)"
  shows "\<exists>i row. bm_get (bk_bundle_records db) i = Some row \<and> bur_row_digest row = d
    \<and> holds_bundle C i row (bur_bundle record) \<and> record = bundle_record_of (bur_bundle record) d"
proof -
  have "load_bundle_row C io (\<lambda>(_, row). bur_row_digest row = d) db = Ok (Some record)"
    using assms by (simp add: load_bundle_by_digest_def result_iff)
  from load_bundle_row_Ok [OF this] show ?thesis by auto
qed

section \<open>The state of a bank\<close>

definition generations_ok :: "('k::linorder, int \<times> string) btree_map \<Rightarrow> bool" where
  "generations_ok m \<longleftrightarrow> (\<forall>k g d. bm_get m k = Some (g, d) \<longrightarrow> 0 < g \<and> g < 2 ^ 63 \<and> valid_digest d)"

text \<open>Rows of the projections: sealed, allowed by the foreign keys, at their durable generation.\<close>

definition capability_projection :: "bank_codec \<Rightarrow> bank \<Rightarrow> string \<Rightarrow> capability_current_row \<Rightarrow> bool" where
  "capability_projection C db i row \<longleftrightarrow>
     (\<exists>current. cc_capability_id current = i \<and> capability_current_row_of current = Ok row
        \<and> validate_capability_state C current = Ok () \<and> capability_row_allowed i row db)
   \<and> bm_get (bk_capability_generations db) i = Some (ccr_generation row, ccr_state_digest row)"

definition bundle_projection ::
    "bank_codec \<Rightarrow> bank \<Rightarrow> string \<times> string \<times> string \<Rightarrow> bundle_current_row \<Rightarrow> bool" where
  "bundle_projection C db columns row \<longleftrightarrow>
     (\<exists>current. key_columns (ec_key current) = columns \<and> bundle_current_row_of C current = Ok row
        \<and> validate_evidence_state C current = Ok () \<and> bundle_row_allowed (ec_key current) row db)
   \<and> bm_get (bk_bundle_generations db) columns = Some (bcr_generation row, bcr_state_digest row)"

definition intact :: "bank_codec \<Rightarrow> bank \<Rightarrow> bool" where
  "intact C db \<longleftrightarrow>
     bk_schema_version db = 1
   \<and> (\<forall>columns row. bm_get (bk_capability_records db) columns = Some row \<longrightarrow>
        (\<exists>d. holds_capability C columns row d))
   \<and> (\<forall>i row. bm_get (bk_bundle_records db) i = Some row \<longrightarrow> (\<exists>b. holds_bundle C i row b))
   \<and> (\<forall>i j row row'. bm_get (bk_bundle_records db) i = Some row
        \<longrightarrow> bm_get (bk_bundle_records db) j = Some row' \<longrightarrow> bur_row_digest row = bur_row_digest row' \<longrightarrow> i = j)
   \<and> generations_ok (bk_capability_generations db) \<and> generations_ok (bk_bundle_generations db)
   \<and> (\<forall>i row. bm_get (bk_capability_current db) i = Some row \<longrightarrow> capability_projection C db i row)
   \<and> (\<forall>columns row. bm_get (bk_bundle_current db) columns = Some row \<longrightarrow>
        bundle_projection C db columns row)"

text \<open>Later states keep every record, and every generation with what it was given to or above it.\<close>

definition extends :: "('k::linorder, 'r) btree_map \<Rightarrow> ('k, 'r) btree_map \<Rightarrow> bool" where
  "extends m m' \<longleftrightarrow> (\<forall>k row. bm_get m k = Some row \<longrightarrow> bm_get m' k = Some row)"

definition grows :: "('k::linorder, int \<times> string) btree_map \<Rightarrow> ('k, int \<times> string) btree_map \<Rightarrow> bool" where
  "grows m m' \<longleftrightarrow> (\<forall>k g d. bm_get m k = Some (g, d) \<longrightarrow>
     (\<exists>g' d'. bm_get m' k = Some (g', d') \<and> g \<le> g' \<and> (g' = g \<longrightarrow> d' = d)))"

definition bank_later :: "bank \<Rightarrow> bank \<Rightarrow> bool" where
  "bank_later db db' \<longleftrightarrow>
     extends (bk_capability_records db) (bk_capability_records db')
   \<and> extends (bk_bundle_records db) (bk_bundle_records db')
   \<and> grows (bk_capability_generations db) (bk_capability_generations db')
   \<and> grows (bk_bundle_generations db) (bk_bundle_generations db')"

lemma extends_refl [simp]: "extends m m"
  by (simp add: extends_def)

lemma grows_refl [simp]: "grows m m"
  by (simp add: grows_def)

lemma bank_later_refl [simp]: "bank_later db db"
  by (simp add: bank_later_def)

lemma grows_trans: "grows m m' \<Longrightarrow> grows m' m'' \<Longrightarrow> grows m m''"
  unfolding grows_def
proof (intro allI impI)
  fix k g d
  assume 1: "\<forall>k g d. bm_get m k = Some (g, d) \<longrightarrow>
      (\<exists>g' d'. bm_get m' k = Some (g', d') \<and> g \<le> g' \<and> (g' = g \<longrightarrow> d' = d))"
    and 2: "\<forall>k g d. bm_get m' k = Some (g, d) \<longrightarrow>
      (\<exists>g' d'. bm_get m'' k = Some (g', d') \<and> g \<le> g' \<and> (g' = g \<longrightarrow> d' = d))"
    and "bm_get m k = Some (g, d)"
  then obtain g' d' where g': "bm_get m' k = Some (g', d')" "g \<le> g'" "g' = g \<longrightarrow> d' = d" by blast
  then obtain g'' d'' where "bm_get m'' k = Some (g'', d'')" "g' \<le> g''" "g'' = g' \<longrightarrow> d'' = d'"
    using 2 by blast
  then show "\<exists>g'' d''. bm_get m'' k = Some (g'', d'') \<and> g \<le> g'' \<and> (g'' = g \<longrightarrow> d'' = d)"
    using g' by (intro exI [of _ g''] exI [of _ d'']) auto
qed

lemma bank_later_trans: "bank_later db db' \<Longrightarrow> bank_later db' db'' \<Longrightarrow> bank_later db db''"
  unfolding bank_later_def by (auto intro: grows_trans simp: extends_def)

text \<open>A projection that changed is at a generation above any that was ever given to its key.\<close>

definition renewed ::
    "('k::linorder, 'r) btree_map \<Rightarrow> ('k, 'r) btree_map \<Rightarrow> ('k, int \<times> string) btree_map \<Rightarrow>
     ('k, int \<times> string) btree_map \<Rightarrow> ('r \<Rightarrow> int \<times> string) \<Rightarrow> bool" where
  "renewed rows rows' gens gens' binding \<longleftrightarrow>
     (\<forall>k. bm_get rows' k \<noteq> bm_get rows k \<longrightarrow>
        (\<exists>row. bm_get rows' k = Some row \<and> bm_get gens' k = Some (binding row)
           \<and> (\<forall>g d. bm_get gens k = Some (g, d) \<longrightarrow> g < fst (binding row))))"

definition projections_renewed :: "bank \<Rightarrow> bank \<Rightarrow> bool" where
  "projections_renewed db db' \<longleftrightarrow>
     renewed (bk_capability_current db) (bk_capability_current db')
       (bk_capability_generations db) (bk_capability_generations db')
       (\<lambda>row. (ccr_generation row, ccr_state_digest row))
   \<and> renewed (bk_bundle_current db) (bk_bundle_current db')
       (bk_bundle_generations db) (bk_bundle_generations db')
       (\<lambda>row. (bcr_generation row, bcr_state_digest row))"

lemma renewed_same [simp]: "renewed rows rows gens gens' binding"
  by (simp add: renewed_def)

lemma projections_renewed_refl [simp]: "projections_renewed db db"
  by (simp add: projections_renewed_def)

section \<open>Generations\<close>

definition binding_of :: "int \<times> string \<Rightarrow> durable_generation_binding" where
  "binding_of entry = \<lparr>dgb_generation = word_of_int (fst entry), dgb_state_digest = snd entry\<rparr>"

lemma binding_of_row_Ok:
  "binding_of_row field row = Ok found \<Longrightarrow> found = binding_of row \<and> 0 \<le> fst row"
  by (cases row) (auto simp: binding_of_row_def result_iff binding_of_def)

lemma load_capability_generation_Ok:
  "load_capability_generation io i db = Ok found \<Longrightarrow>
     found = map_option binding_of (bm_get (bk_capability_generations db) i)"
  by (auto simp: load_capability_generation_def result_iff split: option.splits dest: binding_of_row_Ok)

lemma load_bundle_generation_Ok:
  "load_bundle_generation io key db = Ok found \<Longrightarrow>
     found = map_option binding_of (bm_get (bk_bundle_generations db) (key_columns key))"
  by (auto simp: load_bundle_generation_def result_iff split: option.splits dest: binding_of_row_Ok)

text \<open>The next binding of a key never goes below the one it has.\<close>

definition follows :: "(int \<times> string) option \<Rightarrow> cas_token \<Rightarrow> bool" where
  "follows entry token \<longleftrightarrow> (\<forall>g d. entry = Some (g, d) \<longrightarrow>
     g \<le> uint (ct_generation token) \<and> (g = uint (ct_generation token) \<longrightarrow> d = ct_state_digest token))"

lemma validate_generation_transition_Ok:
  assumes "validate_generation_transition key token (map_option binding_of entry) = Ok ()"
    and "\<forall>g d. entry = Some (g, d) \<longrightarrow> 0 < g \<and> g < 2 ^ 63"
  shows "follows entry token"
  using assms
  by (auto simp: validate_generation_transition_def result_iff follows_def binding_of_def
      word_less_def split: option.splits)

lemma binds_entry:
  assumes "binds (map_option binding_of entry) token"
    and "\<forall>g d. entry = Some (g, d) \<longrightarrow> 0 < g \<and> g < 2 ^ 63"
  shows "entry = Some (uint (ct_generation token), ct_state_digest token)"
proof -
  obtain g d where entry: "entry = Some (g, d)"
    using assms(1) by (cases entry) (auto simp: binds_def)
  then have "word_of_int g = ct_generation token" "d = ct_state_digest token" "0 < g" "g < 2 ^ 63"
    using assms by (auto simp: binds_def binding_of_def)
  then show ?thesis using entry uint_word_of_int [of g] by simp
qed

lemma insert_entry:
  assumes "follows (bm_get m k) token" and "generations_ok m" and "valid_digest (ct_state_digest token)"
    and "0 < uint (ct_generation token)" "uint (ct_generation token) < 2 ^ 63"
  shows "grows m (bm_insert k (uint (ct_generation token), ct_state_digest token) m)
    \<and> generations_ok (bm_insert k (uint (ct_generation token), ct_state_digest token) m)"
  using assms by (auto simp: grows_def generations_ok_def follows_def)

text \<open>Persisting a generation inserts it, or finds it already there.\<close>

lemma persist_capability_generation_Ok:
  assumes "persist_capability_generation C io current db = Ok db'"
    and ok: "generations_ok (bk_capability_generations db)"
  defines "token \<equiv> cc_token current"
  shows "validate_capability_state C current = Ok ()
    \<and> follows (bm_get (bk_capability_generations db) (cc_capability_id current)) token
    \<and> db' = db\<lparr>bk_capability_generations := bm_insert (cc_capability_id current)
        (uint (ct_generation token), ct_state_digest token) (bk_capability_generations db)\<rparr>"
proof -
  let ?entry = "bm_get (bk_capability_generations db) (cc_capability_id current)"
  have range: "\<forall>g d. ?entry = Some (g, d) \<longrightarrow> 0 < g \<and> g < 2 ^ 63"
    using ok unfolding generations_ok_def by blast
  obtain durable where d: "load_capability_generation io (cc_capability_id current) db = Ok durable"
    and v: "validate_capability_state C current = Ok ()"
      "validate_generation_transition (''capability:'' @ cc_capability_id current) token durable = Ok ()"
    and w: "binds durable token \<and> db' = db
      \<or> db' = db\<lparr>bk_capability_generations := bm_insert (cc_capability_id current)
        (uint (ct_generation token), ct_state_digest token) (bk_capability_generations db)\<rparr>"
    using assms(1) by (auto simp: persist_capability_generation_def result_iff token_def split: if_splits)
  note durable = load_capability_generation_Ok [OF d]
  have "follows ?entry token"
    using validate_generation_transition_Ok [OF v(2) [unfolded durable] range] .
  moreover have "binds durable token \<Longrightarrow> ?entry = Some (uint (ct_generation token), ct_state_digest token)"
    using binds_entry [OF _ range] by (simp add: durable)
  ultimately show ?thesis using v(1) w by (auto simp: bm_insert_same)
qed

lemma persist_bundle_generation_Ok:
  assumes "persist_bundle_generation C io current db = Ok db'"
    and ok: "generations_ok (bk_bundle_generations db)"
  defines "token \<equiv> ec_token current" and "columns \<equiv> key_columns (ec_key current)"
  shows "validate_evidence_state C current = Ok ()
    \<and> follows (bm_get (bk_bundle_generations db) columns) token
    \<and> db' = db\<lparr>bk_bundle_generations := bm_insert columns
        (uint (ct_generation token), ct_state_digest token) (bk_bundle_generations db)\<rparr>"
proof -
  let ?entry = "bm_get (bk_bundle_generations db) columns"
  have range: "\<forall>g d. ?entry = Some (g, d) \<longrightarrow> 0 < g \<and> g < 2 ^ 63"
    using ok unfolding generations_ok_def by blast
  obtain durable where d: "load_bundle_generation io (ec_key current) db = Ok durable"
    and v: "validate_evidence_state C current = Ok ()"
      "validate_generation_transition (''bundle:'' @ evidence_key_label (ec_key current)) token durable = Ok ()"
    and w: "binds durable token \<and> db' = db
      \<or> db' = db\<lparr>bk_bundle_generations := bm_insert columns
        (uint (ct_generation token), ct_state_digest token) (bk_bundle_generations db)\<rparr>"
    using assms(1) by (auto simp: persist_bundle_generation_def result_iff token_def columns_def split: if_splits)
  note durable = load_bundle_generation_Ok [OF d, folded columns_def]
  have "follows ?entry token"
    using validate_generation_transition_Ok [OF v(2) [unfolded durable] range] .
  moreover have "binds durable token \<Longrightarrow> ?entry = Some (uint (ct_generation token), ct_state_digest token)"
    using binds_entry [OF _ range] by (simp add: durable)
  ultimately show ?thesis using v(1) w by (auto simp: bm_insert_same)
qed

section \<open>Single writes\<close>

lemma intactD:
  assumes "intact C db"
  shows "bk_schema_version db = 1"
    and "bm_get (bk_capability_records db) columns = Some r \<Longrightarrow> \<exists>d. holds_capability C columns r d"
    and "bm_get (bk_bundle_records db) i = Some s \<Longrightarrow> \<exists>b. holds_bundle C i s b"
    and "bm_get (bk_bundle_records db) i = Some s \<Longrightarrow> bm_get (bk_bundle_records db) j = Some s' \<Longrightarrow>
      bur_row_digest s = bur_row_digest s' \<Longrightarrow> i = j"
    and "generations_ok (bk_capability_generations db)" "generations_ok (bk_bundle_generations db)"
    and "bm_get (bk_capability_current db) i = Some t \<Longrightarrow> capability_projection C db i t"
    and "bm_get (bk_bundle_current db) k = Some u \<Longrightarrow> bundle_projection C db k u"
  using assms unfolding intact_def by blast+

lemma intactI:
  assumes "bk_schema_version db = 1"
    and "\<And>columns r. bm_get (bk_capability_records db) columns = Some r \<Longrightarrow> \<exists>d. holds_capability C columns r d"
    and "\<And>i s. bm_get (bk_bundle_records db) i = Some s \<Longrightarrow> \<exists>b. holds_bundle C i s b"
    and "\<And>i j s s'. bm_get (bk_bundle_records db) i = Some s \<Longrightarrow> bm_get (bk_bundle_records db) j = Some s' \<Longrightarrow>
      bur_row_digest s = bur_row_digest s' \<Longrightarrow> i = j"
    and "generations_ok (bk_capability_generations db)" "generations_ok (bk_bundle_generations db)"
    and "\<And>i t. bm_get (bk_capability_current db) i = Some t \<Longrightarrow> capability_projection C db i t"
    and "\<And>k u. bm_get (bk_bundle_current db) k = Some u \<Longrightarrow> bundle_projection C db k u"
  shows "intact C db"
  unfolding intact_def using assms by blast

lemma holds_capability_columns: "holds_capability C columns row d \<Longrightarrow> 0 \<le> snd columns"
  by (auto simp: holds_capability_def)

lemma add_capability_record:
  assumes db: "intact C db" and new: "bm_get (bk_capability_records db) columns = None"
    and row: "holds_capability C columns row d"
  shows "intact C (db\<lparr>bk_capability_records := bm_insert columns row (bk_capability_records db)\<rparr>)"
    and "bank_later db (db\<lparr>bk_capability_records := bm_insert columns row (bk_capability_records db)\<rparr>)"
proof -
  let ?db = "db\<lparr>bk_capability_records := bm_insert columns row (bk_capability_records db)\<rparr>"
  have allowed: "capability_row_allowed i r db \<Longrightarrow> capability_row_allowed i r ?db" for i r
    using new by (auto simp: capability_row_allowed_def)
  have capability: "capability_projection C db i r \<Longrightarrow> capability_projection C ?db i r" for i r
    using allowed by (auto simp: capability_projection_def)
  have bundles: "bundle_projection C db k r \<Longrightarrow> bundle_projection C ?db k r" for k r
    by (simp add: bundle_projection_def bundle_row_allowed_def)
  show "intact C ?db"
  proof (rule intactI)
    show "\<exists>d. holds_capability C k r d" if "bm_get (bk_capability_records ?db) k = Some r" for k r
      using that row intactD(2) [OF db] by (cases "k = columns") auto
  qed (use intactD [OF db] capability bundles in simp_all)
  show "bank_later db ?db"
    using new unfolding bank_later_def extends_def by auto
qed

lemma add_bundle_record:
  assumes db: "intact C db" and new: "bm_get (bk_bundle_records db) i = None"
    and row: "holds_bundle C i row b"
    and digest: "\<forall>j r. bm_get (bk_bundle_records db) j = Some r \<longrightarrow> bur_row_digest r \<noteq> bur_row_digest row"
  shows "intact C (db\<lparr>bk_bundle_records := bm_insert i row (bk_bundle_records db)\<rparr>)"
    and "bank_later db (db\<lparr>bk_bundle_records := bm_insert i row (bk_bundle_records db)\<rparr>)"
proof -
  let ?db = "db\<lparr>bk_bundle_records := bm_insert i row (bk_bundle_records db)\<rparr>"
  have allowed: "bundle_row_allowed k r db \<Longrightarrow> bundle_row_allowed k r ?db" for k r
    using new by (auto simp: bundle_row_allowed_def)
  have bundles: "bundle_projection C db k r \<Longrightarrow> bundle_projection C ?db k r" for k r
    using allowed unfolding bundle_projection_def by fastforce
  have capability: "capability_projection C db j r \<Longrightarrow> capability_projection C ?db j r" for j r
    by (simp add: capability_projection_def capability_row_allowed_def)
  show "intact C ?db"
  proof (rule intactI)
    show "\<exists>b. holds_bundle C j r b" if "bm_get (bk_bundle_records ?db) j = Some r" for j r
      using that row intactD(3) [OF db] by (cases "j = i") auto
    show "j = k" if "bm_get (bk_bundle_records ?db) j = Some r" "bm_get (bk_bundle_records ?db) k = Some r'"
        "bur_row_digest r = bur_row_digest r'" for j k r r'
      using that digest intactD(4) [OF db, of j r k r'] by (auto split: if_splits)
  qed (use intactD [OF db] capability bundles in simp_all)
  show "bank_later db ?db"
    using new unfolding bank_later_def extends_def by auto
qed

text \<open>A projection row written together with its generation.\<close>

definition with_capability_current :: "capability_current \<Rightarrow> capability_current_row \<Rightarrow> bank \<Rightarrow> bank" where
  "with_capability_current current row db =
    db\<lparr>bk_capability_current := bm_insert (cc_capability_id current) row (bk_capability_current db),
       bk_capability_generations := bm_insert (cc_capability_id current)
         (uint (ct_generation (cc_token current)), ct_state_digest (cc_token current))
         (bk_capability_generations db)\<rparr>"

definition with_bundle_current :: "evidence_current \<Rightarrow> bundle_current_row \<Rightarrow> bank \<Rightarrow> bank" where
  "with_bundle_current current row db =
    db\<lparr>bk_bundle_current := bm_insert (key_columns (ec_key current)) row (bk_bundle_current db),
       bk_bundle_generations := bm_insert (key_columns (ec_key current))
         (uint (ct_generation (ec_token current)), ct_state_digest (ec_token current))
         (bk_bundle_generations db)\<rparr>"

lemma capability_current_row_Ok:
  "capability_current_row_of current = Ok row \<Longrightarrow>
     ccr_generation row = uint (ct_generation (cc_token current))
   \<and> ccr_state_digest row = ct_state_digest (cc_token current)
   \<and> ccr_revision row = uint (cc_revision current) \<and> ccr_record_digest row = cc_record_digest current
   \<and> uint (cc_revision current) < 2 ^ 63 \<and> uint (ct_generation (cc_token current)) < 2 ^ 63"
  by (auto simp: capability_current_row_of_def result_iff)

lemma bundle_current_row_Ok:
  "bundle_current_row_of C current = Ok row \<Longrightarrow>
     bcr_generation row = uint (ct_generation (ec_token current))
   \<and> bcr_state_digest row = ct_state_digest (ec_token current)
   \<and> bcr_bundle_id row = ec_bundle_id current \<and> bcr_record_digest row = ec_record_digest current
   \<and> bkc_freshness C (ec_freshness current) = Inr (bcr_freshness_json row)
   \<and> uint (ct_generation (ec_token current)) < 2 ^ 63"
  by (auto simp: bundle_current_row_of_def result_iff)

lemma set_capability_current:
  assumes db: "intact C db" and row: "capability_current_row_of current = Ok row"
    and allowed: "capability_row_allowed (cc_capability_id current) row db"
    and state: "validate_capability_state C current = Ok ()"
    and follows: "follows (bm_get (bk_capability_generations db) (cc_capability_id current)) (cc_token current)"
  shows "intact C (with_capability_current current row db)"
    and "bank_later db (with_capability_current current row db)"
proof -
  let ?db = "with_capability_current current row db"
  have token: "0 < uint (ct_generation (cc_token current))" "uint (ct_generation (cc_token current)) < 2 ^ 63"
      "valid_digest (ct_state_digest (cc_token current))"
    using state by (auto simp: validate_capability_state_def result_iff)
  note gens = insert_entry [OF follows intactD(5) [OF db] token(3,1,2)]
  have same: "capability_row_allowed i r ?db \<longleftrightarrow> capability_row_allowed i r db" for i r
    by (simp add: capability_row_allowed_def with_capability_current_def)
  have this_row: "capability_projection C ?db (cc_capability_id current) row"
    unfolding capability_projection_def same
    using row allowed state capability_current_row_Ok [OF row] by (auto simp: with_capability_current_def)
  have other_row: "capability_projection C ?db i r"
    if "i \<noteq> cc_capability_id current" "capability_projection C db i r" for i r
    using that unfolding capability_projection_def same by (simp add: with_capability_current_def)
  have bundles: "bundle_projection C db k r \<Longrightarrow> bundle_projection C ?db k r" for k r
    by (simp add: bundle_projection_def bundle_row_allowed_def with_capability_current_def)
  show "intact C ?db"
  proof (rule intactI)
    show "capability_projection C ?db i r" if "bm_get (bk_capability_current ?db) i = Some r" for i r
      using that this_row other_row intactD(7) [OF db]
      by (cases "i = cc_capability_id current") (auto simp: with_capability_current_def)
  qed (use intactD [OF db] gens bundles in \<open>simp_all add: with_capability_current_def\<close>)
  show "bank_later db ?db"
    using gens by (simp add: bank_later_def with_capability_current_def)
qed

lemma set_bundle_current:
  assumes db: "intact C db" and row: "bundle_current_row_of C current = Ok row"
    and allowed: "bundle_row_allowed (ec_key current) row db"
    and state: "validate_evidence_state C current = Ok ()"
    and follows: "follows (bm_get (bk_bundle_generations db) (key_columns (ec_key current))) (ec_token current)"
  shows "intact C (with_bundle_current current row db)"
    and "bank_later db (with_bundle_current current row db)"
proof -
  let ?db = "with_bundle_current current row db" and ?columns = "key_columns (ec_key current)"
  have token: "0 < uint (ct_generation (ec_token current))" "uint (ct_generation (ec_token current)) < 2 ^ 63"
      "valid_digest (ct_state_digest (ec_token current))"
    using state by (auto simp: validate_evidence_state_def result_iff)
  note gens = insert_entry [OF follows intactD(6) [OF db] token(3,1,2)]
  have same: "bundle_row_allowed k r ?db \<longleftrightarrow> bundle_row_allowed k r db" for k r
    by (simp add: bundle_row_allowed_def with_bundle_current_def)
  have this_row: "bundle_projection C ?db ?columns row"
    unfolding bundle_projection_def same
    using row allowed state bundle_current_row_Ok [OF row] by (auto simp: with_bundle_current_def)
  have other_row: "bundle_projection C ?db k r" if "k \<noteq> ?columns" "bundle_projection C db k r" for k r
    using that unfolding bundle_projection_def same by (simp add: with_bundle_current_def)
  have capability: "capability_projection C db i r \<Longrightarrow> capability_projection C ?db i r" for i r
    by (simp add: capability_projection_def capability_row_allowed_def with_bundle_current_def)
  show "intact C ?db"
  proof (rule intactI)
    show "bundle_projection C ?db k r" if "bm_get (bk_bundle_current ?db) k = Some r" for k r
      using that this_row other_row intactD(8) [OF db]
      by (cases "k = ?columns") (auto simp: with_bundle_current_def)
  qed (use intactD [OF db] gens capability in \<open>simp_all add: with_bundle_current_def\<close>)
  show "bank_later db ?db"
    using gens by (simp add: bank_later_def with_bundle_current_def)
qed

section \<open>Guarded writes\<close>

lemma write_capability_current_Ok:
  assumes "write_capability_current io current db = Ok db'
    \<or> write_capability_current_cas io current expectation db = Ok db'"
  obtains row where "capability_current_row_of current = Ok row"
    "capability_row_allowed (cc_capability_id current) row db"
    "db' = db\<lparr>bk_capability_current := bm_insert (cc_capability_id current) row (bk_capability_current db)\<rparr>"
  using assms
  by (cases expectation)
    (auto simp: write_capability_current_def write_capability_current_cas_def result_iff Let_def)

lemma write_bundle_current_Ok:
  assumes "write_bundle_current C io current db = Ok db'
    \<or> write_bundle_current_cas C io current expectation db = Ok db'"
  obtains row where "bundle_current_row_of C current = Ok row"
    "bundle_row_allowed (ec_key current) row db"
    "db' = db\<lparr>bk_bundle_current := bm_insert (key_columns (ec_key current)) row (bk_bundle_current db)\<rparr>"
  using assms
  by (cases expectation)
    (auto simp: write_bundle_current_def write_bundle_current_cas_def result_iff Let_def)

text \<open>A projection is written and its generation persisted.\<close>

lemma capability_written:
  assumes db: "intact C db"
    and written: "write_capability_current io current db = Ok db1
      \<or> write_capability_current_cas io current expectation db = Ok db1"
    and persist: "persist_capability_generation C io current db1 = Ok db2"
  obtains row where "db2 = with_capability_current current row db"
    "capability_current_row_of current = Ok row"
    "intact C db2" "bank_later db db2"
proof -
  obtain row where row: "capability_current_row_of current = Ok row"
      "capability_row_allowed (cc_capability_id current) row db"
      "db1 = db\<lparr>bk_capability_current := bm_insert (cc_capability_id current) row (bk_capability_current db)\<rparr>"
    using written by (rule write_capability_current_Ok)
  have "generations_ok (bk_capability_generations db1)" using intactD(5) [OF db] by (simp add: row(3))
  note p = persist_capability_generation_Ok [OF persist this]
  then have db2: "db2 = with_capability_current current row db"
    by (simp add: with_capability_current_def row(3))
  have "follows (bm_get (bk_capability_generations db) (cc_capability_id current)) (cc_token current)"
      "validate_capability_state C current = Ok ()"
    using p by (simp_all add: row(3))
  from that [OF db2 row(1)] set_capability_current [OF db row(1,2) this(2,1)]
  show ?thesis unfolding db2 by blast
qed

lemma bundle_written:
  assumes db: "intact C db"
    and written: "write_bundle_current C io current db = Ok db1
      \<or> write_bundle_current_cas C io current expectation db = Ok db1"
    and persist: "persist_bundle_generation C io current db1 = Ok db2"
  obtains row where "db2 = with_bundle_current current row db" "bundle_current_row_of C current = Ok row"
    "intact C db2" "bank_later db db2"
proof -
  obtain row where row: "bundle_current_row_of C current = Ok row"
      "bundle_row_allowed (ec_key current) row db"
      "db1 = db\<lparr>bk_bundle_current := bm_insert (key_columns (ec_key current)) row (bk_bundle_current db)\<rparr>"
    using written by (rule write_bundle_current_Ok)
  have "generations_ok (bk_bundle_generations db1)" using intactD(6) [OF db] by (simp add: row(3))
  note p = persist_bundle_generation_Ok [OF persist this]
  then have db2: "db2 = with_bundle_current current row db"
    by (simp add: with_bundle_current_def row(3))
  have "follows (bm_get (bk_bundle_generations db) (key_columns (ec_key current))) (ec_token current)"
      "validate_evidence_state C current = Ok ()"
    using p by (simp_all add: row(3))
  from that [OF db2 row(1)] set_bundle_current [OF db row(1,2) this(2,1)]
  show ?thesis unfolding db2 by blast
qed

text \<open>A generation from the allocator is above every generation of its key.\<close>

lemma next_generation:
  assumes "increment_generation (map_option dgb_generation (map_option binding_of entry)) = Ok g"
    and "\<forall>h d. entry = Some (h, d) \<longrightarrow> 0 < h \<and> h < 2 ^ 63"
  shows "\<forall>h d. entry = Some (h, d) \<longrightarrow> uint g = h + 1"
  using increment_generation_Ok [OF assms(1)] assms(2) by (auto simp: binding_of_def)

lemma next_capability_generation_Ok:
  assumes "next_capability_generation io i db = Ok g" and "generations_ok (bk_capability_generations db)"
  shows "\<forall>h d. bm_get (bk_capability_generations db) i = Some (h, d) \<longrightarrow> uint g = h + 1"
proof -
  obtain found where "load_capability_generation io i db = Ok found"
      "increment_generation (map_option dgb_generation found) = Ok g"
    using assms(1) by (auto simp: next_capability_generation_def result_iff)
  then show ?thesis
    using assms(2) load_capability_generation_Ok next_generation unfolding generations_ok_def by blast
qed

lemma next_bundle_generation_Ok:
  assumes "next_bundle_generation io key db = Ok g" and "generations_ok (bk_bundle_generations db)"
  shows "\<forall>h d. bm_get (bk_bundle_generations db) (key_columns key) = Some (h, d) \<longrightarrow> uint g = h + 1"
proof -
  obtain found where "load_bundle_generation io key db = Ok found"
      "increment_generation (map_option dgb_generation found) = Ok g"
    using assms(1) by (auto simp: next_bundle_generation_def result_iff)
  then show ?thesis
    using assms(2) load_bundle_generation_Ok next_generation unfolding generations_ok_def by blast
qed

lemma with_capability_current_renewed:
  assumes row: "capability_current_row_of current = Ok row"
    and rise: "\<forall>h d. bm_get (bk_capability_generations db) (cc_capability_id current) = Some (h, d) \<longrightarrow>
      uint (ct_generation (cc_token current)) = h + 1"
  shows "projections_renewed db (with_capability_current current row db)"
  using rise capability_current_row_Ok [OF row]
  unfolding projections_renewed_def renewed_def by (auto simp: with_capability_current_def)

lemma with_bundle_current_renewed:
  assumes row: "bundle_current_row_of C current = Ok row"
    and rise: "\<forall>h d. bm_get (bk_bundle_generations db) (key_columns (ec_key current)) = Some (h, d) \<longrightarrow>
      uint (ct_generation (ec_token current)) = h + 1"
  shows "projections_renewed db (with_bundle_current current row db)"
  using rise bundle_current_row_Ok [OF row]
  unfolding projections_renewed_def renewed_def
  by (auto simp: with_bundle_current_def simp del: split_paired_All)

section \<open>Operations\<close>

definition bank_advances :: "bank_codec \<Rightarrow> bank \<Rightarrow> bank \<Rightarrow> bool" where
  "bank_advances C db db' \<longleftrightarrow> intact C db' \<and> bank_later db db' \<and> projections_renewed db db'"

lemma bank_advances_refl: "intact C db \<Longrightarrow> bank_advances C db db"
  by (simp add: bank_advances_def)

lemma transaction_cases:
  assumes "transaction io operation body db = (r, db')"
  obtains (committed) x where "r = Ok x" "body db = Ok (x, db')" "bk_schema_version db = 1"
    | (aborted) "db' = db" "\<nexists>x. r = Ok x"
  using assms
  by (auto simp: transaction_def bank_open_connection_def result_iff split: result.splits prod.splits)

lemma publish_capability_tx_Ok:
  assumes db: "intact C db" and run: "publish_capability_tx C io d db = Ok (outcome, db')"
  shows "bank_advances C db db' \<and> bk_capability_current db' = bk_capability_current db
    \<and> bk_bundle_current db' = bk_bundle_current db"
proof -
  let ?i = "cd_capability_id d" and ?r = "cd_revision d"
  obtain canonical found where canonical: "capability_bytes (bkc_rerun C) d = Ok canonical"
      and found: "load_capability C io ?i ?r db = Ok found"
    using run by (auto simp: publish_capability_tx_def Let_def result_iff)
  show ?thesis
  proof (cases found)
    case None
    let ?row = "\<lparr>car_row_digest = bkc_sha256 C canonical, car_row_json = canonical\<rparr>"
    have db': "db' = db\<lparr>bk_capability_records := bm_insert (?i, uint ?r) ?row (bk_capability_records db)\<rparr>"
        and range: "uint ?r < 2 ^ 63"
      using run None canonical found by (auto simp: publish_capability_tx_def Let_def result_iff)
    have new: "bm_get (bk_capability_records db) (?i, uint ?r) = None"
      using load_capability_Ok [OF found] None by simp
    have "holds_capability C (?i, uint ?r) ?row d"
      using canonical range by (simp add: holds_capability_def)
    from add_capability_record [OF db new this] show ?thesis
      by (simp add: bank_advances_def db' projections_renewed_def)
  next
    case (Some existing)
    then have "db' = db"
      using run canonical found by (auto simp: publish_capability_tx_def Let_def result_iff split: if_splits)
    then show ?thesis using db by (simp add: bank_advances_refl)
  qed
qed

lemma publish_bundle_tx_Ok:
  assumes db: "intact C db" and run: "publish_bundle_tx C io b db = Ok (outcome, db')"
  shows "bank_advances C db db' \<and> bk_bundle_current db' = bk_bundle_current db
    \<and> bk_bundle_generations db' = bk_bundle_generations db
    \<and> bk_capability_current db' = bk_capability_current db"
proof -
  let ?i = "vb_bundle_id b"
  obtain canonical found where canonical: "bundle_bytes C b = Ok canonical"
      and found: "load_bundle_by_id C io ?i db = Ok found"
    using run by (auto simp: publish_bundle_tx_def Let_def result_iff)
  show ?thesis
  proof (cases found)
    case None
    let ?row = "\<lparr>bur_row_digest = bkc_sha256 C canonical, bur_row_key = key_columns (bundle_key b),
      bur_row_json = canonical\<rparr>"
    have db': "db' = db\<lparr>bk_bundle_records := bm_insert ?i ?row (bk_bundle_records db)\<rparr>"
        and digest: "\<forall>j r. bm_get (bk_bundle_records db) j = Some r \<longrightarrow> bur_row_digest r \<noteq> bur_row_digest ?row"
      using run None canonical found
      by (auto simp: publish_bundle_tx_def Let_def result_iff list_ex_iff simp flip: bm_entries_iff)
    have new: "bm_get (bk_bundle_records db) ?i = None"
      using load_bundle_by_id_Ok [OF found] None by simp
    have "holds_bundle C ?i ?row b" using canonical by (simp add: holds_bundle_def)
    from add_bundle_record [OF db new this digest] show ?thesis
      by (simp add: bank_advances_def db' projections_renewed_def)
  next
    case (Some existing)
    then have "db' = db"
      using run canonical found by (auto simp: publish_bundle_tx_def Let_def result_iff split: if_splits)
    then show ?thesis using db by (simp add: bank_advances_refl)
  qed
qed

lemma advances_trans_publish:
  assumes "bank_advances C db db1" and "bank_advances C db1 db2"
    and "bk_bundle_current db1 = bk_bundle_current db" "bk_bundle_generations db1 = bk_bundle_generations db"
    and "bk_capability_current db2 = bk_capability_current db"
  shows "bank_advances C db db2"
  using assms bank_later_trans by (auto simp: bank_advances_def projections_renewed_def)

lemma new_evidence_current_Ok:
  "new_evidence_current C key i digest freshness g = Ok current \<Longrightarrow>
     ec_key current = key \<and> ec_bundle_id current = i \<and> ec_record_digest current = digest
   \<and> ec_freshness current = freshness \<and> ct_generation (ec_token current) = g"
  by (auto simp: new_evidence_current_def result_iff Let_def)

lemma new_capability_current_Ok:
  "new_capability_current C i r digest g = Ok current \<Longrightarrow>
     cc_capability_id current = i \<and> cc_revision current = r \<and> cc_record_digest current = digest
   \<and> ct_generation (cc_token current) = g"
  by (auto simp: new_capability_current_def result_iff Let_def)

text \<open>A fresh projection: allocated, written under its guard, persisted.\<close>

lemma fresh_bundle_current:
  assumes db: "intact C db" and g: "next_bundle_generation io (ec_key fresh) db = Ok (ct_generation (ec_token fresh))"
    and written: "write_bundle_current_cas C io fresh expectation db = Ok db1"
    and persist: "persist_bundle_generation C io fresh db1 = Ok db2"
  shows "bank_advances C db db2 \<and> bk_capability_current db2 = bk_capability_current db"
    and "\<exists>row. bundle_current_row_of C fresh = Ok row \<and> db2 = with_bundle_current fresh row db"
proof -
  obtain row where row: "db2 = with_bundle_current fresh row db" "bundle_current_row_of C fresh = Ok row"
      "intact C db2" "bank_later db db2"
    using bundle_written [OF db disjI2 [OF written] persist] by blast
  have "projections_renewed db db2"
    unfolding row(1)
    using with_bundle_current_renewed [OF row(2) next_bundle_generation_Ok [OF g intactD(6) [OF db]]] .
  then show "bank_advances C db db2 \<and> bk_capability_current db2 = bk_capability_current db"
    using row(3,4) by (simp add: bank_advances_def row(1) with_bundle_current_def)
  show "\<exists>row. bundle_current_row_of C fresh = Ok row \<and> db2 = with_bundle_current fresh row db"
    using row by blast
qed

lemma fresh_capability_current:
  assumes db: "intact C db"
    and g: "next_capability_generation io (cc_capability_id fresh) db = Ok (ct_generation (cc_token fresh))"
    and written: "write_capability_current_cas io fresh expectation db = Ok db1"
    and persist: "persist_capability_generation C io fresh db1 = Ok db2"
  shows "bank_advances C db db2"
proof -
  obtain row where row: "db2 = with_capability_current fresh row db" "capability_current_row_of fresh = Ok row"
      "intact C db2" "bank_later db db2"
    using capability_written [OF db disjI2 [OF written] persist] by blast
  have "projections_renewed db db2"
    unfolding row(1)
    using with_capability_current_renewed [OF row(2) next_capability_generation_Ok [OF g intactD(5) [OF db]]] .
  then show ?thesis using row(3,4) by (simp add: bank_advances_def)
qed

lemma apply_bundle_cas_Ok:
  assumes db: "intact C db" and run: "apply_bundle_cas C io record expectation freshness db = Ok (outcome, db')"
  shows "bank_advances C db db' \<and> bk_capability_current db' = bk_capability_current db"
proof (cases "db' = db")
  case True
  then show ?thesis using db by (simp add: bank_advances_refl)
next
  case False
  then obtain g fresh db1 where
      g: "next_bundle_generation io (bundle_key (bur_bundle record)) db = Ok g"
    and fresh: "new_evidence_current C (bundle_key (bur_bundle record)) (vb_bundle_id (bur_bundle record))
        (bur_digest record) freshness g = Ok fresh"
    and written: "write_bundle_current_cas C io fresh expectation db = Ok db1"
    and persist: "persist_bundle_generation C io fresh db1 = Ok db'"
    using run by (auto simp: apply_bundle_cas_def Let_def result_iff split: if_splits)
  show ?thesis
    using fresh_bundle_current(1) [OF db _ written persist] g new_evidence_current_Ok [OF fresh] by simp
qed

lemma swap_capability_current_advances:
  assumes db: "intact C db"
    and run: "swap_capability_current C io i r digest expectation db = (result, db')"
  shows "bank_advances C db db'"
  using run unfolding swap_capability_current_def Let_def
proof (cases rule: transaction_cases)
  case (committed outcome)
  show ?thesis
  proof (cases "db' = db")
    case True
    then show ?thesis using db by (simp add: bank_advances_refl)
  next
    case False
    then obtain g fresh db1 where g: "next_capability_generation io i db = Ok g"
      and fresh: "new_capability_current C i r digest g = Ok fresh"
      and written: "write_capability_current_cas io fresh expectation db = Ok db1"
      and persist: "persist_capability_generation C io fresh db1 = Ok db'"
      using committed(2) by (auto simp: result_iff split: if_splits)
    show ?thesis
      using fresh_capability_current [OF db _ written persist] g new_capability_current_Ok [OF fresh] by simp
  qed
qed (simp add: bank_advances_refl db)

lemma mark_stale_cases:
  assumes run: "mark_stale C io key expected causes db = (result, db')"
  obtains (same) "db' = db" "\<nexists>fresh. result = Ok (CasApplied fresh)"
  | (applied) current g fresh db1 where "result = Ok (CasApplied fresh)"
      "load_bundle_current C io key db = Ok (Some current)" "ec_token current = expected" "causes \<noteq> {}"
      "next_bundle_generation io key db = Ok g"
      "new_evidence_current C key (ec_bundle_id current) (ec_record_digest current)
        (FreshStale (merged_causes (ec_freshness current) causes)) g = Ok fresh"
      "write_bundle_current_cas C io fresh (ExpectToken expected) db = Ok db1"
      "persist_bundle_generation C io fresh db1 = Ok db'"
proof (cases "causes = {}")
  case True
  then show ?thesis using run same by (auto simp: mark_stale_def)
next
  case False
  then have "transaction io ''begin stale transition'' (\<lambda>db.
       and_then (load_bundle_current C io key db) (\<lambda>found.
       case found of
         None \<Rightarrow> bank_commit io ''commit missing stale conflict'' (CasConflict None) db
       | Some current \<Rightarrow>
           (let merged = merged_causes (ec_freshness current) causes in
            if ec_token current \<noteq> expected
            then bank_commit io ''commit stale CAS conflict'' (CasConflict (Some current)) db
            else if ec_freshness current = FreshStale merged
            then bank_commit io ''commit unchanged stale transition'' (CasUnchanged current) db
            else
              and_then (next_bundle_generation io key db) (\<lambda>generation.
              and_then (new_evidence_current C key (ec_bundle_id current) (ec_record_digest current)
                (FreshStale merged) generation) (\<lambda>fresh.
              and_then (write_bundle_current_cas C io fresh (ExpectToken expected) db) (\<lambda>db1.
              and_then (persist_bundle_generation C io fresh db1) (\<lambda>db2.
              bank_commit io ''commit stale transition'' (CasApplied fresh) db2))))))) db = (result, db')"
    using run by (simp add: mark_stale_def)
  then show ?thesis
  proof (cases rule: transaction_cases)
    case (committed outcome)
    then obtain found where found: "load_bundle_current C io key db = Ok found"
      by (auto simp: result_iff)
    show ?thesis
    proof (cases found)
      case None
      then show ?thesis using committed found same by (auto simp: result_iff)
    next
      case (Some current)
      then show ?thesis
        using committed found False same applied by (auto simp: result_iff Let_def split: if_splits)
    qed
  next
    case aborted
    then show ?thesis using same by blast
  qed
qed

lemma mark_stale_advances:
  assumes db: "intact C db" and run: "mark_stale C io key expected causes db = (result, db')"
  shows "bank_advances C db db'"
  using run
proof (cases rule: mark_stale_cases)
  case same
  then show ?thesis using db by (simp add: bank_advances_refl)
next
  case (applied current g fresh db1)
  then show ?thesis
    using fresh_bundle_current(1) [OF db _ applied(7,8)] new_evidence_current_Ok [OF applied(6)] by simp
qed

text \<open>A rebuild clears the projections and writes the selected ones; generations stay.\<close>

lemma clear_projections:
  assumes db: "intact C db"
  defines "cleared \<equiv> db\<lparr>bk_capability_current := bm_empty, bk_bundle_current := bm_empty\<rparr>"
  shows "intact C cleared \<and> bank_later db cleared"
proof
  show "intact C cleared"
    by (rule intactI) (use intactD [OF db] in \<open>simp_all add: cleared_def\<close>)
  show "bank_later db cleared" by (simp add: bank_later_def cleared_def)
qed

lemma rebuild_capability_Ok:
  assumes "rebuild_capability C io db current = Ok db'" and "intact C db"
  shows "intact C db' \<and> bank_later db db'"
proof -
  obtain db1 where "write_capability_current io current db = Ok db1"
      "persist_capability_generation C io current db1 = Ok db'"
    using assms(1) by (auto simp: rebuild_capability_def result_iff)
  from capability_written [OF assms(2) disjI1 [OF this(1)] this(2)] show ?thesis by blast
qed

lemma rebuild_bundle_Ok:
  assumes "rebuild_bundle C io db current = Ok db'" and "intact C db"
  shows "intact C db' \<and> bank_later db db'"
proof -
  obtain db1 where "write_bundle_current C io current db = Ok db1"
      "persist_bundle_generation C io current db1 = Ok db'"
    using assms(1) by (auto simp: rebuild_bundle_def result_iff)
  from bundle_written [OF assms(2) disjI1 [OF this(1)] this(2)] show ?thesis by blast
qed

lemma rebuild_projections_later:
  assumes db: "intact C db" and run: "rebuild_projections C io selection db = (result, db')"
  shows "intact C db' \<and> bank_later db db'"
proof (cases "validate_projection_selection C selection = Ok ()")
  case False
  then have "db' = db"
    using run by (cases "validate_projection_selection C selection") (auto simp: rebuild_projections_def)
  then show ?thesis using db by simp
next
  case True
  let ?step = "\<lambda>s. intact C s \<and> bank_later db s"
  show ?thesis
    using run unfolding rebuild_projections_def True result.case
  proof (cases rule: transaction_cases)
    case (committed x)
    let ?cleared = "db\<lparr>bk_capability_current := bm_empty, bk_bundle_current := bm_empty\<rparr>"
    obtain db1 db2 where f: "try_fold (rebuild_capability C io) ?cleared (aps_capabilities selection) = Ok db1"
        "try_fold (rebuild_bundle C io) db1 (aps_bundles selection) = Ok db2" "db' = db2"
      using committed(2) by (auto simp: result_iff)
    have capability: "?step s'" if "?step s" "rebuild_capability C io s current = Ok s'" for s s' current
      using that rebuild_capability_Ok [OF that(2)] bank_later_trans by blast
    have bundles: "?step s'" if "?step s" "rebuild_bundle C io s current = Ok s'" for s s' current
      using that rebuild_bundle_Ok [OF that(2)] bank_later_trans by blast
    have "?step db1"
      by (rule try_fold_invariant [OF f(1), where P = ?step])
        (use clear_projections [OF db] capability in blast)+
    show ?thesis unfolding f(3)
      by (rule try_fold_invariant [OF f(2), where P = ?step]) (use \<open>?step db1\<close> bundles in blast)+
  qed (simp add: db)
qed

section \<open>Runs of operations\<close>

datatype bank_command =
    PublishCapability capability_definition
  | SwapCapability string u64 string projection_expectation
  | PublishBundle verification_bundle
  | SwapBundle string projection_expectation
  | PublishAndSwap verification_bundle projection_expectation
  | MarkStale evidence_key cas_token "stale_cause set"
  | Rebuild projection_selection

primrec run_bank_command :: "bank_codec \<Rightarrow> io \<Rightarrow> bank_command \<Rightarrow> bank \<Rightarrow> bank" where
  "run_bank_command C io (PublishCapability d) db = snd (publish_capability C io d db)"
| "run_bank_command C io (SwapCapability i r digest expectation) db =
    snd (swap_capability_current C io i r digest expectation db)"
| "run_bank_command C io (PublishBundle b) db = snd (publish_bundle C io b db)"
| "run_bank_command C io (SwapBundle digest expectation) db =
    snd (swap_bundle_current C io digest expectation db)"
| "run_bank_command C io (PublishAndSwap b expectation) db =
    snd (publish_bundle_and_cas C io b expectation db)"
| "run_bank_command C io (MarkStale key expected causes) db = snd (mark_stale C io key expected causes db)"
| "run_bank_command C io (Rebuild selection) db = snd (rebuild_projections C io selection db)"

definition rebuilds :: "bank_command \<Rightarrow> bool" where
  "rebuilds c = (case c of Rebuild _ \<Rightarrow> True | _ \<Rightarrow> False)"

lemma publish_capability_advances:
  assumes db: "intact C db" shows "bank_advances C db (snd (publish_capability C io d db))"
proof -
  obtain r db' where run: "publish_capability C io d db = (r, db')" by fastforce
  then show ?thesis
    using publish_capability_tx_Ok [OF db] bank_advances_refl [OF db]
    by (auto simp: publish_capability_def result_iff elim!: transaction_cases)
qed

lemma publish_bundle_advances:
  assumes db: "intact C db" shows "bank_advances C db (snd (publish_bundle C io b db))"
proof -
  obtain r db' where run: "publish_bundle C io b db = (r, db')" by fastforce
  then show ?thesis
    using publish_bundle_tx_Ok [OF db] bank_advances_refl [OF db]
    by (auto simp: publish_bundle_def result_iff elim!: transaction_cases)
qed

lemma swap_bundle_current_advances:
  assumes db: "intact C db" shows "bank_advances C db (snd (swap_bundle_current C io digest expectation db))"
proof -
  obtain r db' where run: "swap_bundle_current C io digest expectation db = (r, db')" by fastforce
  then show ?thesis
    using apply_bundle_cas_Ok [OF db] bank_advances_refl [OF db]
    by (auto simp: swap_bundle_current_def result_iff elim!: transaction_cases)
qed

lemma publish_bundle_and_cas_advances:
  assumes db: "intact C db" and run: "publish_bundle_and_cas C io b expectation db = (r, db')"
  shows "bank_advances C db db'"
  using run unfolding publish_bundle_and_cas_def publish_bundle_and_cas_inner_def
proof (cases rule: transaction_cases)
  case (committed outcome)
  then obtain publication db1 projection where
      publish: "publish_bundle_tx C io b db = Ok (publication, db1)"
    and cas: "apply_bundle_cas C io (published_record publication) expectation FreshCurrent db1
        = Ok (projection, db')"
    by (auto simp: result_iff)
  note p = publish_bundle_tx_Ok [OF db publish]
  have "intact C db1" using p by (simp add: bank_advances_def)
  note q = apply_bundle_cas_Ok [OF this cas]
  show ?thesis
    by (rule advances_trans_publish [of C db db1 db']) (use p q in simp_all)
qed (simp add: bank_advances_refl db)

lemma run_bank_command_advances:
  assumes db: "intact C db"
  shows "intact C (run_bank_command C io c db) \<and> bank_later db (run_bank_command C io c db)
    \<and> (rebuilds c \<or> projections_renewed db (run_bank_command C io c db))"
proof (cases "rebuilds c")
  case True
  then obtain selection where "c = Rebuild selection" by (cases c) (auto simp: rebuilds_def)
  then show ?thesis
    using True rebuild_projections_later [OF db, of io selection "fst (rebuild_projections C io selection db)"]
    by simp
next
  case False
  have "bank_advances C db (run_bank_command C io c db)"
    using False publish_capability_advances [OF db] publish_bundle_advances [OF db]
      swap_bundle_current_advances [OF db]
      swap_capability_current_advances [OF db surjective_pairing]
      publish_bundle_and_cas_advances [OF db surjective_pairing]
      mark_stale_advances [OF db surjective_pairing]
    by (cases c) (simp_all add: rebuilds_def)
  then show ?thesis by (simp add: bank_advances_def)
qed

definition run_bank_commands :: "bank_codec \<Rightarrow> (io \<times> bank_command) list \<Rightarrow> bank \<Rightarrow> bank" where
  "run_bank_commands C cs db = fold (\<lambda>(io, c). run_bank_command C io c) cs db"

lemma run_bank_commands_intact:
  "intact C db \<Longrightarrow> intact C (run_bank_commands C cs db) \<and> bank_later db (run_bank_commands C cs db)"
proof (induction cs arbitrary: db)
  case Nil
  then show ?case by (simp add: run_bank_commands_def)
next
  case (Cons entry cs)
  obtain io c where entry: "entry = (io, c)" by (cases entry)
  have "intact C (run_bank_command C io c db)" "bank_later db (run_bank_command C io c db)"
    using run_bank_command_advances [OF Cons.prems] by auto
  with Cons.IH [OF this(1)] show ?case
    by (auto simp: run_bank_commands_def entry intro: bank_later_trans)
qed

end
