(* ===== verification/Evidence_Lease.thy ===== *)
theory Evidence_Lease
  imports Evidence_Bank_Safety
begin

text \<open>
  Reading the bank of \<open>Evidence_Bank\<close>: an intact bank loads whatever it holds, the snapshot of the
  completion lease shows exactly the current rows of the requested keys with the records they refer
  to, and evidence that was marked stale keeps the lease shut until other evidence takes its place.
\<close>

section \<open>Reading an intact bank\<close>

text \<open>What is documented of the encoders and of the digest.\<close>

definition codec_ok :: "bank_codec \<Rightarrow> bool" where
  "codec_ok C \<longleftrightarrow>
     (\<forall>bytes. valid_digest (bkc_sha256 C bytes))
   \<and> (\<forall>d bytes. rc_capability (bkc_rerun C) d = Inr bytes \<longrightarrow> bkc_decode_capability C bytes = Inr d)
   \<and> (\<forall>b bytes. bkc_bundle C b = Inr bytes \<longrightarrow> bkc_decode_bundle C bytes = Inr b)
   \<and> (\<forall>f bytes. bkc_freshness C f = Inr bytes \<longrightarrow> bkc_decode_freshness C bytes = Inr f)"

definition works :: "io \<Rightarrow> bool" where
  "works io \<longleftrightarrow> (\<forall>step. \<not> io step)"

lemma works_perform [simp]: "works io \<Longrightarrow> bank_perform io step = Ok ()"
  by (simp add: works_def bank_perform_def)

lemma capability_of_row_intact:
  assumes "codec_ok C" and "holds_capability C (i, uint r) row d" and "cd_revision d = r"
  shows "capability_of_row C i r (i, uint r) row = Ok \<lparr>car_definition = d, car_digest = car_row_digest row\<rparr>"
proof -
  have bytes: "capability_bytes (bkc_rerun C) d = Ok (car_row_json row)"
    using assms(2) by (simp add: holds_capability_def)
  then have "rc_capability (bkc_rerun C) d = Inr (car_row_json row)"
    by (auto simp: capability_bytes_def result_iff serialized_def split: sum.splits)
  then have "bkc_decode_capability C (car_row_json row) = Inr d"
    using assms(1) by (simp add: codec_ok_def)
  then show ?thesis
    using assms bytes
    by (auto simp: capability_of_row_def holds_capability_def result_iff codec_ok_def Let_def)
qed

lemma load_capability_intact:
  assumes db: "intact C db" and codec: "codec_ok C" and io: "works io"
    and row: "bm_get (bk_capability_records db) (i, uint r) = Some row"
  shows "\<exists>record. load_capability C io i r db = Ok (Some record) \<and> car_digest record = car_row_digest row"
proof -
  obtain d where d: "holds_capability C (i, uint r) row d" using intactD(2) [OF db row] by blast
  then have "cd_revision d = r" "uint r < 2 ^ 63"
    by (simp_all add: holds_capability_def word_uint_eq_iff)
  then show ?thesis
    using capability_of_row_intact [OF codec d] row io
    by (simp add: load_capability_def sqlite_u64_def)
qed

lemma bundle_of_row_intact:
  assumes "codec_ok C" and "holds_bundle C i row b"
  shows "bundle_of_row C (i, row) = Ok (bundle_record_of b (bur_row_digest row))"
proof -
  have bytes: "bundle_bytes C b = Ok (bur_row_json row)"
    using assms(2) by (simp add: holds_bundle_def)
  then have "bkc_bundle C b = Inr (bur_row_json row)"
    by (auto simp: bundle_bytes_def result_iff serialized_def split: sum.splits)
  then have "bkc_decode_bundle C (bur_row_json row) = Inr b"
    using assms(1) by (simp add: codec_ok_def)
  then show ?thesis
    using assms bytes by (auto simp: bundle_of_row_def holds_bundle_def result_iff codec_ok_def Let_def)
qed

lemma load_bundle_by_digest_intact:
  assumes db: "intact C db" and codec: "codec_ok C" and io: "works io"
    and row: "bm_get (bk_bundle_records db) i = Some row" and b: "holds_bundle C i row b"
  shows "load_bundle_by_digest C io (bur_row_digest row) db = Ok (Some (bundle_record_of b (bur_row_digest row)))"
proof -
  let ?P = "\<lambda>(_ :: string, r). bur_row_digest r = bur_row_digest row"
  have "(i, row) \<in> set (bm_entries (bk_bundle_records db))" using row by (simp add: bm_entries_iff)
  then obtain entry where entry: "find ?P (bm_entries (bk_bundle_records db)) = Some entry"
    by (cases "find ?P (bm_entries (bk_bundle_records db))") (auto simp: find_None_iff)
  obtain j s where js: "entry = (j, s)" by (cases entry)
  have "bm_get (bk_bundle_records db) j = Some s" "bur_row_digest s = bur_row_digest row"
    using find_entry [OF entry [unfolded js]] by simp_all
  then have "j = i" "s = row" using intactD(4) [OF db _ row] row by auto
  moreover have "valid_digest (bur_row_digest row)"
    using b codec by (simp add: holds_bundle_def codec_ok_def)
  ultimately show ?thesis
    using bundle_of_row_intact [OF codec b] entry io
    by (simp add: load_bundle_by_digest_def load_bundle_row_def js result_iff check_digest_def valid_digest_def)
qed

lemma binding_of_row_intact:
  assumes "generations_ok m" and "bm_get m k = Some entry"
  shows "binding_of_row field entry = Ok (binding_of entry)"
proof -
  obtain g d where entry: "entry = (g, d)" by (cases entry)
  then have "0 < g" "valid_digest d" using assms unfolding generations_ok_def by blast+
  then show ?thesis
    by (simp add: entry binding_of_row_def binding_of_def stored_generation_def check_digest_def
        valid_digest_def)
qed

lemma load_bundle_generation_intact:
  assumes "intact C db" and "works io"
  shows "load_bundle_generation io key db
    = Ok (map_option binding_of (bm_get (bk_bundle_generations db) (key_columns key)))"
  using assms binding_of_row_intact [OF intactD(6) [OF assms(1)]]
  by (auto simp: load_bundle_generation_def split: option.split)

lemma load_capability_generation_intact:
  assumes "intact C db" and "works io"
  shows "load_capability_generation io i db
    = Ok (map_option binding_of (bm_get (bk_capability_generations db) i))"
  using assms binding_of_row_intact [OF intactD(5) [OF assms(1)]]
  by (auto simp: load_capability_generation_def split: option.split)

text \<open>Every projection of an intact bank loads, as what was written.\<close>

lemma load_bundle_current_intact:
  assumes db: "intact C db" and codec: "codec_ok C" and io: "works io"
    and row: "bm_get (bk_bundle_current db) (key_columns key) = Some row"
  obtains current where "load_bundle_current C io key db = Ok (Some current)" "ec_key current = key"
    "bundle_current_row_of C current = Ok row" "validate_evidence_state C current = Ok ()"
proof -
  obtain current where current: "ec_key current = key" "bundle_current_row_of C current = Ok row"
      "validate_evidence_state C current = Ok ()" "bundle_row_allowed key row db"
    and gen: "bm_get (bk_bundle_generations db) (key_columns key)
      = Some (bcr_generation row, bcr_state_digest row)"
    using intactD(8) [OF db row] unfolding bundle_projection_def by auto
  note fields = bundle_current_row_Ok [OF current(2)]
  obtain s where s: "bm_get (bk_bundle_records db) (bcr_bundle_id row) = Some s"
      "bur_row_digest s = bcr_record_digest row" "bur_row_key s = key_columns key"
    using current(4) by (auto simp: bundle_row_allowed_def)
  obtain b where b: "holds_bundle C (bcr_bundle_id row) s b" using intactD(3) [OF db s(1)] by blast
  have found: "load_bundle_by_digest C io (ec_record_digest current) db
      = Ok (Some (bundle_record_of b (ec_record_digest current)))"
    using load_bundle_by_digest_intact [OF db codec io s(1) b] s(2) fields by simp
  have identity: "vb_bundle_id b = ec_bundle_id current" "bundle_key b = key"
    using b s(3) fields by (auto simp: holds_bundle_def)
  have "validate_bundle_selection C io current db = Ok ()"
    using current(1,3) found identity by (simp add: validate_bundle_selection_def bundle_record_of_def)
  moreover have "validate_allocator_at_least_bundle io current db = Ok ()"
    using gen fields load_bundle_generation_intact [OF db io]
    by (simp add: validate_allocator_at_least_bundle_def current(1) binds_def binding_of_def)
  moreover have "bkc_decode_freshness C (bcr_freshness_json row) = Inr (ec_freshness current)"
    using codec fields by (simp add: codec_ok_def)
  moreover have "\<lparr>ec_key = key, ec_bundle_id = bcr_bundle_id row, ec_record_digest = bcr_record_digest row,
      ec_freshness = ec_freshness current, ec_token = \<lparr>ct_generation = word_of_int (bcr_generation row),
        ct_state_digest = bcr_state_digest row\<rparr>\<rparr> = current"
    using fields current(1) by simp
  ultimately have "load_bundle_current C io key db = Ok (Some current)"
    using row io fields current(3)
    by (simp add: load_bundle_current_def from_slice_def canonical_json_def stored_generation_def Let_def)
  from that [OF this current(1-3)] show thesis .
qed

lemma load_capability_current_intact:
  assumes db: "intact C db" and codec: "codec_ok C" and io: "works io"
    and row: "bm_get (bk_capability_current db) i = Some row"
  obtains current where "load_capability_current C io i db = Ok (Some current)"
    "cc_capability_id current = i" "capability_current_row_of current = Ok row"
    "\<exists>record. load_capability C io i (cc_revision current) db = Ok (Some record)
      \<and> car_digest record = cc_record_digest current"
proof -
  obtain current where current: "cc_capability_id current = i" "capability_current_row_of current = Ok row"
      "validate_capability_state C current = Ok ()" "capability_row_allowed i row db"
    and gen: "bm_get (bk_capability_generations db) i = Some (ccr_generation row, ccr_state_digest row)"
    using intactD(7) [OF db row] unfolding capability_projection_def by auto
  note fields = capability_current_row_Ok [OF current(2)]
  obtain s where s: "bm_get (bk_capability_records db) (i, uint (cc_revision current)) = Some s"
      "car_row_digest s = cc_record_digest current"
    using current(4) fields by (auto simp: capability_row_allowed_def)
  obtain r where found: "load_capability C io i (cc_revision current) db = Ok (Some r)"
      "car_digest r = cc_record_digest current"
    using load_capability_intact [OF db codec io s(1)] s(2) by auto
  have "validate_capability_selection C io current db = Ok ()"
    using current(1,3) found by (simp add: validate_capability_selection_def)
  moreover have "validate_allocator_at_least_capability io current db = Ok ()"
    using gen fields load_capability_generation_intact [OF db io]
    by (simp add: validate_allocator_at_least_capability_def current(1) binds_def binding_of_def)
  moreover have "\<lparr>cc_capability_id = i, cc_revision = word_of_int (ccr_revision row),
      cc_record_digest = ccr_record_digest row, cc_token = \<lparr>ct_generation = word_of_int (ccr_generation row),
        ct_state_digest = ccr_state_digest row\<rparr>\<rparr> = current"
    using fields current(1) by simp
  ultimately have "load_capability_current C io i db = Ok (Some current)"
    using row io fields current(3)
    by (simp add: load_capability_current_def stored_generation_def Let_def)
  from that [OF this current(1,2)] found show thesis by blast
qed

section \<open>The completion snapshot\<close>

text \<open>
  What a snapshot shows of the bank: for each requested key in order, the current projection of
  the key and the immutable bundle it refers to; for every capability with a current revision,
  that revision and its immutable definition.
\<close>

definition shows_bundle :: "bank_codec \<Rightarrow> bank \<Rightarrow> completion_admission_bundle \<Rightarrow> bool" where
  "shows_bundle C db entry \<longleftrightarrow>
     (let current = cab_current entry; found = cab_record entry in
      ec_freshness current = FreshCurrent \<and> validate_evidence_state C current = Ok ()
    \<and> (\<exists>row. bm_get (bk_bundle_current db) (key_columns (ec_key current)) = Some row
        \<and> bcr_bundle_id row = ec_bundle_id current \<and> bcr_record_digest row = ec_record_digest current
        \<and> bcr_state_digest row = ct_state_digest (ec_token current)
        \<and> stored_generation (bcr_generation row) = Ok (ct_generation (ec_token current))
        \<and> bkc_freshness C (ec_freshness current) = Inr (bcr_freshness_json row))
    \<and> (\<exists>row. bm_get (bk_bundle_records db) (ec_bundle_id current) = Some row
        \<and> holds_bundle C (ec_bundle_id current) row (bur_bundle found)
        \<and> bur_row_digest row = ec_record_digest current)
    \<and> bur_digest found = ec_record_digest current \<and> bundle_key (bur_bundle found) = ec_key current
    \<and> bur_logical_reference found = ''verification-bundles/sha256/'' @ ec_record_digest current)"

definition shows_capability :: "bank_codec \<Rightarrow> bank \<Rightarrow> completion_admission_capability \<Rightarrow> bool" where
  "shows_capability C db entry \<longleftrightarrow>
     (let current = cac_current entry; found = cac_record entry;
          columns = (cc_capability_id current, uint (cc_revision current)) in
      validate_capability_state C current = Ok ()
    \<and> (\<exists>row. bm_get (bk_capability_current db) (cc_capability_id current) = Some row
        \<and> ccr_record_digest row = cc_record_digest current
        \<and> ccr_state_digest row = ct_state_digest (cc_token current)
        \<and> stored_generation (ccr_revision row) = Ok (cc_revision current)
        \<and> stored_generation (ccr_generation row) = Ok (ct_generation (cc_token current)))
    \<and> (\<exists>row. bm_get (bk_capability_records db) columns = Some row
        \<and> holds_capability C columns row (car_definition found)
        \<and> car_row_digest row = cc_record_digest current)
    \<and> car_digest found = cc_record_digest current
    \<and> cd_revision (car_definition found) = cc_revision current)"

definition snapshot_of ::
    "bank_codec \<Rightarrow> bank \<Rightarrow> evidence_key list \<Rightarrow> completion_admission_snapshot \<Rightarrow> bool" where
  "snapshot_of C db keys snapshot \<longleftrightarrow>
     keys \<noteq> [] \<and> strictly_sorted (map key_columns keys)
   \<and> map (ec_key \<circ> cab_current) (cas_bundles snapshot) = keys
   \<and> list_all (shows_bundle C db) (cas_bundles snapshot)
   \<and> map (cc_capability_id \<circ> cac_current) (cas_capabilities snapshot) = bm_keys (bk_capability_current db)
   \<and> list_all (shows_capability C db) (cas_capabilities snapshot)"

lemma load_bundle_current_Ok:
  assumes "load_bundle_current C io key db = Ok (Some current)"
  shows "ec_key current = key \<and> validate_evidence_state C current = Ok ()
    \<and> (\<exists>row. bm_get (bk_bundle_current db) (key_columns key) = Some row
        \<and> bcr_bundle_id row = ec_bundle_id current \<and> bcr_record_digest row = ec_record_digest current
        \<and> bcr_state_digest row = ct_state_digest (ec_token current)
        \<and> stored_generation (bcr_generation row) = Ok (ct_generation (ec_token current))
        \<and> bkc_freshness C (ec_freshness current) = Inr (bcr_freshness_json row))"
  using assms by (auto simp: load_bundle_current_def result_iff Let_def split: option.splits)

lemma load_capability_current_Ok:
  assumes "load_capability_current C io i db = Ok (Some current)"
  shows "cc_capability_id current = i \<and> validate_capability_state C current = Ok ()
    \<and> (\<exists>row. bm_get (bk_capability_current db) i = Some row
        \<and> ccr_record_digest row = cc_record_digest current
        \<and> ccr_state_digest row = ct_state_digest (cc_token current)
        \<and> stored_generation (ccr_revision row) = Ok (cc_revision current)
        \<and> stored_generation (ccr_generation row) = Ok (ct_generation (cc_token current)))"
  using assms by (auto simp: load_capability_current_def result_iff Let_def split: option.splits)

lemma push_current_bundle_Ok:
  assumes "push_current_bundle C io db bundles key = Ok bundles'"
  shows "\<exists>entry. bundles' = bundles @ [entry] \<and> ec_key (cab_current entry) = key \<and> shows_bundle C db entry"
proof -
  obtain current found where current: "load_bundle_current C io key db = Ok (Some current)"
      "ec_freshness current = FreshCurrent"
    and found: "load_bundle_by_digest C io (ec_record_digest current) db = Ok (Some found)"
    and same: "bur_digest found = ec_record_digest current"
      "vb_bundle_id (bur_bundle found) = ec_bundle_id current" "bundle_key (bur_bundle found) = ec_key current"
    and bundles': "bundles' = bundles @ [\<lparr>cab_current = current, cab_record = found\<rparr>]"
    using assms by (auto simp: push_current_bundle_def result_iff)
  obtain i row where row: "bm_get (bk_bundle_records db) i = Some row"
      "bur_row_digest row = ec_record_digest current" "holds_bundle C i row (bur_bundle found)"
    and shape: "found = bundle_record_of (bur_bundle found) (ec_record_digest current)"
    using load_bundle_by_digest_Ok [OF found] by blast
  have "bur_logical_reference found = ''verification-bundles/sha256/'' @ ec_record_digest current"
    by (subst shape) (simp add: bundle_record_of_def)
  moreover have "i = ec_bundle_id current" using row(3) same(2) by (simp add: holds_bundle_def)
  ultimately show ?thesis
    using load_bundle_current_Ok [OF current(1)] current(2) row same bundles'
    by (auto simp: shows_bundle_def Let_def)
qed

lemma push_current_capability_Ok:
  assumes "push_current_capability C io db capabilities i = Ok capabilities'"
  shows "\<exists>entry. capabilities' = capabilities @ [entry] \<and> cc_capability_id (cac_current entry) = i
    \<and> shows_capability C db entry"
proof -
  obtain current found where current: "load_capability_current C io i db = Ok (Some current)"
    and found: "load_capability C io i (cc_revision current) db = Ok (Some found)"
    and same: "car_digest found = cc_record_digest current"
    and capabilities': "capabilities' = capabilities @ [\<lparr>cac_current = current, cac_record = found\<rparr>]"
    using assms by (auto simp: push_current_capability_def result_iff Let_def)
  show ?thesis
    using load_capability_current_Ok [OF current] load_capability_Ok [OF found] same capabilities'
    by (auto simp: shows_capability_def Let_def)
qed

lemma pushed_in_order:
  assumes "try_fold f xs ys = Ok zs"
    and "\<And>s y s'. f s y = Ok s' \<Longrightarrow> \<exists>e. s' = s @ [e] \<and> key e = y \<and> P e"
  shows "\<exists>es. zs = xs @ es \<and> map key es = ys \<and> list_all P es"
  using assms(1)
proof (induction ys arbitrary: xs)
  case Nil
  then show ?case by simp
next
  case (Cons y ys)
  obtain s where s: "f xs y = Ok s" "try_fold f s ys = Ok zs" using Cons.prems by (auto simp: result_iff)
  obtain e where e: "s = xs @ [e]" "key e = y" "P e" using assms(2) [OF s(1)] by blast
  from Cons.IH [OF s(2)] obtain es where "zs = s @ es" "map key es = ys" "list_all P es" by blast
  then show ?case using e by (intro exI [of _ "e # es"]) simp
qed

lemma read_completion_snapshot_Ok:
  assumes "validate_completion_admission_keys keys = Ok ()"
    and read: "read_completion_snapshot C io keys db = Ok snapshot"
  shows "snapshot_of C db keys snapshot"
proof -
  have keys: "keys \<noteq> []" "strictly_sorted (map key_columns keys)"
    using assms(1) by (auto simp: validate_completion_admission_keys_def result_iff Let_def)
  obtain capabilities bundles where
      c: "try_fold (push_current_capability C io db) [] (bm_keys (bk_capability_current db)) = Ok capabilities"
    and b: "try_fold (push_current_bundle C io db) [] keys = Ok bundles"
    and s: "snapshot = \<lparr>cas_capabilities = capabilities, cas_bundles = bundles\<rparr>"
    using read by (auto simp: read_completion_snapshot_def result_iff Let_def)
  from pushed_in_order [OF c, of "cc_capability_id \<circ> cac_current" "shows_capability C db"]
    pushed_in_order [OF b, of "ec_key \<circ> cab_current" "shows_bundle C db"]
  show ?thesis
    using keys push_current_capability_Ok push_current_bundle_Ok by (auto simp: snapshot_of_def s)
qed

lemma lease_cases:
  assumes "with_completion_admission_lease C io lift keys callback db s = (result, s')"
  obtains (refused) "s' = s" "\<nexists>x. result = Ok x"
    | (read) snapshot r where "snapshot_of C db keys snapshot" "callback snapshot s = (r, s')"
        "\<forall>x. result = Ok x \<longrightarrow> r = Ok x" "(\<exists>x. r = Ok x) \<or> result = r"
proof (cases "map_err lift (and_then (validate_completion_admission_keys keys) (\<lambda>_.
         and_then (bank_open_connection io db) (\<lambda>_.
         and_then (bank_perform io (Statement ''begin completion admission lease'')) (\<lambda>_.
         read_completion_snapshot C io keys db))))")
  case (Ok snapshot)
  then have "snapshot_of C db keys snapshot"
    using read_completion_snapshot_Ok by (auto simp: result_iff)
  moreover obtain r where r: "callback snapshot s = (r, s')"
      "result = and_then r (\<lambda>result.
        and_then (map_err lift (bank_perform io (Statement ''commit completion admission lease''))) (\<lambda>_.
        Ok result))"
    using assms Ok by (cases "callback snapshot s") (auto simp: with_completion_admission_lease_def)
  moreover have "\<forall>x. result = Ok x \<longrightarrow> r = Ok x" "(\<exists>x. r = Ok x) \<or> result = r"
    using r(2) by (auto simp: result_iff, cases r) auto
  ultimately show ?thesis using read by blast
qed (use assms refused in \<open>auto simp: with_completion_admission_lease_def\<close>)

section \<open>Staleness\<close>

lemma apply_bundle_cas_applied:
  assumes "apply_bundle_cas C io found expectation freshness db = Ok (CasApplied fresh, db')"
  shows "\<exists>current. load_bundle_current C io (bundle_key (bur_bundle found)) db = Ok current
    \<and> expectation_matches expectation (map_option ec_token current)
    \<and> (\<forall>old. current = Some old \<longrightarrow> is_stale (ec_freshness old) \<longrightarrow> ec_record_digest old \<noteq> bur_digest found)
    \<and> ec_key fresh = bundle_key (bur_bundle found) \<and> ec_record_digest fresh = bur_digest found
    \<and> ec_freshness fresh = freshness
    \<and> next_bundle_generation io (ec_key fresh) db = Ok (ct_generation (ec_token fresh))"
proof -
  obtain current g where "load_bundle_current C io (bundle_key (bur_bundle found)) db = Ok current"
      "expectation_matches expectation (map_option ec_token current)"
      "\<not> (case current of None \<Rightarrow> False
         | Some old \<Rightarrow> is_stale (ec_freshness old) \<and> ec_record_digest old = bur_digest found)"
      "next_bundle_generation io (bundle_key (bur_bundle found)) db = Ok g"
      "new_evidence_current C (bundle_key (bur_bundle found)) (vb_bundle_id (bur_bundle found))
        (bur_digest found) freshness g = Ok fresh"
    using assms by (auto simp: apply_bundle_cas_def Let_def result_iff split: if_splits)
  with new_evidence_current_Ok [OF this(5)] show ?thesis by auto
qed

lemma apply_bundle_cas_written:
  assumes db: "intact C db"
    and run: "apply_bundle_cas C io found expectation freshness db = Ok (CasApplied fresh, db')"
  shows "\<exists>row. bundle_current_row_of C fresh = Ok row \<and> db' = with_bundle_current fresh row db"
proof -
  obtain db1 where "write_bundle_current_cas C io fresh expectation db = Ok db1"
      "persist_bundle_generation C io fresh db1 = Ok db'"
    using run by (auto simp: apply_bundle_cas_def Let_def result_iff split: if_splits)
  from bundle_written [OF db disjI2 [OF this(1)] this(2)] show ?thesis by blast
qed

lemma bundle_record_fields [simp]:
  "bur_bundle (bundle_record_of b d) = b" "bur_digest (bundle_record_of b d) = d"
  by (simp_all add: bundle_record_of_def)

lemma load_bundle_by_digest_digest:
  "load_bundle_by_digest C io d db = Ok (Some found) \<Longrightarrow> bur_digest found = d"
  using load_bundle_by_digest_Ok [of C io d db found] by (metis bundle_record_fields(2))

lemma freshness_unique:
  "codec_ok C \<Longrightarrow> bkc_freshness C f = Inr bytes \<Longrightarrow> bkc_freshness C g = Inr bytes \<Longrightarrow> f = g"
  unfolding codec_ok_def by (metis sum.inject(2))

text \<open>
  The row of a key with the digest of the evidence it refers to: held as stale, or with other
  evidence.
\<close>

definition held_stale :: "bank_codec \<Rightarrow> evidence_key \<Rightarrow> string \<Rightarrow> bank \<Rightarrow> bool" where
  "held_stale C key digest db \<longleftrightarrow> (\<exists>row causes. bm_get (bk_bundle_current db) (key_columns key) = Some row
     \<and> bcr_record_digest row = digest \<and> bkc_freshness C (FreshStale causes) = Inr (bcr_freshness_json row))"

definition superseded :: "evidence_key \<Rightarrow> string \<Rightarrow> bank \<Rightarrow> bool" where
  "superseded key digest db \<longleftrightarrow> (\<exists>row. bm_get (bk_bundle_current db) (key_columns key) = Some row
     \<and> bcr_record_digest row \<noteq> digest)"

text \<open>Once marked stale, the row of a key holds the evidence as stale.\<close>

lemma mark_stale_held:
  assumes db: "intact C db" and run: "mark_stale C io key expected causes db = (Ok outcome, db')"
    and outcome: "outcome = CasApplied fresh \<or> outcome = CasUnchanged fresh"
  shows "held_stale C key (ec_record_digest fresh) db'"
  using run
proof (cases rule: mark_stale_cases)
  case same
  then have "outcome = CasUnchanged fresh" using outcome by auto
  then have "fst (mark_stale C io key expected causes db) = Ok (CasUnchanged fresh)" using run by simp
  then obtain cs where "load_bundle_current C io key db = Ok (Some fresh)" "ec_freshness fresh = FreshStale cs"
    by (auto simp: mark_stale_def transaction_def result_iff Let_def bank_open_connection_def
        split: if_splits option.splits result.splits prod.splits)
  then show ?thesis using load_bundle_current_Ok same(1) by (metis held_stale_def)
next
  case (applied current g new db1)
  obtain row where row: "bundle_current_row_of C new = Ok row" "db' = with_bundle_current new row db"
    using fresh_bundle_current(2) [OF db _ applied(7,8)] applied(5) new_evidence_current_Ok [OF applied(6)] by auto
  have "new = fresh" using applied(1) outcome by auto
  then show ?thesis
    using bundle_current_row_Ok [OF row(1)] new_evidence_current_Ok [OF applied(6)]
    by (auto simp: row(2) with_bundle_current_def held_stale_def)
qed

text \<open>A projection is written: the evidence of a key stays stale unless other evidence replaces it.\<close>

lemma bundle_write_held:
  assumes held: "held_stale C key digest db" and row: "bundle_current_row_of C fresh = Ok row"
    and replaced: "ec_key fresh = key \<Longrightarrow> ec_record_digest fresh \<noteq> digest \<or> (\<exists>cs. ec_freshness fresh = FreshStale cs)"
  shows "held_stale C key digest (with_bundle_current fresh row db)
    \<or> superseded key digest (with_bundle_current fresh row db)"
proof (cases "ec_key fresh = key")
  case True
  then show ?thesis
    using replaced bundle_current_row_Ok [OF row]
    by (fastforce simp: held_stale_def superseded_def with_bundle_current_def)
next
  case False
  then show ?thesis using held by (auto simp: held_stale_def with_bundle_current_def)
qed

lemma held_stale_loaded:
  assumes codec: "codec_ok C" and held: "held_stale C key digest db"
    and load: "load_bundle_current C io key db = Ok found"
  obtains current causes where "found = Some current" "ec_record_digest current = digest"
    "ec_freshness current = FreshStale causes"
proof -
  obtain row causes where row: "bm_get (bk_bundle_current db) (key_columns key) = Some row"
      "bcr_record_digest row = digest" "bkc_freshness C (FreshStale causes) = Inr (bcr_freshness_json row)"
    using held unfolding held_stale_def by blast
  obtain current where found: "found = Some current"
    using load row(1) by (cases found) (auto simp: load_bundle_current_def result_iff Let_def)
  have "bcr_record_digest row = ec_record_digest current"
      "bkc_freshness C (ec_freshness current) = Inr (bcr_freshness_json row)"
    using load_bundle_current_Ok [OF load [unfolded found]] row(1) by auto
  then show thesis using that [OF found] row(2,3) freshness_unique [OF codec] by metis
qed

lemma apply_bundle_cas_held:
  assumes db: "intact C db" and codec: "codec_ok C" and held: "held_stale C key digest db"
    and run: "apply_bundle_cas C io found expectation freshness db = Ok (outcome, db')"
  shows "held_stale C key digest db' \<or> superseded key digest db'"
proof (cases "db' = db")
  case True
  then show ?thesis using held by simp
next
  case False
  then obtain fresh where outcome: "outcome = CasApplied fresh"
    using run by (auto simp: apply_bundle_cas_def Let_def result_iff split: if_splits)
  obtain row where row: "bundle_current_row_of C fresh = Ok row" "db' = with_bundle_current fresh row db"
    using apply_bundle_cas_written [OF db run [unfolded outcome]] by blast
  from apply_bundle_cas_applied [OF run [unfolded outcome]] obtain current where
      load: "load_bundle_current C io (ec_key fresh) db = Ok current"
    and guard: "\<forall>old. current = Some old \<longrightarrow> is_stale (ec_freshness old) \<longrightarrow> ec_record_digest old \<noteq> bur_digest found"
    and digest: "ec_record_digest fresh = bur_digest found" by auto
  have "ec_record_digest fresh \<noteq> digest" if "ec_key fresh = key"
    using held_stale_loaded [OF codec held load [unfolded that]] guard digest
    by (metis evidence_freshness.distinct(1) is_stale_def)
  then show ?thesis using bundle_write_held [OF held row(1)] row(2) by blast
qed

lemma held_stale_same:
  "bk_bundle_current db' = bk_bundle_current db \<Longrightarrow> held_stale C key digest db' = held_stale C key digest db"
  by (simp add: held_stale_def)

lemma swap_capability_current_bundles:
  assumes db: "intact C db" and run: "swap_capability_current C io i r digest expectation db = (result, db')"
  shows "bk_bundle_current db' = bk_bundle_current db"
  using run unfolding swap_capability_current_def Let_def
proof (cases rule: transaction_cases)
  case (committed outcome)
  show ?thesis
  proof (cases "db' = db")
    case False
    then obtain fresh db1 where written: "write_capability_current_cas io fresh expectation db = Ok db1"
      and persist: "persist_capability_generation C io fresh db1 = Ok db'"
      using committed(2) by (auto simp: result_iff split: if_splits)
    obtain row where "db' = with_capability_current fresh row db"
      using capability_written [OF db disjI2 [OF written] persist] by blast
    then show ?thesis by (simp add: with_capability_current_def)
  qed simp
qed simp

lemma publish_bundle_and_cas_held:
  assumes db: "intact C db" and codec: "codec_ok C" and held: "held_stale C key digest db"
    and run: "publish_bundle_and_cas C io b expectation db = (result, db')"
  shows "held_stale C key digest db' \<or> superseded key digest db'"
  using run unfolding publish_bundle_and_cas_def publish_bundle_and_cas_inner_def
proof (cases rule: transaction_cases)
  case (committed outcome)
  then obtain publication db1 projection where
      publish: "publish_bundle_tx C io b db = Ok (publication, db1)"
    and cas: "apply_bundle_cas C io (published_record publication) expectation FreshCurrent db1
        = Ok (projection, db')"
    by (auto simp: result_iff)
  note p = publish_bundle_tx_Ok [OF db publish]
  show ?thesis
    by (rule apply_bundle_cas_held [OF _ codec _ cas])
      (use p held in \<open>auto simp: bank_advances_def held_stale_same [of db1 db]\<close>)
qed (use held in simp)

lemma mark_stale_keeps_held:
  assumes db: "intact C db" and codec: "codec_ok C" and held: "held_stale C key digest db"
    and run: "mark_stale C io k expected causes db = (result, db')"
  shows "held_stale C key digest db' \<or> superseded key digest db'"
  using run
proof (cases rule: mark_stale_cases)
  case (applied current g new db1)
  obtain row where row: "bundle_current_row_of C new = Ok row" "db' = with_bundle_current new row db"
    using fresh_bundle_current(2) [OF db _ applied(7,8)] applied(5) new_evidence_current_Ok [OF applied(6)] by auto
  show ?thesis unfolding row(2)
    by (rule bundle_write_held [OF held row(1)]) (use new_evidence_current_Ok [OF applied(6)] in auto)
qed (use held in simp)

text \<open>Every operation but a rebuild keeps stale evidence stale, or leaves other evidence in its place.\<close>

lemma run_bank_command_held:
  assumes db: "intact C db" and codec: "codec_ok C" and held: "held_stale C key digest db"
    and "\<not> rebuilds c"
  shows "held_stale C key digest (run_bank_command C io c db) \<or> superseded key digest (run_bank_command C io c db)"
proof (cases c)
  case (PublishCapability d)
  obtain r db' where run: "publish_capability C io d db = (r, db')" by fastforce
  then have "bk_bundle_current db' = bk_bundle_current db"
    using publish_capability_tx_Ok [OF db]
    by (auto simp: publish_capability_def result_iff elim!: transaction_cases)
  then show ?thesis using held run by (simp add: PublishCapability held_stale_same [of db' db])
next
  case (SwapCapability i r d expectation)
  have "bk_bundle_current (snd (swap_capability_current C io i r d expectation db)) = bk_bundle_current db"
    by (rule swap_capability_current_bundles [OF db surjective_pairing])
  from held_stale_same [OF this] held show ?thesis by (simp add: SwapCapability)
next
  case (PublishBundle b)
  obtain r db' where run: "publish_bundle C io b db = (r, db')" by fastforce
  then have "bk_bundle_current db' = bk_bundle_current db"
    using publish_bundle_tx_Ok [OF db]
    by (auto simp: publish_bundle_def result_iff elim!: transaction_cases)
  then show ?thesis using held run by (simp add: PublishBundle held_stale_same [of db' db])
next
  case (SwapBundle d expectation)
  obtain r db' where run: "swap_bundle_current C io d expectation db = (r, db')" by fastforce
  then have "held_stale C key digest db' \<or> superseded key digest db'"
    unfolding swap_bundle_current_def
  proof (cases rule: transaction_cases)
    case (committed outcome)
    then obtain found where "apply_bundle_cas C io found expectation FreshCurrent db = Ok (outcome, db')"
      by (auto simp: result_iff)
    then show ?thesis by (rule apply_bundle_cas_held [OF db codec held])
  qed (use held in simp)
  then show ?thesis using run by (simp add: SwapBundle)
next
  case (PublishAndSwap b expectation)
  then show ?thesis
    using publish_bundle_and_cas_held [OF db codec held surjective_pairing] by simp
next
  case (MarkStale k expected causes)
  then show ?thesis using mark_stale_keeps_held [OF db codec held surjective_pairing] by simp
qed (use assms(4) in \<open>simp add: rebuilds_def\<close>)

lemma run_bank_commands_held:
  assumes "intact C db" and "codec_ok C" and "held_stale C key digest db"
    and "\<forall>(io, c) \<in> set cs. \<not> rebuilds c"
  shows "held_stale C key digest (run_bank_commands C cs db)
    \<or> (\<exists>n \<le> length cs. superseded key digest (run_bank_commands C (take n cs) db))"
  using assms
proof (induction cs arbitrary: db)
  case Nil
  then show ?case by (simp add: run_bank_commands_def)
next
  case (Cons entry cs)
  obtain io c where entry: "entry = (io, c)" by (cases entry)
  let ?db = "run_bank_command C io c db"
  have step: "run_bank_commands C (entry # es) db = run_bank_commands C es ?db" for es
    by (simp add: run_bank_commands_def entry)
  have "held_stale C key digest ?db \<or> superseded key digest ?db"
    using run_bank_command_held [OF Cons.prems(1-3)] Cons.prems(4) by (simp add: entry)
  then show ?case
  proof
    assume "superseded key digest ?db"
    then have "superseded key digest (run_bank_commands C (take 1 (entry # cs)) db)"
      by (simp add: run_bank_commands_def entry)
    then show ?thesis by (intro disjI2 exI [of _ 1]) simp
  next
    assume held: "held_stale C key digest ?db"
    have "intact C ?db" using run_bank_command_advances [OF Cons.prems(1)] by blast
    from Cons.IH [OF this Cons.prems(2) held] Cons.prems(4)
    have "held_stale C key digest (run_bank_commands C cs ?db)
        \<or> (\<exists>n \<le> length cs. superseded key digest (run_bank_commands C (take n cs) ?db))" by simp
    then show ?thesis
    proof
      assume "\<exists>n \<le> length cs. superseded key digest (run_bank_commands C (take n cs) ?db)"
      then obtain n where "n \<le> length cs" "superseded key digest (run_bank_commands C (take n cs) ?db)" by blast
      then show ?thesis by (intro disjI2 exI [of _ "Suc n"]) (simp add: step)
    qed (simp add: step)
  qed
qed

lemma stale_row_refused:
  assumes codec: "codec_ok C" and held: "held_stale C key digest db" and key: "key \<in> set keys"
  shows "\<not> snapshot_of C db keys snapshot"
proof
  obtain row cs where row: "bm_get (bk_bundle_current db) (key_columns key) = Some row"
      "bkc_freshness C (FreshStale cs) = Inr (bcr_freshness_json row)"
    using held unfolding held_stale_def by blast
  assume "snapshot_of C db keys snapshot"
  then obtain entry where entry: "shows_bundle C db entry" "ec_key (cab_current entry) = key"
    using key unfolding snapshot_of_def list_all_iff by force
  then have "bkc_freshness C FreshCurrent = Inr (bcr_freshness_json row)"
    using row(1) by (auto simp: shows_bundle_def Let_def)
  then show False using freshness_unique [OF codec _ row(2)] by fastforce
qed

section \<open>Opening the lease\<close>

text \<open>The keys a lease can be taken on: each is current.\<close>

definition lease_ready :: "bank_codec \<Rightarrow> bank \<Rightarrow> evidence_key list \<Rightarrow> bool" where
  "lease_ready C db keys \<longleftrightarrow>
     validate_completion_admission_keys keys = Ok ()
   \<and> (\<forall>key \<in> set keys. \<exists>row. bm_get (bk_bundle_current db) (key_columns key) = Some row
        \<and> bkc_freshness C FreshCurrent = Inr (bcr_freshness_json row))"

lemma try_fold_total:
  assumes "\<And>s x. x \<in> set xs \<Longrightarrow> \<exists>s'. f s x = Ok s'"
  shows "\<exists>s'. try_fold f s xs = Ok s'"
  using assms
proof (induction xs arbitrary: s)
  case Nil
  then show ?case by simp
next
  case (Cons x xs)
  then obtain s1 where "f s x = Ok s1" by fastforce
  moreover obtain s2 where "try_fold f s1 xs = Ok s2" using Cons.IH [of s1] Cons.prems by auto
  ultimately show ?case by simp
qed

lemma push_current_bundle_intact:
  assumes db: "intact C db" and codec: "codec_ok C" and io: "works io"
    and row: "bm_get (bk_bundle_current db) (key_columns key) = Some row"
      "bkc_freshness C FreshCurrent = Inr (bcr_freshness_json row)"
  shows "\<exists>bundles'. push_current_bundle C io db bundles key = Ok bundles'"
proof -
  obtain current where current: "load_bundle_current C io key db = Ok (Some current)" "ec_key current = key"
      "bundle_current_row_of C current = Ok row" "validate_evidence_state C current = Ok ()"
    using load_bundle_current_intact [OF db codec io row(1)] .
  note fields = bundle_current_row_Ok [OF current(3)]
  have fresh: "ec_freshness current = FreshCurrent"
    using freshness_unique [OF codec _ row(2)] fields by blast
  obtain c :: evidence_current where c: "key_columns (ec_key c) = key_columns key" "bundle_row_allowed (ec_key c) row db"
    using intactD(8) [OF db row(1)] unfolding bundle_projection_def by blast
  obtain s where s: "bm_get (bk_bundle_records db) (bcr_bundle_id row) = Some s"
      "bur_row_digest s = bcr_record_digest row" "bur_row_key s = key_columns key"
    using c by (auto simp: bundle_row_allowed_def)
  obtain b where b: "holds_bundle C (bcr_bundle_id row) s b" using intactD(3) [OF db s(1)] by blast
  have "load_bundle_by_digest C io (ec_record_digest current) db
      = Ok (Some (bundle_record_of b (ec_record_digest current)))"
    using load_bundle_by_digest_intact [OF db codec io s(1) b] s(2) fields by simp
  then show ?thesis
    using current(1,2) fresh b s(3) fields
    by (auto simp: push_current_bundle_def bundle_record_of_def holds_bundle_def)
qed

lemma push_current_capability_intact:
  assumes db: "intact C db" and codec: "codec_ok C" and io: "works io"
    and i: "i \<in> set (bm_keys (bk_capability_current db))"
  shows "\<exists>capabilities'. push_current_capability C io db capabilities i = Ok capabilities'"
proof -
  obtain row where "bm_get (bk_capability_current db) i = Some row" using i by (auto simp: bm_keys_iff)
  from load_capability_current_intact [OF db codec io this] show ?thesis
    by (fastforce simp: push_current_capability_def Let_def)
qed

lemma lease_entered:
  fixes callback :: "completion_admission_snapshot \<Rightarrow> 's \<Rightarrow> ('e, 't) result \<times> 's"
  assumes db: "intact C db" and codec: "codec_ok C" and io: "works io" and ready: "lease_ready C db keys"
  shows "\<exists>snapshot. snapshot_of C db keys snapshot
    \<and> with_completion_admission_lease C io lift keys callback db s = callback snapshot s"
proof -
  have keys: "validate_completion_admission_keys keys = Ok ()" using ready by (simp add: lease_ready_def)
  obtain capabilities where c: "try_fold (push_current_capability C io db) []
      (bm_keys (bk_capability_current db)) = Ok capabilities"
    using try_fold_total [of "bm_keys (bk_capability_current db)" "push_current_capability C io db" "[]"]
      push_current_capability_intact [OF db codec io] by metis
  obtain bundles where b: "try_fold (push_current_bundle C io db) [] keys = Ok bundles"
    using try_fold_total [of keys "push_current_bundle C io db" "[]"] push_current_bundle_intact [OF db codec io]
      ready [unfolded lease_ready_def] by metis
  have "checks ([bank_perform io (Statement ''prepare completion capability snapshot''),
      bank_perform io (Statement ''query completion capability snapshot'')]
      @ map (\<lambda>_. bank_perform io (Statement ''read completion capability snapshot row''))
          (bm_keys (bk_capability_current db))) = Ok ()"
    using io by (auto simp: result_iff works_def)
  then have read: "read_completion_snapshot C io keys db
      = Ok \<lparr>cas_capabilities = capabilities, cas_bundles = bundles\<rparr>"
    using c b by (simp add: read_completion_snapshot_def Let_def del: checks.simps)
  have "bank_open_connection io db = Ok ()"
    using intactD(1) [OF db] io by (simp add: bank_open_connection_def)
  then have entered: "and_then (validate_completion_admission_keys keys) (\<lambda>_.
      and_then (bank_open_connection io db) (\<lambda>_.
      and_then (bank_perform io (Statement ''begin completion admission lease'')) (\<lambda>_.
      read_completion_snapshot C io keys db))) = Ok \<lparr>cas_capabilities = capabilities, cas_bundles = bundles\<rparr>"
    using keys read io by simp
  have returned: "and_then r Ok = r" for r :: "('e, 't) result" by (cases r) simp_all
  have "with_completion_admission_lease C io lift keys callback db s
      = callback \<lparr>cas_capabilities = capabilities, cas_bundles = bundles\<rparr> s"
    unfolding with_completion_admission_lease_def entered using io by (simp add: returned split: prod.split)
  then show ?thesis using read_completion_snapshot_Ok [OF keys read] by blast
qed

end
