(* ===== verification/Verification_Properties.thy ===== *)
theory Verification_Properties
  imports Verification_Admission
begin

text \<open>
  Local verification composed with the run state machine: what the evidence of admitted
  bundles proves of a goal and that a run completes on it, with a sample of two tasks on which
  the properties are applied.
\<close>

section \<open>Evidence that a run completes on\<close>

lemma concat_map_index:
  assumes "distinct (map f (concat xss))" "i < length xss" "j < length xss"
    and "x \<in> set (xss ! i)" "y \<in> set (xss ! j)" "f x = f y"
  shows "i = j"
  using assms
proof (induction xss arbitrary: i j)
  case Nil
  then show ?case by simp
next
  case (Cons xs xss)
  have apart: "x \<in> set xs \<Longrightarrow> y \<in> set (xss ! k) \<Longrightarrow> k < length xss \<Longrightarrow> f x \<noteq> f y" for x y k
    using Cons.prems(1) by (auto simp: disjoint_iff image_iff) (metis nth_mem)
  show ?case
  proof (cases i; cases j)
    fix i' j' assume "i = Suc i'" "j = Suc j'"
    then show ?thesis using Cons by auto
  qed (use Cons.prems apart in \<open>auto dest!: sym [of "f x"]\<close>)
qed

text \<open>The pass bundle \<open>v\<close> of \<open>run\<close> and \<open>goal\<close> proves a criterion.\<close>

definition proves_criterion ::
    "verification_bundle \<Rightarrow> run_id \<Rightarrow> goal_id \<Rightarrow> behavior_kind \<times> string \<Rightarrow> bool" where
  "proves_criterion v run goal c \<longleftrightarrow> bundle_ok v \<and> vb_run_id v = run \<and> vb_goal_id v = goal
     \<and> vb_verdict v = BundlePass \<and> vb_implementation_actor v \<noteq> vb_verifier_actor v
     \<and> (\<exists>r \<in> set (vb_criterion_results v).
          (cr_kind r, cr_text r) = c \<and> cr_verdict r = ResultPass)"

record admission_input =
  ai_behavior :: behavioral_acceptance_contract
  ai_capabilities :: "capability_definition list"
  ai_bundle :: verification_bundle
  ai_proof :: current_bundle_proof

definition admit_input :: "admission_input \<Rightarrow> admitted_task_evidence verification_result" where
  "admit_input x = admit_current_pass_bundle (ai_behavior x) (ai_capabilities x) (ai_bundle x) (ai_proof x)"

lemma results_match_keys:
  "results_match cs rs \<Longrightarrow> map (\<lambda>c. (bc_kind c, bc_text c)) cs = map (\<lambda>r. (cr_kind r, cr_text r)) rs"
  unfolding results_match_def by (induction rule: list_all2_induct) auto

lemma admitted_keys:
  assumes "admit_input x = Ok a"
  shows "criterion_key ` set (ate_satisfactions a)
      = (\<lambda>r. (cr_kind r, cr_text r)) ` set (vb_criterion_results (ai_bundle x))"
proof -
  from assms have "results_match (bac_criteria (ai_behavior x)) (vb_criterion_results (ai_bundle x))"
    and a: "a = admitted_evidence (ai_behavior x) (ai_bundle x) (cbp_bundle_digest (ai_proof x))"
    by (simp_all add: admit_input_def admit_iff bundle_admissible_def)
  from results_match_keys [OF this(1)]
  have "set (map (\<lambda>c. (bc_kind c, bc_text c)) (bac_criteria (ai_behavior x)))
      = set (map (\<lambda>r. (cr_kind r, cr_text r)) (vb_criterion_results (ai_bundle x)))" by simp
  then show ?thesis
    by (simp add: a admitted_evidence_def image_image criterion_satisfaction_def criterion_key_def)
qed

lemma admitted_proves:
  assumes "admit_input x = Ok a" and "ate_run_id a = run" "ate_goal_id a = goal"
  shows "proves_criterion (ai_bundle x) run goal c \<longleftrightarrow> c \<in> criterion_key ` set (ate_satisfactions a)"
proof -
  from assms have b: "bundle_ok (ai_bundle x)" "vb_verdict (ai_bundle x) = BundlePass"
      "vb_run_id (ai_bundle x) = run" "vb_goal_id (ai_bundle x) = goal"
    by (auto simp: admit_input_def admit_iff bundle_admissible_def admitted_evidence_def)
  then have pass: "\<forall>r \<in> set (vb_criterion_results (ai_bundle x)). cr_verdict r = ResultPass"
    by (simp add: bundle_ok_def verdict_ok_def Let_def)
  show ?thesis
    unfolding admitted_keys [OF assms(1)] proves_criterion_def
    using b pass by (auto simp: bundle_ok_def)
qed

lemma aggregated_admissible:
  assumes "aggregable goal run admitted" and "length admitted < 2 ^ 32"
  shows "completion_admissible (required_completion_gate (gc_permission_profile goal) guards) goal
    (aggregated goal admitted) guards"
proof -
  let ?minimum = "max (cp_minimum_evidence_refs (gc_completion_precondition goal)) 1"
  have "distinct (map evidence_id admitted)" "unat ?minimum \<le> length admitted"
    using assms(1) by (simp_all add: aggregable_def)
  then have "unique_evidence_count (ce_evidence_refs (aggregated goal admitted)) = of_nat (length admitted)"
    by (simp add: unique_evidence_count_card aggregated_def distinct_card flip: set_map)
  moreover have "?minimum \<le> of_nat (length admitted)"
    using \<open>unat ?minimum \<le> length admitted\<close> assms(2) by (simp add: word_le_nat_alt unat_of_nat)
  ultimately show ?thesis
    using assms(1) by (simp add: completion_admissible_def aggregable_def aggregated_def)
qed

lemma aggregated_completion_accepted:
  assumes "list_all2 (\<lambda>x a. admit_input x = Ok a) inputs admitted"
    and "aggregate_completion_evidence goal run admitted = Ok evidence"
    and "length admitted < 2 ^ 32"
  shows "validate_run_transition_with_guard_requirements
      (required_completion_gate (gc_permission_profile goal) guards) Completed (Some goal) (Some evidence)
      guards = Ok ()
    \<and> (\<forall>c \<in> set (goal_criteria goal).
        \<exists>!i. i < length inputs \<and> proves_criterion (ai_bundle (inputs ! i)) run (gc_id goal) c)"
proof (intro conjI ballI)
  from assms(2) have agg: "aggregable goal run admitted" "evidence = aggregated goal admitted"
    by (simp_all add: aggregate_iff)
  then show "validate_run_transition_with_guard_requirements
      (required_completion_gate (gc_permission_profile goal) guards) Completed (Some goal) (Some evidence)
      guards = Ok ()"
    using aggregated_admissible [OF agg(1) assms(3)] by (simp add: validate_completion_iff)
  fix c assume c: "c \<in> set (goal_criteria goal)"
  have len: "length inputs = length admitted" using assms(1) by (rule list_all2_lengthD)
  have proves: "proves_criterion (ai_bundle (inputs ! i)) run (gc_id goal) c
      \<longleftrightarrow> c \<in> criterion_key ` set (ate_satisfactions (admitted ! i))" if "i < length inputs" for i
    using that len agg(1) list_all2_nthD [OF assms(1)]
    by (intro admitted_proves) (auto simp: aggregable_def)
  have "c \<in> criterion_key ` set (concat (map ate_satisfactions admitted))"
    and distinct: "distinct (map criterion_key (concat (map ate_satisfactions admitted)))"
    using agg(1) c by (auto simp: aggregable_def all_satisfactions_def)
  then obtain s where "s \<in> set (concat (map ate_satisfactions admitted))" "c = criterion_key s"
    by blast
  then obtain a where "a \<in> set admitted" "c \<in> criterion_key ` set (ate_satisfactions a)"
    by auto
  then obtain i where i: "i < length inputs" "c \<in> criterion_key ` set (ate_satisfactions (admitted ! i))"
    using len by (auto simp: in_set_conv_nth)
  have same: "j = i" if j: "j < length inputs" "c \<in> criterion_key ` set (ate_satisfactions (admitted ! j))" for j
  proof -
    obtain x where x: "x \<in> set (ate_satisfactions (admitted ! i))" "c = criterion_key x"
      using i(2) by blast
    obtain y where y: "y \<in> set (ate_satisfactions (admitted ! j))" "c = criterion_key y"
      using j(2) by blast
    show "j = i"
      by (rule concat_map_index [OF distinct, of j i y x]) (use x y i j len in simp_all)
  qed
  show "\<exists>!i. i < length inputs \<and> proves_criterion (ai_bundle (inputs ! i)) run (gc_id goal) c"
    by (rule ex1I [of _ i]) (use i same proves in blast)+
qed

text \<open>
  C27 (verified completion accepted). Verified completion. When the pass bundles of the tasks are admitted and their evidence
  is aggregated for a goal, the resulting completion evidence lets the run complete from the
  gate its profile and guards select, and every criterion of the goal was proved by the bundle
  of exactly one task: a bundle of this run and goal whose verifier is not the implementer.
\<close>

theorem verified_completion_accepted:
  assumes "list_all2 (\<lambda>x a. admit_input x = Ok a) inputs admitted"
    and "aggregate_completion_evidence goal run admitted = Ok evidence"
    and "length admitted < 2 ^ 32"
  shows "validate_run_transition_with_guard_requirements
      (required_completion_gate (gc_permission_profile goal) guards) Completed (Some goal) (Some evidence)
      guards = Ok ()
    \<and> (\<forall>c \<in> set (goal_criteria goal).
        \<exists>!i. i < length inputs \<and> proves_criterion (ai_bundle (inputs ! i)) run (gc_id goal) c)"
  using assms by (rule aggregated_completion_accepted)

section \<open>A sample\<close>

definition sample_digest :: "char \<Rightarrow> string" where
  "sample_digest c = replicate 64 c"

definition verified_policy :: local_machine_policy where
  "verified_policy =
    \<lparr>lmp_local_only = True, lmp_network = AccessDenied, lmp_provider = AccessDenied,
     lmp_telemetry = AccessDenied, lmp_egress = AccessDenied, lmp_external_evidence = AccessDenied,
     lmp_external_storage = AccessDenied, lmp_raw_shell = ShellForbidden,
     lmp_inherit_environment = False, lmp_fingerprint_algorithm = Sha256,
     lmp_allowed_executable_ids = bs_collect [''cargo''],
     lmp_allowed_environment_names = bs_collect [''RUST_LOG'']\<rparr>"

definition sample_capability :: "string \<Rightarrow> string \<Rightarrow> capability_definition" where
  "sample_capability i criterion =
    \<lparr>cd_contract_version = 1, cd_capability_id = i, cd_revision = 1, cd_criterion_ids = [criterion],
     cd_dependencies = [],
     cd_changed_path_selectors = [\<lparr>cps_kind = Prefix, cps_path = ''src/'' @ i\<rparr>],
     cd_policy = verified_policy,
     cd_commands = [\<lparr>vcm_command_id = ''test'', vcm_executable_id = ''cargo'',
       vcm_argv = [''test'', ''--locked''], vcm_cwd = SnapshotRoot,
       vcm_environment_names = bs_collect [''RUST_LOG'']\<rparr>]\<rparr>"

definition sample_input :: "task_id \<Rightarrow> behavior_kind \<Rightarrow> string \<Rightarrow> char \<Rightarrow> admission_input" where
  "sample_input i kind criterion c =
    \<lparr>ai_behavior = \<lparr>bac_contract_version = 1, bac_contract_id = ''contract.'' @ i,
       bac_binding = Bound ''goal'' i,
       bac_criteria = [\<lparr>bc_criterion_id = ''criterion.'' @ i, bc_order = 0, bc_kind = kind,
         bc_text = criterion, bc_required = True, bc_capability_ids = [''cap.'' @ i]\<rparr>]\<rparr>,
     ai_capabilities = [sample_capability (''cap.'' @ i) (''criterion.'' @ i)],
     ai_bundle = \<lparr>vb_contract_version = 1, vb_bundle_id = ''bundle.'' @ i, vb_run_id = ''run'',
       vb_goal_id = ''goal'', vb_task_id = i, vb_behavior_contract_id = ''contract.'' @ i,
       vb_capability_ids = [''cap.'' @ i], vb_implementation_actor = ''engineer'',
       vb_verifier_actor = ''verifier'',
       vb_fingerprints = \<lparr>vfp_source_pre = sample_digest CHR ''1'', vfp_source_post = sample_digest CHR ''1'',
         vfp_behavior_contract = sample_digest CHR ''2'', vfp_capability_set = sample_digest CHR ''3'',
         vfp_command = sample_digest CHR ''4'', vfp_policy = sample_digest CHR ''5'',
         vfp_environment = sample_digest CHR ''6''\<rparr>,
       vb_criterion_results = [\<lparr>cr_criterion_id = ''criterion.'' @ i, cr_order = 0, cr_kind = kind,
         cr_text = criterion, cr_verdict = ResultPass\<rparr>],
       vb_failures = [], vb_verdict = BundlePass, vb_created_at = 7\<rparr>,
     ai_proof = \<lparr>cbp_contract_version = 1, cbp_bundle_digest = sample_digest c,
       cbp_checksum_verified = True, cbp_integrity_verified = True, cbp_current_pointer_verified = True,
       cbp_current_pointer_digest = sample_digest c, cbp_expected_run_id = ''run'',
       cbp_expected_goal_id = ''goal'', cbp_expected_task_id = i,
       cbp_expected_behavior_contract_digest = sample_digest CHR ''2'',
       cbp_expected_capability_set_digest = sample_digest CHR ''3'',
       cbp_expected_command_digest = sample_digest CHR ''4'',
       cbp_expected_policy_digest = sample_digest CHR ''5'',
       cbp_expected_source_digest = sample_digest CHR ''1'',
       cbp_expected_environment_digest = sample_digest CHR ''6''\<rparr>\<rparr>"

definition sample_inputs :: "admission_input list" where
  "sample_inputs = [sample_input ''build'' BehaviorAcceptance ''it builds'' CHR ''a'',
     sample_input ''check'' BehaviorDefinitionOfDone ''it is checked'' CHR ''b'']"

definition verified_goal :: goal_contract where
  "verified_goal =
    \<lparr>gc_contract_version = 1, gc_id = ''goal'', gc_project_id = ''project'', gc_objective = ''ship'',
     gc_constraints = [], gc_acceptance_criteria = [''it builds''], gc_verification_criteria = [],
     gc_permission_profile = \<lparr>pp_contract_version = 1, pp_risk_tier = R1, pp_resource_keys = [],
       pp_write_keys = [], pp_approval_required = False, pp_review_required = True,
       pp_audit_required = False\<rparr>,
     gc_definition_of_done = [''it is checked''],
     gc_completion_precondition = \<lparr>cp_contract_version = 1, cp_minimum_evidence_refs = 2,
       cp_require_all_acceptance_criteria = True, cp_require_all_verification_criteria = True\<rparr>,
     gc_created_at = 1, gc_updated_at = 1\<rparr>"


lemma sample_digest_valid [simp]: "lower_hex_digit c \<Longrightarrow> valid_digest (sample_digest c)"
  by (simp add: valid_digest_def sample_digest_def list_all_iff)

lemma sample_chars [simp]: "list_all lower_hex_digit ''123456ab''"
  by code_simp

lemma sample_ids:
  "list_all stable_id [''run'', ''goal'', ''build'', ''check'', ''bundle.build'', ''bundle.check'',
     ''contract.build'', ''contract.check'', ''criterion.build'', ''criterion.check'', ''cap.build'',
     ''cap.check'', ''engineer'', ''verifier'', ''test'', ''cargo'']"
  by code_simp

lemma sample_fields:
  "list_all text_ok [''it builds'', ''it is checked'']" "list_all path_ok [''src/cap.build'', ''src/cap.check'']"
  "list_all argument_ok [''test'', ''--locked'']" "environment_name_ok ''RUST_LOG''"
  "executable_ok ''cargo''"
  by code_simp+

lemma bm_keys_singleton: "bm_keys (bs_collect [x]) = [x]"
  by (simp add: bs_collect_def bm_collect_def bm_keys_def)

lemma verified_policy_ok: "policy_ok verified_policy"
  using sample_fields by (simp add: policy_ok_def verified_policy_def bm_keys_singleton)

lemma sample_capability_ok:
  "stable_id i \<Longrightarrow> path_ok (''src/'' @ i) \<Longrightarrow> stable_id criterion \<Longrightarrow>
   capability_ok (sample_capability i criterion)"
  using sample_ids sample_fields verified_policy_ok
  by (simp add: capability_ok_def non_command_fields_ok_def sample_capability_def ids_ok_def
      command_ok_def verified_policy_def bm_keys_singleton)

definition sample_admitted :: "task_id \<Rightarrow> behavior_kind \<Rightarrow> string \<Rightarrow> char \<Rightarrow> admitted_task_evidence" where
  "sample_admitted i kind criterion c =
    (let x = sample_input i kind criterion c in admitted_evidence (ai_behavior x) (ai_bundle x) (sample_digest c))"

lemma sample_input_admitted:
  assumes "list_all stable_id [i, ''contract.'' @ i, ''criterion.'' @ i, ''cap.'' @ i, ''bundle.'' @ i]"
    and "path_ok (''src/cap.'' @ i)" "text_ok criterion" "lower_hex_digit c"
  shows "admit_input (sample_input i kind criterion c) = Ok (sample_admitted i kind criterion c)"
proof -
  let ?x = "sample_input i kind criterion c"
  have cap: "capability_ok (sample_capability (''cap.'' @ i) (''criterion.'' @ i))"
    using assms by (intro sample_capability_ok) simp_all
  have "results_match (bac_criteria (ai_behavior ?x)) (vb_criterion_results (ai_bundle ?x))"
    by (simp add: results_match_def sample_input_def)
  moreover have "behavior_ok (ai_behavior ?x)"
    using assms sample_ids
    by (simp add: behavior_ok_def result_iff binding_ok_def criteria_ok_def in_order_def ids_ok_def
        sample_input_def)
  moreover have "bundle_ok (ai_bundle ?x)"
    using assms sample_ids sample_chars
    by (simp add: bundle_ok_def ids_ok_def fingerprints_ok_def results_ok_def in_order_def
        verdict_ok_def sample_input_def)
  moreover have "proof_ok (ai_proof ?x)"
    using assms sample_chars by (simp add: proof_ok_def sample_input_def)
  ultimately have "bundle_admissible (ai_behavior ?x) (ai_capabilities ?x) (ai_bundle ?x) (ai_proof ?x)"
    using cap
    by (simp add: bundle_admissible_def sample_input_def capabilities_bound_def digest_matches_def
        sample_capability_def)
  then show ?thesis
    by (simp add: admit_input_def admit_iff sample_admitted_def Let_def) (simp add: sample_input_def)
qed

definition sample_admissions :: "admitted_task_evidence list" where
  "sample_admissions = [sample_admitted ''build'' BehaviorAcceptance ''it builds'' CHR ''a'',
     sample_admitted ''check'' BehaviorDefinitionOfDone ''it is checked'' CHR ''b'']"

lemma sample_inputs_admitted: "list_all2 (\<lambda>x a. admit_input x = Ok a) sample_inputs sample_admissions"
  using sample_ids sample_fields sample_chars
  by (simp add: sample_inputs_def sample_admissions_def sample_input_admitted)

lemma sample_admitted_simps [simp]:
  "ate_run_id (sample_admitted i kind criterion c) = ''run''"
  "ate_goal_id (sample_admitted i kind criterion c) = ''goal''"
  "ate_task_id (sample_admitted i kind criterion c) = i"
  "evidence_id (sample_admitted i kind criterion c) = evidence_id_of (sample_digest c)"
  "ate_satisfactions (sample_admitted i kind criterion c) =
     [\<lparr>acs_criterion_id = ''criterion.'' @ i, acs_kind = kind, acs_text = criterion\<rparr>]"
  by (simp_all add: sample_admitted_def Let_def admitted_evidence_def sample_input_def
      bundle_evidence_ref_def criterion_satisfaction_def)

lemma sample_aggregable: "aggregable verified_goal ''run'' sample_admissions"
proof -
  have "list_all admitted_ok sample_admissions"
    using sample_inputs_admitted
    by (auto simp: sample_inputs_def sample_admissions_def admit_input_def admit_iff
        intro: admitted_evidence_ok)
  moreover have "sample_digest CHR ''a'' \<noteq> sample_digest CHR ''b''"
    by (simp add: sample_digest_def)
  ultimately show ?thesis
    using sample_ids sample_fields
    by (auto simp: aggregable_def verified_goal_def sample_admissions_def goal_criteria_def
        all_satisfactions_def criterion_key_def evidence_id_of_def)
qed

theorem verified_completion_accepted_witness:
  "validate_run_transition_with_guard_requirements Reviewing Completed (Some verified_goal)
     (Some (aggregated verified_goal sample_admissions)) {} = Ok ()"
proof -
  have "length sample_admissions < 2 ^ 32" by (simp add: sample_admissions_def)
  from verified_completion_accepted [OF sample_inputs_admitted _ this, of verified_goal "''run''"
      "aggregated verified_goal sample_admissions" "{}"] sample_aggregable
  show ?thesis
    by (simp add: aggregate_iff required_completion_gate_def verified_goal_def)
qed

end
