(* ===== verification/Targeted_Rerun_Properties.thy ===== *)
theory Targeted_Rerun_Properties
  imports Targeted_Rerun_Safety Verification_Properties
begin

text \<open>
  The properties of the rerun selection, with a registry of three capabilities on which they
  are applied. The sample codec encodes a value by one of its identifiers.
\<close>

section \<open>The dependency check\<close>

lemma visit_all_cases:
  "visit_all deps ids state = Ok () \<or> (\<exists>d. visit_all deps ids state = Err (BlockedDependencyCycle, d))"
  by (induction deps ids state rule: visit_all.induct) (auto split: prod.splits bool.splits)

lemma checks_cases:
  "(\<And>c. c \<in> set cs \<Longrightarrow> c = Ok () \<or> (\<exists>d. c = Err (code, d))) \<Longrightarrow>
    checks cs = Ok () \<or> (\<exists>d. checks cs = Err (code, d))"
proof (induction cs)
  case (Cons c cs)
  then have "checks cs = Ok () \<or> (\<exists>d. checks cs = Err (code, d))" by simp
  moreover have "c = Ok () \<or> (\<exists>d. c = Err (code, d))" using Cons.prems by simp
  ultimately show ?case by auto
qed simp

text \<open>
  C30 (dependency check exact). Dependency check. For a registry with distinct capability IDs, the dependency check
  accepts exactly when every dependency is a registered capability and no capability depends
  on itself through others; otherwise it names the first reason, a missing dependency before
  a cycle. The recursive visit always ends.
\<close>

theorem dependency_check_exact:
  assumes "distinct (map row_id rows)"
  shows "(validate_dependency_graph rows = Ok () \<longleftrightarrow>
      registry_complete rows \<and> acyclic (registry_depends rows))
    \<and> ((\<exists>d. validate_dependency_graph rows = Err (BlockedMissingDependency, d)) \<longleftrightarrow>
      \<not> registry_complete rows)
    \<and> ((\<exists>d. validate_dependency_graph rows = Err (BlockedDependencyCycle, d)) \<longleftrightarrow>
      registry_complete rows \<and> \<not> acyclic (registry_depends rows))"
proof -
  let ?missing = "checks (concat (map (\<lambda>row. map (check_dependency (set (map row_id rows)) row) (row_dependencies row)) rows))"
  have missing: "?missing = Ok () \<or> (\<exists>d. ?missing = Err (BlockedMissingDependency, d))"
    by (intro checks_cases) (auto simp: check_dependency_def require_def)
  have complete: "?missing = Ok () \<longleftrightarrow> registry_complete rows"
    by (auto simp: result_iff check_dependency_def registry_complete_def registry_depends_def)
  note iff = dependency_graph_iff [OF assms, of "()"]
  show ?thesis
  proof (cases "registry_complete rows")
    case True
    then have "validate_dependency_graph rows = Ok ()
        \<or> (\<exists>d. validate_dependency_graph rows = Err (BlockedDependencyCycle, d))"
      using complete visit_all_cases by (simp add: validate_dependency_graph_def Let_def)
    then show ?thesis using True iff by auto
  next
    case False
    then obtain d where "validate_dependency_graph rows = Err (BlockedMissingDependency, d)"
      using complete missing by (auto simp: validate_dependency_graph_def Let_def)
    then show ?thesis using False by simp
  qed
qed

section \<open>What a selection covers\<close>

text \<open>
  C29 (selection covers change). Selection covers the change. A selection that is made selects, when some selector
  recognises every changed path, exactly the capabilities that depend on a touched one and
  all they depend on, and otherwise, only under the full-safe policy, the whole registry. So it
  always contains each capability a changed path touches and is closed under dependencies,
  the unknown paths are listed, and each selected capability carries the revision and digest
  of its row; the selection passes its own validation.
\<close>

theorem selection_covers_change:
  assumes "select_targeted_rerun C request snapshot = RerunSelected selection"
  shows "let rows = crs_capabilities snapshot;
      paths = set (logical_paths (trr_changed_paths request));
      ids = set (map sc_capability_id (trs_capabilities selection))
    in ids = (if unknown_among rows paths = {} then concerned rows (touched_ids rows paths)
              else row_id ` set rows)
     \<and> (unknown_among rows paths \<noteq> {} \<longrightarrow> trr_unknown_path_policy request = PolicyFullSafe)
     \<and> touched_ids rows paths \<subseteq> ids \<and> registry_depends rows `` ids \<subseteq> ids
     \<and> set (trs_unknown_paths selection) = unknown_among rows paths
     \<and> set (trs_capabilities selection) \<subseteq> selected_of ` set rows
     \<and> validate_selection C selection = Ok ()"
proof -
  let ?rows = "crs_capabilities snapshot"
  let ?paths = "set (logical_paths (trr_changed_paths request))"
  from assms obtain mode ids where sel: "snapshot_ok C snapshot"
      "selected_ids request ?rows = Some (mode, ids)"
      "new_selection C request snapshot mode (sorted_list_of_set (unknown_among ?rows ?paths))
         (picked ?rows ids) = Ok selection"
    unfolding select_iff by blast
  note rows = snapshot_ok_rows [OF sel(1)] and fields = new_selection_fields [OF sel(3)]
  have sub: "ids \<subseteq> row_id ` set ?rows" using selected_ids_rows [OF rows(3) sel(2)] .
  then have "finite ids" by (rule finite_subset) simp
  then have ids: "set (map sc_capability_id (trs_capabilities selection)) = ids"
    unfolding fields(4) picked_ids(1) [OF rows(2) sub] by simp
  have eq: "ids = (if unknown_among ?rows ?paths = {} then concerned ?rows (touched_ids ?rows ?paths)
      else row_id ` set ?rows)"
    and policy: "unknown_among ?rows ?paths \<noteq> {} \<longrightarrow> trr_unknown_path_policy request = PolicyFullSafe"
    using sel(2) by (auto simp: selected_ids_def Let_def split: if_splits)
  have "touched_ids ?rows ?paths \<subseteq> ids"
    unfolding eq concerned_def by (auto simp: touched_ids_def)
  moreover have "registry_depends ?rows `` ids \<subseteq> ids"
    using rows(3) unfolding eq concerned_def registry_complete_def
    by (auto intro: rtrancl_into_rtrancl)
  moreover have "set (trs_unknown_paths selection) = unknown_among ?rows ?paths"
    unfolding fields(3) by (simp add: unknown_among_def)
  moreover have "set (trs_capabilities selection) \<subseteq> selected_of ` set ?rows"
    unfolding fields(4) using picked_ids(2) [OF rows(2) sub] by auto
  ultimately show ?thesis
    unfolding Let_def ids using eq policy fields(1) by blast
qed

text \<open>
  Validate against exact. Selection in context. A selection is accepted against a request and a registry snapshot
  exactly when it is the selection they give, so no other selection, however well formed and
  digested, passes.
\<close>

theorem validate_against_exact:
  "validate_against C self request snapshot = Ok () \<longleftrightarrow>
     select_targeted_rerun C request snapshot = RerunSelected self"
proof
  assume "validate_against C self request snapshot = Ok ()"
  then show "select_targeted_rerun C request snapshot = RerunSelected self"
    by (auto simp: validate_against_def result_iff split: targeted_rerun_outcome.splits)
next
  assume selected: "select_targeted_rerun C request snapshot = RerunSelected self"
  then have "validate_rerun_request request = Ok ()" "snapshot_ok C snapshot"
      "validate_selection C self = Ok ()"
    unfolding select_iff by (auto dest: new_selection_fields)
  then show "validate_against C self request snapshot = Ok ()"
    using selected by (simp add: validate_against_def snapshot_ok_def)
qed

text \<open>
  Selection found. A selection is always found. For a valid request that changes something and a valid,
  nonempty registry, where the JSON encoders do not fail, there is a selection exactly when
  every changed path is recognised or the policy is full-safe: the remaining failures of the
  source are never met.
\<close>

theorem selection_found:
  assumes "validate_rerun_request request = Ok ()" and "snapshot_ok C snapshot"
    and "trr_changed_paths request \<noteq> []" "crs_capabilities snapshot \<noteq> []"
    and "encodes_selections C request"
  shows "(\<exists>selection. select_targeted_rerun C request snapshot = RerunSelected selection) \<longleftrightarrow>
      unknown_among (crs_capabilities snapshot) (set (logical_paths (trr_changed_paths request))) = {}
      \<or> trr_unknown_path_policy request = PolicyFullSafe"
proof -
  have "ids \<noteq> {}" if "selected_ids request (crs_capabilities snapshot) = Some (mode, ids)" for mode ids
    using that assms(4) touched_nonempty [OF assms(3)]
    by (fastforce simp: selected_ids_def Let_def concerned_def split: if_splits)
  then have "(\<exists>selection. select_targeted_rerun C request snapshot = RerunSelected selection) \<longleftrightarrow>
      (\<exists>mode ids. selected_ids request (crs_capabilities snapshot) = Some (mode, ids))"
    unfolding select_iff using assms new_selection_succeeds [OF assms(1,2,5)] by blast
  then show ?thesis by (auto simp: selected_ids_def Let_def)
qed

section \<open>A sample\<close>

definition ascii_bytes :: "string \<Rightarrow> byte list" where
  "ascii_bytes s = map of_char s"

definition sample_rerun_codec :: rerun_codec where
  "sample_rerun_codec =
    \<lparr>rc_capability = \<lambda>d. Inr (ascii_bytes (cd_capability_id d)),
     rc_manifest = \<lambda>es. Inr (ascii_bytes (concat (map cpe_path es))),
     rc_state = \<lambda>s. Inr (ascii_bytes (csd_capability_id s)),
     rc_registry = \<lambda>is. Inr (ascii_bytes (concat (map ri_capability_id is))),
     rc_selection = \<lambda>p. Inr (ascii_bytes (trs_task_id p))\<rparr>"

definition sample_row :: "string \<Rightarrow> string list \<Rightarrow> path_selector_kind \<Rightarrow> string \<Rightarrow> capability_registry_row" where
  "sample_row i deps kind path =
    \<lparr>crr_definition = (sample_capability i ''criterion.build'')
       \<lparr>cd_dependencies := deps, cd_changed_path_selectors := [\<lparr>cps_kind = kind, cps_path = path\<rparr>]\<rparr>,
     crr_record_digest = sha256_hex (ascii_bytes i), crr_generation = 1,
     crr_state_digest = sha256_hex (ascii_bytes i)\<rparr>"

definition sample_registry :: "capability_registry_row list" where
  "sample_registry = [sample_row ''api'' [''core''] Prefix ''src/api'',
     sample_row ''core'' [] Exact ''src/core.rs'', sample_row ''e2e'' [''api''] Prefix ''tests/e2e'']"

definition sample_snapshot :: capability_registry_snapshot where
  "sample_snapshot = \<lparr>crs_capabilities = sample_registry,
     crs_registry_snapshot_digest = sha256_hex (ascii_bytes ''apicoree2e'')\<rparr>"

definition sample_rerun_request :: targeted_rerun_request where
  "sample_rerun_request =
    \<lparr>trr_contract_version = 1, trr_run_id = ''run'', trr_goal_id = ''goal'', trr_task_id = ''build'',
     trr_source_fingerprint = sample_digest CHR ''1'', trr_policy_digest = sample_digest CHR ''2'',
     trr_changed_paths = [\<lparr>cpe_kind = PathModified, cpe_path = ''src/api/mod.rs'', cpe_previous_path = None\<rparr>],
     trr_unknown_path_policy = PolicyBlocked\<rparr>"

lemma sample_rerun_ids: "list_all stable_id [''api'', ''core'', ''e2e'']"
  by code_simp

lemma sample_rerun_paths:
  "list_all path_ok [''src/api'', ''src/core'', ''src/e2e'', ''src/core.rs'', ''tests/e2e'', ''src/api/mod.rs'']"
  by code_simp

lemma sample_row_ok:
  assumes "stable_id i" "ids_ok deps" "i \<notin> set deps" "path_ok path" "path_ok (''src/'' @ i)"
  shows "row_ok sample_rerun_codec (sample_row i deps kind path)"
proof -
  have "capability_ok (sample_capability i ''criterion.build'')"
    using assms(1,5) sample_ids by (intro sample_capability_ok) simp_all
  then have "capability_ok (crr_definition (sample_row i deps kind path))"
    using assms by (simp add: sample_row_def capability_ok_def non_command_fields_ok_def
        sample_capability_def)
  then show ?thesis
    by (simp add: row_ok_def sample_rerun_codec_def sample_row_def sha256_hex_def row_state_def
        sample_capability_def)
qed

lemma sample_row_fields [simp]:
  "row_id (sample_row i deps kind path) = i" "row_dependencies (sample_row i deps kind path) = deps"
  "touches (sample_row i deps kind path) p \<longleftrightarrow> selector_matches kind path p"
  by (simp_all add: row_id_def row_dependencies_def sample_row_def sample_capability_def touches_def)

lemma sample_registry_ids: "distinct (map row_id sample_registry)"
  by (simp add: sample_registry_def)

lemma sample_registry_depends: "registry_depends sample_registry = {(''api'', ''core''), (''e2e'', ''api'')}"
  by (auto simp: registry_depends_def sample_registry_def)

lemma sample_registry_acyclic: "acyclic (registry_depends sample_registry)"
  unfolding sample_registry_depends
  by (rule acyclicI_order [of _ "\<lambda>i. if i = ''core'' then 0 else if i = ''api'' then 1 else 2 :: nat"]) auto

lemma sample_registry_complete: "registry_complete sample_registry"
  unfolding registry_complete_def sample_registry_depends by (simp add: sample_registry_def)

theorem dependency_check_exact_witness: "validate_dependency_graph sample_registry = Ok ()"
  using dependency_check_exact [OF sample_registry_ids] sample_registry_complete
    sample_registry_acyclic by blast

lemma sample_snapshot_ok: "snapshot_ok sample_rerun_codec sample_snapshot"
proof -
  have "rows_ok sample_rerun_codec sample_registry"
    using sample_rerun_ids sample_rerun_paths
    by (simp add: rows_ok_def sample_registry_def sample_row_ok ids_ok_def)
  moreover have "registry_snapshot_digest sample_rerun_codec sample_registry
      = Ok (sha256_hex (ascii_bytes ''apicoree2e''))"
    by (simp add: registry_snapshot_digest_def sample_rerun_codec_def sample_registry_def
        row_identity_def flip: row_id_def) (simp add: serialized_def)
  ultimately show ?thesis
    using dependency_graph_iff [OF sample_registry_ids, of "()"] sample_registry_complete
      sample_registry_acyclic
    by (simp add: snapshot_ok_def validate_snapshot_def sample_snapshot_def result_iff sha256_hex_def)
qed

lemma sample_request_ok: "validate_rerun_request sample_rerun_request = Ok ()"
  using sample_ids sample_chars sample_rerun_paths
  by (simp add: validate_rerun_request_def sample_rerun_request_def result_iff
      local_verification_contract_version_def validate_manifest_def validate_entry_def
      validate_previous_path_def take_affected_def insert_new_def)

lemma sample_encodes: "encodes_selections sample_rerun_codec sample_rerun_request"
  by (simp add: encodes_selections_def sample_rerun_codec_def)

lemma touched_ids_simps:
  "touched_ids [] paths = {}"
  "touched_ids (row # rows) paths = (if \<exists>p \<in> paths. touches row p
     then insert (row_id row) (touched_ids rows paths) else touched_ids rows paths)"
  by (auto simp: touched_ids_def)

lemma sample_touched:
  "unknown_among sample_registry (set (logical_paths (trr_changed_paths sample_rerun_request))) = {}"
  "touched_ids sample_registry (set (logical_paths (trr_changed_paths sample_rerun_request))) = {''api''}"
  by (simp_all add: unknown_among_def touched_ids_simps sample_registry_def sample_rerun_request_def
      logical_paths_def selector_matches_def)

theorem selection_found_witness:
  "\<exists>selection. select_targeted_rerun sample_rerun_codec sample_rerun_request sample_snapshot
     = RerunSelected selection"
  using selection_found [OF sample_request_ok sample_snapshot_ok _ _ sample_encodes] sample_touched
  by (simp add: sample_snapshot_def) (simp add: sample_registry_def sample_rerun_request_def)

lemma sample_selected:
  obtains selection where
    "select_targeted_rerun sample_rerun_codec sample_rerun_request sample_snapshot = RerunSelected selection"
proof -
  let ?ids = "concerned sample_registry {''api''}"
  have ids: "selected_ids sample_rerun_request (crs_capabilities sample_snapshot) = Some (ModeTargeted, ?ids)"
    using sample_touched by (simp add: selected_ids_def Let_def sample_snapshot_def)
  have "''api'' \<in> ?ids" by (auto simp: concerned_def)
  then have "?ids \<noteq> {}" by auto
  from new_selection_succeeds [OF sample_request_ok sample_snapshot_ok sample_encodes ids this] ids
  show thesis
    using that sample_request_ok sample_snapshot_ok unfolding select_iff
    by (auto simp: sample_snapshot_def sample_registry_def sample_rerun_request_def)
qed

theorem selection_covers_change_witness:
  "\<exists>selection. select_targeted_rerun sample_rerun_codec sample_rerun_request sample_snapshot
      = RerunSelected selection
    \<and> {''api'', ''core''} \<subseteq> set (map sc_capability_id (trs_capabilities selection))"
proof -
  obtain selection where selection:
    "select_targeted_rerun sample_rerun_codec sample_rerun_request sample_snapshot = RerunSelected selection"
    by (rule sample_selected)
  let ?ids = "set (map sc_capability_id (trs_capabilities selection))"
  let ?rows = "crs_capabilities sample_snapshot"
  have "touched_ids ?rows (set (logical_paths (trr_changed_paths sample_rerun_request))) \<subseteq> ?ids
      \<and> registry_depends ?rows `` ?ids \<subseteq> ?ids"
    using selection_covers_change [OF selection] unfolding Let_def by blast
  then have "{''api''} \<subseteq> ?ids" "{(''api'', ''core''), (''e2e'', ''api'')} `` ?ids \<subseteq> ?ids"
    by (simp_all add: sample_snapshot_def sample_touched(2) sample_registry_depends)
  then show ?thesis using selection by blast
qed

end
