(* ===== verification/Verification_Binding_Properties.thy ===== *)
theory Verification_Binding_Properties
  imports Verification_Binding Targeted_Rerun_Properties
begin

text \<open>
  What the binding check of \<open>Verification_Binding\<close> means: exactly what an accepted bundle is
  bound to, and that an accepted pass bundle is admitted as evidence of its task; with a sample
  bundle that is accepted.
\<close>

text \<open>
  C32 (bundle bindings exact). What a bundle is bound to. A bundle of any verdict is accepted against a behavior, a
  selection, capability definitions and a transcript exactly when all of them are valid, run,
  goal and task agree, the definitions are the selected ones by identity, revision and recorded
  digest, criteria and capabilities name each other and are answered in order, each fingerprint is
  recomputed, the commands that ran are the first planned ones (all of them, with exit code zero,
  for a pass), the verdict is the worst of the results, and the bundle ID is derived from all
  of it.
\<close>

theorem bundle_bindings_exact:
  "validate_verification_bundle_bindings C behavior ds selection bundle transcript = Ok ()
     \<longleftrightarrow> bundle_bound C behavior ds selection bundle transcript"
  by (rule bindings_iff)

text \<open>A proof of currency that expects what is recomputed from the verified inputs.\<close>

definition expects_recomputed ::
    "bundle_codec \<Rightarrow> behavioral_acceptance_contract \<Rightarrow> capability_definition list \<Rightarrow>
     targeted_rerun_selection \<Rightarrow> current_bundle_proof \<Rightarrow> bool" where
  "expects_recomputed C behavior ds selection p \<longleftrightarrow>
     cbp_expected_run_id p = trs_run_id selection \<and> cbp_expected_goal_id p = trs_goal_id selection
   \<and> cbp_expected_task_id p = trs_task_id selection
   \<and> verification_behavior_digest C behavior = Ok (cbp_expected_behavior_contract_digest p)
   \<and> verification_capability_set_digest C selection = Ok (cbp_expected_capability_set_digest p)
   \<and> verification_command_set_digest C ds = Ok (cbp_expected_command_digest p)
   \<and> verification_policy_digest C ds = Ok (cbp_expected_policy_digest p)
   \<and> cbp_expected_source_digest p = trs_source_fingerprint selection"

lemma bound_pass_admitted:
  assumes "validate_verification_bundle_bindings C behavior ds selection bundle transcript = Ok ()"
    and "vb_verdict bundle = BundlePass"
    and "validate_proof p = Ok ()" "expects_recomputed C behavior ds selection p"
    and "cbp_expected_environment_digest p = vfp_environment (vb_fingerprints bundle)"
  shows "admit_current_pass_bundle behavior ds bundle p
      = Ok (admitted_evidence behavior bundle (cbp_bundle_digest p))
    \<and> all_succeeded ds (vti_commands transcript)"
proof -
  note bound = assms(1) [unfolded bindings_iff bundle_bound_def]
  have digests: "cbp_expected_behavior_contract_digest p = vfp_behavior_contract (vb_fingerprints bundle)"
      "cbp_expected_capability_set_digest p = vfp_capability_set (vb_fingerprints bundle)"
      "cbp_expected_command_digest p = vfp_command (vb_fingerprints bundle)"
      "cbp_expected_policy_digest p = vfp_policy (vb_fingerprints bundle)"
      "cbp_expected_source_digest p = vfp_source_pre (vb_fingerprints bundle)"
    using bound assms(4) by (simp_all add: expects_recomputed_def)
  have ok: "bundle_ok bundle" using bound by blast
  then have pass: "\<forall>r \<in> set (vb_criterion_results bundle). cr_verdict r = ResultPass"
      "vfp_source_pre (vb_fingerprints bundle) = vfp_source_post (vb_fingerprints bundle)"
    using assms(2) by (simp_all add: bundle_ok_def verdict_ok_def Let_def)
  have "list_all2 (\<lambda>c r. same_criterion c r \<and> cr_verdict r = ResultPass)
      (bac_criteria behavior) (vb_criterion_results bundle)"
    using bound pass(1) by (auto simp: list_all2_conv_all_nth)
  then have results: "results_match (bac_criteria behavior) (vb_criterion_results bundle)"
    unfolding results_match_def by (rule list_all2_mono) (simp add: same_criterion_def)
  have ids: "vb_capability_ids bundle = map cd_capability_id ds" using bound by blast
  moreover have "sorted_wrt (<) (vb_capability_ids bundle)"
    using ok unfolding bundle_ok_def ids_ok_def by blast
  ultimately have distinct: "distinct (map cd_capability_id ds)"
    by (metis sorted_strict_distinct)
  have caps: "\<forall>d \<in> set ds. capability_ok d"
    using bound by (auto simp: list_all2_conv_all_nth in_set_conv_nth is_selected_def)
  have "bundle_admissible behavior ds bundle p"
    unfolding bundle_admissible_def digest_matches_def digests assms(5)
    using bound ok pass results distinct caps assms(2-4) ids claims_bound
    by (simp add: result_iff expects_recomputed_def)
  then show ?thesis using bound assms(2) by (simp add: admit_iff)
qed

text \<open>
  C33 (bound pass bundle admitted). Bound bundles are admitted. A pass bundle that passes the binding check is admitted as the
  evidence of its task by every valid proof of currency that expects the recomputed digests and
  the environment of the bundle: the admission has no further ground to refuse it, and what it
  admits ran every planned command to exit code zero.
\<close>

theorem bound_pass_bundle_admitted:
  assumes "validate_verification_bundle_bindings C behavior ds selection bundle transcript = Ok ()"
    and "vb_verdict bundle = BundlePass"
    and "validate_proof p = Ok ()" "expects_recomputed C behavior ds selection p"
    and "cbp_expected_environment_digest p = vfp_environment (vb_fingerprints bundle)"
  shows "admit_current_pass_bundle behavior ds bundle p
      = Ok (admitted_evidence behavior bundle (cbp_bundle_digest p))
    \<and> all_succeeded ds (vti_commands transcript)"
  using assms by (rule bound_pass_admitted)

section \<open>A sample\<close>

text \<open>One task with one capability; the codec encodes just enough, digests stay symbolic.\<close>

definition line_feed_digest :: string where
  "line_feed_digest = verification_sha256_hex [10]"

text \<open>The digest of \<open>RUST_LOG=warn\<close> in the envelope of environment bindings.\<close>

definition bound_environment_digest :: string where
  "bound_environment_digest = verification_sha256_hex
    (ascii_bytes ''ovca.environment-bindings.v1'' @ [0] @ be_bytes 8 @ ascii_bytes ''RUST_LOG''
      @ be_bytes 4 @ ascii_bytes ''warn'')"

definition bound_codec :: bundle_codec where
  "bound_codec =
    \<lparr>bcd_rerun = sample_rerun_codec, bcd_behavior = \<lambda>b. Inr (ascii_bytes (bac_contract_id b)),
     bcd_transcript = \<lambda>_. Inr [], bcd_command = \<lambda>_. Inr [], bcd_identity = \<lambda>_. Inr [],
     bcd_capability_set = \<lambda>_. Inr [], bcd_command_set = \<lambda>_. Inr [], bcd_policy_set = \<lambda>_. Inr []\<rparr>"

definition bound_capability :: capability_definition where
  "bound_capability = sample_capability ''cap.build'' ''criterion.build''"

definition bound_registry :: capability_registry_snapshot where
  "bound_registry =
    \<lparr>crs_capabilities = [\<lparr>crr_definition = bound_capability,
       crr_record_digest = sha256_hex (ascii_bytes ''cap.build''), crr_generation = 1,
       crr_state_digest = sha256_hex (ascii_bytes ''cap.build'')\<rparr>],
     crs_registry_snapshot_digest = sha256_hex (ascii_bytes ''cap.build'')\<rparr>"

definition bound_request :: targeted_rerun_request where
  "bound_request =
    \<lparr>trr_contract_version = 1, trr_run_id = ''run'', trr_goal_id = ''goal'', trr_task_id = ''build'',
     trr_source_fingerprint = line_feed_digest, trr_policy_digest = line_feed_digest,
     trr_changed_paths = [\<lparr>cpe_kind = PathModified, cpe_path = ''src/cap.build'', cpe_previous_path = None\<rparr>],
     trr_unknown_path_policy = PolicyBlocked\<rparr>"

definition bound_selection :: targeted_rerun_selection where
  "bound_selection = unsealed bound_request bound_registry
     (sha256_hex (ascii_bytes ''src/cap.build'')) ModeTargeted []
     [selected_of (hd (crs_capabilities bound_registry))] (sha256_hex (ascii_bytes ''build''))"

definition bound_behavior :: behavioral_acceptance_contract where
  "bound_behavior = \<lparr>bac_contract_version = 1, bac_contract_id = ''contract.build'',
     bac_binding = Bound ''goal'' ''build'',
     bac_criteria = [\<lparr>bc_criterion_id = ''criterion.build'', bc_order = 0, bc_kind = BehaviorVerification,
       bc_text = ''it builds'', bc_required = True, bc_capability_ids = [''cap.build'']\<rparr>]\<rparr>"

definition bound_transcript :: verification_transcript_identity where
  "bound_transcript = \<lparr>vti_commands = [\<lparr>tci_sequence = 0, tci_command_digest = line_feed_digest,
     tci_executable_digest = sample_digest CHR ''2'', tci_termination = RunCompleted,
     tci_exit_code = Some 0, tci_stdout_sha256 = sample_digest CHR ''3'',
     tci_stderr_sha256 = sample_digest CHR ''4'', tci_stdout_bytes = 5, tci_stderr_bytes = 0\<rparr>]\<rparr>"

definition bound_bundle :: verification_bundle where
  "bound_bundle = \<lparr>vb_contract_version = 1, vb_bundle_id = ''bundle.sha256.'' @ line_feed_digest,
     vb_run_id = ''run'', vb_goal_id = ''goal'', vb_task_id = ''build'',
     vb_behavior_contract_id = ''contract.build'', vb_capability_ids = [''cap.build''],
     vb_implementation_actor = ''engineer'', vb_verifier_actor = ''verifier'',
     vb_fingerprints = \<lparr>vfp_source_pre = line_feed_digest, vfp_source_post = line_feed_digest,
       vfp_behavior_contract = verification_sha256_hex (ascii_bytes ''contract.build''),
       vfp_capability_set = line_feed_digest, vfp_command = line_feed_digest,
       vfp_policy = line_feed_digest, vfp_environment = bound_environment_digest\<rparr>,
     vb_criterion_results = [\<lparr>cr_criterion_id = ''criterion.build'', cr_order = 0,
       cr_kind = BehaviorVerification, cr_text = ''it builds'', cr_verdict = ResultPass\<rparr>],
     vb_failures = [], vb_verdict = BundlePass, vb_created_at = 7\<rparr>"

definition bound_proof :: "string \<Rightarrow> current_bundle_proof" where
  "bound_proof digest = \<lparr>cbp_contract_version = 1, cbp_bundle_digest = digest,
     cbp_checksum_verified = True, cbp_integrity_verified = True, cbp_current_pointer_verified = True,
     cbp_current_pointer_digest = digest, cbp_expected_run_id = ''run'',
     cbp_expected_goal_id = ''goal'', cbp_expected_task_id = ''build'',
     cbp_expected_behavior_contract_digest = verification_sha256_hex (ascii_bytes ''contract.build''),
     cbp_expected_capability_set_digest = line_feed_digest,
     cbp_expected_command_digest = line_feed_digest, cbp_expected_policy_digest = line_feed_digest,
     cbp_expected_source_digest = line_feed_digest,
     cbp_expected_environment_digest = bound_environment_digest\<rparr>"

lemma line_feed_digest_valid [simp]: "valid_digest line_feed_digest"
  by (simp add: line_feed_digest_def)

lemma bound_environment_digest_valid [simp]: "valid_digest bound_environment_digest"
  by (simp add: bound_environment_digest_def)

lemma bound_capability_ok: "capability_ok bound_capability"
  unfolding bound_capability_def using sample_ids sample_fields by (intro sample_capability_ok) simp_all

lemma bound_paths: "path_ok ''src/cap.build''"
  using sample_fields by simp

lemma bound_request_ok: "validate_rerun_request bound_request = Ok ()"
  using sample_ids sample_chars bound_paths
  by (simp add: validate_rerun_request_def bound_request_def result_iff
      local_verification_contract_version_def validate_manifest_def validate_entry_def
      validate_previous_path_def take_affected_def insert_new_def)

lemma bound_registry_ok: "snapshot_ok sample_rerun_codec bound_registry"
proof -
  let ?rows = "crs_capabilities bound_registry"
  have ids: "map row_id ?rows = [''cap.build'']" and deps: "registry_depends ?rows = {}"
    by (simp_all add: bound_registry_def row_id_def row_dependencies_def registry_depends_def
        bound_capability_def sample_capability_def)
  have "rows_ok sample_rerun_codec ?rows"
    using bound_capability_ok
    by (simp add: rows_ok_def bound_registry_def row_ok_def sample_rerun_codec_def row_state_def
        sha256_hex_def bound_capability_def sample_capability_def)
  moreover have "registry_snapshot_digest sample_rerun_codec ?rows
      = Ok (crs_registry_snapshot_digest bound_registry)"
    by (simp add: registry_snapshot_digest_def sample_rerun_codec_def bound_registry_def
        row_identity_def serialized_def bound_capability_def sample_capability_def)
  moreover have "valid_digest (crs_registry_snapshot_digest bound_registry)"
    by (simp add: bound_registry_def sha256_hex_def)
  moreover have "validate_dependency_graph ?rows = Ok ()"
    using dependency_graph_iff [of ?rows "()"] ids deps
    by (simp add: registry_complete_def acyclic_def)
  ultimately show ?thesis
    by (simp add: snapshot_ok_def validate_snapshot_def result_iff)
qed

lemma bound_selection_ok: "validate_selection sample_rerun_codec bound_selection = Ok ()"
proof -
  have "stable_id ''run''" "stable_id ''goal''" "stable_id ''build''" "stable_id ''cap.build''"
    using sample_ids by simp_all
  moreover have "validate_manifest (trr_changed_paths bound_request) = Ok ()"
    using bound_request_ok by (simp add: validate_rerun_request_def result_iff)
  ultimately show ?thesis
    using sample_chars
    by (simp add: validate_selection_iff validate_selected_def result_iff bound_selection_def unsealed_fields
        bound_request_def bound_registry_def sha256_hex_def sample_rerun_codec_def validate_mode_def
        expected_selection_digest_def serialized_def selected_of_def row_id_def bound_capability_def
        sample_capability_def selection_payload.truncate_def unsealed_def)
qed
lemma bound_sample_ids: "list_all stable_id [''run'', ''goal'', ''build'', ''cap.build'', ''contract.build'',
    ''criterion.build'', ''engineer'', ''verifier'']"
  using sample_ids by simp

lemma bound_id_stable: "stable_id (''bundle.sha256.'' @ line_feed_digest)"
proof -
  have "list_all stable_id_char line_feed_digest"
    using valid_digest_chars(1) [OF line_feed_digest_valid] .
  moreover have "stable_id ''bundle.sha256.''" by code_simp
  ultimately show ?thesis by (simp add: stable_id_def)
qed

lemma bound_bundle_ok: "bundle_ok bound_bundle"
  using bound_sample_ids bound_id_stable sample_fields sample_chars
  by (simp add: bundle_ok_def bound_bundle_def ids_ok_def fingerprints_ok_def results_ok_def
      in_order_def verdict_ok_def)

lemma bound_behavior_ok: "behavior_ok bound_behavior"
  using bound_sample_ids sample_fields
  by (simp add: behavior_ok_def bound_behavior_def result_iff binding_ok_def criteria_ok_def
      in_order_def ids_ok_def)

lemma bound_command_digest:
  "verification_command_digest bound_codec bound_capability 0 = Ok line_feed_digest"
  by (simp add: verification_command_digest_def bound_codec_def bound_capability_def
      sample_capability_def canonical_json_lf_def serialized_def line_feed_digest_def)

lemma bound_digests:
  "verification_behavior_digest bound_codec bound_behavior
    = Ok (verification_sha256_hex (ascii_bytes ''contract.build''))"
  "verification_capability_set_digest bound_codec bound_selection = Ok line_feed_digest"
  "verification_command_set_digest bound_codec [bound_capability] = Ok line_feed_digest"
  "verification_policy_digest bound_codec [bound_capability] = Ok line_feed_digest"
proof -
  show "verification_behavior_digest bound_codec bound_behavior
      = Ok (verification_sha256_hex (ascii_bytes ''contract.build''))"
    using bound_behavior_ok
    by (simp add: verification_behavior_digest_def behavior_bytes_def behavior_ok_def serialized_def
        bound_codec_def) (simp add: bound_behavior_def)
  have codec: "bcd_rerun bound_codec = sample_rerun_codec" by (simp add: bound_codec_def)
  have "trs_capabilities bound_selection \<noteq> []" "\<exists>p. try_fold validate_selected None (trs_capabilities bound_selection) = Ok p"
    using bound_selection_ok unfolding validate_selection_iff by blast+
  then show "verification_capability_set_digest bound_codec bound_selection = Ok line_feed_digest"
    using bound_selection_ok
    by (auto simp: verification_capability_set_digest_def codec result_iff
        verification_selected_capability_set_digest_def line_feed_digest_def)
      (simp add: bound_codec_def)
  have one: "[0..<length (cd_commands bound_capability)] = [0]"
    by (simp add: bound_capability_def sample_capability_def)
  have valid: "validate_capability bound_capability = Ok ()" "validate_non_command_fields bound_capability = Ok ()"
    using bound_capability_ok by (simp_all add: result_iff capability_ok_def)
  show "verification_command_set_digest bound_codec [bound_capability] = Ok line_feed_digest"
    by (simp add: verification_command_set_digest_def push_command_entries_def valid one
        push_command_entry_def bound_command_digest canonical_json_lf_def line_feed_digest_def)
      (simp add: bound_codec_def serialized_def)
  show "verification_policy_digest bound_codec [bound_capability] = Ok line_feed_digest"
    by (simp add: verification_policy_digest_def push_policy_def valid canonical_json_lf_def
        line_feed_digest_def) (simp add: bound_codec_def serialized_def)
qed

lemma bound_transcript_ok: "transcript_ok bound_transcript"
  using sample_chars
  by (simp add: transcript_ok_def bound_transcript_def in_order_def termination_ok_def)

lemma bound_bundle_id:
  "derive_verification_bundle_id bound_codec ''run'' ''goal'' ''build''
     (trs_selection_digest bound_selection) bound_transcript ''engineer'' ''verifier'' 7
   = Ok (''bundle.sha256.'' @ line_feed_digest)"
proof -
  have "valid_digest (trs_selection_digest bound_selection)"
    by (simp add: bound_selection_def unsealed_def sha256_hex_def)
  then show ?thesis
    using bound_transcript_ok
    by (auto simp: derive_verification_bundle_id_def transcript_sha256_def transcript_bytes_def
        result_iff line_feed_digest_def) (simp_all add: bound_codec_def)
qed

lemma bound_planned: "planned_commands [bound_capability] = [(bound_capability, 0)]"
  by (simp add: planned_commands_def bound_capability_def sample_capability_def)

lemma bound_selected: "list_all2 (is_selected bound_codec) [bound_capability] (trs_capabilities bound_selection)"
  using bound_capability_ok
  by (simp add: is_selected_def bound_selection_def unsealed_def bound_registry_def selected_of_def
      row_id_def bound_codec_def sample_rerun_codec_def sha256_hex_def)
    (simp add: bound_capability_def sample_capability_def)

lemma bound_accepted:
  "validate_verification_bundle_bindings bound_codec bound_behavior [bound_capability] bound_selection
     bound_bundle bound_transcript = Ok ()"
proof -
  have fields: "trs_run_id bound_selection = ''run''" "trs_goal_id bound_selection = ''goal''"
      "trs_task_id bound_selection = ''build''" "trs_policy_digest bound_selection = line_feed_digest"
      "trs_source_fingerprint bound_selection = line_feed_digest"
      "bcd_rerun bound_codec = sample_rerun_codec" "cd_capability_id bound_capability = ''cap.build''"
    by (simp_all add: bound_selection_def bound_request_def bound_codec_def bound_capability_def
        sample_capability_def)
  have "list_all2 same_criterion (bac_criteria bound_behavior) (vb_criterion_results bound_bundle)"
    by (simp add: same_criterion_def bound_behavior_def bound_bundle_def)
  moreover have "claims_match (bac_criteria bound_behavior) [bound_capability]"
    by (simp add: claims_match_def bound_behavior_def bound_capability_def sample_capability_def)
  moreover have "worst_result bound_bundle"
    by (simp add: worst_result_def bound_bundle_def)
  moreover have "ran_as_planned bound_codec [bound_capability] (vti_commands bound_transcript)"
      "all_succeeded [bound_capability] (vti_commands bound_transcript)"
    by (simp_all add: ran_as_planned_def all_succeeded_def bound_planned bound_command_digest)
      (simp_all add: bound_transcript_def bound_command_digest)
  ultimately show ?thesis
    unfolding bindings_iff bundle_bound_def fields
    using bound_behavior_ok bound_selection_ok bound_bundle_ok bound_transcript_ok bound_selected
      bound_planned
    by (intro conjI) (assumption | simp add: bound_digests bound_bundle_id fields
        | simp add: bound_bundle_def bound_behavior_def bound_digests bound_bundle_id fields)+
qed

lemma bound_proof_ok: "valid_digest digest \<Longrightarrow> validate_proof (bound_proof digest) = Ok ()"
  using sample_chars by (simp add: result_iff proof_ok_def bound_proof_def)

lemma bound_expects:
  "expects_recomputed bound_codec bound_behavior [bound_capability] bound_selection (bound_proof digest)"
  using bound_digests by (simp add: expects_recomputed_def bound_proof_def)
    (simp add: bound_selection_def bound_request_def)

theorem bound_pass_bundle_admitted_witness:
  "admit_current_pass_bundle bound_behavior [bound_capability] bound_bundle (bound_proof line_feed_digest)
     = Ok (admitted_evidence bound_behavior bound_bundle line_feed_digest)"
proof -
  have "vb_verdict bound_bundle = BundlePass" by (simp add: bound_bundle_def)
  then show ?thesis
    using bound_pass_bundle_admitted [OF bound_accepted _ bound_proof_ok [OF line_feed_digest_valid] bound_expects]
    by (simp add: bound_proof_def bound_bundle_def)
qed

end
