(* ===== verification/Evidence_Bank_Properties.thy ===== *)
theory Evidence_Bank_Properties
  imports Evidence_Lease Verification_Binding_Properties
begin

text \<open>
  The properties of the evidence bank: what every operation keeps, what a swap replaces, and what
  the completion lease shows, with a sample bank that holds one capability and one bundle.
\<close>

section \<open>A sample\<close>

text \<open>
  The bundle and the capability of \<open>Verification_Binding_Properties\<close>, published and current. The
  encoders know just these values; digests stay symbolic.
\<close>

definition bank_rerun_codec :: rerun_codec where
  "bank_rerun_codec = sample_rerun_codec
    \<lparr>rc_capability := \<lambda>d. if d = bound_capability then Inr (ascii_bytes ''cap.build'') else Inl ''unknown''\<rparr>"

definition sample_bank_codec :: bank_codec where
  "sample_bank_codec =
    \<lparr>bkc_sha256 = verification_sha256_hex, bkc_rerun = bank_rerun_codec,
     bkc_bundle = \<lambda>b. if b = bound_bundle then Inr [66] else Inl ''unknown'',
     bkc_freshness = \<lambda>f. if f = FreshCurrent then Inr [67]
       else if f = FreshStale {StaleSource} then Inr [83] else Inl ''unknown'',
     bkc_capability_state = \<lambda>s. Inr (ascii_bytes (cst_capability_id s)),
     bkc_evidence_state = \<lambda>s. Inr [69], bkc_selection_state = \<lambda>s. Inr [],
     bkc_decode_capability = \<lambda>bs. if bs = ascii_bytes ''cap.build'' then Inr bound_capability else Inl ''unknown'',
     bkc_decode_bundle = \<lambda>bs. if bs = [66] then Inr bound_bundle else Inl ''unknown'',
     bkc_decode_freshness = \<lambda>bs. if bs = [67] then Inr FreshCurrent
       else if bs = [83] then Inr (FreshStale {StaleSource}) else Inl ''unknown''\<rparr>"

definition sample_key :: evidence_key where
  "sample_key = \<lparr>ek_run_id = ''run'', ek_goal_id = ''goal'', ek_task_id = ''build''\<rparr>"

definition capability_digest :: string where
  "capability_digest = verification_sha256_hex (ascii_bytes ''cap.build'')"

definition bundle_digest :: string where
  "bundle_digest = verification_sha256_hex [66]"

definition projection_digest :: string where
  "projection_digest = verification_sha256_hex [69]"

definition bank_evidence :: "evidence_freshness \<Rightarrow> u64 \<Rightarrow> evidence_current" where
  "bank_evidence freshness generation =
    \<lparr>ec_key = sample_key, ec_bundle_id = vb_bundle_id bound_bundle, ec_record_digest = bundle_digest,
     ec_freshness = freshness,
     ec_token = \<lparr>ct_generation = generation, ct_state_digest = projection_digest\<rparr>\<rparr>"

definition sample_current :: capability_current where
  "sample_current =
    \<lparr>cc_capability_id = ''cap.build'', cc_revision = 1, cc_record_digest = capability_digest,
     cc_token = \<lparr>ct_generation = 1, ct_state_digest = capability_digest\<rparr>\<rparr>"

definition sample_current_row :: bundle_current_row where
  "sample_current_row =
    \<lparr>bcr_bundle_id = vb_bundle_id bound_bundle, bcr_record_digest = bundle_digest,
     bcr_freshness_json = [67], bcr_generation = 1, bcr_state_digest = projection_digest\<rparr>"

definition sample_bank :: bank where
  "sample_bank =
    \<lparr>bk_schema_version = 1,
     bk_capability_records = bm_insert (''cap.build'', 1)
       \<lparr>car_row_digest = capability_digest, car_row_json = ascii_bytes ''cap.build''\<rparr> bm_empty,
     bk_bundle_records = bm_insert (vb_bundle_id bound_bundle)
       \<lparr>bur_row_digest = bundle_digest, bur_row_key = key_columns sample_key, bur_row_json = [66]\<rparr> bm_empty,
     bk_capability_generations = bm_insert ''cap.build'' (1, capability_digest) bm_empty,
     bk_bundle_generations = bm_insert (key_columns sample_key) (1, projection_digest) bm_empty,
     bk_capability_current = bm_insert ''cap.build''
       \<lparr>ccr_revision = 1, ccr_record_digest = capability_digest, ccr_generation = 1,
        ccr_state_digest = capability_digest\<rparr> bm_empty,
     bk_bundle_current = bm_insert (key_columns sample_key) sample_current_row bm_empty\<rparr>"

lemma sample_digests [simp]:
  "valid_digest capability_digest" "valid_digest bundle_digest" "valid_digest projection_digest"
  by (simp_all add: capability_digest_def bundle_digest_def projection_digest_def)

lemma sample_bank_codec_ok: "codec_ok sample_bank_codec"
  by (auto simp: codec_ok_def sample_bank_codec_def bank_rerun_codec_def split: if_splits)

lemma sample_capability_state: "validate_capability_state sample_bank_codec sample_current = Ok ()"
  by (simp add: validate_capability_state_def result_iff sample_current_def capability_state_sha256_def
      sample_bank_codec_def) (simp add: capability_digest_def)

lemma bank_evidence_state:
  assumes "g \<in> {1, 2}" and "f \<noteq> FreshStale {}"
  shows "validate_evidence_state sample_bank_codec (bank_evidence f g) = Ok ()"
  using assms
  by (auto simp: validate_evidence_state_def result_iff bank_evidence_def evidence_state_digest_def
      sample_bank_codec_def projection_digest_def)

lemma sample_holds:
  "holds_capability sample_bank_codec (''cap.build'', 1)
     \<lparr>car_row_digest = capability_digest, car_row_json = ascii_bytes ''cap.build''\<rparr> bound_capability"
  "holds_bundle sample_bank_codec (vb_bundle_id bound_bundle)
     \<lparr>bur_row_digest = bundle_digest, bur_row_key = key_columns sample_key, bur_row_json = [66]\<rparr> bound_bundle"
  using bound_capability_ok bound_bundle_ok
  by (simp_all add: holds_capability_def holds_bundle_def capability_bytes_def bundle_bytes_def result_iff
      sample_bank_codec_def bank_rerun_codec_def serialized_def capability_digest_def bundle_digest_def)
    (simp_all add: bound_capability_def sample_capability_def bundle_key_def bound_bundle_def sample_key_def)

lemma sample_current_rows:
  "capability_current_row_of sample_current
     = Ok \<lparr>ccr_revision = 1, ccr_record_digest = capability_digest, ccr_generation = 1,
        ccr_state_digest = capability_digest\<rparr>"
  "bundle_current_row_of sample_bank_codec (bank_evidence FreshCurrent 1) = Ok sample_current_row"
  by (simp_all add: capability_current_row_of_def bundle_current_row_of_def sample_current_def bank_evidence_def
      sample_current_row_def sqlite_u64_def sample_bank_codec_def canonical_json_def)

lemma sample_bank_intact: "intact sample_bank_codec sample_bank"
proof (rule intactI)
  show "capability_projection sample_bank_codec sample_bank i t"
    if "bm_get (bk_capability_current sample_bank) i = Some t" for i t
    using that sample_current_rows(1) sample_capability_state
    by (auto simp: capability_projection_def sample_bank_def capability_row_allowed_def split: if_splits
        intro!: exI [of _ sample_current]) (simp add: sample_current_def)
  show "bundle_projection sample_bank_codec sample_bank k u"
    if "bm_get (bk_bundle_current sample_bank) k = Some u" for k u
    using that sample_current_rows(2) bank_evidence_state [of 1 FreshCurrent]
    by (auto simp: bundle_projection_def sample_bank_def bundle_row_allowed_def sample_current_row_def
        split: if_splits intro!: exI [of _ "bank_evidence FreshCurrent 1"])
      (simp_all add: bank_evidence_def)
qed (use sample_holds in \<open>auto simp: sample_bank_def generations_ok_def split: if_splits\<close>)

text \<open>A working engine marks the sample stale, and makes its bundle current where none is.\<close>

definition cleared_bank :: bank where
  "cleared_bank = sample_bank\<lparr>bk_bundle_current := bm_empty\<rparr>"

lemma cleared_bank_intact: "intact sample_bank_codec cleared_bank"
  by (rule intactI) (use intactD [OF sample_bank_intact] in
    \<open>simp_all add: cleared_bank_def capability_projection_def capability_row_allowed_def\<close>)

lemma working: "works (\<lambda>_. False)"
  by (simp add: works_def)

lemma sample_loads:
  "load_bundle_current sample_bank_codec (\<lambda>_. False) sample_key sample_bank
     = Ok (Some (bank_evidence FreshCurrent 1))"
proof -
  have "bm_get (bk_bundle_current sample_bank) (key_columns sample_key) = Some sample_current_row"
    by (simp add: sample_bank_def)
  from load_bundle_current_intact [OF sample_bank_intact sample_bank_codec_ok working this]
  obtain current where current: "load_bundle_current sample_bank_codec (\<lambda>_. False) sample_key sample_bank
      = Ok (Some current)" "ec_key current = sample_key"
      "bundle_current_row_of sample_bank_codec current = Ok sample_current_row"
      "validate_evidence_state sample_bank_codec current = Ok ()" .
  note fields = bundle_current_row_Ok [OF current(3)]
  have "bkc_freshness sample_bank_codec (ec_freshness current) = Inr [67]"
    using fields by (simp add: sample_current_row_def)
  moreover have "bkc_freshness sample_bank_codec FreshCurrent = Inr [67]"
    by (simp add: sample_bank_codec_def)
  ultimately have "ec_freshness current = FreshCurrent"
    by (rule freshness_unique [OF sample_bank_codec_ok])
  moreover have "ct_generation (ec_token current) = 1"
    using fields by (simp add: sample_current_row_def word_uint_eq_iff)
  ultimately have "current = bank_evidence FreshCurrent 1"
    using current(2) fields
    by (simp add: bank_evidence_def sample_current_row_def)
  then show ?thesis using current(1) by simp
qed

lemma sample_next:
  "next_bundle_generation (\<lambda>_. False) sample_key sample_bank = Ok 2"
  "next_bundle_generation (\<lambda>_. False) sample_key cleared_bank = Ok 2"
  by (simp_all add: next_bundle_generation_def load_bundle_generation_intact [OF sample_bank_intact working]
      load_bundle_generation_intact [OF cleared_bank_intact working])
    (simp_all add: sample_bank_def cleared_bank_def binding_of_def increment_generation_def)

lemma sample_new:
  "f \<noteq> FreshStale {} \<Longrightarrow> new_evidence_current sample_bank_codec sample_key (vb_bundle_id bound_bundle) bundle_digest f g
     = Ok (bank_evidence f g)"
  by (simp add: new_evidence_current_def validate_freshness_def evidence_state_digest_def Let_def
      bank_evidence_def canonical_json_def) (simp add: sample_bank_codec_def projection_digest_def)

text \<open>The row of the sample's evidence, and its write over a bank that allows it.\<close>

definition evidence_row :: "evidence_freshness \<Rightarrow> bundle_current_row" where
  "evidence_row f = \<lparr>bcr_bundle_id = vb_bundle_id bound_bundle, bcr_record_digest = bundle_digest,
     bcr_freshness_json = (if f = FreshCurrent then [67] else [83]), bcr_generation = 2,
     bcr_state_digest = projection_digest\<rparr>"

lemma bank_evidence_row:
  "f = FreshCurrent \<or> f = FreshStale {StaleSource} \<Longrightarrow>
     bundle_current_row_of sample_bank_codec (bank_evidence f 2) = Ok (evidence_row f)"
  by (auto simp: bundle_current_row_of_def bank_evidence_def evidence_row_def sqlite_u64_def canonical_json_def
      sample_bank_codec_def)

lemma sample_allowed:
  "bundle_row_allowed sample_key (evidence_row f) sample_bank"
  "bundle_row_allowed sample_key (evidence_row f) cleared_bank"
  by (simp_all add: bundle_row_allowed_def evidence_row_def sample_bank_def cleared_bank_def)

lemma sample_persist:
  assumes "f = FreshCurrent \<or> f = FreshStale {StaleSource}"
    and "bm_get (bk_bundle_generations db) (key_columns sample_key) = Some (1, projection_digest)"
  shows "persist_bundle_generation sample_bank_codec (\<lambda>_. False) (bank_evidence f 2) db
    = Ok (db\<lparr>bk_bundle_generations :=
        bm_insert (key_columns sample_key) (2, projection_digest) (bk_bundle_generations db)\<rparr>)"
proof -
  have "validate_evidence_state sample_bank_codec (bank_evidence f 2) = Ok ()"
    using assms(1) by (intro bank_evidence_state) auto
  moreover have "binding_of_row field (1, projection_digest)
      = Ok \<lparr>dgb_generation = 1, dgb_state_digest = projection_digest\<rparr>" for field
  proof -
    have "check_digest projection_digest field = Ok ()" by (simp add: result_iff)
    then show ?thesis by (simp add: binding_of_row_def stored_generation_def)
  qed
  moreover have "ec_key (bank_evidence f 2) = sample_key"
      "ec_token (bank_evidence f 2) = \<lparr>ct_generation = 2, ct_state_digest = projection_digest\<rparr>"
    by (simp_all add: bank_evidence_def)
  ultimately show ?thesis
    using assms(2)
    by (simp add: persist_bundle_generation_def load_bundle_generation_def bank_perform_def execute_def
        sqlite_u64_def validate_generation_transition_def binds_def)
qed

lemma sample_marked:
  "mark_stale sample_bank_codec (\<lambda>_. False) sample_key (ec_token (bank_evidence FreshCurrent 1)) {StaleSource}
     sample_bank = (Ok (CasApplied (bank_evidence (FreshStale {StaleSource}) 2)),
       with_bundle_current (bank_evidence (FreshStale {StaleSource}) 2) (evidence_row (FreshStale {StaleSource}))
         sample_bank)"
proof -
  let ?new = "bank_evidence (FreshStale {StaleSource}) 2" and ?row = "evidence_row (FreshStale {StaleSource})"
  let ?db = "sample_bank\<lparr>bk_bundle_current := bm_insert (key_columns sample_key) ?row (bk_bundle_current sample_bank)\<rparr>"
  have "write_bundle_current_cas sample_bank_codec (\<lambda>_. False) ?new
      (ExpectToken (ec_token (bank_evidence FreshCurrent 1))) sample_bank = Ok ?db"
    using bank_evidence_row [of "FreshStale {StaleSource}"] sample_allowed(1)
    by (simp add: write_bundle_current_cas_def Let_def sqlite_u64_def execute_def bank_perform_def)
      (simp add: bank_evidence_def sample_bank_def sample_current_row_def)
  moreover have "persist_bundle_generation sample_bank_codec (\<lambda>_. False) ?new ?db
      = Ok (with_bundle_current ?new ?row sample_bank)"
    by (subst sample_persist) (simp_all add: sample_bank_def with_bundle_current_def, simp add: bank_evidence_def)
  moreover have "new_evidence_current sample_bank_codec sample_key (ec_bundle_id (bank_evidence FreshCurrent 1))
      (ec_record_digest (bank_evidence FreshCurrent 1))
      (FreshStale (merged_causes (ec_freshness (bank_evidence FreshCurrent 1)) {StaleSource})) 2 = Ok ?new"
    using sample_new by (simp add: bank_evidence_def merged_causes_def)
  moreover have "bk_schema_version sample_bank = 1" "ec_freshness (bank_evidence FreshCurrent 1) = FreshCurrent"
    by (simp_all add: sample_bank_def bank_evidence_def)
  ultimately show ?thesis
    by (simp add: mark_stale_def transaction_def bank_open_connection_def bank_perform_def bank_commit_def Let_def
        sample_loads sample_next)
qed

lemma sample_swapped:
  "fst (swap_bundle_current sample_bank_codec (\<lambda>_. False) bundle_digest ExpectAbsent cleared_bank)
     = Ok (CasApplied (bank_evidence FreshCurrent 2))"
proof -
  let ?new = "bank_evidence FreshCurrent 2" and ?row = "evidence_row FreshCurrent"
  let ?db = "cleared_bank\<lparr>bk_bundle_current := bm_insert (key_columns sample_key) ?row (bk_bundle_current cleared_bank)\<rparr>"
  have "write_bundle_current_cas sample_bank_codec (\<lambda>_. False) ?new ExpectAbsent cleared_bank = Ok ?db"
    using bank_evidence_row [of FreshCurrent] sample_allowed(2)
    by (simp add: write_bundle_current_cas_def Let_def execute_def bank_perform_def)
      (simp add: bank_evidence_def cleared_bank_def)
  moreover have "\<exists>db2. persist_bundle_generation sample_bank_codec (\<lambda>_. False) ?new ?db = Ok db2"
    by (subst sample_persist) (simp_all add: sample_bank_def cleared_bank_def)
  moreover have "bm_get (bk_bundle_records cleared_bank) (vb_bundle_id bound_bundle)
      = Some \<lparr>bur_row_digest = bundle_digest, bur_row_key = key_columns sample_key, bur_row_json = [66]\<rparr>"
    by (simp add: cleared_bank_def sample_bank_def)
  note load_bundle_by_digest_intact [OF cleared_bank_intact sample_bank_codec_ok working this sample_holds(2)]
  moreover have "load_bundle_current sample_bank_codec (\<lambda>_. False) sample_key cleared_bank = Ok None"
    by (simp add: load_bundle_current_def bank_perform_def cleared_bank_def)
  moreover have "bk_schema_version cleared_bank = 1" "bundle_key bound_bundle = sample_key"
    by (simp_all add: cleared_bank_def sample_bank_def bundle_key_def bound_bundle_def sample_key_def)
  ultimately show ?thesis
    using sample_new [of FreshCurrent 2]
    by (auto simp: swap_bundle_current_def apply_bundle_cas_def transaction_def bank_open_connection_def
        bank_perform_def bank_commit_def Let_def sample_next expectation_matches_def)
qed

section \<open>The bank over time\<close>

text \<open>
  C34 (bank stays intact). Invariant of the bank. From an intact bank, any sequence of publications, swaps,
  stale marks and rebuilds, whatever statements of theirs fail, leads to an intact bank: records
  are canonical bytes under their digests, every projection is sealed, refers to a record and sits
  at its durable generation. No record is ever changed or lost, and no generation goes back or
  is given to another projection.
\<close>

theorem bank_stays_intact:
  assumes "intact C db"
  shows "intact C (run_bank_commands C cs db) \<and> bank_later db (run_bank_commands C cs db)"
  using assms by (rule run_bank_commands_intact)

theorem bank_stays_intact_witness:
  "intact sample_bank_codec (run_bank_commands sample_bank_codec
     [(\<lambda>_. False, MarkStale sample_key \<lparr>ct_generation = 1, ct_state_digest = projection_digest\<rparr> {StaleSource}),
      (\<lambda>step. step = Statement ''commit bundle CAS'', SwapBundle bundle_digest ExpectAbsent)] sample_bank)"
  using bank_stays_intact [OF sample_bank_intact] by blast

text \<open>
  Choosing what is current. When a swap makes a bundle current, the caller named the token of the
  projection it replaces (or that there is none), the new generation is above every earlier one of
  the key, and a bundle that the key holds as stale is not made current again.
\<close>

theorem swap_replaces_expected:
  assumes db: "intact C db"
    and run: "swap_bundle_current C io digest expectation db = (Ok (CasApplied fresh), db')"
  shows "ec_record_digest fresh = digest \<and> ec_freshness fresh = FreshCurrent
    \<and> (case expectation of
         ExpectAbsent \<Rightarrow> load_bundle_current C io (ec_key fresh) db = Ok None
       | ExpectToken token \<Rightarrow> \<exists>old. load_bundle_current C io (ec_key fresh) db = Ok (Some old)
           \<and> ec_token old = token \<and> (ec_freshness old = FreshCurrent \<or> ec_record_digest old \<noteq> digest))
    \<and> (\<forall>g d. bm_get (bk_bundle_generations db) (key_columns (ec_key fresh)) = Some (g, d)
         \<longrightarrow> g < uint (ct_generation (ec_token fresh)))"
proof -
  obtain found where found: "load_bundle_by_digest C io digest db = Ok (Some found)"
      "apply_bundle_cas C io found expectation FreshCurrent db = Ok (CasApplied fresh, db')"
    using run unfolding swap_bundle_current_def
    by (cases rule: transaction_cases) (auto simp: result_iff)
  from apply_bundle_cas_applied [OF found(2)] obtain current where
      current: "load_bundle_current C io (ec_key fresh) db = Ok current"
        "expectation_matches expectation (map_option ec_token current)"
        "\<forall>old. current = Some old \<longrightarrow> is_stale (ec_freshness old) \<longrightarrow> ec_record_digest old \<noteq> digest"
    and fresh: "ec_record_digest fresh = digest" "ec_freshness fresh = FreshCurrent"
        "next_bundle_generation io (ec_key fresh) db = Ok (ct_generation (ec_token fresh))"
    using load_bundle_by_digest_digest [OF found(1)] by auto
  show ?thesis
    using current fresh(1,2) next_bundle_generation_Ok [OF fresh(3) intactD(6) [OF db]]
    by (cases expectation; cases current) (auto simp: expectation_matches_def is_stale_def)
qed

theorem swap_replaces_expected_witness:
  "load_bundle_current sample_bank_codec (\<lambda>_. False) sample_key cleared_bank = Ok None
   \<and> (\<forall>g d. bm_get (bk_bundle_generations cleared_bank) (key_columns sample_key) = Some (g, d) \<longrightarrow> g < 2)"
proof -
  obtain db' where "swap_bundle_current sample_bank_codec (\<lambda>_. False) bundle_digest ExpectAbsent cleared_bank
      = (Ok (CasApplied (bank_evidence FreshCurrent 2)), db')"
    using sample_swapped by (metis prod.collapse)
  from swap_replaces_expected [OF cleared_bank_intact this] show ?thesis
    by (simp add: bank_evidence_def)
qed

text \<open>
  C35 (stale_evidence_shuts_lease): after evidence of a key was marked stale (or was found stale for
  the same causes already), follow any publications, swaps and stale marks, whatever statements of
  theirs fail. Either a completion lease over this key hands out no snapshot, so that its callback
  does not run and nothing changes; or one of these operations has put evidence with another digest
  in its place. Swapping the same evidence in again, under whatever token, never opens the lease. A
  rebuild is not among the operations: it writes the projections its caller selects.
\<close>

theorem stale_evidence_shuts_lease:
  assumes "intact C db" and "codec_ok C"
    and "mark_stale C io key expected causes db = (Ok outcome, db')"
    and "outcome = CasApplied fresh \<or> outcome = CasUnchanged fresh"
    and "\<forall>(io, c) \<in> set cs. \<not> rebuilds c" and "key \<in> set keys"
  shows "snd (with_completion_admission_lease C io' lift keys callback (run_bank_commands C cs db') s) = s
      \<and> \<not> is_ok (fst (with_completion_admission_lease C io' lift keys callback (run_bank_commands C cs db') s))
    \<or> (\<exists>n \<le> length cs. \<exists>row.
        bm_get (bk_bundle_current (run_bank_commands C (take n cs) db')) (key_columns key) = Some row
        \<and> bcr_record_digest row \<noteq> ec_record_digest fresh)"
proof -
  have "intact C db'"
    using mark_stale_advances [OF assms(1,3)] by (simp add: bank_advances_def)
  from run_bank_commands_held [OF this assms(2) mark_stale_held [OF assms(1,3,4)] assms(5)]
  show ?thesis
  proof
    assume "held_stale C key (ec_record_digest fresh) (run_bank_commands C cs db')"
    note refused = stale_row_refused [OF assms(2) this assms(6)]
    obtain r s' where run: "with_completion_admission_lease C io' lift keys callback
        (run_bank_commands C cs db') s = (r, s')" by fastforce
    have "s' = s \<and> \<not> is_ok r"
      using run by (cases rule: lease_cases) (use refused in \<open>auto simp: is_ok_iff\<close>)
    then show ?thesis by (simp add: run)
  qed (auto simp: superseded_def)
qed

text \<open>The sample's only bundle, swapped in again after it was marked stale.\<close>

lemma swap_bundle_digest:
  assumes db: "intact C db" and run: "swap_bundle_current C io digest expectation db = (r, db')"
    and row: "bm_get (bk_bundle_current db') k = Some row"
  shows "bm_get (bk_bundle_current db) k = Some row \<or> bcr_record_digest row = digest"
  using run unfolding swap_bundle_current_def
proof (cases rule: transaction_cases)
  case (committed outcome)
  then obtain found where found: "load_bundle_by_digest C io digest db = Ok (Some found)"
    and cas: "apply_bundle_cas C io found expectation FreshCurrent db = Ok (outcome, db')"
    by (auto simp: result_iff)
  show ?thesis
  proof (cases "db' = db")
    case False
    then obtain fresh where fresh: "outcome = CasApplied fresh"
      using cas by (auto simp: apply_bundle_cas_def Let_def result_iff split: if_splits)
    obtain entry where "bundle_current_row_of C fresh = Ok entry" "db' = with_bundle_current fresh entry db"
      using apply_bundle_cas_written [OF db cas [unfolded fresh]] by blast
    then show ?thesis
      using row apply_bundle_cas_applied [OF cas [unfolded fresh]] load_bundle_by_digest_digest [OF found]
        bundle_current_row_Ok [of C fresh entry]
      by (auto simp: with_bundle_current_def split: if_splits)
  qed (use row in simp)
qed (use row in simp)

theorem stale_evidence_shuts_lease_witness:
  "\<not> is_ok (fst (with_completion_admission_lease sample_bank_codec (\<lambda>_. False) id [sample_key]
      (\<lambda>snapshot n. (Ok snapshot, Suc n))
      (run_bank_commands sample_bank_codec
        [(\<lambda>_. False, SwapBundle bundle_digest (ExpectToken (ec_token (bank_evidence (FreshStale {StaleSource}) 2))))]
        (snd (mark_stale sample_bank_codec (\<lambda>_. False) sample_key (ec_token (bank_evidence FreshCurrent 1))
          {StaleSource} sample_bank))) 4))"
proof -
  let ?C = sample_bank_codec and ?stale = "bank_evidence (FreshStale {StaleSource}) 2"
  let ?db = "with_bundle_current ?stale (evidence_row (FreshStale {StaleSource})) sample_bank"
  let ?cs = "[(\<lambda>_. False, SwapBundle bundle_digest (ExpectToken (ec_token ?stale)))]"
  have db: "intact ?C ?db"
    using mark_stale_advances [OF sample_bank_intact sample_marked] by (simp add: bank_advances_def)
  have before: "bcr_record_digest row = bundle_digest"
    if "bm_get (bk_bundle_current ?db) (key_columns sample_key) = Some row" for row
    using that by (auto simp: with_bundle_current_def evidence_row_def bank_evidence_def)
  have same: "bcr_record_digest row = bundle_digest"
    if "bm_get (bk_bundle_current (run_bank_commands ?C (take n ?cs) ?db)) (key_columns sample_key) = Some row" for n row
  proof (cases n)
    case 0
    then show ?thesis using that before by (simp add: run_bank_commands_def)
  next
    case (Suc m)
    then have "bm_get (bk_bundle_current (snd (swap_bundle_current ?C (\<lambda>_. False) bundle_digest
        (ExpectToken (ec_token ?stale)) ?db))) (key_columns sample_key) = Some row"
      using that by (simp add: run_bank_commands_def)
    from swap_bundle_digest [OF db surjective_pairing this] before show ?thesis by blast
  qed
  have "ec_record_digest ?stale = bundle_digest" by (simp add: bank_evidence_def)
  then show ?thesis
    using stale_evidence_shuts_lease [OF sample_bank_intact sample_bank_codec_ok sample_marked disjI1 [OF refl],
        of ?cs "[sample_key]" "\<lambda>_. False" id "\<lambda>snapshot n. (Ok snapshot, Suc n)" 4] same
    unfolding sample_marked snd_conv by (auto simp: rebuilds_def)
qed

text \<open>
  C36 (lease shows current bank). When a completion lease succeeds, its callback ran and returned the same on a
  snapshot of the bank as it is: for the requested keys in order the current bundles, for all
  capabilities the current revisions, each with the content-addressed record it refers to.
\<close>

theorem lease_shows_current_bank:
  assumes "with_completion_admission_lease C io lift keys callback db s = (Ok x, s')"
  shows "\<exists>snapshot. snapshot_of C db keys snapshot \<and> callback snapshot s = (Ok x, s')"
  using assms by (cases rule: lease_cases) auto

text \<open>
  C37 (lease opens). On an intact bank with a working engine, a lease on keys that are all current
  runs its callback and returns what it returns: stored evidence stays readable.
\<close>

theorem lease_opens:
  assumes "intact C db" and "codec_ok C" and "works io" and "lease_ready C db keys"
  shows "\<exists>snapshot. snapshot_of C db keys snapshot
    \<and> with_completion_admission_lease C io lift keys callback db s = callback snapshot s"
  using assms by (rule lease_entered)

lemma sample_lease_ready: "lease_ready sample_bank_codec sample_bank [sample_key]"
  by (auto simp: lease_ready_def validate_completion_admission_keys_def result_iff Let_def sample_bank_def
      sample_current_row_def sample_bank_codec_def)
    (simp_all add: sample_key_def is_blank_def)

theorem lease_opens_witness:
  "\<exists>snapshot. snapshot_of sample_bank_codec sample_bank [sample_key] snapshot
    \<and> with_completion_admission_lease sample_bank_codec (\<lambda>_. False) id [sample_key]
        (\<lambda>snapshot n. (Ok snapshot, Suc n)) sample_bank 4 = (Ok snapshot, 5)"
  using lease_opens [OF sample_bank_intact sample_bank_codec_ok _ sample_lease_ready, of "\<lambda>_. False" id
      "\<lambda>snapshot n. (Ok snapshot, Suc n)" 4]
  by (simp add: works_def)

theorem lease_shows_current_bank_witness:
  "\<exists>snapshot. snapshot_of sample_bank_codec sample_bank [sample_key] snapshot
    \<and> map (ec_key \<circ> cab_current) (cas_bundles snapshot) = [sample_key]"
proof -
  let ?callback = "\<lambda>snapshot s. (Ok (map (ec_key \<circ> cab_current) (cas_bundles snapshot)), s)
    :: (bank_error, evidence_key list) result \<times> nat"
  have "\<exists>snapshot. snapshot_of sample_bank_codec sample_bank [sample_key] snapshot
      \<and> with_completion_admission_lease sample_bank_codec (\<lambda>_. False) id [sample_key]
          ?callback sample_bank 0 = ?callback snapshot 0"
    by (rule lease_entered [OF sample_bank_intact sample_bank_codec_ok _ sample_lease_ready]) (simp add: works_def)
  then have "with_completion_admission_lease sample_bank_codec (\<lambda>_. False) id [sample_key]
      ?callback sample_bank 0 = (Ok [sample_key], 0)"
    by (auto simp: snapshot_of_def)
  from lease_shows_current_bank [OF this] show ?thesis by auto
qed

end
