(* ===== verification/Review_Audit.thy ===== *)
theory Review_Audit
  imports Transitions
begin

text \<open>
  The validation and resolution of Reviewer and Auditor decisions of
  \<open>ovca-runtime-core/src/review_audit.rs\<close>. The validators run their checks in the order
  of the code, so every error is the code's; the lemmas turn the loops with their seen
  sets and previous elements into closed conditions, and the theorems say what a passed,
  failed or escalated gate means for the goal's criteria and its evidence.
\<close>

section \<open>Contexts and errors\<close>

record review_context =
  rctx_expected_run_id :: run_id
  rctx_goal_contract :: goal_contract
  rctx_completion_evidence :: completion_evidence
  rctx_evidence_catalog :: "evidence_ref list"

record validated_review_decision =
  vrd_decision :: review_decision

record validated_audit_decision =
  vad_decision :: audit_decision

record audit_context =
  actx_expected_run_id :: run_id
  actx_goal_contract :: goal_contract
  actx_completion_evidence :: completion_evidence
  actx_evidence_catalog :: "evidence_ref list"
  actx_validated_review_decision :: validated_review_decision

record evaluation_context =
  ectx_expected_run_id :: run_id
  ectx_goal_contract :: goal_contract
  ectx_completion_evidence :: completion_evidence
  ectx_evidence_catalog :: "evidence_ref list"
  ectx_guard_requirements :: "guard_requirement set"

record review_audit_policy =
  rap_reviewer_required :: bool
  rap_auditor_required :: bool

datatype review_audit_error =
    RA_AuditWithoutReview
  | RA_UnsupportedContractVersion string contract_version contract_version
  | RA_BlankField string
  | RA_DuplicateGoalCriterion criterion_kind string
  | RA_UnknownSatisfiedCriterion criterion_kind string
  | RA_DuplicateSatisfiedCriterion criterion_kind string
  | RA_ReorderedSatisfiedCriterion criterion_kind string
  | RA_DuplicateCompletionEvidenceId evidence_id
  | RA_UnsortedCompletionEvidenceIds nat evidence_id evidence_id
  | RA_DuplicateCatalogEvidenceId evidence_id
  | RA_UnsortedCatalogEvidenceIds nat evidence_id evidence_id
  | RA_CompletionEvidenceNotInCatalog evidence_id
  | RA_InsufficientCompletionEvidence u32 u32
  | RA_ProducerRoleMismatch role role
  | RA_RunIdMismatch run_id run_id
  | RA_GoalIdMismatch goal_id goal_id
  | RA_ReviewDecisionIdMismatch review_decision_id review_decision_id
  | RA_AuditDecisionBeforeReview timestamp timestamp
  | RA_DuplicateCriterionAssessment criterion_kind string
  | RA_UnknownCriterionAssessment criterion_kind string
  | RA_MissingCriterionAssessment criterion_kind string
  | RA_ReorderedCriterionAssessment nat criterion_kind string criterion_kind string
  | RA_UnsortedAssessmentEvidenceIds nat
  | RA_DuplicateAssessmentEvidenceId nat evidence_id
  | RA_AssessmentEvidenceNotInCompletion nat evidence_id
  | RA_AssessmentEvidenceNotInCatalog nat evidence_id
  | RA_SatisfiedAssessmentWithoutEvidence nat
  | RA_CompletionSatisfiedCriteriaMismatch criterion_kind "string list" "string list"
  | RA_VerdictMismatch review_verdict review_verdict

type_synonym 'a checked = "(review_audit_error, 'a) result"
type_synonym evidence_catalog = "(evidence_id, evidence_ref) btree_map"

section \<open>Elementary checks\<close>

definition validate_version :: "string \<Rightarrow> contract_version \<Rightarrow> unit checked" where
  "validate_version contract actual =
    require (actual = current_version)
      (RA_UnsupportedContractVersion contract current_version actual)"

definition validate_nonblank :: "string \<Rightarrow> string \<Rightarrow> unit checked" where
  "validate_nonblank field value = require (\<not> is_blank value) (RA_BlankField field)"

definition validate_nonblank_values :: "string \<Rightarrow> string list \<Rightarrow> unit checked" where
  "validate_nonblank_values field values =
    checks (map (\<lambda>(i, v). validate_nonblank (indexed field i) v) (enumerate 0 values))"

definition criterion_kinds :: "criterion_kind list" where
  "criterion_kinds = [Acceptance, Verification, DefinitionOfDone]"

primrec criterion_kind_name :: "criterion_kind \<Rightarrow> string" where
  "criterion_kind_name Acceptance = ''acceptance_criteria''"
| "criterion_kind_name Verification = ''verification_criteria''"
| "criterion_kind_name DefinitionOfDone = ''definition_of_done''"

primrec declared_criteria :: "goal_contract \<Rightarrow> criterion_kind \<Rightarrow> string list" where
  "declared_criteria goal Acceptance = gc_acceptance_criteria goal"
| "declared_criteria goal Verification = gc_verification_criteria goal"
| "declared_criteria goal DefinitionOfDone = gc_definition_of_done goal"

primrec completion_satisfied_criteria ::
    "completion_evidence \<Rightarrow> criterion_kind \<Rightarrow> string list" where
  "completion_satisfied_criteria completion Acceptance =
     ce_satisfied_acceptance_criteria completion"
| "completion_satisfied_criteria completion Verification =
     ce_satisfied_verification_criteria completion"
| "completion_satisfied_criteria completion DefinitionOfDone =
     ce_satisfied_definition_of_done completion"

definition canonical_criteria :: "goal_contract \<Rightarrow> (criterion_kind \<times> string) list" where
  "canonical_criteria goal =
    concat (map (\<lambda>kind. map (Pair kind) (declared_criteria goal kind)) criterion_kinds)"

definition goal_criterion_step ::
    "criterion_kind \<Rightarrow> string set \<Rightarrow> nat \<times> string \<Rightarrow> string set checked" where
  "goal_criterion_step kind seen entry =
    (let (i, criterion) = entry in
     and_then (validate_nonblank
         (''goal_contract.'' @ indexed (criterion_kind_name kind) i) criterion) (\<lambda>_.
     insert_new (RA_DuplicateGoalCriterion kind) seen criterion))"

definition validate_goal_criteria :: "goal_contract \<Rightarrow> unit checked" where
  "validate_goal_criteria goal =
    checks (map (\<lambda>kind.
      and_then (try_fold (goal_criterion_step kind) {} (enumerate 0 (declared_criteria goal kind)))
        (\<lambda>_. Ok ())) criterion_kinds)"

section \<open>Catalog and completion evidence\<close>

definition validate_integrity :: "nat \<Rightarrow> integrity_metadata option \<Rightarrow> unit checked" where
  "validate_integrity i integrity =
    (case integrity of
       None \<Rightarrow> Ok ()
     | Some metadata \<Rightarrow> checks
        [validate_version (indexed ''evidence_catalog'' i @ ''.integrity'')
           (im_contract_version metadata),
         validate_nonblank (indexed ''evidence_catalog'' i @ ''.integrity.algorithm'')
           (im_algorithm metadata),
         validate_nonblank (indexed ''evidence_catalog'' i @ ''.integrity.digest'')
           (im_digest metadata)])"

definition catalog_step ::
    "evidence_catalog \<times> evidence_id option \<Rightarrow> nat \<times> evidence_ref \<Rightarrow>
     (evidence_catalog \<times> evidence_id option) checked" where
  "catalog_step state entry =
    (let (catalog, previous) = state; (i, evidence) = entry in
     and_then (checks
       [validate_version (indexed ''evidence_catalog'' i) (er_contract_version evidence),
        validate_nonblank (indexed ''evidence_catalog'' i @ ''.id'') (er_id evidence),
        validate_nonblank (indexed ''evidence_catalog'' i @ ''.reference'') (er_reference evidence),
        validate_integrity i (er_integrity evidence)]) (\<lambda>_.
     if bm_contains catalog (er_id evidence)
     then Err (RA_DuplicateCatalogEvidenceId (er_id evidence))
     else case previous of
         None \<Rightarrow> Ok (bm_insert (er_id evidence) evidence catalog, Some (er_id evidence))
       | Some p \<Rightarrow>
           if er_id evidence < p then Err (RA_UnsortedCatalogEvidenceIds i p (er_id evidence))
           else Ok (bm_insert (er_id evidence) evidence catalog, Some (er_id evidence))))"

definition validate_catalog :: "evidence_ref list \<Rightarrow> evidence_catalog checked" where
  "validate_catalog evidence_catalog =
    and_then (try_fold catalog_step (bm_empty, None) (enumerate 0 evidence_catalog))
      (\<lambda>(catalog, _). Ok catalog)"

definition completion_ref_step ::
    "evidence_id set \<times> evidence_id option \<Rightarrow> nat \<times> evidence_id \<Rightarrow>
     (evidence_id set \<times> evidence_id option) checked" where
  "completion_ref_step state entry =
    (let (unique, previous) = state; (i, evidence_id) = entry in
     and_then (validate_nonblank (indexed ''completion_evidence.evidence_refs'' i) evidence_id) (\<lambda>_.
     and_then (insert_new RA_DuplicateCompletionEvidenceId unique evidence_id) (\<lambda>unique'.
     case previous of
       None \<Rightarrow> Ok (unique', Some evidence_id)
     | Some p \<Rightarrow>
         if evidence_id < p then Err (RA_UnsortedCompletionEvidenceIds i p evidence_id)
         else Ok (unique', Some evidence_id))))"

definition satisfied_step ::
    "criterion_kind \<Rightarrow> (string, nat) btree_map \<Rightarrow> string set \<times> nat option \<Rightarrow> nat \<times> string \<Rightarrow>
     (string set \<times> nat option) checked" where
  "satisfied_step kind positions state entry =
    (let (seen, previous) = state; (i, criterion) = entry in
     and_then (validate_nonblank
         (''completion_evidence.satisfied_'' @ indexed (criterion_kind_name kind) i) criterion) (\<lambda>_.
     and_then (ok_or (bm_get positions criterion) (RA_UnknownSatisfiedCriterion kind criterion))
       (\<lambda>position.
     and_then (insert_new (RA_DuplicateSatisfiedCriterion kind) seen criterion) (\<lambda>seen'.
     if (case previous of None \<Rightarrow> False | Some p \<Rightarrow> position < p)
     then Err (RA_ReorderedSatisfiedCriterion kind criterion)
     else Ok (seen', Some position)))))"

definition validate_satisfied_list ::
    "goal_contract \<Rightarrow> criterion_kind \<Rightarrow> string list \<Rightarrow> unit checked" where
  "validate_satisfied_list goal kind actual =
    (let positions = bm_collect
           (map (\<lambda>(i, c). (c, i)) (enumerate 0 (declared_criteria goal kind)))
     in and_then (try_fold (satisfied_step kind positions) ({}, None) (enumerate 0 actual))
          (\<lambda>_. Ok ()))"

definition validate_completion_evidence :: "review_context \<Rightarrow> unit checked" where
  "validate_completion_evidence ctx =
    (let completion = rctx_completion_evidence ctx; goal = rctx_goal_contract ctx in
     and_then (try_fold completion_ref_step ({}, None)
         (enumerate 0 (ce_evidence_refs completion))) (\<lambda>(unique, _).
     let required = max (cp_minimum_evidence_refs (gc_completion_precondition goal)) 1;
         actual = of_nat (card unique)
     in checks
       [require (\<not> actual < required) (RA_InsufficientCompletionEvidence required actual),
        validate_satisfied_list goal Acceptance (ce_satisfied_acceptance_criteria completion),
        validate_satisfied_list goal Verification (ce_satisfied_verification_criteria completion),
        validate_satisfied_list goal DefinitionOfDone (ce_satisfied_definition_of_done completion)]))"

definition validate_completion_catalog ::
    "completion_evidence \<Rightarrow> evidence_catalog \<Rightarrow> unit checked" where
  "validate_completion_catalog completion catalog =
    checks (map (\<lambda>e. require (bm_contains catalog e) (RA_CompletionEvidenceNotInCatalog e))
      (ce_evidence_refs completion))"

definition validate_context :: "review_context \<Rightarrow> evidence_catalog checked" where
  "validate_context ctx =
    (let goal = rctx_goal_contract ctx; profile = gc_permission_profile goal in
     and_then (checks
       [validate_version ''goal_contract'' (gc_contract_version goal),
        validate_version ''goal_contract.permission_profile'' (pp_contract_version profile),
        validate_version ''goal_contract.completion_precondition''
          (cp_contract_version (gc_completion_precondition goal)),
        validate_version ''completion_evidence''
          (ce_contract_version (rctx_completion_evidence ctx)),
        validate_nonblank ''expected_run_id'' (rctx_expected_run_id ctx),
        validate_nonblank ''goal_contract.id'' (gc_id goal),
        validate_nonblank ''goal_contract.project_id'' (gc_project_id goal),
        validate_nonblank ''goal_contract.objective'' (gc_objective goal),
        validate_nonblank_values ''goal_contract.constraints'' (gc_constraints goal),
        validate_nonblank_values ''goal_contract.permission_profile.resource_keys''
          (pp_resource_keys profile),
        validate_nonblank_values ''goal_contract.permission_profile.write_keys''
          (pp_write_keys profile),
        validate_goal_criteria goal]) (\<lambda>_.
     and_then (validate_catalog (rctx_evidence_catalog ctx)) (\<lambda>catalog.
     and_then (validate_completion_evidence ctx) (\<lambda>_. Ok catalog))))"

section \<open>Assessments\<close>

definition assessment_ref_check ::
    "nat \<Rightarrow> completion_evidence \<Rightarrow> evidence_catalog \<Rightarrow> evidence_id \<Rightarrow> unit checked" where
  "assessment_ref_check i completion catalog evidence_id = checks
     [require (evidence_id \<in> set (ce_evidence_refs completion))
        (RA_AssessmentEvidenceNotInCompletion i evidence_id),
      require (bm_contains catalog evidence_id)
        (RA_AssessmentEvidenceNotInCatalog i evidence_id)]"

definition assessment_seen_step ::
    "string \<Rightarrow> nat \<Rightarrow> evidence_id set \<Rightarrow> nat \<times> evidence_id \<Rightarrow> evidence_id set checked" where
  "assessment_seen_step decision_name i seen entry =
    (let (j, evidence_id) = entry in
     and_then (validate_nonblank
       (indexed (indexed (decision_name @ ''.assessments'') i @ ''.evidence_refs'') j) evidence_id) (\<lambda>_.
     insert_new (RA_DuplicateAssessmentEvidenceId i) seen evidence_id))"

definition validate_assessment_evidence ::
    "nat \<Rightarrow> criterion_assessment \<Rightarrow> review_context \<Rightarrow> evidence_catalog \<Rightarrow> string \<Rightarrow>
     unit checked" where
  "validate_assessment_evidence i assessment ctx catalog decision_name =
    (let refs = ca_evidence_refs assessment in
     and_then (try_fold (assessment_seen_step decision_name i) {} (enumerate 0 refs)) (\<lambda>_.
     and_then (require (\<not> descends refs) (RA_UnsortedAssessmentEvidenceIds i)) (\<lambda>_.
     and_then (checks (map (assessment_ref_check i (rctx_completion_evidence ctx) catalog) refs)) (\<lambda>_.
     require (\<not> (ca_verdict assessment = Satisfied \<and> refs = []))
       (RA_SatisfiedAssessmentWithoutEvidence i)))))"

abbreviation assessment_key :: "criterion_assessment \<Rightarrow> criterion_kind \<times> string" where
  "assessment_key a \<equiv> (ca_kind a, ca_criterion a)"

definition coverage_step ::
    "(criterion_kind \<times> string) set \<Rightarrow> (criterion_kind \<times> string) set \<Rightarrow> criterion_assessment \<Rightarrow>
     (criterion_kind \<times> string) set checked" where
  "coverage_step declared_set seen a =
    and_then (insert_new (\<lambda>(k, c). RA_DuplicateCriterionAssessment k c) seen (assessment_key a)) (\<lambda>seen'.
    and_then (require (assessment_key a \<in> declared_set)
      (RA_UnknownCriterionAssessment (ca_kind a) (ca_criterion a))) (\<lambda>_.
    Ok seen'))"

definition validate_criterion_coverage ::
    "goal_contract \<Rightarrow> criterion_assessment list \<Rightarrow> unit checked" where
  "validate_criterion_coverage goal assessments =
    (let declared = canonical_criteria goal in
     and_then (try_fold (coverage_step (set declared)) {} assessments) (\<lambda>seen.
     and_then (checks (map (\<lambda>(k, c). require ((k, c) \<in> seen) (RA_MissingCriterionAssessment k c))
       declared)) (\<lambda>_.
     checks (map (\<lambda>(i, (k, c), a). require (k = ca_kind a \<and> c = ca_criterion a)
         (RA_ReorderedCriterionAssessment i k c (ca_kind a) (ca_criterion a)))
       (enumerate 0 (zip declared assessments))))))"

definition satisfied_criteria :: "criterion_kind \<Rightarrow> criterion_assessment list \<Rightarrow> string list" where
  "satisfied_criteria kind assessments =
    map ca_criterion (filter (\<lambda>a. ca_kind a = kind \<and> ca_verdict a = Satisfied) assessments)"

definition validate_completion_alignment ::
    "completion_evidence \<Rightarrow> criterion_assessment list \<Rightarrow> unit checked" where
  "validate_completion_alignment completion assessments =
    checks (map (\<lambda>kind.
      let expected = satisfied_criteria kind assessments;
          actual = completion_satisfied_criteria completion kind
      in require (expected = actual) (RA_CompletionSatisfiedCriteriaMismatch kind expected actual))
      criterion_kinds)"

primrec kind_required :: "goal_contract \<Rightarrow> criterion_kind \<Rightarrow> bool" where
  "kind_required goal Acceptance =
     cp_require_all_acceptance_criteria (gc_completion_precondition goal)"
| "kind_required goal Verification =
     cp_require_all_verification_criteria (gc_completion_precondition goal)"
| "kind_required goal DefinitionOfDone = True"

definition derive_verdict :: "goal_contract \<Rightarrow> criterion_assessment list \<Rightarrow> review_verdict" where
  "derive_verdict goal assessments =
    (if list_ex (\<lambda>a. ca_verdict a = Unsatisfied \<and> kind_required goal (ca_kind a)) assessments
     then VerdictFail else VerdictPass)"

definition assessment_check ::
    "review_context \<Rightarrow> evidence_catalog \<Rightarrow> string \<Rightarrow> nat \<times> criterion_assessment \<Rightarrow> unit checked" where
  "assessment_check ctx catalog decision_name entry =
    (let (i, a) = entry; name = indexed (decision_name @ ''.assessments'') i in checks
      [validate_version name (ca_contract_version a),
       validate_nonblank (name @ ''.criterion'') (ca_criterion a),
       validate_nonblank (name @ ''.rationale'') (ca_rationale a),
       validate_assessment_evidence i a ctx catalog decision_name])"

definition validate_assessments ::
    "review_context \<Rightarrow> criterion_assessment list \<Rightarrow> evidence_catalog \<Rightarrow> string \<Rightarrow> bool \<Rightarrow>
     review_verdict checked" where
  "validate_assessments ctx assessments catalog decision_name enforce_completion_alignment =
    and_then (checks (map (assessment_check ctx catalog decision_name)
      (enumerate 0 assessments))) (\<lambda>_.
    and_then (validate_criterion_coverage (rctx_goal_contract ctx) assessments) (\<lambda>_.
    and_then (if enforce_completion_alignment
              then validate_completion_alignment (rctx_completion_evidence ctx) assessments
              else Ok ()) (\<lambda>_.
    Ok (derive_verdict (rctx_goal_contract ctx) assessments))))"

section \<open>Decisions and the gate\<close>

definition validate_review_decision ::
    "review_context \<Rightarrow> review_decision \<Rightarrow> validated_review_decision checked" where
  "validate_review_decision ctx decision =
    and_then (validate_context ctx) (\<lambda>catalog.
    and_then (checks
      [validate_version ''review_decision'' (rd_contract_version decision),
       validate_nonblank ''review_decision.id'' (rd_id decision),
       validate_nonblank ''review_decision.run_id'' (rd_run_id decision),
       validate_nonblank ''review_decision.goal_id'' (rd_goal_id decision),
       validate_nonblank ''review_decision.summary'' (rd_summary decision),
       require (rd_producer_role decision = Reviewer)
         (RA_ProducerRoleMismatch Reviewer (rd_producer_role decision)),
       require (rd_run_id decision = rctx_expected_run_id ctx)
         (RA_RunIdMismatch (rctx_expected_run_id ctx) (rd_run_id decision)),
       require (rd_goal_id decision = gc_id (rctx_goal_contract ctx))
         (RA_GoalIdMismatch (gc_id (rctx_goal_contract ctx)) (rd_goal_id decision))]) (\<lambda>_.
    and_then (validate_assessments ctx (rd_assessments decision) catalog ''review_decision'' True)
      (\<lambda>derived.
    and_then (validate_completion_catalog (rctx_completion_evidence ctx) catalog) (\<lambda>_.
    and_then (require (derived = rd_verdict decision)
      (RA_VerdictMismatch derived (rd_verdict decision))) (\<lambda>_.
    Ok \<lparr>vrd_decision = decision\<rparr>)))))"

definition validate_review_evidence_context :: "review_context \<Rightarrow> unit checked" where
  "validate_review_evidence_context ctx =
    and_then (validate_context ctx)
      (\<lambda>catalog. validate_completion_catalog (rctx_completion_evidence ctx) catalog)"

definition review_context_of_audit :: "audit_context \<Rightarrow> review_context" where
  "review_context_of_audit ctx =
    \<lparr>rctx_expected_run_id = actx_expected_run_id ctx,
     rctx_goal_contract = actx_goal_contract ctx,
     rctx_completion_evidence = actx_completion_evidence ctx,
     rctx_evidence_catalog = actx_evidence_catalog ctx\<rparr>"

definition validate_audit_decision ::
    "audit_context \<Rightarrow> audit_decision \<Rightarrow> validated_audit_decision checked" where
  "validate_audit_decision ctx decision =
    (let review_ctx = review_context_of_audit ctx;
         review = vrd_decision (actx_validated_review_decision ctx) in
    and_then (validate_context review_ctx) (\<lambda>catalog.
    and_then (checks
      [validate_version ''audit_decision'' (aud_contract_version decision),
       validate_nonblank ''audit_decision.id'' (aud_id decision),
       validate_nonblank ''audit_decision.run_id'' (aud_run_id decision),
       validate_nonblank ''audit_decision.goal_id'' (aud_goal_id decision),
       validate_nonblank ''audit_decision.review_decision_id'' (aud_review_decision_id decision),
       validate_nonblank ''audit_decision.summary'' (aud_summary decision),
       require (aud_producer_role decision = Auditor)
         (RA_ProducerRoleMismatch Auditor (aud_producer_role decision)),
       require (aud_run_id decision = actx_expected_run_id ctx)
         (RA_RunIdMismatch (actx_expected_run_id ctx) (aud_run_id decision)),
       require (aud_goal_id decision = gc_id (actx_goal_contract ctx))
         (RA_GoalIdMismatch (gc_id (actx_goal_contract ctx)) (aud_goal_id decision)),
       require (aud_review_decision_id decision = rd_id review)
         (RA_ReviewDecisionIdMismatch (rd_id review) (aud_review_decision_id decision)),
       require (\<not> aud_decided_at decision < rd_decided_at review)
         (RA_AuditDecisionBeforeReview (rd_decided_at review) (aud_decided_at decision))]) (\<lambda>_.
    and_then (validate_assessments review_ctx (aud_assessments decision) catalog
        ''audit_decision'' False) (\<lambda>derived.
    and_then (validate_completion_catalog (actx_completion_evidence ctx) catalog) (\<lambda>_.
    and_then (require (derived = aud_verdict decision)
      (RA_VerdictMismatch derived (aud_verdict decision))) (\<lambda>_.
    Ok \<lparr>vad_decision = decision\<rparr>))))))"

definition derive_review_audit_policy ::
    "goal_contract \<Rightarrow> guard_requirement set \<Rightarrow> review_audit_policy" where
  "derive_review_audit_policy goal guards =
    (let profile = gc_permission_profile goal;
         auditor_required = pp_audit_required profile \<or> AuditorGate \<in> guards
     in \<lparr>rap_reviewer_required = pp_review_required profile \<or> auditor_required
           \<or> ReviewerGate \<in> guards,
         rap_auditor_required = auditor_required\<rparr>)"

definition resolution_from_review :: "validated_review_decision \<Rightarrow> review_audit_resolution" where
  "resolution_from_review review =
    (case rd_verdict (vrd_decision review) of
       VerdictPass \<Rightarrow> ResolutionPass (Some (rd_id (vrd_decision review))) None
     | VerdictFail \<Rightarrow> ResolutionFail (rd_id (vrd_decision review)) None)"

definition resolve_validated_decisions ::
    "validated_review_decision \<Rightarrow> validated_audit_decision \<Rightarrow> review_audit_resolution" where
  "resolve_validated_decisions review audit =
    (let review_id = rd_id (vrd_decision review); audit_id = aud_id (vad_decision audit)
     in case (rd_verdict (vrd_decision review), aud_verdict (vad_decision audit)) of
       (VerdictPass, VerdictPass) \<Rightarrow> ResolutionPass (Some review_id) (Some audit_id)
     | (VerdictFail, VerdictFail) \<Rightarrow> ResolutionFail review_id (Some audit_id)
     | (reviewer, auditor) \<Rightarrow> OwnerEscalation review_id audit_id reviewer auditor)"

definition review_context_of :: "evaluation_context \<Rightarrow> review_context" where
  "review_context_of ctx =
    \<lparr>rctx_expected_run_id = ectx_expected_run_id ctx,
     rctx_goal_contract = ectx_goal_contract ctx,
     rctx_completion_evidence = ectx_completion_evidence ctx,
     rctx_evidence_catalog = ectx_evidence_catalog ctx\<rparr>"

definition audit_context_of ::
    "evaluation_context \<Rightarrow> validated_review_decision \<Rightarrow> audit_context" where
  "audit_context_of ctx review =
    \<lparr>actx_expected_run_id = ectx_expected_run_id ctx,
     actx_goal_contract = ectx_goal_contract ctx,
     actx_completion_evidence = ectx_completion_evidence ctx,
     actx_evidence_catalog = ectx_evidence_catalog ctx,
     actx_validated_review_decision = review\<rparr>"

definition evaluate_review_audit ::
    "evaluation_context \<Rightarrow> review_decision option \<Rightarrow> audit_decision option \<Rightarrow>
     review_audit_resolution checked" where
  "evaluate_review_audit ctx review_decision audit_decision =
    (let policy =
       derive_review_audit_policy (ectx_goal_contract ctx) (ectx_guard_requirements ctx)
     in case review_decision of
       None \<Rightarrow>
         if audit_decision \<noteq> None then Err RA_AuditWithoutReview
         else if rap_reviewer_required policy then Ok AwaitingReview
         else Ok (ResolutionPass None None)
     | Some review \<Rightarrow>
         and_then (validate_review_decision (review_context_of ctx) review) (\<lambda>validated_review.
         case audit_decision of
           None \<Rightarrow>
             if rap_auditor_required policy
             then Ok (AwaitingAudit (rd_id (vrd_decision validated_review)))
             else Ok (resolution_from_review validated_review)
         | Some audit \<Rightarrow>
             and_then (validate_audit_decision (audit_context_of ctx validated_review) audit)
               (\<lambda>validated_audit.
             Ok (resolve_validated_decisions validated_review validated_audit))))"


section \<open>The checks as conditions\<close>

abbreviation nonblank_list :: "string list \<Rightarrow> bool" where
  "nonblank_list xs \<equiv> \<forall>x \<in> set xs. \<not> is_blank x"

lemma validate_version_Ok_iff [result_iff]: "validate_version contract v = Ok u \<longleftrightarrow> v = 1"
  by (simp add: validate_version_def result_iff)

lemma validate_nonblank_Ok_iff [result_iff]: "validate_nonblank field v = Ok u \<longleftrightarrow> \<not> is_blank v"
  by (simp add: validate_nonblank_def result_iff)

lemma validate_nonblank_values_Ok_iff [result_iff]:
  "validate_nonblank_values field vs = Ok u \<longleftrightarrow> nonblank_list vs"
  unfolding validate_nonblank_values_def by (rule checks_enumerate_Ok_iff) (simp add: result_iff)

lemma validate_goal_criteria_Ok_iff [result_iff]:
  "validate_goal_criteria goal = Ok u \<longleftrightarrow>
     (\<forall>kind. nonblank_list (declared_criteria goal kind) \<and> distinct (declared_criteria goal kind))"
proof -
  have "goal_criterion_step kind seen (i, x) = Ok seen' \<longleftrightarrow>
      \<not> is_blank x \<and> x \<notin> seen \<and> seen' = insert x seen" for kind seen i x seen'
    by (auto simp: goal_criterion_step_def result_iff)
  note loop = try_fold_insert_new [of "goal_criterion_step kind" "\<lambda>x. \<not> is_blank x" for kind, OF this]
  have kinds: "(\<forall>kind \<in> set criterion_kinds. P kind) \<longleftrightarrow> (\<forall>kind. P kind)" for P
    by (auto simp: criterion_kinds_def intro: criterion_kind.exhaust) (metis criterion_kind.exhaust)
  show ?thesis
    by (simp add: validate_goal_criteria_def result_iff loop kinds)
qed

lemma canonical_criteria_distinct:
  "(\<forall>kind. distinct (declared_criteria goal kind)) \<Longrightarrow> distinct (canonical_criteria goal)"
proof -
  assume "\<forall>kind. distinct (declared_criteria goal kind)"
  then have "distinct (map (Pair kind) (declared_criteria goal kind))" for kind
    by (simp add: distinct_map inj_on_def)
  then show ?thesis
    by (auto simp: canonical_criteria_def criterion_kinds_def simp del: declared_criteria.simps)
qed

text \<open>A catalog that is accepted is sorted by ID, without duplicates or blanks.\<close>

definition catalog_entry_ok :: "evidence_ref \<Rightarrow> bool" where
  "catalog_entry_ok e \<longleftrightarrow> er_contract_version e = 1 \<and> \<not> is_blank (er_id e)
     \<and> \<not> is_blank (er_reference e)
     \<and> (case er_integrity e of None \<Rightarrow> True
        | Some m \<Rightarrow> im_contract_version m = 1 \<and> \<not> is_blank (im_algorithm m)
            \<and> \<not> is_blank (im_digest m))"

definition catalog_of :: "evidence_ref list \<Rightarrow> evidence_catalog" where
  "catalog_of refs = fold (\<lambda>e. bm_insert (er_id e) e) refs bm_empty"

lemma bm_keys_catalog_of [simp]: "set (bm_keys (catalog_of refs)) = er_id ` set refs"
proof -
  have "set (bm_keys (fold (\<lambda>e. bm_insert (er_id e) e) refs m)) = set (bm_keys m) \<union> er_id ` set refs"
    for m by (induction refs arbitrary: m) auto
  then show ?thesis by (simp add: catalog_of_def)
qed

lemma validate_catalog_Ok_iff [result_iff]:
  "validate_catalog refs = Ok catalog \<longleftrightarrow>
     (\<forall>e \<in> set refs. catalog_entry_ok e) \<and> sorted_wrt (<) (map er_id refs)
   \<and> catalog = catalog_of refs"
proof -
  let ?upd = "\<lambda>e (c, p). (bm_insert (er_id e) e c, Some (er_id e))"
  have fold_eq: "fold ?upd refs (c, p) = (fold (\<lambda>e. bm_insert (er_id e) e) refs c,
      if refs = [] then p else Some (er_id (last refs)))" for c p
    by (induction refs arbitrary: c p) auto
  have "try_fold catalog_step (bm_empty, None) (enumerate 0 refs) = Ok s' \<longleftrightarrow>
      (\<forall>e \<in> set refs. catalog_entry_ok e) \<and> sorted_wrt (<) (map er_id refs)
    \<and> (\<forall>y \<in> set (bm_keys (fst (bm_empty, None :: evidence_id option) :: evidence_catalog)).
         \<forall>e \<in> set refs. y < er_id e) \<and> s' = fold ?upd refs (bm_empty, None)" for s'
    by (rule try_fold_sorted [where seen = "\<lambda>s. set (bm_keys (fst s))" and previous = snd])
      (auto simp: catalog_step_def catalog_entry_ok_def validate_integrity_def result_iff
        bm_contains_iff split: option.splits if_splits)
  then show ?thesis
    by (auto simp: validate_catalog_def result_iff catalog_of_def fold_eq)
qed

lemma completion_refs_Ok_iff:
  "try_fold completion_ref_step ({}, None) (enumerate 0 refs) = Ok s \<longleftrightarrow>
     nonblank_list refs \<and> sorted_wrt (<) refs
   \<and> s = (set refs, if refs = [] then None else Some (last refs))"
proof -
  let ?upd = "\<lambda>e (u, p). (insert e u, Some e)"
  have fold_eq: "fold ?upd refs (u, p) = (u \<union> set refs, if refs = [] then p else Some (last refs))"
    for u p by (induction refs arbitrary: u p) auto
  have "try_fold completion_ref_step ({}, None) (enumerate 0 refs) = Ok s \<longleftrightarrow>
      nonblank_list refs \<and> sorted_wrt (<) (map (\<lambda>e. e) refs)
    \<and> (\<forall>y \<in> fst ({}, None :: evidence_id option). \<forall>e \<in> set refs. y < e)
    \<and> s = fold ?upd refs ({}, None)"
    by (rule try_fold_sorted [where seen = fst and previous = snd])
      (auto simp: completion_ref_step_def result_iff split: option.splits if_splits)
  then show ?thesis by (simp add: fold_eq)
qed

text \<open>
  A satisfied list is accepted when it lists declared criteria in the declared order,
  each once.
\<close>

definition positions_of :: "string list \<Rightarrow> (string, nat) btree_map" where
  "positions_of declared = bm_collect (map (\<lambda>(i, c). (c, i)) (enumerate 0 declared))"

definition in_declared_order :: "string list \<Rightarrow> string list \<Rightarrow> bool" where
  "in_declared_order declared actual \<longleftrightarrow> nonblank_list actual \<and> set actual \<subseteq> set declared
     \<and> distinct actual
     \<and> sorted_wrt (\<lambda>a b. the (bm_get (positions_of declared) a) < the (bm_get (positions_of declared) b))
         actual"

lemma bm_keys_positions [simp]: "set (bm_keys (positions_of declared)) = set declared"
proof -
  have "fst ` (\<lambda>(i, c). (c, i)) ` set (enumerate n declared) = set declared" for n
    by (induction declared arbitrary: n) auto
  then show ?thesis by (simp add: positions_of_def bm_keys_collect image_image)
qed

lemma satisfied_step_Ok:
  "satisfied_step kind pos (seen, p) (i, c) = Ok s \<Longrightarrow>
   \<exists>position. \<not> is_blank c \<and> c \<in> set (bm_keys pos) \<and> c \<notin> seen
     \<and> s = (insert c seen, Some position)"
  by (auto simp: satisfied_step_def result_iff bm_keys_iff split: if_splits)

lemma validate_satisfied_list_subset:
  assumes "validate_satisfied_list goal kind actual = Ok u"
  shows "set actual \<subseteq> set (declared_criteria goal kind) \<and> distinct actual \<and> nonblank_list actual"
proof -
  let ?pos = "positions_of (declared_criteria goal kind)"
  have "try_fold (satisfied_step kind ?pos) (seen, p) (enumerate n actual) = Ok s \<Longrightarrow>
      set actual \<subseteq> set (bm_keys ?pos) \<and> distinct actual \<and> nonblank_list actual
      \<and> set actual \<inter> seen = {}" for seen p n s
  proof (induction actual arbitrary: seen p n)
    case Nil
    then show ?case by simp
  next
    case (Cons c cs)
    then show ?case
      by (auto simp: result_iff dest!: satisfied_step_Ok) blast+
  qed
  from this [of "{}" None 0] show ?thesis
    using assms
    by (auto simp: validate_satisfied_list_def positions_of_def [symmetric] Let_def result_iff
        simp del: declared_criteria.simps)
qed

section \<open>What an accepted set of assessments says\<close>

lemma validate_assessment_evidence_Ok_iff [result_iff]:
  "validate_assessment_evidence i a ctx catalog name = Ok u \<longleftrightarrow>
     nonblank_list (ca_evidence_refs a) \<and> sorted_wrt (<) (ca_evidence_refs a)
   \<and> set (ca_evidence_refs a) \<subseteq> set (ce_evidence_refs (rctx_completion_evidence ctx))
   \<and> set (ca_evidence_refs a) \<subseteq> set (bm_keys catalog)
   \<and> (ca_verdict a = Satisfied \<longrightarrow> ca_evidence_refs a \<noteq> [])"
proof -
  have "assessment_seen_step name i seen (j, x) = Ok seen' \<longleftrightarrow>
      \<not> is_blank x \<and> x \<notin> seen \<and> seen' = insert x seen" for seen j x seen'
    by (auto simp: assessment_seen_step_def result_iff)
  note loop = try_fold_insert_new [of "assessment_seen_step name i" "\<lambda>x. \<not> is_blank x", OF this]
  show ?thesis
    by (auto simp: validate_assessment_evidence_def Let_def result_iff loop descends_iff
        assessment_ref_check_def bm_contains_iff strict_sorted_iff)
qed

text \<open>
  The four passes of the coverage check (duplicates, unknown, missing, order) accept
  exactly the declared criteria in canonical order.
\<close>

lemma coverage_fold_Ok_iff:
  "try_fold (coverage_step declared) seen assessments = Ok seen' \<longleftrightarrow>
     distinct (map assessment_key assessments)
   \<and> assessment_key ` set assessments \<subseteq> declared
   \<and> assessment_key ` set assessments \<inter> seen = {}
   \<and> seen' = seen \<union> assessment_key ` set assessments"
  by (induction assessments arbitrary: seen) (auto simp: result_iff coverage_step_def)

lemma zip_order_Ok_iff:
  "checks (map (\<lambda>(i, (k, c), a). require (k = ca_kind a \<and> c = ca_criterion a) (e i k c a))
     (enumerate n (zip declared assessments))) = Ok u \<longleftrightarrow>
   list_all2 (\<lambda>d a. d = assessment_key a) (take (length assessments) declared)
     (take (length declared) assessments)"
proof (induction declared arbitrary: assessments n)
  case Nil
  then show ?case by (simp add: result_iff)
next
  case (Cons d ds)
  then show ?case by (cases assessments; cases d) (auto simp: result_iff)
qed

lemma missing_Ok_iff:
  "checks (map (\<lambda>(k, c). require ((k, c) \<in> seen) (e k c)) declared) = Ok u
     \<longleftrightarrow> set declared \<subseteq> seen"
  by (induction declared) (auto simp: result_iff)

lemma list_all2_eq_map: "list_all2 (\<lambda>d a. d = f a) ds as \<longleftrightarrow> ds = map f as"
  by (induction ds arbitrary: "as") (auto simp: list_all2_Cons1 Cons_eq_map_conv)

lemma coverage_Ok_iff:
  assumes "distinct (canonical_criteria goal)"
  shows "validate_criterion_coverage goal assessments = Ok u \<longleftrightarrow>
    map assessment_key assessments = canonical_criteria goal"
    (is "?checks \<longleftrightarrow> ?keys = ?declared")
proof -
  have checks_iff: "?checks \<longleftrightarrow> distinct ?keys \<and> set ?keys = set ?declared
      \<and> list_all2 (\<lambda>d a. d = assessment_key a) (take (length assessments) ?declared)
          (take (length ?declared) assessments)"
    unfolding validate_criterion_coverage_def Let_def and_then_Ok_iff coverage_fold_Ok_iff
      missing_Ok_iff zip_order_Ok_iff by auto
  show ?thesis
  proof
    assume ?checks
    then have distinct: "distinct ?keys" and same: "set ?keys = set ?declared"
      and order: "list_all2 (\<lambda>d a. d = assessment_key a)
        (take (length assessments) ?declared) (take (length ?declared) assessments)"
      using checks_iff by blast+
    have "length ?keys = length ?declared"
      using distinct assms same by (simp only: distinct_card [symmetric])
    then show "?keys = ?declared" using order by (simp add: list_all2_eq_map)
  next
    assume eq: "?keys = ?declared"
    then have "length ?declared = length assessments" by (metis length_map)
    then show ?checks
      unfolding checks_iff using assms eq by (simp add: list_all2_eq_map)
  qed
qed

definition context_ok :: "review_context \<Rightarrow> bool" where
  "context_ok ctx \<longleftrightarrow>
    (let goal = rctx_goal_contract ctx; completion = rctx_completion_evidence ctx;
         refs = rctx_evidence_catalog ctx in
      gc_contract_version goal = 1 \<and> pp_contract_version (gc_permission_profile goal) = 1
    \<and> cp_contract_version (gc_completion_precondition goal) = 1
    \<and> ce_contract_version completion = 1
    \<and> (\<forall>kind. distinct (declared_criteria goal kind)
         \<and> set (completion_satisfied_criteria completion kind) \<subseteq> set (declared_criteria goal kind))
    \<and> (\<forall>e \<in> set refs. catalog_entry_ok e) \<and> sorted_wrt (<) (map er_id refs)
    \<and> sorted_wrt (<) (ce_evidence_refs completion)
    \<and> max (cp_minimum_evidence_refs (gc_completion_precondition goal)) 1
        \<le> unique_evidence_count (ce_evidence_refs completion))"

lemma all_criterion_kinds:
  "(\<forall>kind. P kind) \<longleftrightarrow> P Acceptance \<and> P Verification \<and> P DefinitionOfDone"
  by (metis criterion_kind.exhaust)

lemma validate_completion_evidence_Ok:
  assumes "validate_completion_evidence ctx = Ok u"
  shows "sorted_wrt (<) (ce_evidence_refs (rctx_completion_evidence ctx))"
    "max (cp_minimum_evidence_refs (gc_completion_precondition (rctx_goal_contract ctx))) 1
       \<le> unique_evidence_count (ce_evidence_refs (rctx_completion_evidence ctx))"
    "set (completion_satisfied_criteria (rctx_completion_evidence ctx) kind)
       \<subseteq> set (declared_criteria (rctx_goal_contract ctx) kind)"
proof -
  have satisfied: "\<forall>kind. validate_satisfied_list (rctx_goal_contract ctx) kind
      (completion_satisfied_criteria (rctx_completion_evidence ctx) kind) = Ok ()"
    unfolding all_criterion_kinds using assms
    by (simp add: validate_completion_evidence_def Let_def result_iff completion_refs_Ok_iff)
  show "sorted_wrt (<) (ce_evidence_refs (rctx_completion_evidence ctx))"
    "max (cp_minimum_evidence_refs (gc_completion_precondition (rctx_goal_contract ctx))) 1
       \<le> unique_evidence_count (ce_evidence_refs (rctx_completion_evidence ctx))"
    using assms by (simp_all add: validate_completion_evidence_def Let_def result_iff
        completion_refs_Ok_iff unique_evidence_count_card not_less del: max.bounded_iff)
  show "set (completion_satisfied_criteria (rctx_completion_evidence ctx) kind)
       \<subseteq> set (declared_criteria (rctx_goal_contract ctx) kind)"
    using satisfied validate_satisfied_list_subset by blast
qed

lemma validate_context_Ok:
  assumes "validate_context ctx = Ok catalog"
  shows "context_ok ctx \<and> catalog = catalog_of (rctx_evidence_catalog ctx)"
proof -
  have "validate_completion_evidence ctx = Ok ()"
    using assms by (auto simp: validate_context_def Let_def result_iff)
  note evidence = validate_completion_evidence_Ok [OF this]
  show ?thesis
    using assms evidence
    by (simp add: validate_context_def context_ok_def Let_def result_iff
        del: max.bounded_iff declared_criteria.simps completion_satisfied_criteria.simps)
qed

text \<open>
  What an accepted list of assessments establishes: every declared criterion is assessed
  once, in order; all evidence cited is in the completion record and in the catalog; a
  satisfied criterion cites some; and the verdict is Pass exactly when no required
  criterion is unsatisfied.
\<close>

definition assessed ::
    "goal_contract \<Rightarrow> completion_evidence \<Rightarrow> evidence_ref list \<Rightarrow> criterion_assessment list \<Rightarrow>
     review_verdict \<Rightarrow> bool" where
  "assessed goal completion refs assessments verdict \<longleftrightarrow>
     map assessment_key assessments = canonical_criteria goal
   \<and> (\<forall>a \<in> set assessments.
        set (ca_evidence_refs a) \<subseteq> set (ce_evidence_refs completion) \<inter> er_id ` set refs
      \<and> (ca_verdict a = Satisfied \<longrightarrow> ca_evidence_refs a \<noteq> []))
   \<and> (verdict = VerdictPass \<longleftrightarrow>
        (\<forall>a \<in> set assessments. kind_required goal (ca_kind a) \<longrightarrow> ca_verdict a = Satisfied))"

lemma derive_verdict_Pass_iff:
  "derive_verdict goal assessments = VerdictPass \<longleftrightarrow>
     (\<forall>a \<in> set assessments. kind_required goal (ca_kind a) \<longrightarrow> ca_verdict a = Satisfied)"
  by (auto simp: derive_verdict_def list_ex_iff) (metis criterion_assessment_verdict.exhaust)

lemma validate_completion_alignment_Ok_iff [result_iff]:
  "validate_completion_alignment completion assessments = Ok u \<longleftrightarrow>
     (\<forall>kind. satisfied_criteria kind assessments = completion_satisfied_criteria completion kind)"
  unfolding all_criterion_kinds
  by (simp add: validate_completion_alignment_def criterion_kinds_def Let_def result_iff)

lemma validate_assessments_Ok:
  assumes "validate_context ctx = Ok catalog"
    and "validate_assessments ctx assessments catalog name aligned = Ok verdict"
  shows "assessed (rctx_goal_contract ctx) (rctx_completion_evidence ctx)
      (rctx_evidence_catalog ctx) assessments verdict"
    and "aligned \<Longrightarrow> satisfied_criteria kind assessments =
      completion_satisfied_criteria (rctx_completion_evidence ctx) kind"
proof -
  have ok: "context_ok ctx" and catalog: "catalog = catalog_of (rctx_evidence_catalog ctx)"
    using validate_context_Ok [OF assms(1)] by simp_all
  have distinct: "distinct (canonical_criteria (rctx_goal_contract ctx))"
    using ok by (intro canonical_criteria_distinct) (simp add: context_ok_def Let_def)
  have each: "checks (map (assessment_check ctx catalog name) (enumerate 0 assessments)) = Ok ()"
    and coverage: "validate_criterion_coverage (rctx_goal_contract ctx) assessments = Ok ()"
    and verdict: "verdict = derive_verdict (rctx_goal_contract ctx) assessments"
    and align: "aligned \<Longrightarrow> satisfied_criteria kind assessments =
      completion_satisfied_criteria (rctx_completion_evidence ctx) kind"
    using assms(2) by (auto simp: validate_assessments_def result_iff split: if_splits)
  have "assessment_check ctx catalog name (i, a) = Ok () \<longleftrightarrow>
      ca_contract_version a = 1 \<and> \<not> is_blank (ca_criterion a) \<and> \<not> is_blank (ca_rationale a)
    \<and> validate_assessment_evidence 0 a ctx catalog name = Ok ()" for i a
    by (simp add: assessment_check_def Let_def result_iff)
  from each [unfolded checks_enumerate_Ok_iff [of "assessment_check ctx catalog name", OF this]]
  have "\<forall>a \<in> set assessments.
      set (ca_evidence_refs a) \<subseteq> set (ce_evidence_refs (rctx_completion_evidence ctx))
        \<inter> er_id ` set (rctx_evidence_catalog ctx)
      \<and> (ca_verdict a = Satisfied \<longrightarrow> ca_evidence_refs a \<noteq> [])"
    by (simp add: result_iff catalog)
  then show "assessed (rctx_goal_contract ctx) (rctx_completion_evidence ctx)
      (rctx_evidence_catalog ctx) assessments verdict"
    using coverage verdict
    unfolding assessed_def coverage_Ok_iff [OF distinct]
    by (simp add: derive_verdict_Pass_iff)
  show "aligned \<Longrightarrow> satisfied_criteria kind assessments =
      completion_satisfied_criteria (rctx_completion_evidence ctx) kind" by (rule align)
qed

text \<open>The facts a validated review and a validated audit carry.\<close>

lemma validate_review_decision_Ok:
  assumes "validate_review_decision ctx d = Ok v"
  shows "v = \<lparr>vrd_decision = d\<rparr>" "context_ok ctx" "rd_producer_role d = Reviewer"
    "rd_run_id d = rctx_expected_run_id ctx" "rd_goal_id d = gc_id (rctx_goal_contract ctx)"
    "assessed (rctx_goal_contract ctx) (rctx_completion_evidence ctx) (rctx_evidence_catalog ctx)
       (rd_assessments d) (rd_verdict d)"
    "satisfied_criteria kind (rd_assessments d) =
       completion_satisfied_criteria (rctx_completion_evidence ctx) kind"
proof -
  obtain catalog where c: "validate_context ctx = Ok catalog"
    and a: "validate_assessments ctx (rd_assessments d) catalog ''review_decision'' True
      = Ok (rd_verdict d)"
    using assms by (auto simp: validate_review_decision_def result_iff)
  show "v = \<lparr>vrd_decision = d\<rparr>" "rd_producer_role d = Reviewer"
    "rd_run_id d = rctx_expected_run_id ctx" "rd_goal_id d = gc_id (rctx_goal_contract ctx)"
    using assms by (auto simp: validate_review_decision_def result_iff)
  show "context_ok ctx"
    "assessed (rctx_goal_contract ctx) (rctx_completion_evidence ctx) (rctx_evidence_catalog ctx)
       (rd_assessments d) (rd_verdict d)"
    "satisfied_criteria kind (rd_assessments d) =
       completion_satisfied_criteria (rctx_completion_evidence ctx) kind"
    using validate_context_Ok [OF c] validate_assessments_Ok [OF c a] by simp_all
qed

lemma validate_audit_decision_Ok:
  assumes "validate_audit_decision ctx d = Ok v"
  shows "v = \<lparr>vad_decision = d\<rparr>" "aud_producer_role d = Auditor"
    "aud_run_id d = actx_expected_run_id ctx" "aud_goal_id d = gc_id (actx_goal_contract ctx)"
    "aud_review_decision_id d = rd_id (vrd_decision (actx_validated_review_decision ctx))"
    "rd_decided_at (vrd_decision (actx_validated_review_decision ctx)) \<le> aud_decided_at d"
    "assessed (actx_goal_contract ctx) (actx_completion_evidence ctx) (actx_evidence_catalog ctx)
       (aud_assessments d) (aud_verdict d)"
proof -
  let ?ctx = "review_context_of_audit ctx"
  obtain catalog where c: "validate_context ?ctx = Ok catalog"
    and a: "validate_assessments ?ctx (aud_assessments d) catalog ''audit_decision'' False
      = Ok (aud_verdict d)"
    using assms by (auto simp: validate_audit_decision_def Let_def result_iff)
  show "v = \<lparr>vad_decision = d\<rparr>" "aud_producer_role d = Auditor"
    "aud_run_id d = actx_expected_run_id ctx" "aud_goal_id d = gc_id (actx_goal_contract ctx)"
    "aud_review_decision_id d = rd_id (vrd_decision (actx_validated_review_decision ctx))"
    "rd_decided_at (vrd_decision (actx_validated_review_decision ctx)) \<le> aud_decided_at d"
    using assms by (auto simp: validate_audit_decision_def Let_def result_iff)
  show "assessed (actx_goal_contract ctx) (actx_completion_evidence ctx) (actx_evidence_catalog ctx)
       (aud_assessments d) (aud_verdict d)"
    using validate_assessments_Ok(1) [OF c a] by (simp add: review_context_of_audit_def)
qed

section \<open>The gate\<close>

lemma evaluate_Pass_cases:
  assumes "evaluate_review_audit ctx review audit = Ok (ResolutionPass rid aid)"
  obtains (none) "review = None" "audit = None" "rid = None" "aid = None"
      "\<not> rap_reviewer_required (derive_review_audit_policy (ectx_goal_contract ctx)
         (ectx_guard_requirements ctx))"
    | (review) r where "review = Some r" "audit = None" "rid = Some (rd_id r)" "aid = None"
      "validate_review_decision (review_context_of ctx) r = Ok \<lparr>vrd_decision = r\<rparr>"
      "rd_verdict r = VerdictPass"
      "\<not> rap_auditor_required (derive_review_audit_policy (ectx_goal_contract ctx)
         (ectx_guard_requirements ctx))"
    | (both) r a where "review = Some r" "audit = Some a" "rid = Some (rd_id r)" "aid = Some (aud_id a)"
      "validate_review_decision (review_context_of ctx) r = Ok \<lparr>vrd_decision = r\<rparr>"
      "rd_verdict r = VerdictPass"
      "validate_audit_decision (audit_context_of ctx \<lparr>vrd_decision = r\<rparr>) a = Ok \<lparr>vad_decision = a\<rparr>"
      "aud_verdict a = VerdictPass"
proof (cases review)
  case None
  then show ?thesis
    using assms none by (auto simp: evaluate_review_audit_def Let_def split: if_splits)
next
  case (Some r)
  with assms obtain v where v: "validate_review_decision (review_context_of ctx) r = Ok v"
    by (auto simp: evaluate_review_audit_def Let_def result_iff)
  then have r: "validate_review_decision (review_context_of ctx) r = Ok \<lparr>vrd_decision = r\<rparr>"
    using validate_review_decision_Ok(1) by metis
  show ?thesis
  proof (cases audit)
    case None
    show ?thesis
      by (rule review [of r])
        (use assms Some None r in \<open>auto simp: evaluate_review_audit_def Let_def
          resolution_from_review_def split: if_splits review_verdict.splits\<close>)
  next
    case audit: (Some a)
    with assms Some r obtain w where
      "validate_audit_decision (audit_context_of ctx \<lparr>vrd_decision = r\<rparr>) a = Ok w"
      by (auto simp: evaluate_review_audit_def Let_def result_iff)
    then have a: "validate_audit_decision (audit_context_of ctx \<lparr>vrd_decision = r\<rparr>) a
        = Ok \<lparr>vad_decision = a\<rparr>"
      using validate_audit_decision_Ok(1) by metis
    show ?thesis
      by (rule both [of r a])
        (use assms Some audit r a in \<open>auto simp: evaluate_review_audit_def Let_def
          resolve_validated_decisions_def split: review_verdict.splits\<close>)
  qed
qed

lemma gate_Pass_facts:
  assumes "evaluate_review_audit ctx review audit = Ok (ResolutionPass rid aid)"
  shows "(rap_reviewer_required (derive_review_audit_policy (ectx_goal_contract ctx)
            (ectx_guard_requirements ctx)) \<longrightarrow> review \<noteq> None)
    \<and> (rap_auditor_required (derive_review_audit_policy (ectx_goal_contract ctx)
            (ectx_guard_requirements ctx)) \<longrightarrow> audit \<noteq> None)
    \<and> rid = map_option rd_id review \<and> aid = map_option aud_id audit
    \<and> (\<forall>r. review = Some r \<longrightarrow> rd_producer_role r = Reviewer
         \<and> rd_run_id r = ectx_expected_run_id ctx \<and> rd_goal_id r = gc_id (ectx_goal_contract ctx)
         \<and> assessed (ectx_goal_contract ctx) (ectx_completion_evidence ctx)
             (ectx_evidence_catalog ctx) (rd_assessments r) VerdictPass)
    \<and> (\<forall>a. audit = Some a \<longrightarrow> aud_producer_role a = Auditor
         \<and> aud_run_id a = ectx_expected_run_id ctx \<and> aud_goal_id a = gc_id (ectx_goal_contract ctx)
         \<and> assessed (ectx_goal_contract ctx) (ectx_completion_evidence ctx)
             (ectx_evidence_catalog ctx) (aud_assessments a) VerdictPass
         \<and> (\<exists>r. review = Some r \<and> aud_review_decision_id a = rd_id r
              \<and> rd_decided_at r \<le> aud_decided_at a))"
  using assms
proof (cases rule: evaluate_Pass_cases)
  case none
  then show ?thesis by (simp add: derive_review_audit_policy_def Let_def)
next
  case (review r)
  then show ?thesis
    using validate_review_decision_Ok [OF review(5)] by (simp add: review_context_of_def)
next
  case (both r a)
  then show ?thesis
    using validate_review_decision_Ok [OF both(5)] validate_audit_decision_Ok [OF both(7)]
    by (simp add: review_context_of_def audit_context_of_def)
qed

text \<open>
  C5 (what a passed gate means): the gate passes only if every required role has
  decided, a decision was made by the role it claims, for this run and goal, and each
  decision assesses every declared criterion in order, finds every required criterion
  satisfied, and cites for each satisfied one evidence that is both in the completion
  record and in the catalog. An audit refers to the review it follows and is not older.
\<close>

theorem gate_pass_sound:
  assumes "evaluate_review_audit ctx review audit = Ok (ResolutionPass rid aid)"
  shows "(rap_reviewer_required (derive_review_audit_policy (ectx_goal_contract ctx)
            (ectx_guard_requirements ctx)) \<longrightarrow> review \<noteq> None)
    \<and> (rap_auditor_required (derive_review_audit_policy (ectx_goal_contract ctx)
            (ectx_guard_requirements ctx)) \<longrightarrow> audit \<noteq> None)
    \<and> rid = map_option rd_id review \<and> aid = map_option aud_id audit
    \<and> (\<forall>r. review = Some r \<longrightarrow> rd_producer_role r = Reviewer
         \<and> rd_run_id r = ectx_expected_run_id ctx \<and> rd_goal_id r = gc_id (ectx_goal_contract ctx)
         \<and> assessed (ectx_goal_contract ctx) (ectx_completion_evidence ctx)
             (ectx_evidence_catalog ctx) (rd_assessments r) VerdictPass)
    \<and> (\<forall>a. audit = Some a \<longrightarrow> aud_producer_role a = Auditor
         \<and> aud_run_id a = ectx_expected_run_id ctx \<and> aud_goal_id a = gc_id (ectx_goal_contract ctx)
         \<and> assessed (ectx_goal_contract ctx) (ectx_completion_evidence ctx)
             (ectx_evidence_catalog ctx) (aud_assessments a) VerdictPass
         \<and> (\<exists>r. review = Some r \<and> aud_review_decision_id a = rd_id r
              \<and> rd_decided_at r \<le> aud_decided_at a))"
  using assms by (rule gate_Pass_facts)

lemma satisfied_criteria_subset:
  assumes "assessed goal completion refs assessments VerdictPass" and "kind_required goal kind"
  shows "set (declared_criteria goal kind) \<subseteq> set (satisfied_criteria kind assessments)"
proof
  fix c assume "c \<in> set (declared_criteria goal kind)"
  then have "(kind, c) \<in> set (canonical_criteria goal)"
    by (cases kind) (auto simp: canonical_criteria_def criterion_kinds_def)
  moreover have "set (canonical_criteria goal) = assessment_key ` set assessments"
    using assms(1) by (simp add: assessed_def flip: set_map)
  ultimately obtain a where a: "a \<in> set assessments" "assessment_key a = (kind, c)" by force
  then have "ca_verdict a = Satisfied" using assms by (auto simp: assessed_def)
  with a show "c \<in> set (satisfied_criteria kind assessments)"
    by (auto simp: satisfied_criteria_def)
qed

lemma review_Pass_admissible:
  assumes "validate_review_decision ctx r = Ok v" and "rd_verdict r = VerdictPass"
  shows "completion_admissible
    (required_completion_gate (gc_permission_profile (rctx_goal_contract ctx)) guards)
    (rctx_goal_contract ctx) (rctx_completion_evidence ctx) guards"
proof -
  note ok = validate_review_decision_Ok [OF assms(1)]
  let ?goal = "rctx_goal_contract ctx" and ?completion = "rctx_completion_evidence ctx"
  have "set (declared_criteria ?goal kind) \<subseteq> set (completion_satisfied_criteria ?completion kind)"
    if "kind_required ?goal kind" for kind
    using satisfied_criteria_subset [OF ok(6) [unfolded assms(2)] that] ok(7) by simp
  from this [of Acceptance] this [of Verification] this [of DefinitionOfDone] ok(2)
  show ?thesis
    by (simp add: completion_admissible_def context_ok_def Let_def del: max.bounded_iff)
qed

text \<open>
  A passed review opens completion: when the gate passes on a Reviewer decision,
  the transition validator accepts completion from the required gate state with the
  same goal, completion record and guard requirements. Review and transition rules
  cannot disagree.
\<close>

theorem gate_pass_completes:
  assumes "evaluate_review_audit ctx (Some review) audit = Ok (ResolutionPass rid aid)"
  shows "validate_run_transition_with_guard_requirements
    (required_completion_gate (gc_permission_profile (ectx_goal_contract ctx))
      (ectx_guard_requirements ctx))
    Completed (Some (ectx_goal_contract ctx)) (Some (ectx_completion_evidence ctx))
    (ectx_guard_requirements ctx) = Ok ()"
proof -
  from assms have "\<exists>v. validate_review_decision (review_context_of ctx) review = Ok v
      \<and> rd_verdict review = VerdictPass"
    by (cases rule: evaluate_Pass_cases) auto
  then obtain v where "validate_review_decision (review_context_of ctx) review = Ok v"
    "rd_verdict review = VerdictPass" by blast
  then have "completion_admissible
      (required_completion_gate (gc_permission_profile (ectx_goal_contract ctx))
        (ectx_guard_requirements ctx))
      (ectx_goal_contract ctx) (ectx_completion_evidence ctx) (ectx_guard_requirements ctx)"
    using review_Pass_admissible [of "review_context_of ctx"] by (simp add: review_context_of_def)
  then show ?thesis by (simp add: validate_completion_iff)
qed

text \<open>
  Disagreement is escalated, not decided: with both decisions accepted, the gate
  passes exactly when neither assessment list leaves a required criterion unsatisfied,
  fails exactly when both do, and escalates to the owner exactly when they differ. A
  verdict that its own assessments contradict is never accepted.
\<close>

theorem gate_resolution_by_assessments:
  assumes "evaluate_review_audit ctx (Some r) (Some a) = Ok resolution"
  shows "derive_verdict (ectx_goal_contract ctx) (rd_assessments r) = rd_verdict r
    \<and> derive_verdict (ectx_goal_contract ctx) (aud_assessments a) = aud_verdict a
    \<and> resolution =
        (if rd_verdict r \<noteq> aud_verdict a
         then OwnerEscalation (rd_id r) (aud_id a) (rd_verdict r) (aud_verdict a)
         else if rd_verdict r = VerdictPass
         then ResolutionPass (Some (rd_id r)) (Some (aud_id a))
         else ResolutionFail (rd_id r) (Some (aud_id a)))"
proof -
  obtain v w where v: "validate_review_decision (review_context_of ctx) r = Ok v"
    and w: "validate_audit_decision (audit_context_of ctx v) a = Ok w"
    and res: "resolution = resolve_validated_decisions v w"
    using assms by (auto simp: evaluate_review_audit_def Let_def result_iff)
  have "derive_verdict (ectx_goal_contract ctx) (rd_assessments r) = rd_verdict r"
    using v by (auto simp: validate_review_decision_def validate_assessments_def result_iff
        review_context_of_def)
  moreover have "derive_verdict (ectx_goal_contract ctx) (aud_assessments a) = aud_verdict a"
    using w by (auto simp: validate_audit_decision_def validate_assessments_def result_iff
        review_context_of_audit_def audit_context_of_def Let_def)
  ultimately show ?thesis
    using validate_review_decision_Ok(1) [OF v] validate_audit_decision_Ok(1) [OF w] res
    by (cases "rd_verdict r"; cases "aud_verdict a") (simp_all add: resolve_validated_decisions_def)
qed

text \<open>
  The coverage check is list equality: for a goal without duplicate criteria the
  four passes over the assessments, for duplicates, unknown, missing and reordered
  criteria, succeed exactly when the assessed keys are the goal's canonical criteria.
\<close>

theorem coverage_check_iff:
  assumes "\<And>kind. distinct (declared_criteria goal kind)"
  shows "validate_criterion_coverage goal assessments = Ok () \<longleftrightarrow>
    map assessment_key assessments = canonical_criteria goal"
  using assms by (intro coverage_Ok_iff canonical_criteria_distinct) simp

section \<open>A concrete gate\<close>

definition sample_profile :: permission_profile where
  "sample_profile = \<lparr>pp_contract_version = 1, pp_risk_tier = R2, pp_resource_keys = [''repo''],
     pp_write_keys = [''repo''], pp_approval_required = True, pp_review_required = True,
     pp_audit_required = True\<rparr>"

definition sample_goal :: goal_contract where
  "sample_goal = \<lparr>gc_contract_version = 1, gc_id = ''goal'', gc_project_id = ''project'',
     gc_objective = ''ship'', gc_constraints = [], gc_acceptance_criteria = [''builds''],
     gc_verification_criteria = [''tests pass''], gc_permission_profile = sample_profile,
     gc_definition_of_done = [''documented''],
     gc_completion_precondition = default_completion_precondition,
     gc_created_at = 0, gc_updated_at = 0\<rparr>"

definition sample_evidence :: "evidence_id \<Rightarrow> evidence_ref" where
  "sample_evidence i = \<lparr>er_contract_version = 1, er_id = i, er_kind = TestResult,
     er_reference = ''report'', er_producer_role = Engineer, er_integrity = None,
     er_produced_at = 1\<rparr>"

definition sample_completion :: completion_evidence where
  "sample_completion = \<lparr>ce_contract_version = 1, ce_evidence_refs = [''e1'', ''e2''],
     ce_satisfied_acceptance_criteria = [''builds''],
     ce_satisfied_verification_criteria = [''tests pass''],
     ce_satisfied_definition_of_done = [''documented'']\<rparr>"

definition sample_assessment :: "criterion_kind \<Rightarrow> string \<Rightarrow> criterion_assessment" where
  "sample_assessment kind criterion = \<lparr>ca_contract_version = 1, ca_kind = kind,
     ca_criterion = criterion, ca_verdict = Satisfied, ca_evidence_refs = [''e1'', ''e2''],
     ca_rationale = ''seen''\<rparr>"

definition sample_assessments :: "criterion_assessment list" where
  "sample_assessments = [sample_assessment Acceptance ''builds'',
     sample_assessment Verification ''tests pass'', sample_assessment DefinitionOfDone ''documented'']"

definition sample_review :: review_decision where
  "sample_review = \<lparr>rd_contract_version = 1, rd_id = ''review'', rd_run_id = ''run'',
     rd_goal_id = ''goal'', rd_producer_role = Reviewer, rd_verdict = VerdictPass,
     rd_assessments = sample_assessments, rd_summary = ''good'', rd_decided_at = 5\<rparr>"

definition sample_audit :: "review_verdict \<Rightarrow> criterion_assessment list \<Rightarrow> audit_decision" where
  "sample_audit verdict assessments = \<lparr>aud_contract_version = 1, aud_id = ''audit'',
     aud_run_id = ''run'', aud_goal_id = ''goal'', aud_review_decision_id = ''review'',
     aud_producer_role = Auditor, aud_verdict = verdict, aud_assessments = assessments,
     aud_summary = ''checked'', aud_decided_at = 6\<rparr>"

definition sample_failed_assessments :: "criterion_assessment list" where
  "sample_failed_assessments = [sample_assessment Acceptance ''builds'',
     (sample_assessment Verification ''tests pass'')\<lparr>ca_verdict := Unsatisfied\<rparr>,
     sample_assessment DefinitionOfDone ''documented'']"

definition sample_evaluation :: evaluation_context where
  "sample_evaluation = \<lparr>ectx_expected_run_id = ''run'', ectx_goal_contract = sample_goal,
     ectx_completion_evidence = sample_completion,
     ectx_evidence_catalog = [sample_evidence ''e1'', sample_evidence ''e2''],
     ectx_guard_requirements = {}\<rparr>"

lemma sample_gate_Pass:
  "evaluate_review_audit sample_evaluation (Some sample_review)
     (Some (sample_audit VerdictPass sample_assessments))
   = Ok (ResolutionPass (Some ''review'') (Some ''audit''))"
  by code_simp

lemma sample_gate_escalates:
  "evaluate_review_audit sample_evaluation (Some sample_review)
     (Some (sample_audit VerdictFail sample_failed_assessments))
   = Ok (OwnerEscalation ''review'' ''audit'' VerdictPass VerdictFail)"
  by code_simp

theorem gate_pass_sound_witness:
  "assessed sample_goal sample_completion [sample_evidence ''e1'', sample_evidence ''e2'']
     (aud_assessments (sample_audit VerdictPass sample_assessments)) VerdictPass"
  using gate_pass_sound [OF sample_gate_Pass] by (simp add: sample_evaluation_def)

theorem gate_pass_completes_witness:
  "validate_run_transition_with_guard_requirements Auditing Completed (Some sample_goal)
     (Some sample_completion) {} = Ok ()"
  using gate_pass_completes [OF sample_gate_Pass]
  by (simp add: sample_evaluation_def sample_goal_def sample_profile_def required_completion_gate_def)

theorem gate_resolution_by_assessments_witness:
  "derive_verdict sample_goal sample_failed_assessments = VerdictFail"
  using gate_resolution_by_assessments [OF sample_gate_escalates]
  by (simp add: sample_evaluation_def sample_audit_def)

theorem coverage_check_iff_witness:
  "validate_criterion_coverage sample_goal sample_assessments = Ok ()
   \<and> validate_criterion_coverage sample_goal (rev sample_assessments) \<noteq> Ok ()"
proof -
  have distinct: "distinct (declared_criteria sample_goal kind)" for kind
    by (cases kind) (simp_all add: sample_goal_def)
  show ?thesis
    unfolding coverage_check_iff [OF distinct]
    by (simp add: canonical_criteria_def criterion_kinds_def sample_goal_def sample_assessments_def
        sample_assessment_def)
qed

end
