(* ===== verification/Finalization.thy ===== *)
theory Finalization
  imports Contracts
begin

text \<open>
  The finalization kernel of \<open>ovca-runtime-core/src/finalization.rs\<close>: one optional
  final response, accepted once and only from the Coordinator, and its reconstruction
  from a run's events.
\<close>

section \<open>The model\<close>

datatype finalization_error = FE_RoleNotAuthorized role | FE_AlreadyFinalized

record finalization_kernel =
  fk_final_response :: "coordinator_final_response option"

definition new_finalization_kernel :: finalization_kernel where
  "new_finalization_kernel = \<lparr>fk_final_response = None\<rparr>"

definition is_finalized :: "finalization_kernel \<Rightarrow> bool" where
  "is_finalized self = (fk_final_response self \<noteq> None)"

definition final_response :: "finalization_kernel \<Rightarrow> coordinator_final_response option" where
  "final_response self = fk_final_response self"

definition accept_final ::
    "role \<Rightarrow> coordinator_final_response \<Rightarrow> finalization_kernel \<Rightarrow>
     (finalization_error, finalization_kernel) result" where
  "accept_final producer_role response self =
    (if producer_role \<noteq> Coordinator then Err (FE_RoleNotAuthorized producer_role)
     else if fk_final_response self \<noteq> None then Err FE_AlreadyFinalized
     else Ok (self\<lparr>fk_final_response := Some response\<rparr>))"

text \<open>The payload to append, with the new kernel; on an error the kernel is unchanged.\<close>

definition finalize ::
    "role \<Rightarrow> coordinator_final_response \<Rightarrow> finalization_kernel \<Rightarrow>
     (finalization_error, run_event_payload \<times> finalization_kernel) result" where
  "finalize producer_role response self =
    and_then (accept_final producer_role response self) (\<lambda>self'.
    Ok (CoordinatorFinalResponseRecorded response, self'))"

definition replay_final_event ::
    "finalization_kernel \<Rightarrow> run_event \<Rightarrow> (finalization_error, finalization_kernel) result" where
  "replay_final_event self event =
    (case ev_payload event of
       CoordinatorFinalResponseRecorded response \<Rightarrow>
         accept_final (ev_producer_role event) response self
     | _ \<Rightarrow> Ok self)"

definition replay_finalization ::
    "run_event list \<Rightarrow> (finalization_error, finalization_kernel) result" where
  "replay_finalization events = try_fold replay_final_event new_finalization_kernel events"

section \<open>Exactly once\<close>

text \<open>The final responses of a history, with the roles that produced them.\<close>

fun final_of :: "run_event \<Rightarrow> (role \<times> coordinator_final_response) option" where
  "final_of event =
    (case ev_payload event of
       CoordinatorFinalResponseRecorded response \<Rightarrow> Some (ev_producer_role event, response)
     | _ \<Rightarrow> None)"

declare final_of.simps [simp del]

definition finals :: "run_event list \<Rightarrow> (role \<times> coordinator_final_response) list" where
  "finals events = List.map_filter final_of events"

lemma finals_simps [simp]:
  "finals [] = []"
  "finals (e # es) = (case final_of e of None \<Rightarrow> finals es | Some x \<Rightarrow> x # finals es)"
  by (simp_all add: finals_def List.map_filter_def split: option.splits)

lemma replay_final_event_eq:
  "replay_final_event self e =
    (case final_of e of None \<Rightarrow> Ok self | Some (r, resp) \<Rightarrow> accept_final r resp self)"
  by (simp add: replay_final_event_def final_of.simps split: run_event_payload.splits)

lemma replay_final_Ok_iff:
  "try_fold replay_final_event self events = Ok self' \<longleftrightarrow>
     finals events = [] \<and> self' = self
   \<or> (\<exists>resp. finals events = [(Coordinator, resp)] \<and> fk_final_response self = None
        \<and> self' = self\<lparr>fk_final_response := Some resp\<rparr>)"
proof (induction events arbitrary: self)
  case Nil
  then show ?case by auto
next
  case (Cons e es)
  then show ?case
    by (auto simp: replay_final_event_eq accept_final_def result_iff split: option.splits)
qed

text \<open>
  C4 (exactly one final response): replay succeeds exactly when the history holds at
  most one final response and it was produced by the Coordinator, and its state is
  that response; once a run is finalized, no role can finalize it again.
\<close>

theorem finalization_exactly_once:
  "(replay_finalization events = Ok self \<longleftrightarrow>
      finals events = [] \<and> fk_final_response self = None
    \<or> (\<exists>resp. finals events = [(Coordinator, resp)] \<and> fk_final_response self = Some resp))
   \<and> (\<forall>role resp payload self'. is_finalized self \<or> role \<noteq> Coordinator
        \<longrightarrow> finalize role resp self \<noteq> Ok (payload, self'))"
proof -
  have eq: "k = new_finalization_kernel \<longleftrightarrow> fk_final_response k = None"
    "k = new_finalization_kernel\<lparr>fk_final_response := Some r\<rparr> \<longleftrightarrow> fk_final_response k = Some r"
    for k r by (cases k; simp add: new_finalization_kernel_def)+
  have "fk_final_response new_finalization_kernel = None"
    by (simp add: new_finalization_kernel_def)
  then show ?thesis
    unfolding replay_finalization_def replay_final_Ok_iff eq
    by (auto simp: finalize_def accept_final_def is_finalized_def result_iff split: if_splits)
qed

text \<open>
  Finalize agrees with replay: appending the payload that \<open>finalize\<close> returns, under
  the finalizing role, to the history the kernel was replayed from gives a history that
  replays to the kernel \<open>finalize\<close> left.
\<close>

theorem finalize_then_replay:
  assumes "replay_finalization events = Ok self"
    and "finalize role resp self = Ok (payload, self')"
    and "ev_producer_role event = role" and "ev_payload event = payload"
  shows "replay_finalization (events @ [event]) = Ok self'
    \<and> final_response self' = Some resp"
proof -
  have "role = Coordinator" "fk_final_response self = None"
    "payload = CoordinatorFinalResponseRecorded resp"
    "self' = self\<lparr>fk_final_response := Some resp\<rparr>"
    using assms(2) by (auto simp: finalize_def accept_final_def result_iff split: if_splits)
  then show ?thesis
    using assms(1,3,4)
    by (simp add: replay_finalization_def try_fold_append replay_final_event_def
        accept_final_def final_response_def)
qed

section \<open>Concrete histories\<close>

definition sample_response :: coordinator_final_response where
  "sample_response = \<lparr>cfr_contract_version = 1, cfr_response = ''done'', cfr_evidence_refs = [''e1'']\<rparr>"

definition final_event :: "role \<Rightarrow> run_event" where
  "final_event role = \<lparr>ev_contract_version = 1, ev_id = ''ev'', ev_run_id = ''run'',
     ev_sequence = 1, ev_previous_event_id = None, ev_occurred_at = 0, ev_producer_role = role,
     ev_payload = CoordinatorFinalResponseRecorded sample_response, ev_metadata = bm_empty\<rparr>"

theorem finalization_exactly_once_witness:
  "\<forall>state. replay_finalization [final_event Coordinator, final_event Coordinator] \<noteq> Ok state
   \<and> replay_finalization [final_event Engineer] \<noteq> Ok state"
proof
  fix state
  show "replay_finalization [final_event Coordinator, final_event Coordinator] \<noteq> Ok state
   \<and> replay_finalization [final_event Engineer] \<noteq> Ok state"
    using finalization_exactly_once [of "[final_event Coordinator, final_event Coordinator]" state]
      finalization_exactly_once [of "[final_event Engineer]" state]
    by (simp add: final_of.simps final_event_def)
qed

theorem finalize_then_replay_witness:
  "replay_finalization ([] @ [final_event Coordinator]) =
     Ok \<lparr>fk_final_response = Some sample_response\<rparr>"
  by (rule finalize_then_replay [of "[]" new_finalization_kernel Coordinator sample_response
      "CoordinatorFinalResponseRecorded sample_response", THEN conjunct1])
    (simp_all add: replay_finalization_def new_finalization_kernel_def finalize_def
      accept_final_def final_event_def)

end
