(* ===== verification/Replay.thy ===== *)
theory Replay
  imports Review_Audit Finalization
begin

text \<open>
  Event replay of \<open>ovca-runtime-core/src/replay.rs\<close>: the structural validation of an
  event chain, one definition per event kind, and the fold that rebuilds a run. The
  theorems characterise valid chains, show that replay of a prefix is a prefix of the
  replay, and say what a run that replays to \<open>Completed\<close> has been through.
\<close>

section \<open>Errors and state\<close>

datatype replay_error =
    RP_EmptyStream
  | RP_ContractVersionMismatch u64 contract_version contract_version
  | RP_FirstEventNotRunCreated event_id
  | RP_DuplicateRunCreated u64 event_id
  | RP_RunIdMismatch u64 run_id run_id
  | RP_SequenceMismatch event_id u64 u64
  | RP_InitialPreviousEventIdPresent event_id event_id
  | RP_PreviousEventIdMismatch u64 event_id event_id "event_id option"
  | RP_DuplicateEventId event_id u64 u64
  | RP_InitialRunStatusMismatch event_id run_status run_status
  | RP_GoalContractIdMismatch goal_id goal_id
  | RP_GoalContractProjectIdMismatch project_id project_id
  | RP_NestedContractVersionMismatch u64 string contract_version contract_version
  | RP_DuplicateDeclaredTask u64 task_id
  | RP_DuplicateExecutionPlan u64
  | RP_ExecutionPlanWaveIndexMismatch u64 u64 u32
  | RP_ExecutionPlanUnknownTask u64 task_id
  | RP_ExecutionPlanDuplicateTask u64 task_id
  | RP_ExecutionPlanMissingTask u64 task_id
  | RP_RunStatusFromMismatch u64 run_status run_status
  | RP_RunTransitionRejected u64 run_transition_error
  | RP_ReviewAuditEvaluationFailed u64 review_audit_error
  | RP_ReviewAuditResolutionRejected u64 review_audit_resolution
  | RP_UnknownTask u64 task_id
  | RP_TaskStatusFromMismatch u64 task_id task_status task_status
  | RP_DuplicateCompletionEvidence u64
  | RP_CompletionEvidenceNotAttached u64 evidence_id
  | RP_InvalidSpecialistRole u64 role
  | RP_SpecialistOutputRoleMismatch u64 role role
  | RP_UnauthorizedCoordinatorFinalResponse u64 role
  | RP_DuplicateCoordinatorFinalResponse u64
  | RP_DuplicateEvidenceReference u64 evidence_id
  | RP_DuplicateReviewAuditRequirements u64
  | RP_DecisionRunIdMismatch u64 string run_id run_id
  | RP_DecisionGoalIdMismatch u64 string goal_id goal_id
  | RP_DecisionProducerRoleMismatch u64 string role role role
  | RP_DuplicateReviewDecision u64 review_decision_id
  | RP_DuplicateAuditDecision u64 audit_decision_id
  | RP_AuditReviewDecisionNotRecorded u64 review_decision_id

type_synonym 'a replayed = "(replay_error, 'a) result"

record replayed_run =
  rp_run_record :: run_record
  rp_execution_plan :: "execution_plan option"
  rp_task_statuses :: "(task_id, task_status) btree_map"
  rp_evidence_references :: "evidence_ref list"
  rp_guard_outcomes :: "run_guard_projection list"
  rp_review_audit_requirements :: "review_audit_requirements option"
  rp_review_decisions :: "review_decision list"
  rp_audit_decisions :: "audit_decision list"
  rp_completion_evidence :: "completion_evidence option"
  rp_specialist_outputs :: "specialist_output list"
  rp_final_response :: "coordinator_final_response option"

text \<open>The local variables of the loop: the run under construction and three ID sets.\<close>

record replay_state = replayed_run +
  rs_evidence_ids :: "evidence_id set"
  rs_review_decision_ids :: "review_decision_id set"
  rs_audit_decision_ids :: "audit_decision_id set"

section \<open>The event chain\<close>

definition chain_step ::
    "run_id \<Rightarrow> event_id option \<times> (event_id, u64) btree_map \<Rightarrow> nat \<times> run_event \<Rightarrow>
     (event_id option \<times> (event_id, u64) btree_map) replayed" where
  "chain_step expected_run_id state entry =
    (let (previous, seen) = state; (i, event) = entry; expected_sequence = of_nat i in
     and_then (checks
       [require (ev_contract_version event = current_version)
          (RP_ContractVersionMismatch (ev_sequence event) current_version
             (ev_contract_version event)),
        (if i = 0 then require (is_run_created (ev_payload event))
                         (RP_FirstEventNotRunCreated (ev_id event))
         else require (\<not> is_run_created (ev_payload event))
                (RP_DuplicateRunCreated (ev_sequence event) (ev_id event))),
        require (ev_run_id event = expected_run_id)
          (RP_RunIdMismatch (ev_sequence event) expected_run_id (ev_run_id event)),
        require (ev_sequence event = expected_sequence)
          (RP_SequenceMismatch (ev_id event) expected_sequence (ev_sequence event)),
        (if i = 0 then
           (case ev_previous_event_id event of
              None \<Rightarrow> Ok ()
            | Some found \<Rightarrow> Err (RP_InitialPreviousEventIdPresent (ev_id event) found))
         else
           and_then (expect previous) (\<lambda>expected.
             require (ev_previous_event_id event = Some expected)
               (RP_PreviousEventIdMismatch (ev_sequence event) (ev_id event) expected
                 (ev_previous_event_id event))))]) (\<lambda>_.
     case bm_get seen (ev_id event) of
       Some first_sequence \<Rightarrow>
         Err (RP_DuplicateEventId (ev_id event) first_sequence (ev_sequence event))
     | None \<Rightarrow> Ok (Some (ev_id event), bm_insert (ev_id event) (ev_sequence event) seen)))"

definition validate_event_chain :: "run_event list \<Rightarrow> run_id replayed" where
  "validate_event_chain events =
    (case events of
       [] \<Rightarrow> Err RP_EmptyStream
     | first # _ \<Rightarrow>
         and_then (try_fold (chain_step (ev_run_id first)) (None, bm_empty) (enumerate 0 events))
           (\<lambda>_. Ok (ev_run_id first)))"

section \<open>Checks shared by the event kinds\<close>

definition validate_nested_contract_version ::
    "u64 \<Rightarrow> string \<Rightarrow> contract_version \<Rightarrow> unit replayed" where
  "validate_nested_contract_version sequence contract found =
    require (found = current_version)
      (RP_NestedContractVersionMismatch sequence contract current_version found)"

definition validate_decision_binding ::
    "u64 \<Rightarrow> string \<Rightarrow> run_record \<Rightarrow> run_id \<Rightarrow> goal_id \<Rightarrow> unit replayed" where
  "validate_decision_binding sequence contract run_record run_id goal_id = checks
     [require (run_id = rr_id run_record)
        (RP_DecisionRunIdMismatch sequence contract (rr_id run_record) run_id),
      require (goal_id = rr_goal_id run_record)
        (RP_DecisionGoalIdMismatch sequence contract (rr_goal_id run_record) goal_id)]"

definition validate_decision_role ::
    "u64 \<Rightarrow> string \<Rightarrow> role \<Rightarrow> role \<Rightarrow> role \<Rightarrow> unit replayed" where
  "validate_decision_role sequence contract expected event_role decision_role =
    require (event_role = expected \<and> decision_role = expected)
      (RP_DecisionProducerRoleMismatch sequence contract expected event_role decision_role)"

text \<open>The declared tasks are a \<open>BTreeSet\<close>, kept as its sorted list.\<close>

definition plan_task_step ::
    "u64 \<Rightarrow> task_id list \<Rightarrow> task_id set \<Rightarrow> task_id \<Rightarrow> task_id set replayed" where
  "plan_task_step sequence declared_tasks planned task_id =
    and_then (require (task_id \<in> set declared_tasks)
      (RP_ExecutionPlanUnknownTask sequence task_id)) (\<lambda>_.
    insert_new (RP_ExecutionPlanDuplicateTask sequence) planned task_id)"

definition plan_wave_step ::
    "u64 \<Rightarrow> task_id list \<Rightarrow> task_id set \<Rightarrow> nat \<times> execution_wave \<Rightarrow> task_id set replayed" where
  "plan_wave_step sequence declared_tasks planned entry =
    (let (expected_index, wave) = entry in
     and_then (require ((ucast (ew_index wave) :: u64) = of_nat expected_index)
       (RP_ExecutionPlanWaveIndexMismatch sequence (of_nat expected_index) (ew_index wave))) (\<lambda>_.
     try_fold (plan_task_step sequence declared_tasks) planned (ew_task_ids wave)))"

definition validate_execution_plan ::
    "u64 \<Rightarrow> execution_plan \<Rightarrow> task_id list \<Rightarrow> unit replayed" where
  "validate_execution_plan sequence plan declared_tasks =
    and_then (try_fold (plan_wave_step sequence declared_tasks) {} (enumerate 0 (ep_waves plan)))
      (\<lambda>planned.
    case find (\<lambda>t. t \<notin> planned) declared_tasks of
      Some task_id \<Rightarrow> Err (RP_ExecutionPlanMissingTask sequence task_id)
    | None \<Rightarrow> Ok ())"

section \<open>One definition per event kind\<close>

type_synonym replay_step = "replay_state \<Rightarrow> replay_state replayed"

definition apply_plan :: "task_id list \<Rightarrow> u64 \<Rightarrow> execution_plan \<Rightarrow> replay_step" where
  "apply_plan declared_tasks sequence plan s =
    and_then (checks
      [validate_nested_contract_version sequence ''execution_plan'' (ep_contract_version plan),
       require (rp_execution_plan s = None) (RP_DuplicateExecutionPlan sequence),
       validate_execution_plan sequence plan declared_tasks]) (\<lambda>_.
    Ok (s\<lparr>rp_execution_plan := Some plan\<rparr>))"

definition guard_requirements_of :: "replay_state \<Rightarrow> guard_requirement set" where
  "guard_requirements_of s =
    (case rp_review_audit_requirements s of None \<Rightarrow> {} | Some r \<Rightarrow> rar_guard_requirements r)"

definition first_of :: "'a list \<Rightarrow> 'a option" where
  "first_of xs = (case xs of [] \<Rightarrow> None | x # _ \<Rightarrow> Some x)"

definition completion_context ::
    "goal_contract \<Rightarrow> completion_evidence \<Rightarrow> replay_state \<Rightarrow> evaluation_context" where
  "completion_context goal evidence s =
    \<lparr>ectx_expected_run_id = rr_id (rp_run_record s), ectx_goal_contract = goal,
     ectx_completion_evidence = evidence, ectx_evidence_catalog = rp_evidence_references s,
     ectx_guard_requirements = guard_requirements_of s\<rparr>"

definition is_pass :: "review_audit_resolution \<Rightarrow> bool" where
  "is_pass resolution = (case resolution of ResolutionPass _ _ \<Rightarrow> True | _ \<Rightarrow> False)"

definition check_completion :: "goal_contract option \<Rightarrow> u64 \<Rightarrow> replay_state \<Rightarrow> unit replayed" where
  "check_completion goal_contract sequence s =
    and_then (ok_or goal_contract
      (RP_RunTransitionRejected sequence RT_CompletionContractMissing)) (\<lambda>goal.
    and_then (ok_or (rp_completion_evidence s)
      (RP_RunTransitionRejected sequence RT_CompletionEvidenceMissing)) (\<lambda>evidence.
    and_then (checks (map (\<lambda>e. require (e \<in> rs_evidence_ids s)
        (RP_CompletionEvidenceNotAttached sequence e)) (ce_evidence_refs evidence))) (\<lambda>_.
    and_then (map_err (RP_ReviewAuditEvaluationFailed sequence)
      (evaluate_review_audit (completion_context goal evidence s)
        (first_of (rp_review_decisions s)) (first_of (rp_audit_decisions s)))) (\<lambda>resolution.
    require (is_pass resolution) (RP_ReviewAuditResolutionRejected sequence resolution)))))"

definition set_run_status :: "run_status \<Rightarrow> timestamp \<Rightarrow> run_record \<Rightarrow> run_record" where
  "set_run_status to occurred_at record =
    (let record = record\<lparr>rr_status := to\<rparr>;
         record = (if to = Running \<and> rr_started_at record = None
                   then record\<lparr>rr_started_at := Some occurred_at\<rparr> else record)
     in if is_terminal to \<and> rr_finished_at record = None
        then record\<lparr>rr_finished_at := Some occurred_at\<rparr> else record)"

definition apply_status_transition ::
    "goal_contract option \<Rightarrow> run_event \<Rightarrow> run_status \<Rightarrow> run_status \<Rightarrow> replay_step" where
  "apply_status_transition goal_contract event from to s =
    (let sequence = ev_sequence event; current = rr_status (rp_run_record s) in
     and_then (require (from = current) (RP_RunStatusFromMismatch sequence current from)) (\<lambda>_.
     and_then (map_err (RP_RunTransitionRejected sequence)
       (if to = Completed
        then validate_run_transition_with_guard_requirements from to goal_contract
               (rp_completion_evidence s) (guard_requirements_of s)
        else validate_run_transition from to goal_contract (rp_completion_evidence s))) (\<lambda>_.
     and_then (if to = Completed then check_completion goal_contract sequence s else Ok ()) (\<lambda>_.
     Ok (s\<lparr>rp_run_record := set_run_status to (ev_occurred_at event) (rp_run_record s)\<rparr>)))))"

definition apply_task_status ::
    "u64 \<Rightarrow> task_id \<Rightarrow> task_status \<Rightarrow> task_status \<Rightarrow> replay_step" where
  "apply_task_status sequence task_id from to s =
    and_then (ok_or (bm_get (rp_task_statuses s) task_id) (RP_UnknownTask sequence task_id))
      (\<lambda>current.
    and_then (require (from = current)
      (RP_TaskStatusFromMismatch sequence task_id current from)) (\<lambda>_.
    Ok (s\<lparr>rp_task_statuses := bm_insert task_id to (rp_task_statuses s)\<rparr>)))"

definition push_evidence :: "evidence_id \<Rightarrow> replay_state \<Rightarrow> replay_state" where
  "push_evidence evidence_id s =
    s\<lparr>rp_run_record := (rp_run_record s)\<lparr>rr_evidence_refs :=
          rr_evidence_refs (rp_run_record s) @ [evidence_id]\<rparr>,
      rs_evidence_ids := insert evidence_id (rs_evidence_ids s)\<rparr>"

definition apply_evidence_attached :: "evidence_id \<Rightarrow> replay_step" where
  "apply_evidence_attached evidence_id s =
    Ok (if evidence_id \<in> rs_evidence_ids s then s else push_evidence evidence_id s)"

definition apply_evidence_reference :: "u64 \<Rightarrow> evidence_ref \<Rightarrow> replay_step" where
  "apply_evidence_reference sequence evidence s =
    and_then (checks
      [validate_nested_contract_version sequence ''evidence_reference''
         (er_contract_version evidence),
       (case er_integrity evidence of
          None \<Rightarrow> Ok ()
        | Some integrity \<Rightarrow> validate_nested_contract_version sequence ''evidence_integrity''
            (im_contract_version integrity)),
       require (er_id evidence \<notin> rs_evidence_ids s)
         (RP_DuplicateEvidenceReference sequence (er_id evidence))]) (\<lambda>_.
    Ok ((push_evidence (er_id evidence) s)
          \<lparr>rp_evidence_references := rp_evidence_references s @ [evidence]\<rparr>))"

definition apply_guard_outcome :: "u64 \<Rightarrow> run_guard_projection \<Rightarrow> replay_step" where
  "apply_guard_outcome sequence projection s =
    and_then (validate_nested_contract_version sequence ''run_guard_projection''
      (rgp_contract_version projection)) (\<lambda>_.
    Ok (s\<lparr>rp_guard_outcomes := rp_guard_outcomes s @ [projection]\<rparr>))"

definition apply_requirements :: "u64 \<Rightarrow> review_audit_requirements \<Rightarrow> replay_step" where
  "apply_requirements sequence requirements s =
    and_then (checks
      [validate_nested_contract_version sequence ''review_audit_requirements''
         (rar_contract_version requirements),
       require (rp_review_audit_requirements s = None)
         (RP_DuplicateReviewAuditRequirements sequence)]) (\<lambda>_.
    Ok (s\<lparr>rp_review_audit_requirements := Some requirements\<rparr>))"

definition apply_review_decision :: "u64 \<Rightarrow> role \<Rightarrow> review_decision \<Rightarrow> replay_step" where
  "apply_review_decision sequence producer_role decision s =
    and_then (checks
      ([validate_nested_contract_version sequence ''review_decision''
         (rd_contract_version decision)]
       @ map (\<lambda>a. validate_nested_contract_version sequence ''review_criterion_assessment''
           (ca_contract_version a)) (rd_assessments decision)
       @ [validate_decision_binding sequence ''review_decision'' (rp_run_record s)
            (rd_run_id decision) (rd_goal_id decision),
          validate_decision_role sequence ''review_decision'' Reviewer producer_role
            (rd_producer_role decision),
          require (rp_review_decisions s = [] \<and> rd_id decision \<notin> rs_review_decision_ids s)
            (RP_DuplicateReviewDecision sequence (rd_id decision))])) (\<lambda>_.
    Ok (s\<lparr>rp_review_decisions := rp_review_decisions s @ [decision],
          rs_review_decision_ids := insert (rd_id decision) (rs_review_decision_ids s)\<rparr>))"

definition apply_audit_decision :: "u64 \<Rightarrow> role \<Rightarrow> audit_decision \<Rightarrow> replay_step" where
  "apply_audit_decision sequence producer_role decision s =
    and_then (checks
      ([validate_nested_contract_version sequence ''audit_decision''
         (aud_contract_version decision)]
       @ map (\<lambda>a. validate_nested_contract_version sequence ''audit_criterion_assessment''
           (ca_contract_version a)) (aud_assessments decision)
       @ [validate_decision_binding sequence ''audit_decision'' (rp_run_record s)
            (aud_run_id decision) (aud_goal_id decision),
          validate_decision_role sequence ''audit_decision'' Auditor producer_role
            (aud_producer_role decision),
          require (rp_audit_decisions s = [] \<and> aud_id decision \<notin> rs_audit_decision_ids s)
            (RP_DuplicateAuditDecision sequence (aud_id decision)),
          require (aud_review_decision_id decision \<in> rs_review_decision_ids s)
            (RP_AuditReviewDecisionNotRecorded sequence (aud_review_decision_id decision))])) (\<lambda>_.
    Ok (s\<lparr>rp_audit_decisions := rp_audit_decisions s @ [decision],
          rs_audit_decision_ids := insert (aud_id decision) (rs_audit_decision_ids s)\<rparr>))"

definition apply_completion_evidence :: "u64 \<Rightarrow> completion_evidence \<Rightarrow> replay_step" where
  "apply_completion_evidence sequence evidence s =
    and_then (checks
      [validate_nested_contract_version sequence ''completion_evidence''
         (ce_contract_version evidence),
       require (rp_completion_evidence s = None) (RP_DuplicateCompletionEvidence sequence)]) (\<lambda>_.
    Ok (s\<lparr>rp_completion_evidence := Some evidence\<rparr>))"

definition apply_specialist_output ::
    "task_id list \<Rightarrow> u64 \<Rightarrow> role \<Rightarrow> specialist_output \<Rightarrow> replay_step" where
  "apply_specialist_output declared_tasks sequence producer_role output s =
    and_then (checks
      [validate_nested_contract_version sequence ''specialist_output'' (so_contract_version output),
       require (so_task_id output \<in> set declared_tasks)
         (RP_UnknownTask sequence (so_task_id output)),
       require (so_specialist_role output \<in> {Engineer, Reviewer, Auditor})
         (RP_InvalidSpecialistRole sequence (so_specialist_role output)),
       require (producer_role = so_specialist_role output)
         (RP_SpecialistOutputRoleMismatch sequence producer_role (so_specialist_role output))]) (\<lambda>_.
    Ok (s\<lparr>rp_specialist_outputs := rp_specialist_outputs s @ [output]\<rparr>))"

definition apply_final_response :: "u64 \<Rightarrow> role \<Rightarrow> coordinator_final_response \<Rightarrow> replay_step" where
  "apply_final_response sequence producer_role response s =
    and_then (checks
      [validate_nested_contract_version sequence ''coordinator_final_response''
         (cfr_contract_version response),
       require (producer_role = Coordinator)
         (RP_UnauthorizedCoordinatorFinalResponse sequence producer_role),
       require (rp_final_response s = None) (RP_DuplicateCoordinatorFinalResponse sequence)]) (\<lambda>_.
    Ok (s\<lparr>rp_final_response := Some response\<rparr>))"

definition apply_payload ::
    "goal_contract option \<Rightarrow> task_id list \<Rightarrow> run_event \<Rightarrow> replay_step" where
  "apply_payload goal declared_tasks event s =
    (let sequence = ev_sequence event; producer = ev_producer_role event in
     case ev_payload event of
       RunCreated c \<Rightarrow> Ok s
     | NoteRecorded n \<Rightarrow> Ok s
     | ExecutionPlanRecorded plan \<Rightarrow> apply_plan declared_tasks sequence plan s
     | StatusTransition from to \<Rightarrow> apply_status_transition goal event from to s
     | TaskStatusChanged i from to \<Rightarrow> apply_task_status sequence i from to s
     | EvidenceAttached i \<Rightarrow> apply_evidence_attached i s
     | EvidenceReferenceRecorded evidence \<Rightarrow> apply_evidence_reference sequence evidence s
     | GuardOutcomeRecorded projection \<Rightarrow> apply_guard_outcome sequence projection s
     | ReviewAuditRequirementsRecorded requirements \<Rightarrow> apply_requirements sequence requirements s
     | ReviewDecisionRecorded decision \<Rightarrow> apply_review_decision sequence producer decision s
     | AuditDecisionRecorded decision \<Rightarrow> apply_audit_decision sequence producer decision s
     | CompletionEvidenceRecorded evidence \<Rightarrow> apply_completion_evidence sequence evidence s
     | SpecialistOutputRecorded output \<Rightarrow>
         apply_specialist_output declared_tasks sequence producer output s
     | CoordinatorFinalResponseRecorded response \<Rightarrow>
         apply_final_response sequence producer response s)"

definition count_event :: "run_event \<Rightarrow> run_record \<Rightarrow> run_record" where
  "count_event event record =
    (let record = record\<lparr>rr_event_count := rr_event_count record + 1,
           rr_last_event_sequence := Some (ev_sequence event),
           rr_last_event_id := Some (ev_id event)\<rparr>
     in if ev_sequence event > 0 then record\<lparr>rr_updated_at := ev_occurred_at event\<rparr> else record)"

definition replay_event ::
    "goal_contract option \<Rightarrow> task_id list \<Rightarrow> replay_state \<Rightarrow> run_event \<Rightarrow> replay_state replayed" where
  "replay_event goal declared_tasks s event =
    and_then (apply_payload goal declared_tasks event s) (\<lambda>s'.
    Ok (s'\<lparr>rp_run_record := count_event event (rp_run_record s')\<rparr>))"

section \<open>The whole replay\<close>

definition initial_replay_state :: "run_event \<Rightarrow> run_created \<Rightarrow> replay_state" where
  "initial_replay_state first created =
    \<lparr>rp_run_record =
       \<lparr>rr_contract_version = ev_contract_version first, rr_id = ev_run_id first,
        rr_project_id = rc_project_id created, rr_goal_id = rc_goal_id created,
        rr_task_ids = rc_task_ids created, rr_status = rc_status created, rr_event_count = 0,
        rr_last_event_sequence = None, rr_last_event_id = None, rr_evidence_refs = [],
        rr_created_at = rc_created_at created, rr_updated_at = rc_updated_at created,
        rr_started_at = rc_started_at created, rr_finished_at = rc_finished_at created\<rparr>,
     rp_execution_plan = None,
     rp_task_statuses = bm_collect (map (\<lambda>t. (t, TaskPending)) (rc_task_ids created)),
     rp_evidence_references = [], rp_guard_outcomes = [], rp_review_audit_requirements = None,
     rp_review_decisions = [], rp_audit_decisions = [], rp_completion_evidence = None,
     rp_specialist_outputs = [], rp_final_response = None,
     rs_evidence_ids = {}, rs_review_decision_ids = {}, rs_audit_decision_ids = {}\<rparr>"

definition check_created ::
    "goal_contract option \<Rightarrow> run_event \<Rightarrow> run_created \<Rightarrow> unit replayed" where
  "check_created goal_contract first created =
    and_then (require (rc_status created = Draft)
      (RP_InitialRunStatusMismatch (ev_id first) Draft (rc_status created))) (\<lambda>_.
    and_then (case goal_contract of
        None \<Rightarrow> Ok ()
      | Some goal \<Rightarrow> checks
          [require (gc_id goal = rc_goal_id created)
             (RP_GoalContractIdMismatch (rc_goal_id created) (gc_id goal)),
           require (gc_project_id goal = rc_project_id created)
             (RP_GoalContractProjectIdMismatch (rc_project_id created) (gc_project_id goal))]) (\<lambda>_.
    and_then (try_fold (insert_new (RP_DuplicateDeclaredTask (ev_sequence first))) {}
      (rc_task_ids created)) (\<lambda>_. Ok ())))"

text \<open>The replay up to the final projection; \<open>unreachable!\<close> is a panic.\<close>

definition replay_to_state ::
    "run_event list \<Rightarrow> goal_contract option \<Rightarrow> replay_state replayed" where
  "replay_to_state events goal =
    and_then (validate_event_chain events) (\<lambda>_.
    case events of
      [] \<Rightarrow> Panic
    | first # _ \<Rightarrow>
        (case ev_payload first of
           RunCreated created \<Rightarrow>
             and_then (check_created goal first created) (\<lambda>_.
             try_fold (replay_event goal (ordered_set (rc_task_ids created)))
               (initial_replay_state first created) events)
         | _ \<Rightarrow> Panic))"

definition replay_run :: "run_event list \<Rightarrow> goal_contract option \<Rightarrow> replayed_run replayed" where
  "replay_run events goal =
    and_then (replay_to_state events goal) (\<lambda>s. Ok (replayed_run.truncate s))"

end
