(* ===== verification/Scheduler.thy ===== *)
theory Scheduler
  imports Contracts "HOL-Library.Multiset"
begin

text \<open>
  The deterministic planner of \<open>ovca-runtime-core/src/scheduler.rs\<close>: tasks become
  execution waves; a task enters a wave when its dependencies are in earlier waves and
  its write keys are disjoint from those already chosen for the wave. The lemmas show
  that a plan partitions the tasks, respects dependencies and write ownership, exists
  exactly for acyclic closed task graphs, and does not depend on the input order.
\<close>

section \<open>The model\<close>

datatype schedule_error =
    SC_DuplicateTaskId task_id
  | SC_SelfDependency task_id
  | SC_MissingDependency task_id task_id
  | SC_Cycle "task_id list"

text \<open>Occurrences per task ID, and the tasks by ID.\<close>

definition task_counts :: "task list \<Rightarrow> (task_id, nat) btree_map" where
  "task_counts tasks =
    fold (\<lambda>t m. bm_insert (task_id_of t)
            (Suc (case bm_get m (task_id_of t) of None \<Rightarrow> 0 | Some n \<Rightarrow> n)) m)
      tasks bm_empty"

definition tasks_by_id :: "task list \<Rightarrow> (task_id, task) btree_map" where
  "tasks_by_id tasks = bm_collect (map (\<lambda>t. (task_id_of t, t)) tasks)"

definition check_unique_ids :: "task list \<Rightarrow> (schedule_error, unit) result" where
  "check_unique_ids tasks =
    (case find (\<lambda>(i, c). c > 1) (bm_entries (task_counts tasks)) of
       Some (i, c) \<Rightarrow> Err (SC_DuplicateTaskId i)
     | None \<Rightarrow> Ok ())"

definition check_dependencies ::
    "(task_id, task) btree_map \<Rightarrow> task_id \<times> task \<Rightarrow> (schedule_error, unit) result" where
  "check_dependencies by_id entry =
    (let (i, t) = entry; dependencies = ordered_set (task_dependencies t)
     in if i \<in> set dependencies then Err (SC_SelfDependency i)
        else case find (\<lambda>d. \<not> bm_contains by_id d) dependencies of
               Some d \<Rightarrow> Err (SC_MissingDependency i d)
             | None \<Rightarrow> Ok ())"

definition dependencies_of :: "(task_id, task) btree_map \<Rightarrow> task_id \<Rightarrow> task_id list" where
  "dependencies_of by_id i = (case bm_get by_id i of None \<Rightarrow> [] | Some t \<Rightarrow> task_dependencies t)"

definition write_keys_of :: "(task_id, task) btree_map \<Rightarrow> task_id \<Rightarrow> string list" where
  "write_keys_of by_id i = (case bm_get by_id i of None \<Rightarrow> [] | Some t \<Rightarrow> task_write_keys t)"

definition is_ready :: "(task_id, task) btree_map \<Rightarrow> task_id set \<Rightarrow> task_id \<Rightarrow> bool" where
  "is_ready by_id completed i \<longleftrightarrow> list_all (\<lambda>d. d \<in> completed) (dependencies_of by_id i)"

text \<open>The inner loop: the ready tasks in order, skipping those that share a write key.\<close>

primrec select_wave ::
    "(task_id, task) btree_map \<Rightarrow> string set \<Rightarrow> task_id list \<Rightarrow> task_id list" where
  "select_wave by_id keys [] = []"
| "select_wave by_id keys (i # is) =
    (if list_ex (\<lambda>k. k \<in> keys) (write_keys_of by_id i) then select_wave by_id keys is
     else i # select_wave by_id (keys \<union> set (write_keys_of by_id i)) is)"

lemma select_wave_subset: "set (select_wave by_id keys is) \<subseteq> set is"
  by (induction "is" arbitrary: keys) auto

lemma select_wave_Cons_empty:
  "select_wave by_id {} (i # is) = i # select_wave by_id (set (write_keys_of by_id i)) is"
  by (simp add: list_ex_iff)

lemma select_wave_shrinks:
  assumes "filter P remaining \<noteq> []"
  shows "length (filter (\<lambda>i. i \<notin> set (select_wave by_id {} (filter P remaining))) remaining)
         < length remaining"
proof -
  obtain i "is" where r: "filter P remaining = i # is"
    using assms by (cases "filter P remaining") auto
  then have "i \<in> set remaining"
    by (metis filter_is_subset list.set_intros(1) subset_iff)
  then show ?thesis
    unfolding r select_wave_Cons_empty by (intro length_filter_less [of i]) auto
qed

text \<open>
  The outer loop. Indexing \<open>tasks_by_id\<close> with an ID it lacks would panic, and so would
  the conversion of a wave number beyond \<open>u32\<close>.
\<close>

function schedule_loop ::
    "(task_id, task) btree_map \<Rightarrow> task_id set \<Rightarrow> task_id list \<Rightarrow> execution_wave list \<Rightarrow>
     (schedule_error, execution_wave list) result" where
  "schedule_loop by_id completed remaining waves =
    (if remaining = [] then Ok waves
     else if \<not> list_all (bm_contains by_id) remaining then Panic
     else let ready = filter (is_ready by_id completed) remaining in
       if ready = [] then Err (SC_Cycle remaining)
       else let wave_ids = select_wave by_id {} ready in
         if int (length waves) \<ge> 4294967296 then Panic
         else schedule_loop by_id (completed \<union> set wave_ids)
                (filter (\<lambda>i. i \<notin> set wave_ids) remaining)
                (waves @ [\<lparr>ew_index = of_nat (length waves),
                           ew_mode = (if length wave_ids = 1 then Sequential else Parallel),
                           ew_task_ids = wave_ids\<rparr>]))"
  by pat_completeness auto

termination
  by (relation "measure (\<lambda>(_, _, remaining, _). length remaining)")
    (auto simp: select_wave_shrinks)

declare schedule_loop.simps [simp del]

definition schedule_tasks :: "task list \<Rightarrow> (schedule_error, execution_plan) result" where
  "schedule_tasks tasks =
    and_then (check_unique_ids tasks) (\<lambda>_.
    let by_id = tasks_by_id tasks in
    and_then (checks (map (check_dependencies by_id) (bm_entries by_id))) (\<lambda>_.
    and_then (schedule_loop by_id {} (bm_keys by_id) []) (\<lambda>waves.
    Ok \<lparr>ep_contract_version = current_version, ep_waves = waves\<rparr>)))"

section \<open>Waves\<close>

abbreviation ids_of :: "execution_wave list \<Rightarrow> task_id list" where
  "ids_of waves \<equiv> concat (map ew_task_ids waves)"

text \<open>
  A wave with number \<open>i\<close> after the tasks in \<open>before\<close>: not empty, sorted by ID, mode by
  size, all dependencies earlier, write keys pairwise disjoint.
\<close>

definition wave_ok ::
    "(task_id, task) btree_map \<Rightarrow> task_id set \<Rightarrow> nat \<Rightarrow> execution_wave \<Rightarrow> bool" where
  "wave_ok by_id before i w \<longleftrightarrow>
     ew_index w = of_nat i \<and> ew_task_ids w \<noteq> []
   \<and> sorted_wrt (<) (ew_task_ids w)
   \<and> ew_mode w = (if length (ew_task_ids w) = 1 then Sequential else Parallel)
   \<and> (\<forall>t \<in> set (ew_task_ids w). set (dependencies_of by_id t) \<subseteq> before)
   \<and> sorted_wrt (\<lambda>t u. set (write_keys_of by_id t) \<inter> set (write_keys_of by_id u) = {})
       (ew_task_ids w)"

definition waves_ok :: "(task_id, task) btree_map \<Rightarrow> execution_wave list \<Rightarrow> bool" where
  "waves_ok by_id waves \<longleftrightarrow>
     (\<forall>i < length waves. wave_ok by_id (set (ids_of (take i waves))) i (waves ! i))"

lemma waves_ok_snoc:
  "waves_ok by_id (ws @ [w]) \<longleftrightarrow> waves_ok by_id ws \<and> wave_ok by_id (set (ids_of ws)) (length ws) w"
  by (auto simp: waves_ok_def less_Suc_eq nth_append)

lemma select_wave_avoids:
  "t \<in> set (select_wave by_id keys is) \<Longrightarrow> set (write_keys_of by_id t) \<inter> keys = {}"
  by (induction "is" arbitrary: keys) (auto simp: list_ex_iff split: if_splits)

lemma select_wave_disjoint:
  "sorted_wrt (\<lambda>t u. set (write_keys_of by_id t) \<inter> set (write_keys_of by_id u) = {})
     (select_wave by_id keys is)"
  by (induction "is" arbitrary: keys) (auto dest!: select_wave_avoids)

lemma select_wave_sorted:
  "sorted_wrt (<) is \<Longrightarrow> sorted_wrt (<) (select_wave by_id keys is)"
  by (induction "is" arbitrary: keys) (use select_wave_subset in fastforce)+

lemma select_wave_nonempty: "is \<noteq> [] \<Longrightarrow> select_wave by_id {} is \<noteq> []"
  by (cases "is") (simp_all add: list_ex_iff)

lemma wave_ok_selected:
  assumes "sorted_wrt (<) remaining" and "filter (is_ready by_id completed) remaining \<noteq> []"
    and "ids = select_wave by_id {} (filter (is_ready by_id completed) remaining)"
  shows "wave_ok by_id completed i
    \<lparr>ew_index = of_nat i, ew_mode = (if length ids = 1 then Sequential else Parallel),
     ew_task_ids = ids\<rparr>"
proof -
  have "set ids \<subseteq> set (filter (is_ready by_id completed) remaining)"
    unfolding assms(3) by (rule select_wave_subset)
  then have "\<forall>t \<in> set ids. set (dependencies_of by_id t) \<subseteq> completed"
    by (auto simp: is_ready_def list_all_iff)
  then show ?thesis
    using assms by (simp add: wave_ok_def select_wave_nonempty select_wave_disjoint
        select_wave_sorted sorted_wrt_filter)
qed

section \<open>The loop invariant\<close>

definition loop_inv ::
    "(task_id, task) btree_map \<Rightarrow> task_id set \<Rightarrow> task_id list \<Rightarrow> execution_wave list \<Rightarrow> bool" where
  "loop_inv by_id completed remaining waves \<longleftrightarrow>
     sorted_wrt (<) remaining \<and> completed = set (ids_of waves)
   \<and> distinct (ids_of waves) \<and> waves_ok by_id waves
   \<and> completed \<inter> set remaining = {} \<and> completed \<union> set remaining = set (bm_keys by_id)"

lemma loop_inv_start: "loop_inv by_id {} (bm_keys by_id) []"
  by (simp add: loop_inv_def waves_ok_def bm_keys_sorted)

lemma loop_inv_step:
  assumes inv: "loop_inv by_id completed remaining waves"
    and ready: "filter (is_ready by_id completed) remaining \<noteq> []"
    and ids: "ids = select_wave by_id {} (filter (is_ready by_id completed) remaining)"
  shows "loop_inv by_id (completed \<union> set ids) (filter (\<lambda>i. i \<notin> set ids) remaining)
    (waves @ [\<lparr>ew_index = of_nat (length waves),
               ew_mode = (if length ids = 1 then Sequential else Parallel), ew_task_ids = ids\<rparr>])"
proof -
  have sub: "set ids \<subseteq> set remaining"
    using select_wave_subset unfolding ids by fastforce
  have "sorted_wrt (<) ids"
    using inv unfolding ids loop_inv_def
    by (intro select_wave_sorted sorted_wrt_filter) simp
  then have "distinct ids" by (rule sorted_strict_distinct)
  moreover have "wave_ok by_id completed (length waves)
      \<lparr>ew_index = of_nat (length waves),
       ew_mode = (if length ids = 1 then Sequential else Parallel), ew_task_ids = ids\<rparr>"
    using inv ready ids by (intro wave_ok_selected) (auto simp: loop_inv_def)
  ultimately show ?thesis
    using inv sub unfolding loop_inv_def
    by (auto simp: waves_ok_snoc sorted_wrt_filter)
qed

lemma waves_ok_length:
  assumes "waves_ok by_id waves" shows "length waves \<le> length (ids_of waves)"
  using assms
proof (induction waves rule: rev_induct)
  case Nil
  then show ?case by simp
next
  case (snoc w ws)
  then have "ew_task_ids w \<noteq> []" by (simp add: waves_ok_snoc wave_ok_def)
  then have "1 \<le> length (ew_task_ids w)" by (simp add: Suc_leI)
  with snoc show ?case by (simp add: waves_ok_snoc)
qed

text \<open>
  What the loop can return: a complete plan, or the IDs of tasks that wait for each
  other. It never panics when the number of tasks fits in \<open>u32\<close>.
\<close>

definition stuck :: "(task_id, task) btree_map \<Rightarrow> task_id list \<Rightarrow> bool" where
  "stuck by_id ids \<longleftrightarrow> ids \<noteq> [] \<and> set ids \<subseteq> set (bm_keys by_id) \<and> sorted_wrt (<) ids
     \<and> (\<forall>i \<in> set ids. set (dependencies_of by_id i) \<inter> set ids \<noteq> {})"

definition closed_dependencies :: "(task_id, task) btree_map \<Rightarrow> bool" where
  "closed_dependencies by_id \<longleftrightarrow>
     (\<forall>i \<in> set (bm_keys by_id). set (dependencies_of by_id i) \<subseteq> set (bm_keys by_id))"

lemma not_ready_stuck:
  assumes "loop_inv by_id completed remaining waves" and "closed_dependencies by_id"
    and "remaining \<noteq> []" and "filter (is_ready by_id completed) remaining = []"
  shows "stuck by_id remaining"
proof -
  have "set (dependencies_of by_id i) \<inter> set remaining \<noteq> {}" if i: "i \<in> set remaining" for i
  proof -
    obtain d where "d \<in> set (dependencies_of by_id i)" "d \<notin> completed"
      using assms(4) i by (auto simp: filter_empty_conv is_ready_def list_all_iff)
    moreover have "i \<in> set (bm_keys by_id)"
      using assms(1) i by (auto simp: loop_inv_def)
    ultimately show ?thesis
      using assms(1,2) unfolding loop_inv_def closed_dependencies_def by blast
  qed
  then show ?thesis
    using assms by (auto simp: stuck_def loop_inv_def)
qed

lemma schedule_loop_result:
  assumes "loop_inv by_id completed remaining waves" and "closed_dependencies by_id"
    and "length (bm_keys by_id) \<le> 2 ^ 32"
  shows "(\<exists>ws. schedule_loop by_id completed remaining waves = Ok ws
            \<and> loop_inv by_id (set (bm_keys by_id)) [] ws)
       \<or> (\<exists>ids. schedule_loop by_id completed remaining waves = Err (SC_Cycle ids)
            \<and> stuck by_id ids)"
  using assms
proof (induction by_id completed remaining waves rule: schedule_loop.induct)
  case (1 by_id completed remaining waves)
  let ?ready = "filter (is_ready by_id completed) remaining"
  let ?ids = "select_wave by_id {} ?ready"
  have known: "list_all (bm_contains by_id) remaining"
    using "1.prems"(1) by (auto simp: list_all_iff bm_contains_iff loop_inv_def)
  consider "remaining = []" | "remaining \<noteq> []" "?ready = []" | "remaining \<noteq> []" "?ready \<noteq> []"
    by blast
  then show ?case
  proof cases
    case 1
    then show ?thesis
      using "1.prems"(1) by (auto simp: schedule_loop.simps loop_inv_def)
  next
    case 2
    then show ?thesis
      using not_ready_stuck [OF "1.prems"(1,2) 2] known
      by (auto simp: schedule_loop.simps [of by_id completed remaining])
  next
    case 3
    have "distinct (ids_of waves @ remaining)"
      using "1.prems"(1) by (auto simp: loop_inv_def dest: sorted_strict_distinct)
    moreover have "set (ids_of waves @ remaining) = set (bm_keys by_id)"
      using "1.prems"(1) by (auto simp: loop_inv_def)
    ultimately have "length (ids_of waves @ remaining) = length (bm_keys by_id)"
      using bm_keys_distinct [of by_id] by (simp only: distinct_card [symmetric])
    then have "length (ids_of waves) + length remaining = length (bm_keys by_id)"
      by (simp only: length_append)
    moreover have "length waves \<le> length (ids_of waves)"
      using "1.prems"(1) by (intro waves_ok_length [of by_id]) (simp add: loop_inv_def)
    moreover have "0 < length remaining" using 3 by simp
    moreover have "length (bm_keys by_id) \<le> 4294967296" using "1.prems"(3) by simp
    ultimately have small: "\<not> 4294967296 \<le> int (length waves)"
      by linarith
    let ?waves = "waves @ [\<lparr>ew_index = of_nat (length waves),
      ew_mode = (if length ?ids = 1 then Sequential else Parallel), ew_task_ids = ?ids\<rparr>]"
    let ?remaining = "filter (\<lambda>i. i \<notin> set ?ids) remaining"
    have "schedule_loop by_id completed remaining waves
        = schedule_loop by_id (completed \<union> set ?ids) ?remaining ?waves"
      by (subst schedule_loop.simps) (simp only: Let_def 3 known small if_False if_True not_True_eq_False)
    moreover have "loop_inv by_id (completed \<union> set ?ids) ?remaining ?waves"
      using "1.prems"(1) 3(2) by (rule loop_inv_step) (rule refl)
    ultimately show ?thesis
      using "1.IH" [OF 3(1) _ refl 3(2) refl small] known "1.prems"(2,3) by presburger
  qed
qed

section \<open>From the maps to the task list\<close>

text \<open>The declared task graph: no duplicate ID, every dependency declared, none on itself.\<close>

definition task_ids :: "task list \<Rightarrow> task_id set" where
  "task_ids tasks = task_id_of ` set tasks"

definition well_declared :: "task list \<Rightarrow> bool" where
  "well_declared tasks \<longleftrightarrow> distinct (map task_id_of tasks)
     \<and> (\<forall>t \<in> set tasks. set (task_dependencies t) \<subseteq> task_ids tasks - {task_id_of t})"

text \<open>\<open>(t, d)\<close>: task \<open>t\<close> waits for task \<open>d\<close>.\<close>

definition waits_for :: "task list \<Rightarrow> (task_id \<times> task_id) set" where
  "waits_for tasks = {(task_id_of t, d) | t d. t \<in> set tasks \<and> d \<in> set (task_dependencies t)}"

lemma bm_get_task_counts:
  "bm_get (task_counts tasks) i =
     (let c = count_list (map task_id_of tasks) i in if c = 0 then None else Some c)"
proof -
  have "bm_get (fold (\<lambda>t m. bm_insert (task_id_of t)
            (Suc (case bm_get m (task_id_of t) of None \<Rightarrow> 0 | Some n \<Rightarrow> n)) m) tasks m) i =
     (let c = count_list (map task_id_of tasks) i
      in if c = 0 then bm_get m i
         else Some (c + (case bm_get m i of None \<Rightarrow> 0 | Some n \<Rightarrow> n)))" for m
    by (induction tasks arbitrary: m) (auto simp: Let_def split: option.splits)
  then show ?thesis by (simp add: task_counts_def Let_def)
qed

lemma distinct_count_list: "distinct xs \<longleftrightarrow> (\<forall>x. count_list xs x \<le> 1)"
proof (induction xs)
  case Nil
  then show ?case by simp
next
  case (Cons a xs)
  have "a \<notin> set xs \<longleftrightarrow> count_list xs a = 0" by (simp add: count_list_0_iff)
  with Cons show ?case by (auto simp: le_Suc_eq)
qed

lemma check_unique_ids_Ok_iff [result_iff]:
  "check_unique_ids tasks = Ok u \<longleftrightarrow> distinct (map task_id_of tasks)"
proof -
  have "find (\<lambda>(i, c). c > 1) (bm_entries (task_counts tasks)) = None \<longleftrightarrow>
      (\<forall>i c. bm_get (task_counts tasks) i = Some c \<longrightarrow> c \<le> 1)"
    by (force simp: find_None_iff simp flip: bm_entries_iff)
  also have "\<dots> \<longleftrightarrow> (\<forall>i. count_list (map task_id_of tasks) i \<le> 1)"
    by (auto simp: bm_get_task_counts Let_def split: if_splits) (metis le0 neq0_conv)+
  finally show ?thesis
    by (auto simp: check_unique_ids_def distinct_count_list split: option.splits)
qed

lemma keys_tasks_by_id [simp]: "set (bm_keys (tasks_by_id tasks)) = task_ids tasks"
  by (auto simp: tasks_by_id_def bm_keys_collect task_ids_def image_iff)

lemma bm_get_tasks_by_id:
  assumes "distinct (map task_id_of tasks)"
  shows "bm_get (tasks_by_id tasks) i = Some t \<longleftrightarrow> t \<in> set tasks \<and> task_id_of t = i"
proof -
  have "distinct (map fst (map (\<lambda>t. (task_id_of t, t)) tasks))"
    using assms by (simp add: comp_def)
  then show ?thesis
    by (auto simp: tasks_by_id_def bm_get_collect_distinct)
qed

lemma of_task [simp]:
  assumes "distinct (map task_id_of tasks)" and "t \<in> set tasks"
  shows "dependencies_of (tasks_by_id tasks) (task_id_of t) = task_dependencies t"
    "write_keys_of (tasks_by_id tasks) (task_id_of t) = task_write_keys t"
proof -
  have "bm_get (tasks_by_id tasks) (task_id_of t) = Some t"
    using assms by (simp add: bm_get_tasks_by_id)
  then show "dependencies_of (tasks_by_id tasks) (task_id_of t) = task_dependencies t"
    "write_keys_of (tasks_by_id tasks) (task_id_of t) = task_write_keys t"
    by (simp_all add: dependencies_of_def write_keys_of_def)
qed

lemma check_dependencies_Ok_iff [result_iff]:
  "check_dependencies by_id (i, t) = Ok u \<longleftrightarrow>
     set (task_dependencies t) \<subseteq> set (bm_keys by_id) - {i}"
  by (auto simp: check_dependencies_def Let_def find_None_iff bm_contains_iff
      dest!: find_Some_elem split: option.splits)

lemma entries_tasks_by_id:
  "distinct (map task_id_of tasks) \<Longrightarrow>
   set (bm_entries (tasks_by_id tasks)) = (\<lambda>t. (task_id_of t, t)) ` set tasks"
  by (auto simp: bm_entries_iff bm_get_tasks_by_id)

lemma declared_Ok_iff:
  "check_unique_ids tasks = Ok ()
     \<and> checks (map (check_dependencies (tasks_by_id tasks)) (bm_entries (tasks_by_id tasks))) = Ok ()
   \<longleftrightarrow> well_declared tasks"
proof (cases "distinct (map task_id_of tasks)")
  case True
  then show ?thesis
    by (auto simp: result_iff well_declared_def entries_tasks_by_id)
next
  case False
  then show ?thesis by (auto simp: result_iff well_declared_def)
qed

lemma well_declared_closed:
  assumes "well_declared tasks" shows "closed_dependencies (tasks_by_id tasks)"
  using assms unfolding closed_dependencies_def well_declared_def
  by (auto simp: task_ids_def)

lemma length_keys_tasks_by_id: "length (bm_keys (tasks_by_id tasks)) \<le> length tasks"
  using bm_keys_distinct [of "tasks_by_id tasks"]
  by (metis distinct_card keys_tasks_by_id task_ids_def card_image_le List.finite_set
      card_length order_trans)

text \<open>The outcome of the whole function once the declarations are accepted.\<close>

lemma schedule_tasks_declared:
  "well_declared tasks \<Longrightarrow>
   schedule_tasks tasks =
     and_then (schedule_loop (tasks_by_id tasks) {} (bm_keys (tasks_by_id tasks)) [])
       (\<lambda>waves. Ok \<lparr>ep_contract_version = 1, ep_waves = waves\<rparr>)"
  unfolding declared_Ok_iff [symmetric] by (simp add: schedule_tasks_def Let_def)

lemma schedule_tasks_result:
  assumes "well_declared tasks" and "length tasks \<le> 2 ^ 32"
  shows "(\<exists>ws. schedule_tasks tasks = Ok \<lparr>ep_contract_version = 1, ep_waves = ws\<rparr>
            \<and> loop_inv (tasks_by_id tasks) (task_ids tasks) [] ws)
       \<or> (\<exists>ids. schedule_tasks tasks = Err (SC_Cycle ids) \<and> stuck (tasks_by_id tasks) ids)"
proof -
  have "length (bm_keys (tasks_by_id tasks)) \<le> 2 ^ 32"
    using length_keys_tasks_by_id [of tasks] assms(2) by linarith
  from schedule_loop_result [OF loop_inv_start well_declared_closed [OF assms(1)] this]
  show ?thesis
    unfolding schedule_tasks_declared [OF assms(1)] by auto
qed

lemma schedule_tasks_Ok_declared: "schedule_tasks tasks = Ok plan \<Longrightarrow> well_declared tasks"
  by (auto simp: schedule_tasks_def result_iff Let_def simp flip: declared_Ok_iff)

section \<open>Properties of plans\<close>

lemma schedule_loop_Ok:
  "schedule_loop by_id completed remaining waves = Ok ws \<Longrightarrow>
   loop_inv by_id completed remaining waves \<Longrightarrow> loop_inv by_id (set (bm_keys by_id)) [] ws"
proof (induction by_id completed remaining waves rule: schedule_loop.induct)
  case (1 by_id completed remaining waves)
  show ?case
  proof (cases "remaining = []")
    case True
    with "1.prems" show ?thesis by (auto simp: schedule_loop.simps loop_inv_def)
  next
    case False
    let ?ready = "filter (is_ready by_id completed) remaining"
    let ?ids = "select_wave by_id {} ?ready"
    let ?waves = "waves @ [\<lparr>ew_index = of_nat (length waves),
      ew_mode = (if length ?ids = 1 then Sequential else Parallel), ew_task_ids = ?ids\<rparr>]"
    have guards: "list_all (bm_contains by_id) remaining" "?ready \<noteq> []"
      "\<not> 4294967296 \<le> int (length waves)"
      and next_loop: "schedule_loop by_id (completed \<union> set ?ids)
         (filter (\<lambda>i. i \<notin> set ?ids) remaining) ?waves = Ok ws"
      using "1.prems"(1) False
      by (subst (asm) schedule_loop.simps, simp add: Let_def split: if_splits)+
    have "loop_inv by_id (completed \<union> set ?ids) (filter (\<lambda>i. i \<notin> set ?ids) remaining) ?waves"
      using "1.prems"(2) guards(2) by (rule loop_inv_step) (rule refl)
    with "1.IH" [OF False _ refl guards(2) refl guards(3) next_loop] guards(1)
    show ?thesis by simp
  qed
qed

lemma schedule_tasks_Ok_inv:
  assumes "schedule_tasks tasks = Ok plan"
  shows "loop_inv (tasks_by_id tasks) (task_ids tasks) [] (ep_waves plan)"
    and "ep_contract_version plan = 1"
  using assms loop_inv_start [of "tasks_by_id tasks"]
    schedule_tasks_declared [OF schedule_tasks_Ok_declared [OF assms]]
  by (auto simp: result_iff dest!: schedule_loop_Ok)

text \<open>
  C1 (plans are safe): an accepted task list yields a plan that contains every task
  exactly once, runs a task only after all its dependencies have run in earlier waves,
  and never puts two tasks that declare a common write key into the same wave.
\<close>

theorem schedule_tasks_safe:
  assumes "schedule_tasks tasks = Ok plan"
  shows "distinct (ids_of (ep_waves plan)) \<and> set (ids_of (ep_waves plan)) = task_ids tasks
    \<and> (\<forall>i < length (ep_waves plan). \<forall>t \<in> set tasks.
         task_id_of t \<in> set (ew_task_ids (ep_waves plan ! i)) \<longrightarrow>
         set (task_dependencies t) \<subseteq> set (ids_of (take i (ep_waves plan))))
    \<and> (\<forall>i < length (ep_waves plan). \<forall>t \<in> set tasks. \<forall>u \<in> set tasks.
         task_id_of t \<in> set (ew_task_ids (ep_waves plan ! i)) \<longrightarrow>
         task_id_of u \<in> set (ew_task_ids (ep_waves plan ! i)) \<longrightarrow>
         task_id_of t \<noteq> task_id_of u \<longrightarrow>
         set (task_write_keys t) \<inter> set (task_write_keys u) = {})"
proof -
  let ?m = "tasks_by_id tasks" and ?ws = "ep_waves plan"
  have inv: "loop_inv ?m (task_ids tasks) [] ?ws"
    using assms by (rule schedule_tasks_Ok_inv)
  have d: "distinct (map task_id_of tasks)"
    using schedule_tasks_Ok_declared [OF assms] by (simp add: well_declared_def)
  have ok: "wave_ok ?m (set (ids_of (take i ?ws))) i (?ws ! i)" if "i < length ?ws" for i
    using inv that by (simp add: loop_inv_def waves_ok_def)
  have disjoint: "set (task_write_keys t) \<inter> set (task_write_keys u) = {}"
    if i: "i < length ?ws" and tu: "t \<in> set tasks" "u \<in> set tasks" "task_id_of t \<noteq> task_id_of u"
      "task_id_of t \<in> set (ew_task_ids (?ws ! i))" "task_id_of u \<in> set (ew_task_ids (?ws ! i))"
    for i t u
  proof -
    let ?R = "\<lambda>a b. set (write_keys_of ?m a) \<inter> set (write_keys_of ?m b) = {}"
    have "sorted_wrt ?R (ew_task_ids (?ws ! i))"
      using ok [OF i] by (simp add: wave_ok_def)
    then have "?R (task_id_of t) (task_id_of u) \<or> ?R (task_id_of u) (task_id_of t)"
      using tu(4,5,3) by (rule sorted_wrt_pair)
    with d tu(1,2) show ?thesis by (simp add: Int_commute)
  qed
  have earlier: "set (task_dependencies t) \<subseteq> set (ids_of (take i ?ws))"
    if "i < length ?ws" "t \<in> set tasks" "task_id_of t \<in> set (ew_task_ids (?ws ! i))" for i t
  proof -
    have "set (dependencies_of ?m (task_id_of t)) \<subseteq> set (ids_of (take i ?ws))"
      using ok [OF that(1)] that(3) unfolding wave_ok_def by blast
    then show ?thesis using d that(2) by simp
  qed
  show ?thesis
    using inv disjoint earlier by (simp add: loop_inv_def)
qed


text \<open>
  A plan exists exactly when the declared graph has no cycle. The wave number of a task
  ranks the graph; conversely a stuck set has no task without a dependency inside it.
\<close>

lemma plan_acyclic:
  assumes "schedule_tasks tasks = Ok plan"
  shows "acyclic (waits_for tasks)"
proof -
  let ?ws = "ep_waves plan"
  let ?seen = "\<lambda>i. set (ids_of (take i ?ws))"
  define rank where "rank = (\<lambda>t. LEAST i. t \<in> ?seen i)"
  have inv: "loop_inv (tasks_by_id tasks) (task_ids tasks) [] ?ws"
    using assms by (rule schedule_tasks_Ok_inv)
  have d: "distinct (map task_id_of tasks)"
    using schedule_tasks_Ok_declared [OF assms] by (simp add: well_declared_def)
  show ?thesis
  proof (rule acyclicI_order [of _ rank])
    fix i j assume "(i, j) \<in> waits_for tasks"
    then obtain t where t: "t \<in> set tasks" "i = task_id_of t" "j \<in> set (task_dependencies t)"
      by (auto simp: waits_for_def)
    have "i \<in> ?seen (length ?ws)"
      using inv t by (auto simp: loop_inv_def task_ids_def)
    then have i: "i \<in> ?seen (rank i)" unfolding rank_def by (rule LeastI)
    then obtain n where n: "rank i = Suc n" by (cases "rank i") auto
    then have "n < rank i" by simp
    then have new: "i \<notin> ?seen n" unfolding rank_def by (rule not_less_Least)
    have bound: "n < length ?ws"
      using i n new by (cases "n < length ?ws") auto
    then have "i \<in> set (ew_task_ids (?ws ! n))"
      using i n new by (simp add: take_Suc_conv_app_nth)
    moreover have "wave_ok (tasks_by_id tasks) (?seen n) n (?ws ! n)"
      using inv bound by (simp add: loop_inv_def waves_ok_def)
    ultimately have "set (dependencies_of (tasks_by_id tasks) i) \<subseteq> ?seen n"
      unfolding wave_ok_def by blast
    then have "j \<in> ?seen n" using d t by auto
    then have "rank j \<le> n" unfolding rank_def by (rule Least_le)
    with n show "rank j < rank i" by simp
  qed
qed

lemma finite_waits_for: "finite (waits_for tasks)"
proof -
  have "waits_for tasks \<subseteq> task_ids tasks \<times> (\<Union>t \<in> set tasks. set (task_dependencies t))"
    by (auto simp: waits_for_def task_ids_def)
  then show ?thesis by (rule finite_subset) (simp add: task_ids_def)
qed

lemma stuck_cyclic:
  assumes "stuck (tasks_by_id tasks) ids" and "distinct (map task_id_of tasks)"
  shows "\<not> acyclic (waits_for tasks)"
proof
  assume "acyclic (waits_for tasks)"
  then have wf: "wf ((waits_for tasks)\<inverse>)"
    by (intro finite_acyclic_wf_converse finite_waits_for)
  obtain i0 where "i0 \<in> set ids" using assms(1) by (cases ids) (auto simp: stuck_def)
  with wf obtain i where i: "i \<in> set ids"
    and least: "\<And>j. (j, i) \<in> (waits_for tasks)\<inverse> \<Longrightarrow> j \<notin> set ids"
    by (rule wfE_min) blast
  from assms(1) i obtain t where t: "t \<in> set tasks" "i = task_id_of t"
    by (fastforce simp: stuck_def task_ids_def)
  moreover from assms(1) i obtain j where "j \<in> set (dependencies_of (tasks_by_id tasks) i)"
    "j \<in> set ids" by (fastforce simp: stuck_def)
  ultimately have "(i, j) \<in> waits_for tasks"
    using assms(2) by (auto simp: waits_for_def)
  with least \<open>j \<in> set ids\<close> show False by blast
qed

text \<open>
  C2 (planning is complete): among at most \<open>2^32\<close> tasks, a plan is produced exactly when
  the task IDs are distinct, all dependencies are declared and the dependency graph is
  acyclic. A declared but cyclic graph is answered with \<open>Cycle\<close>, and every reported task
  waits for a reported task. The planner never panics on declared tasks.
\<close>

theorem schedule_tasks_iff_acyclic:
  assumes "length tasks \<le> 2 ^ 32"
  shows "((\<exists>plan. schedule_tasks tasks = Ok plan) \<longleftrightarrow>
           well_declared tasks \<and> acyclic (waits_for tasks))
       \<and> (well_declared tasks \<and> \<not> acyclic (waits_for tasks) \<longrightarrow>
           (\<exists>ids. schedule_tasks tasks = Err (SC_Cycle ids) \<and> ids \<noteq> []
              \<and> set ids \<subseteq> task_ids tasks
              \<and> (\<forall>i \<in> set ids. \<exists>j \<in> set ids. (i, j) \<in> waits_for tasks)))"
proof (cases "well_declared tasks")
  case False
  then show ?thesis using schedule_tasks_Ok_declared by blast
next
  case declared: True
  then have d: "distinct (map task_id_of tasks)" by (simp add: well_declared_def)
  from schedule_tasks_result [OF declared assms] show ?thesis
  proof (elim disjE exE conjE)
    fix ws assume "schedule_tasks tasks = Ok \<lparr>ep_contract_version = 1, ep_waves = ws\<rparr>"
    then show ?thesis using declared plan_acyclic by blast
  next
    fix ids assume err: "schedule_tasks tasks = Err (SC_Cycle ids)"
      and stuck: "stuck (tasks_by_id tasks) ids"
    have "\<exists>j \<in> set ids. (i, j) \<in> waits_for tasks" if i: "i \<in> set ids" for i
    proof -
      from stuck i obtain t where t: "t \<in> set tasks" "i = task_id_of t"
        by (fastforce simp: stuck_def task_ids_def)
      moreover from stuck i obtain j where
        "j \<in> set (dependencies_of (tasks_by_id tasks) i)" "j \<in> set ids"
        by (fastforce simp: stuck_def)
      ultimately show ?thesis using d by (auto simp: waits_for_def)
    qed
    then show ?thesis
      using err stuck stuck_cyclic [OF stuck d] by (auto simp: stuck_def)
  qed
qed

text \<open>
  Planning is deterministic: the outcome, plan or error, depends only on which
  tasks are given, not on the order in which they are listed.
\<close>

theorem schedule_tasks_order:
  assumes "mset tasks = mset tasks'"
  shows "schedule_tasks tasks = schedule_tasks tasks'"
proof -
  have "count_list (map task_id_of tasks) i = count_list (map task_id_of tasks') i" for i
    using assms by (metis count_mset mset_map)
  then have counts: "task_counts tasks = task_counts tasks'"
    by (intro bm_eqI) (simp add: bm_get_task_counts)
  show ?thesis
  proof (cases "distinct (map task_id_of tasks)")
    case True
    then have "distinct (map task_id_of tasks')"
      using assms by (metis mset_map mset_eq_imp_distinct_iff)
    then have "tasks_by_id tasks = tasks_by_id tasks'"
      using True mset_eq_setD [OF assms]
      by (intro bm_eqI_Some) (simp add: bm_get_tasks_by_id)
    with counts show ?thesis by (simp add: schedule_tasks_def check_unique_ids_def)
  next
    case False
    then have "check_unique_ids tasks \<noteq> Ok ()" by (simp add: check_unique_ids_Ok_iff)
    then show ?thesis
      using counts
      by (cases "check_unique_ids tasks") (auto simp: schedule_tasks_def check_unique_ids_def)
  qed
qed


section \<open>Concrete plans\<close>

definition sample_task :: "task_id \<Rightarrow> task_id list \<Rightarrow> string list \<Rightarrow> task" where
  "sample_task i dependencies write_keys =
    \<lparr>task_contract_version = 1, task_id_of = i, task_goal_id = ''goal'', task_outcome = ''done'',
     task_dependencies = dependencies, task_assigned_role = Engineer, task_resource_keys = [],
     task_write_keys = write_keys, task_status_of = TaskPending, task_created_at = 0,
     task_updated_at = 0\<rparr>"

text \<open>\<open>a\<close> and \<open>b\<close> write the same key, \<open>d\<close> waits for \<open>a\<close>.\<close>

definition sample_tasks :: "task list" where
  "sample_tasks =
    [sample_task ''d'' [''a''] [''schema''], sample_task ''b'' [] [''schema''],
     sample_task ''c'' [] [''docs''], sample_task ''a'' [] [''schema'']]"

definition sample_plan :: execution_plan where
  "sample_plan = \<lparr>ep_contract_version = 1,
     ep_waves = [\<lparr>ew_index = 0, ew_mode = Parallel, ew_task_ids = [''a'', ''c'']\<rparr>,
                 \<lparr>ew_index = 1, ew_mode = Sequential, ew_task_ids = [''b'']\<rparr>,
                 \<lparr>ew_index = 2, ew_mode = Sequential, ew_task_ids = [''d'']\<rparr>]\<rparr>"

lemma sample_plan_Ok: "schedule_tasks sample_tasks = Ok sample_plan"
  by code_simp

theorem schedule_tasks_safe_witness:
  "set (task_dependencies (sample_task ''d'' [''a''] [''schema'']))
     \<subseteq> set (ids_of (take 2 (ep_waves sample_plan)))
   \<and> set (task_write_keys (sample_task ''a'' [] [''schema'']))
     \<inter> set (task_write_keys (sample_task ''c'' [] [''docs''])) = {}"
proof -
  note safe = schedule_tasks_safe [OF sample_plan_Ok]
  have "set (task_dependencies (sample_task ''d'' [''a''] [''schema'']))
     \<subseteq> set (ids_of (take 2 (ep_waves sample_plan)))"
    by (rule safe [THEN conjunct2, THEN conjunct2, THEN conjunct1, rule_format])
      (simp_all add: sample_plan_def sample_tasks_def sample_task_def)
  moreover have "set (task_write_keys (sample_task ''a'' [] [''schema'']))
     \<inter> set (task_write_keys (sample_task ''c'' [] [''docs''])) = {}"
    by (rule safe [THEN conjunct2, THEN conjunct2, THEN conjunct2, rule_format, of 0])
      (simp_all add: sample_plan_def sample_tasks_def sample_task_def)
  ultimately show ?thesis ..
qed

theorem schedule_tasks_iff_acyclic_witness:
  "acyclic (waits_for sample_tasks)
   \<and> \<not> acyclic (waits_for [sample_task ''a'' [''b''] [], sample_task ''b'' [''a''] []])"
proof -
  have "schedule_tasks [sample_task ''a'' [''b''] [], sample_task ''b'' [''a''] []]
      = Err (SC_Cycle [''a'', ''b''])"
    by code_simp
  moreover have "well_declared [sample_task ''a'' [''b''] [], sample_task ''b'' [''a''] []]"
    by (simp add: well_declared_def sample_task_def task_ids_def)
  moreover have "length sample_tasks \<le> 2 ^ 32" by (simp add: sample_tasks_def)
  ultimately show ?thesis
    using schedule_tasks_iff_acyclic [of sample_tasks] sample_plan_Ok
      schedule_tasks_iff_acyclic [of "[sample_task ''a'' [''b''] [], sample_task ''b'' [''a''] []]"]
    by auto
qed

theorem schedule_tasks_order_witness:
  "schedule_tasks (rev sample_tasks) = Ok sample_plan"
  using schedule_tasks_order [of "rev sample_tasks" sample_tasks] sample_plan_Ok by simp

end
