(* ===== verification/Replay_Safety.thy ===== *)
theory Replay_Safety
  imports Replay Scheduler
begin

text \<open>
  What a successful replay guarantees. The event chain is characterised link by link;
  replay of a longer history extends the replay of its prefix; by induction over the
  events every replayed run satisfies its invariants, and a completed run has passed its
  gate. The last part connects plans from the scheduler to the plan check of replay.
\<close>

section \<open>Valid chains\<close>

definition link_ok :: "run_id \<Rightarrow> run_event list \<Rightarrow> nat \<Rightarrow> bool" where
  "link_ok run es i \<longleftrightarrow>
     ev_contract_version (es ! i) = 1 \<and> (is_run_created (ev_payload (es ! i)) \<longleftrightarrow> i = 0)
   \<and> ev_run_id (es ! i) = run \<and> ev_sequence (es ! i) = of_nat i
   \<and> ev_previous_event_id (es ! i) = (if i = 0 then None else Some (ev_id (es ! (i - 1))))"

definition chain_ok :: "run_id \<Rightarrow> run_event list \<Rightarrow> bool" where
  "chain_ok run es \<longleftrightarrow> es \<noteq> [] \<and> (\<forall>i < length es. link_ok run es i) \<and> distinct (map ev_id es)"

definition seen_of :: "run_event list \<Rightarrow> (event_id, u64) btree_map" where
  "seen_of es = fold (\<lambda>e. bm_insert (ev_id e) (ev_sequence e)) es bm_empty"

lemma bm_keys_seen_of: "set (bm_keys (seen_of es)) = ev_id ` set es"
proof -
  have "set (bm_keys (fold (\<lambda>e. bm_insert (ev_id e) (ev_sequence e)) es m))
      = set (bm_keys m) \<union> ev_id ` set es" for m
    by (induction es arbitrary: m) auto
  then show ?thesis by (simp add: seen_of_def)
qed

lemma link_ok_append: "i < length es \<Longrightarrow> link_ok run (es @ fs) i \<longleftrightarrow> link_ok run es i"
  by (cases i) (simp_all add: link_ok_def nth_append)

lemma all_less_snoc: "(\<forall>i < length (es @ [e]). P i) \<longleftrightarrow> (\<forall>i < length es. P i) \<and> P (length es)"
  by (auto simp: less_Suc_eq)

lemma chain_step_Ok_iff:
  "chain_step run (previous, seen_of es) (length es, e) = Ok s \<longleftrightarrow>
     ev_contract_version e = 1 \<and> (is_run_created (ev_payload e) \<longleftrightarrow> es = [])
   \<and> ev_run_id e = run \<and> ev_sequence e = of_nat (length es)
   \<and> (if es = [] then ev_previous_event_id e = None
      else previous \<noteq> None \<and> ev_previous_event_id e = previous)
   \<and> ev_id e \<notin> ev_id ` set es \<and> s = (Some (ev_id e), seen_of (es @ [e]))"
proof -
  have "bm_get (seen_of es) (ev_id e) = None \<longleftrightarrow> ev_id e \<notin> ev_id ` set es"
    using bm_keys_seen_of [of es] bm_keys_iff [of "ev_id e" "seen_of es"] by auto
  moreover have "seen_of (es @ [e]) = bm_insert (ev_id e) (ev_sequence e) (seen_of es)"
    by (simp add: seen_of_def)
  ultimately show ?thesis
    by (auto simp: chain_step_def Let_def result_iff split: option.splits if_splits)
qed

lemma chain_fold_Ok_iff:
  "try_fold (chain_step run) (None, bm_empty) (enumerate 0 es) = Ok s \<longleftrightarrow>
     (\<forall>i < length es. link_ok run es i) \<and> distinct (map ev_id es)
   \<and> s = (if es = [] then None else Some (ev_id (last es)), seen_of es)"
proof (induction es arbitrary: s rule: rev_induct)
  case Nil
  then show ?case by (auto simp: seen_of_def)
next
  case (snoc e es)
  have "link_ok run (es @ [e]) (length es) \<longleftrightarrow>
      ev_contract_version e = 1 \<and> (is_run_created (ev_payload e) \<longleftrightarrow> es = [])
    \<and> ev_run_id e = run \<and> ev_sequence e = of_nat (length es)
    \<and> ev_previous_event_id e = (if es = [] then None else Some (ev_id (last es)))"
    by (auto simp: link_ok_def nth_append last_conv_nth)
  then show ?case
    unfolding all_less_snoc
    by (auto simp: enumerate_append_eq try_fold_append result_iff snoc chain_step_Ok_iff
        link_ok_append)
qed

lemma validate_event_chain_Ok_iff [result_iff]:
  "validate_event_chain events = Ok run \<longleftrightarrow> chain_ok run events"
proof (cases events)
  case Nil
  then show ?thesis by (simp add: validate_event_chain_def chain_ok_def)
next
  case (Cons e es)
  then have run: "link_ok run events 0 \<Longrightarrow> run = ev_run_id e" by (simp add: link_ok_def)
  have "validate_event_chain events = Ok run \<longleftrightarrow> run = ev_run_id e \<and>
      (\<exists>s. try_fold (chain_step (ev_run_id e)) (None, bm_empty) (enumerate 0 events) = Ok s)"
    using Cons by (auto simp: validate_event_chain_def result_iff
        simp del: enumerate_simps try_fold.simps)
  also have "\<dots> \<longleftrightarrow> run = ev_run_id e \<and> (\<forall>i < length events. link_ok run events i)
      \<and> distinct (map ev_id events)"
    unfolding chain_fold_Ok_iff by auto
  also have "\<dots> \<longleftrightarrow> chain_ok run events"
    using run Cons by (auto simp: chain_ok_def)
  finally show ?thesis .
qed

lemma chain_fold_no_Panic:
  "try_fold (chain_step run) (None, bm_empty) (enumerate 0 es) \<noteq> Panic"
proof (induction es rule: rev_induct)
  case Nil
  then show ?case by simp
next
  case (snoc e es)
  have "chain_step run s (length es, e) \<noteq> Panic"
    if "try_fold (chain_step run) (None, bm_empty) (enumerate 0 es) = Ok s" for s
    using that unfolding chain_fold_Ok_iff
    by (auto simp: chain_step_def Let_def and_then_Panic_iff split: option.splits if_splits)
  then show ?case
    using snoc by (simp add: enumerate_append_eq try_fold_append and_then_Panic_iff)
qed

text \<open>
  Chain validation is exact: a history is accepted for a run exactly when it is not
  empty, event i has sequence i, version 1 and the run's ID, only event 0 is
  \<open>RunCreated\<close>, every later event names its predecessor's ID and event 0 names none, and
  all event IDs differ. Validation never panics, although the code unwraps the previous
  ID.
\<close>

theorem event_chain_iff:
  "(validate_event_chain events = Ok run \<longleftrightarrow> chain_ok run events)
   \<and> validate_event_chain events \<noteq> Panic"
proof
  show "validate_event_chain events = Ok run \<longleftrightarrow> chain_ok run events"
    by (rule validate_event_chain_Ok_iff)
  show "validate_event_chain events \<noteq> Panic"
    using chain_fold_no_Panic [of _ events]
    by (cases events) (simp_all add: validate_event_chain_def and_then_Panic_iff del: enumerate_simps)
qed

section \<open>Replay of prefixes\<close>

definition created_of :: "run_event list \<Rightarrow> run_created option" where
  "created_of events =
    (case events of [] \<Rightarrow> None
     | e # _ \<Rightarrow> (case ev_payload e of RunCreated c \<Rightarrow> Some c | _ \<Rightarrow> None))"

definition declared_of :: "run_event list \<Rightarrow> task_id list" where
  "declared_of events =
    (case created_of events of None \<Rightarrow> [] | Some c \<Rightarrow> ordered_set (rc_task_ids c))"

lemma replay_to_state_Ok_iff:
  "replay_to_state events goal = Ok s \<longleftrightarrow>
     (\<exists>run created. chain_ok run events \<and> created_of events = Some created
        \<and> check_created goal (hd events) created = Ok ()
        \<and> try_fold (replay_event goal (declared_of events))
            (initial_replay_state (hd events) created) events = Ok s)"
  by (cases events)
    (auto simp: replay_to_state_def created_of_def declared_of_def result_iff chain_ok_def
      split: run_event_payload.splits)

lemma replay_run_Ok_iff:
  "replay_run events goal = Ok r \<longleftrightarrow>
     (\<exists>s. replay_to_state events goal = Ok s \<and> r = replayed_run.truncate s)"
  by (auto simp: replay_run_def result_iff)

lemma created_of_append [simp]: "es \<noteq> [] \<Longrightarrow> created_of (es @ fs) = created_of es"
  by (cases es) (simp_all add: created_of_def)

lemma declared_of_append [simp]: "es \<noteq> [] \<Longrightarrow> declared_of (es @ fs) = declared_of es"
  by (simp add: declared_of_def)

lemma chain_ok_snoc:
  "es \<noteq> [] \<Longrightarrow> chain_ok run (es @ [e]) \<longleftrightarrow>
     chain_ok run es \<and> link_ok run (es @ [e]) (length es) \<and> ev_id e \<notin> ev_id ` set es"
  unfolding chain_ok_def all_less_snoc by (auto simp: link_ok_append)

lemma replay_snoc_iff:
  assumes "es \<noteq> []"
  shows "replay_to_state (es @ [e]) goal = Ok s \<longleftrightarrow>
    (\<exists>s0 run. replay_to_state es goal = Ok s0 \<and> chain_ok run (es @ [e])
       \<and> replay_event goal (declared_of es) s0 e = Ok s)"
  using assms
  by (auto simp: replay_to_state_Ok_iff chain_ok_snoc try_fold_append result_iff)

lemma chain_ok_unique: "chain_ok run es \<Longrightarrow> chain_ok run' es \<Longrightarrow> run = run'"
  unfolding chain_ok_def link_ok_def by (metis length_greater_0_conv)

text \<open>Induction over the events of a replayed history.\<close>

lemma replay_induct [consumes 1, case_names start step]:
  assumes "replay_to_state events goal = Ok s"
    and "\<And>first created s. created_of [first] = Some created \<Longrightarrow>
      check_created goal first created = Ok () \<Longrightarrow> chain_ok (ev_run_id first) [first] \<Longrightarrow>
      s = (initial_replay_state first created)
        \<lparr>rp_run_record := count_event first (rp_run_record (initial_replay_state first created))\<rparr> \<Longrightarrow>
      P [first] s"
    and "\<And>es e s s' run. replay_to_state es goal = Ok s \<Longrightarrow> P es s \<Longrightarrow> es \<noteq> [] \<Longrightarrow>
      chain_ok run (es @ [e]) \<Longrightarrow> replay_event goal (declared_of es) s e = Ok s' \<Longrightarrow>
      P (es @ [e]) s'"
  shows "P events s"
  using assms(1)
proof (induction events arbitrary: s rule: rev_induct)
  case Nil
  then show ?case by (auto simp: replay_to_state_Ok_iff chain_ok_def)
next
  case (snoc e es)
  show ?case
  proof (cases "es = []")
    case True
    with snoc.prems obtain run created where "chain_ok run [e]" "created_of [e] = Some created"
      "check_created goal e created = Ok ()"
      "replay_event goal (declared_of [e]) (initial_replay_state e created) e = Ok s"
      by (auto simp: replay_to_state_Ok_iff result_iff)
    moreover from this have "ev_payload e = RunCreated created"
      by (auto simp: created_of_def split: run_event_payload.splits)
    moreover have "run = ev_run_id e"
      using \<open>chain_ok run [e]\<close> by (simp add: chain_ok_def link_ok_def)
    ultimately show ?thesis
      using assms(2) [of e created s] True
      by (simp add: replay_event_def apply_payload_def result_iff)
  next
    case False
    then show ?thesis
      using snoc.prems snoc.IH assms(3) by (auto simp: replay_snoc_iff)
  qed
qed

text \<open>
  Replay is incremental: appending one event to a history replays to a state exactly
  when the history replays, the event continues its chain, and applying the event to
  that state succeeds with the new state. So every prefix of a replayable history
  replays, and an incremental projection equals a full replay.
\<close>

theorem replay_incremental:
  assumes "es \<noteq> []"
  shows "replay_to_state (es @ [e]) goal = Ok s \<longleftrightarrow>
    (\<exists>s0 run. replay_to_state es goal = Ok s0 \<and> chain_ok run (es @ [e])
       \<and> replay_event goal (declared_of es) s0 e = Ok s)"
  using assms by (rule replay_snoc_iff)

section \<open>One event\<close>

lemmas apply_defs =
  apply_plan_def apply_status_transition_def apply_task_status_def apply_evidence_attached_def
  apply_evidence_reference_def apply_guard_outcome_def apply_requirements_def
  apply_review_decision_def apply_audit_decision_def apply_completion_evidence_def
  apply_specialist_output_def apply_final_response_def

lemma replay_event_Ok_iff:
  "replay_event goal declared s e = Ok s' \<longleftrightarrow>
     (\<exists>t. apply_payload goal declared e s = Ok t
        \<and> s' = t\<lparr>rp_run_record := count_event e (rp_run_record t)\<rparr>)"
  by (auto simp: replay_event_def result_iff)

lemma count_event_fields [simp]:
  "rr_status (count_event e r) = rr_status r" "rr_id (count_event e r) = rr_id r"
  "rr_goal_id (count_event e r) = rr_goal_id r" "rr_task_ids (count_event e r) = rr_task_ids r"
  "rr_evidence_refs (count_event e r) = rr_evidence_refs r"
  "rr_event_count (count_event e r) = rr_event_count r + 1"
  "rr_last_event_sequence (count_event e r) = Some (ev_sequence e)"
  "rr_last_event_id (count_event e r) = Some (ev_id e)"
  "rr_started_at (count_event e r) = rr_started_at r"
  "rr_finished_at (count_event e r) = rr_finished_at r"
  by (simp_all add: count_event_def Let_def)

lemma set_run_status_fields [simp]:
  "rr_status (set_run_status to at r) = to" "rr_id (set_run_status to at r) = rr_id r"
  "rr_goal_id (set_run_status to at r) = rr_goal_id r"
  "rr_task_ids (set_run_status to at r) = rr_task_ids r"
  "rr_evidence_refs (set_run_status to at r) = rr_evidence_refs r"
  "rr_event_count (set_run_status to at r) = rr_event_count r"
  "rr_last_event_sequence (set_run_status to at r) = rr_last_event_sequence r"
  "rr_last_event_id (set_run_status to at r) = rr_last_event_id r"
  by (simp_all add: set_run_status_def Let_def)

lemma push_evidence_fields [simp]:
  "rp_run_record (push_evidence i s) = (rp_run_record s)\<lparr>rr_evidence_refs :=
     rr_evidence_refs (rp_run_record s) @ [i]\<rparr>"
  "rs_evidence_ids (push_evidence i s) = insert i (rs_evidence_ids s)"
  "rp_execution_plan (push_evidence i s) = rp_execution_plan s"
  "rp_task_statuses (push_evidence i s) = rp_task_statuses s"
  "rp_evidence_references (push_evidence i s) = rp_evidence_references s"
  "rp_review_audit_requirements (push_evidence i s) = rp_review_audit_requirements s"
  "rp_review_decisions (push_evidence i s) = rp_review_decisions s"
  "rp_audit_decisions (push_evidence i s) = rp_audit_decisions s"
  "rp_completion_evidence (push_evidence i s) = rp_completion_evidence s"
  "rp_final_response (push_evidence i s) = rp_final_response s"
  "rs_review_decision_ids (push_evidence i s) = rs_review_decision_ids s"
  "rs_audit_decision_ids (push_evidence i s) = rs_audit_decision_ids s"
  by (simp_all add: push_evidence_def)

text \<open>How an accepted payload changes each part of the state.\<close>

lemma apply_payload_fixed:
  assumes "apply_payload goal declared e s = Ok t"
  shows "rr_id (rp_run_record t) = rr_id (rp_run_record s)"
    "rr_goal_id (rp_run_record t) = rr_goal_id (rp_run_record s)"
    "rr_task_ids (rp_run_record t) = rr_task_ids (rp_run_record s)"
    "rr_event_count (rp_run_record t) = rr_event_count (rp_run_record s)"
  using assms
  by (auto simp: apply_payload_def apply_defs Let_def result_iff split: run_event_payload.splits
      if_splits)

lemma apply_payload_status:
  assumes "apply_payload goal declared e s = Ok t"
  shows "rr_status (rp_run_record t) =
    (case ev_payload e of StatusTransition from to \<Rightarrow> to | _ \<Rightarrow> rr_status (rp_run_record s))"
  using assms
  by (auto simp: apply_payload_def apply_defs Let_def result_iff split: run_event_payload.splits
      if_splits)

lemma apply_payload_final:
  assumes "apply_payload goal declared e s = Ok t"
  shows "(case final_of e of
      None \<Rightarrow> rp_final_response t = rp_final_response s
    | Some (role, response) \<Rightarrow> role = Coordinator \<and> rp_final_response s = None
        \<and> rp_final_response t = Some response)"
  using assms
  by (auto simp: apply_payload_def apply_defs Let_def result_iff final_of.simps
      split: run_event_payload.splits if_splits)

lemma apply_payload_frame_evidence:
  assumes "apply_payload goal declared e s = Ok t"
    and "\<And>i. ev_payload e \<noteq> EvidenceAttached i" "\<And>r. ev_payload e \<noteq> EvidenceReferenceRecorded r"
  shows "rr_evidence_refs (rp_run_record t) = rr_evidence_refs (rp_run_record s)"
    "rs_evidence_ids t = rs_evidence_ids s" "rp_evidence_references t = rp_evidence_references s"
  using assms
  by (auto simp: apply_payload_def apply_defs Let_def result_iff split: run_event_payload.splits)

lemma apply_payload_frame_decisions:
  assumes "apply_payload goal declared e s = Ok t"
    and "\<And>d. ev_payload e \<noteq> ReviewDecisionRecorded d" "\<And>d. ev_payload e \<noteq> AuditDecisionRecorded d"
  shows "rp_review_decisions t = rp_review_decisions s" "rp_audit_decisions t = rp_audit_decisions s"
    "rs_review_decision_ids t = rs_review_decision_ids s"
  using assms
  by (auto simp: apply_payload_def apply_defs Let_def result_iff split: run_event_payload.splits
      if_splits)

lemma apply_payload_evidence:
  assumes "apply_payload goal declared e s = Ok t"
    and "distinct (rr_evidence_refs (rp_run_record s))"
    and "rs_evidence_ids s = set (rr_evidence_refs (rp_run_record s))"
    and "set (map er_id (rp_evidence_references s)) \<subseteq> rs_evidence_ids s"
    and "distinct (map er_id (rp_evidence_references s))"
  shows "distinct (rr_evidence_refs (rp_run_record t))
    \<and> rs_evidence_ids t = set (rr_evidence_refs (rp_run_record t))
    \<and> set (map er_id (rp_evidence_references t)) \<subseteq> rs_evidence_ids t
    \<and> distinct (map er_id (rp_evidence_references t))"
proof (cases "ev_payload e")
  case (EvidenceAttached i)
  then show ?thesis
    using assms
    by (auto simp: apply_payload_def apply_defs result_iff image_subset_iff split: if_splits)
next
  case (EvidenceReferenceRecorded r)
  then show ?thesis
    using assms by (auto simp: apply_payload_def apply_defs result_iff Let_def image_subset_iff)
qed (use assms(2-) apply_payload_frame_evidence [OF assms(1)] in \<open>simp_all\<close>)

lemma apply_payload_decisions:
  assumes "apply_payload goal declared e s = Ok t"
    and "length (rp_review_decisions s) \<le> 1" "length (rp_audit_decisions s) \<le> 1"
    and "rs_review_decision_ids s = rd_id ` set (rp_review_decisions s)"
    and "\<forall>r \<in> set (rp_review_decisions s). rd_producer_role r = Reviewer"
    and "\<forall>a \<in> set (rp_audit_decisions s). aud_producer_role a = Auditor
      \<and> (\<exists>r \<in> set (rp_review_decisions s). aud_review_decision_id a = rd_id r)"
  shows "length (rp_review_decisions t) \<le> 1 \<and> length (rp_audit_decisions t) \<le> 1
    \<and> rs_review_decision_ids t = rd_id ` set (rp_review_decisions t)
    \<and> (\<forall>r \<in> set (rp_review_decisions t). rd_producer_role r = Reviewer)
    \<and> (\<forall>a \<in> set (rp_audit_decisions t). aud_producer_role a = Auditor
        \<and> (\<exists>r \<in> set (rp_review_decisions t). aud_review_decision_id a = rd_id r))"
proof (cases "ev_payload e")
  case (ReviewDecisionRecorded d)
  then show ?thesis
    using assms
    by (auto simp: apply_payload_def apply_review_decision_def result_iff Let_def
        validate_decision_role_def)
next
  case (AuditDecisionRecorded d)
  then show ?thesis
    using assms
    by (auto simp: apply_payload_def apply_audit_decision_def result_iff Let_def
        validate_decision_role_def)
qed (use assms(2-) apply_payload_frame_decisions [OF assms(1)] in \<open>simp_all\<close>)

section \<open>Invariants of a replayed run\<close>

definition status_of :: "run_event \<Rightarrow> run_status option" where
  "status_of e = (case ev_payload e of StatusTransition from to \<Rightarrow> Some to | _ \<Rightarrow> None)"

definition statuses :: "run_event list \<Rightarrow> run_status list" where
  "statuses events = List.map_filter status_of events"

lemma statuses_simps [simp]:
  "statuses [] = []"
  "statuses (es @ [e]) = statuses es @ (case status_of e of None \<Rightarrow> [] | Some x \<Rightarrow> [x])"
  by (simp_all add: statuses_def map_filter_def split: option.splits)

lemma finals_snoc: "finals (es @ [e]) = finals es @ (case final_of e of None \<Rightarrow> [] | Some x \<Rightarrow> [x])"
  by (simp add: finals_def map_filter_def split: option.splits)

lemma created_final: "created_of [e] = Some c \<Longrightarrow> final_of e = None \<and> status_of e = None"
  by (simp add: created_of_def final_of.simps status_of_def split: run_event_payload.splits)

lemma check_created_Draft: "check_created goal e c = Ok () \<Longrightarrow> rc_status c = Draft"
  by (auto simp: check_created_def result_iff)

lemma transition_in_table:
  assumes "apply_payload goal declared e s = Ok t" and "ev_payload e = StatusTransition from to"
  shows "from = rr_status (rp_run_record s)" "(from, to) \<in> set run_status_transitions"
  using assms
  by (auto simp: apply_payload_def apply_status_transition_def Let_def result_iff
      validate_run_transition_def dest: validate_in_table split: if_splits)

lemma replay_status_path:
  "replay_to_state events goal = Ok s \<Longrightarrow>
   status_path Draft (statuses events)
   \<and> rr_status (rp_run_record s) = last (Draft # statuses events)"
proof (induction rule: replay_induct)
  case (start first created s)
  then show ?case
    using created_final statuses_simps(2) [of "[]" first]
    by (simp add: initial_replay_state_def check_created_Draft)
next
  case (step es e s s' run)
  then obtain t where t: "apply_payload goal (declared_of es) e s = Ok t"
    "s' = t\<lparr>rp_run_record := count_event e (rp_run_record t)\<rparr>"
    by (auto simp: replay_event_Ok_iff)
  show ?case
  proof (cases "ev_payload e")
    case (StatusTransition old new)
    then show ?thesis
      using t step.IH apply_payload_status [OF t(1)] transition_in_table [OF t(1)]
      by (simp add: status_of_def status_path_append)
  qed (use t step.IH apply_payload_status [OF t(1)] in \<open>simp_all add: status_of_def\<close>)
qed

lemma replay_finals:
  "replay_to_state events goal = Ok s \<Longrightarrow>
   finals events = (case rp_final_response s of None \<Rightarrow> [] | Some r \<Rightarrow> [(Coordinator, r)])"
proof (induction rule: replay_induct)
  case (start first created s)
  then show ?case using created_final by (simp add: initial_replay_state_def)
next
  case (step es e s s' run)
  then obtain t where t: "apply_payload goal (declared_of es) e s = Ok t"
    "s' = t\<lparr>rp_run_record := count_event e (rp_run_record t)\<rparr>"
    by (auto simp: replay_event_Ok_iff)
  then show ?case
    using step.IH apply_payload_final [OF t(1)]
    by (auto simp: finals_snoc split: option.splits)
qed

definition record_ok :: "run_event list \<Rightarrow> replay_state \<Rightarrow> bool" where
  "record_ok events s \<longleftrightarrow>
    (let record = rp_run_record s in
      rr_id record = ev_run_id (hd events)
    \<and> rr_event_count record = of_nat (length events)
    \<and> rr_last_event_id record = Some (ev_id (last events))
    \<and> rr_last_event_sequence record = Some (of_nat (length events - 1))
    \<and> distinct (rr_evidence_refs record)
    \<and> rs_evidence_ids s = set (rr_evidence_refs record)
    \<and> set (map er_id (rp_evidence_references s)) \<subseteq> rs_evidence_ids s
    \<and> distinct (map er_id (rp_evidence_references s)))"

lemma replay_record_ok: "replay_to_state events goal = Ok s \<Longrightarrow> record_ok events s"
proof (induction rule: replay_induct)
  case (start first created s)
  then show ?case
    by (simp add: record_ok_def Let_def initial_replay_state_def chain_ok_def link_ok_def)
next
  case (step es e s s' run)
  then obtain t where t: "apply_payload goal (declared_of es) e s = Ok t"
    "s' = t\<lparr>rp_run_record := count_event e (rp_run_record t)\<rparr>"
    by (auto simp: replay_event_Ok_iff)
  have seq: "ev_sequence e = of_nat (length es)"
    using step.hyps(3) unfolding chain_ok_def all_less_snoc by (simp add: link_ok_def)
  have evidence: "distinct (rr_evidence_refs (rp_run_record t))
    \<and> rs_evidence_ids t = set (rr_evidence_refs (rp_run_record t))
    \<and> set (map er_id (rp_evidence_references t)) \<subseteq> rs_evidence_ids t
    \<and> distinct (map er_id (rp_evidence_references t))"
    using step.IH by (intro apply_payload_evidence [OF t(1)]) (auto simp: record_ok_def Let_def)
  show ?case
    using t(2) seq step.IH step.hyps(2) apply_payload_fixed [OF t(1)] evidence
    by (auto simp: record_ok_def Let_def)
qed

definition decisions_ok :: "replay_state \<Rightarrow> bool" where
  "decisions_ok s \<longleftrightarrow>
     length (rp_review_decisions s) \<le> 1 \<and> length (rp_audit_decisions s) \<le> 1
   \<and> rs_review_decision_ids s = rd_id ` set (rp_review_decisions s)
   \<and> (\<forall>r \<in> set (rp_review_decisions s). rd_producer_role r = Reviewer)
   \<and> (\<forall>a \<in> set (rp_audit_decisions s). aud_producer_role a = Auditor
        \<and> (\<exists>r \<in> set (rp_review_decisions s). aud_review_decision_id a = rd_id r))"

lemma replay_decisions_ok: "replay_to_state events goal = Ok s \<Longrightarrow> decisions_ok s"
proof (induction rule: replay_induct)
  case (start first created s)
  then show ?case by (simp add: decisions_ok_def initial_replay_state_def)
next
  case (step es e s s' run)
  then obtain t where t: "apply_payload goal (declared_of es) e s = Ok t"
    "s' = t\<lparr>rp_run_record := count_event e (rp_run_record t)\<rparr>"
    by (auto simp: replay_event_Ok_iff)
  have "decisions_ok t"
    unfolding decisions_ok_def
    using step.IH by (intro apply_payload_decisions [OF t(1)]) (simp_all add: decisions_ok_def)
  then show ?case using t(2) by (simp add: decisions_ok_def)
qed


section \<open>Completed runs\<close>

lemma completed_point:
  "replay_to_state events goal = Ok s \<Longrightarrow> rr_status (rp_run_record s) = Completed \<Longrightarrow>
   \<exists>es e post old s0 t. events = es @ e # post \<and> replay_to_state es goal = Ok s0
     \<and> ev_payload e = StatusTransition old Completed
     \<and> apply_status_transition goal e old Completed s0 = Ok t"
proof (induction rule: replay_induct)
  case (start first created s)
  then show ?case by (simp add: initial_replay_state_def check_created_Draft)
next
  case (step es e s s' run)
  then obtain t where t: "apply_payload goal (declared_of es) e s = Ok t"
    "s' = t\<lparr>rp_run_record := count_event e (rp_run_record t)\<rparr>"
    by (auto simp: replay_event_Ok_iff)
  show ?case
  proof (cases "status_of e")
    case None
    then have "rr_status (rp_run_record s) = Completed"
      using step.prems t apply_payload_status [OF t(1)]
      by (simp add: status_of_def split: run_event_payload.splits)
    with step.IH show ?thesis by fastforce
  next
    case (Some new)
    then obtain old where "ev_payload e = StatusTransition old new"
      by (auto simp: status_of_def split: run_event_payload.splits)
    moreover have "new = Completed"
      using step.prems t apply_payload_status [OF t(1)] calculation by simp
    ultimately have "apply_status_transition goal e old Completed s = Ok t"
      "ev_payload e = StatusTransition old Completed"
      using t(1) by (simp_all add: apply_payload_def)
    with step.hyps(1) show ?thesis by blast
  qed
qed

text \<open>The requirements in force in a replayed run.\<close>

definition requirements_of :: "replayed_run \<Rightarrow> guard_requirement set" where
  "requirements_of run =
    (case rp_review_audit_requirements run of None \<Rightarrow> {} | Some r \<Rightarrow> rar_guard_requirements r)"

lemma truncate_fields [simp]:
  "rp_run_record (replayed_run.truncate s) = rp_run_record s"
  "rp_evidence_references (replayed_run.truncate s) = rp_evidence_references s"
  "rp_review_decisions (replayed_run.truncate s) = rp_review_decisions s"
  "rp_audit_decisions (replayed_run.truncate s) = rp_audit_decisions s"
  "rp_completion_evidence (replayed_run.truncate s) = rp_completion_evidence s"
  "rp_final_response (replayed_run.truncate s) = rp_final_response s"
  "rp_execution_plan (replayed_run.truncate s) = rp_execution_plan s"
  "requirements_of (replayed_run.truncate s) = guard_requirements_of s"
  by (simp_all add: replayed_run.truncate_def requirements_of_def guard_requirements_of_def)

lemma completion_transition_Ok:
  assumes "apply_status_transition goal e old Completed s = Ok t"
  obtains g ce rid aid where "goal = Some g" "rp_completion_evidence s = Some ce"
    "old = rr_status (rp_run_record s)"
    "completion_admissible old g ce (guard_requirements_of s)"
    "set (ce_evidence_refs ce) \<subseteq> rs_evidence_ids s"
    "evaluate_review_audit (completion_context g ce s) (first_of (rp_review_decisions s))
       (first_of (rp_audit_decisions s)) = Ok (ResolutionPass rid aid)"
proof -
  have v: "validate_run_transition_with_guard_requirements old Completed goal
      (rp_completion_evidence s) (guard_requirements_of s) = Ok ()"
    and c: "check_completion goal (ev_sequence e) s = Ok ()"
    and old: "old = rr_status (rp_run_record s)"
    using assms by (auto simp: apply_status_transition_def Let_def result_iff)
  obtain g ce where g: "goal = Some g" "rp_completion_evidence s = Some ce"
    "completion_admissible old g ce (guard_requirements_of s)"
    using v by (auto simp: validate_completion_iff)
  with c obtain resolution where "set (ce_evidence_refs ce) \<subseteq> rs_evidence_ids s"
    "evaluate_review_audit (completion_context g ce s) (first_of (rp_review_decisions s))
       (first_of (rp_audit_decisions s)) = Ok resolution" "is_pass resolution"
    by (auto simp: check_completion_def result_iff)
  with that g old show ?thesis
    by (auto simp: is_pass_def split: review_audit_resolution.splits)
qed

lemma first_of_iff: "first_of xs \<noteq> None \<longleftrightarrow> xs \<noteq> []" "length xs \<le> 1 \<Longrightarrow> first_of xs = Some x \<longleftrightarrow> xs = [x]"
  by (auto simp: first_of_def split: list.splits)

text \<open>
  C7 (completed runs passed their gate): if a history replays to \<open>Completed\<close>, it contains
  a completion event before which the replayed run had completion evidence admissible for
  the goal from the gate its policy selects, all of it attached to the run; and, if a
  review (an audit) was required, exactly one recorded review (audit) decision, made by
  the Reviewer (Auditor), that assesses every declared criterion against recorded evidence
  and finds all required ones satisfied.
\<close>

theorem completed_run_passed_gate:
  assumes "replay_run events goal = Ok run" and "rr_status (rp_run_record run) = Completed"
  shows "\<exists>es e post old g ce before.
      events = es @ e # post \<and> ev_payload e = StatusTransition old Completed \<and> goal = Some g
    \<and> replay_run es goal = Ok before \<and> rp_completion_evidence before = Some ce
    \<and> completion_admissible old g ce (requirements_of before)
    \<and> set (ce_evidence_refs ce) \<subseteq> set (rr_evidence_refs (rp_run_record before))
    \<and> (rap_reviewer_required (derive_review_audit_policy g (requirements_of before)) \<longrightarrow>
        (\<exists>r. rp_review_decisions before = [r] \<and> rd_producer_role r = Reviewer
           \<and> assessed g ce (rp_evidence_references before) (rd_assessments r) VerdictPass))
    \<and> (rap_auditor_required (derive_review_audit_policy g (requirements_of before)) \<longrightarrow>
        (\<exists>a. rp_audit_decisions before = [a] \<and> aud_producer_role a = Auditor
           \<and> assessed g ce (rp_evidence_references before) (aud_assessments a) VerdictPass))"
proof -
  obtain s where s: "replay_to_state events goal = Ok s" "rr_status (rp_run_record s) = Completed"
    using assms by (auto simp: replay_run_Ok_iff)
  from completed_point [OF this] obtain es e post old s0 t where at:
    "events = es @ e # post" "replay_to_state es goal = Ok s0"
    "ev_payload e = StatusTransition old Completed"
    "apply_status_transition goal e old Completed s0 = Ok t"
    by blast
  from at(4) obtain g ce rid aid where g: "goal = Some g" "rp_completion_evidence s0 = Some ce"
    "completion_admissible old g ce (guard_requirements_of s0)"
    "set (ce_evidence_refs ce) \<subseteq> rs_evidence_ids s0"
    and gate: "evaluate_review_audit (completion_context g ce s0) (first_of (rp_review_decisions s0))
       (first_of (rp_audit_decisions s0)) = Ok (ResolutionPass rid aid)"
    by (rule completion_transition_Ok) blast
  have refs: "rs_evidence_ids s0 = set (rr_evidence_refs (rp_run_record s0))"
    using replay_record_ok [OF at(2)] by (simp add: record_ok_def Let_def)
  have one: "length (rp_review_decisions s0) \<le> 1" "length (rp_audit_decisions s0) \<le> 1"
    using replay_decisions_ok [OF at(2)] by (simp_all add: decisions_ok_def)
  let ?policy = "derive_review_audit_policy g (guard_requirements_of s0)"
  note facts = gate_Pass_facts [OF gate, unfolded completion_context_def, simplified]
  have "\<exists>r. rp_review_decisions s0 = [r] \<and> rd_producer_role r = Reviewer
      \<and> assessed g ce (rp_evidence_references s0) (rd_assessments r) VerdictPass"
    if "rap_reviewer_required ?policy"
    using facts that first_of_iff(2) [OF one(1)] by auto
  moreover have "\<exists>a. rp_audit_decisions s0 = [a] \<and> aud_producer_role a = Auditor
      \<and> assessed g ce (rp_evidence_references s0) (aud_assessments a) VerdictPass"
    if "rap_auditor_required ?policy"
    using facts that first_of_iff(2) [OF one(2)] by auto
  ultimately show ?thesis
    using at g refs
    by (intro exI [of _ es] exI [of _ e] exI [of _ post] exI [of _ old] exI [of _ g] exI [of _ ce]
        exI [of _ "replayed_run.truncate s0"]) (simp add: replay_run_def)
qed

lemma completed_statuses:
  assumes "replay_to_state events (Some g) = Ok s" and "rr_status (rp_run_record s) = Completed"
  obtains guards pre where "statuses events = pre @ [Completed]"
    "subseq (milestones (required_completion_gate (gc_permission_profile g) guards) @ [Completed])
       (statuses events)"
proof -
  from completed_point [OF assms] obtain es e post old s0 t where at:
    "events = es @ e # post" "replay_to_state es (Some g) = Ok s0"
    "ev_payload e = StatusTransition old Completed"
    "apply_status_transition (Some g) e old Completed s0 = Ok t"
    by blast
  from at(4) obtain ce where old: "old = rr_status (rp_run_record s0)"
    and gate: "old = required_completion_gate (gc_permission_profile g) (guard_requirements_of s0)"
    by (rule completion_transition_Ok) (simp add: completion_admissible_def)
  have path: "status_path Draft (statuses events)"
    using replay_status_path [OF assms(1)] by simp
  have before: "last (Draft # statuses es) = old"
    using replay_status_path [OF at(2)] old by simp
  have "statuses events = (statuses es @ [Completed]) @ statuses post"
    using at(1,3) by (simp add: statuses_def map_filter_def status_of_def)
  moreover from this path have "status_path Completed (statuses post)"
    by (simp add: status_path_append)
  then have "statuses post = []"
    using table_from_terminal by (cases "statuses post") (auto simp: is_terminal_def)
  ultimately have all: "statuses events = statuses es @ [Completed]" by simp
  have "old \<in> {Running, Reviewing, Auditing}"
    unfolding gate by (rule required_completion_gate_cases)
  with path before have "subseq (milestones old @ [Completed]) (statuses events)"
    unfolding all by (rule completed_path_phases)
  then show ?thesis using that [OF all] unfolding gate by blast
qed

text \<open>
  No phase is skipped: the statuses of a replayed history form a path of the
  transition table from \<open>Draft\<close> to the run's status. A completed run was accepted,
  planned and running, in this order, and was reviewed if the goal requires review, and
  audited after review if the goal requires an audit.
\<close>

theorem completed_run_phases:
  assumes "replay_run events (Some g) = Ok run" and "rr_status (rp_run_record run) = Completed"
  shows "status_path Draft (statuses events) \<and> last (statuses events) = Completed
    \<and> subseq [Accepted, Planned, Running, Completed] (statuses events)
    \<and> (pp_review_required (gc_permission_profile g) \<longrightarrow> Reviewing \<in> set (statuses events))
    \<and> (pp_audit_required (gc_permission_profile g) \<longrightarrow>
         subseq [Accepted, Planned, Running, Reviewing, Auditing, Completed] (statuses events))"
proof -
  let ?profile = "gc_permission_profile g"
  obtain s where s: "replay_to_state events (Some g) = Ok s"
    "rr_status (rp_run_record s) = Completed"
    using assms by (auto simp: replay_run_Ok_iff)
  from completed_statuses [OF this] obtain guards pre where last: "statuses events = pre @ [Completed]"
    and sub: "subseq (milestones (required_completion_gate ?profile guards) @ [Completed])
      (statuses events)"
    by blast
  let ?phases = "milestones (required_completion_gate ?profile guards) @ [Completed]"
  have phases: "subseq xs (statuses events)" if "subseq xs ?phases" for xs
    using that sub by (rule subseq_order.order_trans)
  have "subseq [Accepted, Planned, Running, Completed] (statuses events)"
    by (rule phases) (simp add: required_completion_gate_def)
  moreover have "subseq [Reviewing] (statuses events)" if "pp_review_required ?profile"
    using that by (intro phases) (simp add: required_completion_gate_def)
  moreover have "subseq [Accepted, Planned, Running, Reviewing, Auditing, Completed] (statuses events)"
    if "pp_audit_required ?profile"
    using that by (intro phases) (simp add: required_completion_gate_def)
  moreover have "status_path Draft (statuses events)"
    using replay_status_path [OF s(1)] by simp
  ultimately show ?thesis using last by (simp add: subseq_singleton_left)
qed

text \<open>
  Replayed runs are well formed: the run record counts all events and names the last
  one; evidence IDs are listed once and contain every recorded reference; there is at most
  one review and one audit decision, by the right roles, and an audit decision refers to a
  recorded review; the final response is the history's only one and came from the
  Coordinator.
\<close>

theorem replayed_run_well_formed:
  assumes "replay_run events goal = Ok run"
  shows "rr_event_count (rp_run_record run) = of_nat (length events)
    \<and> rr_last_event_id (rp_run_record run) = Some (ev_id (last events))
    \<and> rr_last_event_sequence (rp_run_record run) = Some (of_nat (length events - 1))
    \<and> rr_id (rp_run_record run) = ev_run_id (hd events)
    \<and> distinct (rr_evidence_refs (rp_run_record run))
    \<and> distinct (map er_id (rp_evidence_references run))
    \<and> er_id ` set (rp_evidence_references run) \<subseteq> set (rr_evidence_refs (rp_run_record run))
    \<and> length (rp_review_decisions run) \<le> 1 \<and> length (rp_audit_decisions run) \<le> 1
    \<and> (\<forall>a \<in> set (rp_audit_decisions run). aud_producer_role a = Auditor
        \<and> (\<exists>r \<in> set (rp_review_decisions run). rd_producer_role r = Reviewer
             \<and> aud_review_decision_id a = rd_id r))
    \<and> finals events =
        (case rp_final_response run of None \<Rightarrow> [] | Some r \<Rightarrow> [(Coordinator, r)])"
proof -
  obtain s where s: "replay_to_state events goal = Ok s" "run = replayed_run.truncate s"
    using assms by (auto simp: replay_run_Ok_iff)
  show ?thesis
    using replay_record_ok [OF s(1)] replay_decisions_ok [OF s(1)] replay_finals [OF s(1)]
    by (auto simp: s(2) record_ok_def decisions_ok_def Let_def)
qed

text \<open>
  Terminal states are final: a run that has replayed to a terminal status keeps it in
  every longer history that replays.
\<close>

theorem terminal_status_final:
  assumes "replay_run es goal = Ok run" and "is_terminal (rr_status (rp_run_record run))"
    and "replay_run (es @ rest) goal = Ok later"
  shows "rr_status (rp_run_record later) = rr_status (rp_run_record run)"
proof -
  obtain s t where s: "replay_to_state es goal = Ok s" "run = replayed_run.truncate s"
    and t: "replay_to_state (es @ rest) goal = Ok t" "later = replayed_run.truncate t"
    using assms by (auto simp: replay_run_Ok_iff)
  have split: "statuses (es @ rest) = statuses es @ statuses rest"
    by (simp add: statuses_def map_filter_def)
  have "status_path (rr_status (rp_run_record s)) (statuses rest)"
    using replay_status_path [OF t(1)] replay_status_path [OF s(1)]
    by (simp add: split status_path_append)
  then have "statuses rest = []"
    using assms(2) s(2) table_from_terminal by (cases "statuses rest") auto
  then show ?thesis
    using replay_status_path [OF t(1)] replay_status_path [OF s(1)] s(2) t(2)
    by (simp add: split)
qed

text \<open>
  Replay refines the finalization kernel: when a history replays, the finalization
  kernel replays it too, to the same final response.
\<close>

theorem replay_refines_finalization:
  assumes "replay_run events goal = Ok run"
  shows "replay_finalization events = Ok \<lparr>fk_final_response = rp_final_response run\<rparr>"
proof -
  obtain s where s: "replay_to_state events goal = Ok s" "run = replayed_run.truncate s"
    using assms by (auto simp: replay_run_Ok_iff)
  have "finals events =
      (case rp_final_response s of None \<Rightarrow> [] | Some r \<Rightarrow> [(Coordinator, r)])"
    using s(1) by (rule replay_finals)
  then show ?thesis
    unfolding replay_finalization_def replay_final_Ok_iff s(2)
    by (cases "rp_final_response s") (simp_all add: new_finalization_kernel_def)
qed

section \<open>Execution plans\<close>

lemma plan_tasks_Ok_iff:
  "try_fold (plan_task_step sequence declared) planned ids = Ok planned' \<longleftrightarrow>
     distinct ids \<and> set ids \<subseteq> set declared \<and> set ids \<inter> planned = {}
   \<and> planned' = planned \<union> set ids"
  by (induction ids arbitrary: planned) (auto simp: result_iff plan_task_step_def)

lemma plan_waves_Ok_iff:
  "try_fold (plan_wave_step sequence declared) planned (enumerate n ws) = Ok planned' \<longleftrightarrow>
     (\<forall>e \<in> set (enumerate n ws). (ucast (ew_index (snd e)) :: u64) = of_nat (fst e))
   \<and> distinct (ids_of ws) \<and> set (ids_of ws) \<subseteq> set declared \<and> set (ids_of ws) \<inter> planned = {}
   \<and> planned' = planned \<union> set (ids_of ws)"
proof (induction ws arbitrary: n planned)
  case Nil
  then show ?case by auto
next
  case (Cons w ws)
  have "plan_wave_step sequence declared planned (n, w) = Ok p \<longleftrightarrow>
      (ucast (ew_index w) :: u64) = of_nat n
    \<and> distinct (ew_task_ids w) \<and> set (ew_task_ids w) \<subseteq> set declared
    \<and> set (ew_task_ids w) \<inter> planned = {} \<and> p = planned \<union> set (ew_task_ids w)" for p
    by (auto simp: plan_wave_step_def result_iff plan_tasks_Ok_iff)
  then show ?case
    unfolding enumerate_simps try_fold.simps and_then_Ok_iff Cons.IH
    by (auto simp: Int_Un_distrib)
qed

lemma ball_enumerate_nth:
  "(\<forall>e \<in> set (enumerate 0 ws). Q (fst e) (snd e)) \<longleftrightarrow> (\<forall>i < length ws. Q i (ws ! i))"
proof safe
  fix i assume "\<forall>e \<in> set (enumerate 0 ws). Q (fst e) (snd e)" "i < length ws"
  moreover from this have "(i, ws ! i) \<in> set (enumerate 0 ws)"
    by (simp add: in_set_enumerate_eq)
  ultimately show "Q i (ws ! i)" by force
qed (simp add: in_set_enumerate_eq)

lemma validate_execution_plan_Ok_iff:
  "validate_execution_plan sequence plan declared = Ok u \<longleftrightarrow>
     (\<forall>i < length (ep_waves plan). (ucast (ew_index (ep_waves plan ! i)) :: u64) = of_nat i)
   \<and> distinct (ids_of (ep_waves plan)) \<and> set (ids_of (ep_waves plan)) = set declared"
proof -
  let ?loop = "try_fold (plan_wave_step sequence declared) {} (enumerate 0 (ep_waves plan))"
  have "validate_execution_plan sequence plan declared = Ok u \<longleftrightarrow>
      (\<exists>planned. ?loop = Ok planned \<and> find (\<lambda>t. t \<notin> planned) declared = None)"
    by (auto simp: validate_execution_plan_def result_iff split: option.splits)
  moreover have "find (\<lambda>t. t \<notin> planned) declared = None \<longleftrightarrow> set declared \<subseteq> planned" for planned
    by (auto simp: find_None_iff)
  ultimately show ?thesis
    unfolding plan_waves_Ok_iff
      ball_enumerate_nth [of _ "\<lambda>i w. (ucast (ew_index w) :: u64) = of_nat i"]
    by (auto simp del: set_concat)
qed

section \<open>Totality\<close>

named_theorems no_panic \<open>which computations never panic\<close>

lemma checks_map_no_Panic [no_panic]:
  "(\<And>x. x \<in> set xs \<Longrightarrow> f x \<noteq> Panic) \<Longrightarrow> checks (map f xs) \<noteq> Panic"
  by (intro checks_no_Panic) auto

lemma checks_append_no_Panic [no_panic]:
  "checks xs \<noteq> Panic \<Longrightarrow> checks ys \<noteq> Panic \<Longrightarrow> checks (xs @ ys) \<noteq> Panic"
  by (simp add: checks_append and_then_Panic_iff)

lemma elementary_no_Panic [no_panic]:
  "validate_version c v \<noteq> Panic" "validate_nonblank f x \<noteq> Panic"
  by (simp_all add: validate_version_def validate_nonblank_def)

lemma validate_integrity_no_Panic [no_panic]: "validate_integrity i m \<noteq> Panic"
  by (simp add: validate_integrity_def no_panic and_then_Panic_iff split: option.splits)

lemma steps_no_Panic [no_panic]:
  "goal_criterion_step kind seen entry \<noteq> Panic" "catalog_step cs entry' \<noteq> Panic"
  "completion_ref_step us entry \<noteq> Panic" "satisfied_step kind pos ss entry \<noteq> Panic"
  "assessment_seen_step name i seen entry \<noteq> Panic" "coverage_step declared keys a \<noteq> Panic"
  "assessment_ref_check i ce catalog x \<noteq> Panic"
  by (auto simp: goal_criterion_step_def catalog_step_def completion_ref_step_def
      satisfied_step_def assessment_seen_step_def coverage_step_def assessment_ref_check_def Let_def
      no_panic and_then_Panic_iff split: option.splits prod.splits)

lemma loops_no_Panic [no_panic]:
  "try_fold (goal_criterion_step kind) seen es \<noteq> Panic" "try_fold catalog_step cs es' \<noteq> Panic"
  "try_fold completion_ref_step us es \<noteq> Panic" "try_fold (satisfied_step kind pos) ss es \<noteq> Panic"
  "try_fold (assessment_seen_step name i) seen es \<noteq> Panic"
  "try_fold (coverage_step declared) keys as \<noteq> Panic"
  by (rule try_fold_no_Panic, simp add: no_panic)+

lemma context_no_Panic [no_panic]:
  "Review_Audit.validate_nonblank_values f xs \<noteq> Panic"
  "validate_goal_criteria goal \<noteq> Panic" "validate_catalog refs \<noteq> Panic"
  "validate_satisfied_list goal kind xs \<noteq> Panic" "validate_completion_catalog ce c \<noteq> Panic"
  by (simp_all add: validate_nonblank_values_def validate_goal_criteria_def validate_catalog_def
      validate_satisfied_list_def validate_completion_catalog_def Let_def no_panic
      and_then_Panic_iff split: prod.splits)

lemma validate_completion_evidence_no_Panic [no_panic]: "validate_completion_evidence ctx \<noteq> Panic"
  by (simp add: validate_completion_evidence_def Let_def no_panic and_then_Panic_iff
      split: prod.splits)

lemma validate_context_no_Panic [no_panic]: "validate_context ctx \<noteq> Panic"
  by (simp add: validate_context_def Let_def no_panic and_then_Panic_iff)

lemma assessment_evidence_no_Panic [no_panic]:
  "validate_assessment_evidence i a ctx catalog name \<noteq> Panic"
  by (simp add: validate_assessment_evidence_def Let_def no_panic and_then_Panic_iff)

lemma assessments_no_Panic [no_panic]:
  "validate_assessments ctx as catalog name aligned \<noteq> Panic"
  by (simp add: validate_assessments_def validate_criterion_coverage_def
      validate_completion_alignment_def assessment_check_def Let_def no_panic and_then_Panic_iff
      split: prod.splits)

lemma decisions_no_Panic [no_panic]:
  "validate_review_decision ctx r \<noteq> Panic" "validate_audit_decision actx a \<noteq> Panic"
  by (simp_all add: validate_review_decision_def validate_audit_decision_def Let_def no_panic
      and_then_Panic_iff)

lemma evaluate_no_Panic [no_panic]: "evaluate_review_audit ctx r a \<noteq> Panic"
  by (simp add: evaluate_review_audit_def Let_def no_panic and_then_Panic_iff split: option.splits)

lemma plan_no_Panic [no_panic]:
  "try_fold (plan_task_step q d) planned ids \<noteq> Panic"
  "try_fold (plan_wave_step q d) planned ws \<noteq> Panic"
proof -
  show tasks: "try_fold (plan_task_step q d) planned ids \<noteq> Panic" for planned ids
    by (rule try_fold_no_Panic) (simp add: plan_task_step_def and_then_Panic_iff)
  show "try_fold (plan_wave_step q d) planned ws \<noteq> Panic"
    by (rule try_fold_no_Panic) (simp add: plan_wave_step_def tasks and_then_Panic_iff
        split: prod.splits)
qed

lemma validate_execution_plan_no_Panic [no_panic]: "validate_execution_plan q plan d \<noteq> Panic"
  by (simp add: validate_execution_plan_def no_panic and_then_Panic_iff split: option.splits)

lemma shared_no_Panic [no_panic]:
  "validate_nested_contract_version q c v \<noteq> Panic"
  "validate_decision_binding q c r i g \<noteq> Panic" "validate_decision_role q c x y z \<noteq> Panic"
  "validate_run_transition old new goal ce \<noteq> Panic"
  by (simp_all add: validate_nested_contract_version_def validate_decision_binding_def
      validate_decision_role_def validate_run_transition_def validate_never_panics
      and_then_Panic_iff)

lemma apply_payload_no_Panic [no_panic]: "apply_payload goal declared e s \<noteq> Panic"
  by (simp add: apply_payload_def apply_defs check_completion_def Let_def no_panic
      validate_never_panics and_then_Panic_iff split: run_event_payload.splits option.splits)

text \<open>
  Replay is total: replaying any history against any goal returns a run or a
  structured error. The \<open>unreachable!\<close> after the chain check and the unwrapped previous
  event ID are never reached.
\<close>

theorem replay_never_panics: "replay_run events goal \<noteq> Panic"
proof -
  have chain: "validate_event_chain events \<noteq> Panic"
    using chain_fold_no_Panic [of _ events]
    by (cases events)
      (auto simp: validate_event_chain_def and_then_Panic_iff simp del: enumerate_simps try_fold.simps)
  have created: "\<exists>e es c. events = e # es \<and> ev_payload e = RunCreated c"
    if "validate_event_chain events = Ok run" for run
    using that
    by (cases events) (auto simp: result_iff chain_ok_def link_ok_def is_run_created_iff)
  have check: "check_created goal first c \<noteq> Panic" for first c
  proof -
    have "try_fold (insert_new err) seen ids \<noteq> Panic" for err :: "task_id \<Rightarrow> replay_error" and seen ids
      by (rule try_fold_no_Panic) simp
    then show ?thesis
      by (simp add: check_created_def and_then_Panic_iff split: option.splits)
  qed
  have events: "try_fold (replay_event goal declared) s es \<noteq> Panic" for declared s es
    by (rule try_fold_no_Panic) (simp add: replay_event_def no_panic and_then_Panic_iff)
  show ?thesis
  proof (cases "validate_event_chain events")
    case (Ok run)
    then obtain e es c where "events = e # es" "ev_payload e = RunCreated c"
      using created by blast
    with Ok show ?thesis
      by (simp add: replay_run_def replay_to_state_def and_then_Panic_iff check events
          del: try_fold.simps)
  qed (simp_all add: replay_run_def replay_to_state_def chain)
qed

section \<open>A concrete run\<close>

definition sample_event :: "nat \<Rightarrow> role \<Rightarrow> run_event_payload \<Rightarrow> run_event" where
  "sample_event i producer payload = \<lparr>ev_contract_version = 1, ev_id = show_nat i,
     ev_run_id = ''run'', ev_sequence = of_nat i,
     ev_previous_event_id = (if i = 0 then None else Some (show_nat (i - 1))),
     ev_occurred_at = int i, ev_producer_role = producer, ev_payload = payload,
     ev_metadata = bm_empty\<rparr>"

definition sample_created :: run_created where
  "sample_created = \<lparr>rc_project_id = ''project'', rc_goal_id = ''goal'',
     rc_task_ids = [''d'', ''b'', ''c'', ''a''], rc_status = Draft, rc_created_at = 0,
     rc_updated_at = 0, rc_started_at = None, rc_finished_at = None\<rparr>"

definition sample_history :: "run_event list" where
  "sample_history = map (\<lambda>(i, producer, payload). sample_event i producer payload) (enumerate 0
     [(Coordinator, RunCreated sample_created),
      (Coordinator, StatusTransition Draft Accepted),
      (Coordinator, StatusTransition Accepted Planned),
      (Coordinator, ExecutionPlanRecorded sample_plan),
      (Coordinator, StatusTransition Planned Running),
      (Engineer, EvidenceReferenceRecorded (sample_evidence ''e1'')),
      (Engineer, EvidenceReferenceRecorded (sample_evidence ''e2'')),
      (Coordinator, CompletionEvidenceRecorded sample_completion),
      (Coordinator, StatusTransition Running Reviewing),
      (Reviewer, ReviewDecisionRecorded sample_review),
      (Coordinator, StatusTransition Reviewing Auditing),
      (Auditor, AuditDecisionRecorded (sample_audit VerdictPass sample_assessments)),
      (Coordinator, StatusTransition Auditing Completed),
      (Coordinator, CoordinatorFinalResponseRecorded sample_response)])"

lemma sample_history_replays:
  "case replay_run sample_history (Some sample_goal) of
     Ok run \<Rightarrow> rr_status (rp_run_record run) = Completed
       \<and> rp_final_response run = Some sample_response
   | _ \<Rightarrow> False"
  by code_simp

lemma sample_prefix_replays:
  "case replay_run (take 13 sample_history) (Some sample_goal) of
     Ok run \<Rightarrow> rr_status (rp_run_record run) = Completed
   | _ \<Rightarrow> False"
  by code_simp

lemma sample_replay:
  obtains run where "replay_run sample_history (Some sample_goal) = Ok run"
    "rr_status (rp_run_record run) = Completed" "rp_final_response run = Some sample_response"
  using sample_history_replays by (auto split: result.splits)

lemma sample_prefix_replay:
  obtains run where "replay_run (take 13 sample_history) (Some sample_goal) = Ok run"
    "rr_status (rp_run_record run) = Completed"
  using sample_prefix_replays by (auto split: result.splits)

theorem replay_incremental_witness:
  "\<exists>s0 run. replay_to_state (take 13 sample_history) (Some sample_goal) = Ok s0
     \<and> chain_ok run (take 13 sample_history @ [sample_history ! 13])"
proof -
  have all: "take 13 sample_history @ [sample_history ! 13] = sample_history"
    by (simp add: sample_history_def)
  obtain s where "replay_to_state (take 13 sample_history @ [sample_history ! 13])
      (Some sample_goal) = Ok s"
    unfolding all using sample_replay by (auto simp: replay_run_Ok_iff)
  moreover have "take 13 sample_history \<noteq> []" by (simp add: sample_history_def)
  ultimately show ?thesis
    using replay_incremental [of "take 13 sample_history" "sample_history ! 13"] by blast
qed

theorem completed_run_passed_gate_witness:
  "\<exists>es e post old. sample_history = es @ e # post \<and> ev_payload e = StatusTransition old Completed
     \<and> is_ok (replay_run es (Some sample_goal))"
proof -
  obtain run where "replay_run sample_history (Some sample_goal) = Ok run"
    "rr_status (rp_run_record run) = Completed" by (rule sample_replay)
  from completed_run_passed_gate [OF this] show ?thesis by (auto simp: is_ok_iff)
qed

theorem completed_run_phases_witness:
  "subseq [Accepted, Planned, Running, Reviewing, Auditing, Completed] (statuses sample_history)"
proof -
  obtain run where "replay_run sample_history (Some sample_goal) = Ok run"
    "rr_status (rp_run_record run) = Completed" by (rule sample_replay)
  from completed_run_phases [OF this] show ?thesis
    by (simp add: sample_goal_def sample_profile_def)
qed

theorem replayed_run_well_formed_witness:
  "\<exists>run. replay_run sample_history (Some sample_goal) = Ok run
     \<and> rr_event_count (rp_run_record run) = 14
     \<and> finals sample_history = [(Coordinator, sample_response)]"
proof -
  obtain run where "replay_run sample_history (Some sample_goal) = Ok run"
    "rp_final_response run = Some sample_response" by (rule sample_replay)
  with replayed_run_well_formed [OF this(1)] show ?thesis by (simp add: sample_history_def)
qed

theorem terminal_status_final_witness:
  "\<exists>run later. replay_run (take 13 sample_history) (Some sample_goal) = Ok run
     \<and> replay_run sample_history (Some sample_goal) = Ok later
     \<and> rr_status (rp_run_record later) = rr_status (rp_run_record run)"
proof -
  obtain run where run: "replay_run (take 13 sample_history) (Some sample_goal) = Ok run"
    "rr_status (rp_run_record run) = Completed" by (rule sample_prefix_replay)
  obtain later where later: "replay_run sample_history (Some sample_goal) = Ok later"
    by (rule sample_replay)
  have "replay_run (take 13 sample_history @ drop 13 sample_history) (Some sample_goal) = Ok later"
    using later by (simp only: append_take_drop_id)
  from terminal_status_final [OF run(1) _ this] run later show ?thesis
    by (auto simp: is_terminal_def)
qed

theorem replay_refines_finalization_witness:
  "replay_finalization sample_history = Ok \<lparr>fk_final_response = Some sample_response\<rparr>"
proof -
  obtain run where "replay_run sample_history (Some sample_goal) = Ok run"
    "rp_final_response run = Some sample_response" by (rule sample_replay)
  with replay_refines_finalization [OF this(1)] show ?thesis by simp
qed

end
