(* ===== verification/Run_Event_Log.thy ===== *)
theory Run_Event_Log
  imports Replay_Safety
begin

text \<open>
  The JSONL run event log of \<open>ovca-storage/src/run_events.rs\<close>: one file of lines, appended to
  and read as a whole. The JSON encoding (\<open>serde_json\<close>) is a codec argument, and an \<open>io\<close>
  argument says which file system steps fail and how much a failing write wrote. The
  section on the interface states what clients rely on as a locale, which the log provides.
\<close>


section \<open>Text\<close>

text \<open>
  UTF-8 validity of a byte string, which \<open>read_to_string\<close> demands, by the table of
  well-formed sequences of the Unicode standard.
\<close>

definition continuation :: "nat \<Rightarrow> bool" where
  "continuation b \<longleftrightarrow> 128 \<le> b \<and> b \<le> 191"

definition two_bytes :: "nat \<Rightarrow> nat \<Rightarrow> bool" where
  "two_bytes a b \<longleftrightarrow> 194 \<le> a \<and> a \<le> 223 \<and> continuation b"

definition three_bytes :: "nat \<Rightarrow> nat \<Rightarrow> nat \<Rightarrow> bool" where
  "three_bytes a b c \<longleftrightarrow> continuation b \<and> continuation c
     \<and> (a = 224 \<and> 160 \<le> b \<or> 225 \<le> a \<and> a \<le> 236 \<or> a = 237 \<and> b \<le> 159 \<or> 238 \<le> a \<and> a \<le> 239)"

definition four_bytes :: "nat \<Rightarrow> nat \<Rightarrow> nat \<Rightarrow> nat \<Rightarrow> bool" where
  "four_bytes a b c d \<longleftrightarrow> continuation b \<and> continuation c \<and> continuation d
     \<and> (a = 240 \<and> 144 \<le> b \<or> 241 \<le> a \<and> a \<le> 243 \<or> a = 244 \<and> b \<le> 143)"

fun utf8 :: "nat list \<Rightarrow> bool" where
  "utf8 [] = True"
| "utf8 [a] = (a < 128)"
| "utf8 [a, b] = (a < 128 \<and> utf8 [b] \<or> two_bytes a b)"
| "utf8 [a, b, c] = (a < 128 \<and> utf8 [b, c] \<or> two_bytes a b \<and> utf8 [c] \<or> three_bytes a b c)"
| "utf8 (a # b # c # d # rest) =
    (a < 128 \<and> utf8 (b # c # d # rest) \<or> two_bytes a b \<and> utf8 (c # d # rest)
     \<or> three_bytes a b c \<and> utf8 (d # rest) \<or> four_bytes a b c d \<and> utf8 rest)"

definition is_utf8 :: "string \<Rightarrow> bool" where
  "is_utf8 s = utf8 (map of_char s)"

lemma utf8_ascii: "a < 128 \<Longrightarrow> utf8 (a # rest) = utf8 rest"
proof -
  assume "a < 128"
  then have "\<not> two_bytes a b" "\<not> three_bytes a b c" "\<not> four_bytes a b c d" for b c d
    by (auto simp: two_bytes_def three_bytes_def four_bytes_def)
  with \<open>a < 128\<close> show ?thesis
    by (cases rest rule: utf8.cases) auto
qed

lemma utf8_two: "two_bytes a b \<Longrightarrow> utf8 (a # b # rest) = utf8 rest"
proof -
  assume "two_bytes a b"
  then have "\<not> a < 128" "\<not> three_bytes a b' c" "\<not> four_bytes a b' c d" for b' c d
    by (auto simp: two_bytes_def three_bytes_def four_bytes_def)
  with \<open>two_bytes a b\<close> show ?thesis
    by (cases rest rule: utf8.cases) auto
qed

lemma utf8_three: "three_bytes a b c \<Longrightarrow> utf8 (a # b # c # rest) = utf8 rest"
proof -
  assume "three_bytes a b c"
  then have "\<not> a < 128" "\<not> two_bytes a b'" "\<not> four_bytes a b' c' d" for b' c' d
    by (auto simp: two_bytes_def three_bytes_def four_bytes_def)
  with \<open>three_bytes a b c\<close> show ?thesis
    by (cases rest rule: utf8.cases) auto
qed

lemma utf8_four: "four_bytes a b c d \<Longrightarrow> utf8 (a # b # c # d # rest) = utf8 rest"
proof -
  assume "four_bytes a b c d"
  then have "\<not> a < 128" "\<not> two_bytes a b'" "\<not> three_bytes a b' c'" for b' c'
    by (auto simp: two_bytes_def three_bytes_def four_bytes_def)
  with \<open>four_bytes a b c d\<close> show ?thesis by auto
qed

lemma utf8_append: "utf8 xs \<Longrightarrow> utf8 (xs @ ys) = utf8 ys"
proof (induction xs rule: utf8.induct)
  case (3 a b)
  then show ?case by (auto simp: utf8_ascii utf8_two)
next
  case (4 a b c)
  then show ?case by (auto simp: utf8_ascii utf8_two utf8_three)
next
  case (5 a b c d rest)
  from "5.prems" consider "a < 128" "utf8 (b # c # d # rest)" | "two_bytes a b" "utf8 (c # d # rest)"
    | "three_bytes a b c" "utf8 (d # rest)" | "four_bytes a b c d" "utf8 rest" by auto
  then show ?case
    using "5.IH" by cases (simp_all add: utf8_ascii utf8_two utf8_three utf8_four del: utf8.simps)
qed (simp_all add: utf8_ascii)

lemma is_utf8_append: "is_utf8 s \<Longrightarrow> is_utf8 (s @ t) = is_utf8 t"
  by (simp add: is_utf8_def utf8_append)

lemma is_utf8_Nil [simp]: "is_utf8 []"
  by (simp add: is_utf8_def)

definition newline :: char where "newline = CHR 0x0A"

definition carriage_return :: char where "carriage_return = CHR 0x0D"

lemma is_utf8_newline [simp]: "is_utf8 [newline]"
  by (simp add: is_utf8_def newline_def)

text \<open>\<open>str::lines\<close>: split after every line feed, dropping it and a carriage return before it.\<close>

definition strip_return :: "string \<Rightarrow> string" where
  "strip_return line = (if line \<noteq> [] \<and> last line = carriage_return then butlast line else line)"

fun lines_from :: "string \<Rightarrow> string \<Rightarrow> string list" where
  "lines_from line [] = (if line = [] then [] else [line])"
| "lines_from line (c # rest) =
    (if c = newline then strip_return line # lines_from [] rest
     else lines_from (line @ [c]) rest)"

definition lines :: "string \<Rightarrow> string list" where
  "lines text = lines_from [] text"

lemma lines_from_line:
  "newline \<notin> set s \<Longrightarrow> lines_from line (s @ newline # rest) =
   strip_return (line @ s) # lines_from [] rest"
  by (induction s arbitrary: line) auto

lemma lines_from_append:
  "s = [] \<and> line = [] \<or> s \<noteq> [] \<and> last s = newline \<Longrightarrow>
   lines_from line (s @ rest) = lines_from line s @ lines_from [] rest"
  by (induction line s rule: lines_from.induct) (auto split: if_splits)

text \<open>A text that is empty or ends its last line: what is appended starts a line.\<close>

definition terminated :: "string \<Rightarrow> bool" where
  "terminated text \<longleftrightarrow> text = [] \<or> last text = newline"

lemma lines_snoc:
  assumes "terminated text" and "newline \<notin> set line" and "carriage_return \<notin> set line"
  shows "lines (text @ line @ [newline]) = lines text @ [line]"
proof -
  have "line \<noteq> [] \<longrightarrow> last line \<noteq> carriage_return"
    using assms(3) last_in_set [of line] by fastforce
  then have "strip_return line = line" by (auto simp: strip_return_def)
  then show ?thesis
    using assms lines_from_append [of "text" "[]" "line @ [newline]"] lines_from_line [of line "[]" "[]"]
    by (auto simp: lines_def terminated_def)
qed

section \<open>The log\<close>

datatype run_event_log_error =
    LOG_Serialize | LOG_CreateDirectory | LOG_WriteLockPoisoned | LOG_Open | LOG_Write
  | LOG_Flush | LOG_Sync | LOG_Read
  | LOG_MalformedLine nat

type_synonym 'a logged = "(run_event_log_error, 'a) result"

text \<open>The log file: absent, or its bytes.\<close>

type_synonym log_file = "string option"

text \<open>\<open>serde_json::to_vec\<close> and \<open>serde_json::from_str\<close> on run events.\<close>

record event_codec =
  ec_to_vec :: "run_event \<Rightarrow> string option"
  ec_from_str :: "string \<Rightarrow> run_event option"

text \<open>
  Which steps of one call fail, and after how many bytes \<open>write_all\<close> gives up (\<open>None\<close>: it
  writes everything).
\<close>

datatype log_step = MakeDirectory | TakeLock | OpenLog | FlushLog | SyncLog | ReadLog

record log_io =
  li_fails :: "log_step \<Rightarrow> bool"
  li_written :: "nat option"

definition log_append :: "event_codec \<Rightarrow> log_io \<Rightarrow> run_event \<Rightarrow> log_file \<Rightarrow> unit logged \<times> log_file"
  where
  "log_append C io event file =
    (case and_then (ok_or (ec_to_vec C event) LOG_Serialize) (\<lambda>line.
          and_then (checks
            [require (\<not> li_fails io MakeDirectory) LOG_CreateDirectory,
             require (\<not> li_fails io TakeLock) LOG_WriteLockPoisoned,
             require (\<not> li_fails io OpenLog) LOG_Open]) (\<lambda>_.
          Ok (line @ [newline]))) of
       Err e \<Rightarrow> (Err e, file)
     | Panic \<Rightarrow> (Panic, file)
     | Ok line \<Rightarrow>
         (let text = (case file of None \<Rightarrow> [] | Some text \<Rightarrow> text) in
          case li_written io of
            Some n \<Rightarrow> (Err LOG_Write, Some (text @ take n line))
          | None \<Rightarrow>
              (checks
                 [require (\<not> li_fails io FlushLog) LOG_Flush,
                  require (\<not> li_fails io SyncLog) LOG_Sync],
               Some (text @ line))))"

text \<open>Parsing stops at the first malformed row; rows are numbered from one.\<close>

fun parse_lines :: "event_codec \<Rightarrow> nat \<Rightarrow> string list \<Rightarrow> run_event list logged" where
  "parse_lines C i [] = Ok []"
| "parse_lines C i (line # rest) =
    (if is_blank line then parse_lines C (i + 1) rest
     else and_then (ok_or (ec_from_str C line) (LOG_MalformedLine i)) (\<lambda>event.
          and_then (parse_lines C (i + 1) rest) (\<lambda>events. Ok (event # events))))"

definition log_load_all :: "event_codec \<Rightarrow> log_io \<Rightarrow> log_file \<Rightarrow> run_event list logged" where
  "log_load_all C io file =
    (if li_fails io ReadLog then Err LOG_Read
     else case file of
       None \<Rightarrow> Ok []
     | Some text \<Rightarrow> if is_utf8 text then parse_lines C 1 (lines text) else Err LOG_Read)"

definition log_load_run ::
    "event_codec \<Rightarrow> log_io \<Rightarrow> run_id \<Rightarrow> log_file \<Rightarrow> run_event list logged" where
  "log_load_run C io run_id file =
    and_then (log_load_all C io file) (\<lambda>events. Ok (filter (\<lambda>e. ev_run_id e = run_id) events))"

section \<open>The interface of an append-only log\<close>

text \<open>\<open>for e in es { call(e)? }\<close>, the calls numbered from \<open>n\<close>.\<close>

fun each_call ::
    "(nat \<Rightarrow> 'e \<Rightarrow> 's \<Rightarrow> ('x, unit) result \<times> 's) \<Rightarrow> nat \<Rightarrow> 'e list \<Rightarrow> 's \<Rightarrow> ('x, unit) result \<times> 's"
  where
  "each_call call n [] s = (Ok (), s)"
| "each_call call n (e # es) s =
    (case call n e s of
       (Ok _, s') \<Rightarrow> each_call call (Suc n) es s'
     | (Err x, s') \<Rightarrow> (Err x, s')
     | (Panic, s') \<Rightarrow> (Panic, s'))"

text \<open>Other writers, who act before each call, leave the log intact and add only events of
  others.\<close>

definition respectful ::
    "('s \<Rightarrow> bool) \<Rightarrow> ('s \<Rightarrow> 'e list) \<Rightarrow> ('e \<Rightarrow> bool) \<Rightarrow> (nat \<Rightarrow> 's \<Rightarrow> 's) \<Rightarrow> bool" where
  "respectful intact recorded own others \<longleftrightarrow> (\<forall>n s. intact s \<longrightarrow> intact (others n s)
     \<and> (\<exists>es. recorded (others n s) = recorded s @ es \<and> (\<forall>e \<in> set es. \<not> own e)))"

lemma respectful_filter:
  assumes "respectful intact recorded own others" and "intact s"
  shows "intact (others n s)" "filter own (recorded (others n s)) = filter own (recorded s)"
proof -
  from assms obtain es where "intact (others n s)" "recorded (others n s) = recorded s @ es"
    "\<forall>e \<in> set es. \<not> own e" unfolding respectful_def by blast
  then show "intact (others n s)" "filter own (recorded (others n s)) = filter own (recorded s)"
    by simp_all
qed

text \<open>
  What a client relies on: a successful write adds the event at the end, a failed one adds
  it or nothing unless it tore the log, and a read gives what is recorded.
\<close>

locale event_log =
  fixes intact :: "'s \<Rightarrow> bool"
    and recorded :: "'s \<Rightarrow> 'e list"
    and storable :: "'e \<Rightarrow> bool"
    and put :: "'io \<Rightarrow> 'e \<Rightarrow> 's \<Rightarrow> ('x, unit) result \<times> 's"
    and get :: "'io \<Rightarrow> 's \<Rightarrow> ('x, 'e list) result"
  assumes put_ok: "intact s \<Longrightarrow> storable e \<Longrightarrow> put io e s = (Ok u, s') \<Longrightarrow>
      intact s' \<and> recorded s' = recorded s @ [e]"
    and put_failed: "intact s \<Longrightarrow> storable e \<Longrightarrow> put io e s = (Err x, s') \<Longrightarrow> intact s' \<Longrightarrow>
      recorded s' = recorded s \<or> recorded s' = recorded s @ [e]"
    and put_total: "fst (put io e s) \<noteq> Panic"
    and get_ok: "intact s \<Longrightarrow> get io s = Ok es \<Longrightarrow> es = recorded s"
begin

text \<open>
  A loop of writes by the only writer of its events records all of them when it succeeds,
  and when it fails without tearing the log, the first few, in order.
\<close>

lemma each_put:
  assumes "respectful intact recorded own others" and "intact s"
    and "\<forall>e \<in> set es. storable e \<and> own e"
    and "each_call (\<lambda>n e s. put (io n) e (others n s)) n es s = (r, s')"
  shows "r \<noteq> Panic \<and>
    (r = Ok () \<longrightarrow> intact s' \<and> filter own (recorded s') = filter own (recorded s) @ es) \<and>
    (intact s' \<longrightarrow>
      (\<exists>k \<le> length es. filter own (recorded s') = filter own (recorded s) @ take k es))"
  using assms
proof (induction es arbitrary: n s)
  case Nil
  then show ?case by auto
next
  case (Cons e es)
  let ?t = "others n s"
  note t = respectful_filter [OF Cons.prems(1,2), of n]
  obtain q t' where put: "put (io n) e ?t = (q, t')" by (cases "put (io n) e ?t")
  show ?case
  proof (cases q)
    case (Ok v)
    have next_t: "intact t'" "filter own (recorded t') = filter own (recorded s) @ [e]"
      using Ok put put_ok [of ?t e "io n" v t'] t Cons.prems(3) by auto
    then have rest: "r \<noteq> Panic"
      "r = Ok () \<longrightarrow> intact s' \<and> filter own (recorded s') = filter own (recorded s) @ e # es"
      "intact s' \<longrightarrow>
        (\<exists>k \<le> length es. filter own (recorded s') = filter own (recorded s) @ e # take k es)"
      using Cons.IH [of t' "Suc n"] Cons.prems Ok put by auto
    show ?thesis
    proof (intro conjI rest(1,2) impI)
      assume "intact s'"
      then obtain k where "k \<le> length es"
        "filter own (recorded s') = filter own (recorded s) @ e # take k es" using rest(3) by blast
      then show "\<exists>k \<le> length (e # es).
          filter own (recorded s') = filter own (recorded s) @ take k (e # es)"
        by (intro exI [of _ "Suc k"]) simp
    qed
  next
    case (Err x)
    then have "r = Err x" "s' = t'" using Cons.prems(4) put by simp_all
    moreover have "filter own (recorded s') = filter own (recorded s) @ take 0 (e # es)
        \<or> filter own (recorded s') = filter own (recorded s) @ take (Suc 0) (e # es)" if "intact s'"
      using that Err put put_failed [of ?t e "io n" x t'] t Cons.prems(3) \<open>s' = t'\<close> by auto
    ultimately show ?thesis
      by (metis result.distinct(1,5) le0 length_Cons Suc_le_mono)
  next
    case Panic
    then show ?thesis using put put_total [of "io n" e ?t] by simp
  qed
qed

end

section \<open>The run event log provides it\<close>

definition log_calm :: log_io where
  "log_calm = \<lparr>li_fails = (\<lambda>_. False), li_written = None\<rparr>"

definition log_intact :: "event_codec \<Rightarrow> log_file \<Rightarrow> bool" where
  "log_intact C file \<longleftrightarrow>
    (case file of None \<Rightarrow> True | Some text \<Rightarrow> terminated text) \<and> is_ok (log_load_all C log_calm file)"

definition log_recorded :: "event_codec \<Rightarrow> log_file \<Rightarrow> run_event list" where
  "log_recorded C file = (case log_load_all C log_calm file of Ok es \<Rightarrow> es | _ \<Rightarrow> [])"

text \<open>
  What the codec must do for an event: compact JSON is UTF-8 text without line breaks
  (control characters are escaped), not blank, and reads back as the event.
\<close>

definition storable :: "event_codec \<Rightarrow> run_event \<Rightarrow> bool" where
  "storable C e \<longleftrightarrow>
    (case ec_to_vec C e of
       None \<Rightarrow> True
     | Some line \<Rightarrow> is_utf8 line \<and> newline \<notin> set line \<and> carriage_return \<notin> set line
         \<and> \<not> is_blank line \<and> ec_from_str C line = Some e)"

lemma parse_lines_append:
  "parse_lines C i (xs @ ys) =
   and_then (parse_lines C i xs) (\<lambda>es.
     and_then (parse_lines C (i + length xs) ys) (\<lambda>fs. Ok (es @ fs)))"
proof (induction xs arbitrary: i)
  case Nil
  then show ?case by (cases "parse_lines C i ys") simp_all
next
  case (Cons x xs)
  have shift: "i + 1 + length xs = i + length (x # xs)" by simp
  show ?case
    by (cases "ec_from_str C x"; cases "parse_lines C (i + 1) xs";
        cases "parse_lines C (i + 1 + length xs) ys") (simp_all only: append_Cons parse_lines.simps
          Cons.IH shift, simp_all)
qed

lemma parse_lines_not_Panic: "parse_lines C i ls \<noteq> Panic"
  by (induction C i ls rule: parse_lines.induct) (auto simp: and_then_Panic_iff)

lemma log_load_all_not_Panic [simp]: "log_load_all C io file \<noteq> Panic"
  by (auto simp: log_load_all_def parse_lines_not_Panic split: option.splits)

lemma log_load_run_not_Panic [simp]: "log_load_run C io run file \<noteq> Panic"
  by (simp add: log_load_run_def and_then_Panic_iff)

lemma log_load_all_Ok:
  "log_load_all C io file = Ok es \<Longrightarrow> log_load_all C log_calm file = Ok es \<and> \<not> li_fails io ReadLog"
  by (auto simp: log_load_all_def log_calm_def split: if_splits)

lemma log_recorded_Ok: "log_load_all C log_calm file = Ok es \<Longrightarrow> log_recorded C file = es"
  by (simp add: log_recorded_def)

lemma log_intact_Ok:
  "log_intact C file \<Longrightarrow> log_load_all C log_calm file = Ok (log_recorded C file)"
  by (auto simp: log_intact_def log_recorded_def is_ok_iff)

lemma log_load_all_intact:
  "log_intact C file \<Longrightarrow> \<not> li_fails io ReadLog \<Longrightarrow> log_load_all C io file = Ok (log_recorded C file)"
  using log_intact_Ok by (fastforce simp: log_load_all_def log_calm_def)

text \<open>A whole line more in the file is one event more.\<close>

lemma log_intact_line:
  assumes intact: "log_intact C file" and storable: "storable C e" and line: "ec_to_vec C e = Some l"
  shows "log_intact C (Some (case_option [] id file @ l @ [newline]))
    \<and> log_recorded C (Some (case_option [] id file @ l @ [newline])) = log_recorded C file @ [e]"
proof -
  define t where "t = case_option [] id file"
  have l: "is_utf8 l" "newline \<notin> set l" "carriage_return \<notin> set l" "\<not> is_blank l" "ec_from_str C l = Some e"
    using storable line by (auto simp: storable_def)
  have t: "terminated t" "is_utf8 t" "parse_lines C 1 (lines t) = Ok (log_recorded C file)"
    using intact log_intact_Ok [OF intact]
    by (cases "file"; auto simp: t_def log_intact_def log_load_all_def log_calm_def terminated_def
        lines_def split: if_splits)+
  have "log_load_all C log_calm (Some (t @ l @ [newline])) = Ok (log_recorded C file @ [e])"
    using t l by (simp add: log_load_all_def log_calm_def is_utf8_append lines_snoc parse_lines_append)
  then show ?thesis
    using log_recorded_Ok by (simp add: log_intact_def terminated_def t_def)
qed

lemma log_append_total: "fst (log_append C io e file) \<noteq> Panic"
  by (auto simp: log_append_def and_then_Panic_iff Let_def intro!: checks_no_Panic
      split: result.splits option.splits)

text \<open>What one append leaves in the file.\<close>

lemma log_append_cases:
  assumes "log_append C io e file = (r, file')"
  obtains (nothing) x where "r = Err x" "file' = file"
  | (torn) l n where "r = Err LOG_Write" "ec_to_vec C e = Some l"
      "file' = Some (case_option [] id file @ take n (l @ [newline]))"
  | (whole) l where "ec_to_vec C e = Some l" "file' = Some (case_option [] id file @ l @ [newline])"
      "r \<noteq> Panic"
proof -
  have "r \<noteq> Panic" using log_append_total [of C io e "file"] assms by simp
  then show ?thesis
    using assms that unfolding log_append_def
    by (cases "ec_to_vec C e"; cases "file")
      (auto simp: and_then_Panic_iff result_iff Let_def split: result.splits option.splits)
qed

interpretation jsonl: event_log "log_intact C" "log_recorded C" "storable C" "log_append C"
  "log_load_all C" for C
proof unfold_locales
  fix s s' :: log_file and e io u x es
  show "log_intact C s' \<and> log_recorded C s' = log_recorded C s @ [e]"
    if "log_intact C s" "storable C e" "log_append C io e s = (Ok u, s')"
    using that(3) by (cases rule: log_append_cases) (use log_intact_line [OF that(1,2)] in auto)
  show "log_recorded C s' = log_recorded C s \<or> log_recorded C s' = log_recorded C s @ [e]"
    if "log_intact C s" "storable C e" "log_append C io e s = (Err x, s')" "log_intact C s'"
    using that(3)
  proof (cases rule: log_append_cases)
    case (torn l n)
    have new: "newline \<notin> set l" using torn that(2) by (simp add: storable_def)
    show ?thesis
    proof (cases "n = 0 \<or> length l < n")
      case True
      then show ?thesis
        using torn log_intact_line [OF that(1,2) torn(2)]
        by (cases s) (auto simp: log_recorded_def log_load_all_def lines_def)
    next
      case False
      then have "take n (l @ [newline]) = take n l" "take n l \<noteq> []" "newline \<notin> set (take n l)"
        using new by (auto dest: in_set_takeD)
      moreover from this have "last (take n l) \<noteq> newline" by (metis last_in_set)
      ultimately have "\<not> terminated (case_option [] id s @ take n (l @ [newline]))"
        by (simp add: terminated_def del: take_append)
      then show ?thesis using torn that(4) by (simp add: log_intact_def)
    qed
  qed (use log_intact_line [OF that(1,2)] in auto)
  show "fst (log_append C io e s) \<noteq> Panic" by (rule log_append_total)
  show "es = log_recorded C s" if "log_intact C s" "log_load_all C io s = Ok es"
    using log_load_all_Ok [OF that(2)] log_intact_Ok [OF that(1)] by simp
qed

text \<open>The file a cut-short \<open>write_all\<close> leaves: what was there, and a proper part of the line.\<close>

definition torn_line :: "event_codec \<Rightarrow> run_event \<Rightarrow> log_file \<Rightarrow> log_file \<Rightarrow> bool" where
  "torn_line C e before after \<longleftrightarrow> (\<exists>l n. ec_to_vec C e = Some l \<and> 0 < n \<and> n \<le> length l
     \<and> after = Some (case_option [] id before @ take n l))"

lemma append_intact_or_torn:
  assumes intact: "log_intact C s" and storable: "storable C e" and append: "log_append C io e s = (r, s')"
  shows "log_intact C s' \<or> torn_line C e s s'"
  using append
proof (cases rule: log_append_cases)
  case (torn l n)
  consider "n = 0" | "0 < n" "n \<le> length l" | "length l < n" by linarith
  then show ?thesis
  proof cases
    case 1
    then show ?thesis
      using torn intact
      by (cases s) (auto simp: log_intact_def terminated_def log_load_all_def lines_def is_utf8_Nil)
  next
    case 2
    then show ?thesis using torn by (auto simp: torn_line_def)
  next
    case 3
    then show ?thesis using torn log_intact_line [OF intact storable torn(2)] by simp
  qed
qed (use intact log_intact_line [OF intact storable] in auto)

section \<open>Properties\<close>

lemma nobody_else: "respectful intact recorded own (\<lambda>_ s. s)"
  by (simp add: respectful_def)

text \<open>
  C22 (appended_events_load): any sequence of successful appends to an intact log leaves an
  intact log, to which more can be appended and which every load the file system allows
  reads: it gives the earlier events of the run followed by the new ones, in their order,
  and leaves the events of every other run unchanged.
\<close>

theorem appended_events_load:
  assumes "log_intact C f" and "\<forall>e \<in> set es. storable C e"
    and "each_call (\<lambda>n. log_append C (io n)) n es f = (Ok (), f')" and "\<not> li_fails io' ReadLog"
  shows "log_intact C f' \<and> log_load_run C io' run f' =
    and_then (log_load_run C log_calm run f) (\<lambda>old. Ok (old @ filter (\<lambda>e. ev_run_id e = run) es))"
proof -
  have "log_intact C f' \<and> log_recorded C f' = log_recorded C f @ es"
    using jsonl.each_put [where own = "\<lambda>_. True" and others = "\<lambda>_ s. s",
      OF nobody_else assms(1) _ , of es io n "Ok ()" f'] assms(2,3) by simp
  then show ?thesis
    using log_load_all_intact [of C f' io'] log_intact_Ok [OF assms(1)] assms(4)
    by (simp add: log_load_run_def)
qed

text \<open>
  C23 (a torn append poisons the log): an append whose \<open>write_all\<close> fails in the middle of the
  line leaves the part it wrote. The next append starts right behind it and reports
  success, but the glued line is not an event (as with JSON, where two objects run
  together, the first one cut, never parse): every load of every run then fails.
\<close>

theorem torn_append_poisons_log:
  assumes "log_intact C f" and "ec_to_vec C e = Some l" and "newline \<notin> set l"
    and "log_append C io e f = (Err LOG_Write, g)"
    and "li_written io = Some n" and "0 < n" and "n \<le> length l"
    and "log_append C io' e' g = (Ok (), h)" and "ec_to_vec C e' = Some l'" and "newline \<notin> set l'"
    and "\<not> is_blank (strip_return (take n l @ l'))" and "ec_from_str C (strip_return (take n l @ l')) = None"
  shows "\<exists>x. log_load_run C io'' run h = Err x"
proof -
  define t where "t = case_option [] id f"
  have g: "g = Some (t @ take n l)"
    using assms(2,4,5,7) by (cases f) (auto simp: log_append_def t_def Let_def require_def split: result.splits if_splits)
  have h: "h = Some (t @ take n l @ l' @ [newline])"
    using assms(8) by (cases rule: log_append_cases) (use assms(9) g in auto)
  have t: "terminated t" using assms(1) by (cases f) (auto simp: t_def log_intact_def terminated_def)
  have no_newline: "newline \<notin> set (take n l @ l')" using assms(3,10) by (auto dest: in_set_takeD)
  have glued: "lines (t @ (take n l @ l') @ [newline]) = lines t @ [strip_return (take n l @ l')]"
    using lines_from_append [of t "[]" "(take n l @ l') @ [newline]"] t
      lines_from_line [OF no_newline, of "[]" "[]"]
    by (auto simp: lines_def terminated_def)
  then show ?thesis
    using assms(11,12) by (cases "parse_lines C 1 (lines t)")
      (use glued in \<open>auto simp: h log_load_run_def log_load_all_def parse_lines_append
        parse_lines_not_Panic\<close>)
qed

end
