(* ===== verification/Execution_Lifecycle.thy ===== *)
theory Execution_Lifecycle
  imports Scheduler
begin

text \<open>
  The task lease kernel of \<open>ovca-runtime-core/src/execution_lifecycle.rs\<close>: construction,
  restoration from a snapshot, and the five operations claim, heartbeat, complete, cancel
  and fail. Every public operation works on a copy and replaces the kernel only on
  success. Indexing a map without the key, \<open>expect\<close> on \<open>None\<close> and an overflowing addition
  are panics.
\<close>

section \<open>State, requests and errors\<close>

record task_execution_snapshot =
  tes_status :: task_status
  tes_attempts :: u32
  tes_current_lease :: "task_lease option"
  tes_terminal_record :: "task_terminal_record option"
  tes_last_failure_reason :: "string option"

record write_key_owner =
  wko_task_id :: task_id
  wko_worker_id :: worker_id
  wko_lease_id :: lease_id
  wko_expires_at :: timestamp

record lifecycle_snapshot =
  els_run_id :: run_id
  els_goal_id :: "goal_id option"
  els_max_attempts :: u32
  els_tasks :: "(task_id, task_execution_snapshot) btree_map"
  els_write_key_owners :: "(string, write_key_owner) btree_map"

record claim_request =
  clr_task_id :: task_id
  clr_worker_id :: worker_id
  clr_worker_role :: role
  clr_lease_id :: lease_id
  clr_now :: timestamp
  clr_expires_at :: timestamp

record heartbeat_request =
  hbr_task_id :: task_id
  hbr_worker_id :: worker_id
  hbr_worker_role :: role
  hbr_lease_id :: lease_id
  hbr_now :: timestamp
  hbr_expires_at :: timestamp

record failure_request =
  flr_task_id :: task_id
  flr_worker_id :: worker_id
  flr_worker_role :: role
  flr_lease_id :: lease_id
  flr_now :: timestamp
  flr_reason :: string

record completion_request =
  cmr_task_id :: task_id
  cmr_worker_id :: worker_id
  cmr_worker_role :: role
  cmr_lease_id :: lease_id
  cmr_idempotency_key :: idempotency_key
  cmr_occurred_at :: timestamp

record cancellation_request =
  cnr_task_id :: task_id
  cnr_worker_id :: worker_id
  cnr_worker_role :: role
  cnr_lease_id :: lease_id
  cnr_idempotency_key :: idempotency_key
  cnr_occurred_at :: timestamp
  cnr_reason :: "string option"

datatype lifecycle_error =
    EL_UnsupportedContractVersion string contract_version contract_version
  | EL_InvalidMaxAttempts
  | EL_DuplicateTaskId task_id
  | EL_GoalMismatch task_id goal_id goal_id
  | EL_UnknownDependency task_id task_id
  | EL_InvalidAssignedRole task_id role
  | EL_InvalidInitialTaskStatus task_id task_status
  | EL_UnknownTask task_id
  | EL_DependencyIncomplete task_id task_id task_status
  | EL_CoordinatorRejected task_id
  | EL_RoleMismatch task_id role role
  | EL_TaskNotClaimable task_id task_status
  | EL_InvalidLeaseExpiry task_id
  | EL_ActiveTaskLease task_id lease_id
  | EL_WriteKeyConflict string task_id
  | EL_RetryExhausted task_id u32
  | EL_NoCurrentLease task_id
  | EL_WorkerMismatch task_id
  | EL_LeaseMismatch task_id
  | EL_StaleHeartbeat task_id
  | EL_LeaseExpired task_id
  | EL_NonExtendingHeartbeat task_id
  | EL_TerminalRetryIdentityMismatch task_id
  | EL_IdempotencyKeyConflict task_id idempotency_key idempotency_key

datatype restore_error =
    RS_InvalidDefinition lifecycle_error
  | RS_RunIdMismatch run_id run_id
  | RS_GoalIdMismatch "goal_id option" "goal_id option"
  | RS_MaxAttemptsMismatch u32 u32
  | RS_TaskSetMismatch "task_id list" "task_id list"
  | RS_AttemptsExceedBudget task_id u32 u32
  | RS_InvalidStatusAttempts task_id task_status u32 u32
  | RS_UnsupportedTaskStatus task_id task_status
  | RS_LastFailureWithoutAttempt task_id
  | RS_RunningLeaseMismatch task_id task_status bool
  | RS_TerminalRecordMismatch task_id task_status "task_terminal_outcome option"
  | RS_InvalidLeaseContract task_id contract_version
  | RS_LeaseRunMismatch task_id run_id
  | RS_LeaseTaskMismatch task_id task_id
  | RS_LeaseRoleMismatch task_id role role
  | RS_LeaseWriteKeysMismatch task_id "string set" "string set"
  | RS_LeaseAttemptMismatch task_id u32 u32
  | RS_LeaseMaxAttemptsMismatch task_id u32 u32
  | RS_InvalidLeaseTimestamps task_id
  | RS_InvalidTerminalContract task_id contract_version
  | RS_TerminalRunMismatch task_id run_id
  | RS_TerminalTaskMismatch task_id task_id
  | RS_TerminalWithoutAttempt task_id
  | RS_DuplicateWriteKeyOwner string task_id task_id
  | RS_WriteKeyOwnersMismatch "(string, write_key_owner) btree_map"
      "(string, write_key_owner) btree_map"

record lifecycle_kernel =
  lk_run_id :: run_id
  lk_goal_id :: "goal_id option"
  lk_retry_budget :: retry_budget
  lk_tasks :: "(task_id, task) btree_map"
  lk_state :: "(task_id, task_execution_snapshot) btree_map"
  lk_write_key_owners :: "(string, write_key_owner) btree_map"

type_synonym 'a lifecycle = "(lifecycle_error, 'a) result"

section \<open>Construction\<close>

definition validate_lifecycle_version :: "string \<Rightarrow> contract_version \<Rightarrow> unit lifecycle" where
  "validate_lifecycle_version contract actual =
    require (actual = goal_runtime_contract_version)
      (EL_UnsupportedContractVersion contract goal_runtime_contract_version actual)"

definition validate_worker_role :: "task_id \<Rightarrow> role \<Rightarrow> role \<Rightarrow> unit lifecycle" where
  "validate_worker_role task_id expected actual =
    (if actual = Coordinator then Err (EL_CoordinatorRejected task_id)
     else require (actual = expected) (EL_RoleMismatch task_id expected actual))"

definition check_task_definition :: "task_id \<times> task \<Rightarrow> unit lifecycle" where
  "check_task_definition entry =
    (let (task_id, task) = entry in checks
      [validate_lifecycle_version (''task:'' @ task_id) (task_contract_version task),
       require (task_assigned_role task \<in> {Engineer, Reviewer, Auditor})
         (EL_InvalidAssignedRole (task_id_of task) (task_assigned_role task)),
       require (task_status_of task \<in> {TaskPending, TaskReady})
         (EL_InvalidInitialTaskStatus (task_id_of task) (task_status_of task))])"

definition goal_of_tasks :: "(task_id, task) btree_map \<Rightarrow> goal_id option" where
  "goal_of_tasks tasks =
    (case bm_entries tasks of [] \<Rightarrow> None | (_, task) # _ \<Rightarrow> Some (task_goal_id task))"

definition check_goals :: "(task_id, task) btree_map \<Rightarrow> unit lifecycle" where
  "check_goals tasks =
    (case goal_of_tasks tasks of
       None \<Rightarrow> Ok ()
     | Some expected \<Rightarrow>
         (case find (\<lambda>(_, task). task_goal_id task \<noteq> expected) (bm_entries tasks) of
            None \<Rightarrow> Ok ()
          | Some (task_id, task) \<Rightarrow> Err (EL_GoalMismatch task_id expected (task_goal_id task))))"

definition check_known_dependencies ::
    "(task_id, task) btree_map \<Rightarrow> task_id \<times> task \<Rightarrow> unit lifecycle" where
  "check_known_dependencies tasks entry =
    checks (map (\<lambda>d. require (bm_contains tasks d) (EL_UnknownDependency (task_id_of (snd entry)) d))
      (ordered_set (task_dependencies (snd entry))))"

definition initial_execution :: "task \<Rightarrow> task_execution_snapshot" where
  "initial_execution task =
    \<lparr>tes_status = task_status_of task, tes_attempts = 0, tes_current_lease = None,
     tes_terminal_record = None, tes_last_failure_reason = None\<rparr>"

definition check_no_duplicate :: "task list \<Rightarrow> unit lifecycle" where
  "check_no_duplicate tasks =
    (case find (\<lambda>(_, tries). tries > 1) (bm_entries (task_counts tasks)) of
       Some (task_id, _) \<Rightarrow> Err (EL_DuplicateTaskId task_id)
     | None \<Rightarrow> Ok ())"

definition new_kernel :: "run_id \<Rightarrow> task list \<Rightarrow> retry_budget \<Rightarrow> lifecycle_kernel lifecycle" where
  "new_kernel run_id tasks retry_budget =
    (let task_map = tasks_by_id tasks in
     and_then (checks
       ([validate_lifecycle_version ''retry_budget'' (rb_contract_version retry_budget),
         require (rb_max_attempts retry_budget \<noteq> 0) EL_InvalidMaxAttempts,
         check_no_duplicate tasks]
        @ map check_task_definition (bm_entries task_map)
        @ [check_goals task_map]
        @ map (check_known_dependencies task_map) (bm_entries task_map))) (\<lambda>_.
     Ok \<lparr>lk_run_id = run_id, lk_goal_id = goal_of_tasks task_map, lk_retry_budget = retry_budget,
         lk_tasks = task_map, lk_state = bm_map initial_execution task_map,
         lk_write_key_owners = bm_empty\<rparr>))"

section \<open>Queries\<close>

definition snapshot :: "lifecycle_kernel \<Rightarrow> lifecycle_snapshot" where
  "snapshot k = \<lparr>els_run_id = lk_run_id k, els_goal_id = lk_goal_id k,
     els_max_attempts = rb_max_attempts (lk_retry_budget k), els_tasks = lk_state k,
     els_write_key_owners = lk_write_key_owners k\<rparr>"

definition task_status_in :: "lifecycle_kernel \<Rightarrow> task_id \<Rightarrow> task_status option" where
  "task_status_in k i = map_option tes_status (bm_get (lk_state k) i)"

definition attempts :: "lifecycle_kernel \<Rightarrow> task_id \<Rightarrow> u32 option" where
  "attempts k i = map_option tes_attempts (bm_get (lk_state k) i)"

definition lease :: "lifecycle_kernel \<Rightarrow> task_id \<Rightarrow> task_lease option" where
  "lease k i = Option.bind (bm_get (lk_state k) i) tes_current_lease"

definition active_lease :: "lifecycle_kernel \<Rightarrow> task_id \<Rightarrow> timestamp \<Rightarrow> task_lease option" where
  "active_lease k i now =
    (case lease k i of None \<Rightarrow> None | Some l \<Rightarrow> if tl_expires_at l > now then Some l else None)"

definition terminal_record :: "lifecycle_kernel \<Rightarrow> task_id \<Rightarrow> task_terminal_record option" where
  "terminal_record k i = Option.bind (bm_get (lk_state k) i) tes_terminal_record"

definition active_write_key_owners ::
    "lifecycle_kernel \<Rightarrow> timestamp \<Rightarrow> (string, write_key_owner) btree_map" where
  "active_write_key_owners k now =
    bm_retain (\<lambda>(_, owner). wko_expires_at owner > now) (lk_write_key_owners k)"

section \<open>Operations\<close>

text \<open>\<open>let mut next = self.clone(); ...; *self = next\<close>.\<close>

definition commit ::
    "('a \<times> lifecycle_kernel) lifecycle \<Rightarrow> lifecycle_kernel \<Rightarrow> 'a lifecycle \<times> lifecycle_kernel" where
  "commit outcome self =
    (case outcome of
       Ok (a, next) \<Rightarrow> (Ok a, next)
     | Err e \<Rightarrow> (Err e, self)
     | Panic \<Rightarrow> (Panic, self))"

definition find_task :: "lifecycle_kernel \<Rightarrow> task_id \<Rightarrow> task lifecycle" where
  "find_task k i = ok_or (bm_get (lk_tasks k) i) (EL_UnknownTask i)"

definition check_claimable ::
    "task_id \<Rightarrow> task_execution_snapshot \<Rightarrow> timestamp \<Rightarrow> unit lifecycle" where
  "check_claimable i current now =
    (case tes_status current of
       TaskPending \<Rightarrow> Ok ()
     | TaskReady \<Rightarrow> Ok ()
     | TaskRunning \<Rightarrow>
         (case tes_current_lease current of
            Some l \<Rightarrow> if tl_expires_at l > now then Err (EL_ActiveTaskLease i (tl_lease_id l))
                      else Ok ()
          | None \<Rightarrow> Err (EL_TaskNotClaimable i TaskRunning))
     | status \<Rightarrow> Err (EL_TaskNotClaimable i status))"

definition check_dependency_completed ::
    "lifecycle_kernel \<Rightarrow> task_id \<Rightarrow> task_id \<Rightarrow> unit lifecycle" where
  "check_dependency_completed k i dependency =
    and_then (expect (bm_get (lk_state k) dependency)) (\<lambda>state.
    require (tes_status state = TaskCompleted)
      (EL_DependencyIncomplete i dependency (tes_status state)))"

definition check_write_key ::
    "lifecycle_kernel \<Rightarrow> task_id \<Rightarrow> timestamp \<Rightarrow> string \<Rightarrow> unit lifecycle" where
  "check_write_key k i now write_key =
    (case bm_get (lk_write_key_owners k) write_key of
       None \<Rightarrow> Ok ()
     | Some owner \<Rightarrow>
         require (\<not> (wko_expires_at owner > now \<and> wko_task_id owner \<noteq> i))
           (EL_WriteKeyConflict write_key (wko_task_id owner)))"

definition own_keys ::
    "write_key_owner \<Rightarrow> string list \<Rightarrow> (string, write_key_owner) btree_map \<Rightarrow>
     (string, write_key_owner) btree_map" where
  "own_keys owner keys owners = fold (\<lambda>key. bm_insert key owner) keys owners"

definition apply_claim ::
    "claim_request \<Rightarrow> lifecycle_kernel \<Rightarrow> (task_lease \<times> lifecycle_kernel) lifecycle" where
  "apply_claim request k =
    (let i = clr_task_id request; now = clr_now request in
     and_then (find_task k i) (\<lambda>task.
     and_then (validate_worker_role i (task_assigned_role task) (clr_worker_role request)) (\<lambda>_.
     and_then (require (\<not> clr_expires_at request \<le> now) (EL_InvalidLeaseExpiry i)) (\<lambda>_.
     and_then (expect (bm_get (lk_state k) i)) (\<lambda>current.
     and_then (check_claimable i current now) (\<lambda>_.
     and_then (checks (map (check_dependency_completed k i) (task_dependencies task))) (\<lambda>_.
     and_then (if tes_attempts current = - 1 then Panic else Ok (tes_attempts current + 1))
       (\<lambda>attempt.
     and_then (require (\<not> attempt > rb_max_attempts (lk_retry_budget k))
       (EL_RetryExhausted i (rb_max_attempts (lk_retry_budget k)))) (\<lambda>_.
     let keys = ordered_set (task_write_keys task) in
     and_then (checks (map (check_write_key k i now) keys)) (\<lambda>_.
     let l = \<lparr>tl_contract_version = goal_runtime_contract_version, tl_run_id = lk_run_id k,
              tl_task_id = i, tl_worker_id = clr_worker_id request,
              tl_worker_role = clr_worker_role request, tl_lease_id = clr_lease_id request,
              tl_write_keys = set keys, tl_attempt = attempt,
              tl_max_attempts = rb_max_attempts (lk_retry_budget k), tl_claimed_at = now,
              tl_heartbeat_at = now, tl_expires_at = clr_expires_at request\<rparr>;
         owner = \<lparr>wko_task_id = i, wko_worker_id = clr_worker_id request,
              wko_lease_id = clr_lease_id request, wko_expires_at = clr_expires_at request\<rparr>;
         live = bm_retain (\<lambda>(_, held). wko_expires_at held > now) (lk_write_key_owners k)
     in Ok (l, k\<lparr>lk_write_key_owners := own_keys owner keys live,
                  lk_state := bm_insert i
                    \<lparr>tes_status = TaskRunning, tes_attempts = attempt, tes_current_lease = Some l,
                     tes_terminal_record = None,
                     tes_last_failure_reason = tes_last_failure_reason current\<rparr>
                    (lk_state k)\<rparr>)))))))))))"

definition extend_owner ::
    "timestamp \<Rightarrow> (string, write_key_owner) btree_map \<Rightarrow> string \<Rightarrow>
     (string, write_key_owner) btree_map lifecycle" where
  "extend_owner expires_at owners key =
    and_then (expect (bm_get owners key)) (\<lambda>owner.
    Ok (bm_insert key (owner\<lparr>wko_expires_at := expires_at\<rparr>) owners))"

definition apply_heartbeat ::
    "heartbeat_request \<Rightarrow> lifecycle_kernel \<Rightarrow> (task_lease \<times> lifecycle_kernel) lifecycle" where
  "apply_heartbeat request k =
    (let i = hbr_task_id request in
     and_then (find_task k i) (\<lambda>task.
     and_then (validate_worker_role i (task_assigned_role task) (hbr_worker_role request)) (\<lambda>_.
     and_then (expect (bm_get (lk_state k) i)) (\<lambda>state.
     and_then (ok_or (tes_current_lease state) (EL_NoCurrentLease i)) (\<lambda>l.
     and_then (checks
       [require (tl_worker_id l = hbr_worker_id request) (EL_WorkerMismatch i),
        require (tl_lease_id l = hbr_lease_id request) (EL_LeaseMismatch i),
        require (\<not> hbr_now request \<ge> tl_expires_at l) (EL_StaleHeartbeat i),
        require (\<not> hbr_expires_at request \<le> tl_expires_at l) (EL_NonExtendingHeartbeat i)]) (\<lambda>_.
     let l' = l\<lparr>tl_heartbeat_at := hbr_now request, tl_expires_at := hbr_expires_at request\<rparr> in
     and_then (try_fold (extend_owner (hbr_expires_at request)) (lk_write_key_owners k)
       (sorted_list_of_set (tl_write_keys l'))) (\<lambda>owners.
     Ok (l', k\<lparr>lk_state := bm_insert i (state\<lparr>tes_current_lease := Some l'\<rparr>) (lk_state k),
               lk_write_key_owners := owners\<rparr>))))))))"

definition require_active_owner ::
    "lifecycle_kernel \<Rightarrow> task_id \<Rightarrow> worker_id \<Rightarrow> role \<Rightarrow> lease_id \<Rightarrow> timestamp \<Rightarrow>
     task_lease lifecycle" where
  "require_active_owner k i worker_id worker_role lease_id now =
    and_then (find_task k i) (\<lambda>task.
    and_then (validate_worker_role i (task_assigned_role task) worker_role) (\<lambda>_.
    and_then (expect (bm_get (lk_state k) i)) (\<lambda>state.
    and_then (require (tes_status state = TaskRunning)
      (EL_TaskNotClaimable i (tes_status state))) (\<lambda>_.
    and_then (ok_or (tes_current_lease state) (EL_NoCurrentLease i)) (\<lambda>l.
    and_then (checks
      [require (tl_worker_role l = worker_role) (EL_RoleMismatch i (tl_worker_role l) worker_role),
       require (tl_worker_id l = worker_id) (EL_WorkerMismatch i),
       require (tl_lease_id l = lease_id) (EL_LeaseMismatch i),
       require (\<not> tl_expires_at l \<le> now) (EL_LeaseExpired i)]) (\<lambda>_.
    Ok l))))))"

definition release_current_lease :: "task_id \<Rightarrow> lifecycle_kernel \<Rightarrow> lifecycle_kernel" where
  "release_current_lease i k =
    (case bm_get (lk_state k) i of
       None \<Rightarrow> k
     | Some state \<Rightarrow>
         (case tes_current_lease state of
            None \<Rightarrow> k
          | Some l \<Rightarrow> k\<lparr>lk_state := bm_insert i (state\<lparr>tes_current_lease := None\<rparr>) (lk_state k),
              lk_write_key_owners := bm_retain (\<lambda>(key, owner). key \<notin> tl_write_keys l
                  \<or> wko_task_id owner \<noteq> i \<or> wko_lease_id owner \<noteq> tl_lease_id l)
                (lk_write_key_owners k)\<rparr>))"

primrec terminal_status :: "task_terminal_outcome \<Rightarrow> task_status" where
  "terminal_status OutcomeCompleted = TaskCompleted"
| "terminal_status OutcomeCancelled = TaskCancelled"

definition apply_terminal ::
    "task_id \<Rightarrow> worker_id \<Rightarrow> role \<Rightarrow> lease_id \<Rightarrow> idempotency_key \<Rightarrow> timestamp \<Rightarrow>
     task_terminal_outcome \<Rightarrow> string option \<Rightarrow> lifecycle_kernel \<Rightarrow>
     (task_terminal_record \<times> lifecycle_kernel) lifecycle" where
  "apply_terminal i worker_id worker_role lease_id key occurred_at outcome reason k =
    and_then (find_task k i) (\<lambda>task.
    and_then (validate_worker_role i (task_assigned_role task) worker_role) (\<lambda>_.
    and_then (expect (bm_get (lk_state k) i)) (\<lambda>state.
    case tes_terminal_record state of
      Some existing \<Rightarrow>
        if tr_idempotency_key existing = key \<and> tr_outcome existing = outcome
        then if tr_worker_id existing \<noteq> worker_id \<or> tr_lease_id existing \<noteq> lease_id
             then Err (EL_TerminalRetryIdentityMismatch i)
             else Ok (existing, k)
        else Err (EL_IdempotencyKeyConflict i (tr_idempotency_key existing) key)
    | None \<Rightarrow>
        and_then (require (tes_status state \<notin> {TaskCompleted, TaskFailed, TaskCancelled})
          (EL_TaskNotClaimable i (tes_status state))) (\<lambda>_.
        and_then (require_active_owner k i worker_id worker_role lease_id occurred_at) (\<lambda>_.
        let record = \<lparr>tr_contract_version = goal_runtime_contract_version,
              tr_run_id = lk_run_id k, tr_task_id = i, tr_worker_id = worker_id,
              tr_lease_id = lease_id, tr_idempotency_key = key, tr_outcome = outcome,
              tr_occurred_at = occurred_at, tr_reason = reason\<rparr>;
            k' = release_current_lease i k
        in and_then (expect (bm_get (lk_state k') i)) (\<lambda>state'.
           Ok (record, k'\<lparr>lk_state := bm_insert i
             (state'\<lparr>tes_status := terminal_status outcome, tes_terminal_record := Some record\<rparr>)
             (lk_state k')\<rparr>)))))))"

definition apply_completion ::
    "completion_request \<Rightarrow> lifecycle_kernel \<Rightarrow>
     (task_terminal_record \<times> lifecycle_kernel) lifecycle" where
  "apply_completion r = apply_terminal (cmr_task_id r) (cmr_worker_id r) (cmr_worker_role r)
     (cmr_lease_id r) (cmr_idempotency_key r) (cmr_occurred_at r) OutcomeCompleted None"

definition apply_cancellation ::
    "cancellation_request \<Rightarrow> lifecycle_kernel \<Rightarrow>
     (task_terminal_record \<times> lifecycle_kernel) lifecycle" where
  "apply_cancellation r = apply_terminal (cnr_task_id r) (cnr_worker_id r) (cnr_worker_role r)
     (cnr_lease_id r) (cnr_idempotency_key r) (cnr_occurred_at r) OutcomeCancelled (cnr_reason r)"

definition apply_failure ::
    "failure_request \<Rightarrow> lifecycle_kernel \<Rightarrow> (task_status \<times> lifecycle_kernel) lifecycle" where
  "apply_failure r k =
    (let i = flr_task_id r in
     and_then (require_active_owner k i (flr_worker_id r) (flr_worker_role r) (flr_lease_id r)
       (flr_now r)) (\<lambda>_.
     let k' = release_current_lease i k in
     and_then (expect (bm_get (lk_state k') i)) (\<lambda>state.
     let status = (if tes_attempts state \<ge> rb_max_attempts (lk_retry_budget k')
                   then TaskFailed else TaskReady)
     in Ok (status, k'\<lparr>lk_state := bm_insert i
          (state\<lparr>tes_last_failure_reason := Some (flr_reason r), tes_status := status\<rparr>)
          (lk_state k')\<rparr>))))"

definition claim ::
    "claim_request \<Rightarrow> lifecycle_kernel \<Rightarrow> task_lease lifecycle \<times> lifecycle_kernel" where
  "claim request self = commit (apply_claim request self) self"

definition heartbeat ::
    "heartbeat_request \<Rightarrow> lifecycle_kernel \<Rightarrow> task_lease lifecycle \<times> lifecycle_kernel" where
  "heartbeat request self = commit (apply_heartbeat request self) self"

definition complete ::
    "completion_request \<Rightarrow> lifecycle_kernel \<Rightarrow> task_terminal_record lifecycle \<times> lifecycle_kernel"
  where "complete request self = commit (apply_completion request self) self"

definition cancel ::
    "cancellation_request \<Rightarrow> lifecycle_kernel \<Rightarrow> task_terminal_record lifecycle \<times> lifecycle_kernel"
  where "cancel request self = commit (apply_cancellation request self) self"

definition fail ::
    "failure_request \<Rightarrow> lifecycle_kernel \<Rightarrow> task_status lifecycle \<times> lifecycle_kernel" where
  "fail request self = commit (apply_failure request self) self"

section \<open>Restoration\<close>

definition valid_attempts :: "task_execution_snapshot \<Rightarrow> u32 \<Rightarrow> (restore_error, bool) result" where
  "valid_attempts state max_attempts =
    (case tes_status state of
       TaskPending \<Rightarrow> Ok (tes_attempts state = 0)
     | TaskReady \<Rightarrow> Ok (tes_attempts state < max_attempts)
     | TaskRunning \<Rightarrow> Ok (tes_attempts state \<ge> 1)
     | TaskCompleted \<Rightarrow> Ok (tes_attempts state \<ge> 1)
     | TaskCancelled \<Rightarrow> Ok (tes_attempts state \<ge> 1)
     | TaskFailed \<Rightarrow> Ok (tes_attempts state = max_attempts)
     | TaskAwaitingApproval \<Rightarrow> Panic
     | TaskReviewing \<Rightarrow> Panic)"

definition expected_outcome :: "task_status \<Rightarrow> task_terminal_outcome option" where
  "expected_outcome status =
    (case status of
       TaskCompleted \<Rightarrow> Some OutcomeCompleted
     | TaskCancelled \<Rightarrow> Some OutcomeCancelled
     | _ \<Rightarrow> None)"

definition check_restored_state ::
    "u32 \<Rightarrow> task_id \<Rightarrow> task_execution_snapshot \<Rightarrow> (restore_error, unit) result" where
  "check_restored_state max_attempts i state =
    (let status = tes_status state; tries = tes_attempts state;
         has_current_lease = tes_current_lease state \<noteq> None;
         outcome = map_option tr_outcome (tes_terminal_record state) in
     and_then (require (\<not> tries > max_attempts) (RS_AttemptsExceedBudget i tries max_attempts)) (\<lambda>_.
     and_then (require (status \<notin> {TaskAwaitingApproval, TaskReviewing})
       (RS_UnsupportedTaskStatus i status)) (\<lambda>_.
     and_then (valid_attempts state max_attempts) (\<lambda>valid. checks
      [require valid (RS_InvalidStatusAttempts i status tries max_attempts),
       require (\<not> (tries = 0 \<and> tes_last_failure_reason state \<noteq> None))
         (RS_LastFailureWithoutAttempt i),
       require ((status = TaskRunning) = has_current_lease)
         (RS_RunningLeaseMismatch i status has_current_lease),
       require (outcome = expected_outcome status)
         (RS_TerminalRecordMismatch i status outcome)]))))"

definition check_restored_lease ::
    "lifecycle_kernel \<Rightarrow> task_id \<Rightarrow> task \<Rightarrow> u32 \<Rightarrow> task_lease \<Rightarrow> (restore_error, unit) result" where
  "check_restored_lease k i task tries l =
    (let max_attempts = rb_max_attempts (lk_retry_budget k); keys = set (task_write_keys task) in checks
      [require (tl_contract_version l = goal_runtime_contract_version)
         (RS_InvalidLeaseContract i (tl_contract_version l)),
       require (tl_run_id l = lk_run_id k) (RS_LeaseRunMismatch i (tl_run_id l)),
       require (tl_task_id l = i) (RS_LeaseTaskMismatch i (tl_task_id l)),
       require (tl_worker_role l = task_assigned_role task)
         (RS_LeaseRoleMismatch i (task_assigned_role task) (tl_worker_role l)),
       require (tl_write_keys l = keys) (RS_LeaseWriteKeysMismatch i keys (tl_write_keys l)),
       require (\<not> (tl_attempt l = 0 \<or> tl_attempt l \<noteq> tries))
         (RS_LeaseAttemptMismatch i tries (tl_attempt l)),
       require (tl_max_attempts l = max_attempts)
         (RS_LeaseMaxAttemptsMismatch i max_attempts (tl_max_attempts l)),
       require (\<not> (tl_claimed_at l > tl_heartbeat_at l \<or> tl_heartbeat_at l \<ge> tl_expires_at l))
         (RS_InvalidLeaseTimestamps i)])"

definition expect_owner ::
    "task_id \<Rightarrow> task_lease \<Rightarrow> (string, write_key_owner) btree_map \<Rightarrow> string \<Rightarrow>
     (restore_error, (string, write_key_owner) btree_map) result" where
  "expect_owner i l owners key =
    (case bm_get owners key of
       Some first \<Rightarrow> Err (RS_DuplicateWriteKeyOwner key (wko_task_id first) i)
     | None \<Rightarrow> Ok (bm_insert key
         \<lparr>wko_task_id = i, wko_worker_id = tl_worker_id l, wko_lease_id = tl_lease_id l,
          wko_expires_at = tl_expires_at l\<rparr> owners))"

definition check_restored_terminal ::
    "lifecycle_kernel \<Rightarrow> task_id \<Rightarrow> u32 \<Rightarrow> task_terminal_record \<Rightarrow> (restore_error, unit) result" where
  "check_restored_terminal k i tries record = checks
     [require (tries \<noteq> 0) (RS_TerminalWithoutAttempt i),
      require (tr_contract_version record = goal_runtime_contract_version)
        (RS_InvalidTerminalContract i (tr_contract_version record)),
      require (tr_run_id record = lk_run_id k) (RS_TerminalRunMismatch i (tr_run_id record)),
      require (tr_task_id record = i) (RS_TerminalTaskMismatch i (tr_task_id record))]"

definition restore_task ::
    "lifecycle_kernel \<Rightarrow> (string, write_key_owner) btree_map \<Rightarrow>
     task_id \<times> task_execution_snapshot \<Rightarrow>
     (restore_error, (string, write_key_owner) btree_map) result" where
  "restore_task k owners entry =
    (let (i, state) = entry in
     and_then (check_restored_state (rb_max_attempts (lk_retry_budget k)) i state) (\<lambda>_.
     and_then (expect (bm_get (lk_tasks k) i)) (\<lambda>task.
     and_then (case tes_current_lease state of
         None \<Rightarrow> Ok owners
       | Some l \<Rightarrow>
           and_then (check_restored_lease k i task (tes_attempts state) l) (\<lambda>_.
           try_fold (expect_owner i l) owners (sorted_list_of_set (tl_write_keys l)))) (\<lambda>owners'.
     and_then (case tes_terminal_record state of
         None \<Rightarrow> Ok ()
       | Some record \<Rightarrow> check_restored_terminal k i (tes_attempts state) record) (\<lambda>_.
     Ok owners')))))"

definition restore ::
    "run_id \<Rightarrow> task list \<Rightarrow> retry_budget \<Rightarrow> lifecycle_snapshot \<Rightarrow>
     (restore_error, lifecycle_kernel) result" where
  "restore run_id tasks retry_budget snap =
    and_then (map_err RS_InvalidDefinition (new_kernel run_id tasks retry_budget)) (\<lambda>k.
    and_then (checks
      [require (els_run_id snap = run_id) (RS_RunIdMismatch run_id (els_run_id snap)),
       require (els_goal_id snap = lk_goal_id k)
         (RS_GoalIdMismatch (lk_goal_id k) (els_goal_id snap)),
       require (els_max_attempts snap = rb_max_attempts retry_budget)
         (RS_MaxAttemptsMismatch (rb_max_attempts retry_budget) (els_max_attempts snap)),
       require (bm_keys (els_tasks snap) = bm_keys (lk_tasks k))
         (RS_TaskSetMismatch (bm_keys (lk_tasks k)) (bm_keys (els_tasks snap)))]) (\<lambda>_.
    and_then (try_fold (restore_task k) bm_empty (bm_entries (els_tasks snap))) (\<lambda>expected.
    and_then (require (els_write_key_owners snap = expected)
      (RS_WriteKeyOwnersMismatch expected (els_write_key_owners snap))) (\<lambda>_.
    Ok (k\<lparr>lk_state := els_tasks snap, lk_write_key_owners := els_write_key_owners snap\<rparr>)))))"

end
