(* ===== verification/Lifecycle_Safety.thy ===== *)
theory Lifecycle_Safety
  imports Execution_Lifecycle
begin

text \<open>
  The invariant of the lease kernel, its preservation by each operation, and the kernels
  reachable by operations whose times do not decrease.
\<close>

section \<open>The invariant\<close>

abbreviation max_attempts_of :: "lifecycle_kernel \<Rightarrow> u32" where
  "max_attempts_of k \<equiv> rb_max_attempts (lk_retry_budget k)"

abbreviation owner_at :: "lifecycle_kernel \<Rightarrow> string \<Rightarrow> write_key_owner option" where
  "owner_at k key \<equiv> bm_get (lk_write_key_owners k) key"

definition owner_of :: "task_id \<Rightarrow> task_lease \<Rightarrow> write_key_owner" where
  "owner_of i l = \<lparr>wko_task_id = i, wko_worker_id = tl_worker_id l, wko_lease_id = tl_lease_id l,
     wko_expires_at = tl_expires_at l\<rparr>"

lemma owner_of_simps [simp]:
  "wko_task_id (owner_of i l) = i" "wko_lease_id (owner_of i l) = tl_lease_id l"
  "wko_expires_at (owner_of i l) = tl_expires_at l"
  by (simp_all add: owner_of_def)

text \<open>One task's state, as restoration checks it.\<close>

definition lease_ok :: "lifecycle_kernel \<Rightarrow> task_id \<Rightarrow> task \<Rightarrow> u32 \<Rightarrow> task_lease \<Rightarrow> bool" where
  "lease_ok k i task tries l \<longleftrightarrow> tl_contract_version l = 1 \<and> tl_run_id l = lk_run_id k
     \<and> tl_task_id l = i \<and> tl_worker_role l = task_assigned_role task
     \<and> tl_write_keys l = set (task_write_keys task) \<and> tl_attempt l = tries \<and> tries \<noteq> 0
     \<and> tl_max_attempts l = max_attempts_of k
     \<and> tl_claimed_at l \<le> tl_heartbeat_at l \<and> tl_heartbeat_at l < tl_expires_at l"

definition record_for :: "lifecycle_kernel \<Rightarrow> task_id \<Rightarrow> u32 \<Rightarrow> task_terminal_record \<Rightarrow> bool" where
  "record_for k i tries r \<longleftrightarrow> tries \<noteq> 0 \<and> tr_contract_version r = 1
     \<and> tr_run_id r = lk_run_id k \<and> tr_task_id r = i"

definition attempts_ok :: "u32 \<Rightarrow> task_status \<Rightarrow> u32 \<Rightarrow> bool" where
  "attempts_ok max_attempts status tries \<longleftrightarrow> tries \<le> max_attempts
     \<and> (case status of
          TaskPending \<Rightarrow> tries = 0
        | TaskReady \<Rightarrow> tries < max_attempts
        | TaskRunning \<Rightarrow> 1 \<le> tries
        | TaskCompleted \<Rightarrow> 1 \<le> tries
        | TaskCancelled \<Rightarrow> 1 \<le> tries
        | TaskFailed \<Rightarrow> tries = max_attempts
        | TaskAwaitingApproval \<Rightarrow> False
        | TaskReviewing \<Rightarrow> False)"

definition state_ok :: "lifecycle_kernel \<Rightarrow> task_id \<Rightarrow> task \<Rightarrow> task_execution_snapshot \<Rightarrow> bool" where
  "state_ok k i task s \<longleftrightarrow>
     attempts_ok (max_attempts_of k) (tes_status s) (tes_attempts s)
   \<and> (tes_attempts s = 0 \<longrightarrow> tes_last_failure_reason s = None)
   \<and> (tes_status s = TaskRunning \<longleftrightarrow> tes_current_lease s \<noteq> None)
   \<and> map_option tr_outcome (tes_terminal_record s) = expected_outcome (tes_status s)
   \<and> (\<forall>l. tes_current_lease s = Some l \<longrightarrow> lease_ok k i task (tes_attempts s) l)
   \<and> (\<forall>r. tes_terminal_record s = Some r \<longrightarrow> record_for k i (tes_attempts s) r)"

definition kernel_ok :: "lifecycle_kernel \<Rightarrow> bool" where
  "kernel_ok k \<longleftrightarrow>
     set (bm_keys (lk_state k)) = set (bm_keys (lk_tasks k))
   \<and> (\<forall>i task. bm_get (lk_tasks k) i = Some task \<longrightarrow>
        set (task_dependencies task) \<subseteq> set (bm_keys (lk_tasks k)))
   \<and> (\<forall>i task s. bm_get (lk_tasks k) i = Some task \<longrightarrow> bm_get (lk_state k) i = Some s \<longrightarrow>
        state_ok k i task s)"

text \<open>
  Every recorded owner is a current lease; every lease that had not expired at the last
  operation owns all its keys, and no lease was claimed later than that operation. An
  expired lease may have lost some keys.
\<close>

definition owners_ok :: "timestamp \<Rightarrow> lifecycle_kernel \<Rightarrow> bool" where
  "owners_ok T k \<longleftrightarrow>
     (\<forall>key held. owner_at k key = Some held \<longrightarrow>
        (\<exists>l. lease k (wko_task_id held) = Some l \<and> key \<in> tl_write_keys l
           \<and> held = owner_of (wko_task_id held) l))
   \<and> (\<forall>i l key. lease k i = Some l \<longrightarrow> key \<in> tl_write_keys l \<longrightarrow> T < tl_expires_at l \<longrightarrow>
        owner_at k key = Some (owner_of i l))
   \<and> (\<forall>i l. lease k i = Some l \<longrightarrow> tl_claimed_at l \<le> T)"

lemma owners_ok_later: "owners_ok T k \<Longrightarrow> T \<le> T' \<Longrightarrow> owners_ok T' k"
  unfolding owners_ok_def by (meson le_less_trans order_trans)

lemma owner_justified:
  assumes "owners_ok T k" and "owner_at k key = Some held"
  obtains l where "lease k (wko_task_id held) = Some l" "key \<in> tl_write_keys l"
    "held = owner_of (wko_task_id held) l"
  using assms unfolding owners_ok_def by blast

lemma live_lease_owns:
  "owners_ok T k \<Longrightarrow> lease k i = Some l \<Longrightarrow> key \<in> tl_write_keys l \<Longrightarrow> T < tl_expires_at l \<Longrightarrow>
   owner_at k key = Some (owner_of i l)"
  unfolding owners_ok_def by blast

lemma lease_claimed_before: "owners_ok T k \<Longrightarrow> lease k i = Some l \<Longrightarrow> tl_claimed_at l \<le> T"
  unfolding owners_ok_def by blast

lemma lease_update [simp]:
  "lease (k\<lparr>lk_state := bm_insert i s (lk_state k), lk_write_key_owners := owners\<rparr>) j =
     (if j = i then tes_current_lease s else lease k j)"
  "lease (k\<lparr>lk_write_key_owners := owners, lk_state := bm_insert i s (lk_state k)\<rparr>) j =
     (if j = i then tes_current_lease s else lease k j)"
  "lease (k\<lparr>lk_state := bm_insert i s (lk_state k)\<rparr>) j =
     (if j = i then tes_current_lease s else lease k j)"
  by (simp_all add: lease_def)

lemma lease_Some_iff:
  "lease k i = Some l \<longleftrightarrow> (\<exists>s. bm_get (lk_state k) i = Some s \<and> tes_current_lease s = Some l)"
  by (cases "bm_get (lk_state k) i") (simp_all add: lease_def)

lemma task_of_state:
  assumes "kernel_ok k" and "bm_get (lk_state k) i = Some s"
  obtains task where "bm_get (lk_tasks k) i = Some task" "state_ok k i task s"
proof -
  have "i \<in> set (bm_keys (lk_tasks k))"
    using assms by (metis kernel_ok_def bm_keys_iff)
  then show ?thesis using assms that by (auto simp: kernel_ok_def bm_keys_iff)
qed

lemma state_of_task:
  assumes "kernel_ok k" and "bm_get (lk_tasks k) i = Some task"
  obtains s where "bm_get (lk_state k) i = Some s" "state_ok k i task s"
proof -
  have "i \<in> set (bm_keys (lk_state k))"
    using assms by (metis kernel_ok_def bm_keys_iff)
  then show ?thesis using assms that by (auto simp: kernel_ok_def bm_keys_iff)
qed

text \<open>Replacing one task's state and the owners keeps the per-task part of the invariant.\<close>

lemma state_ok_cong:
  "state_ok (k\<lparr>lk_state := st, lk_write_key_owners := ow\<rparr>) i task s = state_ok k i task s"
  by (simp add: state_ok_def lease_ok_def record_for_def)

lemma kernel_ok_update:
  assumes "kernel_ok k" and "bm_get (lk_tasks k) i = Some task" and "state_ok k i task s"
  shows "kernel_ok (k\<lparr>lk_state := bm_insert i s (lk_state k), lk_write_key_owners := ow\<rparr>)"
proof -
  have "i \<in> set (bm_keys (lk_tasks k))" using assms(2) by (auto simp: bm_keys_iff)
  then show ?thesis
    using assms unfolding kernel_ok_def state_ok_cong by (auto split: if_splits)
qed

text \<open>Every operation replaces at most the lease of one task, and its owners.\<close>

lemma owners_ok_switch:
  assumes inv: "owners_ok T k" and time: "T \<le> T'"
    and lease': "\<And>j. lease k' j = (if j = i then lo else lease k j)"
    and granted: "\<And>l key. lo = Some l \<Longrightarrow> key \<in> tl_write_keys l \<Longrightarrow>
        owner_at k' key = Some (owner_of i l)"
    and claimed: "\<And>l. lo = Some l \<Longrightarrow> tl_claimed_at l \<le> T'"
    and others: "\<And>key held. owner_at k' key = Some held \<Longrightarrow>
        (\<exists>l. lo = Some l \<and> key \<in> tl_write_keys l)
      \<or> owner_at k key = Some held \<and> wko_task_id held \<noteq> i"
    and kept: "\<And>key held. owner_at k key = Some held \<Longrightarrow> T' < wko_expires_at held \<Longrightarrow>
        wko_task_id held \<noteq> i \<Longrightarrow> owner_at k' key = Some held"
  shows "owners_ok T' k'"
  unfolding owners_ok_def
proof (intro conjI allI impI)
  fix key held assume held: "owner_at k' key = Some held"
  from others [OF held] show "\<exists>m. lease k' (wko_task_id held) = Some m \<and> key \<in> tl_write_keys m
      \<and> held = owner_of (wko_task_id held) m"
  proof (elim disjE exE conjE)
    fix l assume l: "lo = Some l" "key \<in> tl_write_keys l"
    then have "held = owner_of i l" using granted held by simp
    then show ?thesis using l by (simp add: lease')
  next
    assume "owner_at k key = Some held" "wko_task_id held \<noteq> i"
    then show ?thesis using owner_justified [OF inv] by (metis lease')
  qed
next
  fix j m key assume m: "lease k' j = Some m" "key \<in> tl_write_keys m" "T' < tl_expires_at m"
  show "owner_at k' key = Some (owner_of j m)"
  proof (cases "j = i")
    case True
    then show ?thesis using m granted by (simp add: lease')
  next
    case False
    then have "owner_at k key = Some (owner_of j m)"
      using m time by (intro live_lease_owns [OF inv]) (simp_all add: lease')
    then show ?thesis using m(3) False by (intro kept) simp_all
  qed
next
  fix j m assume "lease k' j = Some m"
  then show "tl_claimed_at m \<le> T'"
    using claimed time lease_claimed_before [OF inv, of j m]
    by (fastforce simp: lease' split: if_splits)
qed

section \<open>Claims\<close>

definition claimed_lease ::
    "claim_request \<Rightarrow> lifecycle_kernel \<Rightarrow> task \<Rightarrow> task_execution_snapshot \<Rightarrow> task_lease" where
  "claimed_lease r k task s =
    \<lparr>tl_contract_version = 1, tl_run_id = lk_run_id k, tl_task_id = clr_task_id r,
     tl_worker_id = clr_worker_id r, tl_worker_role = clr_worker_role r,
     tl_lease_id = clr_lease_id r, tl_write_keys = set (task_write_keys task),
     tl_attempt = tes_attempts s + 1, tl_max_attempts = max_attempts_of k,
     tl_claimed_at = clr_now r, tl_heartbeat_at = clr_now r, tl_expires_at = clr_expires_at r\<rparr>"

definition claimed_state :: "task_lease \<Rightarrow> task_execution_snapshot \<Rightarrow> task_execution_snapshot" where
  "claimed_state l s = \<lparr>tes_status = TaskRunning, tes_attempts = tes_attempts s + 1,
     tes_current_lease = Some l, tes_terminal_record = None,
     tes_last_failure_reason = tes_last_failure_reason s\<rparr>"

lemma bm_get_own_keys [simp]:
  "bm_get (own_keys owner keys owners) key =
     (if key \<in> set keys then Some owner else bm_get owners key)"
  by (induction keys arbitrary: owners) (auto simp: own_keys_def)

lemma validate_worker_role_Ok_iff [result_iff]:
  "validate_worker_role i expected actual = Ok u \<longleftrightarrow> actual = expected \<and> actual \<noteq> Coordinator"
  by (auto simp: validate_worker_role_def result_iff)

lemma check_claimable_Ok_iff [result_iff]:
  "check_claimable i s now = Ok u \<longleftrightarrow>
     tes_status s = TaskPending \<or> tes_status s = TaskReady
   \<or> tes_status s = TaskRunning \<and> (\<exists>l. tes_current_lease s = Some l \<and> tl_expires_at l \<le> now)"
  by (auto simp: check_claimable_def split: task_status.splits option.splits)

lemma check_dependency_Ok_iff [result_iff]:
  "check_dependency_completed k i d = Ok u \<longleftrightarrow> task_status_in k d = Some TaskCompleted"
  by (cases "bm_get (lk_state k) d")
    (auto simp: check_dependency_completed_def task_status_in_def result_iff)

lemma check_write_key_Ok_iff [result_iff]:
  "check_write_key k i now key = Ok u \<longleftrightarrow>
     (\<forall>held. owner_at k key = Some held \<longrightarrow> wko_expires_at held \<le> now \<or> wko_task_id held = i)"
  by (auto simp: check_write_key_def result_iff split: option.splits)

lemma apply_claim_Ok:
  assumes "apply_claim r k = Ok (l, k')"
  obtains task s where "bm_get (lk_tasks k) (clr_task_id r) = Some task"
    "bm_get (lk_state k) (clr_task_id r) = Some s"
    "clr_worker_role r = task_assigned_role task" "clr_worker_role r \<noteq> Coordinator"
    "clr_now r < clr_expires_at r"
    "check_claimable (clr_task_id r) s (clr_now r) = Ok ()"
    "\<forall>d \<in> set (task_dependencies task). task_status_in k d = Some TaskCompleted"
    "tes_attempts s \<noteq> - 1" "tes_attempts s + 1 \<le> max_attempts_of k"
    "\<forall>key \<in> set (task_write_keys task).
       check_write_key k (clr_task_id r) (clr_now r) key = Ok ()"
    "l = claimed_lease r k task s"
    "k' = k\<lparr>lk_write_key_owners := own_keys (owner_of (clr_task_id r) l)
              (ordered_set (task_write_keys task))
              (bm_retain (\<lambda>(_, held). wko_expires_at held > clr_now r) (lk_write_key_owners k)),
            lk_state := bm_insert (clr_task_id r) (claimed_state l s) (lk_state k)\<rparr>"
proof -
  from assms obtain task s where *: "bm_get (lk_tasks k) (clr_task_id r) = Some task"
    "bm_get (lk_state k) (clr_task_id r) = Some s"
    by (auto simp: apply_claim_def find_task_def Let_def result_iff)
  show ?thesis
    by (rule that [OF *])
      (use assms * in \<open>auto simp: apply_claim_def find_task_def Let_def result_iff not_less not_le
        claimed_lease_def claimed_state_def owner_of_def split: if_splits\<close>)
qed

lemma word_one_le_iff: "(1 :: u32) \<le> x \<longleftrightarrow> x \<noteq> 0"
  by (simp add: word_le_nat_alt Suc_le_eq unat_gt_0)

lemma word_succ_nonzero: "(x :: u32) \<noteq> - 1 \<Longrightarrow> x + 1 \<noteq> 0"
  by (simp add: eq_neg_iff_add_eq_0)

lemma claimed_state_ok:
  assumes "bm_get (lk_tasks k) (clr_task_id r) = Some task" "clr_worker_role r = task_assigned_role task"
    "clr_now r < clr_expires_at r" "tes_attempts s \<noteq> - 1" "tes_attempts s + 1 \<le> max_attempts_of k"
  shows "state_ok k (clr_task_id r) task (claimed_state (claimed_lease r k task s) s)"
  using assms word_succ_nonzero [of "tes_attempts s"]
  by (simp add: state_ok_def claimed_state_def claimed_lease_def lease_ok_def attempts_ok_def
      word_one_le_iff expected_outcome_def)

lemma kernel_update_swap:
  "k\<lparr>lk_write_key_owners := ow, lk_state := st\<rparr> = k\<lparr>lk_state := st, lk_write_key_owners := ow\<rparr>"
  by (cases k) simp

lemma claim_preserves:
  assumes inv: "kernel_ok k" "owners_ok T k" and time: "T \<le> clr_now r"
    and claim: "apply_claim r k = Ok (l, k')"
  shows "kernel_ok k' \<and> owners_ok (clr_now r) k'"
proof -
  let ?i = "clr_task_id r" and ?now = "clr_now r"
  from claim obtain task s where task: "bm_get (lk_tasks k) ?i = Some task"
    and s: "bm_get (lk_state k) ?i = Some s"
    and role: "clr_worker_role r = task_assigned_role task" and expiry: "?now < clr_expires_at r"
    and claimable: "check_claimable ?i s ?now = Ok ()"
    and tries: "tes_attempts s \<noteq> - 1" "tes_attempts s + 1 \<le> max_attempts_of k"
    and keys: "\<forall>key \<in> set (task_write_keys task). check_write_key k ?i ?now key = Ok ()"
    and l: "l = claimed_lease r k task s"
    and k': "k' = k\<lparr>lk_write_key_owners := own_keys (owner_of ?i l)
              (ordered_set (task_write_keys task))
              (bm_retain (\<lambda>(_, held). wko_expires_at held > ?now) (lk_write_key_owners k)),
            lk_state := bm_insert ?i (claimed_state l s) (lk_state k)\<rparr>"
    by (rule apply_claim_Ok) blast
  have "state_ok k ?i task (claimed_state l s)"
    unfolding l using task role expiry tries by (rule claimed_state_ok)
  then have "kernel_ok k'"
    unfolding k' kernel_update_swap by (rule kernel_ok_update [OF inv(1) task])
  moreover have "owners_ok ?now k'"
  proof (rule owners_ok_switch [OF inv(2) time, where i = ?i and lo = "Some l"])
    have l_keys: "tl_write_keys l = set (task_write_keys task)"
      by (simp add: l claimed_lease_def)
    have expired: "tl_expires_at m \<le> ?now" if "lease k ?i = Some m" for m
    proof -
      have "state_ok k ?i task s" using inv(1) task s by (auto simp: kernel_ok_def)
      then show ?thesis
        using that s claimable by (auto simp: lease_Some_iff result_iff state_ok_def)
    qed
    have owner': "owner_at k' key = (if key \<in> tl_write_keys l then Some (owner_of ?i l)
        else case owner_at k key of None \<Rightarrow> None
             | Some held \<Rightarrow> if wko_expires_at held > ?now then Some held else None)" for key
      by (simp add: k' l_keys bm_get_retain split: option.splits)
    fix key held
    show "owner_at k' key = Some held"
      if "owner_at k key = Some held" "?now < wko_expires_at held" "wko_task_id held \<noteq> ?i"
      using that keys by (auto simp: owner' l_keys result_iff dest: bspec [of _ _ key])
    show "(\<exists>m. Some l = Some m \<and> key \<in> tl_write_keys m)
        \<or> owner_at k key = Some held \<and> wko_task_id held \<noteq> ?i"
      if "owner_at k' key = Some held"
    proof (cases "key \<in> tl_write_keys l")
      case False
      then have old: "owner_at k key = Some held" "wko_expires_at held > ?now"
        using that by (auto simp: owner' split: option.splits if_splits)
      moreover obtain m where "lease k (wko_task_id held) = Some m"
        "held = owner_of (wko_task_id held) m"
        using inv(2) old(1) by (rule owner_justified)
      ultimately show ?thesis using expired by (metis not_le owner_of_simps(3))
    qed simp
    show "owner_at k' key = Some (owner_of ?i m)" if "Some l = Some m" "key \<in> tl_write_keys m"
      for m using that by (simp add: owner')
  qed (auto simp: k' claimed_state_def l claimed_lease_def)
  ultimately show ?thesis ..
qed

section \<open>Heartbeats\<close>

lemma extend_owners_Ok_iff:
  "try_fold (extend_owner e) owners keys = Ok owners' \<longleftrightarrow>
     (\<forall>key \<in> set keys. bm_get owners key \<noteq> None)
   \<and> owners' = fold (\<lambda>key m. case bm_get m key of None \<Rightarrow> m
        | Some held \<Rightarrow> bm_insert key (held\<lparr>wko_expires_at := e\<rparr>) m) keys owners"
proof (induction keys arbitrary: owners)
  case Nil
  then show ?case by auto
next
  case (Cons key keys)
  have "extend_owner e owners key = Ok m \<longleftrightarrow>
      (\<exists>held. bm_get owners key = Some held \<and> m = bm_insert key (held\<lparr>wko_expires_at := e\<rparr>) owners)"
    for m by (auto simp: extend_owner_def result_iff)
  then show ?case
    by (cases "bm_get owners key") (auto simp: result_iff Cons.IH)
qed

lemma bm_get_extend:
  "bm_get (fold (\<lambda>key m. case bm_get m key of None \<Rightarrow> m
      | Some held \<Rightarrow> bm_insert key (held\<lparr>wko_expires_at := e\<rparr>) m) keys owners) key =
   (if key \<in> set keys then map_option (\<lambda>held. held\<lparr>wko_expires_at := e\<rparr>) (bm_get owners key)
    else bm_get owners key)"
proof (induction keys arbitrary: owners)
  case Nil
  then show ?case by simp
next
  case (Cons k ks)
  then show ?case by (cases "bm_get owners k"; cases "bm_get owners key") auto
qed

lemma extend_owners_no_Panic:
  assumes "\<forall>key \<in> set keys. bm_get owners key \<noteq> None"
  shows "try_fold (extend_owner e) owners keys \<noteq> Panic"
proof -
  from assms obtain owners' where "try_fold (extend_owner e) owners keys = Ok owners'"
    by (simp add: extend_owners_Ok_iff)
  then show ?thesis by simp
qed

definition extended_lease :: "heartbeat_request \<Rightarrow> task_lease \<Rightarrow> task_lease" where
  "extended_lease r l = l\<lparr>tl_heartbeat_at := hbr_now r, tl_expires_at := hbr_expires_at r\<rparr>"

lemma apply_heartbeat_Ok:
  assumes "apply_heartbeat r k = Ok (l', k')"
  obtains task s l owners where "bm_get (lk_tasks k) (hbr_task_id r) = Some task"
    "bm_get (lk_state k) (hbr_task_id r) = Some s" "tes_current_lease s = Some l"
    "hbr_worker_role r = task_assigned_role task"
    "tl_worker_id l = hbr_worker_id r" "tl_lease_id l = hbr_lease_id r"
    "hbr_now r < tl_expires_at l" "tl_expires_at l < hbr_expires_at r"
    "l' = extended_lease r l"
    "try_fold (extend_owner (hbr_expires_at r)) (lk_write_key_owners k)
       (sorted_list_of_set (tl_write_keys l)) = Ok owners"
    "k' = k\<lparr>lk_state := bm_insert (hbr_task_id r) (s\<lparr>tes_current_lease := Some l'\<rparr>) (lk_state k),
            lk_write_key_owners := owners\<rparr>"
proof -
  from assms obtain task s l owners where *: "bm_get (lk_tasks k) (hbr_task_id r) = Some task"
    "bm_get (lk_state k) (hbr_task_id r) = Some s" "tes_current_lease s = Some l"
    "try_fold (extend_owner (hbr_expires_at r)) (lk_write_key_owners k)
       (sorted_list_of_set (tl_write_keys l)) = Ok owners"
    by (auto simp: apply_heartbeat_def find_task_def Let_def result_iff)
  show ?thesis
    by (rule that [OF *(1-3) _ _ _ _ _ _ *(4)])
      (use assms * in \<open>auto simp: apply_heartbeat_def find_task_def Let_def result_iff not_less
        not_le extended_lease_def\<close>)
qed

lemma heartbeat_preserves:
  assumes inv: "kernel_ok k" "owners_ok T k" and time: "T \<le> hbr_now r"
    and beat: "apply_heartbeat r k = Ok (l', k')"
  shows "kernel_ok k' \<and> owners_ok (hbr_now r) k'"
proof -
  let ?i = "hbr_task_id r" and ?now = "hbr_now r"
  from beat obtain task s l owners where task: "bm_get (lk_tasks k) ?i = Some task"
    and s: "bm_get (lk_state k) ?i = Some s" "tes_current_lease s = Some l"
    and live: "?now < tl_expires_at l" and longer: "tl_expires_at l < hbr_expires_at r"
    and l': "l' = extended_lease r l"
    and owners: "try_fold (extend_owner (hbr_expires_at r)) (lk_write_key_owners k)
       (sorted_list_of_set (tl_write_keys l)) = Ok owners"
    and k': "k' = k\<lparr>lk_state := bm_insert ?i (s\<lparr>tes_current_lease := Some l'\<rparr>) (lk_state k),
            lk_write_key_owners := owners\<rparr>"
    by (rule apply_heartbeat_Ok) blast
  have ok: "state_ok k ?i task s" using inv(1) task s by (auto simp: kernel_ok_def)
  then have l_ok: "lease_ok k ?i task (tes_attempts s) l" using s by (simp add: state_ok_def)
  have lease_i: "lease k ?i = Some l" using s by (simp add: lease_def)
  have running: "tes_status s = TaskRunning" using ok s(2) by (simp add: state_ok_def)
  have claimed_before: "tl_claimed_at l \<le> ?now"
    using lease_claimed_before [OF inv(2) lease_i] time by linarith
  have keys: "finite (tl_write_keys l)" using l_ok by (simp add: lease_ok_def)
  have "state_ok k ?i task (s\<lparr>tes_current_lease := Some l'\<rparr>)"
    using ok running s l_ok live longer claimed_before
    by (simp add: state_ok_def l' extended_lease_def lease_ok_def)
  then have "kernel_ok k'"
    unfolding k' by (rule kernel_ok_update [OF inv(1) task])
  moreover have "owners_ok ?now k'"
  proof -
    have owned: "owner_at k key = Some (owner_of ?i l)" if "key \<in> tl_write_keys l" for key
      using live time that by (intro live_lease_owns [OF inv(2) lease_i]) auto
    have "owners = fold (\<lambda>key m. case bm_get m key of None \<Rightarrow> m
        | Some held \<Rightarrow> bm_insert key (held\<lparr>wko_expires_at := hbr_expires_at r\<rparr>) m)
        (sorted_list_of_set (tl_write_keys l)) (lk_write_key_owners k)"
      using owners by (simp add: extend_owners_Ok_iff)
    then have owner': "owner_at k' key =
        (if key \<in> tl_write_keys l then Some (owner_of ?i l') else owner_at k key)" for key
      using keys owned by (simp add: k' bm_get_extend l' extended_lease_def owner_of_def)
    have l'_keys: "tl_write_keys l' = tl_write_keys l" by (simp add: l' extended_lease_def)
    have other: "wko_task_id held \<noteq> ?i" if "owner_at k key = Some held" "key \<notin> tl_write_keys l"
      for key held
      using owner_justified [OF inv(2) that(1)] that(2) lease_i by (metis option.inject)
    have lease': "lease k' j = (if j = ?i then Some l' else lease k j)" for j
      by (simp add: k')
    have "tl_claimed_at l' \<le> ?now" using claimed_before by (simp add: l' extended_lease_def)
    then show ?thesis
      using other owned
      by (intro owners_ok_switch [OF inv(2) time lease']) (auto simp: owner' l'_keys split: if_splits)
  qed
  ultimately show ?thesis ..
qed

section \<open>Completion, cancellation and failure\<close>

lemma require_active_owner_Ok_iff [result_iff]:
  "require_active_owner k i worker worker_role lease_id now = Ok l \<longleftrightarrow>
     (\<exists>task s. bm_get (lk_tasks k) i = Some task \<and> bm_get (lk_state k) i = Some s
       \<and> worker_role = task_assigned_role task \<and> worker_role \<noteq> Coordinator
       \<and> tes_status s = TaskRunning \<and> tes_current_lease s = Some l
       \<and> tl_worker_role l = worker_role \<and> tl_worker_id l = worker \<and> tl_lease_id l = lease_id
       \<and> now < tl_expires_at l)"
  by (auto simp: require_active_owner_def find_task_def result_iff not_le)

definition finish_task ::
    "task_id \<Rightarrow> task_execution_snapshot \<Rightarrow> lifecycle_kernel \<Rightarrow> lifecycle_kernel" where
  "finish_task i s k =
    (let k' = release_current_lease i k in k'\<lparr>lk_state := bm_insert i s (lk_state k')\<rparr>)"

lemma release_current_lease_eq:
  assumes "bm_get (lk_state k) i = Some s" and "tes_current_lease s = Some l"
  shows "release_current_lease i k =
    k\<lparr>lk_state := bm_insert i (s\<lparr>tes_current_lease := None\<rparr>) (lk_state k),
      lk_write_key_owners := bm_retain (\<lambda>(key, owner). key \<notin> tl_write_keys l
          \<or> wko_task_id owner \<noteq> i \<or> wko_lease_id owner \<noteq> tl_lease_id l)
        (lk_write_key_owners k)\<rparr>"
  using assms by (simp add: release_current_lease_def)

lemma finish_task_eq:
  assumes "bm_get (lk_state k) i = Some s" and "tes_current_lease s = Some l"
  shows "finish_task i s' k =
    k\<lparr>lk_state := bm_insert i s' (lk_state k),
      lk_write_key_owners := bm_retain (\<lambda>(key, owner). key \<notin> tl_write_keys l
          \<or> wko_task_id owner \<noteq> i \<or> wko_lease_id owner \<noteq> tl_lease_id l)
        (lk_write_key_owners k)\<rparr>"
  by (simp add: finish_task_def release_current_lease_eq [OF assms])

lemma finish_preserves:
  assumes inv: "kernel_ok k" "owners_ok T k" and time: "T \<le> T'"
    and task: "bm_get (lk_tasks k) i = Some task"
    and s: "bm_get (lk_state k) i = Some s" "tes_current_lease s = Some l"
    and s': "state_ok k i task s'" "tes_current_lease s' = None"
  shows "kernel_ok (finish_task i s' k) \<and> owners_ok T' (finish_task i s' k)"
proof
  show "kernel_ok (finish_task i s' k)"
    unfolding finish_task_eq [OF s] by (rule kernel_ok_update [OF inv(1) task s'(1)])
  have lease_i: "lease k i = Some l" using s by (simp add: lease_def)
  have lease': "lease (finish_task i s' k) j = (if j = i then None else lease k j)" for j
    using s'(2) by (simp add: finish_task_eq [OF s])
  have mine: "key \<in> tl_write_keys l \<and> wko_lease_id held = tl_lease_id l"
    if "owner_at k key = Some held" "wko_task_id held = i" for key held
    using owner_justified [OF inv(2) that(1)] that(2) lease_i
    by (metis option.inject owner_of_simps(2))
  show "owners_ok T' (finish_task i s' k)"
    by (rule owners_ok_switch [OF inv(2) time lease'])
      (use mine in \<open>auto simp: finish_task_eq [OF s]\<close>)
qed

definition ended_state ::
    "task_terminal_outcome \<Rightarrow> task_terminal_record \<Rightarrow> task_execution_snapshot \<Rightarrow>
     task_execution_snapshot" where
  "ended_state outcome r s = s\<lparr>tes_current_lease := None, tes_status := terminal_status outcome,
     tes_terminal_record := Some r\<rparr>"

definition ended_record ::
    "lifecycle_kernel \<Rightarrow> task_id \<Rightarrow> worker_id \<Rightarrow> lease_id \<Rightarrow> idempotency_key \<Rightarrow>
     task_terminal_outcome \<Rightarrow> timestamp \<Rightarrow> string option \<Rightarrow> task_terminal_record" where
  "ended_record k i worker lease_id key outcome now reason =
    \<lparr>tr_contract_version = 1, tr_run_id = lk_run_id k, tr_task_id = i, tr_worker_id = worker,
     tr_lease_id = lease_id, tr_idempotency_key = key, tr_outcome = outcome,
     tr_occurred_at = now, tr_reason = reason\<rparr>"

text \<open>A terminal operation either repeats a recorded end or ends a task whose lease is live.\<close>

lemma apply_terminal_Ok:
  assumes "apply_terminal i worker worker_role lease_id key now outcome reason k = Ok (r, k')"
  obtains (retry) task s where "bm_get (lk_tasks k) i = Some task"
      "bm_get (lk_state k) i = Some s" "worker_role = task_assigned_role task"
      "tes_terminal_record s = Some r" "tr_idempotency_key r = key" "tr_outcome r = outcome"
      "tr_worker_id r = worker" "tr_lease_id r = lease_id" "k' = k"
  | (ended) task s l where "bm_get (lk_tasks k) i = Some task"
      "bm_get (lk_state k) i = Some s" "tes_terminal_record s = None"
      "worker_role = task_assigned_role task"
      "tes_status s = TaskRunning" "tes_current_lease s = Some l" "now < tl_expires_at l"
      "tl_worker_id l = worker" "tl_lease_id l = lease_id"
      "r = ended_record k i worker lease_id key outcome now reason"
      "k' = finish_task i (ended_state outcome r s) k"
proof -
  from assms obtain task s where *: "bm_get (lk_tasks k) i = Some task"
    "bm_get (lk_state k) i = Some s" "worker_role = task_assigned_role task"
    by (auto simp: apply_terminal_def find_task_def result_iff)
  show ?thesis
  proof (cases "tes_terminal_record s")
    case (Some existing)
    then show ?thesis
      using assms * by (intro retry [OF *]) (auto simp: apply_terminal_def find_task_def
          validate_worker_role_def result_iff split: if_splits)
  next
    case None
    then obtain l where l: "tes_current_lease s = Some l" "tes_status s = TaskRunning"
      "now < tl_expires_at l" "tl_worker_id l = worker" "tl_lease_id l = lease_id"
      using assms * by (auto simp: apply_terminal_def find_task_def result_iff)
    show ?thesis
      by (rule ended [OF *(1,2) None *(3) l(2,1,3-5)])
        (use assms * None l in \<open>auto simp: apply_terminal_def find_task_def result_iff Let_def
          ended_record_def ended_state_def finish_task_def release_current_lease_eq\<close>)
  qed
qed

lemma ended_state_ok:
  assumes ok: "state_ok k i task s" and running: "tes_status s = TaskRunning"
  shows "state_ok k i task
    (ended_state outcome (ended_record k i worker lease_id key outcome now reason) s)"
  using assms by (cases outcome) (auto simp: state_ok_def ended_state_def ended_record_def
      attempts_ok_def expected_outcome_def record_for_def word_one_le_iff)

lemma terminal_preserves:
  assumes inv: "kernel_ok k" "owners_ok T k" and time: "T \<le> now"
    and run: "apply_terminal i worker worker_role lease_id key now outcome reason k = Ok (r, k')"
  shows "kernel_ok k' \<and> owners_ok now k'"
  using run
proof (cases rule: apply_terminal_Ok)
  case retry
  then show ?thesis using inv owners_ok_later [OF inv(2) time] by simp
next
  case (ended task s l)
  have "state_ok k i task s" using inv(1) ended(1,2) by (auto simp: kernel_ok_def)
  then have "state_ok k i task (ended_state outcome r s)"
    unfolding ended(10) using ended(5) by (rule ended_state_ok)
  then show ?thesis
    unfolding ended(11) using finish_preserves [OF inv time ended(1,2,6)] by (simp add: ended_state_def)
qed

definition failed_state :: "u32 \<Rightarrow> string \<Rightarrow> task_execution_snapshot \<Rightarrow> task_execution_snapshot" where
  "failed_state max_attempts reason s = s\<lparr>tes_current_lease := None,
     tes_last_failure_reason := Some reason,
     tes_status := (if tes_attempts s \<ge> max_attempts then TaskFailed else TaskReady)\<rparr>"

lemma apply_failure_Ok:
  assumes "apply_failure r k = Ok (status, k')"
  obtains task s l where "bm_get (lk_tasks k) (flr_task_id r) = Some task"
    "bm_get (lk_state k) (flr_task_id r) = Some s"
    "flr_worker_role r = task_assigned_role task"
    "tes_status s = TaskRunning" "tes_current_lease s = Some l"
    "tl_worker_id l = flr_worker_id r" "tl_lease_id l = flr_lease_id r"
    "flr_now r < tl_expires_at l"
    "status = (if tes_attempts s \<ge> max_attempts_of k then TaskFailed else TaskReady)"
    "k' = finish_task (flr_task_id r) (failed_state (max_attempts_of k) (flr_reason r) s) k"
proof -
  let ?i = "flr_task_id r"
  from assms obtain task s l where *: "bm_get (lk_tasks k) ?i = Some task"
    "bm_get (lk_state k) ?i = Some s" "flr_worker_role r = task_assigned_role task"
    "tes_status s = TaskRunning" "tes_current_lease s = Some l"
    "tl_worker_id l = flr_worker_id r" "tl_lease_id l = flr_lease_id r"
    "flr_now r < tl_expires_at l"
    unfolding apply_failure_def Let_def by (auto simp: result_iff)
  show ?thesis
    by (rule that [OF *])
      (use assms * in \<open>auto simp: apply_failure_def Let_def result_iff failed_state_def
        finish_task_def release_current_lease_eq\<close>)
qed

lemma failure_preserves:
  assumes inv: "kernel_ok k" "owners_ok T k" and time: "T \<le> flr_now r"
    and run: "apply_failure r k = Ok (status, k')"
  shows "kernel_ok k' \<and> owners_ok (flr_now r) k'"
proof -
  let ?i = "flr_task_id r"
  from run obtain task s l where task: "bm_get (lk_tasks k) ?i = Some task"
    and s: "bm_get (lk_state k) ?i = Some s" "tes_current_lease s = Some l"
    and running: "tes_status s = TaskRunning"
    and k': "k' = finish_task ?i (failed_state (max_attempts_of k) (flr_reason r) s) k"
    by (rule apply_failure_Ok) blast
  have "state_ok k ?i task s" using inv(1) task s(1) by (auto simp: kernel_ok_def)
  then have "state_ok k ?i task (failed_state (max_attempts_of k) (flr_reason r) s)"
    using running s by (auto simp: state_ok_def failed_state_def attempts_ok_def expected_outcome_def
        word_one_le_iff not_le)
  then show ?thesis
    unfolding k' using finish_preserves [OF inv time task s] by (simp add: failed_state_def)
qed

section \<open>Runs\<close>

lemma new_kernel_Ok:
  assumes "new_kernel run_id tasks budget = Ok k"
  shows "k = \<lparr>lk_run_id = run_id, lk_goal_id = goal_of_tasks (tasks_by_id tasks),
      lk_retry_budget = budget, lk_tasks = tasks_by_id tasks,
      lk_state = bm_map initial_execution (tasks_by_id tasks), lk_write_key_owners = bm_empty\<rparr>"
    and "rb_max_attempts budget \<noteq> 0"
    and "bm_get (tasks_by_id tasks) i = Some task \<Longrightarrow>
      task_status_of task \<in> {TaskPending, TaskReady}
      \<and> set (task_dependencies task) \<subseteq> set (bm_keys (tasks_by_id tasks))"
proof -
  show "k = \<lparr>lk_run_id = run_id, lk_goal_id = goal_of_tasks (tasks_by_id tasks),
      lk_retry_budget = budget, lk_tasks = tasks_by_id tasks,
      lk_state = bm_map initial_execution (tasks_by_id tasks), lk_write_key_owners = bm_empty\<rparr>"
    and "rb_max_attempts budget \<noteq> 0"
    using assms by (auto simp: new_kernel_def Let_def result_iff)
  assume "bm_get (tasks_by_id tasks) i = Some task"
  then have entry: "(i, task) \<in> set (bm_entries (tasks_by_id tasks))"
    by (simp add: bm_entries_iff)
  have "check_task_definition (i, task) = Ok ()"
    "check_known_dependencies (tasks_by_id tasks) (i, task) = Ok ()"
    using assms entry by (auto simp: new_kernel_def Let_def result_iff)
  then show "task_status_of task \<in> {TaskPending, TaskReady}
      \<and> set (task_dependencies task) \<subseteq> set (bm_keys (tasks_by_id tasks))"
    by (auto simp: check_task_definition_def check_known_dependencies_def result_iff
        bm_contains_iff)
qed

lemma new_kernel_invariant:
  assumes "new_kernel run_id tasks budget = Ok k"
  shows "kernel_ok k \<and> owners_ok T k"
proof -
  note k = new_kernel_Ok [OF assms]
  have state: "bm_get (lk_state k) i = map_option initial_execution (bm_get (lk_tasks k) i)" for i
    by (simp add: k(1))
  have "set (bm_keys (lk_state k)) = set (bm_keys (lk_tasks k))"
    by (auto simp: bm_keys_iff state)
  moreover have "set (task_dependencies task) \<subseteq> set (bm_keys (lk_tasks k))
      \<and> state_ok k i task (initial_execution task)"
    if "bm_get (lk_tasks k) i = Some task" for i task
    using that k(2) k(3) [of i task] unfolding k(1)
    by (auto simp: state_ok_def initial_execution_def attempts_ok_def expected_outcome_def
        word_gt_0)
  ultimately have "kernel_ok k" by (auto simp: kernel_ok_def state)
  moreover have "lease k i = None" for i
    by (cases "bm_get (lk_tasks k) i") (simp_all add: lease_def state initial_execution_def)
  then have "owners_ok T k" by (simp add: owners_ok_def k(1))
  ultimately show ?thesis ..
qed

datatype lifecycle_op =
    ClaimOp claim_request
  | HeartbeatOp heartbeat_request
  | CompleteOp completion_request
  | CancelOp cancellation_request
  | FailOp failure_request

primrec op_time :: "lifecycle_op \<Rightarrow> timestamp" where
  "op_time (ClaimOp r) = clr_now r"
| "op_time (HeartbeatOp r) = hbr_now r"
| "op_time (CompleteOp r) = cmr_occurred_at r"
| "op_time (CancelOp r) = cnr_occurred_at r"
| "op_time (FailOp r) = flr_now r"

definition forget :: "('a \<times> lifecycle_kernel) lifecycle \<Rightarrow> lifecycle_kernel lifecycle" where
  "forget outcome = and_then outcome (\<lambda>(_, k). Ok k)"

primrec apply_op :: "lifecycle_op \<Rightarrow> lifecycle_kernel \<Rightarrow> lifecycle_kernel lifecycle" where
  "apply_op (ClaimOp r) k = forget (apply_claim r k)"
| "apply_op (HeartbeatOp r) k = forget (apply_heartbeat r k)"
| "apply_op (CompleteOp r) k = forget (apply_completion r k)"
| "apply_op (CancelOp r) k = forget (apply_cancellation r k)"
| "apply_op (FailOp r) k = forget (apply_failure r k)"

text \<open>The kernel after a public operation, and whether that operation panics.\<close>

primrec operate :: "lifecycle_op \<Rightarrow> lifecycle_kernel \<Rightarrow> lifecycle_kernel" where
  "operate (ClaimOp r) k = snd (claim r k)"
| "operate (HeartbeatOp r) k = snd (heartbeat r k)"
| "operate (CompleteOp r) k = snd (complete r k)"
| "operate (CancelOp r) k = snd (cancel r k)"
| "operate (FailOp r) k = snd (fail r k)"

primrec op_panics :: "lifecycle_op \<Rightarrow> lifecycle_kernel \<Rightarrow> bool" where
  "op_panics (ClaimOp r) k = (fst (claim r k) = Panic)"
| "op_panics (HeartbeatOp r) k = (fst (heartbeat r k) = Panic)"
| "op_panics (CompleteOp r) k = (fst (complete r k) = Panic)"
| "op_panics (CancelOp r) k = (fst (cancel r k) = Panic)"
| "op_panics (FailOp r) k = (fst (fail r k) = Panic)"

lemma snd_commit: "snd (commit outcome k) = (case forget outcome of Ok k' \<Rightarrow> k' | _ \<Rightarrow> k)"
  by (cases outcome) (auto simp: commit_def forget_def)

lemma fst_commit_Panic: "fst (commit outcome k) = Panic \<longleftrightarrow> forget outcome = Panic"
  by (cases outcome) (auto simp: commit_def forget_def)

lemma operate_eq: "operate op k = (case apply_op op k of Ok k' \<Rightarrow> k' | _ \<Rightarrow> k)"
  by (cases op) (simp_all only: operate.simps apply_op.simps snd_commit claim_def heartbeat_def
      complete_def cancel_def fail_def)

lemma operate_cases:
  obtains (applied) k' where "apply_op op k = Ok k'" "operate op k = k'"
  | (refused) "operate op k = k"
  by (cases "apply_op op k") (simp_all add: operate_eq)

lemma op_panics_iff: "op_panics op k \<longleftrightarrow> apply_op op k = Panic"
  by (cases op) (simp_all add: fst_commit_Panic claim_def heartbeat_def complete_def cancel_def
      fail_def)

lemma apply_op_preserves:
  assumes inv: "kernel_ok k" "owners_ok T k" and time: "T \<le> op_time op"
    and run: "apply_op op k = Ok k'"
  shows "kernel_ok k' \<and> owners_ok (op_time op) k'"
  using time run claim_preserves [OF inv] heartbeat_preserves [OF inv]
    terminal_preserves [OF inv] failure_preserves [OF inv]
  by (cases op) (auto simp: forget_def result_iff apply_completion_def apply_cancellation_def
      split: prod.splits)

inductive reachable ::
    "run_id \<Rightarrow> task list \<Rightarrow> retry_budget \<Rightarrow> timestamp \<Rightarrow> lifecycle_kernel \<Rightarrow> bool"
  for run_id tasks budget where
  started: "new_kernel run_id tasks budget = Ok k \<Longrightarrow> reachable run_id tasks budget T k"
| operated: "reachable run_id tasks budget T k \<Longrightarrow> T \<le> op_time op \<Longrightarrow>
    reachable run_id tasks budget (op_time op) (operate op k)"

lemma reachable_invariant:
  "reachable run_id tasks budget T k \<Longrightarrow> kernel_ok k \<and> owners_ok T k"
proof (induction rule: reachable.induct)
  case (started k T)
  then show ?case by (rule new_kernel_invariant)
next
  case (operated T k op)
  then show ?case
    by (cases op k rule: operate_cases) (auto dest: apply_op_preserves intro: owners_ok_later)
qed

lemma frame_release [simp]:
  "lk_run_id (release_current_lease i k) = lk_run_id k"
  "lk_goal_id (release_current_lease i k) = lk_goal_id k"
  "lk_retry_budget (release_current_lease i k) = lk_retry_budget k"
  "lk_tasks (release_current_lease i k) = lk_tasks k"
  by (simp_all add: release_current_lease_def split: option.splits)

lemma frame_finish [simp]:
  "lk_run_id (finish_task i s k) = lk_run_id k"
  "lk_goal_id (finish_task i s k) = lk_goal_id k"
  "lk_retry_budget (finish_task i s k) = lk_retry_budget k"
  "lk_tasks (finish_task i s k) = lk_tasks k"
  by (simp_all add: finish_task_def Let_def)

definition same_run :: "lifecycle_kernel \<Rightarrow> lifecycle_kernel \<Rightarrow> bool" where
  "same_run k k' \<longleftrightarrow> lk_run_id k' = lk_run_id k \<and> lk_goal_id k' = lk_goal_id k
     \<and> lk_retry_budget k' = lk_retry_budget k \<and> lk_tasks k' = lk_tasks k"

lemma claim_same_run: "apply_claim r k = Ok (l, k') \<Longrightarrow> same_run k k'"
  by (erule apply_claim_Ok) (simp add: same_run_def)

lemma heartbeat_same_run: "apply_heartbeat r k = Ok (l, k') \<Longrightarrow> same_run k k'"
  by (erule apply_heartbeat_Ok) (simp add: same_run_def)

lemma terminal_same_run:
  "apply_terminal i w ro l key now outcome reason k = Ok (r, k') \<Longrightarrow> same_run k k'"
  by (erule apply_terminal_Ok) (simp_all add: same_run_def)

lemma failure_same_run: "apply_failure r k = Ok (st, k') \<Longrightarrow> same_run k k'"
  by (erule apply_failure_Ok) (simp add: same_run_def)

lemma apply_op_same_run: "apply_op op k = Ok k' \<Longrightarrow> same_run k k'"
  by (cases op) (auto simp: forget_def result_iff apply_completion_def apply_cancellation_def
      dest: claim_same_run heartbeat_same_run terminal_same_run failure_same_run split: prod.splits)

lemma operate_same_run: "same_run k (operate op k)"
  by (cases op k rule: operate_cases) (auto dest: apply_op_same_run simp: same_run_def)

lemma reachable_run:
  "reachable run_id tasks budget T k \<Longrightarrow> \<exists>k0. new_kernel run_id tasks budget = Ok k0 \<and> same_run k0 k"
proof (induction rule: reachable.induct)
  case (started k T)
  then show ?case by (auto simp: same_run_def)
next
  case (operated T k op)
  then show ?case using operate_same_run [of k op] by (auto simp: same_run_def)
qed

lemma reachable_max_attempts: "reachable run_id tasks budget T k \<Longrightarrow> lk_retry_budget k = budget"
  by (auto dest!: reachable_run new_kernel_Ok(1) simp: same_run_def)

end
