(* ===== verification/Lifecycle_Behaviour.thy ===== *)
theory Lifecycle_Behaviour
  imports Lifecycle_Safety
begin

text \<open>
  What follows from the lease kernel's invariant: no operation panics, a snapshot restores
  exactly when every lease owns its keys, tasks move along a small state machine and never
  start before their dependencies are completed.
\<close>

section \<open>Freedom from panics\<close>

lemma require_active_owner_no_Panic:
  assumes "bm_get (lk_state k) i = Some s"
  shows "require_active_owner k i worker worker_role lease_id now \<noteq> Panic"
  using assms by (auto simp: require_active_owner_def find_task_def and_then_Panic_iff
      expect_Panic_iff validate_worker_role_def)

lemma finish_state: "bm_get (lk_state (finish_task i s k)) i = Some s"
  by (simp add: finish_task_def Let_def)

lemma release_state:
  "bm_get (lk_state k) i = Some s \<Longrightarrow> \<exists>s'. bm_get (lk_state (release_current_lease i k)) i = Some s'"
  by (auto simp: release_current_lease_def split: option.splits)

lemma check_claimable_no_Panic [simp]: "check_claimable i s now \<noteq> Panic"
  by (auto simp: check_claimable_def split: task_status.splits option.splits)

lemma check_write_key_no_Panic [simp]: "check_write_key k i now key \<noteq> Panic"
  by (auto simp: check_write_key_def split: option.splits)

lemma validate_worker_role_no_Panic [simp]: "validate_worker_role i expected actual \<noteq> Panic"
  by (simp add: validate_worker_role_def)

lemma word_max_unique: "(x :: u32) \<le> y \<Longrightarrow> y \<noteq> - 1 \<Longrightarrow> x \<noteq> - 1"
  using word_order.extremum_unique [of y] by auto

lemma claim_no_Panic:
  assumes inv: "kernel_ok k" and budget: "max_attempts_of k \<noteq> - 1"
  shows "apply_claim r k \<noteq> Panic"
proof (cases "bm_get (lk_tasks k) (clr_task_id r)")
  case None
  then show ?thesis by (simp add: apply_claim_def find_task_def Let_def)
next
  let ?i = "clr_task_id r"
  case (Some task)
  from inv Some obtain s where s: "bm_get (lk_state k) ?i = Some s" and ok: "state_ok k ?i task s"
    by (rule state_of_task)
  have tries: "tes_attempts s \<noteq> - 1"
  proof (rule word_max_unique [OF _ budget])
    show "tes_attempts s \<le> max_attempts_of k" using ok by (simp add: state_ok_def attempts_ok_def)
  qed
  have known: "bm_get (lk_state k) d \<noteq> None" if "d \<in> set (task_dependencies task)" for d
  proof -
    have "d \<in> set (bm_keys (lk_state k))" using inv that Some by (auto simp: kernel_ok_def)
    then show ?thesis by (auto simp: bm_keys_iff)
  qed
  have deps: "checks (map (check_dependency_completed k ?i) (task_dependencies task)) \<noteq> Panic"
    by (intro checks_no_Panic) (auto simp: check_dependency_completed_def and_then_Panic_iff
        expect_Panic_iff dest: known)
  have keys: "checks (map (check_write_key k ?i (clr_now r)) ks) \<noteq> Panic" for ks
    by (intro checks_no_Panic) auto
  show ?thesis
    using Some s tries deps keys
    by (auto simp: apply_claim_def find_task_def Let_def and_then_Panic_iff expect_Panic_iff)
qed

lemma heartbeat_no_Panic:
  assumes inv: "kernel_ok k" "owners_ok T k" and time: "T \<le> hbr_now r"
  shows "apply_heartbeat r k \<noteq> Panic"
proof (cases "bm_get (lk_tasks k) (hbr_task_id r)")
  case None
  then show ?thesis by (simp add: apply_heartbeat_def find_task_def Let_def)
next
  let ?i = "hbr_task_id r"
  case (Some task)
  from inv(1) Some obtain s where s: "bm_get (lk_state k) ?i = Some s"
    and ok: "state_ok k ?i task s"
    by (rule state_of_task)
  have owned: "try_fold (extend_owner e) (lk_write_key_owners k)
      (sorted_list_of_set (tl_write_keys l)) \<noteq> Panic"
    if l: "tes_current_lease s = Some l" and live: "hbr_now r < tl_expires_at l" for l e
  proof (rule extend_owners_no_Panic)
    have "finite (tl_write_keys l)" using ok l by (simp add: state_ok_def lease_ok_def)
    moreover have "lease k ?i = Some l" using s l by (simp add: lease_def)
    ultimately show "\<forall>key \<in> set (sorted_list_of_set (tl_write_keys l)). owner_at k key \<noteq> None"
      using live_lease_owns [OF inv(2)] live time by fastforce
  qed
  show ?thesis
    using Some s owned
    by (auto simp: apply_heartbeat_def find_task_def Let_def and_then_Panic_iff expect_Panic_iff
        result_iff not_le dest!: checks_no_Panic [rotated])
qed

lemma terminal_no_Panic:
  assumes inv: "kernel_ok k"
  shows "apply_terminal i worker worker_role lease_id key now outcome reason k \<noteq> Panic"
proof (cases "bm_get (lk_tasks k) i")
  case None
  then show ?thesis by (simp add: apply_terminal_def find_task_def)
next
  case (Some task)
  with inv obtain s where s: "bm_get (lk_state k) i = Some s"
    by (rule state_of_task)
  show ?thesis
    using Some s release_state [OF s] require_active_owner_no_Panic [OF s]
    by (auto simp: apply_terminal_def find_task_def Let_def and_then_Panic_iff expect_Panic_iff
        split: option.splits)
qed

lemma failure_no_Panic:
  assumes inv: "kernel_ok k"
  shows "apply_failure r k \<noteq> Panic"
proof (cases "bm_get (lk_tasks k) (flr_task_id r)")
  case None
  then show ?thesis by (simp add: apply_failure_def require_active_owner_def find_task_def Let_def)
next
  case (Some task)
  with inv obtain s where s: "bm_get (lk_state k) (flr_task_id r) = Some s"
    by (rule state_of_task)
  show ?thesis
    using Some s release_state [OF s] require_active_owner_no_Panic [OF s]
    by (auto simp: apply_failure_def Let_def and_then_Panic_iff expect_Panic_iff)
qed

lemma apply_op_no_Panic:
  assumes "kernel_ok k" "owners_ok T k" "T \<le> op_time op" "max_attempts_of k \<noteq> - 1"
  shows "apply_op op k \<noteq> Panic"
  using assms claim_no_Panic heartbeat_no_Panic terminal_no_Panic failure_no_Panic
  by (cases op) (auto simp: forget_def and_then_Panic_iff apply_completion_def
      apply_cancellation_def)

section \<open>Restoring a snapshot\<close>

definition lease_pairs :: "task_id \<times> task_execution_snapshot \<Rightarrow> (string \<times> write_key_owner) list" where
  "lease_pairs entry = (case tes_current_lease (snd entry) of
     None \<Rightarrow> []
   | Some l \<Rightarrow> map (\<lambda>key. (key, owner_of (fst entry) l)) (sorted_list_of_set (tl_write_keys l)))"

definition insert_fresh ::
    "(string, write_key_owner) btree_map \<Rightarrow> string \<times> write_key_owner \<Rightarrow>
     (restore_error, (string, write_key_owner) btree_map) result" where
  "insert_fresh owners pair = (case bm_get owners (fst pair) of
     Some first \<Rightarrow> Err (RS_DuplicateWriteKeyOwner (fst pair) (wko_task_id first)
       (wko_task_id (snd pair)))
   | None \<Rightarrow> Ok (bm_insert (fst pair) (snd pair) owners))"

lemma try_fold_insert_fresh:
  "try_fold insert_fresh m ps = Ok m' \<longleftrightarrow>
     distinct (map fst ps) \<and> (\<forall>p \<in> set ps. bm_get m (fst p) = None)
   \<and> m' = fold (\<lambda>(k, v) m. bm_insert k v m) ps m"
proof (induction ps arbitrary: m)
  case Nil
  then show ?case by auto
next
  case (Cons p ps)
  have "try_fold insert_fresh m (p # ps) = Ok m' \<longleftrightarrow> bm_get m (fst p) = None
      \<and> try_fold insert_fresh (bm_insert (fst p) (snd p) m) ps = Ok m'"
    by (auto simp: insert_fresh_def split: option.splits)
  also have "\<dots> \<longleftrightarrow> bm_get m (fst p) = None \<and> distinct (map fst ps)
      \<and> (\<forall>q \<in> set ps. fst q \<noteq> fst p \<and> bm_get m (fst q) = None)
      \<and> m' = fold (\<lambda>(k, v) m. bm_insert k v m) ps (bm_insert (fst p) (snd p) m)"
    unfolding Cons.IH by (auto split: if_splits)
  finally show ?case by (cases p) force
qed

lemma try_fold_map: "try_fold f m (map g xs) = try_fold (\<lambda>m x. f m (g x)) m xs"
  by (induction xs arbitrary: m) simp_all

lemma try_fold_concat: "try_fold f m (concat (map g xs)) = try_fold (\<lambda>m x. try_fold f m (g x)) m xs"
  by (induction xs arbitrary: m) (simp_all add: try_fold_append)

lemma try_fold_cong:
  "(\<And>m x. x \<in> set xs \<Longrightarrow> f m x = g m x) \<Longrightarrow> try_fold f m xs = try_fold g m xs"
proof (induction xs arbitrary: m)
  case (Cons x xs)
  then show ?case by (cases "g m x") simp_all
qed simp

lemma expect_owner_eq: "expect_owner i l owners key = insert_fresh owners (key, owner_of i l)"
  by (simp add: expect_owner_def insert_fresh_def owner_of_def split: option.splits)

lemma check_restored_state_Ok:
  assumes "state_ok k i task s"
  shows "check_restored_state (max_attempts_of k) i s = Ok ()"
proof -
  have "valid_attempts s (max_attempts_of k) = Ok True"
    using assms by (auto simp: valid_attempts_def state_ok_def attempts_ok_def
        split: task_status.splits)
  then show ?thesis
    using assms by (auto simp: check_restored_state_def state_ok_def attempts_ok_def result_iff not_less
        split: task_status.splits)
qed

lemma check_restored_lease_Ok:
  "lease_ok k i task tries l \<Longrightarrow> check_restored_lease k i task tries l = Ok ()"
  by (auto simp: check_restored_lease_def lease_ok_def Let_def result_iff not_less not_le)

lemma check_restored_terminal_Ok:
  "record_for k i tries r \<Longrightarrow> check_restored_terminal k i tries r = Ok ()"
  by (auto simp: check_restored_terminal_def record_for_def result_iff)

lemma restore_task_eq:
  assumes "bm_get (lk_tasks k) i = Some task" and "state_ok k i task s"
  shows "restore_task k owners (i, s) = try_fold insert_fresh owners (lease_pairs (i, s))"
proof -
  have "(case tes_terminal_record s of None \<Rightarrow> Ok ()
      | Some r \<Rightarrow> check_restored_terminal k i (tes_attempts s) r) = Ok ()"
    using assms(2) by (auto simp: state_ok_def check_restored_terminal_Ok split: option.splits)
  moreover have "check_restored_lease k i task (tes_attempts s) l = Ok ()"
    if "tes_current_lease s = Some l" for l
    using assms(2) that by (auto simp: state_ok_def intro: check_restored_lease_Ok)
  moreover have "and_then r Ok = r" for r :: "(restore_error, (string, write_key_owner) btree_map) result"
    by (cases r) simp_all
  ultimately show ?thesis
    using assms(1) by (auto simp: restore_task_def check_restored_state_Ok [OF assms(2)]
        lease_pairs_def try_fold_map expect_owner_eq [abs_def] split: option.splits)
qed

lemma same_run_state_ok: "same_run k k' \<Longrightarrow> state_ok k' i task s = state_ok k i task s"
  by (simp add: same_run_def state_ok_def lease_ok_def record_for_def)

lemma bm_keys_eqI: "set (bm_keys m) = set (bm_keys m') \<Longrightarrow> bm_keys m = bm_keys m'"
  by (metis bm_keys_sorted sorted_distinct_set_unique bm_keys_distinct strict_sorted_imp_sorted)

definition all_owned :: "lifecycle_kernel \<Rightarrow> bool" where
  "all_owned k \<longleftrightarrow> (\<forall>i l key. lease k i = Some l \<longrightarrow> key \<in> tl_write_keys l \<longrightarrow>
     owner_at k key = Some (owner_of i l))"

lemma restore_reachable:
  assumes "reachable run_id tasks budget T k"
  shows "restore run_id tasks budget (snapshot k) = Ok k' \<longleftrightarrow> k' = k
    \<and> try_fold insert_fresh bm_empty (concat (map lease_pairs (bm_entries (lk_state k))))
        = Ok (lk_write_key_owners k)"
proof -
  from assms obtain k0 where k0: "new_kernel run_id tasks budget = Ok k0" "same_run k0 k"
    using reachable_run by blast
  have inv: "kernel_ok k" using reachable_invariant [OF assms] ..
  have "try_fold (restore_task k0) bm_empty (bm_entries (lk_state k))
      = try_fold insert_fresh bm_empty (concat (map lease_pairs (bm_entries (lk_state k))))"
    unfolding try_fold_concat
  proof (rule try_fold_cong)
    fix m e assume entry: "e \<in> set (bm_entries (lk_state k))"
    obtain i s where e: "e = (i, s)" by fastforce
    then have s: "bm_get (lk_state k) i = Some s" using entry by (simp add: bm_entries_iff)
    from inv s obtain task where "bm_get (lk_tasks k) i = Some task" "state_ok k i task s"
      by (rule task_of_state)
    then show "restore_task k0 m e = try_fold insert_fresh m (lease_pairs e)"
      unfolding e using k0(2) by (intro restore_task_eq)
        (simp_all add: same_run_def same_run_state_ok [OF k0(2)])
  qed
  moreover have "bm_keys (lk_state k) = bm_keys (lk_tasks k0)"
    using inv k0(2) by (intro bm_keys_eqI) (simp add: kernel_ok_def same_run_def)
  moreover have "lk_run_id k = run_id" "lk_goal_id k = lk_goal_id k0" "lk_retry_budget k = budget"
    "lk_tasks k = lk_tasks k0"
    using k0 new_kernel_Ok(1) [OF k0(1)] by (simp_all add: same_run_def)
  moreover from this have "k0\<lparr>lk_state := lk_state k, lk_write_key_owners := lk_write_key_owners k\<rparr> = k"
    using new_kernel_Ok(1) [OF k0(1)] by simp
  ultimately show ?thesis
    unfolding restore_def k0(1) snapshot_def by (simp add: result_iff) blast
qed

lemma lease_pair_iff:
  "(key, owner) \<in> set (lease_pairs (i, s)) \<longleftrightarrow> (\<exists>l. tes_current_lease s = Some l
     \<and> key \<in> set (sorted_list_of_set (tl_write_keys l)) \<and> owner = owner_of i l)"
  by (cases "tes_current_lease s")
    (auto simp: lease_pairs_def simp del: sorted_list_of_set.set_sorted_key_list_of_set)

lemma lease_pairs_iff:
  assumes "kernel_ok k"
  shows "(key, owner) \<in> set (concat (map lease_pairs (bm_entries (lk_state k)))) \<longleftrightarrow>
    (\<exists>i l. lease k i = Some l \<and> key \<in> tl_write_keys l \<and> owner = owner_of i l)"
proof -
  have fin: "finite (tl_write_keys l)" if l: "lease k i = Some l" for i l
  proof -
    from l obtain s where s: "bm_get (lk_state k) i = Some s" "tes_current_lease s = Some l"
      by (auto simp: lease_Some_iff)
    from assms s(1) obtain task where "state_ok k i task s"
      by (rule task_of_state)
    then show ?thesis using s(2) by (simp add: state_ok_def lease_ok_def)
  qed
  have "(key, owner) \<in> set (concat (map lease_pairs (bm_entries (lk_state k)))) \<longleftrightarrow>
    (\<exists>i s. bm_get (lk_state k) i = Some s \<and> (key, owner) \<in> set (lease_pairs (i, s)))"
    unfolding bm_entries_iff [symmetric] by auto
  also have "\<dots> \<longleftrightarrow> (\<exists>i l. lease k i = Some l \<and> key \<in> set (sorted_list_of_set (tl_write_keys l))
      \<and> owner = owner_of i l)"
    unfolding lease_Some_iff lease_pair_iff by blast
  also have "\<dots> \<longleftrightarrow> (\<exists>i l. lease k i = Some l \<and> key \<in> tl_write_keys l \<and> owner = owner_of i l)"
    using fin by (metis set_sorted_list_of_set)
  finally show ?thesis .
qed

lemma lease_pairs_distinct: "distinct (concat (map lease_pairs (bm_entries (lk_state k))))"
proof -
  have "set (lease_pairs e) \<inter> set (lease_pairs e') = {}" if "fst e \<noteq> fst e'" for e e'
    using that by (auto simp: lease_pairs_def owner_of_def split: option.splits)
  moreover have "distinct (lease_pairs e)" for e
    by (auto simp: lease_pairs_def distinct_map intro: inj_onI split: option.splits)
  ultimately have "distinct (map fst es) \<Longrightarrow> distinct (concat (map lease_pairs es))" for es
    by (induction es) (fastforce simp: image_iff)+
  then show ?thesis by (simp add: bm_entries_distinct)
qed

lemma insert_fresh_collects:
  assumes "distinct ps"
  shows "try_fold insert_fresh bm_empty ps = Ok m \<longleftrightarrow>
    (\<forall>key owner. (key, owner) \<in> set ps \<longleftrightarrow> bm_get m key = Some owner)"
proof
  assume "try_fold insert_fresh bm_empty ps = Ok m"
  then have "distinct (map fst ps)" "m = bm_collect ps"
    by (simp_all add: try_fold_insert_fresh bm_collect_def)
  then show "\<forall>key owner. (key, owner) \<in> set ps \<longleftrightarrow> bm_get m key = Some owner"
    by (simp add: bm_get_collect_distinct)
next
  assume m: "\<forall>key owner. (key, owner) \<in> set ps \<longleftrightarrow> bm_get m key = Some owner"
  have "inj_on fst (set ps)"
    by (rule inj_onI) (clarsimp simp: m [rule_format])
  then have dist: "distinct (map fst ps)" using assms by (simp add: distinct_map)
  moreover from this have "m = bm_collect ps"
    by (intro bm_eqI_Some) (simp add: bm_get_collect_distinct m [rule_format])
  ultimately show "try_fold insert_fresh bm_empty ps = Ok m"
    by (simp add: try_fold_insert_fresh bm_collect_def)
qed

lemma restore_snapshot_iff:
  assumes "reachable run_id tasks budget T k"
  shows "restore run_id tasks budget (snapshot k) = Ok k' \<longleftrightarrow> k' = k \<and> all_owned k"
proof -
  have inv: "kernel_ok k" "owners_ok T k" using reachable_invariant [OF assms] by auto
  have "(\<forall>key owner. (\<exists>i l. lease k i = Some l \<and> key \<in> tl_write_keys l \<and> owner = owner_of i l)
      \<longleftrightarrow> owner_at k key = Some owner) \<longleftrightarrow> all_owned k"
  proof
    assume owned: "all_owned k"
    show "\<forall>key owner. (\<exists>i l. lease k i = Some l \<and> key \<in> tl_write_keys l \<and> owner = owner_of i l)
      \<longleftrightarrow> owner_at k key = Some owner"
    proof (intro allI iffI)
      fix key owner assume "owner_at k key = Some owner"
      then show "\<exists>i l. lease k i = Some l \<and> key \<in> tl_write_keys l \<and> owner = owner_of i l"
        by (rule owner_justified [OF inv(2)]) blast
    qed (use owned in \<open>auto simp: all_owned_def\<close>)
  qed (auto simp: all_owned_def)
  then show ?thesis
    unfolding restore_reachable [OF assms] insert_fresh_collects [OF lease_pairs_distinct]
      lease_pairs_iff [OF inv(1)] by simp
qed

section \<open>The task state machine\<close>

text \<open>The life of one task, without leases, owners or requests.\<close>

inductive task_step :: "u32 \<Rightarrow> task_status \<times> u32 \<Rightarrow> task_status \<times> u32 \<Rightarrow> bool" for limit where
  claimed: "status \<in> {TaskPending, TaskReady, TaskRunning} \<Longrightarrow> tries < limit \<Longrightarrow>
    task_step limit (status, tries) (TaskRunning, tries + 1)"
| ended: "status \<in> {TaskCompleted, TaskCancelled} \<Longrightarrow>
    task_step limit (TaskRunning, tries) (status, tries)"
| retried: "tries < limit \<Longrightarrow> task_step limit (TaskRunning, tries) (TaskReady, tries)"
| gave_up: "tries = limit \<Longrightarrow> task_step limit (TaskRunning, tries) (TaskFailed, tries)"

inductive_simps task_step_from_ended [simp]:
  "task_step limit (TaskCompleted, tries) x"
  "task_step limit (TaskCancelled, tries) x"
  "task_step limit (TaskFailed, tries) x"

primrec op_task :: "lifecycle_op \<Rightarrow> task_id" where
  "op_task (ClaimOp r) = clr_task_id r"
| "op_task (HeartbeatOp r) = hbr_task_id r"
| "op_task (CompleteOp r) = cmr_task_id r"
| "op_task (CancelOp r) = cnr_task_id r"
| "op_task (FailOp r) = flr_task_id r"

definition progress :: "task_execution_snapshot \<Rightarrow> task_status \<times> u32" where
  "progress s = (tes_status s, tes_attempts s)"

abbreviation state_at :: "lifecycle_kernel \<Rightarrow> task_id \<Rightarrow> task_execution_snapshot option" where
  "state_at k i \<equiv> bm_get (lk_state k) i"

lemma finish_other: "j \<noteq> i \<Longrightarrow> state_at (finish_task i s k) j = state_at k j"
  by (simp add: finish_task_def release_current_lease_def Let_def split: option.splits)

lemma terminal_other:
  "apply_terminal i w ro l key now outcome reason k = Ok (r, k') \<Longrightarrow> j \<noteq> i \<Longrightarrow>
   state_at k' j = state_at k j"
  by (erule apply_terminal_Ok) (simp_all add: finish_other)

lemma apply_op_other:
  "apply_op op k = Ok k' \<Longrightarrow> j \<noteq> op_task op \<Longrightarrow> state_at k' j = state_at k j"
  by (cases op) (auto simp: forget_def result_iff apply_completion_def apply_cancellation_def
      finish_other dest: terminal_other elim!: apply_claim_Ok apply_heartbeat_Ok apply_failure_Ok
      split: prod.splits)

lemma word_succ_le_less: "(x :: u32) \<noteq> - 1 \<Longrightarrow> x + 1 \<le> y \<Longrightarrow> x < y"
  using word_succ_nonzero [of x] by (simp add: word_le_nat_alt word_less_nat_alt unatSuc add.commute [of x])

lemma claim_step:
  assumes "apply_claim r k = Ok (l, k')" and "state_at k (clr_task_id r) = Some s"
  shows "\<exists>s'. state_at k' (clr_task_id r) = Some s' \<and>
    task_step (max_attempts_of k) (progress s) (progress s')"
  using assms(1)
proof (rule apply_claim_Ok)
  fix task t assume *: "state_at k (clr_task_id r) = Some t"
    "check_claimable (clr_task_id r) t (clr_now r) = Ok ()" "tes_attempts t \<noteq> - 1"
    "tes_attempts t + 1 \<le> max_attempts_of k"
    "k' = k\<lparr>lk_write_key_owners := own_keys (owner_of (clr_task_id r) l)
              (ordered_set (task_write_keys task))
              (bm_retain (\<lambda>(_, held). wko_expires_at held > clr_now r) (lk_write_key_owners k)),
            lk_state := bm_insert (clr_task_id r) (claimed_state l t) (lk_state k)\<rparr>"
  have "task_step (max_attempts_of k) (tes_status t, tes_attempts t) (TaskRunning, tes_attempts t + 1)"
    using * word_succ_le_less by (intro task_step.claimed) (auto simp: result_iff)
  then show ?thesis
    using * assms(2) by (simp add: progress_def claimed_state_def)
qed

lemma heartbeat_step:
  "apply_heartbeat r k = Ok (l, k') \<Longrightarrow> state_at k (hbr_task_id r) = Some s \<Longrightarrow>
   \<exists>s'. state_at k' (hbr_task_id r) = Some s' \<and> progress s' = progress s"
  by (erule apply_heartbeat_Ok) (simp add: progress_def)

lemma terminal_step:
  "apply_terminal i w ro l key now outcome reason k = Ok (r, k') \<Longrightarrow> state_at k i = Some s \<Longrightarrow>
   \<exists>s'. state_at k' i = Some s' \<and> (s' = s \<or> task_step (max_attempts_of k) (progress s) (progress s'))"
  by (erule apply_terminal_Ok; cases outcome)
    (auto simp: finish_state progress_def ended_state_def intro: task_step.ended)

lemma failure_step:
  assumes "apply_failure r k = Ok (status, k')" and "state_at k (flr_task_id r) = Some s"
    and "tes_attempts s \<le> max_attempts_of k"
  shows "\<exists>s'. state_at k' (flr_task_id r) = Some s'
    \<and> task_step (max_attempts_of k) (progress s) (progress s')"
  using assms by (elim apply_failure_Ok)
    (auto simp: finish_state progress_def failed_state_def not_le intro: task_step.intros)

lemma apply_op_progress:
  assumes inv: "kernel_ok k" and run: "apply_op op k = Ok k'" and s: "state_at k i = Some s"
  shows "\<exists>s'. state_at k' i = Some s' \<and>
    (progress s' = progress s \<or> i = op_task op \<and> task_step (max_attempts_of k) (progress s) (progress s'))"
proof (cases "i = op_task op")
  case False
  then show ?thesis using apply_op_other [OF run] s by simp
next
  case True
  from inv s obtain task where "state_ok k i task s" by (rule task_of_state)
  then have "tes_attempts s \<le> max_attempts_of k" by (simp add: state_ok_def attempts_ok_def)
  then show ?thesis
    using run s True
    by (cases op) (auto simp: forget_def result_iff apply_completion_def apply_cancellation_def
        dest!: claim_step heartbeat_step terminal_step failure_step split: prod.splits)
qed

text \<open>A task that is completed, cancelled or failed never changes.\<close>

lemma forget_Ok_iff: "forget outcome = Ok k' \<longleftrightarrow> (\<exists>a. outcome = Ok (a, k'))"
  by (cases outcome) (auto simp: forget_def)

lemma claim_accepts:
  "apply_claim r k = Ok (l, k') \<Longrightarrow> state_at k (clr_task_id r) = Some s \<Longrightarrow>
   tes_status s \<in> {TaskPending, TaskReady, TaskRunning}"
  by (erule apply_claim_Ok) (auto simp: result_iff)

lemma heartbeat_accepts:
  "apply_heartbeat r k = Ok (l, k') \<Longrightarrow> state_at k (hbr_task_id r) = Some s \<Longrightarrow>
   tes_current_lease s \<noteq> None"
  by (erule apply_heartbeat_Ok) simp

lemma failure_accepts:
  "apply_failure r k = Ok (st, k') \<Longrightarrow> state_at k (flr_task_id r) = Some s \<Longrightarrow>
   tes_status s = TaskRunning"
  by (erule apply_failure_Ok) simp

lemma terminal_accepts:
  "apply_terminal i w ro l key now outcome reason k = Ok (r, k') \<Longrightarrow> state_at k i = Some s \<Longrightarrow>
   tes_status s = TaskRunning \<or> k' = k"
  by (erule apply_terminal_Ok) simp_all

lemma apply_op_frozen:
  assumes inv: "kernel_ok k" and run: "apply_op op k = Ok k'" and s: "state_at k i = Some s"
    and over: "tes_status s \<in> {TaskCompleted, TaskCancelled, TaskFailed}"
  shows "state_at k' i = Some s"
proof (cases "i = op_task op")
  case False
  then show ?thesis using apply_op_other [OF run] s by simp
next
  case True
  from inv s obtain task where "state_ok k i task s" by (rule task_of_state)
  then have lease: "tes_current_lease s = None" using over by (auto simp: state_ok_def)
  have "k' = k"
  proof (cases op)
    case (ClaimOp r)
    then obtain l where "apply_claim r k = Ok (l, k')" using run by (auto simp: forget_Ok_iff)
    from claim_accepts [OF this] show ?thesis using s True over ClaimOp by auto
  next
    case (HeartbeatOp r)
    then obtain l where "apply_heartbeat r k = Ok (l, k')" using run by (auto simp: forget_Ok_iff)
    from heartbeat_accepts [OF this] show ?thesis using s True lease HeartbeatOp by auto
  next
    case (CompleteOp r)
    then obtain t where "apply_completion r k = Ok (t, k')" using run by (auto simp: forget_Ok_iff)
    then show ?thesis using s True over CompleteOp
      unfolding apply_completion_def by (auto dest: terminal_accepts)
  next
    case (CancelOp r)
    then obtain t where "apply_cancellation r k = Ok (t, k')" using run by (auto simp: forget_Ok_iff)
    then show ?thesis using s True over CancelOp
      unfolding apply_cancellation_def by (auto dest: terminal_accepts)
  next
    case (FailOp r)
    then obtain t where "apply_failure r k = Ok (t, k')" using run by (auto simp: forget_Ok_iff)
    from failure_accepts [OF this] show ?thesis using s True over FailOp by auto
  qed
  then show ?thesis using s by simp
qed

section \<open>Runs of the kernel\<close>

text \<open>A task that was ever claimed has all its dependencies completed.\<close>

definition started_after_dependencies :: "lifecycle_kernel \<Rightarrow> bool" where
  "started_after_dependencies k \<longleftrightarrow> (\<forall>i task s d. bm_get (lk_tasks k) i = Some task \<longrightarrow>
     state_at k i = Some s \<longrightarrow> tes_attempts s \<noteq> 0 \<longrightarrow> d \<in> set (task_dependencies task) \<longrightarrow>
     task_status_in k d = Some TaskCompleted)"

lemma completed_stays:
  assumes "kernel_ok k" and "apply_op op k = Ok k'" and "task_status_in k d = Some TaskCompleted"
  shows "task_status_in k' d = Some TaskCompleted"
proof -
  from assms(3) obtain s where s: "state_at k d = Some s" "tes_status s = TaskCompleted"
    by (auto simp: task_status_in_def)
  then have "state_at k' d = Some s"
    by (intro apply_op_frozen [OF assms(1,2)]) simp_all
  then show ?thesis using s(2) by (simp add: task_status_in_def)
qed

lemma terminal_attempts:
  "apply_terminal i w ro l key now outcome reason k = Ok (r, k') \<Longrightarrow> state_at k i = Some s \<Longrightarrow>
   state_at k' i = Some s' \<Longrightarrow> tes_attempts s' = tes_attempts s"
  by (erule apply_terminal_Ok) (auto simp: finish_state ended_state_def)

lemma attempts_grow_only_by_claims:
  assumes run: "apply_op op k = Ok k'" and i: "i = op_task op"
    and s: "state_at k i = Some s" "state_at k' i = Some s'"
  shows "tes_attempts s' = tes_attempts s \<or> (\<exists>r l. op = ClaimOp r \<and> apply_claim r k = Ok (l, k'))"
proof (cases op)
  case (ClaimOp r)
  then show ?thesis using run by (auto simp: forget_Ok_iff)
next
  case (HeartbeatOp r)
  then obtain l where "apply_heartbeat r k = Ok (l, k')" using run by (auto simp: forget_Ok_iff)
  from heartbeat_step [OF this] show ?thesis using HeartbeatOp s i by (auto simp: progress_def)
next
  case (CompleteOp r)
  then obtain t where "apply_completion r k = Ok (t, k')" using run by (auto simp: forget_Ok_iff)
  then show ?thesis using CompleteOp s i unfolding apply_completion_def
    by (auto dest: terminal_attempts)
next
  case (CancelOp r)
  then obtain t where "apply_cancellation r k = Ok (t, k')" using run by (auto simp: forget_Ok_iff)
  then show ?thesis using CancelOp s i unfolding apply_cancellation_def
    by (auto dest: terminal_attempts)
next
  case (FailOp r)
  then obtain t where "apply_failure r k = Ok (t, k')" using run by (auto simp: forget_Ok_iff)
  then show ?thesis using FailOp s i by (elim apply_failure_Ok) (auto simp: finish_state failed_state_def)
qed

lemma apply_op_dependencies:
  assumes inv: "kernel_ok k" and deps: "started_after_dependencies k" and run: "apply_op op k = Ok k'"
  shows "started_after_dependencies k'"
  unfolding started_after_dependencies_def
proof (intro allI impI)
  fix i task s' d
  assume "bm_get (lk_tasks k') i = Some task" and s': "state_at k' i = Some s'"
    and tried: "tes_attempts s' \<noteq> 0" and d: "d \<in> set (task_dependencies task)"
  then have task: "bm_get (lk_tasks k) i = Some task"
    using apply_op_same_run [OF run] by (simp add: same_run_def)
  from inv task obtain s where s: "state_at k i = Some s" by (rule state_of_task)
  note kept = completed_stays [OF inv run]
  have same: "task_status_in k' d = Some TaskCompleted" if "tes_attempts s' = tes_attempts s"
    using deps task s tried d that by (intro kept) (simp add: started_after_dependencies_def)
  show "task_status_in k' d = Some TaskCompleted"
  proof (cases "i = op_task op")
    case False
    then show ?thesis using apply_op_other [OF run False] s s' by (intro same) simp
  next
    case True
    from attempts_grow_only_by_claims [OF run True s s'] show ?thesis
    proof (elim disjE exE conjE)
      fix r l assume "op = ClaimOp r" "apply_claim r k = Ok (l, k')"
      then have "task_status_in k d = Some TaskCompleted"
        using True task d by (elim apply_claim_Ok) simp
      then show ?thesis by (rule kept)
    qed (rule same)
  qed
qed

lemma reachable_dependencies:
  "reachable run_id tasks budget T k \<Longrightarrow> started_after_dependencies k"
proof (induction rule: reachable.induct)
  case (started k T)
  then show ?case
    by (auto simp: started_after_dependencies_def initial_execution_def dest!: new_kernel_Ok(1))
next
  case (operated T k op)
  from operated(1) have "kernel_ok k" by (simp add: reachable_invariant)
  with operated show ?case
    by (cases op k rule: operate_cases) (auto dest: apply_op_dependencies)
qed

end
