(* ===== verification/Durable_Execution.thy ===== *)
theory Durable_Execution
  imports Versioned_State Lifecycle_Behaviour
begin

text \<open>
  The durable execution authority of \<open>ovca-runtime-core/src/sqlite_execution.rs\<close>: an
  execution run is one entity of the revisioned store, its payload an encoded envelope, and
  every lifecycle command is a load, the kernel operation and a compare-and-swap, retried
  on conflict. The byte encoding (\<open>serde_json\<close>) and the rules of the two projections that
  other modules own are the services \<open>S\<close>; other clients act through the environment.
\<close>

section \<open>Envelopes and errors\<close>

record ('ev, 'ir) execution_envelope =
  xe_contract_version :: contract_version
  xe_run_id :: run_id
  xe_tasks :: "(task_id, task) btree_map"
  xe_retry_budget :: retry_budget
  xe_snapshot :: lifecycle_snapshot
  xe_engineer_verifier :: "'ev option"
  xe_independent_review :: "'ir option"

record ('ev, 'ir) loaded_run =
  lr_envelope :: "('ev, 'ir) execution_envelope"
  lr_revision :: u64

record ('ev, 'ir) initialize_run_result =
  irr_state :: "('ev, 'ir) loaded_run"
  irr_initialized :: bool

record 'o command_result =
  cr_output :: 'o
  cr_snapshot :: lifecycle_snapshot
  cr_revision :: u64

datatype ('ev, 'ir) projection_outcome =
    ProjectionApplied "('ev, 'ir) loaded_run"
  | ProjectionUnchanged "('ev, 'ir) loaded_run"
  | ProjectionConflict "('ev, 'ir) loaded_run"

datatype ('x, 'y) state_corruption =
    XC_UnsupportedEnvelopeVersion contract_version contract_version
  | XC_EnvelopeRunMismatch run_id run_id
  | XC_EngineerVerifier 'x
  | XC_IndependentReview 'y
  | XC_EnvelopeProjectionVersionMismatch
  | XC_Lifecycle restore_error

datatype ('x, 'y) durable_error =
    DE_RunNotFound run_id
  | DE_DefinitionConflict run_id u64
  | DE_Lifecycle lifecycle_error
  | DE_EngineerVerifier 'x
  | DE_IndependentReview 'y
  | DE_Storage versioned_state_error
  | DE_Serialization
  | DE_CorruptState run_id "('x, 'y) state_corruption"
  | DE_ContentionExhausted run_id nat u64

text \<open>The rules of one projection: its own validation, its binding to the envelope, the
  successor and first-installation checks and its state digest.\<close>

record ('e, 'p, 'x) projection_rules =
  pr_validate :: "'p \<Rightarrow> ('x, unit) result"
  pr_binding :: "'e \<Rightarrow> 'p \<Rightarrow> ('x, unit) result"
  pr_successor :: "'p \<Rightarrow> 'p \<Rightarrow> ('x, unit) result"
  pr_initial :: "'p \<Rightarrow> ('x, unit) result"
  pr_digest :: "'p \<Rightarrow> string"

record ('ev, 'ir, 'x, 'y) execution_services =
  xs_encode :: "('ev, 'ir) execution_envelope \<Rightarrow> bytes option"
  xs_decode :: "bytes \<Rightarrow> ('ev, 'ir) execution_envelope option"
  xs_verifier :: "(('ev, 'ir) execution_envelope, 'ev, 'x) projection_rules"
  xs_review :: "(('ev, 'ir) execution_envelope, 'ir, 'y) projection_rules"

definition entity_key :: "run_id \<Rightarrow> string" where
  "entity_key run_id = ''execution_run:'' @ run_id"

definition same_definition ::
    "('ev, 'ir) execution_envelope \<Rightarrow> ('ev, 'ir) execution_envelope \<Rightarrow> bool" where
  "same_definition left right \<longleftrightarrow> xe_run_id left = xe_run_id right
     \<and> xe_tasks left = xe_tasks right \<and> xe_retry_budget left = xe_retry_budget right"

section \<open>Decoding and restoration\<close>

definition check_envelope ::
    "('ev, 'ir, 'x, 'y) execution_services \<Rightarrow> run_id \<Rightarrow> ('ev, 'ir) execution_envelope \<Rightarrow>
     (('x, 'y) state_corruption, unit) result" where
  "check_envelope S expected_run_id e = checks
    [require (xe_contract_version e = 1 \<or> xe_contract_version e = 2)
       (XC_UnsupportedEnvelopeVersion 2 (xe_contract_version e)),
     require (\<not> (xe_contract_version e = 1 \<and> xe_independent_review e \<noteq> None
         \<or> xe_contract_version e = 2 \<and> xe_independent_review e = None))
       XC_EnvelopeProjectionVersionMismatch,
     require (xe_run_id e = expected_run_id)
       (XC_EnvelopeRunMismatch expected_run_id (xe_run_id e)),
     (case xe_engineer_verifier e of
        None \<Rightarrow> Ok ()
      | Some p \<Rightarrow> map_err XC_EngineerVerifier
          (checks [pr_validate (xs_verifier S) p, pr_binding (xs_verifier S) e p])),
     (case xe_independent_review e of
        None \<Rightarrow> Ok ()
      | Some p \<Rightarrow> map_err XC_IndependentReview
          (checks [pr_validate (xs_review S) p, pr_binding (xs_review S) e p]))]"

definition restore_kernel ::
    "('ev, 'ir, 'x, 'y) execution_services \<Rightarrow> run_id \<Rightarrow> ('ev, 'ir) execution_envelope \<Rightarrow>
     (('x, 'y) durable_error, lifecycle_kernel) result" where
  "restore_kernel S expected_run_id e = map_err (DE_CorruptState expected_run_id)
    (and_then (check_envelope S expected_run_id e) (\<lambda>_.
     map_err XC_Lifecycle
       (restore (xe_run_id e) (map snd (bm_entries (xe_tasks e))) (xe_retry_budget e)
         (xe_snapshot e))))"

definition decode_and_restore ::
    "('ev, 'ir, 'x, 'y) execution_services \<Rightarrow> run_id \<Rightarrow> versioned_state \<Rightarrow>
     (('x, 'y) durable_error, ('ev, 'ir) loaded_run) result" where
  "decode_and_restore S expected_run_id state =
    and_then (ok_or (xs_decode S (vs_payload state)) DE_Serialization) (\<lambda>envelope.
    and_then (restore_kernel S expected_run_id envelope) (\<lambda>_.
    Ok \<lparr>lr_envelope = envelope, lr_revision = vs_revision state\<rparr>))"

section \<open>Operations\<close>

definition initial_envelope ::
    "run_id \<Rightarrow> task list \<Rightarrow> retry_budget \<Rightarrow> lifecycle_kernel \<Rightarrow> ('ev, 'ir) execution_envelope" where
  "initial_envelope run_id tasks retry_budget k =
    \<lparr>xe_contract_version = 1, xe_run_id = run_id, xe_tasks = tasks_by_id tasks,
     xe_retry_budget = retry_budget, xe_snapshot = snapshot k, xe_engineer_verifier = None,
     xe_independent_review = None\<rparr>"

definition finish_initialize ::
    "('ev, 'ir, 'x, 'y) execution_services \<Rightarrow> run_id \<Rightarrow> ('ev, 'ir) execution_envelope \<Rightarrow>
     initialize_outcome \<Rightarrow> (('x, 'y) durable_error, ('ev, 'ir) initialize_run_result) result" where
  "finish_initialize S run_id envelope outcome =
    (let (state, initialized) = (case outcome of
        Initialized state \<Rightarrow> (state, True) | Existing state \<Rightarrow> (state, False)) in
     and_then (decode_and_restore S run_id state) (\<lambda>loaded.
     and_then (require (same_definition (lr_envelope loaded) envelope)
       (DE_DefinitionConflict run_id (lr_revision loaded))) (\<lambda>_.
     Ok \<lparr>irr_state = loaded, irr_initialized = initialized\<rparr>)))"

definition initialize_run ::
    "('ev, 'ir, 'x, 'y) execution_services \<Rightarrow> environment \<Rightarrow> run_id \<Rightarrow> task list \<Rightarrow>
     retry_budget \<Rightarrow> database \<Rightarrow>
     (('x, 'y) durable_error, ('ev, 'ir) initialize_run_result) result \<times> database" where
  "initialize_run S env run_id tasks retry_budget db =
    (case and_then (map_err DE_Lifecycle (new_kernel run_id tasks retry_budget)) (\<lambda>k.
          let envelope = initial_envelope run_id tasks retry_budget k in
          and_then (restore_kernel S run_id envelope) (\<lambda>_.
          and_then (ok_or (xs_encode S envelope) DE_Serialization) (\<lambda>payload.
          Ok (envelope, payload)))) of
       Err e \<Rightarrow> (Err e, db)
     | Panic \<Rightarrow> (Panic, db)
     | Ok (envelope, payload) \<Rightarrow>
         (let (outcome, db') = initialize_call env 0 (entity_key run_id) payload db in
          (and_then (map_err DE_Storage outcome) (finish_initialize S run_id envelope), db')))"

definition load_run ::
    "('ev, 'ir, 'x, 'y) execution_services \<Rightarrow> environment \<Rightarrow> run_id \<Rightarrow> database \<Rightarrow>
     (('x, 'y) durable_error, ('ev, 'ir) loaded_run) result \<times> database" where
  "load_run S env run_id db =
    (let (found, db') = load_call env 0 (entity_key run_id) db in
     (and_then (map_err DE_Storage found) (\<lambda>found.
      and_then (ok_or found (DE_RunNotFound run_id)) (decode_and_restore S run_id)), db'))"

text \<open>One pass of the command loop up to its swap: nothing to write, or a payload to swap in.\<close>

datatype 'o prepared =
    Nothing_to_write "'o command_result"
  | To_swap 'o lifecycle_snapshot u64 bytes

definition prepare_command ::
    "('ev, 'ir, 'x, 'y) execution_services \<Rightarrow> run_id \<Rightarrow>
     (lifecycle_kernel \<Rightarrow> 'o lifecycle \<times> lifecycle_kernel) \<Rightarrow> versioned_state \<Rightarrow>
     (('x, 'y) durable_error, 'o prepared) result" where
  "prepare_command S run_id operation current =
    and_then (decode_and_restore S run_id current) (\<lambda>loaded.
    and_then (restore_kernel S run_id (lr_envelope loaded)) (\<lambda>k.
    let before = snapshot k; (outcome, k') = operation k in
    and_then (map_err DE_Lifecycle outcome) (\<lambda>output.
    let after = snapshot k' in
    if after = before
    then Ok (Nothing_to_write
      \<lparr>cr_output = output, cr_snapshot = after, cr_revision = lr_revision loaded\<rparr>)
    else
      let next_envelope = (lr_envelope loaded)\<lparr>xe_snapshot := after\<rparr> in
      and_then (restore_kernel S run_id next_envelope) (\<lambda>_.
      and_then (ok_or (xs_encode S next_envelope) DE_Serialization) (\<lambda>payload.
      Ok (To_swap output after (lr_revision loaded) payload))))))"

text \<open>\<open>left\<close> counts the conflicts that are still forgiven, out of \<open>limit\<close>.\<close>

fun apply_loop ::
    "('ev, 'ir, 'x, 'y) execution_services \<Rightarrow> environment \<Rightarrow> run_id \<Rightarrow>
     (lifecycle_kernel \<Rightarrow> 'o lifecycle \<times> lifecycle_kernel) \<Rightarrow> nat \<Rightarrow> nat \<Rightarrow> versioned_state \<Rightarrow>
     database \<Rightarrow> (('x, 'y) durable_error, 'o command_result) result \<times> database" where
  "apply_loop S env run_id operation limit left current db =
    (case prepare_command S run_id operation current of
       Err e \<Rightarrow> (Err e, db)
     | Panic \<Rightarrow> (Panic, db)
     | Ok (Nothing_to_write r) \<Rightarrow> (Ok r, db)
     | Ok (To_swap output after revision payload) \<Rightarrow>
         (case swap_call env (Suc (limit - left)) (entity_key run_id) revision payload db of
            (Ok (Applied state), db') \<Rightarrow>
              (Ok \<lparr>cr_output = output, cr_snapshot = after, cr_revision = vs_revision state\<rparr>, db')
          | (Ok (Conflict state), db') \<Rightarrow>
              (case left of
                 0 \<Rightarrow> (Err (DE_ContentionExhausted run_id limit (vs_revision state)), db')
               | Suc left' \<Rightarrow> apply_loop S env run_id operation limit left' state db')
          | (Err e, db') \<Rightarrow> (Err (DE_Storage e), db')
          | (Panic, db') \<Rightarrow> (Panic, db')))"

declare apply_loop.simps [simp del]

definition apply_command ::
    "('ev, 'ir, 'x, 'y) execution_services \<Rightarrow> environment \<Rightarrow> nat \<Rightarrow> run_id \<Rightarrow>
     (lifecycle_kernel \<Rightarrow> 'o lifecycle \<times> lifecycle_kernel) \<Rightarrow> database \<Rightarrow>
     (('x, 'y) durable_error, 'o command_result) result \<times> database" where
  "apply_command S env limit run_id operation db =
    (case load_call env 0 (entity_key run_id) db of
       (Ok (Some current), db') \<Rightarrow> apply_loop S env run_id operation limit limit current db'
     | (Ok None, db') \<Rightarrow> (Err (DE_RunNotFound run_id), db')
     | (Err e, db') \<Rightarrow> (Err (DE_Storage e), db')
     | (Panic, db') \<Rightarrow> (Panic, db'))"

definition durable_claim ::
    "('ev, 'ir, 'x, 'y) execution_services \<Rightarrow> environment \<Rightarrow> nat \<Rightarrow> run_id \<Rightarrow> claim_request \<Rightarrow>
     database \<Rightarrow> (('x, 'y) durable_error, task_lease command_result) result \<times> database" where
  "durable_claim S env limit run_id request = apply_command S env limit run_id (claim request)"

definition durable_heartbeat ::
    "('ev, 'ir, 'x, 'y) execution_services \<Rightarrow> environment \<Rightarrow> nat \<Rightarrow> run_id \<Rightarrow>
     heartbeat_request \<Rightarrow> database \<Rightarrow>
     (('x, 'y) durable_error, task_lease command_result) result \<times> database" where
  "durable_heartbeat S env limit run_id request =
    apply_command S env limit run_id (heartbeat request)"

definition durable_fail ::
    "('ev, 'ir, 'x, 'y) execution_services \<Rightarrow> environment \<Rightarrow> nat \<Rightarrow> run_id \<Rightarrow> failure_request \<Rightarrow>
     database \<Rightarrow> (('x, 'y) durable_error, task_status command_result) result \<times> database" where
  "durable_fail S env limit run_id request = apply_command S env limit run_id (fail request)"

definition durable_complete ::
    "('ev, 'ir, 'x, 'y) execution_services \<Rightarrow> environment \<Rightarrow> nat \<Rightarrow> run_id \<Rightarrow>
     completion_request \<Rightarrow> database \<Rightarrow>
     (('x, 'y) durable_error, task_terminal_record command_result) result \<times> database" where
  "durable_complete S env limit run_id request =
    apply_command S env limit run_id (complete request)"

definition durable_cancel ::
    "('ev, 'ir, 'x, 'y) execution_services \<Rightarrow> environment \<Rightarrow> nat \<Rightarrow> run_id \<Rightarrow>
     cancellation_request \<Rightarrow> database \<Rightarrow>
     (('x, 'y) durable_error, task_terminal_record command_result) result \<times> database" where
  "durable_cancel S env limit run_id request = apply_command S env limit run_id (cancel request)"

text \<open>
  The two projection swaps: the caller's revision and digest must be the stored ones, the
  next state must be a valid successor, and a repetition writes nothing.
\<close>

definition swap_projection ::
    "('ev, 'ir, 'x, 'y) execution_services \<Rightarrow> environment \<Rightarrow> run_id \<Rightarrow> u64 \<Rightarrow>
     ('ev, 'ir) execution_envelope \<Rightarrow> database \<Rightarrow>
     (('x, 'y) durable_error, ('ev, 'ir) projection_outcome) result \<times> database" where
  "swap_projection S env run_id expected_revision next_envelope db =
    (case and_then (restore_kernel S run_id next_envelope) (\<lambda>_.
          ok_or (xs_encode S next_envelope) DE_Serialization) of
       Err e \<Rightarrow> (Err e, db)
     | Panic \<Rightarrow> (Panic, db)
     | Ok payload \<Rightarrow>
         (let (outcome, db') =
            swap_call env 1 (entity_key run_id) expected_revision payload db in
          (and_then (map_err DE_Storage outcome) (\<lambda>outcome.
             case outcome of
               Applied state \<Rightarrow>
                 and_then (decode_and_restore S run_id state) (\<lambda>l. Ok (ProjectionApplied l))
             | Conflict state \<Rightarrow>
                 and_then (decode_and_restore S run_id state) (\<lambda>l. Ok (ProjectionConflict l))),
           db')))"

definition next_projection ::
    "('p \<Rightarrow> 'x \<Rightarrow> ('z, unit) result) \<Rightarrow> ('x \<Rightarrow> ('z, unit) result) \<Rightarrow> 'p option \<Rightarrow> 'x \<Rightarrow>
     ('z, unit) result" where
  "next_projection successor initial current following =
    (case current of Some previous \<Rightarrow> successor previous following | None \<Rightarrow> initial following)"

definition compare_and_swap_engineer_verifier ::
    "('ev, 'ir, 'x, 'y) execution_services \<Rightarrow> environment \<Rightarrow> run_id \<Rightarrow> u64 \<Rightarrow> string option \<Rightarrow>
     'ev \<Rightarrow> database \<Rightarrow>
     (('x, 'y) durable_error, ('ev, 'ir) projection_outcome) result \<times> database" where
  "compare_and_swap_engineer_verifier S env run_id expected_revision expected_digest following db =
    (case pr_validate (xs_verifier S) following of
       Err e \<Rightarrow> (Err (DE_EngineerVerifier e), db)
     | Panic \<Rightarrow> (Panic, db)
     | Ok _ \<Rightarrow>
    (case load_run S env run_id db of
       (Err e, db') \<Rightarrow> (Err e, db')
     | (Panic, db') \<Rightarrow> (Panic, db')
     | (Ok loaded, db') \<Rightarrow>
         (let e = lr_envelope loaded; current = xe_engineer_verifier e in
          if lr_revision loaded \<noteq> expected_revision
             \<or> map_option (pr_digest (xs_verifier S)) current \<noteq> expected_digest
          then (Ok (ProjectionConflict loaded), db')
          else
            (case pr_binding (xs_verifier S) e following of
               Err x \<Rightarrow> (Err (DE_EngineerVerifier x), db')
             | Panic \<Rightarrow> (Panic, db')
             | Ok _ \<Rightarrow>
                 if current = Some following then (Ok (ProjectionUnchanged loaded), db')
                 else
                   (case next_projection (pr_successor (xs_verifier S)) (pr_initial (xs_verifier S))
                           current following of
                      Err x \<Rightarrow> (Err (DE_EngineerVerifier x), db')
                    | Panic \<Rightarrow> (Panic, db')
                    | Ok _ \<Rightarrow> swap_projection S env run_id expected_revision
                        (e\<lparr>xe_engineer_verifier := Some following\<rparr>) db')))))"

definition compare_and_swap_independent_review ::
    "('ev, 'ir, 'x, 'y) execution_services \<Rightarrow> environment \<Rightarrow> run_id \<Rightarrow> u64 \<Rightarrow> string option \<Rightarrow>
     'ir \<Rightarrow> database \<Rightarrow>
     (('x, 'y) durable_error, ('ev, 'ir) projection_outcome) result \<times> database" where
  "compare_and_swap_independent_review S env run_id expected_revision expected_digest following db =
    (case pr_validate (xs_review S) following of
       Err e \<Rightarrow> (Err (DE_IndependentReview e), db)
     | Panic \<Rightarrow> (Panic, db)
     | Ok _ \<Rightarrow>
    (case load_run S env run_id db of
       (Err e, db') \<Rightarrow> (Err e, db')
     | (Panic, db') \<Rightarrow> (Panic, db')
     | (Ok loaded, db') \<Rightarrow>
         (let e = lr_envelope loaded; current = xe_independent_review e in
          if lr_revision loaded \<noteq> expected_revision
             \<or> map_option (pr_digest (xs_review S)) current \<noteq> expected_digest
          then (Ok (ProjectionConflict loaded), db')
          else
            (case pr_binding (xs_review S) e following of
               Err x \<Rightarrow> (Err (DE_IndependentReview x), db')
             | Panic \<Rightarrow> (Panic, db')
             | Ok _ \<Rightarrow>
                 if current = Some following then (Ok (ProjectionUnchanged loaded), db')
                 else
                   (case next_projection (pr_successor (xs_review S)) (pr_initial (xs_review S))
                           current following of
                      Err x \<Rightarrow> (Err (DE_IndependentReview x), db')
                    | Panic \<Rightarrow> (Panic, db')
                    | Ok _ \<Rightarrow> swap_projection S env run_id expected_revision
                        (e\<lparr>xe_contract_version := 2, xe_independent_review := Some following\<rparr>)
                        db')))))"

end
