(* ===== verification/Durable_Guardrails.thy ===== *)
theory Durable_Guardrails
  imports Versioned_State Guardrails
begin

text \<open>
  The durable approval ledger of \<open>ovca-runtime-core/src/durable_guardrails.rs\<close>: approvals
  are entities of the versioned store, recorded pending, decided once by the owner and
  consumed by the one execution they permit. The byte encoding (\<open>serde_json\<close>) is a codec
  argument, the guarded effect an arbitrary step of the world \<open>'w\<close>, and other clients act
  through the environment of the store calls.
\<close>

section \<open>Records, results and errors\<close>

record approval_envelope =
  ae_contract_version :: contract_version
  ae_approval_request :: approval_request
  ae_required_gates :: "guard_requirement set"
  ae_state :: approval_state
  ae_decision :: "approval_decision_record option"

record durable_approval_record =
  dar_envelope :: approval_envelope
  dar_revision :: u64

record durable_decision_result =
  ddr_record :: durable_approval_record
  ddr_applied :: bool

datatype durable_approval_evaluation =
    EvaluationAllow "guard_requirement set"
  | EvaluationDeny "guard_deny_reason set"
  | EvaluationPending durable_approval_record bool

datatype ('t, 'x) guarded_execution =
    Executed 't "guard_requirement set"
  | PausedForApproval durable_approval_record bool "guard_requirement set"
  | DeniedByPolicy "guard_deny_reason set" "guard_requirement set"
  | StillPending durable_approval_record "guard_requirement set"
  | DeniedByOwner durable_approval_record "guard_requirement set"
  | AlreadyConsumed durable_approval_record "guard_requirement set"
  | EffectFailed 'x "guard_requirement set"
  | EffectFailedAfterConsumption 'x durable_approval_record "guard_requirement set"

datatype approval_state_corruption =
    AC_UnsupportedEnvelopeVersion
  | AC_UnsupportedApprovalRequestVersion
  | AC_UnsupportedGuardRequestVersion
  | AC_UnsupportedPermissionProfileVersion
  | AC_UnsupportedDecisionVersion
  | AC_EnvelopeApprovalIdMismatch
  | AC_PendingHasDecision
  | AC_TerminalDecisionMissing
  | AC_StateDispositionMismatch
  | AC_ConsumedDecisionNotApproved
  | AC_DecisionApprovalIdMismatch
  | AC_DecisionGuardIdMismatch
  | AC_UnsupportedAuthority
  | AC_DecisionBeforeRequest
  | AC_StoredRequestNoLongerRequiresApproval
  | AC_StoredApprovalRequestBindingMismatch
  | AC_RequiredGatesMismatch

datatype durable_approval_error =
    DA_NotFound approval_request_id
  | DA_DefinitionConflict approval_request_id u64
  | DA_DecisionConflict approval_request_id u64
  | DA_RequestMismatch approval_request_id
  | DA_InvalidDecision approval_state_corruption
  | DA_CorruptState approval_request_id approval_state_corruption
  | DA_CorruptPayload approval_request_id
  | DA_Storage versioned_state_error
  | DA_Serialization
  | DA_ContentionExhausted approval_request_id nat u64

record approval_codec =
  ac_encode :: "approval_envelope \<Rightarrow> bytes option"
  ac_decode :: "bytes \<Rightarrow> approval_envelope option"

definition approval_key :: "approval_request_id \<Rightarrow> string" where
  "approval_key i = ''guard_approval:'' @ i"

section \<open>Validation\<close>

definition validate_decision_shape ::
    "approval_decision_record \<Rightarrow> (approval_state_corruption, unit) result" where
  "validate_decision_shape decision = checks
    [require (ad_contract_version decision = current_version) AC_UnsupportedDecisionVersion,
     require (ad_authority decision = ExplicitOwner) AC_UnsupportedAuthority]"

definition validate_decision_for ::
    "approval_envelope \<Rightarrow> approval_decision_record \<Rightarrow> (approval_state_corruption, unit) result" where
  "validate_decision_for envelope decision = checks
    [validate_decision_shape decision,
     require (ad_approval_request_id decision = ar_id (ae_approval_request envelope))
       AC_DecisionApprovalIdMismatch,
     require (ad_guard_request_id decision
         = gr_id (ar_guard_request (ae_approval_request envelope)))
       AC_DecisionGuardIdMismatch,
     require (\<not> ad_decided_at decision < ar_requested_at (ae_approval_request envelope))
       AC_DecisionBeforeRequest]"

definition validate_stored_request ::
    "approval_envelope \<Rightarrow> (approval_state_corruption, unit) result" where
  "validate_stored_request envelope =
    (let request = ae_approval_request envelope;
         context = \<lparr>gec_approval_request_id = ar_id request,
                    gec_requested_at = ar_requested_at request\<rparr>
     in case evaluate_guard_request (ar_guard_request request) context of
          PauseForApproval approval_request required_gates \<Rightarrow> checks
            [require (approval_request = request) AC_StoredApprovalRequestBindingMismatch,
             require (required_gates = ae_required_gates envelope) AC_RequiredGatesMismatch]
        | _ \<Rightarrow> Err AC_StoredRequestNoLongerRequiresApproval)"

definition validate_state_decision ::
    "approval_envelope \<Rightarrow> (approval_state_corruption, unit) result" where
  "validate_state_decision envelope =
    (case (ae_state envelope, ae_decision envelope) of
       (ApprovalPending, None) \<Rightarrow> Ok ()
     | (ApprovalPending, Some _) \<Rightarrow> Err AC_PendingHasDecision
     | (_, None) \<Rightarrow> Err AC_TerminalDecisionMissing
     | (state, Some decision) \<Rightarrow>
         and_then (validate_decision_for envelope decision) (\<lambda>_.
         case (state, ad_disposition decision) of
           (ApprovalApproved, DispositionApproved) \<Rightarrow> Ok ()
         | (ApprovalDenied, DispositionDenied) \<Rightarrow> Ok ()
         | (ApprovalConsumed, DispositionApproved) \<Rightarrow> Ok ()
         | (ApprovalConsumed, _) \<Rightarrow> Err AC_ConsumedDecisionNotApproved
         | _ \<Rightarrow> Err AC_StateDispositionMismatch))"

definition validate_envelope ::
    "approval_request_id \<Rightarrow> approval_envelope \<Rightarrow> (approval_state_corruption, unit) result" where
  "validate_envelope i envelope =
    (let request = ae_approval_request envelope in checks
      [require (ae_contract_version envelope = current_version) AC_UnsupportedEnvelopeVersion,
       require (ar_contract_version request = current_version)
         AC_UnsupportedApprovalRequestVersion,
       require (gr_contract_version (ar_guard_request request) = current_version)
         AC_UnsupportedGuardRequestVersion,
       require (pp_contract_version (gr_permission_profile (ar_guard_request request))
           = current_version) AC_UnsupportedPermissionProfileVersion,
       require (ar_id request = i) AC_EnvelopeApprovalIdMismatch,
       validate_stored_request envelope,
       validate_state_decision envelope])"

definition decode_state ::
    "approval_codec \<Rightarrow> approval_request_id \<Rightarrow> versioned_state \<Rightarrow>
     (durable_approval_error, durable_approval_record) result" where
  "decode_state C i state =
    and_then (ok_or (ac_decode C (vs_payload state)) (DA_CorruptPayload i)) (\<lambda>envelope.
    and_then (map_err (DA_CorruptState i) (validate_envelope i envelope)) (\<lambda>_.
    Ok \<lparr>dar_envelope = envelope, dar_revision = vs_revision state\<rparr>))"

section \<open>Operations\<close>

definition pending_envelope ::
    "approval_request \<Rightarrow> guard_requirement set \<Rightarrow> approval_envelope" where
  "pending_envelope approval_request required_gates =
    \<lparr>ae_contract_version = current_version, ae_approval_request = approval_request,
     ae_required_gates = required_gates, ae_state = ApprovalPending, ae_decision = None\<rparr>"

definition finish_record ::
    "approval_codec \<Rightarrow> approval_request_id \<Rightarrow> approval_envelope \<Rightarrow> initialize_outcome \<Rightarrow>
     (durable_approval_error, durable_approval_evaluation) result" where
  "finish_record C i envelope outcome =
    (let (state, initialized) = (case outcome of
        Initialized state \<Rightarrow> (state, True) | Existing state \<Rightarrow> (state, False)) in
     and_then (decode_state C i state) (\<lambda>existing.
     and_then (require (dar_envelope existing = envelope)
       (DA_DefinitionConflict i (dar_revision existing))) (\<lambda>_.
     Ok (EvaluationPending existing initialized))))"

definition evaluate_and_record ::
    "approval_codec \<Rightarrow> environment \<Rightarrow> guard_request \<Rightarrow> guard_evaluation_context \<Rightarrow> database \<Rightarrow>
     (durable_approval_error, durable_approval_evaluation) result \<times> database" where
  "evaluate_and_record C env request context db =
    (case evaluate_guard_request request context of
       GuardAllow required_gates \<Rightarrow> (Ok (EvaluationAllow required_gates), db)
     | GuardDeny reasons \<Rightarrow> (Ok (EvaluationDeny reasons), db)
     | PauseForApproval approval_request required_gates \<Rightarrow>
         (let envelope = pending_envelope approval_request required_gates;
              i = ar_id approval_request in
          case and_then (map_err DA_InvalidDecision (validate_envelope i envelope)) (\<lambda>_.
               ok_or (ac_encode C envelope) DA_Serialization) of
            Err e \<Rightarrow> (Err e, db)
          | Panic \<Rightarrow> (Panic, db)
          | Ok payload \<Rightarrow>
              (let (outcome, db') = initialize_call env 0 (approval_key i) payload db in
               (and_then (map_err DA_Storage outcome) (finish_record C i envelope), db'))))"

type_synonym ('w, 'x, 't) guarded_effect = "'w \<Rightarrow> ('x, 't) result \<times> 'w"

definition execute_guarded ::
    "approval_codec \<Rightarrow> environment \<Rightarrow> guard_request \<Rightarrow> guard_evaluation_context \<Rightarrow>
     ('w, 'x, 't) guarded_effect \<Rightarrow> 'w \<Rightarrow> database \<Rightarrow>
     (durable_approval_error, ('t, 'x) guarded_execution) result \<times> 'w \<times> database" where
  "execute_guarded C env request context effect w db =
    (case evaluate_and_record C env request context db of
       (Err e, db') \<Rightarrow> (Err e, w, db')
     | (Panic, db') \<Rightarrow> (Panic, w, db')
     | (Ok (EvaluationAllow required_gates), db') \<Rightarrow>
         (case effect w of
            (Ok output, w') \<Rightarrow> (Ok (Executed output required_gates), w', db')
          | (Err error, w') \<Rightarrow> (Ok (EffectFailed error required_gates), w', db')
          | (Panic, w') \<Rightarrow> (Panic, w', db'))
     | (Ok (EvaluationDeny reasons), db') \<Rightarrow> (Ok (DeniedByPolicy reasons {}), w, db')
     | (Ok (EvaluationPending r initialized), db') \<Rightarrow>
         (Ok (PausedForApproval r initialized (ae_required_gates (dar_envelope r))), w, db'))"

definition load_approval ::
    "approval_codec \<Rightarrow> environment \<Rightarrow> approval_request_id \<Rightarrow> database \<Rightarrow>
     (durable_approval_error, durable_approval_record) result \<times> database" where
  "load_approval C env i db =
    (let (found, db') = load_call env 0 (approval_key i) db in
     (and_then (map_err DA_Storage found) (\<lambda>found.
      and_then (ok_or found (DA_NotFound i)) (decode_state C i)), db'))"

text \<open>The end of \<open>resume_approved\<close>, after its swap.\<close>

definition run_consumed ::
    "approval_codec \<Rightarrow> approval_request_id \<Rightarrow> guard_requirement set \<Rightarrow>
     ('w, 'x, 't) guarded_effect \<Rightarrow> 'w \<Rightarrow> compare_and_swap_outcome \<Rightarrow>
     (durable_approval_error, ('t, 'x) guarded_execution) result \<times> 'w" where
  "run_consumed C i required_gates effect w outcome =
    (case outcome of
       Applied state \<Rightarrow>
         (case decode_state C i state of
            Err e \<Rightarrow> (Err e, w)
          | Panic \<Rightarrow> (Panic, w)
          | Ok consumed_record \<Rightarrow>
              (case effect w of
                 (Ok output, w') \<Rightarrow> (Ok (Executed output required_gates), w')
               | (Err error, w') \<Rightarrow>
                   (Ok (EffectFailedAfterConsumption error consumed_record required_gates), w')
               | (Panic, w') \<Rightarrow> (Panic, w')))
     | Conflict state \<Rightarrow>
         (and_then (decode_state C i state) (\<lambda>current.
          if ae_state (dar_envelope current) = ApprovalConsumed
          then Ok (AlreadyConsumed current (ae_required_gates (dar_envelope current)))
          else Err (DA_DecisionConflict i (dar_revision current))), w))"

definition resume_approved ::
    "approval_codec \<Rightarrow> environment \<Rightarrow> approval_request_id \<Rightarrow> guard_request \<Rightarrow>
     ('w, 'x, 't) guarded_effect \<Rightarrow> 'w \<Rightarrow> database \<Rightarrow>
     (durable_approval_error, ('t, 'x) guarded_execution) result \<times> 'w \<times> database" where
  "resume_approved C env i request effect w db =
    (case load_approval C env i db of
       (Err e, db') \<Rightarrow> (Err e, w, db')
     | (Panic, db') \<Rightarrow> (Panic, w, db')
     | (Ok loaded, db') \<Rightarrow>
         (let envelope = dar_envelope loaded; required_gates = ae_required_gates envelope in
          if ar_guard_request (ae_approval_request envelope) \<noteq> request
          then (Err (DA_RequestMismatch i), w, db')
          else
            (case ae_state envelope of
               ApprovalPending \<Rightarrow> (Ok (StillPending loaded required_gates), w, db')
             | ApprovalDenied \<Rightarrow> (Ok (DeniedByOwner loaded required_gates), w, db')
             | ApprovalConsumed \<Rightarrow> (Ok (AlreadyConsumed loaded required_gates), w, db')
             | ApprovalApproved \<Rightarrow>
                 (let consumed = envelope\<lparr>ae_state := ApprovalConsumed\<rparr> in
                  case and_then (map_err DA_InvalidDecision (validate_envelope i consumed)) (\<lambda>_.
                       ok_or (ac_encode C consumed) DA_Serialization) of
                    Err e \<Rightarrow> (Err e, w, db')
                  | Panic \<Rightarrow> (Panic, w, db')
                  | Ok payload \<Rightarrow>
                      (case swap_call env 1 (approval_key i) (dar_revision loaded) payload db' of
                         (Err e, db'') \<Rightarrow> (Err (DA_Storage e), w, db'')
                       | (Panic, db'') \<Rightarrow> (Panic, w, db'')
                       | (Ok outcome, db'') \<Rightarrow>
                           (let (r, w') = run_consumed C i required_gates effect w outcome
                            in (r, w', db'')))))))"

text \<open>One round of \<open>record_decision\<close> up to its swap.\<close>

datatype decision_round = AlreadyDecided durable_decision_result | ToDecide bytes

definition decided_envelope ::
    "approval_envelope \<Rightarrow> approval_decision_record \<Rightarrow> approval_envelope" where
  "decided_envelope envelope decision = envelope
     \<lparr>ae_state := (case ad_disposition decision of
          DispositionApproved \<Rightarrow> ApprovalApproved | DispositionDenied \<Rightarrow> ApprovalDenied),
      ae_decision := Some decision\<rparr>"

definition prepare_decision ::
    "approval_codec \<Rightarrow> approval_decision_record \<Rightarrow> durable_approval_record \<Rightarrow>
     (durable_approval_error, decision_round) result" where
  "prepare_decision C decision loaded =
    (let envelope = dar_envelope loaded; i = ad_approval_request_id decision in
     and_then (map_err DA_InvalidDecision (validate_decision_for envelope decision)) (\<lambda>_.
     if ae_decision envelope = Some decision
     then Ok (AlreadyDecided \<lparr>ddr_record = loaded, ddr_applied = False\<rparr>)
     else
       and_then (require (ae_state envelope = ApprovalPending)
         (DA_DecisionConflict i (dar_revision loaded))) (\<lambda>_.
       let following = decided_envelope envelope decision in
       and_then (map_err DA_InvalidDecision (validate_envelope i following)) (\<lambda>_.
       and_then (ok_or (ac_encode C following) DA_Serialization) (\<lambda>payload.
       Ok (ToDecide payload))))))"

fun decision_loop ::
    "approval_codec \<Rightarrow> environment \<Rightarrow> approval_decision_record \<Rightarrow> nat \<Rightarrow> nat \<Rightarrow>
     durable_approval_record \<Rightarrow> database \<Rightarrow>
     (durable_approval_error, durable_decision_result) result \<times> database" where
  "decision_loop C env decision limit left loaded db =
    (let i = ad_approval_request_id decision in
     case prepare_decision C decision loaded of
       Err e \<Rightarrow> (Err e, db)
     | Panic \<Rightarrow> (Panic, db)
     | Ok (AlreadyDecided r) \<Rightarrow> (Ok r, db)
     | Ok (ToDecide payload) \<Rightarrow>
         (case swap_call env (Suc (limit - left)) (approval_key i) (dar_revision loaded) payload db of
            (Err e, db') \<Rightarrow> (Err (DA_Storage e), db')
          | (Panic, db') \<Rightarrow> (Panic, db')
          | (Ok (Applied state), db') \<Rightarrow>
              (and_then (decode_state C i state) (\<lambda>r.
               Ok \<lparr>ddr_record = r, ddr_applied = True\<rparr>), db')
          | (Ok (Conflict state), db') \<Rightarrow>
              (case decode_state C i state of
                 Err e \<Rightarrow> (Err e, db')
               | Panic \<Rightarrow> (Panic, db')
               | Ok current \<Rightarrow>
                   (case left of
                      0 \<Rightarrow> (Err (DA_ContentionExhausted i limit (dar_revision current)), db')
                    | Suc left' \<Rightarrow> decision_loop C env decision limit left' current db'))))"

declare decision_loop.simps [simp del]

definition record_decision ::
    "approval_codec \<Rightarrow> environment \<Rightarrow> nat \<Rightarrow> approval_decision_record \<Rightarrow> database \<Rightarrow>
     (durable_approval_error, durable_decision_result) result \<times> database" where
  "record_decision C env limit decision db =
    (case validate_decision_shape decision of
       Err e \<Rightarrow> (Err (DA_InvalidDecision e), db)
     | Panic \<Rightarrow> (Panic, db)
     | Ok _ \<Rightarrow>
         (case load_approval C env (ad_approval_request_id decision) db of
            (Err e, db') \<Rightarrow> (Err e, db')
          | (Panic, db') \<Rightarrow> (Panic, db')
          | (Ok loaded, db') \<Rightarrow> decision_loop C env decision limit limit loaded db'))"

end
