(* ===== verification/Goal_Runtime.thy ===== *)
theory Goal_Runtime
  imports Run_Event_Log Durable_Execution Durable_Guardrails
begin

text \<open>
  The goal runtime of \<open>ovca-langgraph/src/goal_runtime.rs\<close>: planning a run, writing and
  reading its events, appending an event after a prospective replay, and binding the run in
  the event log to its execution state in the SQLite store. Log and store calls are numbered
  within an operation; other writers act between them. Verifier-backed completion rests on
  modules that are arguments here: the record \<open>completion_gate\<close>.
\<close>

section \<open>Sequencing calls\<close>

text \<open>\<open>?\<close> between calls that read and change a state.\<close>

definition bind_call ::
    "('e, 'a) result \<times> 's \<Rightarrow> ('a \<Rightarrow> 's \<Rightarrow> ('e, 'b) result \<times> 's) \<Rightarrow> ('e, 'b) result \<times> 's" where
  "bind_call call f =
    (case call of (Ok a, s) \<Rightarrow> f a s | (Err e, s) \<Rightarrow> (Err e, s) | (Panic, s) \<Rightarrow> (Panic, s))"

definition with_err :: "('e \<Rightarrow> 'f) \<Rightarrow> ('e, 'a) result \<times> 's \<Rightarrow> ('f, 'a) result \<times> 's" where
  "with_err g call = (map_err g (fst call), snd call)"

text \<open>A call that only concerns the first or the second half of the state.\<close>

definition on_first :: "('e, 'a) result \<times> 's \<Rightarrow> 't \<Rightarrow> ('e, 'a) result \<times> 's \<times> 't" where
  "on_first call t = (fst call, snd call, t)"

definition on_second :: "('e, 'a) result \<times> 't \<Rightarrow> 's \<Rightarrow> ('e, 'a) result \<times> 's \<times> 't" where
  "on_second call s = (fst call, s, snd call)"

definition later_calls :: "nat \<Rightarrow> (nat \<Rightarrow> 'a) \<Rightarrow> nat \<Rightarrow> 'a" where
  "later_calls k calls n = calls (k + n)"

text \<open>The failing steps of the \<open>n\<close>-th log call, and what others did to the file before it.\<close>

type_synonym log_environment = "nat \<Rightarrow> log_io \<times> (log_file \<Rightarrow> log_file)"

definition load_events_call ::
    "event_codec \<Rightarrow> log_environment \<Rightarrow> nat \<Rightarrow> run_id \<Rightarrow> log_file \<Rightarrow>
     run_event list logged \<times> log_file" where
  "load_events_call C log_env n run_id f =
    (let f' = snd (log_env n) f in (log_load_run C (fst (log_env n)) run_id f', f'))"

definition append_call ::
    "event_codec \<Rightarrow> log_environment \<Rightarrow> nat \<Rightarrow> run_event \<Rightarrow> log_file \<Rightarrow> unit logged \<times> log_file" where
  "append_call C log_env n event f = log_append C (fst (log_env n)) event (snd (log_env n) f)"

section \<open>Planning a run\<close>

record event_stamp =
  es_id :: event_id
  es_occurred_at :: timestamp

record planned_run_stamps =
  prs_run_created :: event_stamp
  prs_accepted :: event_stamp
  prs_plan_recorded :: event_stamp
  prs_planned :: event_stamp

datatype goal_runtime_error =
    GR_GoalContractVersionMismatch contract_version contract_version
  | GR_PermissionProfileContractVersionMismatch contract_version contract_version
  | GR_CompletionPreconditionContractVersionMismatch contract_version contract_version
  | GR_TaskContractVersionMismatch task_id contract_version contract_version
  | GR_TaskGoalMismatch task_id goal_id goal_id
  | GR_TaskNotPending task_id task_status
  | GR_Schedule schedule_error
  | GR_DuplicateStampId event_id
  | GR_DecreasingStampTimestamp u64 timestamp u64 timestamp
  | GR_Replay replay_error
  | GR_ReplayedStatusMismatch run_status run_status
  | GR_ReplayedPlanMismatch execution_plan "execution_plan option"

definition validate_goal_contract_versions :: "goal_contract \<Rightarrow> (goal_runtime_error, unit) result" where
  "validate_goal_contract_versions goal = checks
    [require (gc_contract_version goal = current_version)
       (GR_GoalContractVersionMismatch current_version (gc_contract_version goal)),
     require (pp_contract_version (gc_permission_profile goal) = current_version)
       (GR_PermissionProfileContractVersionMismatch current_version
         (pp_contract_version (gc_permission_profile goal))),
     require (cp_contract_version (gc_completion_precondition goal) = current_version)
       (GR_CompletionPreconditionContractVersionMismatch current_version
         (cp_contract_version (gc_completion_precondition goal)))]"

definition ordered_stamps :: "planned_run_stamps \<Rightarrow> event_stamp list" where
  "ordered_stamps stamps =
    [prs_run_created stamps, prs_accepted stamps, prs_plan_recorded stamps, prs_planned stamps]"

definition check_stamp_pair :: "nat \<times> event_stamp \<times> event_stamp \<Rightarrow> (goal_runtime_error, unit) result"
  where
  "check_stamp_pair entry =
    (let (i, previous, current) = entry in
     require (\<not> es_occurred_at current < es_occurred_at previous)
       (GR_DecreasingStampTimestamp (of_nat i) (es_occurred_at previous) (of_nat i + 1)
         (es_occurred_at current)))"

definition validate_stamps :: "planned_run_stamps \<Rightarrow> (goal_runtime_error, unit) result" where
  "validate_stamps stamps =
    (let ordered = ordered_stamps stamps in
     and_then (try_fold (insert_new GR_DuplicateStampId) {} (map es_id ordered)) (\<lambda>_.
     checks (map check_stamp_pair (enumerate 0 (zip ordered (tl ordered))))))"

definition check_planned_task :: "goal_contract \<Rightarrow> task \<Rightarrow> (goal_runtime_error, unit) result" where
  "check_planned_task goal t = checks
    [require (task_contract_version t = current_version)
       (GR_TaskContractVersionMismatch (task_id_of t) current_version (task_contract_version t)),
     require (task_goal_id t = gc_id goal)
       (GR_TaskGoalMismatch (task_id_of t) (gc_id goal) (task_goal_id t)),
     require (task_status_of t = TaskPending)
       (GR_TaskNotPending (task_id_of t) (task_status_of t))]"

definition coordinator_event ::
    "run_id \<Rightarrow> u64 \<Rightarrow> event_id option \<Rightarrow> event_stamp \<Rightarrow> run_event_payload \<Rightarrow> run_event" where
  "coordinator_event run_id sequence previous stamp payload =
    \<lparr>ev_contract_version = current_version, ev_id = es_id stamp, ev_run_id = run_id,
     ev_sequence = sequence, ev_previous_event_id = previous, ev_occurred_at = es_occurred_at stamp,
     ev_producer_role = Coordinator, ev_payload = payload, ev_metadata = bm_empty\<rparr>"

definition planned_events ::
    "run_id \<Rightarrow> goal_contract \<Rightarrow> task_id list \<Rightarrow> execution_plan \<Rightarrow> planned_run_stamps \<Rightarrow>
     run_event list" where
  "planned_events run_id goal ids plan stamps =
    (let created = prs_run_created stamps; accepted = prs_accepted stamps;
         recorded = prs_plan_recorded stamps in
     [coordinator_event run_id 0 None created (RunCreated
        \<lparr>rc_project_id = gc_project_id goal, rc_goal_id = gc_id goal, rc_task_ids = ids,
         rc_status = Draft, rc_created_at = es_occurred_at created,
         rc_updated_at = es_occurred_at created, rc_started_at = None, rc_finished_at = None\<rparr>),
      coordinator_event run_id 1 (Some (es_id created)) accepted (StatusTransition Draft Accepted),
      coordinator_event run_id 2 (Some (es_id accepted)) recorded (ExecutionPlanRecorded plan),
      coordinator_event run_id 3 (Some (es_id recorded)) (prs_planned stamps)
        (StatusTransition Accepted Planned)])"

definition build_planned_run ::
    "run_id \<Rightarrow> goal_contract \<Rightarrow> task list \<Rightarrow> planned_run_stamps \<Rightarrow>
     (goal_runtime_error, execution_plan \<times> run_event list) result" where
  "build_planned_run run_id goal tasks stamps =
    and_then (validate_goal_contract_versions goal) (\<lambda>_.
    and_then (checks (map (check_planned_task goal) (sort_key task_id_of tasks))) (\<lambda>_.
    and_then (map_err GR_Schedule (schedule_tasks tasks)) (\<lambda>plan.
    and_then (validate_stamps stamps) (\<lambda>_.
    let events = planned_events run_id goal (sort (map task_id_of tasks)) plan stamps in
    and_then (map_err GR_Replay (replay_run events (Some goal))) (\<lambda>replayed.
    and_then (require (rr_status (rp_run_record replayed) = Planned)
      (GR_ReplayedStatusMismatch Planned (rr_status (rp_run_record replayed)))) (\<lambda>_.
    and_then (require (rp_execution_plan replayed = Some plan)
      (GR_ReplayedPlanMismatch plan (rp_execution_plan replayed))) (\<lambda>_.
    Ok (plan, events))))))))"

section \<open>Durable errors\<close>

datatype ('x, 'y, 'v) durable_goal_error =
    DG_Build goal_runtime_error
  | DG_Storage run_event_log_error
  | DG_Replay replay_error
  | DG_RunAlreadyExists run_id
  | DG_RunNotFound run_id
  | DG_Execution "('x, 'y) durable_error"
  | DG_Guard durable_approval_error
  | DG_LocalVerificationStorage 'v
  | DG_CompletionPolicyMissing goal_id
  | DG_CompletionGoalContractMismatch goal_id
  | DG_CompletionTaskSetMismatch goal_id
  | DG_VerifiedCompletionRequired goal_id
  | DG_IndependentReviewCompletionRequired run_id
  | DG_IndependentReviewCompletionInvalid run_id
  | DG_BootstrapRunStatusMismatch run_status run_status
  | DG_BootstrapGoalMismatch goal_id "goal_id option"
  | DG_BootstrapTaskSetMismatch "task_id list" "task_id list"
  | DG_BootstrapTaskStatusMismatch task_id task_status task_status
  | DG_BootstrapPlanMismatch "execution_plan option" execution_plan
  | DG_ViewRunMismatch run_id run_id
  | DG_ViewGoalMismatch goal_id "goal_id option"
  | DG_ViewTaskSetMismatch "task_id list" "task_id list"

section \<open>Creating and loading runs\<close>

definition replay_loaded ::
    "run_id \<Rightarrow> goal_contract option \<Rightarrow> run_event list \<Rightarrow>
     (('x, 'y, 'v) durable_goal_error, replayed_run) result" where
  "replay_loaded run_id goal events =
    and_then (require (events \<noteq> []) (DG_RunNotFound run_id)) (\<lambda>_.
    map_err DG_Replay (replay_run events goal))"

definition load_goal_run ::
    "event_codec \<Rightarrow> log_environment \<Rightarrow> nat \<Rightarrow> run_id \<Rightarrow> goal_contract \<Rightarrow> log_file \<Rightarrow>
     (('x, 'y, 'v) durable_goal_error, replayed_run) result \<times> log_file" where
  "load_goal_run C log_env n run_id goal f =
    bind_call (map_err DG_Build (validate_goal_contract_versions goal), f) (\<lambda>_ f.
    bind_call (with_err DG_Storage (load_events_call C log_env n run_id f)) (\<lambda>events f.
    (replay_loaded run_id (Some goal) events, f)))"

definition create_run ::
    "event_codec \<Rightarrow> log_environment \<Rightarrow> run_id \<Rightarrow> goal_contract \<Rightarrow> task list \<Rightarrow>
     planned_run_stamps \<Rightarrow> log_file \<Rightarrow>
     (('x, 'y, 'v) durable_goal_error, replayed_run) result \<times> log_file" where
  "create_run C log_env run_id goal tasks stamps f =
    bind_call (map_err DG_Build (build_planned_run run_id goal tasks stamps), f) (\<lambda>(_, events) f.
    bind_call (with_err DG_Storage (load_events_call C log_env 0 run_id f)) (\<lambda>existing f.
    bind_call (require (existing = []) (DG_RunAlreadyExists run_id), f) (\<lambda>_ f.
    bind_call (with_err DG_Storage (each_call (append_call C log_env) 1 events f)) (\<lambda>_ f.
    load_goal_run C log_env 5 run_id goal f))))"

definition load_bootstrap_run ::
    "event_codec \<Rightarrow> log_environment \<Rightarrow> nat \<Rightarrow> run_id \<Rightarrow> goal_contract \<Rightarrow> log_file \<Rightarrow>
     (('x, 'y, 'v) durable_goal_error, replayed_run) result \<times> log_file" where
  "load_bootstrap_run C log_env n run_id goal f =
    bind_call (with_err DG_Storage (load_events_call C log_env n run_id f)) (\<lambda>events f.
    (and_then (replay_loaded run_id None events) (\<lambda>unbound.
     and_then (map_err DG_Build (validate_goal_contract_versions goal)) (\<lambda>_.
     and_then (require (rr_goal_id (rp_run_record unbound) = gc_id goal)
       (DG_BootstrapGoalMismatch (rr_goal_id (rp_run_record unbound)) (Some (gc_id goal)))) (\<lambda>_.
     map_err DG_Replay (replay_run events (Some goal))))), f))"

section \<open>Binding the execution state\<close>

definition check_bootstrap_status ::
    "replayed_run \<Rightarrow> task \<Rightarrow> (('x, 'y, 'v) durable_goal_error, unit) result" where
  "check_bootstrap_status orchestration t =
    and_then (expect (bm_get (rp_task_statuses orchestration) (task_id_of t))) (\<lambda>status.
    require (task_status_of t = status)
      (DG_BootstrapTaskStatusMismatch (task_id_of t) status (task_status_of t)))"

definition validate_execution_bootstrap ::
    "replayed_run \<Rightarrow> goal_contract \<Rightarrow> task list \<Rightarrow> (('x, 'y, 'v) durable_goal_error, unit) result" where
  "validate_execution_bootstrap orchestration goal tasks =
    (let run = rp_run_record orchestration;
         provided_goal = map_option task_goal_id (first_of tasks);
         declared = ordered_set (rr_task_ids run);
         provided = ordered_set (map task_id_of tasks) in
     and_then (checks
       ([require (rr_status run = Planned) (DG_BootstrapRunStatusMismatch Planned (rr_status run)),
         require (provided_goal = Some (gc_id goal) \<and> (\<forall>t \<in> set tasks. task_goal_id t = gc_id goal))
           (DG_BootstrapGoalMismatch (gc_id goal) provided_goal),
         require (declared = provided \<and> length provided = length tasks)
           (DG_BootstrapTaskSetMismatch declared provided)]
        @ map (check_bootstrap_status orchestration) tasks)) (\<lambda>_.
     and_then (map_err (\<lambda>e. DG_Build (GR_Schedule e)) (schedule_tasks tasks)) (\<lambda>provided_plan.
     require (rp_execution_plan orchestration = Some provided_plan)
       (DG_BootstrapPlanMismatch (rp_execution_plan orchestration) provided_plan))))"

record ('ev, 'ir) runtime_view =
  rv_orchestration :: replayed_run
  rv_execution :: "('ev, 'ir) loaded_run"

record ('ev, 'ir) execution_bootstrap_result =
  ebr_view :: "('ev, 'ir) runtime_view"
  ebr_initialized :: bool

definition validate_runtime_view ::
    "replayed_run \<Rightarrow> ('ev, 'ir) loaded_run \<Rightarrow>
     (('x, 'y, 'v) durable_goal_error, ('ev, 'ir) runtime_view) result" where
  "validate_runtime_view orchestration execution =
    (let run = rp_run_record orchestration; envelope = lr_envelope execution;
         orchestration_tasks = ordered_set (rr_task_ids run);
         execution_tasks = bm_keys (xe_tasks envelope) in
     and_then (checks
       [require (xe_run_id envelope = rr_id run) (DG_ViewRunMismatch (rr_id run) (xe_run_id envelope)),
        require (els_goal_id (xe_snapshot envelope) = Some (rr_goal_id run))
          (DG_ViewGoalMismatch (rr_goal_id run) (els_goal_id (xe_snapshot envelope))),
        require (orchestration_tasks = execution_tasks)
          (DG_ViewTaskSetMismatch orchestration_tasks execution_tasks)]) (\<lambda>_.
     Ok \<lparr>rv_orchestration = orchestration, rv_execution = execution\<rparr>))"

type_synonym media = "log_file \<times> database"

definition initialize_execution ::
    "event_codec \<Rightarrow> ('ev, 'ir, 'x, 'y) execution_services \<Rightarrow> log_environment \<Rightarrow> environment \<Rightarrow>
     run_id \<Rightarrow> goal_contract \<Rightarrow> task list \<Rightarrow> retry_budget \<Rightarrow> media \<Rightarrow>
     (('x, 'y, 'v) durable_goal_error, ('ev, 'ir) execution_bootstrap_result) result \<times> media" where
  "initialize_execution C S log_env env run_id goal tasks retry_budget media =
    bind_call (on_first (load_bootstrap_run C log_env 0 run_id goal (fst media)) (snd media))
      (\<lambda>orchestration media.
    bind_call (validate_execution_bootstrap orchestration goal tasks, media) (\<lambda>_ media.
    bind_call (on_second (with_err DG_Execution
      (initialize_run S env run_id tasks retry_budget (snd media))) (fst media)) (\<lambda>r media.
    (and_then (validate_runtime_view orchestration (irr_state r)) (\<lambda>view.
     Ok \<lparr>ebr_view = view, ebr_initialized = irr_initialized r\<rparr>), media))))"

definition load_runtime_view ::
    "event_codec \<Rightarrow> ('ev, 'ir, 'x, 'y) execution_services \<Rightarrow> log_environment \<Rightarrow> environment \<Rightarrow>
     run_id \<Rightarrow> goal_contract \<Rightarrow> media \<Rightarrow>
     (('x, 'y, 'v) durable_goal_error, ('ev, 'ir) runtime_view) result \<times> media" where
  "load_runtime_view C S log_env env run_id goal media =
    bind_call (on_first (load_goal_run C log_env 0 run_id goal (fst media)) (snd media))
      (\<lambda>orchestration media.
    bind_call (on_second (with_err DG_Execution (load_run S env run_id (snd media))) (fst media))
      (\<lambda>execution media. (validate_runtime_view orchestration execution, media)))"

section \<open>The completion boundary\<close>

text \<open>
  The authoritative goals of an enforced completion policy. Only their goal contract and
  task list matter to \<open>append_event\<close>; the rest (task policies, source manifest, source root,
  environment bindings) is \<open>'m\<close>.
\<close>

record 'm enforced_goal =
  eg_goal :: goal_contract
  eg_task_ids :: "task_id list"
  eg_material :: 'm

datatype 'm completion_policy = PolicyDisabled | PolicyEnforced "(goal_id, 'm enforced_goal) btree_map"

text \<open>
  The parts of the completion path that other modules own: whether the event log shows an
  engineer-verifier phase (\<open>None\<close>: the check fails), whether the execution database exists,
  the evidence key of an independent review, the evidence lease with its snapshot and its
  commit, and the comparison of the resolved review with the replayed run and the snapshot.
\<close>

record ('ev, 'ir, 'k, 'sn, 'v) completion_gate =
  cg_projected :: "log_file \<Rightarrow> run_id \<Rightarrow> bool option"
  cg_database_exists :: "database \<Rightarrow> bool"
  cg_evidence_key :: "'ir \<Rightarrow> 'k"
  cg_lease :: "'k \<Rightarrow> ('v, 'sn) result"
  cg_commit :: "'k \<Rightarrow> ('v, unit) result"
  cg_matches :: "'ev \<Rightarrow> 'ir \<Rightarrow> replayed_run \<Rightarrow> 'sn \<Rightarrow> bool"

record ('ev, 'ir, 'x, 'y, 'm, 'k, 'sn, 'v) goal_runtime =
  gr_codec :: event_codec
  gr_services :: "('ev, 'ir, 'x, 'y) execution_services"
  gr_policy :: "'m completion_policy"
  gr_gate :: "('ev, 'ir, 'k, 'sn, 'v) completion_gate"

definition is_completed_transition :: "run_event_payload \<Rightarrow> bool" where
  "is_completed_transition payload =
    (case payload of StatusTransition _ to \<Rightarrow> to = Completed | _ \<Rightarrow> False)"

definition requires_local_verification :: "goal_contract \<Rightarrow> bool" where
  "requires_local_verification goal \<longleftrightarrow>
    cp_require_all_verification_criteria (gc_completion_precondition goal)
    \<and> gc_verification_criteria goal \<noteq> []"

definition authoritative_completion_goal ::
    "'m completion_policy \<Rightarrow> run_event list \<Rightarrow> goal_contract \<Rightarrow>
     (('x, 'y, 'v) durable_goal_error, 'm enforced_goal option) result" where
  "authoritative_completion_goal policy events caller_goal =
    (case policy of
       PolicyDisabled \<Rightarrow> Ok None
     | PolicyEnforced goals \<Rightarrow>
         (case map_option ev_payload (first_of events) of
            Some (RunCreated created) \<Rightarrow>
              and_then (ok_or (bm_get goals (rc_goal_id created))
                (DG_CompletionPolicyMissing (rc_goal_id created))) (\<lambda>authority.
              and_then (require (eg_goal authority = caller_goal)
                (DG_CompletionGoalContractMismatch (rc_goal_id created))) (\<lambda>_.
              and_then (require (rc_task_ids created = eg_task_ids authority)
                (DG_CompletionTaskSetMismatch (rc_goal_id created))) (\<lambda>_.
              Ok (Some authority))))
          | _ \<Rightarrow> and_then (map_err DG_Replay (replay_run events None)) (\<lambda>_. Panic)))"

text \<open>\<open>load_issue6_execution_if_present\<close>: the \<open>n\<close>-th log call and the \<open>k\<close>-th store call.\<close>

definition load_issue6_execution ::
    "('ev, 'ir, 'x, 'y, 'm, 'k, 'sn, 'v) goal_runtime \<Rightarrow> log_environment \<Rightarrow> nat \<Rightarrow> environment \<Rightarrow> nat \<Rightarrow>
     run_id \<Rightarrow> media \<Rightarrow> (('x, 'y, 'v) durable_goal_error, ('ev, 'ir) loaded_run option) result \<times> media"
  where
  "load_issue6_execution R log_env n env k run_id media =
    (let f = snd (log_env n) (fst media); db = snd (env k) (snd media);
         missing = DG_IndependentReviewCompletionInvalid run_id in
     bind_call (ok_or (cg_projected (gr_gate R) f run_id) missing, f, snd media) (\<lambda>projected media.
     if \<not> cg_database_exists (gr_gate R) db
     then (if projected then Err missing else Ok None, f, db)
     else
       (case load_run (gr_services R) (later_calls k env) run_id (snd media) of
          (Ok loaded, db) \<Rightarrow>
            (if xe_engineer_verifier (lr_envelope loaded) = None
             then if projected then Err missing else Ok None
             else Ok (Some loaded), f, db)
        | (Err e, db) \<Rightarrow>
            (case e of
               DE_RunNotFound _ \<Rightarrow> if projected then Err missing else Ok None
             | _ \<Rightarrow> Err (DG_Execution e), f, db)
        | (Panic, db) \<Rightarrow> (Panic, f, db))))"

definition independent_review_evidence_key ::
    "('ev, 'ir, 'x, 'y, 'm, 'k, 'sn, 'v) goal_runtime \<Rightarrow> log_environment \<Rightarrow> nat \<Rightarrow> environment \<Rightarrow> nat \<Rightarrow>
     run_id \<Rightarrow> media \<Rightarrow> (('x, 'y, 'v) durable_goal_error, 'k option) result \<times> media" where
  "independent_review_evidence_key R log_env n env k run_id media =
    bind_call (load_issue6_execution R log_env n env k run_id media) (\<lambda>loaded media.
    (case loaded of
       None \<Rightarrow> Ok None
     | Some loaded \<Rightarrow>
         and_then (ok_or (xe_independent_review (lr_envelope loaded))
           (DG_IndependentReviewCompletionRequired run_id)) (\<lambda>state.
         Ok (Some (cg_evidence_key (gr_gate R) state))), media))"

definition validate_independent_completion_snapshot ::
    "('ev, 'ir, 'x, 'y, 'm, 'k, 'sn, 'v) goal_runtime \<Rightarrow> log_environment \<Rightarrow> nat \<Rightarrow> environment \<Rightarrow> nat \<Rightarrow>
     run_id \<Rightarrow> replayed_run \<Rightarrow> 'sn \<Rightarrow> media \<Rightarrow>
     (('x, 'y, 'v) durable_goal_error, unit) result \<times> media" where
  "validate_independent_completion_snapshot R log_env n env k run_id replayed snap media =
    bind_call (load_issue6_execution R log_env n env k run_id media) (\<lambda>loaded media.
    (case loaded of
       None \<Rightarrow> Ok ()
     | Some loaded \<Rightarrow>
         and_then (ok_or (xe_engineer_verifier (lr_envelope loaded))
           (DG_IndependentReviewCompletionInvalid run_id)) (\<lambda>issue6.
         and_then (ok_or (xe_independent_review (lr_envelope loaded))
           (DG_IndependentReviewCompletionRequired run_id)) (\<lambda>state.
         require (cg_matches (gr_gate R) issue6 state replayed snap)
           (DG_IndependentReviewCompletionInvalid run_id))), media))"

text \<open>\<open>with_completion_admission_lease\<close>: the callback runs while the reservation is held.\<close>

definition with_lease ::
    "('ev, 'ir, 'k, 'sn, 'v) completion_gate \<Rightarrow> 'k \<Rightarrow>
     ('sn \<Rightarrow> media \<Rightarrow> (('x, 'y, 'v) durable_goal_error, unit) result \<times> media) \<Rightarrow> media \<Rightarrow>
     (('x, 'y, 'v) durable_goal_error, unit) result \<times> media" where
  "with_lease G key callback media =
    bind_call (map_err DG_LocalVerificationStorage (cg_lease G key), media) (\<lambda>snap media.
    bind_call (callback snap media) (\<lambda>_ media.
    (map_err DG_LocalVerificationStorage (cg_commit G key), media)))"

section \<open>Appending an event\<close>

definition append_checked ::
    "('ev, 'ir, 'x, 'y, 'm, 'k, 'sn, 'v) goal_runtime \<Rightarrow> log_environment \<Rightarrow> nat \<Rightarrow> run_event \<Rightarrow>
     goal_contract \<Rightarrow> run_event list \<Rightarrow> media \<Rightarrow>
     (('x, 'y, 'v) durable_goal_error, unit) result \<times> media" where
  "append_checked R log_env n event goal events media =
    bind_call (map_err DG_Replay (replay_run (events @ [event]) (Some goal)), media) (\<lambda>_ media.
    on_first (with_err DG_Storage (append_call (gr_codec R) log_env n event (fst media))) (snd media))"

definition append_leased ::
    "('ev, 'ir, 'x, 'y, 'm, 'k, 'sn, 'v) goal_runtime \<Rightarrow> log_environment \<Rightarrow> environment \<Rightarrow> run_event \<Rightarrow>
     goal_contract \<Rightarrow> 'sn \<Rightarrow> media \<Rightarrow> (('x, 'y, 'v) durable_goal_error, unit) result \<times> media" where
  "append_leased R log_env env event goal snap media =
    bind_call (on_first (with_err DG_Storage
      (load_events_call (gr_codec R) log_env 3 (ev_run_id event) (fst media))) (snd media))
      (\<lambda>current_events media.
    bind_call (map_err DG_Replay (replay_run current_events (Some goal)), media) (\<lambda>current media.
    bind_call (validate_independent_completion_snapshot R log_env 4 env 2 (ev_run_id event) current
      snap media) (\<lambda>_ media.
    append_checked R log_env 5 event goal current_events media)))"

definition finish_append ::
    "('ev, 'ir, 'x, 'y, 'm, 'k, 'sn, 'v) goal_runtime \<Rightarrow> log_environment \<Rightarrow> nat \<Rightarrow> run_event \<Rightarrow>
     goal_contract \<Rightarrow> media \<Rightarrow> (('x, 'y, 'v) durable_goal_error, replayed_run) result \<times> media" where
  "finish_append R log_env n event goal media =
    on_first (load_goal_run (gr_codec R) log_env n (ev_run_id event) goal (fst media)) (snd media)"

text \<open>The branch of a transition to \<open>Completed\<close>.\<close>

definition append_completed ::
    "('ev, 'ir, 'x, 'y, 'm, 'k, 'sn, 'v) goal_runtime \<Rightarrow> log_environment \<Rightarrow> environment \<Rightarrow> run_event \<Rightarrow>
     goal_contract \<Rightarrow> run_event list \<Rightarrow> media \<Rightarrow>
     (('x, 'y, 'v) durable_goal_error, replayed_run) result \<times> media" where
  "append_completed R log_env env event goal prospective media =
    bind_call (load_issue6_execution R log_env 1 env 0 (ev_run_id event) media) (\<lambda>_ media.
    bind_call (authoritative_completion_goal (gr_policy R) prospective goal, media)
      (\<lambda>authority media.
    bind_call (case authority of
        None \<Rightarrow> Ok ()
      | Some authority \<Rightarrow> require (\<not> requires_local_verification (eg_goal authority))
          (DG_VerifiedCompletionRequired (gc_id (eg_goal authority))), media) (\<lambda>_ media.
    bind_call (independent_review_evidence_key R log_env 2 env 1 (ev_run_id event) media)
      (\<lambda>key media.
    case key of
      Some key \<Rightarrow>
        bind_call (with_lease (gr_gate R) key (append_leased R log_env env event goal) media)
          (\<lambda>_. finish_append R log_env 6 event goal)
    | None \<Rightarrow>
        bind_call (append_checked R log_env 3 event goal prospective media)
          (\<lambda>_. finish_append R log_env 4 event goal)))))"

definition append_event ::
    "('ev, 'ir, 'x, 'y, 'm, 'k, 'sn, 'v) goal_runtime \<Rightarrow> log_environment \<Rightarrow> environment \<Rightarrow> run_event \<Rightarrow>
     goal_contract \<Rightarrow> media \<Rightarrow>
     (('x, 'y, 'v) durable_goal_error, replayed_run) result \<times> media" where
  "append_event R log_env env event goal media =
    bind_call (map_err DG_Build (validate_goal_contract_versions goal), media) (\<lambda>_ media.
    bind_call (on_first (with_err DG_Storage
      (load_events_call (gr_codec R) log_env 0 (ev_run_id event) (fst media))) (snd media))
      (\<lambda>prospective media.
    bind_call (require (prospective \<noteq> []) (DG_RunNotFound (ev_run_id event)), media) (\<lambda>_ media.
    if is_completed_transition (ev_payload event)
    then append_completed R log_env env event goal prospective media
    else bind_call (append_checked R log_env 1 event goal prospective media)
           (\<lambda>_. finish_append R log_env 2 event goal))))"

section \<open>Recording guard outcomes\<close>

text \<open>\<open>guard_authority_projection\<close> of \<open>ovca-observability/src/lib.rs\<close>.\<close>

definition guard_authority_projection :: "durable_approval_evaluation \<Rightarrow> run_guard_projection" where
  "guard_authority_projection evaluation =
    \<lparr>rgp_contract_version = current_version,
     rgp_outcome =
       (case evaluation of
          EvaluationAllow required_gates \<Rightarrow> RunGuardAllow required_gates
        | EvaluationPending r _ \<Rightarrow> RunGuardPause (ae_required_gates (dar_envelope r))
        | EvaluationDeny reasons \<Rightarrow> RunGuardDeny reasons)\<rparr>"

definition evaluate_run_guard_and_record ::
    "('ev, 'ir, 'x, 'y, 'm, 'k, 'sn, 'v) goal_runtime \<Rightarrow> approval_codec \<Rightarrow> log_environment \<Rightarrow>
     environment \<Rightarrow> run_id \<Rightarrow> goal_contract \<Rightarrow> guard_request \<Rightarrow> guard_evaluation_context \<Rightarrow>
     event_stamp \<Rightarrow> media \<Rightarrow>
     (('x, 'y, 'v) durable_goal_error, replayed_run) result \<times> media" where
  "evaluate_run_guard_and_record R A log_env env run_id goal request context stamp media =
    bind_call (on_first (load_goal_run (gr_codec R) log_env 0 run_id goal (fst media)) (snd media))
      (\<lambda>current media.
    bind_call (on_second (with_err DG_Guard (evaluate_and_record A env request context (snd media)))
      (fst media)) (\<lambda>evaluation media.
    append_event R (later_calls 1 log_env) (later_calls 2 env)
      (coordinator_event run_id (rr_event_count (rp_run_record current))
        (rr_last_event_id (rp_run_record current)) stamp (GuardOutcomeRecorded (guard_authority_projection evaluation))) goal media))"

end
