(* ===== verification/Verified_Completion.thy ===== *)
theory Verified_Completion
  imports Verification_Binding Evidence_Bank
begin

text \<open>
  The admission policy of verifier-backed completion
  (\<open>ovca-runtime-core/src/local_verification_completion.rs\<close>): what a completion contract must
  look like, and how the snapshot of a completion lease together with live observations of the
  sources becomes the evidence of a completed goal. Pure code; the snapshot comes from
  \<open>Evidence_Bank\<close>, the observations and the contract from the application.
\<close>

section \<open>Contract, observations and material\<close>

record completion_task =
  cta_behavior :: behavioral_acceptance_contract
  cta_selection :: targeted_rerun_selection
  cta_capabilities :: "capability_definition list"

record completion_contract =
  cco_goal :: goal_contract
  cco_task_ids :: "task_id list"
  cco_tasks :: "completion_task list"

record completion_observation =
  cob_task_id :: task_id
  cob_source_pre_digest :: string
  cob_source_post_digest :: string
  cob_environment_digest :: string

record completion_material =
  vcm_evidence_references :: "evidence_ref list"
  vcm_completion_evidence :: completion_evidence

record completion_error =
  lce_code :: string
  lce_detail :: string

type_synonym 'a completion_result = "(completion_error, 'a) result"

definition completion_invalid :: "string \<Rightarrow> string \<Rightarrow> completion_error" where
  "completion_invalid code detail = \<lparr>lce_code = code, lce_detail = detail\<rparr>"

definition from_verification :: "local_verification_error \<Rightarrow> completion_error" where
  "from_verification e = completion_invalid (lve_code e) (lve_detail e)"

definition strictly_sorted_unique :: "'a::linorder list \<Rightarrow> bool" where
  "strictly_sorted_unique values = (values \<noteq> [] \<and> strictly_sorted values)"

definition task_of :: "completion_task \<Rightarrow> task_id" where
  "task_of task = trs_task_id (cta_selection task)"

section \<open>The contract\<close>

definition check_contract_versions :: "goal_contract \<Rightarrow> unit completion_result" where
  "check_contract_versions goal =
    require (\<not> (gc_contract_version goal \<noteq> local_verification_contract_version
        \<or> pp_contract_version (gc_permission_profile goal) \<noteq> local_verification_contract_version
        \<or> cp_contract_version (gc_completion_precondition goal) \<noteq> local_verification_contract_version))
      (completion_invalid ''unsupported_contract_version''
        ''goal and nested completion contracts must use the current version'')"

definition check_task_set :: "completion_contract \<Rightarrow> unit completion_result" where
  "check_task_set contract =
    checks
      [require (strictly_sorted_unique (cco_task_ids contract))
         (completion_invalid ''noncanonical_completion_tasks''
           ''completion task IDs must be nonempty, strictly sorted, and unique''),
       require (\<not> (length (cco_tasks contract) \<noteq> length (cco_task_ids contract)
           \<or> map task_of (cco_tasks contract) \<noteq> cco_task_ids contract))
         (completion_invalid ''completion_task_set_mismatch''
           ''task policies must exactly match the authoritative task ID set'')]"

definition check_task_binding :: "goal_contract \<Rightarrow> completion_task \<Rightarrow> unit completion_result" where
  "check_task_binding goal task =
    (let i = task_of task in
     checks
       [require (trs_goal_id (cta_selection task) = gc_id goal)
          (completion_invalid ''completion_goal_binding_mismatch'' i),
        require (case bac_binding (cta_behavior task) of
            Bound goal_id task_id \<Rightarrow> goal_id = gc_id goal \<and> task_id = i
          | Unbound \<Rightarrow> False)
          (completion_invalid ''completion_behavior_binding_mismatch'' i)])"

definition check_contract_capability ::
    "rerun_codec \<Rightarrow> capability_definition \<times> selected_capability \<Rightarrow> unit completion_result" where
  "check_contract_capability C entry =
    (let (definition, selected) = entry in
     and_then (map_err from_verification (capability_bytes C definition)) (\<lambda>bytes.
     let digest = verification_sha256_hex bytes in
     require (\<not> (cd_capability_id definition \<noteq> sc_capability_id selected
         \<or> cd_revision definition \<noteq> sc_revision selected \<or> digest \<noteq> sc_record_digest selected))
       (completion_invalid ''completion_capability_selection_mismatch'' (sc_capability_id selected))))"

definition check_contract_capabilities :: "rerun_codec \<Rightarrow> completion_task \<Rightarrow> unit completion_result" where
  "check_contract_capabilities C task =
    (let i = task_of task; selected = trs_capabilities (cta_selection task) in
     and_then (require (\<not> (cta_capabilities task = []
         \<or> \<not> strictly_sorted (map cd_capability_id (cta_capabilities task))))
       (completion_invalid ''noncanonical_completion_capabilities'' i)) (\<lambda>_.
     and_then (checks (map (map_err from_verification \<circ> validate_capability) (cta_capabilities task))) (\<lambda>_.
     and_then (require (length (cta_capabilities task) = length selected)
       (completion_invalid ''completion_capability_set_mismatch'' i)) (\<lambda>_.
     checks (map (check_contract_capability C) (zip (cta_capabilities task) selected))))))"

definition check_contract_task ::
    "bundle_codec \<Rightarrow> goal_contract \<Rightarrow> completion_task \<Rightarrow> unit completion_result" where
  "check_contract_task C goal task =
    and_then (map_err from_verification (verification_behavior_digest C (cta_behavior task))) (\<lambda>behavior_digest.
    and_then (map_err from_verification (validate_selection (bcd_rerun C) (cta_selection task))) (\<lambda>_.
    and_then (check_task_binding goal task) (\<lambda>_.
    and_then (require (\<not> (is_blank (bac_contract_id (cta_behavior task)) \<or> length behavior_digest \<noteq> 64))
      (completion_invalid ''invalid_completion_behavior'' (task_of task))) (\<lambda>_.
    and_then (check_contract_capabilities (bcd_rerun C) task) (\<lambda>_.
    and_then (map_err from_verification (verification_policy_digest C (cta_capabilities task))) (\<lambda>policy_digest.
    require (policy_digest = trs_policy_digest (cta_selection task))
      (completion_invalid ''completion_policy_digest_mismatch'' (task_of task))))))))"

definition validate_local_verification_completion_contract ::
    "bundle_codec \<Rightarrow> completion_contract \<Rightarrow> unit completion_result" where
  "validate_local_verification_completion_contract C contract =
    and_then (check_contract_versions (cco_goal contract)) (\<lambda>_.
    and_then (check_task_set contract) (\<lambda>_.
    checks (map (check_contract_task C (cco_goal contract)) (cco_tasks contract))))"

text \<open>A \<open>BTreeSet\<close> as the sorted list of its elements.\<close>

definition completion_environment_names :: "completion_task \<Rightarrow> string list completion_result" where
  "completion_environment_names task =
    and_then (checks (map (map_err from_verification \<circ> validate_capability) (cta_capabilities task))) (\<lambda>_.
    Ok (ordered_set (concat (map (bm_keys \<circ> vcm_environment_names) (concat (map cd_commands (cta_capabilities task)))))))"

definition completion_evidence_keys ::
    "bundle_codec \<Rightarrow> completion_contract \<Rightarrow> run_id \<Rightarrow> evidence_key list completion_result" where
  "completion_evidence_keys C contract run_id =
    and_then (validate_local_verification_completion_contract C contract) (\<lambda>_.
    and_then (require (\<not> list_ex (\<lambda>task. trs_run_id (cta_selection task) \<noteq> run_id) (cco_tasks contract))
      (completion_invalid ''completion_run_binding_mismatch''
        ''every task selection must bind the exact run'')) (\<lambda>_.
    Ok (map (\<lambda>i. \<lparr>ek_run_id = run_id, ek_goal_id = gc_id (cco_goal contract), ek_task_id = i\<rparr>)
      (cco_task_ids contract))))"

section \<open>Admission\<close>

definition check_admission_inputs ::
    "completion_contract \<Rightarrow> run_id \<Rightarrow> task_id list \<Rightarrow> completion_admission_snapshot \<Rightarrow>
     completion_observation list \<Rightarrow> unit completion_result" where
  "check_admission_inputs contract run_id declared snapshot observations =
    (let ids = cco_task_ids contract in
     checks
       [require (declared = ids)
          (completion_invalid ''declared_completion_task_set_mismatch''
            ''persisted run task IDs differ from the authoritative completion policy''),
        require (\<not> list_ex (\<lambda>task. trs_run_id (cta_selection task) \<noteq> run_id) (cco_tasks contract))
          (completion_invalid ''completion_run_binding_mismatch''
            ''every task selection must bind the persisted run''),
        require (\<not> (length observations \<noteq> length ids \<or> map cob_task_id observations \<noteq> ids))
          (completion_invalid ''completion_observation_set_mismatch''
            ''live observations must exactly match the authoritative task set''),
        require (\<not> (length (cas_bundles snapshot) \<noteq> length ids
            \<or> map (\<lambda>bundle. ek_task_id (ec_key (cab_current bundle))) (cas_bundles snapshot) \<noteq> ids))
          (completion_invalid ''completion_bundle_set_mismatch''
            ''guarded current bundles must exactly match the authoritative task set'')])"

definition registry_row :: "completion_admission_capability \<Rightarrow> capability_registry_row" where
  "registry_row capability =
    \<lparr>crr_definition = car_definition (cac_record capability),
     crr_record_digest = cc_record_digest (cac_current capability),
     crr_generation = ct_generation (cc_token (cac_current capability)),
     crr_state_digest = ct_state_digest (cc_token (cac_current capability))\<rparr>"

definition current_capabilities_of ::
    "completion_admission_snapshot \<Rightarrow> (string, capability_current \<times> capability_record) btree_map" where
  "current_capabilities_of snapshot =
    bm_collect (map (\<lambda>c. (cc_capability_id (cac_current c), (cac_current c, cac_record c)))
      (cas_capabilities snapshot))"

definition check_guarded_binding ::
    "completion_contract \<Rightarrow> run_id \<Rightarrow> completion_observation \<Rightarrow> completion_admission_bundle \<Rightarrow> task_id \<Rightarrow>
     unit completion_result" where
  "check_guarded_binding contract run_id observation guarded expected =
    (let key = ec_key (cab_current guarded); bundle = bur_bundle (cab_record guarded);
         goal_id = gc_id (cco_goal contract) in
     require (\<not> (cob_task_id observation \<noteq> expected \<or> ek_run_id key \<noteq> run_id \<or> ek_goal_id key \<noteq> goal_id
         \<or> ek_task_id key \<noteq> expected \<or> vb_run_id bundle \<noteq> run_id \<or> vb_goal_id bundle \<noteq> goal_id
         \<or> vb_task_id bundle \<noteq> expected))
       (completion_invalid ''guarded_completion_binding_mismatch'' expected))"

definition rerun_request_of :: "targeted_rerun_selection \<Rightarrow> targeted_rerun_request" where
  "rerun_request_of selection =
    \<lparr>trr_contract_version = trs_contract_version selection, trr_run_id = trs_run_id selection,
     trr_goal_id = trs_goal_id selection, trr_task_id = trs_task_id selection,
     trr_source_fingerprint = trs_source_fingerprint selection,
     trr_policy_digest = trs_policy_digest selection,
     trr_changed_paths = trs_changed_path_manifest selection,
     trr_unknown_path_policy = trs_unknown_path_policy selection\<rparr>"

definition check_current_capability ::
    "(string, capability_current \<times> capability_record) btree_map \<Rightarrow>
     capability_definition \<times> selected_capability \<Rightarrow> unit completion_result" where
  "check_current_capability current_capabilities entry =
    (let (definition, selected) = entry in
     and_then (ok_or (bm_get current_capabilities (sc_capability_id selected))
       (completion_invalid ''missing_current_completion_capability'' (sc_capability_id selected))) (\<lambda>found.
     let (current, saved) = found in
     require (\<not> (cc_revision current \<noteq> sc_revision selected
         \<or> cc_record_digest current \<noteq> sc_record_digest selected
         \<or> car_digest saved \<noteq> sc_record_digest selected \<or> car_definition saved \<noteq> definition))
       (completion_invalid ''stale_completion_capability'' (sc_capability_id selected))))"

definition check_observation ::
    "completion_task \<Rightarrow> completion_observation \<Rightarrow> string \<Rightarrow> task_id \<Rightarrow> unit completion_result" where
  "check_observation task observation policy_digest expected =
    require (\<not> (trs_policy_digest (cta_selection task) \<noteq> policy_digest
        \<or> trs_source_fingerprint (cta_selection task) \<noteq> cob_source_pre_digest observation
        \<or> cob_source_pre_digest observation \<noteq> cob_source_post_digest observation))
      (completion_invalid ''stale_completion_observation'' expected)"

text \<open>The proof of currency is built here; none is taken from a caller.\<close>

definition completion_proof ::
    "completion_contract \<Rightarrow> run_id \<Rightarrow> task_id \<Rightarrow> completion_admission_bundle \<Rightarrow> completion_observation \<Rightarrow>
     string \<Rightarrow> string \<Rightarrow> string \<Rightarrow> string \<Rightarrow> current_bundle_proof" where
  "completion_proof contract run_id expected guarded observation behavior capability_set command policy =
    \<lparr>cbp_contract_version = local_verification_contract_version,
     cbp_bundle_digest = bur_digest (cab_record guarded),
     cbp_checksum_verified = True, cbp_integrity_verified = True, cbp_current_pointer_verified = True,
     cbp_current_pointer_digest = ec_record_digest (cab_current guarded),
     cbp_expected_run_id = run_id, cbp_expected_goal_id = gc_id (cco_goal contract),
     cbp_expected_task_id = expected, cbp_expected_behavior_contract_digest = behavior,
     cbp_expected_capability_set_digest = capability_set, cbp_expected_command_digest = command,
     cbp_expected_policy_digest = policy,
     cbp_expected_source_digest = cob_source_pre_digest observation,
     cbp_expected_environment_digest = cob_environment_digest observation\<rparr>"

definition admit_completion_task ::
    "bundle_codec \<Rightarrow> completion_contract \<Rightarrow> run_id \<Rightarrow> capability_registry_snapshot \<Rightarrow>
     (string, capability_current \<times> capability_record) btree_map \<Rightarrow> admitted_task_evidence list \<Rightarrow>
     completion_task \<times> completion_observation \<times> completion_admission_bundle \<times> task_id \<Rightarrow>
     admitted_task_evidence list completion_result" where
  "admit_completion_task C contract run_id registry current_capabilities admitted entry =
    (let (task, observation, guarded, expected) = entry; selection = cta_selection task in
     and_then (check_guarded_binding contract run_id observation guarded expected) (\<lambda>_.
     and_then (require (trs_registry_snapshot_digest selection = crs_registry_snapshot_digest registry)
       (completion_invalid ''completion_registry_snapshot_mismatch'' expected)) (\<lambda>_.
     and_then (map_err from_verification
       (validate_against (bcd_rerun C) selection (rerun_request_of selection) registry)) (\<lambda>_.
     and_then (checks (map (check_current_capability current_capabilities)
       (zip (cta_capabilities task) (trs_capabilities selection)))) (\<lambda>_.
     and_then (map_err from_verification (verification_behavior_digest C (cta_behavior task))) (\<lambda>behavior.
     and_then (map_err from_verification (verification_capability_set_digest C selection)) (\<lambda>capability_set.
     and_then (map_err from_verification (verification_command_set_digest C (cta_capabilities task))) (\<lambda>command.
     and_then (map_err from_verification (verification_policy_digest C (cta_capabilities task))) (\<lambda>policy.
     and_then (check_observation task observation policy expected) (\<lambda>_.
     and_then (map_err from_verification (admit_current_pass_bundle (cta_behavior task)
       (cta_capabilities task) (bur_bundle (cab_record guarded))
       (completion_proof contract run_id expected guarded observation behavior capability_set command policy)))
       (\<lambda>evidence.
     Ok (admitted @ [evidence]))))))))))))"

definition admit_local_verification_completion ::
    "bundle_codec \<Rightarrow> completion_contract \<Rightarrow> run_id \<Rightarrow> task_id list \<Rightarrow> completion_admission_snapshot \<Rightarrow>
     completion_observation list \<Rightarrow> completion_material completion_result" where
  "admit_local_verification_completion C contract run_id declared snapshot observations =
    and_then (validate_local_verification_completion_contract C contract) (\<lambda>_.
    and_then (check_admission_inputs contract run_id declared snapshot observations) (\<lambda>_.
    and_then (map_err from_verification
      (new_snapshot (bcd_rerun C) (map registry_row (cas_capabilities snapshot)))) (\<lambda>registry.
    and_then (try_fold (admit_completion_task C contract run_id registry (current_capabilities_of snapshot)) []
      (zip (cco_tasks contract) (zip observations (zip (cas_bundles snapshot) (cco_task_ids contract)))))
      (\<lambda>admitted.
    and_then (map_err from_verification
      (aggregate_completion_evidence (cco_goal contract) run_id admitted)) (\<lambda>completion_evidence.
    Ok \<lparr>vcm_evidence_references = sort_key er_id (map ate_evidence_ref admitted),
      vcm_completion_evidence = completion_evidence\<rparr>)))))"

section \<open>Persisted material\<close>

definition check_persisted_reference ::
    "(evidence_id, evidence_ref) btree_map \<Rightarrow> evidence_ref \<Rightarrow> unit completion_result" where
  "check_persisted_reference catalog expected =
    require (bm_get catalog (er_id expected) = Some expected)
      (completion_invalid ''persisted_evidence_reference_mismatch'' (er_id expected))"

definition validate_persisted_completion_material ::
    "completion_material \<Rightarrow> evidence_ref list \<Rightarrow> completion_evidence option \<Rightarrow> unit completion_result" where
  "validate_persisted_completion_material expected references completion =
    (let catalog = bm_collect (map (\<lambda>reference. (er_id reference, reference)) references) in
     and_then (checks (map (check_persisted_reference catalog) (vcm_evidence_references expected))) (\<lambda>_.
     require (completion = Some (vcm_completion_evidence expected))
       (completion_invalid ''persisted_completion_evidence_mismatch''
         ''recorded completion evidence differs from current admitted material'')))"

end
