(* ===== verification/Source_Snapshot.thy ===== *)
theory Source_Snapshot
  imports "HOL-Library.Multiset" Verification_Binding Run_Event_Log
begin

text \<open>
  The frozen source snapshot of \<open>ovca-verifier/src/snapshot.rs\<close>: a manifest of logical paths with
  the digests of their files, the inspection of a directory tree against it, and the copy of the
  manifest's files into a private directory between two inspections of the source. A directory
  tree is a datatype; the source tree is given at each moment it is looked at, since other
  processes may change it in between. What the operating system refuses is an argument.
\<close>

section \<open>Trees\<close>

text \<open>
  Entries in the order in which the system lists them; a link (or reparse point) has the node it
  resolves to, if any, and a device or socket is neither a directory nor a file.
\<close>

datatype fs_node =
    FsFile "byte list"
  | FsDir "(string \<times> fs_node) list"
  | FsLink "fs_node option"
  | FsDevice

fun resolve :: "fs_node \<Rightarrow> string list \<Rightarrow> fs_node option" where
  "resolve (FsLink (Some target)) parts = resolve target parts"
| "resolve (FsLink None) parts = None"
| "resolve node [] = Some node"
| "resolve (FsDir entries) (p # ps) =
     (case filter (\<lambda>(name, _). name = p) entries of [] \<Rightarrow> None | (_, node) # _ \<Rightarrow> resolve node ps)"
| "resolve _ (p # ps) = None"

text \<open>The calls that may fail, by path below the root.\<close>

datatype fs_call = ReadDirectory | ReadMetadata | OpenFile | ReadContents | CreateFile | CreateDirectory | Canonicalize

type_synonym fs_io = "fs_call \<Rightarrow> string list \<Rightarrow> bool"

section \<open>Manifests\<close>

record source_file =
  sf_logical_path :: string
  sf_sha256 :: string

record source_manifest =
  sm_files :: "source_file list"

datatype snapshot_error =
    SN_InvalidManifest
  | SN_InvalidSourceRoot
  | SN_InvalidSnapshotRoot
  | SN_SourceMismatch
  | SN_SourceChanged
  | SN_SnapshotMismatch
  | SN_Io

type_synonym 'a snapshot_result = "(snapshot_error, 'a) result"

definition snapshot_invalid :: "local_verification_error \<Rightarrow> snapshot_error" where
  "snapshot_invalid e = SN_InvalidManifest"

definition check_manifest_file :: "string option \<Rightarrow> source_file \<Rightarrow> string option snapshot_result" where
  "check_manifest_file prior file =
    and_then (map_err snapshot_invalid (validate_logical_path (sf_logical_path file))) (\<lambda>_.
    and_then (require (case prior of None \<Rightarrow> True | Some value \<Rightarrow> \<not> value \<ge> sf_logical_path file)
      SN_InvalidManifest) (\<lambda>_.
    and_then (require (length (sf_sha256 file) = 64 \<and> list_all lower_hex_digit (sf_sha256 file))
      SN_InvalidManifest) (\<lambda>_.
    Ok (Some (sf_logical_path file)))))"

definition validate_source_manifest :: "source_manifest \<Rightarrow> unit snapshot_result" where
  "validate_source_manifest self =
    and_then (require (sm_files self \<noteq> []) SN_InvalidManifest) (\<lambda>_.
    and_then (try_fold check_manifest_file None (sm_files self)) (\<lambda>_. Ok ()))"

text \<open>The encoder of the payload (version and files) is an argument.\<close>

type_synonym manifest_encoder = "string \<times> source_file list \<Rightarrow> string + byte list"

definition source_manifest_version :: string where
  "source_manifest_version = ''ovca.source-manifest.v1''"

definition source_manifest_bytes :: "manifest_encoder \<Rightarrow> source_manifest \<Rightarrow> byte list snapshot_result" where
  "source_manifest_bytes encode self =
    and_then (validate_source_manifest self) (\<lambda>_.
    case encode (source_manifest_version, sm_files self) of
      Inl _ \<Rightarrow> Err SN_Io
    | Inr bytes \<Rightarrow> Ok (bytes @ [10]))"

definition source_fingerprint :: "manifest_encoder \<Rightarrow> source_manifest \<Rightarrow> string snapshot_result" where
  "source_fingerprint encode self =
    and_then (source_manifest_bytes encode self) (\<lambda>bytes. Ok (verification_sha256_hex bytes))"

section \<open>Inspection\<close>

datatype tree_kind = SourceTree | SnapshotTree

primrec tree_mismatch :: "tree_kind \<Rightarrow> snapshot_error" where
  "tree_mismatch SourceTree = SN_SourceMismatch"
| "tree_mismatch SnapshotTree = SN_SnapshotMismatch"

text \<open>\<open>Vec::join\<close> with \<open>/\<close>.\<close>

fun join_path :: "string list \<Rightarrow> string" where
  "join_path [] = ''''"
| "join_path [p] = p"
| "join_path (p # q # ps) = p @ CHR ''/'' # join_path (q # ps)"

definition visit_file ::
    "fs_io \<Rightarrow> tree_kind \<Rightarrow> string list \<Rightarrow> byte list \<Rightarrow> source_file snapshot_result" where
  "visit_file io kind path contents =
    and_then (require (list_all is_utf8 path) (tree_mismatch kind)) (\<lambda>_.
    and_then (map_err snapshot_invalid (validate_logical_path (join_path path))) (\<lambda>_.
    and_then (require (\<not> io ReadContents path) SN_Io) (\<lambda>_.
    Ok \<lparr>sf_logical_path = join_path path, sf_sha256 = verification_sha256_hex contents\<rparr>)))"

text \<open>The sizes that shrink when a directory is entered.\<close>

fun node_size :: "fs_node \<Rightarrow> nat" where
  "node_size (FsDir entries) = Suc (sum_list (map (\<lambda>(_, node). Suc (node_size node)) entries))"
| "node_size _ = 0"

definition entries_size :: "(string \<times> fs_node) list \<Rightarrow> nat" where
  "entries_size entries = sum_list (map (\<lambda>(_, node). Suc (node_size node)) entries)"

lemma node_size_dir: "node_size (FsDir entries) = Suc (entries_size entries)"
  by (simp add: entries_size_def)

lemma entries_size_sort: "entries_size (sort_key fst entries) = entries_size entries"
  by (simp add: entries_size_def flip: sum_mset_sum_list)

lemma entries_size_simps [simp]:
  "entries_size [] = 0" "entries_size (e # es) = Suc (node_size (snd e)) + entries_size es"
  by (simp_all add: entries_size_def case_prod_unfold)

function visit_entries ::
    "fs_io \<Rightarrow> tree_kind \<Rightarrow> string list \<Rightarrow> (string \<times> fs_node) list \<Rightarrow> source_file list snapshot_result" where
  "visit_entries io kind path [] = Ok []"
| "visit_entries io kind path ((name, node) # rest) =
    and_then (require (\<not> io ReadMetadata (path @ [name])) SN_Io) (\<lambda>_.
    and_then (case node of
        FsLink _ \<Rightarrow> Err (tree_mismatch kind)
      | FsDevice \<Rightarrow> Err (tree_mismatch kind)
      | FsFile contents \<Rightarrow>
          and_then (visit_file io kind (path @ [name]) contents) (\<lambda>file. Ok [file])
      | FsDir entries \<Rightarrow>
          and_then (require (\<not> io ReadDirectory (path @ [name])) SN_Io) (\<lambda>_.
          visit_entries io kind (path @ [name]) (sort_key fst entries))) (\<lambda>found.
    and_then (visit_entries io kind path rest) (\<lambda>others. Ok (found @ others))))"
  by pat_completeness auto

termination visit_entries
  by (relation "measure (\<lambda>(_, _, _, entries). entries_size entries)")
    (simp_all add: entries_size_sort node_size_dir del: node_size.simps(1))

definition visit_tree :: "fs_io \<Rightarrow> tree_kind \<Rightarrow> fs_node \<Rightarrow> source_file list snapshot_result" where
  "visit_tree io kind root =
    and_then (require (\<not> io ReadDirectory []) SN_Io) (\<lambda>_.
    case resolve root [] of
      Some (FsDir entries) \<Rightarrow> visit_entries io kind [] (sort_key fst entries)
    | _ \<Rightarrow> Err SN_Io)"

definition inspect_tree ::
    "manifest_encoder \<Rightarrow> fs_io \<Rightarrow> source_manifest \<Rightarrow> tree_kind \<Rightarrow> fs_node \<Rightarrow> string snapshot_result" where
  "inspect_tree encode io manifest kind root =
    and_then (visit_tree io kind root) (\<lambda>discovered.
    and_then (require (sort_key sf_logical_path discovered = sm_files manifest) (tree_mismatch kind)) (\<lambda>_.
    source_fingerprint encode manifest))"

section \<open>Roots\<close>

text \<open>
  A root directory: whether its path is absolute, and what \<open>symlink_metadata\<close> finds there.
\<close>

record fs_root =
  fr_absolute :: bool
  fr_node :: "fs_node option"

definition root_directory :: "fs_root \<Rightarrow> (string \<times> fs_node) list option" where
  "root_directory root = (case fr_node root of Some (FsDir entries) \<Rightarrow> Some entries | _ \<Rightarrow> None)"

definition validate_root :: "fs_io \<Rightarrow> fs_root \<Rightarrow> bool \<Rightarrow> unit snapshot_result" where
  "validate_root io root require_empty =
    (let refused = (if require_empty then SN_InvalidSnapshotRoot else SN_InvalidSourceRoot) in
     and_then (require (fr_absolute root) refused) (\<lambda>_.
     and_then (ok_or (root_directory root) refused) (\<lambda>entries.
     if require_empty
     then and_then (require (\<not> io ReadDirectory []) SN_Io) (\<lambda>_.
       require (entries = []) SN_InvalidSnapshotRoot)
     else Ok ())))"

text \<open>\<open>nested\<close>: the canonical roots are equal or one lies below the other.\<close>

definition preflight_roots ::
    "manifest_encoder \<Rightarrow> fs_io \<Rightarrow> fs_io \<Rightarrow> bool \<Rightarrow> source_manifest \<Rightarrow> fs_root \<Rightarrow> fs_root \<Rightarrow>
     string snapshot_result" where
  "preflight_roots encode io snapshot_io nested self source_root snapshot_root =
    and_then (validate_source_manifest self) (\<lambda>_.
    and_then (validate_root io source_root False) (\<lambda>_.
    and_then (validate_root snapshot_io snapshot_root True) (\<lambda>_.
    and_then (require (\<not> io Canonicalize []) SN_Io) (\<lambda>_.
    and_then (require (\<not> snapshot_io Canonicalize []) SN_Io) (\<lambda>_.
    and_then (require (\<not> nested) SN_InvalidSnapshotRoot) (\<lambda>_.
    and_then (ok_or (fr_node source_root) SN_Io) (\<lambda>source.
    inspect_tree encode io self SourceTree source)))))))"

section \<open>The copy\<close>

text \<open>The snapshot directory is private: only the copy below writes to it.\<close>

fun replace_entry :: "string \<Rightarrow> fs_node \<Rightarrow> (string \<times> fs_node) list \<Rightarrow> (string \<times> fs_node) list" where
  "replace_entry name node [] = [(name, node)]"
| "replace_entry name node ((n, x) # rest) =
     (if n = name then (n, node) # rest else (n, x) # replace_entry name node rest)"

fun ensure_destination_parent ::
    "fs_io \<Rightarrow> string list \<Rightarrow> string list \<Rightarrow> (string \<times> fs_node) list \<Rightarrow>
     (string \<times> fs_node) list snapshot_result" where
  "ensure_destination_parent io path (part # next_part # parts) entries =
    (let current = path @ [part] in
     and_then (require (\<not> io ReadMetadata current) SN_Io) (\<lambda>_.
     and_then (case map_of entries part of
         Some (FsDir inner) \<Rightarrow> Ok inner
       | Some _ \<Rightarrow> Err SN_SnapshotMismatch
       | None \<Rightarrow> and_then (require (\<not> io CreateDirectory current) SN_Io) (\<lambda>_. Ok [])) (\<lambda>inner.
     and_then (ensure_destination_parent io current (next_part # parts) inner) (\<lambda>inner'.
     Ok (replace_entry part (FsDir inner') entries)))))"
| "ensure_destination_parent io path parts entries = Ok entries"

text \<open>\<open>File::create_new\<close> followed by writing all of the input.\<close>

fun create_file ::
    "string list \<Rightarrow> byte list \<Rightarrow> (string \<times> fs_node) list \<Rightarrow> (string \<times> fs_node) list snapshot_result" where
  "create_file [] contents entries = Err SN_Io"
| "create_file [name] contents entries =
    (if map_of entries name = None then Ok (replace_entry name (FsFile contents) entries) else Err SN_Io)"
| "create_file (part # next_part # parts) contents entries =
    (case map_of entries part of
       Some (FsDir inner) \<Rightarrow>
         and_then (create_file (next_part # parts) contents inner) (\<lambda>inner'.
         Ok (replace_entry part (FsDir inner') entries))
     | _ \<Rightarrow> Err SN_Io)"

definition join_logical :: "string \<Rightarrow> string list" where
  "join_logical logical = split_on CHR ''/'' logical"

text \<open>
  The source as it is when the file is opened. Opening follows links; what is opened need not be
  a file, then reading fails.
\<close>

definition open_source :: "fs_io \<Rightarrow> fs_node \<Rightarrow> string list \<Rightarrow> fs_node snapshot_result" where
  "open_source io source parts =
    and_then (require (\<not> io OpenFile parts) SN_SourceChanged) (\<lambda>_.
    ok_or (resolve source parts) SN_SourceChanged)"

definition copy_contents :: "fs_io \<Rightarrow> string list \<Rightarrow> fs_node \<Rightarrow> byte list snapshot_result" where
  "copy_contents io parts input =
    and_then (require (\<not> io ReadContents parts) SN_Io) (\<lambda>_.
    case input of FsFile contents \<Rightarrow> Ok contents | _ \<Rightarrow> Err SN_Io)"

definition copy_file ::
    "fs_io \<Rightarrow> fs_io \<Rightarrow> (string \<times> fs_node) list \<Rightarrow> fs_node \<times> source_file \<Rightarrow>
     (string \<times> fs_node) list snapshot_result" where
  "copy_file io snapshot_io entries step =
    (let (source, file) = step; parts = join_logical (sf_logical_path file) in
     and_then (ensure_destination_parent snapshot_io [] parts entries) (\<lambda>entries1.
     and_then (open_source io source parts) (\<lambda>input.
     and_then (require (\<not> snapshot_io CreateFile parts) SN_Io) (\<lambda>_.
     and_then (copy_contents io parts input) (\<lambda>contents.
     and_then (create_file parts contents entries1) (\<lambda>entries2.
     and_then (require (\<not> snapshot_io ReadContents parts) SN_Io) (\<lambda>_.
     and_then (require (verification_sha256_hex contents = sf_sha256 file) SN_SourceChanged) (\<lambda>_.
     Ok entries2))))))))"

definition source_changed :: "snapshot_error \<Rightarrow> snapshot_error" where
  "source_changed e = (if e = SN_SourceMismatch then SN_SourceChanged else e)"

record frozen_snapshot =
  fz_manifest :: source_manifest
  fz_entries :: "(string \<times> fs_node) list"
  fz_source_pre :: string

text \<open>
  \<open>sources ! i\<close> is the source tree when the \<open>i\<close>-th file is opened, \<open>after\<close> the tree that the
  inspection after the copy finds; \<open>io 0\<close>, \<open>io 1\<close> and \<open>io 2\<close> are the failures on the source before,
  during and after the copy.
\<close>

definition materialize ::
    "manifest_encoder \<Rightarrow> (nat \<Rightarrow> fs_io) \<Rightarrow> fs_io \<Rightarrow> bool \<Rightarrow> fs_root \<Rightarrow> fs_root \<Rightarrow> (nat \<Rightarrow> fs_node) \<Rightarrow>
     fs_node \<Rightarrow> source_manifest \<Rightarrow> frozen_snapshot snapshot_result" where
  "materialize encode io snapshot_io nested source_root snapshot_root sources after manifest =
    and_then (preflight_roots encode (io 0) snapshot_io nested manifest source_root snapshot_root) (\<lambda>source_pre.
    and_then (try_fold (copy_file (io 1) snapshot_io) []
      (map (\<lambda>(i, file). (sources i, file)) (enumerate 0 (sm_files manifest)))) (\<lambda>entries.
    and_then (map_err source_changed (inspect_tree encode (io 2) manifest SourceTree after)) (\<lambda>source_post.
    and_then (require (source_pre = source_post) SN_SourceChanged) (\<lambda>_.
    and_then (inspect_tree encode snapshot_io manifest SnapshotTree (FsDir entries)) (\<lambda>_.
    Ok \<lparr>fz_manifest = manifest, fz_entries = entries, fz_source_pre = source_pre\<rparr>)))))"

definition source_pre_fingerprint :: "frozen_snapshot \<Rightarrow> string" where
  "source_pre_fingerprint self = fz_source_pre self"

text \<open>The source as it is when it is inspected once more.\<close>

definition source_post_fingerprint ::
    "manifest_encoder \<Rightarrow> fs_io \<Rightarrow> frozen_snapshot \<Rightarrow> fs_node \<Rightarrow> string snapshot_result" where
  "source_post_fingerprint encode io self source =
    map_err source_changed (inspect_tree encode io (fz_manifest self) SourceTree source)"

definition verify_snapshot_integrity ::
    "manifest_encoder \<Rightarrow> fs_io \<Rightarrow> frozen_snapshot \<Rightarrow> string snapshot_result" where
  "verify_snapshot_integrity encode io self =
    inspect_tree encode io (fz_manifest self) SnapshotTree (FsDir (fz_entries self))"

section \<open>What an inspection accepts\<close>

inductive holds_file :: "(string \<times> fs_node) list \<Rightarrow> string list \<Rightarrow> byte list \<Rightarrow> bool" where
  file_here: "(name, FsFile contents) \<in> set entries \<Longrightarrow> holds_file entries [name] contents"
| file_below: "(name, FsDir inner) \<in> set entries \<Longrightarrow> holds_file inner path contents \<Longrightarrow>
    holds_file entries (name # path) contents"

inductive holds_other :: "(string \<times> fs_node) list \<Rightarrow> string list \<Rightarrow> bool" where
  link_here: "(name, FsLink target) \<in> set entries \<Longrightarrow> holds_other entries [name]"
| device_here: "(name, FsDevice) \<in> set entries \<Longrightarrow> holds_other entries [name]"
| other_below: "(name, FsDir inner) \<in> set entries \<Longrightarrow> holds_other inner path \<Longrightarrow>
    holds_other entries (name # path)"

inductive_cases file_entry: "holds_file entries path contents"
inductive_cases other_entry: "holds_other entries path"

text \<open>The files below a path, as the visit reports them.\<close>

definition listed :: "string list \<Rightarrow> (string \<times> fs_node) list \<Rightarrow> source_file set" where
  "listed path entries =
    (\<lambda>(below, contents). \<lparr>sf_logical_path = join_path (path @ below),
       sf_sha256 = verification_sha256_hex contents\<rparr>) ` {(below, contents). holds_file entries below contents}"

text \<open>A directory holds exactly the files of the manifest, by path and digest, and nothing else.\<close>

definition tree_matches :: "source_manifest \<Rightarrow> (string \<times> fs_node) list \<Rightarrow> bool" where
  "tree_matches manifest entries \<longleftrightarrow>
     set (sm_files manifest) = listed [] entries
   \<and> (\<forall>path. \<not> holds_other entries path)"

lemma holds_file_mono: "set entries \<subseteq> set entries' \<Longrightarrow> holds_file entries path contents \<Longrightarrow> holds_file entries' path contents"
  by (erule file_entry) (auto intro: file_here file_below)

lemma holds_other_mono: "set entries \<subseteq> set entries' \<Longrightarrow> holds_other entries path \<Longrightarrow> holds_other entries' path"
  by (erule other_entry) (auto intro: link_here device_here other_below)

lemma holds_file_cong: "set entries = set entries' \<Longrightarrow> holds_file entries = holds_file entries'"
  by (intro ext iffI) (auto elim: holds_file_mono [rotated])

lemma holds_other_cong: "set entries = set entries' \<Longrightarrow> holds_other entries = holds_other entries'"
  by (intro ext iffI) (auto elim: holds_other_mono [rotated])

lemma holds_sorted [simp]:
  "holds_file (sort_key fst entries) = holds_file entries" "holds_other (sort_key fst entries) = holds_other entries"
  by (rule holds_file_cong holds_other_cong; simp)+

lemma holds_file_Nil [simp]: "\<not> holds_file [] path contents"
  by (auto elim: file_entry)

lemma holds_other_Nil [simp]: "\<not> holds_other [] path"
  by (auto elim: other_entry)

lemma holds_file_Cons:
  "holds_file ((name, node) # rest) path contents \<longleftrightarrow>
     (case node of
        FsFile c \<Rightarrow> path = [name] \<and> contents = c
      | FsDir inner \<Rightarrow> (\<exists>below. path = name # below \<and> holds_file inner below contents)
      | _ \<Rightarrow> False) \<or> holds_file rest path contents"
proof
  assume "holds_file ((name, node) # rest) path contents"
  then show "(case node of
        FsFile c \<Rightarrow> path = [name] \<and> contents = c
      | FsDir inner \<Rightarrow> (\<exists>below. path = name # below \<and> holds_file inner below contents)
      | _ \<Rightarrow> False) \<or> holds_file rest path contents"
    by (rule file_entry) (auto intro: file_here file_below)
next
  assume "(case node of
        FsFile c \<Rightarrow> path = [name] \<and> contents = c
      | FsDir inner \<Rightarrow> (\<exists>below. path = name # below \<and> holds_file inner below contents)
      | _ \<Rightarrow> False) \<or> holds_file rest path contents"
  then show "holds_file ((name, node) # rest) path contents"
    by (cases node) (auto intro: file_here file_below holds_file_mono [of rest])
qed

lemma holds_other_Cons:
  "holds_other ((name, node) # rest) path \<longleftrightarrow>
     (case node of
        FsFile c \<Rightarrow> False
      | FsDir inner \<Rightarrow> (\<exists>below. path = name # below \<and> holds_other inner below)
      | _ \<Rightarrow> path = [name]) \<or> holds_other rest path"
proof
  assume "holds_other ((name, node) # rest) path"
  then show "(case node of
        FsFile c \<Rightarrow> False
      | FsDir inner \<Rightarrow> (\<exists>below. path = name # below \<and> holds_other inner below)
      | _ \<Rightarrow> path = [name]) \<or> holds_other rest path"
    by (rule other_entry) (auto intro: link_here device_here other_below)
next
  assume "(case node of
        FsFile c \<Rightarrow> False
      | FsDir inner \<Rightarrow> (\<exists>below. path = name # below \<and> holds_other inner below)
      | _ \<Rightarrow> path = [name]) \<or> holds_other rest path"
  then show "holds_other ((name, node) # rest) path"
    by (cases node) (auto intro: link_here device_here other_below holds_other_mono [of rest])
qed

lemma listed_Nil [simp]: "listed path [] = {}"
  by (simp add: listed_def)

lemma listed_Cons:
  "listed path ((name, node) # rest) =
     (case node of
        FsFile c \<Rightarrow> {\<lparr>sf_logical_path = join_path (path @ [name]), sf_sha256 = verification_sha256_hex c\<rparr>}
      | FsDir inner \<Rightarrow> listed (path @ [name]) inner
      | _ \<Rightarrow> {}) \<union> listed path rest"
proof -
  have split: "{(b, c). holds_file ((name, node) # rest) b c} =
      (case node of
         FsFile c \<Rightarrow> {([name], c)}
       | FsDir inner \<Rightarrow> (\<lambda>(b, c). (name # b, c)) ` {(b, c). holds_file inner b c}
       | _ \<Rightarrow> {}) \<union> {(b, c). holds_file rest b c}"
    unfolding holds_file_Cons by (cases node) auto
  show ?thesis
    unfolding listed_def split image_Un
    by (cases node) (simp_all add: image_image case_prod_unfold)
qed

lemma listed_sorted [simp]: "listed path (sort_key fst entries) = listed path entries"
  by (simp add: listed_def)

lemma visit_entries_Ok:
  "visit_entries io kind path entries = Ok files \<Longrightarrow>
   set files = listed path entries \<and> (\<forall>p. \<not> holds_other entries p)"
proof (induction io kind path entries arbitrary: files rule: visit_entries.induct)
  case (1 io kind path)
  then show ?case by simp
next
  case (2 io kind path name node rest)
  obtain found others where visit: "files = found @ others" "visit_entries io kind path rest = Ok others"
    and found: "(case node of
        FsLink _ \<Rightarrow> Err (tree_mismatch kind)
      | FsDevice \<Rightarrow> Err (tree_mismatch kind)
      | FsFile contents \<Rightarrow>
          and_then (visit_file io kind (path @ [name]) contents) (\<lambda>file. Ok [file])
      | FsDir entries \<Rightarrow>
          and_then (require (\<not> io ReadDirectory (path @ [name])) SN_Io) (\<lambda>_.
          visit_entries io kind (path @ [name]) (sort_key fst entries))) = Ok found"
    and step: "require (\<not> io ReadMetadata (path @ [name])) SN_Io = Ok ()"
    using "2.prems" by (auto simp: result_iff)
  note rest = "2.IH"(2) [OF visit(2)]
  show ?case
  proof (cases node)
    case (FsFile contents)
    then show ?thesis using found rest visit(1)
      by (auto simp: listed_Cons holds_other_Cons visit_file_def result_iff)
  next
    case (FsDir inner)
    then have "visit_entries io kind (path @ [name]) (sort_key fst inner) = Ok found"
      using found by (simp add: result_iff)
    then have "set found = listed (path @ [name]) inner \<and> (\<forall>p. \<not> holds_other inner p)"
      using "2.IH"(1) [OF FsDir] by simp
    then show ?thesis using FsDir rest visit(1) by (auto simp: listed_Cons holds_other_Cons)
  qed (use found in auto)
qed

lemma visit_tree_Ok:
  assumes "visit_tree io kind root = Ok files"
  shows "\<exists>entries. resolve root [] = Some (FsDir entries) \<and> set files = listed [] entries
    \<and> (\<forall>p. \<not> holds_other entries p)"
proof -
  obtain entries where "resolve root [] = Some (FsDir entries)"
      "visit_entries io kind [] (sort_key fst entries) = Ok files"
    using assms by (auto simp: visit_tree_def result_iff split: option.splits fs_node.splits)
  then show ?thesis using visit_entries_Ok by fastforce
qed

lemma inspect_tree_Ok:
  assumes "inspect_tree encode io manifest kind root = Ok digest"
  shows "source_fingerprint encode manifest = Ok digest
    \<and> (\<exists>entries. resolve root [] = Some (FsDir entries) \<and> tree_matches manifest entries)"
proof -
  obtain files where files: "visit_tree io kind root = Ok files"
      "sort_key sf_logical_path files = sm_files manifest" "source_fingerprint encode manifest = Ok digest"
    using assms by (auto simp: inspect_tree_def result_iff)
  then have "set (sm_files manifest) = set files" by (metis set_sort)
  then show ?thesis
    using visit_tree_Ok [OF files(1)] files(3) by (auto simp: tree_matches_def)
qed
lemma root_directory_Ok: "root_directory root = Some entries \<longleftrightarrow> fr_node root = Some (FsDir entries)"
  by (auto simp: root_directory_def split: option.splits fs_node.splits)

lemma materialize_Ok:
  assumes "materialize encode io snapshot_io nested source_root snapshot_root sources after manifest = Ok frozen"
  shows "fz_manifest frozen = manifest \<and> source_fingerprint encode manifest = Ok (source_pre_fingerprint frozen)
    \<and> (\<exists>entries. fr_node source_root = Some (FsDir entries) \<and> tree_matches manifest entries)
    \<and> (\<exists>entries. resolve after [] = Some (FsDir entries) \<and> tree_matches manifest entries)
    \<and> tree_matches manifest (fz_entries frozen)"
proof -
  obtain pre entries post d where
      pre: "preflight_roots encode (io 0) snapshot_io nested manifest source_root snapshot_root = Ok pre"
    and post: "inspect_tree encode (io 2) manifest SourceTree after = Ok post"
    and snap: "inspect_tree encode snapshot_io manifest SnapshotTree (FsDir entries) = Ok d"
    and frozen: "frozen = \<lparr>fz_manifest = manifest, fz_entries = entries, fz_source_pre = pre\<rparr>"
    using assms by (auto simp: materialize_def result_iff)
  obtain before where "fr_node source_root = Some (FsDir before)"
      "inspect_tree encode (io 0) manifest SourceTree (FsDir before) = Ok pre"
    using pre by (auto simp: preflight_roots_def validate_root_def result_iff root_directory_Ok)
  then show ?thesis
    using inspect_tree_Ok [OF post] inspect_tree_Ok [OF snap] inspect_tree_Ok [of encode "io 0" manifest SourceTree]
    by (force simp: frozen source_pre_fingerprint_def)
qed

lemma source_post_Ok:
  assumes "source_post_fingerprint encode io frozen source = Ok post"
  shows "source_fingerprint encode (fz_manifest frozen) = Ok post
    \<and> (\<exists>entries. resolve source [] = Some (FsDir entries) \<and> tree_matches (fz_manifest frozen) entries)"
  using assms inspect_tree_Ok by (fastforce simp: source_post_fingerprint_def result_iff)

end
