(* ===== verification/Completion_Runtime.thy ===== *)
theory Completion_Runtime
  imports Goal_Runtime Verified_Completion Source_Snapshot
begin

text \<open>
  Verifier-backed completion of \<open>ovca-langgraph/src/goal_runtime.rs\<close>: the policy of enforced goals,
  preparing completion material, appending the transition to \<open>Completed\<close> while the lease on the
  evidence bank is held, and reconciling an append whose outcome is unknown. The event log and the
  store of \<open>Goal_Runtime\<close> meet the bank of \<open>Evidence_Bank\<close>, the snapshot of \<open>Source_Snapshot\<close> and
  the admission of \<open>Verified_Completion\<close> here.
\<close>

section \<open>Enforced goals\<close>

type_synonym environment_bindings = "(string, string) btree_map"

definition string_bytes :: "string \<Rightarrow> byte list" where
  "string_bytes s = map of_char s"

definition bind_environment ::
    "environment_bindings \<Rightarrow> byte list \<Rightarrow> string \<Rightarrow> (unit, byte list) result" where
  "bind_environment self bytes name =
    and_then (ok_or (bm_get self name) ()) (\<lambda>value.
    and_then (require (is_utf8 value) ()) (\<lambda>_.
    Ok (bytes @ be_bytes (of_nat (length name)) @ string_bytes name
      @ be_bytes (of_nat (length value)) @ string_bytes value)))"

definition digest_for :: "environment_bindings \<Rightarrow> string list \<Rightarrow> string option" where
  "digest_for self names =
    (case try_fold (bind_environment self) (string_bytes ''ovca.environment-bindings.v1'' @ [0]) names of
       Ok bytes \<Rightarrow> Some (verification_sha256_hex bytes)
     | _ \<Rightarrow> None)"

text \<open>What an enforced goal adds to its contract and tasks.\<close>

record enforced_material =
  em_tasks :: "completion_task list"
  em_source_manifest :: source_manifest
  em_source_root :: string
  em_environment_bindings :: environment_bindings

definition completion_of :: "enforced_material enforced_goal \<Rightarrow> completion_contract" where
  "completion_of authority =
    \<lparr>cco_goal = eg_goal authority, cco_task_ids = eg_task_ids authority,
     cco_tasks = em_tasks (eg_material authority)\<rparr>"

datatype ('x, 'y) completion_runtime_error =
    CR_Runtime "('x, 'y, bank_error) durable_goal_error"
  | CR_LocalVerificationAdmission completion_error
  | CR_LocalVerificationSnapshot snapshot_error
  | CR_LocalVerificationTemporarySnapshot
  | CR_InvalidCompletionPolicy string
  | CR_VerifiedCompletionNotRequired goal_id
  | CR_InvalidVerifiedCompletionEvent
  | CR_CompletionAppendEventConflict event_id
  | CR_CompletionEnvironmentUnavailable task_id

type_synonym ('x, 'y, 'a) completed = "(('x, 'y) completion_runtime_error, 'a) result"

text \<open>\<open>str::contains\<close>.\<close>

fun text_contains :: "string \<Rightarrow> string \<Rightarrow> bool" where
  "text_contains pattern [] = (pattern = [])"
| "text_contains pattern (c # cs) = (take (length pattern) (c # cs) = pattern \<or> text_contains pattern cs)"

definition is_local_absolute_source_root :: "(string \<Rightarrow> bool) \<Rightarrow> string \<Rightarrow> bool" where
  "is_local_absolute_source_root is_absolute root =
    (let lower = to_ascii_lowercase root in
     is_absolute root
     \<and> take 2 root \<noteq> [CHR 0x5C, CHR 0x5C] \<and> take 2 root \<noteq> ''//''
     \<and> take 5 lower \<noteq> ''file:'' \<and> \<not> text_contains ''://'' lower)"

definition check_enforced_goal ::
    "bundle_codec \<Rightarrow> (string \<Rightarrow> bool) \<Rightarrow> goal_id \<times> enforced_material enforced_goal \<Rightarrow>
     ('x, 'y, unit) completed" where
  "check_enforced_goal C is_absolute entry =
    (let (goal_id, authority) = entry in
     and_then (require (goal_id = gc_id (eg_goal authority))
       (CR_InvalidCompletionPolicy (''goal map key '' @ goal_id @ '' differs from the stored contract''))) (\<lambda>_.
     and_then (map_err CR_LocalVerificationAdmission
       (validate_local_verification_completion_contract C (completion_of authority))) (\<lambda>_.
     and_then (map_err CR_LocalVerificationSnapshot
       (validate_source_manifest (em_source_manifest (eg_material authority)))) (\<lambda>_.
     require (is_local_absolute_source_root is_absolute (em_source_root (eg_material authority)))
       (CR_InvalidCompletionPolicy
         (''source root for '' @ goal_id @ '' must be an absolute local filesystem path''))))))"

definition validate_completion_policy ::
    "bundle_codec \<Rightarrow> (string \<Rightarrow> bool) \<Rightarrow> enforced_material completion_policy \<Rightarrow> ('x, 'y, unit) completed" where
  "validate_completion_policy C is_absolute policy =
    (case policy of
       PolicyDisabled \<Rightarrow> Ok ()
     | PolicyEnforced goals \<Rightarrow>
         and_then (require (bm_entries goals \<noteq> [])
           (CR_InvalidCompletionPolicy ''enforced policy requires at least one authoritative goal'')) (\<lambda>_.
         checks (map (check_enforced_goal C is_absolute) (bm_entries goals))))"

section \<open>Fresh material\<close>

text \<open>
  What the file system does while the sources of a goal are frozen: whether a temporary directory
  can be made, the roots, the source tree at the moments at which it is read, and the failures.
\<close>

record freeze_world =
  fw_temporary :: bool
  fw_io :: "nat \<Rightarrow> fs_io"
  fw_snapshot_io :: fs_io
  fw_nested :: bool
  fw_source_root :: fs_root
  fw_snapshot_root :: fs_root
  fw_sources :: "nat \<Rightarrow> fs_node"
  fw_after :: fs_node
  fw_final_io :: fs_io
  fw_final :: fs_node

text \<open>
  The encoders, the file system seen from a source root, the bank of the runtime (as it is when a
  lease begins; \<open>None\<close> when the policy enforces nothing), the bank that \<open>try_new\<close> finds below the
  durable root, and the failures of its engine.
\<close>

record completion_services =
  cs_bundle :: bundle_codec
  cs_manifest :: manifest_encoder
  cs_bank :: bank_codec
  cs_world :: "string \<Rightarrow> freeze_world"
  cs_evidence_bank :: "bank option"
  cs_open_bank :: "bank bank_result"
  cs_bank_io :: io

definition freeze_source ::
    "completion_services \<Rightarrow> enforced_material \<Rightarrow> ('x, 'y, string \<times> string) completed" where
  "freeze_source V source =
    (let world = cs_world V (em_source_root source) in
     and_then (require (fw_temporary world) CR_LocalVerificationTemporarySnapshot) (\<lambda>_.
     and_then (map_err CR_LocalVerificationSnapshot (materialize (cs_manifest V) (fw_io world)
       (fw_snapshot_io world) (fw_nested world) (fw_source_root world) (fw_snapshot_root world)
       (fw_sources world) (fw_after world) (em_source_manifest source))) (\<lambda>frozen.
     and_then (map_err CR_LocalVerificationSnapshot
       (source_post_fingerprint (cs_manifest V) (fw_final_io world) frozen (fw_final world))) (\<lambda>post.
     Ok (source_pre_fingerprint frozen, post)))))"

definition observe_task ::
    "environment_bindings \<Rightarrow> string \<times> string \<Rightarrow> completion_observation list \<Rightarrow> completion_task \<Rightarrow>
     ('x, 'y, completion_observation list) completed" where
  "observe_task bindings source observations task =
    and_then (map_err CR_LocalVerificationAdmission (completion_environment_names task)) (\<lambda>names.
    and_then (ok_or (digest_for bindings names) (CR_CompletionEnvironmentUnavailable (task_of task)))
      (\<lambda>environment.
    Ok (observations @ [\<lparr>cob_task_id = task_of task, cob_source_pre_digest = fst source,
      cob_source_post_digest = snd source, cob_environment_digest = environment\<rparr>])))"

definition fresh_completion_material ::
    "completion_services \<Rightarrow> enforced_material enforced_goal \<Rightarrow> run_id \<Rightarrow> task_id list \<Rightarrow>
     completion_admission_snapshot \<Rightarrow> ('x, 'y, completion_material) completed" where
  "fresh_completion_material V authority run_id declared snap =
    and_then (freeze_source V (eg_material authority)) (\<lambda>source.
    and_then (try_fold (observe_task (em_environment_bindings (eg_material authority)) source) []
      (em_tasks (eg_material authority))) (\<lambda>observations.
    map_err CR_LocalVerificationAdmission
      (admit_local_verification_completion (cs_bundle V) (completion_of authority) run_id declared
        snap observations)))"

section \<open>Preparing and appending\<close>

type_synonym ('ev, 'ir, 'x, 'y) verified_runtime =
  "('ev, 'ir, 'x, 'y, enforced_material, evidence_key, completion_admission_snapshot, bank_error) goal_runtime"

definition enforced_authority ::
    "enforced_material completion_policy \<Rightarrow> run_event list \<Rightarrow> goal_contract \<Rightarrow>
     ('x, 'y, enforced_material enforced_goal) completed" where
  "enforced_authority policy events goal =
    and_then (map_err CR_Runtime (authoritative_completion_goal policy events goal)) (\<lambda>found.
    ok_or found (CR_VerifiedCompletionNotRequired (gc_id goal)))"

text \<open>What every completion call checks first, over the events it has loaded.\<close>

definition require_verified_goal ::
    "enforced_material completion_policy \<Rightarrow> run_event list \<Rightarrow> goal_contract \<Rightarrow>
     ('x, 'y, enforced_material enforced_goal) completed" where
  "require_verified_goal policy events goal =
    and_then (enforced_authority policy events goal) (\<lambda>authority.
    and_then (require (requires_local_verification (eg_goal authority))
      (CR_VerifiedCompletionNotRequired (gc_id (eg_goal authority)))) (\<lambda>_. Ok authority))"

definition load_completion_events ::
    "('ev, 'ir, 'x, 'y) verified_runtime \<Rightarrow> log_environment \<Rightarrow> nat \<Rightarrow> run_id \<Rightarrow> media \<Rightarrow>
     ('x, 'y, run_event list) completed \<times> media" where
  "load_completion_events R log_env n run_id media =
    with_err (\<lambda>e. CR_Runtime (DG_Storage e))
      (on_first (load_events_call (gr_codec R) log_env n run_id (fst media)) (snd media))"

definition completion_lease_inputs ::
    "completion_services \<Rightarrow> enforced_material enforced_goal \<Rightarrow> run_id \<Rightarrow>
     ('x, 'y, evidence_key list \<times> bank) completed" where
  "completion_lease_inputs V authority run_id =
    and_then (map_err CR_LocalVerificationAdmission
      (completion_evidence_keys (cs_bundle V) (completion_of authority) run_id)) (\<lambda>keys.
    and_then (ok_or (cs_evidence_bank V)
      (CR_Runtime (DG_CompletionPolicyMissing (gc_id (eg_goal authority))))) (\<lambda>bank.
    Ok (keys, bank)))"

text \<open>The callback of the lease in \<open>prepare_local_verification_completion\<close>.\<close>

definition prepare_leased ::
    "completion_services \<Rightarrow> ('ev, 'ir, 'x, 'y) verified_runtime \<Rightarrow> log_environment \<Rightarrow> run_id \<Rightarrow>
     goal_contract \<Rightarrow> completion_admission_snapshot \<Rightarrow> media \<Rightarrow>
     ('x, 'y, completion_material) completed \<times> media" where
  "prepare_leased V R log_env run_id goal snap media =
    bind_call (load_completion_events R log_env 1 run_id media) (\<lambda>events media.
    (and_then (enforced_authority (gr_policy R) events goal) (\<lambda>authority.
     and_then (map_err (\<lambda>e. CR_Runtime (DG_Replay e)) (replay_run events (Some (eg_goal authority)))) (\<lambda>replayed.
     fresh_completion_material V authority run_id (rr_task_ids (rp_run_record replayed)) snap)), media))"

definition prepare_local_verification_completion ::
    "completion_services \<Rightarrow> ('ev, 'ir, 'x, 'y) verified_runtime \<Rightarrow> log_environment \<Rightarrow> run_id \<Rightarrow>
     goal_contract \<Rightarrow> media \<Rightarrow> ('x, 'y, completion_material) completed \<times> media" where
  "prepare_local_verification_completion V R log_env run_id goal media =
    bind_call (map_err (\<lambda>e. CR_Runtime (DG_Build e)) (validate_goal_contract_versions goal), media) (\<lambda>_ media.
    bind_call (load_completion_events R log_env 0 run_id media) (\<lambda>events media.
    bind_call (require (events \<noteq> []) (CR_Runtime (DG_RunNotFound run_id)), media) (\<lambda>_ media.
    bind_call (require_verified_goal (gr_policy R) events goal, media) (\<lambda>authority media.
    bind_call (completion_lease_inputs V authority run_id, media) (\<lambda>(keys, bank) media.
    with_completion_admission_lease (cs_bank V) (cs_bank_io V) (\<lambda>e. CR_Runtime (DG_LocalVerificationStorage e))
      keys (prepare_leased V R log_env run_id goal) bank media)))))"

text \<open>The callback of the lease in \<open>append_verified_completion\<close>.\<close>

definition append_admitted ::
    "completion_services \<Rightarrow> ('ev, 'ir, 'x, 'y) verified_runtime \<Rightarrow> log_environment \<Rightarrow> environment \<Rightarrow>
     run_event \<Rightarrow> goal_contract \<Rightarrow> completion_admission_snapshot \<Rightarrow> media \<Rightarrow>
     ('x, 'y, unit) completed \<times> media" where
  "append_admitted V R log_env env event goal snap media =
    (let run_id = ev_run_id event in
     bind_call (load_completion_events R log_env 2 run_id media) (\<lambda>events media.
     bind_call (require (events \<noteq> []) (CR_Runtime (DG_RunNotFound run_id)), media) (\<lambda>_ media.
     bind_call (enforced_authority (gr_policy R) events goal, media) (\<lambda>authority media.
     bind_call (map_err (\<lambda>e. CR_Runtime (DG_Replay e)) (replay_run events (Some (eg_goal authority))), media)
       (\<lambda>current media.
     bind_call (fresh_completion_material V authority run_id (rr_task_ids (rp_run_record current)) snap, media)
       (\<lambda>material media.
     bind_call (map_err CR_LocalVerificationAdmission (validate_persisted_completion_material material
       (rp_evidence_references current) (rp_completion_evidence current)), media) (\<lambda>_ media.
     bind_call (with_err CR_Runtime (validate_independent_completion_snapshot R log_env 3 env 1 run_id current
       snap media)) (\<lambda>_ media.
     with_err CR_Runtime (append_checked R log_env 4 event (eg_goal authority) events media)))))))))"

definition append_verified_completion ::
    "completion_services \<Rightarrow> ('ev, 'ir, 'x, 'y) verified_runtime \<Rightarrow> log_environment \<Rightarrow> environment \<Rightarrow>
     run_event \<Rightarrow> goal_contract \<Rightarrow> media \<Rightarrow> ('x, 'y, replayed_run) completed \<times> media" where
  "append_verified_completion V R log_env env event goal media =
    (let run_id = ev_run_id event in
     bind_call (require (is_completed_transition (ev_payload event)) CR_InvalidVerifiedCompletionEvent, media)
       (\<lambda>_ media.
     bind_call (map_err (\<lambda>e. CR_Runtime (DG_Build e)) (validate_goal_contract_versions goal), media) (\<lambda>_ media.
     bind_call (load_completion_events R log_env 0 run_id media) (\<lambda>events media.
     bind_call (require (events \<noteq> []) (CR_Runtime (DG_RunNotFound run_id)), media) (\<lambda>_ media.
     bind_call (with_err CR_Runtime (load_issue6_execution R log_env 1 env 0 run_id media)) (\<lambda>_ media.
     bind_call (require_verified_goal (gr_policy R) events goal, media) (\<lambda>authority media.
     bind_call (completion_lease_inputs V authority run_id, media) (\<lambda>(keys, bank) media.
     bind_call (with_completion_admission_lease (cs_bank V) (cs_bank_io V)
       (\<lambda>e. CR_Runtime (DG_LocalVerificationStorage e)) keys (append_admitted V R log_env env event goal)
       bank media) (\<lambda>_ media.
     with_err CR_Runtime (finish_append R log_env 5 event goal media))))))))))"

section \<open>Reconciling an append\<close>

datatype completion_append_reconciliation = AlreadyCommitted | RetryRequired

text \<open>The review of the run, checked under a lease on its own evidence key.\<close>

definition check_review_leased ::
    "completion_services \<Rightarrow> ('ev, 'ir, 'x, 'y) verified_runtime \<Rightarrow> log_environment \<Rightarrow> environment \<Rightarrow>
     run_id \<Rightarrow> replayed_run \<Rightarrow> media \<Rightarrow> ('x, 'y, unit) completed \<times> media" where
  "check_review_leased V R log_env env run_id current media =
    bind_call (with_err CR_Runtime (independent_review_evidence_key R log_env 2 env 1 run_id media))
      (\<lambda>key media.
    case key of
      None \<Rightarrow> (Ok (), media)
    | Some key \<Rightarrow>
        bind_call (map_err (\<lambda>e. CR_Runtime (DG_LocalVerificationStorage e)) (cs_open_bank V), media)
          (\<lambda>bank media.
        with_completion_admission_lease (cs_bank V) (cs_bank_io V)
          (\<lambda>e. CR_Runtime (DG_LocalVerificationStorage e)) [key]
          (\<lambda>snap media. with_err CR_Runtime (validate_independent_completion_snapshot R log_env 3 env 2
            run_id current snap media)) bank media))"

definition reconcile_verified_completion_append ::
    "completion_services \<Rightarrow> ('ev, 'ir, 'x, 'y) verified_runtime \<Rightarrow> log_environment \<Rightarrow> environment \<Rightarrow>
     run_event \<Rightarrow> goal_contract \<Rightarrow> media \<Rightarrow> ('x, 'y, completion_append_reconciliation) completed \<times> media" where
  "reconcile_verified_completion_append V R log_env env event goal media =
    (let run_id = ev_run_id event in
     bind_call (require (is_completed_transition (ev_payload event)) CR_InvalidVerifiedCompletionEvent, media)
       (\<lambda>_ media.
     bind_call (map_err (\<lambda>e. CR_Runtime (DG_Build e)) (validate_goal_contract_versions goal), media) (\<lambda>_ media.
     bind_call (load_completion_events R log_env 0 run_id media) (\<lambda>events media.
     bind_call (require (events \<noteq> []) (CR_Runtime (DG_RunNotFound run_id)), media) (\<lambda>_ media.
     bind_call (with_err CR_Runtime (load_issue6_execution R log_env 1 env 0 run_id media)) (\<lambda>_ media.
     bind_call (require_verified_goal (gr_policy R) events goal, media) (\<lambda>authority media.
     bind_call (map_err (\<lambda>e. CR_Runtime (DG_Replay e)) (replay_run events (Some (eg_goal authority))), media)
       (\<lambda>current media.
     case find (\<lambda>e. ev_id e = ev_id event) events of
       Some committed \<Rightarrow>
         bind_call (require (committed = event) (CR_CompletionAppendEventConflict (ev_id event)), media) (\<lambda>_ media.
         bind_call (check_review_leased V R log_env env run_id current media) (\<lambda>_ media.
         (Ok AlreadyCommitted, media)))
     | None \<Rightarrow>
         bind_call (map_err (\<lambda>e. CR_Runtime (DG_Replay e))
           (replay_run (events @ [event]) (Some (eg_goal authority))), media) (\<lambda>_ media.
         bind_call (check_review_leased V R log_env env run_id current media) (\<lambda>_ media.
         (Ok RetryRequired, media)))))))))))"

end
