(* ===== verification/Verified_Completion_Safety.thy ===== *)
theory Verified_Completion_Safety
  imports "HOL-Library.Multiset" Verified_Completion Verification_Properties Verification_Binding_Properties Evidence_Bank_Properties
begin

text \<open>
  What the admission of \<open>Verified_Completion\<close> guarantees: every task of the contract was proved by the
  current bundle of the lease snapshot over the observed sources, and the material it derives lets
  the run complete.
\<close>

section \<open>Admitted tasks\<close>

text \<open>
  A task is proved by the guarded bundle: a pass bundle of this run, goal and task whose
  fingerprints are recomputed from the contract and the observation, made for the selection that the
  current registry determines.
\<close>

definition task_proved ::
    "bundle_codec \<Rightarrow> completion_contract \<Rightarrow> run_id \<Rightarrow> capability_registry_snapshot \<Rightarrow>
     completion_task \<times> completion_observation \<times> completion_admission_bundle \<times> task_id \<Rightarrow> bool" where
  "task_proved C contract run_id registry entry \<longleftrightarrow>
     (let (task, observation, guarded, i) = entry; b = bur_bundle (cab_record guarded);
          fingerprints = vb_fingerprints b; selection = cta_selection task in
      bundle_ok b \<and> vb_verdict b = BundlePass
    \<and> vb_run_id b = run_id \<and> vb_goal_id b = gc_id (cco_goal contract) \<and> vb_task_id b = i
    \<and> vb_behavior_contract_id b = bac_contract_id (cta_behavior task)
    \<and> results_match (bac_criteria (cta_behavior task)) (vb_criterion_results b)
    \<and> select_targeted_rerun (bcd_rerun C) (rerun_request_of selection) registry = RerunSelected selection
    \<and> verification_behavior_digest C (cta_behavior task) = Ok (vfp_behavior_contract fingerprints)
    \<and> verification_capability_set_digest C selection = Ok (vfp_capability_set fingerprints)
    \<and> verification_command_set_digest C (cta_capabilities task) = Ok (vfp_command fingerprints)
    \<and> verification_policy_digest C (cta_capabilities task) = Ok (vfp_policy fingerprints)
    \<and> vfp_source_pre fingerprints = cob_source_pre_digest observation
    \<and> vfp_source_post fingerprints = cob_source_post_digest observation
    \<and> cob_source_pre_digest observation = cob_source_post_digest observation
    \<and> vfp_environment fingerprints = cob_environment_digest observation
    \<and> bur_digest (cab_record guarded) = ec_record_digest (cab_current guarded))"

text \<open>The admission a task goes through, and the evidence it leaves.\<close>

definition task_input ::
    "completion_contract \<Rightarrow> run_id \<Rightarrow>
     completion_task \<times> completion_observation \<times> completion_admission_bundle \<times> task_id \<Rightarrow> admission_input" where
  "task_input contract run_id entry =
    (let (task, observation, guarded, i) = entry; b = bur_bundle (cab_record guarded);
         fingerprints = vb_fingerprints b in
     \<lparr>ai_behavior = cta_behavior task, ai_capabilities = cta_capabilities task, ai_bundle = b,
      ai_proof = completion_proof contract run_id i guarded observation (vfp_behavior_contract fingerprints)
        (vfp_capability_set fingerprints) (vfp_command fingerprints) (vfp_policy fingerprints)\<rparr>)"

lemma admit_completion_task_Ok:
  assumes "admit_completion_task C contract run_id registry current admitted entry = Ok admitted'"
  shows "\<exists>evidence. admitted' = admitted @ [evidence] \<and> task_proved C contract run_id registry entry
    \<and> admit_input (task_input contract run_id entry) = Ok evidence
    \<and> ate_evidence_ref evidence = bundle_evidence_ref (bur_digest (cab_record (fst (snd (snd entry)))))
        (vb_created_at (bur_bundle (cab_record (fst (snd (snd entry))))))"
proof -
  obtain task observation guarded i where entry: "entry = (task, observation, guarded, i)"
    by (cases entry)
  let ?b = "bur_bundle (cab_record guarded)"
  obtain behavior capability_set command policy evidence where
      binding: "check_guarded_binding contract run_id observation guarded i = Ok ()"
    and selected: "validate_against (bcd_rerun C) (cta_selection task) (rerun_request_of (cta_selection task)) registry = Ok ()"
    and digests: "verification_behavior_digest C (cta_behavior task) = Ok behavior"
      "verification_capability_set_digest C (cta_selection task) = Ok capability_set"
      "verification_command_set_digest C (cta_capabilities task) = Ok command"
      "verification_policy_digest C (cta_capabilities task) = Ok policy"
    and observed: "check_observation task observation policy i = Ok ()"
    and admit: "admit_current_pass_bundle (cta_behavior task) (cta_capabilities task) ?b
        (completion_proof contract run_id i guarded observation behavior capability_set command policy) = Ok evidence"
    and admitted': "admitted' = admitted @ [evidence]"
    using assms by (auto simp: admit_completion_task_def entry Let_def result_iff)
  let ?p = "completion_proof contract run_id i guarded observation behavior capability_set command policy"
  have ok: "bundle_admissible (cta_behavior task) (cta_capabilities task) ?b ?p"
    and evidence: "evidence = admitted_evidence (cta_behavior task) ?b (cbp_bundle_digest ?p)"
    using admit by (simp_all add: admit_iff)
  have same: "behavior = vfp_behavior_contract (vb_fingerprints ?b)"
      "capability_set = vfp_capability_set (vb_fingerprints ?b)" "command = vfp_command (vb_fingerprints ?b)"
      "policy = vfp_policy (vb_fingerprints ?b)"
    using ok by (simp_all add: bundle_admissible_def digest_matches_def completion_proof_def)
  have "task_proved C contract run_id registry entry"
    using ok binding selected [unfolded validate_against_exact] digests observed
    by (auto simp: task_proved_def entry bundle_admissible_def digest_matches_def completion_proof_def
        proof_ok_def check_guarded_binding_def check_observation_def result_iff Let_def same)
  moreover have "admit_input (task_input contract run_id entry) = Ok evidence"
    using admit by (simp add: admit_input_def task_input_def entry Let_def same)
  ultimately show ?thesis
    by (auto simp: admitted' evidence admitted_evidence_def entry completion_proof_def)
qed

lemma admitted_tasks:
  assumes "try_fold (admit_completion_task C contract run_id registry current) admitted entries = Ok admitted'"
  shows "\<exists>evidences. admitted' = admitted @ evidences \<and> list_all (task_proved C contract run_id registry) entries
    \<and> list_all2 (\<lambda>x a. admit_input x = Ok a) (map (task_input contract run_id) entries) evidences
    \<and> map ate_evidence_ref evidences = map (\<lambda>(_, _, guarded, _). bundle_evidence_ref
        (bur_digest (cab_record guarded)) (vb_created_at (bur_bundle (cab_record guarded)))) entries"
  using assms
proof (induction entries arbitrary: admitted)
  case Nil
  then show ?case by simp
next
  case (Cons entry entries)
  obtain s where s: "admit_completion_task C contract run_id registry current admitted entry = Ok s"
      "try_fold (admit_completion_task C contract run_id registry current) s entries = Ok admitted'"
    using Cons.prems by (auto simp: result_iff)
  from admit_completion_task_Ok [OF s(1)] obtain evidence where e: "s = admitted @ [evidence]"
      "task_proved C contract run_id registry entry" "admit_input (task_input contract run_id entry) = Ok evidence"
      "ate_evidence_ref evidence = bundle_evidence_ref (bur_digest (cab_record (fst (snd (snd entry)))))
        (vb_created_at (bur_bundle (cab_record (fst (snd (snd entry))))))"
    by blast
  from Cons.IH [OF s(2)] obtain evidences where "admitted' = s @ evidences"
      "list_all (task_proved C contract run_id registry) entries"
      "list_all2 (\<lambda>x a. admit_input x = Ok a) (map (task_input contract run_id) entries) evidences"
      "map ate_evidence_ref evidences = map (\<lambda>(_, _, guarded, _). bundle_evidence_ref
        (bur_digest (cab_record guarded)) (vb_created_at (bur_bundle (cab_record guarded)))) entries"
    by blast
  then show ?case using e by (intro exI [of _ "evidence # evidences"]) (simp add: case_prod_unfold)
qed

section \<open>The material\<close>

definition admission_entries ::
    "completion_contract \<Rightarrow> completion_admission_snapshot \<Rightarrow> completion_observation list \<Rightarrow>
     (completion_task \<times> completion_observation \<times> completion_admission_bundle \<times> task_id) list" where
  "admission_entries contract snapshot observations =
    zip (cco_tasks contract) (zip observations (zip (cas_bundles snapshot) (cco_task_ids contract)))"

text \<open>
  The material is that of a proved completion: all tasks of the contract are proved over one
  registry, the one of the snapshot, and the references are those of their bundles.
\<close>

definition completion_proved ::
    "bundle_codec \<Rightarrow> completion_contract \<Rightarrow> run_id \<Rightarrow> completion_admission_snapshot \<Rightarrow>
     completion_observation list \<Rightarrow> completion_material \<Rightarrow> bool" where
  "completion_proved C contract run_id snapshot observations material \<longleftrightarrow>
     map task_of (cco_tasks contract) = cco_task_ids contract
   \<and> length (admission_entries contract snapshot observations) = length (cco_task_ids contract)
   \<and> (\<exists>registry. new_snapshot (bcd_rerun C) (map registry_row (cas_capabilities snapshot)) = Ok registry
        \<and> list_all (task_proved C contract run_id registry) (admission_entries contract snapshot observations))
   \<and> set (vcm_evidence_references material) = (\<lambda>(_, _, guarded, _). bundle_evidence_ref
        (bur_digest (cab_record guarded)) (vb_created_at (bur_bundle (cab_record guarded))))
        ` set (admission_entries contract snapshot observations)
   \<and> ce_evidence_refs (vcm_completion_evidence material) = map er_id (vcm_evidence_references material)"

lemma check_admission_inputs_lengths:
  assumes "check_admission_inputs contract run_id declared snapshot observations = Ok ()"
    and "check_task_set contract = Ok ()"
  shows "declared = cco_task_ids contract"
    "length (admission_entries contract snapshot observations) = length (cco_task_ids contract)"
    "map task_of (cco_tasks contract) = cco_task_ids contract"
  using assms
  by (auto simp: check_admission_inputs_def check_task_set_def admission_entries_def result_iff Let_def)

lemma sort_map_key: "sort (map f xs) = map f (sort_key f xs)"
  by (rule properties_for_sort) simp_all

lemma admit_completion_Ok:
  assumes "admit_local_verification_completion C contract run_id declared snapshot observations = Ok material"
  obtains admitted where
    "completion_proved C contract run_id snapshot observations material"
    "declared = cco_task_ids contract"
    "list_all2 (\<lambda>x a. admit_input x = Ok a)
      (map (task_input contract run_id) (admission_entries contract snapshot observations)) admitted"
    "aggregate_completion_evidence (cco_goal contract) run_id admitted = Ok (vcm_completion_evidence material)"
    "length admitted = length (cco_task_ids contract)"
proof -
  obtain registry admitted where
      set: "check_task_set contract = Ok ()"
    and inputs: "check_admission_inputs contract run_id declared snapshot observations = Ok ()"
    and registry: "new_snapshot (bcd_rerun C) (map registry_row (cas_capabilities snapshot)) = Ok registry"
    and tasks: "try_fold (admit_completion_task C contract run_id registry (current_capabilities_of snapshot)) []
        (admission_entries contract snapshot observations) = Ok admitted"
    and agg: "aggregate_completion_evidence (cco_goal contract) run_id admitted
        = Ok (vcm_completion_evidence material)"
    and refs: "vcm_evidence_references material = sort_key er_id (map ate_evidence_ref admitted)"
    using assms
    by (auto simp: admit_local_verification_completion_def admission_entries_def
        validate_local_verification_completion_contract_def result_iff)
  from admitted_tasks [OF tasks] have
      proved: "list_all (task_proved C contract run_id registry) (admission_entries contract snapshot observations)"
    and inp: "list_all2 (\<lambda>x a. admit_input x = Ok a)
        (map (task_input contract run_id) (admission_entries contract snapshot observations)) admitted"
    and maps: "map ate_evidence_ref admitted = map (\<lambda>(_, _, guarded, _). bundle_evidence_ref
        (bur_digest (cab_record guarded)) (vb_created_at (bur_bundle (cab_record guarded))))
        (admission_entries contract snapshot observations)"
    by auto
  note lens = check_admission_inputs_lengths [OF inputs set]
  have "ce_evidence_refs (vcm_completion_evidence material) = map er_id (vcm_evidence_references material)"
    using agg by (simp add: aggregate_iff aggregated_def refs flip: sort_map_key) (simp add: comp_def)
  moreover have "set (vcm_evidence_references material) = set (map ate_evidence_ref admitted)"
    by (simp add: refs)
  ultimately have "completion_proved C contract run_id snapshot observations material"
    using lens registry proved unfolding completion_proved_def maps by simp
  moreover have "length admitted = length (cco_task_ids contract)"
    using list_all2_lengthD [OF inp] lens(2) by simp
  ultimately show ?thesis using that lens(1) inp agg by blast
qed

lemma admission_entry_bundle:
  assumes "length (admission_entries contract snapshot observations) = length (cas_bundles snapshot)"
    and "i < length (cas_bundles snapshot)"
  shows "ai_bundle (map (task_input contract run_id) (admission_entries contract snapshot observations) ! i)
    = bur_bundle (cab_record (cas_bundles snapshot ! i))"
  using assms by (simp add: admission_entries_def task_input_def Let_def)

lemma admit_completion_lengths:
  assumes "admit_local_verification_completion C contract run_id declared snapshot observations = Ok material"
  shows "length (cas_bundles snapshot) = length (cco_task_ids contract)"
  using assms
  by (auto simp: admit_local_verification_completion_def check_admission_inputs_def result_iff Let_def)

lemma completion_material_accepted:
  assumes admit: "admit_local_verification_completion C contract run_id declared snapshot observations = Ok material"
    and size: "length declared < 2 ^ 32"
  shows "completion_proved C contract run_id snapshot observations material
    \<and> validate_run_transition_with_guard_requirements
        (required_completion_gate (gc_permission_profile (cco_goal contract)) guards) Completed
        (Some (cco_goal contract)) (Some (vcm_completion_evidence material)) guards = Ok ()
    \<and> (\<forall>c \<in> set (goal_criteria (cco_goal contract)). \<exists>!i. i < length (cas_bundles snapshot)
        \<and> proves_criterion (bur_bundle (cab_record (cas_bundles snapshot ! i))) run_id (gc_id (cco_goal contract)) c)"
proof -
  obtain admitted where
      proved: "completion_proved C contract run_id snapshot observations material"
    and declared: "declared = cco_task_ids contract"
    and inp: "list_all2 (\<lambda>x a. admit_input x = Ok a)
        (map (task_input contract run_id) (admission_entries contract snapshot observations)) admitted"
    and agg: "aggregate_completion_evidence (cco_goal contract) run_id admitted = Ok (vcm_completion_evidence material)"
    and len: "length admitted = length (cco_task_ids contract)"
    by (rule admit_completion_Ok [OF admit])
  let ?inputs = "map (task_input contract run_id) (admission_entries contract snapshot observations)"
  have lens: "length (admission_entries contract snapshot observations) = length (cas_bundles snapshot)"
    using proved admit_completion_lengths [OF admit] by (simp add: completion_proved_def)
  have accepted: "length admitted < 2 ^ 32" using size len declared by simp
  have "i < length ?inputs \<and> proves_criterion (ai_bundle (?inputs ! i)) run_id g c
      \<longleftrightarrow> i < length (cas_bundles snapshot)
        \<and> proves_criterion (bur_bundle (cab_record (cas_bundles snapshot ! i))) run_id g c" for i g c
    using admission_entry_bundle [OF lens] lens by auto
  then show ?thesis
    using aggregated_completion_accepted [OF inp agg accepted, of guards] proved by simp
qed

text \<open>
  C38 (completion material sound). Verified completion. When the admission derives material from a lease snapshot, every
  task of the contract is proved: its guarded current bundle is a pass bundle of this run, goal and
  task, with every fingerprint recomputed from the contract and the sources as observed, for exactly
  the selection the current registry determines. The material then lets the run complete from
  the gate its profile and guards select, and every criterion of the goal was proved by exactly one of
  the bundles, by a verifier other than the implementer.
\<close>

theorem completion_material_sound:
  assumes "admit_local_verification_completion C contract run_id declared snapshot observations = Ok material"
    and "length declared < 2 ^ 32"
  shows "completion_proved C contract run_id snapshot observations material
    \<and> validate_run_transition_with_guard_requirements
        (required_completion_gate (gc_permission_profile (cco_goal contract)) guards) Completed
        (Some (cco_goal contract)) (Some (vcm_completion_evidence material)) guards = Ok ()
    \<and> (\<forall>c \<in> set (goal_criteria (cco_goal contract)). \<exists>!i. i < length (cas_bundles snapshot)
        \<and> proves_criterion (bur_bundle (cab_record (cas_bundles snapshot ! i))) run_id (gc_id (cco_goal contract)) c)"
  using assms by (rule completion_material_accepted)

section \<open>A sample\<close>

text \<open>One task, proved by the bundle of the sample bank.\<close>

definition bound_goal :: goal_contract where
  "bound_goal = verified_goal\<lparr>gc_acceptance_criteria := [], gc_verification_criteria := [''it builds''],
     gc_definition_of_done := [],
     gc_permission_profile := (gc_permission_profile verified_goal)\<lparr>pp_review_required := False\<rparr>,
     gc_completion_precondition := \<lparr>cp_contract_version = 1,
       cp_minimum_evidence_refs = 1, cp_require_all_acceptance_criteria = True,
       cp_require_all_verification_criteria = True\<rparr>\<rparr>"

definition bound_contract :: completion_contract where
  "bound_contract = \<lparr>cco_goal = bound_goal, cco_task_ids = [''build''],
     cco_tasks = [\<lparr>cta_behavior = bound_behavior, cta_selection = bound_selection,
       cta_capabilities = [bound_capability]\<rparr>]\<rparr>"

definition bound_observation :: completion_observation where
  "bound_observation = \<lparr>cob_task_id = ''build'', cob_source_pre_digest = line_feed_digest,
     cob_source_post_digest = line_feed_digest, cob_environment_digest = bound_environment_digest\<rparr>"

definition bound_snapshot :: completion_admission_snapshot where
  "bound_snapshot = \<lparr>cas_capabilities = [\<lparr>cac_current = sample_current,
       cac_record = \<lparr>car_definition = bound_capability, car_digest = capability_digest\<rparr>\<rparr>],
     cas_bundles = [\<lparr>cab_current = bank_evidence FreshCurrent 1,
       cab_record = bundle_record_of bound_bundle bundle_digest\<rparr>]\<rparr>"

definition bound_material :: completion_material where
  "bound_material = \<lparr>vcm_evidence_references = [bundle_evidence_ref bundle_digest 7],
     vcm_completion_evidence = aggregated bound_goal [admitted_evidence bound_behavior bound_bundle bundle_digest]\<rparr>"

lemma bound_select:
  "select_targeted_rerun sample_rerun_codec bound_request bound_registry = RerunSelected bound_selection"
proof -
  let ?rows = "crs_capabilities bound_registry" and ?paths = "set (logical_paths (trr_changed_paths bound_request))"
  have rows: "map row_id ?rows = [''cap.build'']" and deps: "registry_depends ?rows = {}"
    by (simp_all add: bound_registry_def row_id_def row_dependencies_def registry_depends_def
        bound_capability_def sample_capability_def)
  have "unknown_among ?rows ?paths = {}" "touched_ids ?rows ?paths = {''cap.build''}"
    by (auto simp: unknown_among_def touched_ids_def bound_registry_def bound_request_def logical_paths_def
        touches_def bound_capability_def sample_capability_def row_id_def selector_matches_def)
  then have ids: "selected_ids bound_request ?rows = Some (ModeTargeted, {''cap.build''})"
    by (simp add: selected_ids_def concerned_def deps)
  have picked: "picked ?rows {''cap.build''} = [selected_of (hd ?rows)]"
    using row_at_row(1) [of ?rows "''cap.build''"] rows by (simp add: picked_def) (simp add: bound_registry_def)
  have "new_selection sample_rerun_codec bound_request bound_registry ModeTargeted [] [selected_of (hd ?rows)]
      = Ok bound_selection"
    unfolding new_selection_eq
  proof (intro exI conjI)
    show "manifest_bytes sample_rerun_codec (trr_changed_paths bound_request) = Ok (ascii_bytes ''src/cap.build'')"
      using bound_request_ok
      by (simp add: manifest_bytes_def validate_rerun_request_def result_iff)
        (simp add: sample_rerun_codec_def serialized_def bound_request_def)
    show "expected_selection_digest sample_rerun_codec (unsealed bound_request bound_registry
        (sha256_hex (ascii_bytes ''src/cap.build'')) ModeTargeted [] [selected_of (hd ?rows)] [])
        = Ok (sha256_hex (ascii_bytes ''build''))"
      by (simp add: expected_selection_digest_def sample_rerun_codec_def serialized_def
          selection_payload.truncate_def bound_request_def unsealed_def)
    show "bound_selection = unsealed bound_request bound_registry (sha256_hex (ascii_bytes ''src/cap.build''))
        ModeTargeted [] [selected_of (hd ?rows)] (sha256_hex (ascii_bytes ''build''))"
      by (simp add: bound_selection_def)
    show "validate_selection sample_rerun_codec bound_selection = Ok ()" by (rule bound_selection_ok)
  qed
  then show ?thesis
    unfolding select_iff using bound_request_ok bound_registry_ok ids picked \<open>unknown_among ?rows ?paths = {}\<close>
    by (simp add: bound_registry_def bound_request_def)
qed

lemma bound_fields:
  "trs_run_id bound_selection = ''run''" "trs_goal_id bound_selection = ''goal''"
  "trs_task_id bound_selection = ''build''" "trs_policy_digest bound_selection = line_feed_digest"
  "trs_source_fingerprint bound_selection = line_feed_digest"
  "trs_registry_snapshot_digest bound_selection = crs_registry_snapshot_digest bound_registry"
  "rerun_request_of bound_selection = bound_request"
  "trs_capabilities bound_selection = [\<lparr>sc_capability_id = ''cap.build'', sc_revision = 1,
     sc_record_digest = capability_digest\<rparr>]"
  by (simp_all add: bound_selection_def bound_request_def rerun_request_of_def unsealed_def
      bound_registry_def selected_of_def row_id_def bound_capability_def sample_capability_def
      capability_digest_def sha256_hex_def)

lemma bound_criteria: "goal_criteria bound_goal = [(BehaviorVerification, ''it builds'')]"
  by (simp add: goal_criteria_def bound_goal_def)

lemma bound_contract_ok: "validate_local_verification_completion_contract bound_codec bound_contract = Ok ()"
proof -
  let ?t = "hd (cco_tasks bound_contract)"
  have capability: "validate_capability bound_capability = Ok ()" "capability_bytes sample_rerun_codec bound_capability
      = Ok (ascii_bytes ''cap.build'')" "cd_capability_id bound_capability = ''cap.build''" "cd_revision bound_capability = 1"
    using bound_capability_ok
    by (simp_all add: capability_bytes_def sample_rerun_codec_def serialized_def bound_capability_def
        sample_capability_def result_iff)
  have codec: "bcd_rerun bound_codec = sample_rerun_codec" by (simp add: bound_codec_def)
  have capabilities: "check_contract_capabilities sample_rerun_codec ?t = Ok ()"
    by (simp add: check_contract_capabilities_def bound_contract_def Let_def capability bound_fields
        check_contract_capability_def capability_digest_def)
  have behavior: "bac_binding bound_behavior = Bound ''goal'' ''build''" "bac_contract_id bound_behavior = ''contract.build''"
      "length (verification_sha256_hex (ascii_bytes ''contract.build'')) = 64"
    using sha256_valid_digest [of "ascii_bytes ''contract.build''"]
    by (simp_all add: bound_behavior_def valid_digest_def)
  have task: "check_contract_task bound_codec (cco_goal bound_contract) ?t = Ok ()"
    unfolding check_contract_task_def codec capabilities
    using bound_sample_ids
    by (simp add: bound_contract_def bound_digests bound_selection_ok bound_fields check_task_binding_def
        behavior bound_goal_def verified_goal_def is_blank_def task_of_def result_iff)
  show ?thesis
    using task
    by (simp add: validate_local_verification_completion_contract_def check_task_set_def
        check_contract_versions_def bound_contract_def bound_goal_def verified_goal_def
        strictly_sorted_unique_def task_of_def bound_fields local_verification_contract_version_def)
qed

lemma bound_new_snapshot:
  "new_snapshot sample_rerun_codec (map registry_row (cas_capabilities bound_snapshot)) = Ok bound_registry"
proof -
  have "map registry_row (cas_capabilities bound_snapshot) = crs_capabilities bound_registry"
    by (simp add: bound_snapshot_def registry_row_def bound_registry_def sample_current_def
        capability_digest_def sha256_hex_def)
  then show ?thesis
    using bound_registry_ok by (simp add: new_snapshot_def snapshot_ok_def validate_snapshot_def result_iff)
qed
lemma bound_admitted:
  "admit_current_pass_bundle bound_behavior [bound_capability] bound_bundle (bound_proof bundle_digest)
     = Ok (admitted_evidence bound_behavior bound_bundle bundle_digest)"
proof -
  have "vb_verdict bound_bundle = BundlePass" by (simp add: bound_bundle_def)
  then show ?thesis
    using bound_pass_admitted [OF bound_accepted _ bound_proof_ok [OF sample_digests(2)] bound_expects]
    by (simp add: bound_proof_def bound_bundle_def)
qed

lemma bound_task_admitted:
  "admit_completion_task bound_codec bound_contract ''run'' bound_registry (current_capabilities_of bound_snapshot) []
     (hd (cco_tasks bound_contract), bound_observation, hd (cas_bundles bound_snapshot), ''build'')
   = Ok [admitted_evidence bound_behavior bound_bundle bundle_digest]"
proof -
  let ?t = "hd (cco_tasks bound_contract)" and ?g = "hd (cas_bundles bound_snapshot)"
  have codec: "bcd_rerun bound_codec = sample_rerun_codec" by (simp add: bound_codec_def)
  have task: "cta_selection ?t = bound_selection" "cta_behavior ?t = bound_behavior"
      "cta_capabilities ?t = [bound_capability]" "bur_bundle (cab_record ?g) = bound_bundle"
    by (simp_all add: bound_contract_def bound_snapshot_def bundle_record_of_def)
  have binding: "check_guarded_binding bound_contract ''run'' bound_observation ?g ''build'' = Ok ()"
    by (simp add: check_guarded_binding_def task Let_def)
      (simp add: bound_contract_def bound_goal_def verified_goal_def bound_observation_def bound_snapshot_def
        bank_evidence_def sample_key_def bound_bundle_def)
  have against: "validate_against sample_rerun_codec bound_selection bound_request bound_registry = Ok ()"
    using bound_select by (simp add: validate_against_exact)
  have current: "checks (map (check_current_capability (current_capabilities_of bound_snapshot))
      (zip [bound_capability] (trs_capabilities bound_selection))) = Ok ()"
    by (simp add: bound_fields current_capabilities_of_def bound_snapshot_def sample_current_def bm_collect_def
        check_current_capability_def)
  have observed: "check_observation ?t bound_observation line_feed_digest ''build'' = Ok ()"
    by (simp add: check_observation_def task bound_fields bound_observation_def)
  have proof_eq: "completion_proof bound_contract ''run'' ''build'' ?g bound_observation
      (verification_sha256_hex (ascii_bytes ''contract.build'')) line_feed_digest line_feed_digest line_feed_digest
      = bound_proof bundle_digest"
    by (simp add: completion_proof_def bound_proof_def bound_snapshot_def bound_observation_def bank_evidence_def
        bundle_record_of_def bound_contract_def bound_goal_def verified_goal_def local_verification_contract_version_def)
  show ?thesis
    by (simp add: admit_completion_task_def Let_def task codec binding against current observed bound_admitted
        bound_digests proof_eq bound_fields(6,7))
qed

lemma bound_aggregable:
  "aggregable bound_goal ''run'' [admitted_evidence bound_behavior bound_bundle bundle_digest]"
proof -
  let ?a = "admitted_evidence bound_behavior bound_bundle bundle_digest"
  have "bundle_admissible bound_behavior [bound_capability] bound_bundle (bound_proof bundle_digest)"
    using bound_admitted by (simp add: admit_iff)
  from admitted_evidence_ok [OF this] have ok: "admitted_ok ?a" by (simp add: bound_proof_def)
  have fields: "ate_run_id ?a = ''run''" "ate_goal_id ?a = ''goal''"
      "ate_satisfactions ?a = [\<lparr>acs_criterion_id = ''criterion.build'', acs_kind = BehaviorVerification,
         acs_text = ''it builds''\<rparr>]"
    by (simp_all add: admitted_evidence_def bound_behavior_def bound_bundle_def criterion_satisfaction_def)
  show ?thesis
    using bound_sample_ids sample_fields
    by (simp add: aggregable_def ok fields bound_criteria all_satisfactions_def criterion_key_def)
      (simp add: bound_goal_def verified_goal_def)
qed

lemma bound_material_admitted:
  "admit_local_verification_completion bound_codec bound_contract ''run'' [''build''] bound_snapshot
     [bound_observation] = Ok bound_material"
proof -
  let ?admitted = "[admitted_evidence bound_behavior bound_bundle bundle_digest]"
  have inputs: "check_admission_inputs bound_contract ''run'' [''build''] bound_snapshot [bound_observation] = Ok ()"
    by (simp add: check_admission_inputs_def bound_contract_def bound_fields bound_observation_def bound_snapshot_def
        bank_evidence_def sample_key_def)
  have entries: "zip (cco_tasks bound_contract) (zip [bound_observation] (zip (cas_bundles bound_snapshot)
      (cco_task_ids bound_contract)))
      = [(hd (cco_tasks bound_contract), bound_observation, hd (cas_bundles bound_snapshot), ''build'')]"
    by (simp add: bound_contract_def bound_snapshot_def)
  have codec: "bcd_rerun bound_codec = sample_rerun_codec" by (simp add: bound_codec_def)
  have goal: "cco_goal bound_contract = bound_goal" by (simp add: bound_contract_def)
  have aggregate: "aggregate_completion_evidence bound_goal ''run'' ?admitted = Ok (aggregated bound_goal ?admitted)"
    by (simp add: aggregate_iff bound_aggregable)
  show ?thesis
    unfolding admit_local_verification_completion_def entries codec bound_new_snapshot goal
    by (simp add: bound_contract_ok inputs bound_task_admitted aggregate)
      (simp add: bound_material_def admitted_evidence_def bound_bundle_def)
qed

theorem completion_material_sound_witness:
  "admit_local_verification_completion bound_codec bound_contract ''run'' [''build''] bound_snapshot
     [bound_observation] = Ok bound_material
   \<and> completion_proved bound_codec bound_contract ''run'' bound_snapshot [bound_observation] bound_material"
  using completion_material_sound [OF bound_material_admitted] bound_material_admitted by simp

end
