(* ===== verification/Lifecycle_Properties.thy ===== *)
theory Lifecycle_Properties
  imports Lifecycle_Behaviour
begin

text \<open>
  The properties of the lease kernel, with a sample run as witness, and three runs that
  show its limits: an expired lease that blocks restoration, a clock going back, and a
  worker lost on the last attempt.
\<close>

section \<open>Claims and ends\<close>

lemma active_lease_Some_iff:
  "active_lease k i now = Some l \<longleftrightarrow> lease k i = Some l \<and> now < tl_expires_at l"
  by (auto simp: active_lease_def split: option.splits)

lemma word_max_below: "(x :: u32) < y \<Longrightarrow> x \<noteq> - 1"
  using word_order.extremum_strict [of y] by auto

lemma claim_granted:
  "(\<exists>l. fst (claim r k) = Ok l) \<longleftrightarrow>
     (\<exists>task s. bm_get (lk_tasks k) (clr_task_id r) = Some task
       \<and> bm_get (lk_state k) (clr_task_id r) = Some s
       \<and> clr_worker_role r = task_assigned_role task \<and> clr_worker_role r \<noteq> Coordinator
       \<and> clr_now r < clr_expires_at r
       \<and> (tes_status s \<in> {TaskPending, TaskReady}
          \<or> tes_status s = TaskRunning
            \<and> (\<exists>l. tes_current_lease s = Some l \<and> tl_expires_at l \<le> clr_now r))
       \<and> (\<forall>d \<in> set (task_dependencies task). task_status_in k d = Some TaskCompleted)
       \<and> tes_attempts s \<noteq> - 1 \<and> tes_attempts s < max_attempts_of k
       \<and> (\<forall>key \<in> set (task_write_keys task). \<forall>held. owner_at k key = Some held \<longrightarrow>
            wko_expires_at held \<le> clr_now r \<or> wko_task_id held = clr_task_id r))"
    (is "_ \<longleftrightarrow> ?granted")
proof -
  have "(\<exists>l. fst (claim r k) = Ok l) \<longleftrightarrow> (\<exists>l k'. apply_claim r k = Ok (l, k'))"
    by (auto simp: claim_def commit_def split: result.splits)
  also have "\<dots> \<longleftrightarrow> ?granted"
  proof
    assume "\<exists>l k'. apply_claim r k = Ok (l, k')"
    then show ?granted
      by (elim exE apply_claim_Ok) (auto simp: result_iff intro: word_succ_le_less)
  next
    assume ?granted
    then show "\<exists>l k'. apply_claim r k = Ok (l, k')"
      by (elim exE conjE)
        (auto simp: apply_claim_def find_task_def Let_def result_iff not_le not_less inc_le)
  qed
  finally show ?thesis .
qed

lemma claim_activates:
  assumes "fst (claim r k) = Ok l" and "clr_now r < clr_expires_at r"
  shows "active_lease (snd (claim r k)) (clr_task_id r) (clr_now r) = Some l"
proof -
  from assms(1) obtain k' where k': "apply_claim r k = Ok (l, k')"
    by (auto simp: claim_def commit_def split: result.splits)
  then have "lease k' (clr_task_id r) = Some l" "clr_now r < tl_expires_at l"
    using assms(2) by (auto elim!: apply_claim_Ok simp: claimed_state_def claimed_lease_def)
  then show ?thesis using k' by (simp add: claim_def commit_def active_lease_Some_iff)
qed

lemma new_kernel_roles:
  assumes "new_kernel run_id tasks budget = Ok k" and "bm_get (lk_tasks k) i = Some task"
  shows "task_assigned_role task \<noteq> Coordinator"
proof -
  have "(i, task) \<in> set (bm_entries (tasks_by_id tasks))"
    using assms(2) new_kernel_Ok(1) [OF assms(1)] by (simp add: bm_entries_iff)
  then have "check_task_definition (i, task) = Ok ()"
    using assms(1) by (auto simp: new_kernel_def Let_def result_iff)
  then show ?thesis by (auto simp: check_task_definition_def result_iff)
qed

lemma reachable_roles:
  "reachable run_id tasks budget T k \<Longrightarrow> bm_get (lk_tasks k) i = Some task \<Longrightarrow>
   task_assigned_role task \<noteq> Coordinator"
  by (auto simp: same_run_def dest!: reachable_run dest: new_kernel_roles)

lemma terminal_retry:
  assumes "apply_terminal i w ro l key now outcome reason k = Ok (r, k')"
  shows "apply_terminal i w ro l key now outcome reason k' = Ok (r, k')"
    and "key' \<noteq> key \<Longrightarrow> apply_terminal i w ro l key' now outcome reason k'
      = Err (EL_IdempotencyKeyConflict i key key')"
proof -
  have role: "validate_worker_role i ro ro = Ok ()"
    using assms by (auto simp: apply_terminal_def find_task_def result_iff)
  from assms obtain task s where "bm_get (lk_tasks k') i = Some task" "ro = task_assigned_role task"
    "state_at k' i = Some s" "tes_terminal_record s = Some r" "tr_idempotency_key r = key"
    "tr_outcome r = outcome" "tr_worker_id r = w" "tr_lease_id r = l"
    by (rule apply_terminal_Ok) (auto simp: finish_state ended_state_def ended_record_def)
  with role show "apply_terminal i w ro l key now outcome reason k' = Ok (r, k')"
    and "key' \<noteq> key \<Longrightarrow> apply_terminal i w ro l key' now outcome reason k'
      = Err (EL_IdempotencyKeyConflict i key key')"
    by (simp_all add: apply_terminal_def find_task_def)
qed

lemma operate_other: "op_task op \<noteq> i \<Longrightarrow> state_at (operate op k) i = state_at k i"
  by (cases op k rule: operate_cases) (simp_all add: apply_op_other [of op k _ i])

lemma state_ok_running: "state_ok k i task s \<Longrightarrow> tes_current_lease s = Some l \<Longrightarrow> tes_status s = TaskRunning"
  by (simp add: state_ok_def)

lemma claim_below_budget:
  "apply_claim r k = Ok (l, k') \<Longrightarrow> state_at k (clr_task_id r) = Some s \<Longrightarrow>
   tes_attempts s \<noteq> max_attempts_of k"
  using word_succ_le_less by (fastforce elim: apply_claim_Ok)

lemma heartbeat_in_time:
  "apply_heartbeat r k = Ok (l', k') \<Longrightarrow> state_at k (hbr_task_id r) = Some s \<Longrightarrow>
   tes_current_lease s = Some l \<Longrightarrow> hbr_now r < tl_expires_at l"
  by (erule apply_heartbeat_Ok) simp

lemma failure_in_time:
  "apply_failure r k = Ok (st, k') \<Longrightarrow> state_at k (flr_task_id r) = Some s \<Longrightarrow>
   tes_current_lease s = Some l \<Longrightarrow> flr_now r < tl_expires_at l"
  by (erule apply_failure_Ok) simp

lemma terminal_in_time:
  "apply_terminal i w ro lid key now outcome reason k = Ok (r, k') \<Longrightarrow> state_at k i = Some s \<Longrightarrow>
   tes_current_lease s = Some l \<Longrightarrow> now < tl_expires_at l \<or> k' = k"
  by (erule apply_terminal_Ok) simp_all

lemma completion_in_time:
  "apply_completion r k = Ok (t, k') \<Longrightarrow> state_at k (cmr_task_id r) = Some s \<Longrightarrow>
   tes_current_lease s = Some l \<Longrightarrow> cmr_occurred_at r < tl_expires_at l \<or> k' = k"
  unfolding apply_completion_def by (rule terminal_in_time)

lemma cancellation_in_time:
  "apply_cancellation r k = Ok (t, k') \<Longrightarrow> state_at k (cnr_task_id r) = Some s \<Longrightarrow>
   tes_current_lease s = Some l \<Longrightarrow> cnr_occurred_at r < tl_expires_at l \<or> k' = k"
  unfolding apply_cancellation_def by (rule terminal_in_time)

section \<open>A sample run\<close>

definition sample_budget :: retry_budget where
  "sample_budget = \<lparr>rb_contract_version = 1, rb_max_attempts = 2\<rparr>"

definition sample_kernel :: lifecycle_kernel where
  "sample_kernel = \<lparr>lk_run_id = ''run'', lk_goal_id = Some ''goal'',
     lk_retry_budget = sample_budget, lk_tasks = tasks_by_id sample_tasks,
     lk_state = bm_map initial_execution (tasks_by_id sample_tasks),
     lk_write_key_owners = bm_empty\<rparr>"

definition claim_by :: "worker_id \<Rightarrow> task_id \<Rightarrow> timestamp \<Rightarrow> claim_request" where
  "claim_by worker i now = \<lparr>clr_task_id = i, clr_worker_id = worker, clr_worker_role = Engineer,
     clr_lease_id = worker, clr_now = now, clr_expires_at = now + 10\<rparr>"

definition heartbeat_by :: "worker_id \<Rightarrow> task_id \<Rightarrow> timestamp \<Rightarrow> heartbeat_request" where
  "heartbeat_by worker i now = \<lparr>hbr_task_id = i, hbr_worker_id = worker,
     hbr_worker_role = Engineer, hbr_lease_id = worker, hbr_now = now, hbr_expires_at = now + 10\<rparr>"

definition completion_by :: "worker_id \<Rightarrow> task_id \<Rightarrow> timestamp \<Rightarrow> completion_request" where
  "completion_by worker i now = \<lparr>cmr_task_id = i, cmr_worker_id = worker,
     cmr_worker_role = Engineer, cmr_lease_id = worker, cmr_idempotency_key = ''once'',
     cmr_occurred_at = now\<rparr>"

lemma sample_kernel_Ok: "new_kernel ''run'' sample_tasks sample_budget = Ok sample_kernel"
  by code_simp

lemma reachable_ops:
  "reachable run_id tasks budget T k \<Longrightarrow> sorted (T # map op_time ops) \<Longrightarrow>
   reachable run_id tasks budget (last (T # map op_time ops)) (fold operate ops k)"
proof (induction ops arbitrary: T k)
  case (Cons op ops)
  then have "reachable run_id tasks budget (op_time op) (operate op k)"
    by (intro reachable.operated) auto
  from Cons.IH [OF this] show ?case using Cons.prems(2) by simp
qed simp

text \<open>\<open>a\<close> and \<open>c\<close> run side by side; \<open>a\<close> is completed and \<open>d\<close>, which waits for it, starts.\<close>

definition sample_ops :: "lifecycle_op list" where
  "sample_ops = [ClaimOp (claim_by ''w1'' ''a'' 0), ClaimOp (claim_by ''w2'' ''c'' 1),
     HeartbeatOp (heartbeat_by ''w1'' ''a'' 5), CompleteOp (completion_by ''w1'' ''a'' 6),
     ClaimOp (claim_by ''w3'' ''d'' 7)]"

definition sample_after :: "nat \<Rightarrow> lifecycle_kernel" where
  "sample_after n = fold operate (take n sample_ops) sample_kernel"

lemma sample_reachable:
  "reachable ''run'' sample_tasks sample_budget 0 sample_kernel"
  "reachable ''run'' sample_tasks sample_budget 1 (sample_after 2)"
  "reachable ''run'' sample_tasks sample_budget 6 (sample_after 4)"
  "reachable ''run'' sample_tasks sample_budget 7 (sample_after 5)"
proof -
  show start: "reachable ''run'' sample_tasks sample_budget 0 sample_kernel"
    by (rule reachable.started [OF sample_kernel_Ok])
  show "reachable ''run'' sample_tasks sample_budget 1 (sample_after 2)"
    "reachable ''run'' sample_tasks sample_budget 6 (sample_after 4)"
    "reachable ''run'' sample_tasks sample_budget 7 (sample_after 5)"
    using reachable_ops [OF start, of "take 2 sample_ops"]
      reachable_ops [OF start, of "take 4 sample_ops"] reachable_ops [OF start, of "take 5 sample_ops"]
    by (simp_all add: sample_after_def sample_ops_def claim_by_def heartbeat_by_def
        completion_by_def del: fold_simps)
qed

lemma sample_state_a:
  "state_at sample_kernel ''a'' = Some (initial_execution (sample_task ''a'' [] [''schema'']))"
  by code_simp

lemma sample_lease_c:
  "\<exists>l. lease (sample_after 5) ''c'' = Some l \<and> tl_worker_role l = Engineer
     \<and> tl_expires_at l = 11 \<and> tl_write_keys l = {''docs''}"
proof -
  have "map_option (\<lambda>l. (tl_worker_role l, tl_expires_at l, tl_write_keys l))
      (lease (sample_after 5) ''c'') = Some (Engineer, 11, {''docs''})"
    by code_simp
  then show ?thesis by auto
qed

text \<open>
  \<open>b\<close> takes over the key of the expired lease of \<open>a\<close>, which stays recorded.
\<close>

definition takeover_ops :: "lifecycle_op list" where
  "takeover_ops = [ClaimOp (claim_by ''w1'' ''a'' 0), ClaimOp (claim_by ''w2'' ''b'' 20)]"

definition takeover_kernel :: lifecycle_kernel where
  "takeover_kernel = fold operate takeover_ops sample_kernel"

lemma takeover_reachable: "reachable ''run'' sample_tasks sample_budget 20 takeover_kernel"
  using reachable_ops [OF sample_reachable(1), of takeover_ops]
  by (simp add: takeover_kernel_def takeover_ops_def claim_by_def del: fold_simps)

theorem expired_lease_blocks_restore:
  "reachable ''run'' sample_tasks sample_budget 20 takeover_kernel
   \<and> restore ''run'' sample_tasks sample_budget (snapshot takeover_kernel)
       = Err (RS_DuplicateWriteKeyOwner ''schema'' ''a'' ''b'')"
proof
  show "restore ''run'' sample_tasks sample_budget (snapshot takeover_kernel)
       = Err (RS_DuplicateWriteKeyOwner ''schema'' ''a'' ''b'')"
    by code_simp
qed (rule takeover_reachable)

theorem clock_going_back_panics:
  "op_panics (HeartbeatOp (heartbeat_by ''w1'' ''a'' 5))
    (fold operate [ClaimOp (claim_by ''w1'' ''a'' 0), ClaimOp (claim_by ''w2'' ''c'' 20)] sample_kernel)"
  by code_simp

text \<open>A worker lost on its last attempt leaves its task running for ever.\<close>

theorem lost_last_attempt_never_ends:
  assumes run: "reachable run_id tasks budget T k" and l: "lease k i = Some l" "tl_expires_at l \<le> T"
    and last: "attempts k i = Some (rb_max_attempts budget)" and later: "T \<le> op_time op"
  shows "state_at (operate op k) i = state_at k i \<and> task_status_in (operate op k) i = Some TaskRunning"
proof -
  note inv = reachable_invariant [OF run, THEN conjunct1]
  from l(1) obtain s where s: "state_at k i = Some s" "tes_current_lease s = Some l"
    by (auto simp: lease_Some_iff)
  from inv s(1) obtain task where ok: "state_ok k i task s" by (rule task_of_state)
  have full: "tes_attempts s = max_attempts_of k"
    using last s(1) by (simp add: attempts_def reachable_max_attempts [OF run])
  have "k' = k" if "apply_op op k = Ok k'" "op_task op = i" for k'
    using that s full l(2) later state_ok_running [OF ok s(2)]
    by (cases op) (auto simp: forget_Ok_iff dest: claim_below_budget heartbeat_in_time
        completion_in_time cancellation_in_time failure_in_time)
  then have "state_at (operate op k) i = state_at k i"
    using operate_other [of op i k]
    by (cases "op_task op = i"; cases "apply_op op k") (simp_all add: operate_eq)
  then show ?thesis using s state_ok_running [OF ok s(2)] by (simp add: task_status_in_def)
qed

section \<open>Properties\<close>

lemma lifecycle_invariant_holds:
  "reachable run_id tasks budget T k \<Longrightarrow>
   kernel_ok k \<and> owners_ok T k \<and> started_after_dependencies k"
  by (simp add: reachable_invariant reachable_dependencies)

text \<open>
  C8 (invariant). After any sequence of public operations whose times do not decrease, each
  task's state passes every check of restoration, write key owners mirror current leases,
  every unexpired lease owns all its keys, and no task ran before its dependencies completed.
\<close>

theorem lifecycle_invariant:
  assumes "reachable run_id tasks budget T k"
  shows "kernel_ok k \<and> owners_ok T k \<and> started_after_dependencies k"
  using assms by (rule lifecycle_invariant_holds)

theorem lifecycle_invariant_witness:
  "kernel_ok (sample_after 5) \<and> owners_ok 7 (sample_after 5)
   \<and> started_after_dependencies (sample_after 5)"
  using lifecycle_invariant [OF sample_reachable(4)] .

text \<open>
  C9 (safety). Two tasks whose leases are active at the time of the last operation, or
  later, never share a write key.
\<close>

theorem write_keys_exclusive:
  assumes run: "reachable run_id tasks budget T k" and later: "T \<le> now"
    and l: "active_lease k i now = Some l" and m: "active_lease k j now = Some m" and "i \<noteq> j"
  shows "tl_write_keys l \<inter> tl_write_keys m = {}"
proof (rule ccontr)
  assume "tl_write_keys l \<inter> tl_write_keys m \<noteq> {}"
  then obtain key where "key \<in> tl_write_keys l" "key \<in> tl_write_keys m" by auto
  moreover have "owners_ok now k" using reachable_invariant [OF run] later owners_ok_later by blast
  ultimately have "owner_at k key = Some (owner_of i l)" "owner_at k key = Some (owner_of j m)"
    using l m by (simp_all add: active_lease_Some_iff live_lease_owns)
  then have "owner_of i l = owner_of j m" by simp
  then have "i = j" by (simp add: owner_of_def)
  then show False using \<open>i \<noteq> j\<close> by simp
qed

theorem write_keys_exclusive_witness:
  "\<exists>l m. active_lease (sample_after 2) ''a'' 4 = Some l \<and> active_lease (sample_after 2) ''c'' 4 = Some m
     \<and> tl_write_keys l = {''schema''} \<and> tl_write_keys l \<inter> tl_write_keys m = {}"
proof -
  have "map_option tl_write_keys (active_lease (sample_after 2) ''a'' 4) = Some {''schema''}"
    "map_option tl_write_keys (active_lease (sample_after 2) ''c'' 4) = Some {''docs''}"
    by code_simp+
  then obtain l m where lm: "active_lease (sample_after 2) ''a'' 4 = Some l"
    "active_lease (sample_after 2) ''c'' 4 = Some m" "tl_write_keys l = {''schema''}"
    by auto
  then show ?thesis using write_keys_exclusive [OF sample_reachable(2) _ lm(1,2)] by auto
qed

text \<open>
  C13 (error). No operation panics on a reachable kernel as long as its time is not before
  the last one and the retry budget is below the largest 32-bit integer.
\<close>

theorem lifecycle_never_panics:
  assumes "reachable run_id tasks budget T k" and "T \<le> op_time op"
    and "rb_max_attempts budget \<noteq> - 1"
  shows "\<not> op_panics op k"
  using assms apply_op_no_Panic [of k T op] reachable_invariant [OF assms(1)]
  by (simp add: op_panics_iff reachable_max_attempts [OF assms(1)])

theorem lifecycle_never_panics_witness:
  "\<not> op_panics (HeartbeatOp (heartbeat_by ''w3'' ''d'' 9)) (sample_after 5)"
  by (rule lifecycle_never_panics [OF sample_reachable(4)])
    (simp_all add: heartbeat_by_def sample_budget_def)

text \<open>
  Functional. A claim is granted exactly when the task exists, the worker has its role,
  the lease would end after now, the task is unclaimed or its lease has expired, its
  dependencies are completed, an attempt is left and no other task holds one of its write
  keys; otherwise the kernel is unchanged.
\<close>

theorem claim_granted_iff:
  "(\<exists>l. fst (claim r k) = Ok l) \<longleftrightarrow>
     (\<exists>task s. bm_get (lk_tasks k) (clr_task_id r) = Some task
       \<and> bm_get (lk_state k) (clr_task_id r) = Some s
       \<and> clr_worker_role r = task_assigned_role task \<and> clr_worker_role r \<noteq> Coordinator
       \<and> clr_now r < clr_expires_at r
       \<and> (tes_status s \<in> {TaskPending, TaskReady}
          \<or> tes_status s = TaskRunning
            \<and> (\<exists>l. tes_current_lease s = Some l \<and> tl_expires_at l \<le> clr_now r))
       \<and> (\<forall>d \<in> set (task_dependencies task). task_status_in k d = Some TaskCompleted)
       \<and> tes_attempts s \<noteq> - 1 \<and> tes_attempts s < max_attempts_of k
       \<and> (\<forall>key \<in> set (task_write_keys task). \<forall>held. owner_at k key = Some held \<longrightarrow>
            wko_expires_at held \<le> clr_now r \<or> wko_task_id held = clr_task_id r))"
  by (rule claim_granted)

theorem claim_granted_iff_witness:
  "(\<exists>l. fst (claim (claim_by ''w3'' ''d'' 7) (sample_after 4)) = Ok l)
   \<and> \<not> (\<exists>l. fst (claim (claim_by ''w3'' ''d'' 7) (sample_after 3)) = Ok l)"
proof -
  have "is_ok (fst (claim (claim_by ''w3'' ''d'' 7) (sample_after 4)))"
    "task_status_in (sample_after 3) ''a'' = Some TaskRunning"
    "bm_get (lk_tasks (sample_after 3)) ''d'' = Some (sample_task ''d'' [''a''] [''schema''])"
    by code_simp+
  then show ?thesis
    using claim_granted_iff [of "claim_by ''w3'' ''d'' 7" "sample_after 3"]
      claim_granted_iff [of "claim_by ''w3'' ''d'' 7" "sample_after 4"]
    by (auto simp: is_ok_iff claim_by_def sample_task_def)
qed

text \<open>
  Liveness. A task whose worker let its lease expire can be claimed again at once by
  any worker of its role, while an attempt is left and no other task holds its write keys.
\<close>

theorem expired_task_reclaimable:
  assumes "reachable run_id tasks budget T k" and "T \<le> clr_now r"
    and "lease k (clr_task_id r) = Some l" and "tl_expires_at l \<le> clr_now r"
    and "attempts k (clr_task_id r) = Some n" and "n < rb_max_attempts budget"
    and "clr_worker_role r = tl_worker_role l" and "clr_now r < clr_expires_at r"
    and "\<And>key held. key \<in> tl_write_keys l \<Longrightarrow> owner_at k key = Some held \<Longrightarrow>
      wko_task_id held \<noteq> clr_task_id r \<Longrightarrow> wko_expires_at held \<le> clr_now r"
  shows "\<exists>l'. fst (claim r k) = Ok l' \<and> active_lease (snd (claim r k)) (clr_task_id r) (clr_now r) = Some l'"
proof -
  note inv = reachable_invariant [OF assms(1), THEN conjunct1]
  obtain s where s: "state_at k (clr_task_id r) = Some s" "tes_current_lease s = Some l"
    using assms(3) by (auto simp: lease_Some_iff)
  from inv s(1) obtain task where task: "bm_get (lk_tasks k) (clr_task_id r) = Some task"
    and ok: "state_ok k (clr_task_id r) task s" by (rule task_of_state)
  then have l: "lease_ok k (clr_task_id r) task (tes_attempts s) l"
    and running: "tes_status s = TaskRunning" using s(2) by (simp_all add: state_ok_def)
  have few: "tes_attempts s < max_attempts_of k"
    using assms(5,6) s(1) by (auto simp: attempts_def reachable_max_attempts [OF assms(1)])
  moreover have "tes_attempts s \<noteq> - 1" using few word_max_below by simp
  moreover have "\<forall>d \<in> set (task_dependencies task). task_status_in k d = Some TaskCompleted"
    using reachable_dependencies [OF assms(1)] task s(1) l
    by (auto simp: started_after_dependencies_def lease_ok_def)
  moreover have "task_assigned_role task \<noteq> Coordinator"
    using reachable_roles [OF assms(1) task] .
  ultimately have "\<exists>l. fst (claim r k) = Ok l"
    using s task l running assms(4,7-9) by (subst claim_granted) (auto simp: lease_ok_def)
  then obtain l' where l': "fst (claim r k) = Ok l'" by blast
  then have "active_lease (snd (claim r k)) (clr_task_id r) (clr_now r) = Some l'"
    using assms(8) by (rule claim_activates)
  then show ?thesis using l' by blast
qed

theorem expired_task_reclaimable_witness:
  "\<exists>l. fst (claim (claim_by ''w4'' ''c'' 15) (sample_after 5)) = Ok l"
proof -
  obtain l where l: "lease (sample_after 5) ''c'' = Some l" "tl_worker_role l = Engineer"
    "tl_expires_at l = 11" "tl_write_keys l = {''docs''}"
    using sample_lease_c by auto
  have tries: "attempts (sample_after 5) ''c'' = Some 1"
    and own: "map_option wko_task_id (owner_at (sample_after 5) ''docs'') = Some ''c''"
    by code_simp+
  let ?r = "claim_by ''w4'' ''c'' 15"
  have r: "clr_task_id ?r = ''c''" "clr_now ?r = 15" "clr_worker_role ?r = Engineer"
    "clr_expires_at ?r = 25"
    by (simp_all add: claim_by_def)
  have "\<exists>l'. fst (claim ?r (sample_after 5)) = Ok l'
      \<and> active_lease (snd (claim ?r (sample_after 5))) (clr_task_id ?r) (clr_now ?r) = Some l'"
    by (rule expired_task_reclaimable [OF sample_reachable(4), where l = l and n = 1])
      (use own in \<open>auto simp only: r l tries sample_budget_def retry_budget.simps option.map
        option.inject singleton_iff\<close>, simp_all)
  then show ?thesis by blast
qed

text \<open>
  C11 (refinement). Whatever operation is applied, at most the task it names moves, and it
  moves along the task state machine: claims use up attempts, only a running task ends, a
  failure retries exactly while attempts are left.
\<close>

theorem operations_follow_task_step:
  assumes "reachable run_id tasks budget T k" and "state_at k i = Some s"
  shows "\<exists>s'. state_at (operate op k) i = Some s' \<and>
    (progress s' = progress s
     \<or> i = op_task op \<and> task_step (rb_max_attempts budget) (progress s) (progress s'))"
proof (cases op k rule: operate_cases)
  case (applied k')
  then show ?thesis
    using apply_op_progress [OF _ applied(1) assms(2)] reachable_invariant [OF assms(1)]
      reachable_max_attempts [OF assms(1)] by auto
qed (use assms(2) in simp)

theorem operations_follow_task_step_witness:
  "\<exists>s'. state_at (operate (ClaimOp (claim_by ''w1'' ''a'' 0)) sample_kernel) ''a'' = Some s'
     \<and> (progress s' = (TaskPending, 0) \<or> task_step 2 (TaskPending, 0) (progress s'))"
  using operations_follow_task_step [OF sample_reachable(1), of "''a''"
      "initial_execution (sample_task ''a'' [] [''schema''])" "ClaimOp (claim_by ''w1'' ''a'' 0)"]
    sample_state_a by (auto simp: sample_budget_def progress_def initial_execution_def sample_task_def)

text \<open>
  C12 (safety). The record of a completed, cancelled or failed task is final: no operation
  changes anything in it.
\<close>

theorem ended_tasks_are_frozen:
  assumes "reachable run_id tasks budget T k" and "state_at k i = Some s"
    and "tes_status s \<in> {TaskCompleted, TaskCancelled, TaskFailed}"
  shows "state_at (operate op k) i = Some s"
  using assms reachable_invariant [OF assms(1)]
  by (cases op k rule: operate_cases) (auto intro: apply_op_frozen)

theorem ended_tasks_are_frozen_witness:
  "task_status_in (operate (ClaimOp (claim_by ''w9'' ''a'' 50)) (sample_after 4)) ''a''
     = Some TaskCompleted"
proof -
  have "task_status_in (sample_after 4) ''a'' = Some TaskCompleted" by code_simp
  then obtain s where "state_at (sample_after 4) ''a'' = Some s" "tes_status s = TaskCompleted"
    by (auto simp: task_status_in_def)
  with ended_tasks_are_frozen [OF sample_reachable(3) this(1), of "ClaimOp (claim_by ''w9'' ''a'' 50)"]
  show ?thesis by (simp add: task_status_in_def)
qed

text \<open>
  C14 (bounds). No task is ever tried more often than the retry budget allows, and a lease
  carries the number of the attempt that holds it, which is not 0.
\<close>

theorem attempts_within_budget:
  assumes "reachable run_id tasks budget T k" and "attempts k i = Some n"
  shows "n \<le> rb_max_attempts budget
    \<and> (\<forall>l. lease k i = Some l \<longrightarrow> tl_attempt l = n \<and> 0 < n \<and> tl_max_attempts l = rb_max_attempts budget)"
proof -
  note inv = reachable_invariant [OF assms(1), THEN conjunct1]
  from assms(2) obtain s where s: "state_at k i = Some s" "n = tes_attempts s"
    by (auto simp: attempts_def)
  from inv s(1) obtain task where "state_ok k i task s" by (rule task_of_state)
  then show ?thesis
    using s reachable_max_attempts [OF assms(1)]
    by (auto simp: state_ok_def attempts_ok_def lease_Some_iff lease_ok_def word_gt_0)
qed

theorem attempts_within_budget_witness:
  "attempts (sample_after 2) ''a'' = Some 1 \<and> (1 :: u32) \<le> 2"
proof -
  have "attempts (sample_after 2) ''a'' = Some 1" by code_simp
  with attempts_within_budget [OF sample_reachable(2) this] show ?thesis
    by (simp add: sample_budget_def)
qed

text \<open>
  Functional. Completion is idempotent: repeating a granted completion returns the
  recorded end and changes nothing, and a completion under another key is refused as a
  conflict.
\<close>

theorem completion_idempotent:
  assumes "complete r k = (Ok t, k')"
  shows "complete r k' = (Ok t, k')
    \<and> (key \<noteq> cmr_idempotency_key r \<longrightarrow> complete (r\<lparr>cmr_idempotency_key := key\<rparr>) k'
          = (Err (EL_IdempotencyKeyConflict (cmr_task_id r) (cmr_idempotency_key r) key), k'))"
proof -
  from assms have "apply_completion r k = Ok (t, k')"
    by (auto simp: complete_def commit_def split: result.splits)
  then show ?thesis
    unfolding apply_completion_def by (auto simp: complete_def commit_def apply_completion_def
        dest: terminal_retry [where key = "cmr_idempotency_key r"])
qed

theorem completion_idempotent_witness:
  "\<exists>t. complete (completion_by ''w1'' ''a'' 6) (sample_after 3) = (Ok t, sample_after 4)
     \<and> complete (completion_by ''w1'' ''a'' 6) (sample_after 4) = (Ok t, sample_after 4)"
proof -
  have "is_ok (fst (complete (completion_by ''w1'' ''a'' 6) (sample_after 3)))" by code_simp
  moreover have "snd (complete (completion_by ''w1'' ''a'' 6) (sample_after 3)) = sample_after 4"
    by (simp add: sample_after_def sample_ops_def)
  ultimately obtain t where
    "complete (completion_by ''w1'' ''a'' 6) (sample_after 3) = (Ok t, sample_after 4)"
    by (metis is_ok_iff prod.collapse)
  with completion_idempotent [OF this] show ?thesis by blast
qed

text \<open>
  C10 (roundtrip). Restoring the snapshot of a reachable kernel gives that kernel back exactly
  when every recorded lease, expired or not, still owns its write keys; in particular always
  when no lease has expired.
\<close>

theorem restore_of_snapshot:
  assumes "reachable run_id tasks budget T k"
  shows "(restore run_id tasks budget (snapshot k) = Ok k \<longleftrightarrow>
      (\<forall>i l key. lease k i = Some l \<longrightarrow> key \<in> tl_write_keys l \<longrightarrow> owner_at k key = Some (owner_of i l)))
    \<and> ((\<forall>i l. lease k i = Some l \<longrightarrow> T < tl_expires_at l) \<longrightarrow>
        restore run_id tasks budget (snapshot k) = Ok k)"
  using restore_snapshot_iff [OF assms, of k] reachable_invariant [OF assms]
  by (auto simp: all_owned_def intro: live_lease_owns)

theorem restore_of_snapshot_witness:
  "restore ''run'' sample_tasks sample_budget (snapshot sample_kernel) = Ok sample_kernel
   \<and> restore ''run'' sample_tasks sample_budget (snapshot takeover_kernel) \<noteq> Ok takeover_kernel"
proof
  have "lease sample_kernel i = None" for i
    by (cases "bm_get (tasks_by_id sample_tasks) i")
      (simp_all add: sample_kernel_def lease_def initial_execution_def)
  then show "restore ''run'' sample_tasks sample_budget (snapshot sample_kernel) = Ok sample_kernel"
    using restore_of_snapshot [OF sample_reachable(1)] by simp
  have a: "map_option tl_write_keys (lease takeover_kernel ''a'') = Some {''schema''}"
    and b: "map_option wko_task_id (owner_at takeover_kernel ''schema'') = Some ''b''"
    by code_simp+
  show "restore ''run'' sample_tasks sample_budget (snapshot takeover_kernel) \<noteq> Ok takeover_kernel"
  proof
    assume "restore ''run'' sample_tasks sample_budget (snapshot takeover_kernel) = Ok takeover_kernel"
    then have owned: "owner_at takeover_kernel key = Some (owner_of i l)"
      if "lease takeover_kernel i = Some l" "key \<in> tl_write_keys l" for i l key
      using restore_of_snapshot [OF takeover_reachable] that by blast
    obtain l where "lease takeover_kernel ''a'' = Some l" "''schema'' \<in> tl_write_keys l"
      using a by auto
    from owned [OF this] b show False by simp
  qed
qed

end
