(* ===== verification/Durable_Safety.thy ===== *)
theory Durable_Safety
  imports Durable_Execution Lifecycle_Properties
begin

text \<open>
  What the durable execution authority guarantees among other clients of the store:
  restoration is sound, commands act atomically on the run stored at that moment, stored
  runs stay readable, and an expired lease keeps the claims of all other tasks out.
\<close>

section \<open>What a restored kernel satisfies\<close>

lemma check_restored_state_sound:
  assumes "check_restored_state m i s = Ok u"
  shows "attempts_ok m (tes_status s) (tes_attempts s)"
    "tes_attempts s = 0 \<longrightarrow> tes_last_failure_reason s = None"
    "tes_status s = TaskRunning \<longleftrightarrow> tes_current_lease s \<noteq> None"
    "map_option tr_outcome (tes_terminal_record s) = expected_outcome (tes_status s)"
  using assms by (auto simp: check_restored_state_def Let_def result_iff valid_attempts_def attempts_ok_def
      not_less split: task_status.splits)

lemma check_restored_lease_sound:
  "check_restored_lease k i task tries l = Ok u \<Longrightarrow> lease_ok k i task tries l"
  by (auto simp: check_restored_lease_def lease_ok_def Let_def result_iff not_less not_le)

lemma check_restored_terminal_sound:
  "check_restored_terminal k i tries r = Ok u \<Longrightarrow> record_for k i tries r"
  by (auto simp: check_restored_terminal_def record_for_def result_iff)

lemma restore_task_sound:
  assumes "restore_task k owners (i, s) = Ok owners'"
  obtains task where "bm_get (lk_tasks k) i = Some task" "state_ok k i task s"
    "try_fold insert_fresh owners (lease_pairs (i, s)) = Ok owners'"
proof -
  from assms obtain task where task: "bm_get (lk_tasks k) i = Some task"
    by (auto simp: restore_task_def result_iff)
  have "state_ok k i task s"
    unfolding state_ok_def
    using assms task check_restored_state_sound [of "max_attempts_of k" i s]
    by (auto simp: restore_task_def result_iff intro: check_restored_lease_sound
        check_restored_terminal_sound)
  then show ?thesis using that task assms restore_task_eq by simp
qed

lemma try_fold_restore_sound:
  assumes "try_fold (restore_task k) m es = Ok m'"
  shows "try_fold insert_fresh m (concat (map lease_pairs es)) = Ok m'
    \<and> (\<forall>(i, s) \<in> set es. \<exists>task. bm_get (lk_tasks k) i = Some task \<and> state_ok k i task s)"
  using assms
proof (induction es arbitrary: m)
  case (Cons e es)
  obtain i s where e: "e = (i, s)" by fastforce
  from Cons.prems obtain m1 where m1: "restore_task k m (i, s) = Ok m1"
    "try_fold (restore_task k) m1 es = Ok m'"
    by (auto simp: e result_iff)
  from m1(1) obtain task where "bm_get (lk_tasks k) i = Some task" "state_ok k i task s"
    "try_fold insert_fresh m (lease_pairs (i, s)) = Ok m1"
    by (rule restore_task_sound)
  then show ?case using Cons.IH [OF m1(2)] by (auto simp: e try_fold_append)
qed simp

lemma bm_keys_mono_deps:
  assumes "new_kernel run_id tasks budget = Ok k" and "bm_get (lk_tasks k) i = Some task"
  shows "set (task_dependencies task) \<subseteq> set (bm_keys (lk_tasks k))"
  using new_kernel_Ok(1,3) [OF assms(1)] assms(2) by auto

lemma restore_sound:
  assumes "restore run_id tasks budget snap = Ok k"
  shows "kernel_ok k" "all_owned k" "snapshot k = snap"
proof -
  from assms obtain k0 where k0: "new_kernel run_id tasks budget = Ok k0"
    and same: "els_run_id snap = run_id" "els_goal_id snap = lk_goal_id k0"
      "els_max_attempts snap = rb_max_attempts budget"
      "bm_keys (els_tasks snap) = bm_keys (lk_tasks k0)"
    and fold: "try_fold (restore_task k0) bm_empty (bm_entries (els_tasks snap))
      = Ok (els_write_key_owners snap)"
    and k: "k = k0\<lparr>lk_state := els_tasks snap, lk_write_key_owners := els_write_key_owners snap\<rparr>"
    by (auto simp: restore_def result_iff)
  note k0_eq = new_kernel_Ok(1) [OF k0]
  show "snapshot k = snap"
    using same k0_eq unfolding k by (simp add: snapshot_def)
  have states: "\<exists>task. bm_get (lk_tasks k0) i = Some task \<and> state_ok k0 i task s"
    if "bm_get (els_tasks snap) i = Some s" for i s
    using try_fold_restore_sound [OF fold] that by (fastforce simp: bm_entries_iff [symmetric])
  have "kernel_ok k"
    unfolding kernel_ok_def
  proof (intro conjI allI impI)
    show "set (bm_keys (lk_state k)) = set (bm_keys (lk_tasks k))" using same(4) by (simp add: k)
    show "set (task_dependencies task) \<subseteq> set (bm_keys (lk_tasks k))"
      if "bm_get (lk_tasks k) i = Some task" for i task
      using bm_keys_mono_deps [OF k0] that by (simp add: k)
    show "state_ok k i task s"
      if "bm_get (lk_tasks k) i = Some task" "bm_get (lk_state k) i = Some s" for i task s
      using states [of i s] that by (auto simp: k state_ok_cong)
  qed
  then show "kernel_ok k" .
  have "try_fold insert_fresh bm_empty (concat (map lease_pairs (bm_entries (lk_state k))))
      = Ok (lk_write_key_owners k)"
    using try_fold_restore_sound [OF fold] by (simp add: k)
  then have "(key, owner) \<in> set (concat (map lease_pairs (bm_entries (lk_state k)))) \<longleftrightarrow>
      owner_at k key = Some owner" for key owner
    unfolding insert_fresh_collects [OF lease_pairs_distinct] by blast
  then show "all_owned k"
    unfolding lease_pairs_iff [OF \<open>kernel_ok k\<close>] all_owned_def by blast
qed

lemma all_owned_exclusive:
  assumes "all_owned k" and "lease k i = Some l" and "lease k j = Some m" and "i \<noteq> j"
  shows "tl_write_keys l \<inter> tl_write_keys m = {}"
proof (rule ccontr)
  assume "tl_write_keys l \<inter> tl_write_keys m \<noteq> {}"
  then obtain key where "key \<in> tl_write_keys l" "key \<in> tl_write_keys m" by auto
  then have "owner_at k key = Some (owner_of i l)" and "owner_at k key = Some (owner_of j m)"
    using assms(1-3) unfolding all_owned_def by blast+
  then have "owner_of i l = owner_of j m" by simp
  then show False using assms(4) by (simp add: owner_of_def)
qed

section \<open>Restoring an envelope\<close>

lemma restore_kernel_Ok:
  "restore_kernel S run_id e = Ok k \<longleftrightarrow> check_envelope S run_id e = Ok ()
   \<and> restore (xe_run_id e) (map snd (bm_entries (xe_tasks e))) (xe_retry_budget e) (xe_snapshot e)
      = Ok k"
  by (auto simp: restore_kernel_def result_iff)

lemma restore_kernel_sound:
  assumes "restore_kernel S run_id e = Ok k"
  shows "kernel_ok k" "all_owned k" "snapshot k = xe_snapshot e"
  using assms restore_sound unfolding restore_kernel_Ok by blast+

lemma decode_and_restore_Ok:
  "decode_and_restore S run_id v = Ok l \<longleftrightarrow> (\<exists>e k. xs_decode S (vs_payload v) = Some e
     \<and> restore_kernel S run_id e = Ok k \<and> l = \<lparr>lr_envelope = e, lr_revision = vs_revision v\<rparr>)"
  by (auto simp: decode_and_restore_def result_iff)

lemma prepare_command_Ok:
  assumes "prepare_command S run_id operation v = Ok prepared"
  obtains e k k' out where "xs_decode S (vs_payload v) = Some e"
    "restore_kernel S run_id e = Ok k" "operation k = (Ok out, k')"
    "prepared = Nothing_to_write \<lparr>cr_output = out, cr_snapshot = snapshot k, cr_revision = vs_revision v\<rparr>
       \<and> snapshot k' = snapshot k
     \<or> (\<exists>k'' payload. snapshot k' \<noteq> snapshot k
       \<and> restore_kernel S run_id (e\<lparr>xe_snapshot := snapshot k'\<rparr>) = Ok k''
       \<and> xs_encode S (e\<lparr>xe_snapshot := snapshot k'\<rparr>) = Some payload
       \<and> prepared = To_swap out (snapshot k') (vs_revision v) payload)"
proof -
  from assms obtain e k where e: "xs_decode S (vs_payload v) = Some e"
    "restore_kernel S run_id e = Ok k"
    by (auto simp: prepare_command_def result_iff decode_and_restore_Ok)
  obtain r k' where op: "operation k = (r, k')" by fastforce
  from assms e op obtain out where "r = Ok out"
    by (auto simp: prepare_command_def result_iff decode_and_restore_Ok Let_def)
  then show ?thesis
    using assms e op
    by (intro that [of e k out k'])
      (auto simp: prepare_command_def result_iff decode_and_restore_Ok Let_def split: if_splits)
qed

section \<open>Commands among other clients\<close>

text \<open>
  The command's result was produced by the kernel operation on the run stored in \<open>mid\<close>, and
  the table right after is \<open>mid\<close> with the operation's snapshot in its place.
\<close>

definition takes_effect ::
    "('ev, 'ir, 'x, 'y) execution_services \<Rightarrow> run_id \<Rightarrow>
     (lifecycle_kernel \<Rightarrow> 'o lifecycle \<times> lifecycle_kernel) \<Rightarrow> contents \<Rightarrow> 'o command_result \<Rightarrow>
     contents \<Rightarrow> bool" where
  "takes_effect S run_id operation mid r after \<longleftrightarrow> (\<exists>v e k k'.
     mid (entity_key run_id) = Some v \<and> xs_decode S (vs_payload v) = Some e
   \<and> restore_kernel S run_id e = Ok k \<and> operation k = (Ok (cr_output r), k')
   \<and> cr_snapshot r = snapshot k'
   \<and> (if snapshot k' = snapshot k then after = mid \<and> cr_revision r = vs_revision v
      else \<exists>w. after = mid(entity_key run_id \<mapsto> w) \<and> cr_revision r = vs_revision w
        \<and> vs_revision w = vs_revision v + 1
        \<and> xs_encode S (e\<lparr>xe_snapshot := snapshot k'\<rparr>) = Some (vs_payload w)
        \<and> (\<exists>k''. restore_kernel S run_id (e\<lparr>xe_snapshot := snapshot k'\<rparr>) = Ok k'')))"

text \<open>One pass of the loop: it ends with a result, or sees a conflict and has changed nothing.\<close>

lemma apply_pass:
  assumes env: "orderly env" and valid: "valid_database db"
    and current: "stored db (entity_key run_id) = Some current"
    and run: "apply_loop S env run_id operation limit left current db = (r, db')"
  obtains (nothing) out where "r = Ok out" "db' = db"
      "takes_effect S run_id operation (stored db) out (stored db)"
  | (swapped) out n where "r = Ok out" "valid_database db'"
      "takes_effect S run_id operation (stored (snd (env n) db)) out (stored db')"
  | (conflict) v n left' where "left = Suc left'"
      "stored (snd (env n) db) (entity_key run_id) = Some v"
      "apply_loop S env run_id operation limit left' v (snd (env n) db) = (r, db')"
  | (refused) e n where "r = Err e" "db' = db \<or> db' = snd (env n) db"
  | (stopped) "r = Panic" "prepare_command S run_id operation current = Panic" "db' = db"
proof (cases "prepare_command S run_id operation current")
  case (Err e)
  then show ?thesis using run valid by (intro refused [of e undefined]) (simp_all add: apply_loop.simps)
next
  case Panic
  then show ?thesis using run by (intro stopped) (simp_all add: apply_loop.simps)
next
  case (Ok prepared)
  from Ok obtain e k k' out where e: "xs_decode S (vs_payload current) = Some e"
    and k: "restore_kernel S run_id e = Ok k" and op: "operation k = (Ok out, k')"
    and "prepared = Nothing_to_write \<lparr>cr_output = out, cr_snapshot = snapshot k, cr_revision = vs_revision current\<rparr>
       \<and> snapshot k' = snapshot k
     \<or> (\<exists>k'' payload. snapshot k' \<noteq> snapshot k
       \<and> restore_kernel S run_id (e\<lparr>xe_snapshot := snapshot k'\<rparr>) = Ok k''
       \<and> xs_encode S (e\<lparr>xe_snapshot := snapshot k'\<rparr>) = Some payload
       \<and> prepared = To_swap out (snapshot k') (vs_revision current) payload)"
    by (rule prepare_command_Ok)
  then consider
      (write_nothing) "prepared = Nothing_to_write
        \<lparr>cr_output = out, cr_snapshot = snapshot k, cr_revision = vs_revision current\<rparr>"
        "snapshot k' = snapshot k"
    | (writes) k'' payload where "snapshot k' \<noteq> snapshot k"
        "restore_kernel S run_id (e\<lparr>xe_snapshot := snapshot k'\<rparr>) = Ok k''"
        "xs_encode S (e\<lparr>xe_snapshot := snapshot k'\<rparr>) = Some payload"
        "prepared = To_swap out (snapshot k') (vs_revision current) payload"
    by blast
  then show ?thesis
  proof cases
    case write_nothing
    define done_result where "done_result =
      \<lparr>cr_output = out, cr_snapshot = snapshot k, cr_revision = vs_revision current\<rparr>"
    have "r = Ok done_result" "db' = db"
      using run Ok write_nothing(1) by (simp_all add: apply_loop.simps done_result_def)
    moreover have "takes_effect S run_id operation (stored db) done_result (stored db)"
      using write_nothing(2) current e k op by (auto simp: takes_effect_def done_result_def)
    ultimately show ?thesis by (rule nothing)
  next
    case writes
    let ?n = "Suc (limit - left)"
    obtain o1 db1 where swap: "swap_call env ?n (entity_key run_id) (vs_revision current) payload db
        = (o1, db1)" by fastforce
    have valid1: "valid_database db1"
      using swap_call_later [OF env valid swap] by auto
    show ?thesis
    proof (cases o1)
      case (Err e1)
      then show ?thesis
        using run Ok writes swap swap_call_failed [OF env valid swap [unfolded Err]]
        by (intro refused [of "DE_Storage e1" ?n]) (simp_all add: apply_loop.simps)
    next
      case Panic
      then show ?thesis using swap swap_call_not_Panic [OF env valid] by blast
    next
      case o1: (Ok outcome)
      show ?thesis
      proof (cases outcome)
        case (Applied w)
        have "stored (snd (env ?n) db) (entity_key run_id) = Some current"
          "vs_revision w = vs_revision current + 1" "vs_payload w = payload"
          "stored db1 = (stored (snd (env ?n) db))(entity_key run_id \<mapsto> w)"
          using swap_call_applied [OF env valid current swap [unfolded o1 Applied]] by auto
        then show ?thesis
          using run Ok writes swap o1 Applied e k op valid1
          by (intro swapped [of "\<lparr>cr_output = out, cr_snapshot = snapshot k',
              cr_revision = vs_revision w\<rparr>" ?n])
            (auto simp: apply_loop.simps takes_effect_def)
      next
        case (Conflict v)
        have v: "stored db1 (entity_key run_id) = Some v" and db1: "db1 = snd (env ?n) db"
          using swap_call_conflict [OF env valid swap [unfolded o1 Conflict]] by auto
        have loop: "apply_loop S env run_id operation limit left current db =
            (case left of
               0 \<Rightarrow> (Err (DE_ContentionExhausted run_id limit (vs_revision v)), db1)
             | Suc left' \<Rightarrow> apply_loop S env run_id operation limit left' v db1)"
          by (subst apply_loop.simps) (simp add: Ok writes(4) swap o1 Conflict)
        show ?thesis
        proof (cases left)
          case 0
          then show ?thesis
            using run loop db1
            by (intro refused [of "DE_ContentionExhausted run_id limit (vs_revision v)" ?n]) simp_all
        next
          case (Suc left')
          then show ?thesis
            using run loop v unfolding db1 by (intro conflict [OF Suc, of ?n v]) simp_all
        qed
      qed
    qed
  qed
qed

lemma apply_loop_takes_effect:
  assumes env: "orderly env"
  shows "valid_database db \<Longrightarrow> stored db (entity_key run_id) = Some current \<Longrightarrow>
    apply_loop S env run_id operation limit left current db = (Ok r, db') \<Longrightarrow>
    \<exists>mid. later (stored db) mid \<and> takes_effect S run_id operation mid r (stored db')
      \<and> valid_database db'"
proof (induction left arbitrary: current db)
  case 0
  from env 0(1-3) show ?case
    by (cases rule: apply_pass) (use 0(1) later_refl orderlyD(2) [OF env] in blast)+
next
  case (Suc left)
  from env Suc.prems(1-3) show ?case
  proof (cases rule: apply_pass)
    case (conflict v n left')
    then show ?thesis
      using Suc.IH [of "snd (env n) db" v] later_trans orderlyD [OF env Suc.prems(1), of n] by blast
  qed (use Suc.prems(1) later_refl orderlyD(2) [OF env] in blast)+
qed

text \<open>What other clients and the command itself keep holds after the command, failed or not.\<close>

lemma apply_loop_keeps:
  assumes env: "orderly env"
    and others: "\<And>n db. valid_database db \<Longrightarrow> P (stored db) \<Longrightarrow> P (stored (snd (env n) db))"
    and own: "\<And>mid out after. P mid \<Longrightarrow> takes_effect S run_id operation mid out after \<Longrightarrow> P after"
  shows "valid_database db \<Longrightarrow> stored db (entity_key run_id) = Some current \<Longrightarrow>
    P (stored db) \<Longrightarrow> apply_loop S env run_id operation limit left current db = (r, db') \<Longrightarrow>
    P (stored db')"
proof (induction left arbitrary: current db)
  case 0
  from env 0(1,2,4) show ?case
    by (cases rule: apply_pass) (use 0(1,3) others own in blast)+
next
  case (Suc left)
  from env Suc.prems(1,2,4) show ?case
  proof (cases rule: apply_pass)
    case (conflict v n left')
    then show ?thesis
      using Suc.IH [of "snd (env n) db" v] Suc.prems(1,3) others orderlyD [OF env Suc.prems(1), of n]
      by blast
  qed (use Suc.prems(1,3) others own in blast)+
qed

lemma apply_command_keeps:
  assumes env: "orderly env"
    and others: "\<And>n db. valid_database db \<Longrightarrow> P (stored db) \<Longrightarrow> P (stored (snd (env n) db))"
    and own: "\<And>mid out after. P mid \<Longrightarrow> takes_effect S run_id operation mid out after \<Longrightarrow> P after"
    and valid: "valid_database db" and P: "P (stored db)"
    and run: "apply_command S env limit run_id operation db = (r, db')"
  shows "P (stored db')"
proof -
  obtain o0 db0 where load: "load_call env 0 (entity_key run_id) db = (o0, db0)" by fastforce
  then have db0: "db0 = snd (env 0) db" by (simp add: load_call_def Let_def)
  then have P0: "P (stored db0)" "valid_database db0"
    using others [OF valid P] orderlyD(1) [OF env valid] by auto
  show ?thesis
  proof (cases "\<exists>current. o0 = Ok (Some current)")
    case True
    then obtain current where o0: "o0 = Ok (Some current)" by blast
    have "apply_loop S env run_id operation limit limit current db0 = (r, db')"
      using run load o0 by (simp add: apply_command_def)
    have current: "stored db0 (entity_key run_id) = Some current"
      using load_call_Ok(3) [OF env valid load [unfolded o0]] by simp
    show ?thesis
      by (rule apply_loop_keeps [where P = P, OF env _ _ P0(2) current P0(1)])
        (fact others own \<open>apply_loop S env run_id operation limit limit current db0 = (r, db')\<close>)+
  next
    case False
    then have "db' = db0"
      using run load by (auto simp: apply_command_def split: result.splits option.splits)
    then show ?thesis using P0(1) by simp
  qed
qed

lemma apply_command_takes_effect:
  assumes env: "orderly env" and valid: "valid_database db"
    and run: "apply_command S env limit run_id operation db = (Ok r, db')"
  shows "\<exists>mid. later (stored db) mid \<and> takes_effect S run_id operation mid r (stored db')
    \<and> valid_database db'"
proof -
  obtain o0 db0 where load: "load_call env 0 (entity_key run_id) db = (o0, db0)" by fastforce
  from run load obtain current where o0: "o0 = Ok (Some current)"
    and loop: "apply_loop S env run_id operation limit limit current db0 = (Ok r, db')"
    by (auto simp: apply_command_def split: result.splits option.splits)
  note loaded = load_call_Ok [OF env valid load [unfolded o0]]
  from apply_loop_takes_effect [OF env loaded(1) loaded(3) [symmetric] loop] loaded(2)
  show ?thesis using later_trans by blast
qed

section \<open>Stored runs stay readable\<close>

definition codec_round_trips :: "('ev, 'ir, 'x, 'y) execution_services \<Rightarrow> bool" where
  "codec_round_trips S \<longleftrightarrow> (\<forall>e payload. xs_encode S e = Some payload \<longrightarrow> xs_decode S payload = Some e)"

definition readable :: "('ev, 'ir, 'x, 'y) execution_services \<Rightarrow> run_id \<Rightarrow> contents \<Rightarrow> bool" where
  "readable S run_id c \<longleftrightarrow> (\<forall>v. c (entity_key run_id) = Some v \<longrightarrow>
     (\<exists>l. decode_and_restore S run_id v = Ok l))"

lemma readable_encoded:
  assumes "codec_round_trips S" and "xs_encode S e = Some (vs_payload w)"
    and "restore_kernel S run_id e = Ok k"
  shows "readable S run_id (c(entity_key run_id \<mapsto> w))"
  using assms by (auto simp: readable_def decode_and_restore_Ok codec_round_trips_def)

lemma takes_effect_readable:
  assumes "codec_round_trips S" and "readable S run_id mid"
    and "takes_effect S run_id operation mid r after"
  shows "readable S run_id after"
  using assms readable_encoded by (fastforce simp: takes_effect_def split: if_splits)

lemma apply_command_readable:
  assumes codec: "codec_round_trips S" and env: "orderly env" and valid: "valid_database db"
    and others: "\<And>n db. valid_database db \<Longrightarrow> readable S run_id (stored db) \<Longrightarrow>
      readable S run_id (stored (snd (env n) db))"
    and db: "readable S run_id (stored db)"
    and run: "apply_command S env limit run_id operation db = (r, db')"
  shows "readable S run_id (stored db')"
  by (rule apply_command_keeps [where P = "readable S run_id", OF env _ _ valid db run])
    (use others takes_effect_readable [OF codec] in blast)+

section \<open>Claims and expired leases\<close>

text \<open>
  A claim forgets the expired owners of other tasks, whose leases stay recorded; the state
  it would write is not restorable, so the claim is refused.
\<close>

lemma claim_disowns:
  assumes claim: "apply_claim r k = Ok (l', k')" and "i \<noteq> clr_task_id r"
    and l: "lease k i = Some l" "tl_expires_at l \<le> clr_now r" and key: "key \<in> tl_write_keys l"
    and owned: "all_owned k"
  shows "\<not> all_owned k'"
proof
  assume owned': "all_owned k'"
  have "owner_at k key = Some (owner_of i l)" using owned l(1) key by (simp add: all_owned_def)
  have "lease k' i = Some l"
    using claim \<open>i \<noteq> clr_task_id r\<close> l(1) by (auto elim!: apply_claim_Ok)
  then have "owner_at k' key = Some (owner_of i l)" using owned' key by (simp add: all_owned_def)
  moreover have "owner_at k' key \<noteq> Some (owner_of i l)"
    using claim \<open>i \<noteq> clr_task_id r\<close> l(2)
    by (auto elim!: apply_claim_Ok simp: owner_of_def split: if_splits)
  ultimately show False by simp
qed

lemma claim_preparation_refused:
  assumes e: "xs_decode S (vs_payload v) = Some e" and k: "restore_kernel S run_id e = Ok k"
    and "i \<noteq> clr_task_id r" and l: "lease k i = Some l" "tl_expires_at l \<le> clr_now r"
    and keys: "tl_write_keys l \<noteq> {}"
  shows "prepare_command S run_id (claim r) v \<noteq> Ok prepared"
proof
  assume "prepare_command S run_id (claim r) v = Ok prepared"
  then obtain k' out where op: "claim r k = (Ok out, k')"
    and cases: "snapshot k' = snapshot k
      \<or> (\<exists>k''. restore_kernel S run_id (e\<lparr>xe_snapshot := snapshot k'\<rparr>) = Ok k'')"
    using e k by (elim prepare_command_Ok) auto
  have claim: "apply_claim r k = Ok (out, k')"
    using op by (auto simp: claim_def commit_def split: result.splits)
  note sound = restore_kernel_sound [OF k]
  obtain key where "key \<in> tl_write_keys l" using keys by blast
  note lost = claim_disowns [OF claim assms(3) l this sound(2)]
  have same: "all_owned k1 = all_owned k2" if "snapshot k1 = snapshot k2" for k1 k2
    using that by (simp add: snapshot_def all_owned_def lease_def)
  from cases show False
  proof (elim disjE exE)
    assume "snapshot k' = snapshot k"
    then show False using same lost sound(2) by blast
  next
    fix k'' assume k'': "restore_kernel S run_id (e\<lparr>xe_snapshot := snapshot k'\<rparr>) = Ok k''"
    from restore_kernel_sound [OF this] have "snapshot k'' = snapshot k'" "all_owned k''" by simp_all
    then show False using same lost by blast
  qed
qed

section \<open>A sample store\<close>

text \<open>A codec for the states of the sample run: each is written as its number.\<close>

type_synonym sample_envelope = "(unit, unit) execution_envelope"

definition sample_envelope :: "lifecycle_kernel \<Rightarrow> sample_envelope" where
  "sample_envelope k = initial_envelope ''run'' sample_tasks sample_budget k"

definition sample_states :: "sample_envelope list" where
  "sample_states = map sample_envelope [sample_kernel, sample_after 1, sample_after 2, takeover_kernel]"

definition sample_encode :: "sample_envelope \<Rightarrow> bytes option" where
  "sample_encode e = map_option (\<lambda>n. [of_nat n])
     (find (\<lambda>n. sample_states ! n = e) [0..<4])"

definition sample_decode :: "bytes \<Rightarrow> sample_envelope option" where
  "sample_decode payload =
     map_option (\<lambda>n. sample_states ! n) (find (\<lambda>n. payload = [of_nat n]) [0..<4])"

definition open_rules :: "(sample_envelope, unit, unit) projection_rules" where
  "open_rules = \<lparr>pr_validate = \<lambda>_. Ok (), pr_binding = \<lambda>_ _. Ok (), pr_successor = \<lambda>_ _. Ok (),
     pr_initial = \<lambda>_. Ok (), pr_digest = \<lambda>_. ''''\<rparr>"

definition sample_services :: "(unit, unit, unit, unit) execution_services" where
  "sample_services = \<lparr>xs_encode = sample_encode, xs_decode = sample_decode,
     xs_verifier = open_rules, xs_review = open_rules\<rparr>"

definition sample_db :: "nat \<Rightarrow> database" where
  "sample_db n = bm_insert ''execution_run:run'' \<lparr>sr_payload = [of_nat n], sr_revision = int n\<rparr> bm_empty"

lemma sample_codec: "codec_round_trips sample_services"
proof -
  have "n < 4 \<Longrightarrow> find (\<lambda>m. [of_nat n :: 8 word] = [of_nat m]) [0..<4] = Some n" for n :: nat
    by (cases "n = 0"; cases "n = 1"; cases "n = 2"; cases "n = 3") (simp_all add: upt_rec)
  then show ?thesis
    by (auto simp: codec_round_trips_def sample_services_def sample_encode_def sample_decode_def
        dest!: find_Some_elem)
qed

lemma sample_db_valid [simp]: "n < 4 \<Longrightarrow> valid_database (sample_db n)"
  by (auto simp: valid_database_def sample_db_def split: if_splits)

lemma sample_db_readable: "readable sample_services ''run'' (stored (sample_db 0))"
proof -
  have "is_ok (decode_and_restore sample_services ''run'' \<lparr>vs_payload = [0], vs_revision = 0\<rparr>)"
    by code_simp
  then show ?thesis
    by (auto simp: readable_def is_ok_iff stored_def sample_db_def entity_of_def)
qed

section \<open>Properties\<close>

text \<open>
  C16 (refinement). A durable command that succeeds among other clients acted atomically: at
  some moment after it began, the run stored then was restored, the kernel operation was
  applied to it with exactly the returned result, and the stored run became that kernel's
  snapshot at the next revision, or was left alone when the operation changed nothing.
\<close>

theorem durable_command_linearizable:
  assumes "orderly env" and "valid_database db"
    and "apply_command S env limit run_id operation db = (Ok r, db')"
  shows "\<exists>mid. later (stored db) mid \<and> takes_effect S run_id operation mid r (stored db')"
  using apply_command_takes_effect [OF assms] by blast

theorem durable_command_linearizable_witness:
  "\<exists>r mid. later (stored (sample_db 0)) mid
     \<and> takes_effect sample_services ''run'' (claim (claim_by ''w1'' ''a'' 0)) mid r
         (stored (snd (durable_claim sample_services alone 16 ''run'' (claim_by ''w1'' ''a'' 0)
           (sample_db 0))))"
proof -
  let ?c = "durable_claim sample_services alone 16 ''run'' (claim_by ''w1'' ''a'' 0) (sample_db 0)"
  have "is_ok (fst ?c)" by code_simp
  then obtain r where "?c = (Ok r, snd ?c)" by (metis is_ok_iff prod.collapse)
  from durable_command_linearizable [OF _ _ this [unfolded durable_claim_def]] show ?thesis
    by (auto simp: durable_claim_def)
qed

text \<open>
  C18 (invariant). A stored run that can be read back, decoded and restored, stays readable
  under every durable command, whether it succeeds or not, as long as the encoding round
  trips and the other clients keep it readable.
\<close>

theorem stored_run_stays_readable:
  assumes "codec_round_trips S" and "orderly env" and "valid_database db"
    and "\<And>n db. valid_database db \<Longrightarrow> readable S run_id (stored db) \<Longrightarrow>
      readable S run_id (stored (snd (env n) db))"
    and "readable S run_id (stored db)"
    and "apply_command S env limit run_id operation db = (r, db')"
  shows "readable S run_id (stored db')"
  using assms by (rule apply_command_readable)

theorem stored_run_stays_readable_witness:
  "readable sample_services ''run'' (stored (snd
     (durable_claim sample_services alone 16 ''run'' (claim_by ''w1'' ''a'' 0) (sample_db 0))))"
  unfolding durable_claim_def
  by (rule stored_run_stays_readable [OF sample_codec orderly_alone _ _ sample_db_readable
        surjective_pairing]) (simp_all add: alone_def)

text \<open>
  C19 (type). Whatever snapshot is offered, a kernel that restoration accepts has exactly this
  snapshot, its task states are well formed, and no two of its leases, active or expired,
  share a write key.
\<close>

theorem restored_kernel_sound:
  assumes "restore run_id tasks budget snap = Ok k"
  shows "snapshot k = snap \<and> kernel_ok k
    \<and> (\<forall>i j l m. lease k i = Some l \<longrightarrow> lease k j = Some m \<longrightarrow> i \<noteq> j \<longrightarrow>
          tl_write_keys l \<inter> tl_write_keys m = {})"
  using restore_sound [OF assms] all_owned_exclusive by blast

theorem restored_kernel_sound_witness:
  "\<exists>k. restore ''run'' sample_tasks sample_budget (snapshot (sample_after 2)) = Ok k
     \<and> snapshot k = snapshot (sample_after 2) \<and> kernel_ok k"
proof -
  have "is_ok (restore ''run'' sample_tasks sample_budget (snapshot (sample_after 2)))" by code_simp
  then obtain k where "restore ''run'' sample_tasks sample_budget (snapshot (sample_after 2)) = Ok k"
    by (auto simp: is_ok_iff)
  from restored_kernel_sound [OF this] this show ?thesis by blast
qed

text \<open>
  C17 (expired lease blocks claims). Error. While a task's expired lease with write keys is recorded, no durable claim of
  any other task succeeds, and the store is left as it was.
\<close>

theorem expired_lease_blocks_claims:
  assumes valid: "valid_database db" and v: "stored db (entity_key run_id) = Some v"
    and e: "xs_decode S (vs_payload v) = Some e" and k: "restore_kernel S run_id e = Ok k"
    and other: "i \<noteq> clr_task_id r" and l: "lease k i = Some l" "tl_expires_at l \<le> clr_now r"
    and keys: "tl_write_keys l \<noteq> {}"
  shows "(\<forall>out. fst (durable_claim S alone limit run_id r db) \<noteq> Ok out)
    \<and> snd (durable_claim S alone limit run_id r db) = db"
proof -
  have "durable_claim S alone limit run_id r db
      = apply_loop S alone run_id (claim r) limit limit v db"
    by (simp add: durable_claim_def apply_command_def load_state_succeeds [OF valid] v)
  moreover have "\<nexists>prepared. prepare_command S run_id (claim r) v = Ok prepared"
    using claim_preparation_refused [OF e k other l keys] by blast
  ultimately show ?thesis
    by (cases "prepare_command S run_id (claim r) v") (auto simp: apply_loop.simps)
qed

theorem expired_lease_blocks_claims_witness:
  "fst (durable_claim sample_services alone 16 ''run'' (claim_by ''w2'' ''b'' 20) (sample_db 1))
     = Err (DE_CorruptState ''run'' (XC_Lifecycle (RS_DuplicateWriteKeyOwner ''schema'' ''a'' ''b'')))
   \<and> snd (durable_claim sample_services alone 16 ''run'' (claim_by ''w2'' ''b'' 20) (sample_db 1))
     = sample_db 1"
proof
  show "fst (durable_claim sample_services alone 16 ''run'' (claim_by ''w2'' ''b'' 20) (sample_db 1))
     = Err (DE_CorruptState ''run'' (XC_Lifecycle (RS_DuplicateWriteKeyOwner ''schema'' ''a'' ''b'')))"
    by code_simp
  let ?v = "\<lparr>vs_payload = [1], vs_revision = 1\<rparr>" and ?e = "sample_envelope (sample_after 1)"
  have v: "stored (sample_db 1) (entity_key ''run'') = Some ?v"
    by (simp add: stored_def sample_db_def entity_of_def entity_key_def)
  have e: "xs_decode sample_services (vs_payload ?v) = Some ?e" by code_simp
  have "is_ok (restore_kernel sample_services ''run'' ?e)" by code_simp
  then obtain k where k: "restore_kernel sample_services ''run'' ?e = Ok k"
    by (auto simp: is_ok_iff)
  have "map_option (\<lambda>l. (tl_expires_at l, tl_write_keys l)) (lease (sample_after 1) ''a'')
      = Some (10, {''schema''})" by code_simp
  moreover have "lease k ''a'' = lease (sample_after 1) ''a''"
    using restore_kernel_sound(3) [OF k]
    by (simp add: sample_envelope_def initial_envelope_def snapshot_def lease_def)
  ultimately obtain l where "lease k ''a'' = Some l" "tl_expires_at l = 10"
    "tl_write_keys l = {''schema''}" by auto
  then show "snd (durable_claim sample_services alone 16 ''run'' (claim_by ''w2'' ''b'' 20) (sample_db 1))
     = sample_db 1"
    using expired_lease_blocks_claims [OF _ v e k, where i = "''a''" and l = l]
    by (simp add: claim_by_def)
qed

text \<open>
  C15 (safety). A write to the versioned store at the revision of an earlier read is applied
  only while the entity is still in the very state that was read, whatever orderly clients
  did in between; the entity then has the new payload and the next revision, and no other
  entity changes.
\<close>

theorem versioned_store_no_lost_update:
  assumes "valid_database db" and "load_state io key db = Ok (Some v)"
    and "later (stored db) (stored db1)" and "valid_database db1"
    and "compare_and_swap io' key (vs_revision v) payload db1 = (Ok (Applied w), db2)"
  shows "stored db1 key = Some v \<and> vs_revision w = vs_revision v + 1 \<and> vs_payload w = payload
    \<and> stored db2 = (stored db1)(key \<mapsto> w)"
  using sqlite.no_lost_update [OF _ assms(3-5)] sqlite.look [OF assms(1,2)] by auto

theorem versioned_store_no_lost_update_witness:
  "stored (sample_db 1) ''execution_run:run'' = Some \<lparr>vs_payload = [1], vs_revision = 1\<rparr>"
proof -
  have "load_state (\<lambda>_. False) ''execution_run:run'' (sample_db 1)
      = Ok (Some \<lparr>vs_payload = [1], vs_revision = 1\<rparr>)" by code_simp
  moreover obtain db2 where "compare_and_swap (\<lambda>_. False) ''execution_run:run'' 1 [7] (sample_db 1)
      = (Ok (Applied \<lparr>vs_payload = [7], vs_revision = 2\<rparr>), db2)"
  proof -
    have "fst (compare_and_swap (\<lambda>_. False) ''execution_run:run'' 1 [7] (sample_db 1))
      = Ok (Applied \<lparr>vs_payload = [7], vs_revision = 2\<rparr>)" by code_simp
    then show ?thesis using that by (metis prod.collapse)
  qed
  ultimately show ?thesis
    using versioned_store_no_lost_update [of "sample_db 1" _ _ _ "sample_db 1"] by fastforce
qed

end
