(* ===== verification/Goal_Runtime_Safety.thy ===== *)
theory Goal_Runtime_Safety
  imports Goal_Runtime Durable_Safety
begin

text \<open>
  What the goal runtime guarantees: planning succeeds exactly for well-formed input and never
  fails its own replay; creating a run and appending an event keep the run's events
  replayable whatever step fails, for the single writer of the run; completion under an
  enforced policy is refused here; and a bootstrapped execution state holds the tasks of the
  recorded plan.
\<close>


section \<open>Planned runs\<close>

lemma wave_index_u64:
  assumes "i < 2 ^ 32" shows "(ucast (of_nat i :: u32) :: u64) = of_nat i"
  using assms by (simp add: unsigned_of_nat take_bit_nat_eq_self)

lemma planned_accepted:
  assumes "schedule_tasks tasks = Ok plan" and "length tasks \<le> 2 ^ 32"
    and "set declared = task_ids tasks"
  shows "validate_execution_plan sequence plan declared = Ok ()
    \<and> ep_contract_version plan = current_version"
proof -
  have inv: "loop_inv (tasks_by_id tasks) (task_ids tasks) [] (ep_waves plan)"
    and version: "ep_contract_version plan = 1"
    using schedule_tasks_Ok_inv [OF assms(1)] by simp_all
  have ids: "distinct (ids_of (ep_waves plan))" "set (ids_of (ep_waves plan)) = task_ids tasks"
    using inv by (simp_all add: loop_inv_def)
  have "length (ep_waves plan) \<le> length (ids_of (ep_waves plan))"
    using inv by (intro waves_ok_length [of "tasks_by_id tasks"]) (simp add: loop_inv_def)
  also have "\<dots> = card (task_ids tasks)"
    using ids by (metis distinct_card)
  also have "\<dots> \<le> length tasks"
    by (metis task_ids_def card_image_le List.finite_set card_length order_trans)
  finally have bound: "length (ep_waves plan) \<le> 2 ^ 32" using assms(2) by linarith
  have "(ucast (ew_index (ep_waves plan ! i)) :: u64) = of_nat i" if "i < length (ep_waves plan)" for i
  proof -
    have "ew_index (ep_waves plan ! i) = of_nat i"
      using inv that by (simp add: loop_inv_def waves_ok_def wave_ok_def)
    then show ?thesis using wave_index_u64 that bound by simp
  qed
  then show ?thesis
    using ids assms(3) version by (simp add: validate_execution_plan_Ok_iff del: set_concat)
qed

definition stamp_ids :: "planned_run_stamps \<Rightarrow> event_id list" where
  "stamp_ids stamps = map es_id (ordered_stamps stamps)"

lemma validate_stamps_Ok_iff [result_iff]:
  "validate_stamps stamps = Ok u \<longleftrightarrow>
     distinct (stamp_ids stamps) \<and> sorted (map es_occurred_at (ordered_stamps stamps))"
  by (auto simp: validate_stamps_def ordered_stamps_def stamp_ids_def result_iff check_stamp_pair_def
      insert_new_def Let_def split: if_splits)

lemma length_stamp_ids [simp]: "length (stamp_ids stamps) = 4"
  by (simp add: stamp_ids_def ordered_stamps_def)

text \<open>The run a planned history replays to.\<close>

definition planned_record ::
    "run_id \<Rightarrow> goal_contract \<Rightarrow> task_id list \<Rightarrow> planned_run_stamps \<Rightarrow> run_record" where
  "planned_record run goal ids stamps =
    \<lparr>rr_contract_version = 1, rr_id = run, rr_project_id = gc_project_id goal,
     rr_goal_id = gc_id goal, rr_task_ids = ids, rr_status = Planned, rr_event_count = 4,
     rr_last_event_sequence = Some 3, rr_last_event_id = Some (es_id (prs_planned stamps)),
     rr_evidence_refs = [], rr_created_at = es_occurred_at (prs_run_created stamps),
     rr_updated_at = es_occurred_at (prs_planned stamps), rr_started_at = None,
     rr_finished_at = None\<rparr>"

definition planned_run ::
    "run_id \<Rightarrow> goal_contract \<Rightarrow> task_id list \<Rightarrow> execution_plan \<Rightarrow> planned_run_stamps \<Rightarrow> replayed_run"
  where
  "planned_run run goal ids plan stamps =
    \<lparr>rp_run_record = planned_record run goal ids stamps, rp_execution_plan = Some plan,
     rp_task_statuses = bm_collect (map (\<lambda>t. (t, TaskPending)) ids),
     rp_evidence_references = [], rp_guard_outcomes = [], rp_review_audit_requirements = None,
     rp_review_decisions = [], rp_audit_decisions = [], rp_completion_evidence = None,
     rp_specialist_outputs = [], rp_final_response = None\<rparr>"

lemmas planned_events_simps =
  planned_events_def coordinator_event_def Let_def

lemma planned_events_chain:
  assumes "distinct (stamp_ids stamps)"
  shows "chain_ok run (planned_events run goal ids plan stamps)"
  using assms
  by (auto simp: chain_ok_def link_ok_def planned_events_simps stamp_ids_def ordered_stamps_def
      all_less_snoc [where es = "[_, _, _]", simplified] less_Suc_eq numeral_eq_Suc)

lemma planned_transitions:
  "validate_run_transition Draft Accepted goal evidence = Ok ()"
  "validate_run_transition Accepted Planned goal evidence = Ok ()"
  by (simp_all add: validate_run_transition_def validate_run_transition_with_guard_requirements_def
      run_status_transitions_def is_terminal_def)

lemma try_fold_distinct:
  "distinct xs \<Longrightarrow> set xs \<inter> seen = {} \<Longrightarrow>
   try_fold (insert_new err) seen xs = Ok (seen \<union> set xs)"
  by (induction xs arbitrary: seen) (auto simp: insert_new_def)

lemma replay_transition:
  assumes "ev_payload e = StatusTransition a b" and "rr_status (rp_run_record s) = a"
    and "validate_run_transition a b goal (rp_completion_evidence s) = Ok ()"
    and "b \<noteq> Running" and "\<not> is_terminal b"
  shows "replay_event goal d s e
    = Ok (s\<lparr>rp_run_record := count_event e ((rp_run_record s)\<lparr>rr_status := b\<rparr>)\<rparr>)"
  using assms
  by (simp add: replay_event_def apply_payload_def apply_status_transition_def set_run_status_def
      is_terminal_def)

lemma replay_plan:
  assumes "ev_payload e = ExecutionPlanRecorded plan" and "rp_execution_plan s = None"
    and "ep_contract_version plan = 1" and "validate_execution_plan (ev_sequence e) plan d = Ok ()"
  shows "replay_event goal d s e
    = Ok (s\<lparr>rp_execution_plan := Some plan, rp_run_record := count_event e (rp_run_record s)\<rparr>)"
  using assms
  by (simp add: replay_event_def apply_payload_def apply_plan_def validate_nested_contract_version_def)

lemma replay_created:
  "ev_payload e = RunCreated c \<Longrightarrow>
   replay_event goal d s e = Ok (s\<lparr>rp_run_record := count_event e (rp_run_record s)\<rparr>)"
  by (simp add: replay_event_def apply_payload_def)

lemma planned_fold:
  assumes "ep_contract_version plan = 1" and "\<And>q. validate_execution_plan q plan d = Ok ()"
    and events: "planned_events run goal ids plan stamps = [e0, e1, e2, e3]"
    and c: "ev_payload e0 = RunCreated c"
  shows "\<exists>s. try_fold (replay_event (Some goal) d) (initial_replay_state e0 c) [e0, e1, e2, e3] = Ok s
    \<and> replayed_run.truncate s = planned_run run goal ids plan stamps"
proof -
  have e: "ev_payload e1 = StatusTransition Draft Accepted" "ev_payload e2 = ExecutionPlanRecorded plan"
    "ev_payload e3 = StatusTransition Accepted Planned" "ev_sequence e0 = 0" "ev_sequence e1 = 1"
    "ev_sequence e2 = 2" "ev_sequence e3 = 3" "ev_id e3 = es_id (prs_planned stamps)"
    "ev_occurred_at e3 = es_occurred_at (prs_planned stamps)" "ev_contract_version e0 = 1"
    "ev_run_id e0 = run"
    "c = \<lparr>rc_project_id = gc_project_id goal, rc_goal_id = gc_id goal, rc_task_ids = ids,
      rc_status = Draft, rc_created_at = es_occurred_at (prs_run_created stamps),
      rc_updated_at = es_occurred_at (prs_run_created stamps), rc_started_at = None,
      rc_finished_at = None\<rparr>"
    using events c by (auto simp: planned_events_simps)
  have run: "try_fold (replay_event (Some goal) d) (initial_replay_state e0 c) [e0, e1, e2, e3]
    = Ok ((initial_replay_state e0 c)\<lparr>rp_execution_plan := Some plan,
        rp_run_record := planned_record run goal ids stamps\<rparr>)"
    using assms(1,2) e c
    by (simp add: replay_created replay_transition replay_plan planned_transitions is_terminal_def
        initial_replay_state_def count_event_def planned_record_def)
  show ?thesis
    unfolding run
    by (simp add: e(12) initial_replay_state_def replayed_run.truncate_def planned_run_def)
qed

lemma planned_replays:
  assumes "schedule_tasks tasks = Ok plan" and "length tasks \<le> 2 ^ 32"
    and "distinct (stamp_ids stamps)" and "set ids = task_ids tasks" and "distinct ids"
  shows "replay_run (planned_events run goal ids plan stamps) (Some goal)
    = Ok (planned_run run goal ids plan stamps)"
proof -
  obtain e0 e1 e2 e3 c where events: "planned_events run goal ids plan stamps = [e0, e1, e2, e3]"
    "ev_payload e0 = RunCreated c" "rc_task_ids c = ids" "check_created (Some goal) e0 c = Ok ()"
    using assms(5) by (auto simp: planned_events_simps check_created_def try_fold_distinct)
  have created: "created_of [e0, e1, e2, e3] = Some c" using events by (simp add: created_of_def)
  have declared: "declared_of [e0, e1, e2, e3] = ordered_set ids"
    using created events by (simp add: declared_of_def)
  have plan: "validate_execution_plan q plan (ordered_set ids) = Ok ()" "ep_contract_version plan = 1" for q
    using planned_accepted [OF assms(1,2), of "ordered_set ids"] assms(4) by simp_all
  obtain s where "try_fold (replay_event (Some goal) (ordered_set ids)) (initial_replay_state e0 c)
      [e0, e1, e2, e3] = Ok s" "replayed_run.truncate s = planned_run run goal ids plan stamps"
    using planned_fold [OF plan(2,1) events(1,2)] by blast
  moreover have "chain_ok run [e0, e1, e2, e3]"
    using planned_events_chain [OF assms(3), of run goal ids plan] events by simp
  ultimately show ?thesis
    using created declared events
    unfolding replay_run_Ok_iff replay_to_state_Ok_iff by (metis list.sel(1))
qed

text \<open>When planning succeeds, and with what.\<close>

definition plannable :: "goal_contract \<Rightarrow> task list \<Rightarrow> planned_run_stamps \<Rightarrow> bool" where
  "plannable goal tasks stamps \<longleftrightarrow>
     gc_contract_version goal = 1 \<and> pp_contract_version (gc_permission_profile goal) = 1
   \<and> cp_contract_version (gc_completion_precondition goal) = 1
   \<and> (\<forall>t \<in> set tasks. task_contract_version t = 1 \<and> task_goal_id t = gc_id goal
        \<and> task_status_of t = TaskPending)
   \<and> distinct (stamp_ids stamps) \<and> sorted (map es_occurred_at (ordered_stamps stamps))"

lemma build_Ok_iff:
  assumes "length tasks \<le> 2 ^ 32"
  shows "build_planned_run run goal tasks stamps = Ok (plan, events) \<longleftrightarrow>
    plannable goal tasks stamps \<and> schedule_tasks tasks = Ok plan
    \<and> events = planned_events run goal (sort (map task_id_of tasks)) plan stamps"
proof -
  have "replay_run (planned_events run goal (sort (map task_id_of tasks)) plan stamps) (Some goal)
      = Ok (planned_run run goal (sort (map task_id_of tasks)) plan stamps)"
    if "schedule_tasks tasks = Ok plan" "distinct (stamp_ids stamps)" for plan
    using that assms schedule_tasks_Ok_declared [OF that(1)]
    by (intro planned_replays) (auto simp: well_declared_def task_ids_def)
  then show ?thesis
    by (auto simp: build_planned_run_def validate_goal_contract_versions_def check_planned_task_def
        plannable_def result_iff Let_def planned_run_def planned_record_def)
qed

section \<open>Calls of one operation\<close>

lemma bind_call_cases:
  assumes "bind_call call f = (r, s')"
  obtains (Ok) a s where "call = (Ok a, s)" "f a s = (r, s')"
  | (Err) e where "call = (Err e, s')" "r = Err e"
  | (Panic) "call = (Panic, s')" "r = Panic"
  using assms by (cases call; cases "fst call") (auto simp: bind_call_def)

lemma bind_call_simps [simp]:
  "bind_call (Ok a, s) f = f a s"
  "bind_call (Err e, s) f = (Err e, s)"
  "bind_call (Panic, s) f = (Panic, s)"
  by (simp_all add: bind_call_def)

lemma bind_call_Ok_iff [result_iff]:
  "bind_call call f = (Ok b, s') \<longleftrightarrow> (\<exists>a s. call = (Ok a, s) \<and> f a s = (Ok b, s'))"
  by (cases call; cases "fst call") (auto simp: bind_call_def)

lemma with_err_simps [simp]:
  "fst (with_err g call) = map_err g (fst call)" "snd (with_err g call) = snd call"
  "with_err g call = (Ok a, s) \<longleftrightarrow> call = (Ok a, s)"
  "with_err g call = (Panic, s) \<longleftrightarrow> call = (Panic, s)"
  by (cases call; auto simp: with_err_def result_iff)+

lemma on_first_eq: "on_first call t = (r, m) \<longleftrightarrow> snd m = t \<and> call = (r, fst m)"
  by (cases call; cases m) (auto simp: on_first_def)

lemma on_second_eq: "on_second call s = (r, m) \<longleftrightarrow> fst m = s \<and> call = (r, snd m)"
  by (cases call; cases m) (auto simp: on_second_def)

lemma Ok_map_err_iff [simp]: "Ok a = map_err g r \<longleftrightarrow> r = Ok a"
  by (cases r) auto

definition run_events :: "event_codec \<Rightarrow> run_id \<Rightarrow> log_file \<Rightarrow> run_event list" where
  "run_events C run f = filter (\<lambda>e. ev_run_id e = run) (log_recorded C f)"

text \<open>The caller is the only writer of the run's events; others write other runs.\<close>

definition single_writer :: "event_codec \<Rightarrow> run_id \<Rightarrow> log_environment \<Rightarrow> bool" where
  "single_writer C run log_env \<longleftrightarrow>
     respectful (log_intact C) (log_recorded C) (\<lambda>e. ev_run_id e = run) (\<lambda>n. snd (log_env n))"

lemma others_keep:
  assumes "single_writer C run log_env" and "log_intact C f"
  shows "log_intact C (snd (log_env n) f)" "run_events C run (snd (log_env n) f) = run_events C run f"
  using respectful_filter [OF assms(1) [unfolded single_writer_def] assms(2), of n]
  by (simp_all add: run_events_def)

lemma load_events_result:
  assumes "single_writer C run log_env" and "log_intact C f"
    and "load_events_call C log_env n run f = (r, f')"
  shows "log_intact C f'" "run_events C run f' = run_events C run f" "r \<noteq> Panic"
    "r = Ok es \<Longrightarrow> es = run_events C run f"
  using others_keep [OF assms(1,2), of n] assms(3) jsonl.get_ok [of C f']
  by (auto simp: load_events_call_def Let_def log_load_run_def result_iff run_events_def
      and_then_Panic_iff)

lemma append_calls_result:
  assumes "single_writer C run log_env" and "log_intact C f"
    and "\<forall>e \<in> set es. storable C e \<and> ev_run_id e = run"
    and "each_call (append_call C log_env) n es f = (r, f')"
  shows "r \<noteq> Panic"
    "r = Ok () \<Longrightarrow> log_intact C f' \<and> run_events C run f' = run_events C run f @ es"
    "log_intact C f' \<Longrightarrow> \<exists>k \<le> length es. run_events C run f' = run_events C run f @ take k es"
proof -
  have "append_call C log_env = (\<lambda>n e f. log_append C ((fst \<circ> log_env) n) e (snd (log_env n) f))"
    by (simp add: append_call_def fun_eq_iff)
  then have "r \<noteq> Panic
    \<and> (r = Ok () \<longrightarrow> log_intact C f' \<and> run_events C run f' = run_events C run f @ es)
    \<and> (log_intact C f' \<longrightarrow>
        (\<exists>k \<le> length es. run_events C run f' = run_events C run f @ take k es))"
    using jsonl.each_put [OF assms(1) [unfolded single_writer_def] assms(2,3),
        of "fst \<circ> log_env" n r f'] assms(4)
    by (simp add: run_events_def)
  then show "r \<noteq> Panic"
    "r = Ok () \<Longrightarrow> log_intact C f' \<and> run_events C run f' = run_events C run f @ es"
    "log_intact C f' \<Longrightarrow> \<exists>k \<le> length es. run_events C run f' = run_events C run f @ take k es"
    by blast+
qed

lemma append_call_result:
  assumes "single_writer C (ev_run_id e) log_env" and "log_intact C f" and "storable C e"
    and "append_call C log_env n e f = (r, f')"
  shows "r \<noteq> Panic"
    "r = Ok () \<Longrightarrow> log_intact C f' \<and> run_events C (ev_run_id e) f' = run_events C (ev_run_id e) f @ [e]"
    "log_intact C f' \<Longrightarrow> run_events C (ev_run_id e) f' = run_events C (ev_run_id e) f
       \<or> run_events C (ev_run_id e) f' = run_events C (ev_run_id e) f @ [e]"
proof -
  have "each_call (append_call C log_env) n [e] f = (r, f')"
    using assms(4) by (cases r) simp_all
  from append_calls_result [OF assms(1,2) _ this] assms(3)
  show "r \<noteq> Panic"
    "r = Ok () \<Longrightarrow> log_intact C f' \<and> run_events C (ev_run_id e) f' = run_events C (ev_run_id e) f @ [e]"
    "log_intact C f' \<Longrightarrow> run_events C (ev_run_id e) f' = run_events C (ev_run_id e) f
       \<or> run_events C (ev_run_id e) f' = run_events C (ev_run_id e) f @ [e]"
    by (auto simp: le_Suc_eq)
qed

lemma load_goal_run_result:
  assumes "single_writer C run log_env" and "log_intact C f"
    and "load_goal_run C log_env n run goal f = (r, f')"
  shows "log_intact C f'" "run_events C run f' = run_events C run f"
    "r = Ok v \<Longrightarrow> replay_run (run_events C run f) (Some goal) = Ok v \<and> run_events C run f \<noteq> []"
proof -
  have "log_intact C f' \<and> run_events C run f' = run_events C run f"
    using assms(3) load_events_result [OF assms(1,2)] assms(2)
    by (auto simp: load_goal_run_def with_err_def elim!: bind_call_cases) (metis prod.collapse)+
  moreover have "r = Ok v \<Longrightarrow> replay_run (run_events C run f) (Some goal) = Ok v \<and> run_events C run f \<noteq> []"
    using assms(3) load_events_result [OF assms(1,2)]
    by (auto simp: load_goal_run_def result_iff replay_loaded_def)
  ultimately show "log_intact C f'" "run_events C run f' = run_events C run f"
    "r = Ok v \<Longrightarrow> replay_run (run_events C run f) (Some goal) = Ok v \<and> run_events C run f \<noteq> []"
    by blast+
qed

section \<open>Creating a run\<close>

lemma planned_events_run: "e \<in> set (planned_events run goal ids plan stamps) \<Longrightarrow> ev_run_id e = run"
  by (auto simp: planned_events_simps)

lemma with_err_eq: "with_err g call = (r, s) \<longleftrightarrow> (\<exists>q. call = (q, s) \<and> r = map_err g q)"
  by (cases call) (auto simp: with_err_def)

lemma create_run_result:
  assumes single: "single_writer C run log_env" and intact: "log_intact C f"
    and built: "build_planned_run run goal tasks stamps = Ok (plan, events)"
    and own: "\<forall>e \<in> set events. storable C e"
    and call: "create_run C log_env run goal tasks stamps f = (r, f')"
  shows "r = Ok v \<Longrightarrow> run_events C run f = [] \<and> log_intact C f' \<and> run_events C run f' = events
      \<and> replay_run events (Some goal) = Ok v"
    and "log_intact C f' \<Longrightarrow> run_events C run f' = run_events C run f
      \<or> run_events C run f = [] \<and> (\<exists>k \<le> length events. run_events C run f' = take k events)"
proof -
  have events: "\<forall>e \<in> set events. storable C e \<and> ev_run_id e = run"
    using own built planned_events_run by (auto simp: build_planned_run_def result_iff Let_def)
  obtain q g where load: "load_events_call C log_env 0 run f = (q, g)" by fastforce
  note loaded = load_events_result [OF single intact load]
  obtain w h where puts: "each_call (append_call C log_env) 1 events g = (w, h)" by fastforce
  note written = append_calls_result [OF single loaded(1) events puts]
  show "run_events C run f = [] \<and> log_intact C f' \<and> run_events C run f' = events
      \<and> replay_run events (Some goal) = Ok v" if "r = Ok v"
  proof -
    have q: "q = Ok []" and w: "w = Ok ()" and final: "load_goal_run C log_env 5 run goal h = (r, f')"
      using call that built load puts by (auto simp: create_run_def result_iff)
    have h: "run_events C run f = []" "log_intact C h" "run_events C run h = events"
      using loaded(2,4) q written(2) [OF w] by auto
    then show ?thesis using load_goal_run_result [OF single h(2) final] that by simp
  qed
  show "run_events C run f' = run_events C run f
      \<or> run_events C run f = [] \<and> (\<exists>k \<le> length events. run_events C run f' = take k events)"
    if "log_intact C f'"
  proof (cases "q = Ok []")
    case False
    then have "f' = g" using call built load
      by (cases q) (auto simp: create_run_def with_err_def require_def)
    then show ?thesis using loaded(2) by simp
  next
    case True
    then have empty: "run_events C run f = []" "run_events C run g = []" using loaded(2,4) by auto
    show ?thesis
    proof (cases "w = Ok ()")
      case True
      then have h: "log_intact C h" "run_events C run h = events" using written(2) empty by auto
      have "load_goal_run C log_env 5 run goal h = (r, f')"
        using call built load puts \<open>q = Ok []\<close> True by (simp add: create_run_def with_err_def)
      then have "run_events C run f' = events" using load_goal_run_result(2) [OF single h(1)] h(2) by simp
      then show ?thesis using empty by (auto intro: exI [of _ "length events"])
    next
      case False
      then have "f' = h" using call built load puts \<open>q = Ok []\<close>
        by (cases w) (auto simp: create_run_def with_err_def)
      then show ?thesis using written(3) that empty by auto
    qed
  qed
qed

section \<open>Appending an event\<close>

lemma load_issue6_file:
  "load_issue6_execution R log_env n env k run media = (r, media') \<Longrightarrow>
   fst media' = snd (log_env n) (fst media)"
  by (auto simp: load_issue6_execution_def Let_def elim!: bind_call_cases
      split: if_splits prod.splits result.splits)

lemma evidence_key_file:
  "independent_review_evidence_key R log_env n env k run media = (r, media') \<Longrightarrow>
   fst media' = snd (log_env n) (fst media)"
  by (auto simp: independent_review_evidence_key_def elim!: bind_call_cases dest!: load_issue6_file)

lemma validate_snapshot_file:
  "validate_independent_completion_snapshot R log_env n env k run replayed snap media = (r, media') \<Longrightarrow>
   fst media' = snd (log_env n) (fst media)"
  by (auto simp: validate_independent_completion_snapshot_def elim!: bind_call_cases
      dest!: load_issue6_file)

text \<open>
  What a run's events may become in an append: unchanged, or with the event at the end, in
  which case they replay. When the write was cut short, the file is an intact log with the
  events unchanged and a proper part of the line of an event that replays.
\<close>

definition kept :: "event_codec \<Rightarrow> run_id \<Rightarrow> run_event list \<Rightarrow> log_file \<Rightarrow> bool" where
  "kept C run es f \<longleftrightarrow> log_intact C f \<and> run_events C run f = es"

definition appended_at_most ::
    "event_codec \<Rightarrow> goal_contract \<Rightarrow> run_event \<Rightarrow> run_event list \<Rightarrow> log_file \<Rightarrow> bool" where
  "appended_at_most C goal e es f \<longleftrightarrow> (log_intact C f \<longrightarrow> run_events C (ev_run_id e) f = es
     \<or> run_events C (ev_run_id e) f = es @ [e] \<and> is_ok (replay_run (es @ [e]) (Some goal)))
   \<and> (\<not> log_intact C f \<longrightarrow> is_ok (replay_run (es @ [e]) (Some goal))
     \<and> (\<exists>before. kept C (ev_run_id e) es before \<and> torn_line C e before f))"

lemma appended_at_most_iff:
  "appended_at_most C goal e es f \<longleftrightarrow>
     log_intact C f \<and> run_events C (ev_run_id e) f = es
   \<or> log_intact C f \<and> run_events C (ev_run_id e) f = es @ [e] \<and> is_ok (replay_run (es @ [e]) (Some goal))
   \<or> (\<exists>before. log_intact C before \<and> run_events C (ev_run_id e) before = es \<and> torn_line C e before f)
       \<and> \<not> log_intact C f \<and> is_ok (replay_run (es @ [e]) (Some goal))"
  unfolding appended_at_most_def kept_def by blast

lemma kept_appended: "kept C (ev_run_id e) es f \<Longrightarrow> appended_at_most C goal e es f"
  by (simp add: kept_def appended_at_most_def)

lemma kept_others:
  "single_writer C run log_env \<Longrightarrow> kept C run es f \<Longrightarrow> kept C run es (snd (log_env n) f)"
  using others_keep unfolding kept_def by blast

lemma kept_load_events:
  assumes "single_writer C run log_env" and "kept C run es f"
    and "load_events_call C log_env n run f = (r, f')"
  shows "kept C run es f'" "r = Ok es' \<Longrightarrow> es' = es"
  using load_events_result [OF assms(1) _ assms(3)] assms(2) by (auto simp: kept_def)

lemma kept_load_goal_run:
  assumes "single_writer C run log_env" and "kept C run es f"
    and "load_goal_run C log_env n run goal f = (r, f')"
  shows "kept C run es f'" "r = Ok v \<Longrightarrow> replay_run es (Some goal) = Ok v"
  using load_goal_run_result [OF assms(1) _ assms(3)] assms(2) by (auto simp: kept_def)

lemma append_call_torn:
  assumes "single_writer C (ev_run_id e) log_env" and "kept C (ev_run_id e) es f" and "storable C e"
    and "append_call C log_env n e f = (r, f')" and "\<not> log_intact C f'"
  shows "\<exists>before. kept C (ev_run_id e) es before \<and> torn_line C e before f'"
  using append_intact_or_torn [OF _ assms(3), of "snd (log_env n) f" "fst (log_env n)" r f']
    kept_others [OF assms(1,2), of n] assms(4,5)
  by (auto simp: append_call_def kept_def)

lemma append_checked_result:
  assumes "single_writer (gr_codec R) (ev_run_id e) log_env"
    and "kept (gr_codec R) (ev_run_id e) es (fst media)" and "storable (gr_codec R) e"
    and "append_checked R log_env n e goal es media = (r, media')"
  shows "r = Ok () \<Longrightarrow> kept (gr_codec R) (ev_run_id e) (es @ [e]) (fst media')"
    and "appended_at_most (gr_codec R) goal e es (fst media')"
proof -
  show "kept (gr_codec R) (ev_run_id e) (es @ [e]) (fst media')" if "r = Ok ()"
    using assms(4) that append_call_result(2) [OF assms(1) _ assms(3)] assms(2)
    by (auto simp: append_checked_def on_first_eq with_err_eq result_iff kept_def)
  show "appended_at_most (gr_codec R) goal e es (fst media')"
    using assms(4) unfolding append_checked_def
  proof (cases rule: bind_call_cases)
    case (Ok v media1)
    then obtain q where "append_call (gr_codec R) log_env n e (fst media) = (q, fst media')"
      by (auto simp: on_first_eq with_err_eq)
    moreover have "is_ok (replay_run (es @ [e]) (Some goal))"
      using Ok by (auto simp: is_ok_iff result_iff)
    ultimately show ?thesis
      using append_call_result(3) [OF assms(1) _ assms(3)] append_call_torn [OF assms(1) assms(2) assms(3)] assms(2)
      by (auto simp: appended_at_most_def kept_def)
  qed (use assms(2) in \<open>auto simp: appended_at_most_def kept_def\<close>)
qed

lemma append_leased_result:
  assumes "single_writer (gr_codec R) (ev_run_id e) log_env"
    and "kept (gr_codec R) (ev_run_id e) es (fst media)" and "storable (gr_codec R) e"
    and "append_leased R log_env env e goal snap media = (r, media')"
  shows "r = Ok () \<Longrightarrow> kept (gr_codec R) (ev_run_id e) (es @ [e]) (fst media')"
    and "appended_at_most (gr_codec R) goal e es (fst media')"
proof -
  let ?C = "gr_codec R" and ?run = "ev_run_id e"
  obtain q g where load: "load_events_call ?C log_env 3 ?run (fst media) = (q, g)" by fastforce
  note g = kept_load_events [OF assms(1,2) load]
  have step: "(r = Ok () \<longrightarrow> kept ?C ?run (es @ [e]) (fst media')) \<and> appended_at_most ?C goal e es (fst media')"
  proof (cases "q = Ok es")
    case False
    then have "fst media' = g \<and> r \<noteq> Ok ()"
      using assms(4) load g(2) by (cases q) (auto simp: append_leased_def with_err_def on_first_def)
    then show ?thesis using g(1) kept_appended by simp
  next
    case True
    show ?thesis
    proof (cases "replay_run es (Some goal)")
      case (Ok current)
      obtain w media1 where snap: "validate_independent_completion_snapshot R log_env 4 env 2 ?run current
          snap (g, snd media) = (w, media1)" by (meson surj_pair)
      have media1: "kept ?C ?run es (fst media1)"
        using validate_snapshot_file [OF snap] kept_others [OF assms(1) g(1)] by simp
      show ?thesis
      proof (cases w)
        case Ok
        then have "append_checked R log_env 5 e goal es media1 = (r, media')"
          using assms(4) load True \<open>replay_run es (Some goal) = Ok current\<close> snap
          by (simp add: append_leased_def with_err_def on_first_def)
        from append_checked_result [OF assms(1) media1 assms(3) this] show ?thesis by blast
      qed (use assms(4) load True Ok snap media1 kept_appended in
          \<open>auto simp: append_leased_def with_err_def on_first_def\<close>)
    qed (use assms(4) load True g(1) kept_appended in
        \<open>auto simp: append_leased_def with_err_def on_first_def\<close>)
  qed
  then show "r = Ok () \<Longrightarrow> kept ?C ?run (es @ [e]) (fst media')"
    "appended_at_most ?C goal e es (fst media')" by blast+
qed

lemma with_lease_result:
  assumes "with_lease G key callback media = (r, media')"
  obtains (none) "fst media' = fst media" "r \<noteq> Ok ()"
  | (called) snap q where "callback snap media = (q, media')" "r = Ok () \<longrightarrow> q = Ok ()"
  using assms unfolding with_lease_def
  by (elim bind_call_cases) (auto elim!: bind_call_cases)

text \<open>The two ends of an append: a failed step that only read, and the final reload.\<close>

definition append_outcome ::
    "event_codec \<Rightarrow> goal_contract \<Rightarrow> run_event \<Rightarrow> run_event list \<Rightarrow> ('e, replayed_run) result \<Rightarrow>
     log_file \<Rightarrow> bool" where
  "append_outcome C goal e es r f \<longleftrightarrow> appended_at_most C goal e es f
     \<and> (\<forall>v. r = Ok v \<longrightarrow> kept C (ev_run_id e) (es @ [e]) f
          \<and> replay_run (es @ [e]) (Some goal) = Ok v)"

lemma append_outcome_kept:
  "kept C (ev_run_id e) es f \<Longrightarrow> \<forall>v. r \<noteq> Ok v \<Longrightarrow> append_outcome C goal e es r f"
  by (simp add: append_outcome_def kept_appended)

lemma append_outcome_finish:
  assumes "single_writer (gr_codec R) (ev_run_id e) log_env"
    and "q = Ok () \<Longrightarrow> kept (gr_codec R) (ev_run_id e) (es @ [e]) (fst m)"
    and "appended_at_most (gr_codec R) goal e es (fst m)"
    and "bind_call (q, m) (\<lambda>_. finish_append R log_env n e goal) = (r, m')"
  shows "append_outcome (gr_codec R) goal e es r (fst m')"
  using assms(4)
proof (cases rule: bind_call_cases)
  case (Ok u m1)
  then have k: "kept (gr_codec R) (ev_run_id e) (es @ [e]) (fst m)"
    and load: "load_goal_run (gr_codec R) log_env n (ev_run_id e) goal (fst m) = (r, fst m')"
    using assms(2) by (auto simp: on_first_eq finish_append_def)
  show ?thesis
    using kept_load_goal_run [OF assms(1) k load] assms(3) k
    by (auto simp: append_outcome_def appended_at_most_def kept_def)
qed (use assms(3) in \<open>auto simp: append_outcome_def\<close>)

lemma append_outcome_step:
  assumes "bind_call call f = (r, m')" and "kept C (ev_run_id e) es (fst (snd call))"
    and "\<And>a. fst call = Ok a \<Longrightarrow> f a (snd call) = (r, m') \<Longrightarrow> append_outcome C goal e es r (fst m')"
  shows "append_outcome C goal e es r (fst m')"
  using assms(1)
  by (cases rule: bind_call_cases) (use assms(2,3) in \<open>auto intro: append_outcome_kept\<close>)

lemma append_checked_finish:
  assumes "single_writer (gr_codec R) (ev_run_id e) log_env"
    and "kept (gr_codec R) (ev_run_id e) es (fst m)" and "storable (gr_codec R) e"
    and "bind_call (append_checked R log_env n e goal es m) (\<lambda>_. finish_append R log_env k e goal) = (r, m')"
  shows "append_outcome (gr_codec R) goal e es r (fst m')"
proof -
  obtain q m1 where call: "append_checked R log_env n e goal es m = (q, m1)" by (meson surj_pair)
  show ?thesis
    using append_checked_result [OF assms(1-3) call] assms(4) call
    by (intro append_outcome_finish [OF assms(1), of q es m1 goal k r m']) auto
qed

lemma append_leased_finish:
  assumes "single_writer (gr_codec R) (ev_run_id e) log_env"
    and "kept (gr_codec R) (ev_run_id e) es (fst m)" and "storable (gr_codec R) e"
    and "bind_call (with_lease (gr_gate R) key (append_leased R log_env env e goal) m)
      (\<lambda>_. finish_append R log_env k e goal) = (r, m')"
  shows "append_outcome (gr_codec R) goal e es r (fst m')"
proof -
  obtain q m1 where lease: "with_lease (gr_gate R) key (append_leased R log_env env e goal) m = (q, m1)"
    by (meson surj_pair)
  then show ?thesis
  proof (cases rule: with_lease_result)
    case none
    then show ?thesis
      using assms(2,4) lease kept_appended
      by (intro append_outcome_finish [OF assms(1), of q es m1 goal k r m']) (auto simp: kept_def)
  next
    case (called snap p)
    then show ?thesis
      using append_leased_result [OF assms(1-3) called(1)] assms(4) lease
      by (intro append_outcome_finish [OF assms(1), of q es m1 goal k r m']) auto
  qed
qed

lemma append_completed_result:
  assumes single: "single_writer (gr_codec R) (ev_run_id e) log_env" and store: "storable (gr_codec R) e"
    and kept: "kept (gr_codec R) (ev_run_id e) es (fst m)"
    and "append_completed R log_env env e goal es m = (r, m')"
  shows "append_outcome (gr_codec R) goal e es r (fst m')"
proof -
  let ?m1 = "snd (load_issue6_execution R log_env 1 env 0 (ev_run_id e) m)"
  let ?m2 = "snd (independent_review_evidence_key R log_env 2 env 1 (ev_run_id e) ?m1)"
  have k1: "kept (gr_codec R) (ev_run_id e) es (fst ?m1)"
    using load_issue6_file [of R log_env 1 env 0 "ev_run_id e" m] kept_others [OF single kept]
    by (metis prod.collapse)
  have k2: "kept (gr_codec R) (ev_run_id e) es (fst ?m2)"
    using evidence_key_file [of R log_env 2 env 1 "ev_run_id e" ?m1] kept_others [OF single k1]
    by (metis prod.collapse)
  note ends = append_leased_finish [OF single k2 store] append_checked_finish [OF single k2 store]
  show ?thesis
    using assms(4) unfolding append_completed_def
    apply (rule append_outcome_step)
     apply (rule k1)
    apply (erule append_outcome_step, simp add: k1 [simplified])
    apply (erule append_outcome_step, simp add: k1 [simplified])
    apply (erule append_outcome_step, simp add: k2 [simplified])
    apply (auto split: option.splits intro: ends)
    done
qed

lemma append_event_result:
  assumes single: "single_writer (gr_codec R) (ev_run_id e) log_env" and store: "storable (gr_codec R) e"
    and intact: "log_intact (gr_codec R) (fst m)"
    and "append_event R log_env env e goal m = (r, m')"
  shows "append_outcome (gr_codec R) goal e (run_events (gr_codec R) (ev_run_id e) (fst m)) r (fst m')"
proof -
  let ?es = "run_events (gr_codec R) (ev_run_id e) (fst m)"
  have k0: "kept (gr_codec R) (ev_run_id e) ?es (fst m)" using intact by (simp add: kept_def)
  obtain q f where load: "load_events_call (gr_codec R) log_env 0 (ev_run_id e) (fst m) = (q, f)"
    by (meson surj_pair)
  note k1 = kept_load_events [OF single k0 load]
  note ends = append_completed_result [OF single store, of ?es "(f, snd m)"]
    append_checked_finish [OF single, of ?es "(f, snd m)"]
  show ?thesis
    using assms(4) unfolding append_event_def
  proof (rule append_outcome_step, goal_cases)
    case 1
    then show ?case using k0 by simp
  next
    case (2 u)
    from 2(2) show ?case
    proof (rule append_outcome_step, goal_cases)
      case 1
      then show ?case using k1(1) load by (simp add: on_first_def)
    next
      case (2 es)
      then have "es = ?es" using k1(2) load by (simp add: on_first_def result_iff)
      with 2(2) show ?case
      proof (elim append_outcome_step, goal_cases)
        case 1
        then show ?case using k1(1) load by (simp add: on_first_def)
      next
        case (2 w)
        then show ?case
          using k1(1) load ends store by (auto simp: on_first_def split: if_splits)
      qed
    qed
  qed
qed


section \<open>Completion under an enforced policy\<close>

lemma authoritative_Ok:
  assumes "authoritative_completion_goal (PolicyEnforced goals) es goal = Ok x"
  shows "\<exists>c a. created_of es = Some c \<and> bm_get goals (rc_goal_id c) = Some a \<and> x = Some a"
  using assms by (cases es) (auto simp: authoritative_completion_goal_def first_of_def created_of_def
      result_iff split: run_event_payload.splits)

definition refused :: "event_codec \<Rightarrow> run_id \<Rightarrow> run_event list \<Rightarrow> ('e, 'a) result \<Rightarrow> log_file \<Rightarrow> bool" where
  "refused C run es r f \<longleftrightarrow> (\<forall>v. r \<noteq> Ok v) \<and> kept C run es f"

lemma refused_step:
  assumes "bind_call call f = (r, m')" and "kept C run es (fst (snd call))"
    and "\<And>a. fst call = Ok a \<Longrightarrow> f a (snd call) = (r, m') \<Longrightarrow> refused C run es r (fst m')"
  shows "refused C run es r (fst m')"
  using assms(1) by (cases rule: bind_call_cases) (use assms(2,3) in \<open>auto simp: refused_def\<close>)

lemma append_completed_refused:
  assumes "single_writer (gr_codec R) (ev_run_id e) log_env"
    and "kept (gr_codec R) (ev_run_id e) es (fst m)"
    and "gr_policy R = PolicyEnforced goals" and "created_of es = Some c"
    and "bm_get goals (rc_goal_id c) = Some a" and "requires_local_verification (eg_goal a)"
    and "append_completed R log_env env e goal es m = (r, m')"
  shows "refused (gr_codec R) (ev_run_id e) es r (fst m')"
proof -
  let ?m1 = "snd (load_issue6_execution R log_env 1 env 0 (ev_run_id e) m)"
  have k1: "kept (gr_codec R) (ev_run_id e) es (fst ?m1)"
    using load_issue6_file [of R log_env 1 env 0 "ev_run_id e" m] kept_others [OF assms(1,2)]
    by (metis prod.collapse)
  show ?thesis
    using assms(7) unfolding append_completed_def
    apply (rule refused_step)
     apply (rule k1)
    apply (erule refused_step, simp add: k1 [simplified])
    apply (erule refused_step, simp add: k1 [simplified])
    using assms(3-6)
    apply (auto dest!: authoritative_Ok)
    done
qed

lemma append_event_refused:
  assumes "single_writer (gr_codec R) (ev_run_id e) log_env" and "log_intact (gr_codec R) (fst m)"
    and "gr_policy R = PolicyEnforced goals"
    and "created_of (run_events (gr_codec R) (ev_run_id e) (fst m)) = Some c"
    and "bm_get goals (rc_goal_id c) = Some a" and "requires_local_verification (eg_goal a)"
    and "is_completed_transition (ev_payload e)"
    and "append_event R log_env env e goal m = (r, m')"
  shows "refused (gr_codec R) (ev_run_id e) (run_events (gr_codec R) (ev_run_id e) (fst m)) r (fst m')"
proof -
  let ?es = "run_events (gr_codec R) (ev_run_id e) (fst m)"
  have k0: "kept (gr_codec R) (ev_run_id e) ?es (fst m)" using assms(2) by (simp add: kept_def)
  obtain q f where load: "load_events_call (gr_codec R) log_env 0 (ev_run_id e) (fst m) = (q, f)"
    by (meson surj_pair)
  note k1 = kept_load_events [OF assms(1) k0 load]
  have completed: "append_completed R log_env env e goal ?es (f, snd m) = (r, m') \<Longrightarrow>
      refused (gr_codec R) (ev_run_id e) ?es r (fst m')"
    by (rule append_completed_refused [OF assms(1) _ assms(3-6)]) (simp_all add: k1(1))
  show ?thesis
    using assms(8) unfolding append_event_def
    apply (rule refused_step)
     apply (simp add: k0)
    apply (erule refused_step)
     apply (simp add: on_first_def load k1(1))
    apply (erule refused_step)
     apply (simp add: on_first_def load k1(1))
    using completed k1(2) assms(7)
    apply (auto simp: on_first_def load result_iff)
    done
qed

section \<open>Bootstrapping the execution state\<close>

lemma initialize_call_Ok:
  assumes "orderly env" and "valid_database db"
    and "initialize_call env n key payload db = (Ok outcome, db')"
  shows "stored db' key = Some (case outcome of Initialized s \<Rightarrow> s | Existing s \<Rightarrow> s)"
proof -
  let ?db0 = "snd (env n) db"
  have v0: "valid_database ?db0" by (rule orderlyD(1) [OF assms(1,2)])
  then have v1: "valid_database (snd (env (Suc n)) ?db0)" by (rule orderlyD(1) [OF assms(1)])
  show ?thesis
    using assms(3) load_from_connection_Ok [OF v1]
    by (auto simp: initialize_call_def initialize_def sql_insert_def Let_def result_iff stored_def
        entity_of_def eq_commute [of "Some _" "map_option _ _"]
        split: result.splits prod.splits if_splits)
qed

lemma initialize_run_Ok:
  assumes "orderly env" and "valid_database db"
    and "initialize_run S env run tasks budget db = (Ok r, db')"
  shows "\<exists>v. stored db' (entity_key run) = Some v \<and> decode_and_restore S run v = Ok (irr_state r)
    \<and> xe_run_id (lr_envelope (irr_state r)) = run
    \<and> xe_tasks (lr_envelope (irr_state r)) = tasks_by_id tasks
    \<and> xe_retry_budget (lr_envelope (irr_state r)) = budget"
proof -
  obtain k payload outcome where call:
    "initialize_call env 0 (entity_key run) payload db = (Ok outcome, db')"
    "finish_initialize S run (initial_envelope run tasks budget k) outcome = Ok r"
    using assms(3) by (auto simp: initialize_run_def result_iff Let_def split: result.splits prod.splits)
  show ?thesis
    using initialize_call_Ok [OF assms(1,2) call(1)] call(2)
    by (auto simp: finish_initialize_def result_iff same_definition_def initial_envelope_def Let_def
        split: initialize_outcome.splits)
qed

lemma load_bootstrap_result:
  assumes "single_writer C run log_env" and "log_intact C f"
    and "load_bootstrap_run C log_env n run goal f = (r, f')"
  shows "run_events C run f' = run_events C run f"
    and "r = Ok v \<Longrightarrow> replay_run (run_events C run f) (Some goal) = Ok v"
proof -
  obtain q g where load: "load_events_call C log_env n run f = (q, g)" by (meson surj_pair)
  note loaded = load_events_result [OF assms(1,2) load]
  show "run_events C run f' = run_events C run f"
    using assms(3) loaded(2) load
    by (cases q) (auto simp: load_bootstrap_run_def with_err_def)
  show "replay_run (run_events C run f) (Some goal) = Ok v" if "r = Ok v"
    using assms(3) loaded(4) load that
    by (auto simp: load_bootstrap_run_def result_iff)
qed

lemma validate_bootstrap_Ok:
  assumes "validate_execution_bootstrap orchestration goal tasks = Ok u"
  shows "rr_status (rp_run_record orchestration) = Planned"
    and "\<exists>plan. rp_execution_plan orchestration = Some plan \<and> schedule_tasks tasks = Ok plan"
    and "set (rr_task_ids (rp_run_record orchestration)) = task_ids tasks"
proof -
  show "rr_status (rp_run_record orchestration) = Planned"
    "\<exists>plan. rp_execution_plan orchestration = Some plan \<and> schedule_tasks tasks = Ok plan"
    using assms by (auto simp: validate_execution_bootstrap_def result_iff Let_def)
  have "ordered_set (rr_task_ids (rp_run_record orchestration)) = ordered_set (map task_id_of tasks)"
    using assms by (auto simp: validate_execution_bootstrap_def result_iff Let_def)
  then have "set (ordered_set (rr_task_ids (rp_run_record orchestration)))
      = set (ordered_set (map task_id_of tasks))" by simp
  then show "set (rr_task_ids (rp_run_record orchestration)) = task_ids tasks"
    by (simp add: task_ids_def)
qed

lemma initialize_execution_steps:
  fixes r :: "(('x, 'y, 'v) durable_goal_error, ('ev, 'ir) execution_bootstrap_result) result"
  assumes "initialize_execution C S log_env env run goal tasks budget m = (r, m')"
    and "snd m' \<noteq> snd m \<or> (\<exists>b. r = Ok b)"
  obtains orchestration f where
    "(load_bootstrap_run C log_env 0 run goal (fst m)
       :: (('x, 'y, 'v) durable_goal_error, replayed_run) result \<times> log_file) = (Ok orchestration, f)"
    "fst m' = f"
    "validate_execution_bootstrap orchestration goal tasks
       = (Ok () :: (('x, 'y, 'v) durable_goal_error, unit) result)"
    "\<And>b. r = Ok b \<Longrightarrow> rv_orchestration (ebr_view b) = orchestration \<and>
      (\<exists>i. initialize_run S env run tasks budget (snd m) = (Ok i, snd m')
         \<and> irr_state i = rv_execution (ebr_view b))"
  using assms(1) unfolding initialize_execution_def
proof (cases rule: bind_call_cases)
  case (Ok orchestration m1)
  then have load: "(load_bootstrap_run C log_env 0 run goal (fst m)
       :: (('x, 'y, 'v) durable_goal_error, replayed_run) result \<times> log_file) = (Ok orchestration, fst m1)"
    "snd m1 = snd m" by (auto simp: on_first_eq)
  from Ok(2) show ?thesis
  proof (cases rule: bind_call_cases)
    case 2: (Ok u m2)
    from 2(2) have "fst m' = fst m1"
      using 2(1) by (cases rule: bind_call_cases) (auto simp: on_second_eq)
    moreover have "rv_orchestration (ebr_view b) = orchestration \<and>
      (\<exists>i. initialize_run S env run tasks budget (snd m) = (Ok i, snd m')
         \<and> irr_state i = rv_execution (ebr_view b))" if "r = Ok b" for b
      using 2 that load by (auto simp: result_iff on_second_eq validate_runtime_view_def Let_def)
    ultimately show ?thesis using that load 2(1) by auto
  qed (use assms(2) load in auto)
qed (use assms(2) in \<open>auto simp: on_first_eq\<close>)

end
