(* ===== verification/Verified_Append.thy ===== *)
theory Verified_Append
  imports Completion_Runtime Verified_Completion_Safety Goal_Runtime_Safety
begin

text \<open>
  What the completion path of \<open>Completion_Runtime\<close> guarantees: an append of the transition to
  \<open>Completed\<close> happens only over evidence that is current in the bank while the lease is held, for
  sources that match the manifest, and that the run has recorded before.
\<close>

section \<open>Fresh material\<close>

lemma observe_task_Ok:
  assumes "observe_task bindings source before task = (Ok after :: ('x, 'y, completion_observation list) completed)"
  shows "\<exists>one. after = before @ [one] \<and> cob_task_id one = task_of task
    \<and> cob_source_pre_digest one = fst source \<and> cob_source_post_digest one = snd source"
  using assms by (auto simp: observe_task_def result_iff)

lemma observe_tasks_Ok:
  assumes "try_fold (observe_task bindings source) before tasks
    = (Ok observations :: ('x, 'y, completion_observation list) completed)"
  shows "\<exists>added. observations = before @ added \<and> map cob_task_id added = map task_of tasks
    \<and> (\<forall>ob \<in> set added. cob_source_pre_digest ob = fst source \<and> cob_source_post_digest ob = snd source)"
  using assms
proof (induction tasks arbitrary: before)
  case (Cons task tasks)
  then obtain after where
      "observe_task bindings source before task = (Ok after :: ('x, 'y, completion_observation list) completed)"
      "try_fold (observe_task bindings source) after tasks
        = (Ok observations :: ('x, 'y, completion_observation list) completed)"
    by (auto simp: result_iff)
  moreover from observe_task_Ok [OF this(1)] obtain one where "after = before @ [one]"
      and one: "cob_task_id one = task_of task" "cob_source_pre_digest one = fst source"
      "cob_source_post_digest one = snd source"
    by blast
  ultimately obtain added where "observations = after @ added" "map cob_task_id added = map task_of tasks"
      "\<forall>ob \<in> set added. cob_source_pre_digest ob = fst source \<and> cob_source_post_digest ob = snd source"
    using Cons.IH by blast
  with \<open>after = before @ [one]\<close> one show ?case by (intro exI [of _ "one # added"]) simp
qed simp

text \<open>
  The material rests on a snapshot of the sources that was taken meanwhile: both inspections of the
  source tree found exactly the files of the manifest.
\<close>

definition sources_frozen ::
    "completion_services \<Rightarrow> enforced_material \<Rightarrow> completion_observation list \<Rightarrow> bool" where
  "sources_frozen V source observations \<longleftrightarrow>
     (let manifest = em_source_manifest source; world = cs_world V (em_source_root source) in
      (\<exists>digest. source_fingerprint (cs_manifest V) manifest = Ok digest
        \<and> (\<forall>ob \<in> set observations. cob_source_pre_digest ob = digest \<and> cob_source_post_digest ob = digest))
    \<and> (\<exists>entries. fr_node (fw_source_root world) = Some (FsDir entries) \<and> tree_matches manifest entries)
    \<and> (\<exists>entries. resolve (fw_final world) [] = Some (FsDir entries) \<and> tree_matches manifest entries))"

lemma fresh_material_Ok:
  assumes "fresh_completion_material V authority run declared snap
    = (Ok material :: ('x, 'y, completion_material) completed)"
  shows "\<exists>observations. sources_frozen V (eg_material authority) observations
    \<and> admit_local_verification_completion (cs_bundle V) (completion_of authority) run declared snap
        observations = Ok material"
proof -
  let ?source = "eg_material authority" and ?world = "cs_world V (em_source_root (eg_material authority))"
  obtain frozen post observations where
      frozen: "materialize (cs_manifest V) (fw_io ?world) (fw_snapshot_io ?world) (fw_nested ?world)
        (fw_source_root ?world) (fw_snapshot_root ?world) (fw_sources ?world) (fw_after ?world)
        (em_source_manifest ?source) = Ok frozen"
    and post: "source_post_fingerprint (cs_manifest V) (fw_final_io ?world) frozen (fw_final ?world) = Ok post"
    and observed: "try_fold (observe_task (em_environment_bindings ?source)
        (source_pre_fingerprint frozen, post)) [] (em_tasks ?source)
        = (Ok observations :: ('x, 'y, completion_observation list) completed)"
    and admit: "admit_local_verification_completion (cs_bundle V) (completion_of authority) run declared snap
        observations = Ok material"
    using assms by (auto simp: fresh_completion_material_def freeze_source_def Let_def result_iff)
  have "sources_frozen V ?source observations"
    using materialize_Ok [OF frozen] source_post_Ok [OF post] observe_tasks_Ok [OF observed]
    by (auto simp: sources_frozen_def Let_def)
  with admit show ?thesis by blast
qed

section \<open>The appended event\<close>

lemma enforced_authority_Ok:
  assumes "enforced_authority policy events goal
    = (Ok authority :: ('x, 'y, enforced_material enforced_goal) completed)"
  shows "eg_goal authority = goal"
    "\<exists>goals created. policy = PolicyEnforced goals \<and> created_of events = Some created
      \<and> bm_get goals (rc_goal_id created) = Some authority \<and> rc_task_ids created = eg_task_ids authority"
  using assms
  by (auto simp: enforced_authority_def authoritative_completion_goal_def created_of_def first_of_def result_iff
      split: completion_policy.splits option.splits list.splits run_event_payload.splits)

lemma load_completion_events_kept:
  assumes "single_writer (gr_codec R) run log_env" and "kept (gr_codec R) run es (fst media)"
    and "load_completion_events R log_env n run media = (r, media')"
  shows "kept (gr_codec R) run es (fst media')" "r = Ok es' \<Longrightarrow> es' = es"
proof -
  obtain q where q: "load_events_call (gr_codec R) log_env n run (fst media) = (q, fst media')"
      "r = map_err (\<lambda>e. CR_Runtime (DG_Storage e)) q"
    using assms(3) by (auto simp: load_completion_events_def with_err_eq on_first_eq)
  show "kept (gr_codec R) run es (fst media')" using kept_load_events(1) [OF assms(1,2) q(1)] .
  show "r = Ok es' \<Longrightarrow> es' = es" using kept_load_events(2) [OF assms(1,2) q(1)] q(2) by (simp add: result_iff)
qed

text \<open>What was proved when the lease callback appended the event.\<close>

definition completion_shown ::
    "completion_services \<Rightarrow> enforced_material enforced_goal \<Rightarrow> run_id \<Rightarrow> replayed_run \<Rightarrow>
     completion_admission_snapshot \<Rightarrow> bool" where
  "completion_shown V authority run current snap \<longleftrightarrow>
     (\<exists>observations material.
        sources_frozen V (eg_material authority) observations
      \<and> completion_proved (cs_bundle V) (completion_of authority) run snap observations material
      \<and> set (vcm_evidence_references material) \<subseteq> set (rp_evidence_references current)
      \<and> rp_completion_evidence current = Some (vcm_completion_evidence material))"

lemma persisted_material:
  assumes "validate_persisted_completion_material material references completion = Ok ()"
  shows "set (vcm_evidence_references material) \<subseteq> set references"
    "completion = Some (vcm_completion_evidence material)"
proof -
  have "expected \<in> set references" if "expected \<in> set (vcm_evidence_references material)" for expected
  proof -
    have "bm_get (bm_collect (map (\<lambda>r. (er_id r, r)) references)) (er_id expected) = Some expected"
      using assms that
      by (auto simp: validate_persisted_completion_material_def check_persisted_reference_def result_iff Let_def)
    then show ?thesis by (auto simp: bm_get_collect dest!: map_of_SomeD)
  qed
  then show "set (vcm_evidence_references material) \<subseteq> set references" by blast
  show "completion = Some (vcm_completion_evidence material)"
    using assms by (auto simp: validate_persisted_completion_material_def result_iff Let_def)
qed

lemma append_admitted_Ok:
  assumes single: "single_writer (gr_codec R) (ev_run_id e) log_env" and store: "storable (gr_codec R) e"
    and kept: "kept (gr_codec R) (ev_run_id e) es (fst media)"
    and call: "append_admitted V R log_env env e goal snap media = (Ok () :: ('x, 'y, unit) completed, media')"
  shows "kept (gr_codec R) (ev_run_id e) (es @ [e]) (fst media')
    \<and> (\<exists>authority current. enforced_authority (gr_policy R) es goal
          = (Ok authority :: ('x, 'y, enforced_material enforced_goal) completed)
        \<and> replay_run es (Some goal) = Ok current
        \<and> completion_shown V authority (ev_run_id e) current snap)"
proof -
  obtain events media1 authority current material media2 where
      load: "load_completion_events R log_env 2 (ev_run_id e) media = (Ok events, media1)"
    and authority: "enforced_authority (gr_policy R) events goal
        = (Ok authority :: ('x, 'y, enforced_material enforced_goal) completed)"
    and current: "replay_run events (Some (eg_goal authority)) = Ok current"
    and material: "fresh_completion_material V authority (ev_run_id e) (rr_task_ids (rp_run_record current)) snap
        = (Ok material :: ('x, 'y, completion_material) completed)"
    and persisted: "validate_persisted_completion_material material (rp_evidence_references current)
        (rp_completion_evidence current) = Ok ()"
    and review: "validate_independent_completion_snapshot R log_env 3 env 1 (ev_run_id e) current snap media1
        = (Ok (), media2)"
    and append: "append_checked R log_env 4 e (eg_goal authority) events media2 = (Ok (), media')"
    using call by (auto simp: append_admitted_def Let_def result_iff)
  note loaded = load_completion_events_kept [OF single kept load]
  have events: "events = es" using loaded(2) by simp
  note goal = enforced_authority_Ok(1) [OF authority]
  have k2: "kept (gr_codec R) (ev_run_id e) es (fst media2)"
    using validate_snapshot_file [OF review] kept_others [OF single loaded(1)] by simp
  obtain observations where "sources_frozen V (eg_material authority) observations"
      "admit_local_verification_completion (cs_bundle V) (completion_of authority) (ev_run_id e)
        (rr_task_ids (rp_run_record current)) snap observations = Ok material"
    using fresh_material_Ok [OF material] by blast
  then have "completion_shown V authority (ev_run_id e) current snap"
    using persisted_material [OF persisted] by (auto simp: completion_shown_def elim!: admit_completion_Ok)
  moreover have "kept (gr_codec R) (ev_run_id e) (es @ [e]) (fst media')"
    using append_checked_result(1) [OF single k2 store append [unfolded events]] by simp
  ultimately show ?thesis using authority current goal events by blast
qed

lemma at_most_step:
  assumes "bind_call call f = (r, m')" and "kept C (ev_run_id e) es (fst (snd call))"
    and "\<And>a. fst call = Ok a \<Longrightarrow> f a (snd call) = (r, m') \<Longrightarrow> appended_at_most C goal e es (fst m')"
  shows "appended_at_most C goal e es (fst m')"
  using assms(1) by (cases rule: bind_call_cases) (use assms(2,3) in \<open>auto intro: kept_appended\<close>)

lemma append_admitted_at_most:
  assumes single: "single_writer (gr_codec R) (ev_run_id e) log_env" and store: "storable (gr_codec R) e"
    and kept: "kept (gr_codec R) (ev_run_id e) es (fst media)"
    and call: "append_admitted V R log_env env e goal snap media = (r :: ('x, 'y, unit) completed, media')"
  shows "appended_at_most (gr_codec R) goal e es (fst media')"
proof -
  obtain q media1 where load: "load_completion_events R log_env 2 (ev_run_id e) media
      = (q :: ('x, 'y, run_event list) completed, media1)" by (meson surj_pair)
  note loaded = load_completion_events_kept [OF single kept load]
  have k2: "kept (gr_codec R) (ev_run_id e) es (fst (snd (with_err CR_Runtime
      (validate_independent_completion_snapshot R log_env 3 env 1 (ev_run_id e) current snap media1))))" for current
    using validate_snapshot_file kept_others [OF single loaded(1)] by (metis prod.collapse with_err_simps(2))
  have last: "appended_at_most (gr_codec R) goal e es (fst media')"
    if checked: "with_err CR_Runtime (append_checked R log_env 4 e goal es m) = (r, media')"
      and k: "kept (gr_codec R) (ev_run_id e) es (fst m)" for m
  proof -
    obtain q where "append_checked R log_env 4 e goal es m
        = (q :: (('x, 'y, bank_error) durable_goal_error, unit) result, media')"
      using checked by (auto simp: with_err_eq)
    from append_checked_result(2) [OF single k store this] show ?thesis .
  qed
  show ?thesis
    using call unfolding append_admitted_def Let_def
    apply (rule at_most_step)
     apply (simp add: load loaded(1))
    apply (simp only: load fst_conv snd_conv)
    apply (drule loaded(2))
    apply (erule at_most_step, simp add: loaded(1))
    apply (erule at_most_step, simp add: loaded(1))
    apply (erule at_most_step, simp add: loaded(1))
    apply (erule at_most_step, simp add: loaded(1))
    apply (erule at_most_step, simp add: loaded(1))
    apply (erule at_most_step, simp add: k2 [simplified])
    apply (simp only: fst_conv snd_conv)
    apply (frule enforced_authority_Ok(1))
    apply (rule last [OF _ k2])
    apply simp
    done
qed

lemma finish_verified:
  assumes single: "single_writer (gr_codec R) (ev_run_id e) log_env"
    and q: "q = Ok () \<Longrightarrow> kept (gr_codec R) (ev_run_id e) (es @ [e]) (fst m)"
    and at_most: "appended_at_most (gr_codec R) goal e es (fst m)"
    and call: "bind_call (q, m) (\<lambda>_ m. with_err CR_Runtime (finish_append R log_env n e goal m))
      = (r :: ('x, 'y, replayed_run) completed, m')"
  shows "append_outcome (gr_codec R) goal e es r (fst m')"
  using call
proof (cases rule: bind_call_cases)
  case (Ok u m1)
  then have k: "kept (gr_codec R) (ev_run_id e) (es @ [e]) (fst m)"
    and "with_err CR_Runtime (finish_append R log_env n e goal m) = (r, m')"
    using q by auto
  then obtain p where load: "load_goal_run (gr_codec R) log_env n (ev_run_id e) goal (fst m) = (p, fst m')"
      "r = map_err CR_Runtime p"
    by (auto simp: with_err_eq on_first_eq finish_append_def)
  show ?thesis
    using kept_load_goal_run [OF single k load(1)] at_most k load(2)
    by (auto simp: append_outcome_def appended_at_most_def kept_def result_iff)
qed (use at_most in \<open>auto simp: append_outcome_def\<close>)

lemma leased_append:
  assumes single: "single_writer (gr_codec R) (ev_run_id e) log_env" and store: "storable (gr_codec R) e"
    and kept: "kept (gr_codec R) (ev_run_id e) es (fst m)"
    and call: "bind_call (with_completion_admission_lease (cs_bank V) io lift keys
        (append_admitted V R log_env env e goal) bank m)
        (\<lambda>_ m. with_err CR_Runtime (finish_append R log_env n e goal m))
      = (r :: ('x, 'y, replayed_run) completed, m')"
  shows "append_outcome (gr_codec R) goal e es r (fst m')"
    "r = Ok v \<Longrightarrow> \<exists>authority current snap. enforced_authority (gr_policy R) es goal
          = (Ok authority :: ('x, 'y, enforced_material enforced_goal) completed)
        \<and> replay_run es (Some goal) = Ok current \<and> snapshot_of (cs_bank V) bank keys snap
        \<and> completion_shown V authority (ev_run_id e) current snap"
proof -
  obtain q m1 where lease: "with_completion_admission_lease (cs_bank V) io lift keys
      (append_admitted V R log_env env e goal) bank m = (q :: ('x, 'y, unit) completed, m1)"
    by (meson surj_pair)
  have "append_outcome (gr_codec R) goal e es r (fst m') \<and> (r = Ok v \<longrightarrow> (\<exists>authority current snap.
      enforced_authority (gr_policy R) es goal = (Ok authority :: ('x, 'y, enforced_material enforced_goal) completed)
      \<and> replay_run es (Some goal) = Ok current \<and> snapshot_of (cs_bank V) bank keys snap
      \<and> completion_shown V authority (ev_run_id e) current snap))"
    using lease
  proof (cases rule: lease_cases)
    case refused
    then have "append_outcome (gr_codec R) goal e es r (fst m')"
      using kept kept_appended call lease by (intro finish_verified [OF single, of q es m1 goal n r m']) auto
    moreover have "\<not> r = Ok v" using refused call lease by (cases q) auto
    ultimately show ?thesis by blast
  next
    case (read snap p)
    have q: "q = Ok u \<Longrightarrow> p = Ok ()" for u using read(3) by simp
    have "append_outcome (gr_codec R) goal e es r (fst m')"
      using append_admitted_Ok [OF single store kept] append_admitted_at_most [OF single store kept read(2)]
        read(2) q call lease
      by (intro finish_verified [OF single, of q es m1 goal n r m']) auto
    moreover have "q = Ok ()" if "r = Ok v" using that call lease by (cases q) auto
    ultimately show ?thesis
      using append_admitted_Ok [OF single store kept] read(1,2) q by metis
  qed
  then show "append_outcome (gr_codec R) goal e es r (fst m')"
    "r = Ok v \<Longrightarrow> \<exists>authority current snap. enforced_authority (gr_policy R) es goal
          = (Ok authority :: ('x, 'y, enforced_material enforced_goal) completed)
        \<and> replay_run es (Some goal) = Ok current \<and> snapshot_of (cs_bank V) bank keys snap
        \<and> completion_shown V authority (ev_run_id e) current snap"
    by blast+
qed

text \<open>The keys of the lease: one per task of the enforced goal.\<close>

definition completion_keys :: "enforced_material enforced_goal \<Rightarrow> run_id \<Rightarrow> evidence_key list" where
  "completion_keys authority run = map (\<lambda>i. \<lparr>ek_run_id = run, ek_goal_id = gc_id (eg_goal authority),
     ek_task_id = i\<rparr>) (eg_task_ids authority)"

text \<open>What a successful verified append rests on, over the events \<open>es\<close> of the run before it.\<close>

definition completion_established ::
    "completion_services \<Rightarrow> enforced_material completion_policy \<Rightarrow> run_id \<Rightarrow> goal_contract \<Rightarrow>
     run_event list \<Rightarrow> bool" where
  "completion_established V policy run goal es \<longleftrightarrow>
     (\<exists>goals created authority bank current snap.
        policy = PolicyEnforced goals \<and> created_of es = Some created
      \<and> bm_get goals (rc_goal_id created) = Some authority
      \<and> eg_goal authority = goal \<and> eg_task_ids authority = rc_task_ids created
      \<and> requires_local_verification goal
      \<and> cs_evidence_bank V = Some bank
      \<and> snapshot_of (cs_bank V) bank (completion_keys authority run) snap
      \<and> replay_run es (Some goal) = Ok current
      \<and> completion_shown V authority run current snap)"

lemma completion_lease_inputs_Ok:
  assumes "completion_lease_inputs V authority run
    = (Ok (keys, bank) :: ('x, 'y, evidence_key list \<times> bank) completed)"
  shows "keys = completion_keys authority run" "cs_evidence_bank V = Some bank"
  using assms
  by (auto simp: completion_lease_inputs_def completion_evidence_keys_def completion_keys_def completion_of_def
      result_iff)

lemma append_verified_result:
  assumes single: "single_writer (gr_codec R) (ev_run_id e) log_env" and store: "storable (gr_codec R) e"
    and intact: "log_intact (gr_codec R) (fst m)"
    and call: "append_verified_completion V R log_env env e goal m = (r :: ('x, 'y, replayed_run) completed, m')"
    and es: "es = run_events (gr_codec R) (ev_run_id e) (fst m)"
  shows "append_outcome (gr_codec R) goal e es r (fst m')"
    "r = Ok v \<Longrightarrow> is_completed_transition (ev_payload e)
      \<and> completion_established V (gr_policy R) (ev_run_id e) goal es"
proof -
  have k0: "kept (gr_codec R) (ev_run_id e) es (fst m)" using intact es by (simp add: kept_def)
  obtain q1 m1 where load: "load_completion_events R log_env 0 (ev_run_id e) m
      = (q1 :: ('x, 'y, run_event list) completed, m1)" by (meson surj_pair)
  note k1 = load_completion_events_kept [OF single k0 load]
  let ?issue = "load_issue6_execution R log_env 1 env 0 (ev_run_id e) m1
    :: (('x, 'y, bank_error) durable_goal_error, _) result \<times> _"
  have k2: "kept (gr_codec R) (ev_run_id e) es (fst (snd ?issue))"
    using load_issue6_file kept_others [OF single k1(1)] by (metis prod.collapse)
  note leased = leased_append(1) [OF single store k2]
  show "append_outcome (gr_codec R) goal e es r (fst m')"
    using call unfolding append_verified_completion_def Let_def
    apply (rule append_outcome_step)
     apply (simp add: k0)
    apply (erule append_outcome_step, simp add: k0)
    apply (erule append_outcome_step, simp add: load k1(1))
    apply (simp only: load fst_conv snd_conv)
    apply (drule k1(2))
    apply (erule append_outcome_step, simp add: k1(1))
    apply (erule append_outcome_step, simp add: k2 [simplified])
    apply (erule append_outcome_step, simp add: k2 [simplified])
    apply (erule append_outcome_step, simp add: k2 [simplified])
    apply (auto dest: leased [simplified])
    done
  assume r: "r = Ok v"
  obtain events authority keys bank where
      load1: "q1 = Ok events" and completed: "is_completed_transition (ev_payload e)"
    and required: "require_verified_goal (gr_policy R) events goal
        = (Ok authority :: ('x, 'y, enforced_material enforced_goal) completed)"
    and inputs: "completion_lease_inputs V authority (ev_run_id e)
        = (Ok (keys, bank) :: ('x, 'y, evidence_key list \<times> bank) completed)"
    and lease: "bind_call (with_completion_admission_lease (cs_bank V) (cs_bank_io V)
        (\<lambda>e. CR_Runtime (DG_LocalVerificationStorage e)) keys (append_admitted V R log_env env e goal) bank
        (snd ?issue)) (\<lambda>_ m. with_err CR_Runtime (finish_append R log_env 5 e goal m)) = (r, m')"
    using call load r by (auto simp: append_verified_completion_def Let_def result_iff)
  have events: "events = es" using k1(2) load1 by simp
  from leased_append(2) [OF single store k2 lease r] obtain again current snap where
      again: "enforced_authority (gr_policy R) es goal
        = (Ok again :: ('x, 'y, enforced_material enforced_goal) completed)"
    and shown: "replay_run es (Some goal) = Ok current" "snapshot_of (cs_bank V) bank keys snap"
      "completion_shown V again (ev_run_id e) current snap"
    by blast
  have authority: "enforced_authority (gr_policy R) es goal
        = (Ok authority :: ('x, 'y, enforced_material enforced_goal) completed)"
      "requires_local_verification (eg_goal authority)"
    using required events by (auto simp: require_verified_goal_def result_iff)
  have "again = authority" using again authority(1) by simp
  then show "is_completed_transition (ev_payload e)
      \<and> completion_established V (gr_policy R) (ev_run_id e) goal es"
    using completed shown authority(2) enforced_authority_Ok [OF authority(1)] completion_lease_inputs_Ok [OF inputs]
    unfolding completion_established_def by metis
qed

section \<open>Reconciliation\<close>

lemma kept_step:
  assumes "bind_call call f = (r, m')" and "kept C run es (fst (snd call))"
    and "\<And>a. fst call = Ok a \<Longrightarrow> f a (snd call) = (r, m') \<Longrightarrow> kept C run es (fst m')"
  shows "kept C run es (fst m')"
  using assms(1) by (cases rule: bind_call_cases) (use assms(2,3) in auto)

lemma check_review_leased_kept:
  assumes single: "single_writer (gr_codec R) run log_env" and kept: "kept (gr_codec R) run es (fst m)"
    and call: "check_review_leased V R log_env env run current m = (r :: ('x, 'y, unit) completed, m')"
  shows "kept (gr_codec R) run es (fst m')"
proof -
  have review: "kept (gr_codec R) run es (fst m2')"
    if "with_err CR_Runtime (validate_independent_completion_snapshot R log_env 3 env 2 run current snap m2)
        = (q :: ('x, 'y, unit) completed, m2')" and "kept (gr_codec R) run es (fst m2)" for snap m2 m2' q
    using that(1) kept_others [OF single that(2), of 3] by (auto simp: with_err_eq dest!: validate_snapshot_file)
  have leased: "kept (gr_codec R) run es (fst m2')"
    if "with_completion_admission_lease (cs_bank V) (cs_bank_io V) lift keys
        (\<lambda>snap m. with_err CR_Runtime (validate_independent_completion_snapshot R log_env 3 env 2 run current snap m))
        bank m2 = (q :: ('x, 'y, unit) completed, m2')" and "kept (gr_codec R) run es (fst m2)" for lift keys bank m2 m2' q
    using that(1) by (cases rule: lease_cases) (use that(2) review in auto)
  let ?key = "independent_review_evidence_key R log_env 2 env 1 run m
    :: (('x, 'y, bank_error) durable_goal_error, _) result \<times> _"
  have k: "kept (gr_codec R) run es (fst (snd ?key))"
    using evidence_key_file kept_others [OF single kept] by (metis prod.collapse)
  show ?thesis
    using call unfolding check_review_leased_def
  proof (rule kept_step)
    show "kept (gr_codec R) run es (fst (snd (with_err CR_Runtime ?key)))" using k by simp
    show "kept (gr_codec R) run es (fst m')"
      if "(case key of None \<Rightarrow> (Ok (), snd (with_err CR_Runtime ?key))
        | Some key \<Rightarrow>
            bind_call (map_err (\<lambda>e. CR_Runtime (DG_LocalVerificationStorage e)) (cs_open_bank V),
                snd (with_err CR_Runtime ?key)) (\<lambda>bank media.
            with_completion_admission_lease (cs_bank V) (cs_bank_io V)
              (\<lambda>e. CR_Runtime (DG_LocalVerificationStorage e)) [key]
              (\<lambda>snap media. with_err CR_Runtime (validate_independent_completion_snapshot R log_env 3 env 2
                run current snap media)) bank media)) = (r, m')" for key
    proof (cases key)
      case None
      with that k show ?thesis by auto
    next
      case (Some key)
      show ?thesis
        using that unfolding Some option.case
        by (rule kept_step) (use k leased in \<open>fastforce+\<close>)
    qed
  qed
qed

lemma reconcile_result:
  assumes single: "single_writer (gr_codec R) (ev_run_id e) log_env" and intact: "log_intact (gr_codec R) (fst m)"
    and call: "reconcile_verified_completion_append V R log_env env e goal m
      = (r :: ('x, 'y, completion_append_reconciliation) completed, m')"
    and es: "es = run_events (gr_codec R) (ev_run_id e) (fst m)"
  shows "kept (gr_codec R) (ev_run_id e) es (fst m')"
    "r = Ok AlreadyCommitted \<Longrightarrow> e \<in> set es"
    "r = Ok RetryRequired \<Longrightarrow> (\<forall>d \<in> set es. ev_id d \<noteq> ev_id e) \<and> is_ok (replay_run (es @ [e]) (Some goal))"
proof -
  have k0: "kept (gr_codec R) (ev_run_id e) es (fst m)" using intact es by (simp add: kept_def)
  obtain q1 m1 where load: "load_completion_events R log_env 0 (ev_run_id e) m
      = (q1 :: ('x, 'y, run_event list) completed, m1)" by (meson surj_pair)
  note k1 = load_completion_events_kept [OF single k0 load]
  let ?issue = "load_issue6_execution R log_env 1 env 0 (ev_run_id e) m1
    :: (('x, 'y, bank_error) durable_goal_error, _) result \<times> _"
  have k2: "kept (gr_codec R) (ev_run_id e) es (fst (snd ?issue))"
    using load_issue6_file kept_others [OF single k1(1)] by (metis prod.collapse)
  note review = check_review_leased_kept [OF single k2]
  have k3: "kept (gr_codec R) (ev_run_id e) es (fst (snd
      (check_review_leased V R log_env env (ev_run_id e) current (snd ?issue) :: ('x, 'y, unit) completed \<times> _)))"
    for current using review by (metis prod.collapse)
  show "kept (gr_codec R) (ev_run_id e) es (fst m')"
    using call unfolding reconcile_verified_completion_append_def Let_def
    apply (rule kept_step)
     apply (simp add: k0)
    apply (erule kept_step, simp add: k0)
    apply (erule kept_step, simp add: load k1(1))
    apply (simp only: load fst_conv snd_conv)
    apply (erule kept_step, simp add: k1(1))
    apply (erule kept_step, simp add: k2 [simplified])
    apply (erule kept_step, simp add: k2 [simplified])
    apply (erule kept_step, simp add: k2 [simplified])
    apply (auto split: option.splits simp: k2 [simplified] k3 [simplified] elim!: kept_step)
    done
  have found: "case find (\<lambda>d. ev_id d = ev_id e) es of
      Some committed \<Rightarrow> x = AlreadyCommitted \<and> committed = e
    | None \<Rightarrow> x = RetryRequired \<and> is_ok (replay_run (es @ [e]) (Some goal))" if r: "r = Ok x" for x
  proof -
    have "q1 = Ok es" using call r k1(2) load
      by (auto simp: reconcile_verified_completion_append_def Let_def result_iff)
    then have "load_completion_events R log_env 0 (ev_run_id e) m
        = (Ok es :: ('x, 'y, run_event list) completed, m1)" using load by simp
    then show ?thesis
      using call r
      by (cases "find (\<lambda>d. ev_id d = ev_id e) es")
        (auto simp: reconcile_verified_completion_append_def Let_def result_iff require_verified_goal_def
          is_ok_iff dest!: enforced_authority_Ok(1))
  qed
  show "e \<in> set es" if "r = Ok AlreadyCommitted"
    using found [OF that] by (auto split: option.splits dest: find_Some_elem)
  show "(\<forall>d \<in> set es. ev_id d \<noteq> ev_id e) \<and> is_ok (replay_run (es @ [e]) (Some goal))" if "r = Ok RetryRequired"
    using found [OF that] by (auto simp: find_None_iff split: option.splits)
qed

end
