(* ===== verification/Goal_Runtime_Properties.thy ===== *)
theory Goal_Runtime_Properties
  imports Goal_Runtime_Safety
begin

text \<open>
  The properties of the goal runtime, each applied to a sample run of four tasks: its
  planning events are written by \<open>create_run\<close> to an empty log under a codec that fits them,
  extended by one event, and bound to an execution state.
\<close>


section \<open>A sample run\<close>

definition sample_stamps :: planned_run_stamps where
  "sample_stamps =
    \<lparr>prs_run_created = \<lparr>es_id = ''s0'', es_occurred_at = 10\<rparr>,
     prs_accepted = \<lparr>es_id = ''s1'', es_occurred_at = 11\<rparr>,
     prs_plan_recorded = \<lparr>es_id = ''s2'', es_occurred_at = 11\<rparr>,
     prs_planned = \<lparr>es_id = ''s3'', es_occurred_at = 12\<rparr>\<rparr>"

definition sample_planned :: "run_event list" where
  "sample_planned =
    planned_events ''run'' sample_goal [''a'', ''b'', ''c'', ''d''] sample_plan sample_stamps"

definition sample_transition :: "run_status \<Rightarrow> run_event" where
  "sample_transition to = coordinator_event ''run'' 4 (Some ''s3'')
     \<lparr>es_id = ''s4'', es_occurred_at = 13\<rparr> (StatusTransition Planned to)"

definition sample_events :: "run_event list" where
  "sample_events = sample_planned @ [sample_transition Running]"

text \<open>An encoding that fits these events: their sequence number in braces.\<close>

definition sample_line :: "run_event \<Rightarrow> string" where
  "sample_line e = [CHR 0x7B, char_of (48 + unat (ev_sequence e)), CHR 0x7D]"

definition numbered_codec :: "run_event list \<Rightarrow> event_codec" where
  "numbered_codec events =
    \<lparr>ec_to_vec = (\<lambda>e. if e \<in> set events then Some (sample_line e) else None),
     ec_from_str = (\<lambda>s. find (\<lambda>e. sample_line e = s) events)\<rparr>"

definition sample_event_codec :: event_codec where
  "sample_event_codec = numbered_codec sample_events"

definition log_alone :: log_environment where
  "log_alone n = (log_calm, id)"

lemma single_writer_alone: "single_writer C run log_alone"
  by (simp add: single_writer_def respectful_def log_alone_def)

lemma sample_lines:
  "map sample_line sample_events = [''{0}'', ''{1}'', ''{2}'', ''{3}'', ''{4}'']"
  by code_simp

definition line_ok :: "string \<Rightarrow> bool" where
  "line_ok l \<longleftrightarrow> is_utf8 l \<and> newline \<notin> set l \<and> carriage_return \<notin> set l \<and> \<not> is_blank l"

lemma sample_lines_ok: "\<forall>l \<in> set (map sample_line sample_events). line_ok l"
  unfolding sample_lines by code_simp

lemma numbered_storable:
  assumes distinct: "distinct (map sample_line events)"
    and lines: "\<forall>l \<in> set (map sample_line events). line_ok l"
  shows "storable (numbered_codec events) e"
proof (cases "e \<in> set events")
  case True
  have "find (\<lambda>x. sample_line x = sample_line e) events = Some e"
  proof -
    obtain x where x: "find (\<lambda>x. sample_line x = sample_line e) events = Some x"
      using True by (cases "find (\<lambda>x. sample_line x = sample_line e) events")
        (auto simp: find_None_iff)
    then have "x \<in> set events" "sample_line x = sample_line e" by (auto dest: find_Some_elem)
    then show ?thesis using x True distinct by (metis distinct_map inj_onD)
  qed
  moreover have "line_ok (sample_line e)" using lines True by simp
  ultimately show ?thesis
    using True by (simp add: storable_def numbered_codec_def line_ok_def)
qed (simp add: storable_def numbered_codec_def)

lemma sample_storable: "storable sample_event_codec e"
  unfolding sample_event_codec_def
  by (rule numbered_storable [OF _ sample_lines_ok]) (simp add: sample_lines)

definition sample_file :: log_file where
  "sample_file = Some (concat (map (\<lambda>l. l @ [newline]) [''{0}'', ''{1}'', ''{2}'', ''{3}'']))"

type_synonym sample_error = "(unit, unit, unit) durable_goal_error"

lemma sample_created:
  "create_run sample_event_codec log_alone ''run'' sample_goal sample_tasks sample_stamps None
   = (Ok (planned_run ''run'' sample_goal [''a'', ''b'', ''c'', ''d''] sample_plan sample_stamps)
       :: (sample_error, replayed_run) result, sample_file)"
  by code_simp

type_synonym sample_runtime = "(unit, unit, unit, unit, unit, unit, unit, unit) goal_runtime"

definition sample_runtime :: "unit completion_policy \<Rightarrow> sample_runtime" where
  "sample_runtime policy =
    \<lparr>gr_codec = sample_event_codec, gr_services = sample_services, gr_policy = policy,
     gr_gate = \<lparr>cg_projected = \<lambda>_ _. Some False, cg_database_exists = \<lambda>_. True,
       cg_evidence_key = id, cg_lease = Ok, cg_commit = Ok, cg_matches = \<lambda>_ _ _ _. True\<rparr>\<rparr>"

definition enforcing :: "unit completion_policy" where
  "enforcing = PolicyEnforced (bm_collect [(''goal'',
     \<lparr>eg_goal = sample_goal, eg_task_ids = [''a'', ''b'', ''c'', ''d''], eg_material = ()\<rparr>)])"

lemma sample_appends:
  "is_ok (fst (append_event (sample_runtime PolicyDisabled) log_alone alone (sample_transition Running)
     sample_goal (sample_file, bm_empty)))"
  by code_simp

lemma sample_file_intact: "log_intact sample_event_codec sample_file"
  by code_simp

lemma sample_file_events: "run_events sample_event_codec ''run'' sample_file = sample_planned"
  by code_simp

lemma sample_bootstraps:
  "is_ok (fst (initialize_execution sample_event_codec sample_services log_alone alone ''run'' sample_goal
     sample_tasks sample_budget (sample_file, bm_empty)
     :: (sample_error, (unit, unit) execution_bootstrap_result) result \<times> media))"
  by code_simp

section \<open>Properties\<close>

lemma planned_run_fields:
  "rr_status (rp_run_record (planned_run run goal ids plan stamps)) = Planned"
  "rp_execution_plan (planned_run run goal ids plan stamps) = Some plan"
  by (simp_all add: planned_run_def planned_record_def)

lemma checks_Err: "checks cs = Err x \<Longrightarrow> Err x \<in> set cs"
  by (induction cs) (auto simp: and_then_Err_iff)

lemma map_err_Err_iff: "map_err g r = Err x \<longleftrightarrow> (\<exists>y. r = Err y \<and> x = g y)"
  by (cases r) auto

text \<open>
  Planning. A run can be planned exactly when the goal, its tasks and the stamps are
  well formed and the tasks can be scheduled; the result is the four planning events, and
  the checks that planning makes on its own replay never fail.
\<close>

theorem planned_run_builds:
  assumes "length tasks \<le> 2 ^ 32"
  shows "(build_planned_run run goal tasks stamps = Ok (plan, events) \<longleftrightarrow>
      plannable goal tasks stamps \<and> schedule_tasks tasks = Ok plan
      \<and> events = planned_events run goal (sort (map task_id_of tasks)) plan stamps)
    \<and> build_planned_run run goal tasks stamps \<noteq> Err (GR_Replay e)
    \<and> build_planned_run run goal tasks stamps \<noteq> Err (GR_ReplayedStatusMismatch from to)
    \<and> build_planned_run run goal tasks stamps \<noteq> Err (GR_ReplayedPlanMismatch expected found)"
proof -
  have replays: "replay_run (planned_events run goal (sort (map task_id_of tasks)) plan stamps) (Some goal)
      = Ok (planned_run run goal (sort (map task_id_of tasks)) plan stamps)"
    if "schedule_tasks tasks = Ok plan" "distinct (stamp_ids stamps)" for plan
    using that assms schedule_tasks_Ok_declared [OF that(1)]
    by (intro planned_replays) (auto simp: well_declared_def task_ids_def)
  have early: "validate_goal_contract_versions goal \<noteq> Err x" "checks (map (check_planned_task goal) ts) \<noteq> Err x"
    "validate_stamps stamps \<noteq> Err x" "map_err GR_Schedule r \<noteq> Err x"
    if "x \<in> {GR_Replay e, GR_ReplayedStatusMismatch from to, GR_ReplayedPlanMismatch expected found}"
    for x ts and r :: "(schedule_error, execution_plan) result"
    using that by (auto simp: validate_goal_contract_versions_def check_planned_task_def validate_stamps_def
        check_stamp_pair_def insert_new_def Let_def and_then_Err_iff require_def ordered_stamps_def
        map_err_Err_iff dest!: checks_Err split: if_splits)
  have "build_planned_run run goal tasks stamps \<noteq> Err x"
    if "x \<in> {GR_Replay e, GR_ReplayedStatusMismatch from to, GR_ReplayedPlanMismatch expected found}" for x
    using early [OF that] replays
    by (auto simp: build_planned_run_def and_then_Err_iff Let_def validate_stamps_Ok_iff map_err_Ok_iff
        planned_run_fields)
  then show ?thesis using build_Ok_iff [OF assms] by blast
qed


theorem planned_run_builds_witness:
  "build_planned_run ''run'' sample_goal sample_tasks sample_stamps = Ok (sample_plan, sample_planned)"
proof -
  have "length sample_tasks \<le> 2 ^ 32" by (simp add: sample_tasks_def)
  moreover have "plannable sample_goal sample_tasks sample_stamps"
    "sort (map task_id_of sample_tasks) = [''a'', ''b'', ''c'', ''d'']"
    by code_simp+
  ultimately show ?thesis
    using planned_run_builds [of sample_tasks "''run''" sample_goal sample_stamps sample_plan sample_planned]
      sample_plan_Ok by (simp add: sample_planned_def)
qed

text \<open>
  Creating a run. For the single writer of a run: a creation that succeeds started from
  no event of the run, leaves exactly the four planning events and returns their replay; one
  that fails at any step of the log, but leaves it intact, leaves the run's events as they
  were or, starting from none, the first few planning events in order.
\<close>

theorem create_run_records:
  assumes "single_writer C run log_env" and "log_intact C f"
    and "build_planned_run run goal tasks stamps = Ok (plan, events)"
    and "\<forall>e \<in> set events. storable C e"
    and "create_run C log_env run goal tasks stamps f = (r, f')"
  shows "(\<forall>v. r = Ok v \<longrightarrow> run_events C run f = [] \<and> log_intact C f'
        \<and> run_events C run f' = events \<and> replay_run events (Some goal) = Ok v)
    \<and> (log_intact C f' \<longrightarrow> run_events C run f' = run_events C run f
        \<or> run_events C run f = [] \<and> (\<exists>k \<le> length events. run_events C run f' = take k events))"
  using create_run_result [OF assms] by blast

theorem create_run_records_witness:
  "run_events sample_event_codec ''run'' sample_file = sample_planned
   \<and> replay_run sample_planned (Some sample_goal)
     = Ok (planned_run ''run'' sample_goal [''a'', ''b'', ''c'', ''d''] sample_plan sample_stamps)"
proof -
  have built: "build_planned_run ''run'' sample_goal sample_tasks sample_stamps = Ok (sample_plan, sample_planned)"
    by code_simp
  have "log_intact sample_event_codec None" by code_simp
  from create_run_records [OF single_writer_alone this built _ sample_created] sample_storable
  show ?thesis by simp
qed

text \<open>
  C24 (append_event_replays): for the single writer of a run, whatever the store or the
  completion gate do and while other writers add whole lines of other runs: a successful
  append leaves an intact log with the run's earlier events followed by the event and
  returns the replay of that history. After a failed one the log is intact and the run's
  events are as before or extended by an event with which they replay, or, when the write
  was cut short, the file is an intact log with the run's events as they were, followed by
  a proper part of the line of an event with which they would replay; no recorded event is
  lost. What such a file does to later loads is the subject of \<open>torn_append_poisons_log\<close>.
\<close>

theorem append_event_replays:
  assumes "single_writer (gr_codec R) (ev_run_id e) log_env" and "storable (gr_codec R) e"
    and "log_intact (gr_codec R) f" and "append_event R log_env env e goal (f, db) = (r, f', db')"
    and "es = run_events (gr_codec R) (ev_run_id e) f"
  shows "(\<forall>v. r = Ok v \<longrightarrow> log_intact (gr_codec R) f'
        \<and> run_events (gr_codec R) (ev_run_id e) f' = es @ [e]
        \<and> replay_run (es @ [e]) (Some goal) = Ok v)
    \<and> (log_intact (gr_codec R) f' \<and> run_events (gr_codec R) (ev_run_id e) f' = es
      \<or> log_intact (gr_codec R) f' \<and> run_events (gr_codec R) (ev_run_id e) f' = es @ [e]
          \<and> is_ok (replay_run (es @ [e]) (Some goal))
      \<or> (\<exists>before. log_intact (gr_codec R) before \<and> run_events (gr_codec R) (ev_run_id e) before = es
          \<and> torn_line (gr_codec R) e before f') \<and> \<not> log_intact (gr_codec R) f'
          \<and> is_ok (replay_run (es @ [e]) (Some goal)))"
  using append_event_result [OF assms(1,2) _ assms(4)] assms(3,5)
  by (simp add: append_outcome_def appended_at_most_iff kept_def)

theorem append_event_replays_witness:
  "\<exists>v. replay_run sample_events (Some sample_goal) = Ok v
     \<and> fst (append_event (sample_runtime PolicyDisabled) log_alone alone (sample_transition Running)
         sample_goal (sample_file, bm_empty)) = Ok v"
proof -
  let ?R = "sample_runtime PolicyDisabled"
  obtain v f' db' where call: "append_event ?R log_alone alone (sample_transition Running) sample_goal
      (sample_file, bm_empty) = (Ok v, f', db')"
    using sample_appends by (metis is_ok_iff prod.collapse)
  have codec: "gr_codec ?R = sample_event_codec" "ev_run_id (sample_transition Running) = ''run''"
    by (simp_all add: sample_runtime_def sample_transition_def coordinator_event_def)
  have "replay_run (sample_planned @ [sample_transition Running]) (Some sample_goal) = Ok v"
    using append_event_replays [of ?R "sample_transition Running" log_alone sample_file alone sample_goal
        bm_empty "Ok v" f' db' sample_planned]
      call single_writer_alone sample_storable sample_file_intact sample_file_events
    by (simp add: codec)
  then show ?thesis using call by (simp add: sample_events_def)
qed

text \<open>
  C25 (enforced completion). When the policy enforces local verification for the goal the run
  was created with, \<open>append_event\<close> never records a transition to \<open>Completed\<close>: it returns no
  run and leaves the run's events alone, whatever goal contract the caller passes.
\<close>

theorem enforced_goal_not_completed:
  assumes "single_writer (gr_codec R) (ev_run_id e) log_env" and "log_intact (gr_codec R) f"
    and "gr_policy R = PolicyEnforced goals"
    and "created_of (run_events (gr_codec R) (ev_run_id e) f) = Some c"
    and "bm_get goals (rc_goal_id c) = Some a" and "requires_local_verification (eg_goal a)"
    and "is_completed_transition (ev_payload e)"
    and "append_event R log_env env e goal (f, db) = (r, f', db')"
  shows "(\<forall>v. r \<noteq> Ok v) \<and> log_intact (gr_codec R) f'
    \<and> run_events (gr_codec R) (ev_run_id e) f' = run_events (gr_codec R) (ev_run_id e) f"
  using append_event_refused [OF assms(1) _ assms(3) _ assms(5-8)] assms(2,4)
  by (simp add: refused_def kept_def)

theorem enforced_goal_not_completed_witness:
  "\<not> is_ok (fst (append_event (sample_runtime enforcing) log_alone alone (sample_transition Completed)
     sample_goal (sample_file, bm_empty)))"
proof -
  let ?R = "sample_runtime enforcing" and ?e = "sample_transition Completed"
  obtain r f' db' where call: "append_event ?R log_alone alone ?e sample_goal (sample_file, bm_empty)
      = (r, f', db')"
    by (metis prod.collapse)
  have codec: "gr_codec ?R = sample_event_codec" "ev_run_id ?e = ''run''"
    by (simp_all add: sample_runtime_def sample_transition_def coordinator_event_def)
  obtain c where c: "created_of sample_planned = Some c" "rc_goal_id c = ''goal''"
    by (auto simp: sample_planned_def planned_events_simps created_of_def sample_goal_def)
  have "\<forall>v. r \<noteq> Ok v"
    using enforced_goal_not_completed [of ?R ?e log_alone sample_file _ c _ alone sample_goal bm_empty r f' db',
        OF _ _ _ _ _ _ _ call]
      single_writer_alone sample_file_intact sample_file_events c
    by (simp add: codec) (simp add: sample_runtime_def enforcing_def bm_get_collect requires_local_verification_def
        sample_goal_def default_completion_precondition_def is_completed_transition_def sample_transition_def
        coordinator_event_def)
  then show ?thesis using call by (simp add: is_ok_iff)
qed

text \<open>
  C26 (bootstrap). For the single writer of a run, among orderly store clients: the execution
  store is touched only when the run's events replay to \<open>Planned\<close> with a recorded plan that the
  offered tasks schedule to; and when the bootstrap succeeds, the state stored for the run
  decodes to the returned execution view, which holds exactly these tasks and this budget.
\<close>

theorem bootstrap_binds_plan:
  assumes "single_writer C run log_env" and "log_intact C f"
    and "orderly env" and "valid_database db"
    and "initialize_execution C S log_env env run goal tasks budget (f, db) = (r, f', db')"
  shows "(db' \<noteq> db \<or> is_ok r \<longrightarrow>
      (\<exists>orchestration plan. replay_run (run_events C run f) (Some goal) = Ok orchestration
        \<and> rr_status (rp_run_record orchestration) = Planned
        \<and> rp_execution_plan orchestration = Some plan \<and> schedule_tasks tasks = Ok plan))
    \<and> (\<forall>b. r = Ok b \<longrightarrow> (\<exists>v. stored db' (entity_key run) = Some v
        \<and> decode_and_restore S run v = Ok (rv_execution (ebr_view b))
        \<and> xe_tasks (lr_envelope (rv_execution (ebr_view b))) = tasks_by_id tasks
        \<and> xe_retry_budget (lr_envelope (rv_execution (ebr_view b))) = budget))"
proof (cases "db' \<noteq> db \<or> is_ok r")
  case True
  then have "snd (f', db') \<noteq> snd (f, db) \<or> (\<exists>b. r = Ok b)" by (auto simp: is_ok_iff)
  from assms(5) this show ?thesis
  proof (cases rule: initialize_execution_steps)
    case (1 orchestration g)
    have "replay_run (run_events C run f) (Some goal) = Ok orchestration"
      using load_bootstrap_result(2) [OF assms(1) _ 1(1), of orchestration] assms(2) by simp
    moreover have "\<exists>v. stored db' (entity_key run) = Some v
        \<and> decode_and_restore S run v = Ok (rv_execution (ebr_view b))
        \<and> xe_tasks (lr_envelope (rv_execution (ebr_view b))) = tasks_by_id tasks
        \<and> xe_retry_budget (lr_envelope (rv_execution (ebr_view b))) = budget" if "r = Ok b" for b
      using 1(4) [OF that] initialize_run_Ok [OF assms(3,4)] by fastforce
    ultimately show ?thesis using validate_bootstrap_Ok [OF 1(3)] by blast
  qed
qed (auto simp: is_ok_iff)

theorem bootstrap_binds_plan_witness:
  "\<exists>b db'. initialize_execution sample_event_codec sample_services log_alone alone ''run'' sample_goal
      sample_tasks sample_budget (sample_file, bm_empty)
      = (Ok b :: (sample_error, (unit, unit) execution_bootstrap_result) result, sample_file, db')
    \<and> xe_tasks (lr_envelope (rv_execution (ebr_view b))) = tasks_by_id sample_tasks"
proof -
  obtain b f' db' where call: "initialize_execution sample_event_codec sample_services log_alone alone ''run''
      sample_goal sample_tasks sample_budget (sample_file, bm_empty)
      = (Ok b :: (sample_error, (unit, unit) execution_bootstrap_result) result, f', db')"
    using sample_bootstraps by (metis is_ok_iff prod.collapse)
  have "f' = sample_file"
    using call by (auto simp: initialize_execution_def result_iff on_first_eq on_second_eq load_bootstrap_run_def
        load_events_call_def Let_def log_alone_def)
  moreover have "valid_database bm_empty" by (simp add: valid_database_def)
  ultimately show ?thesis
    using bootstrap_binds_plan [OF single_writer_alone sample_file_intact orderly_alone _ call] call by auto
qed


section \<open>The event log at a sample\<close>

lemma sample_log_written:
  "each_call (\<lambda>n. log_append sample_event_codec log_calm) 0 sample_events None
   = (Ok (), Some (concat (map (\<lambda>l. l @ [newline]) [''{0}'', ''{1}'', ''{2}'', ''{3}'', ''{4}''])))"
  by code_simp

theorem appended_events_load_witness:
  "log_load_run sample_event_codec log_calm ''run''
     (snd (each_call (\<lambda>n. log_append sample_event_codec log_calm) 0 sample_events None))
   = Ok sample_events"
proof -
  have "\<forall>e \<in> set sample_events. storable sample_event_codec e" by (simp add: sample_storable)
  moreover have "log_intact sample_event_codec None" by code_simp
  moreover have "filter (\<lambda>e. ev_run_id e = ''run'') sample_events = sample_events" by code_simp
  moreover have "log_load_run sample_event_codec log_calm ''run'' None = Ok []"
    by (simp add: log_load_run_def log_load_all_def log_calm_def)
  moreover have "\<not> li_fails log_calm ReadLog" by (simp add: log_calm_def)
  ultimately show ?thesis
    using appended_events_load [OF _ _ sample_log_written, of log_calm "''run''"]
    unfolding sample_log_written snd_conv by simp
qed

text \<open>One byte of \<open>{0}\<close> is written, then \<open>{1}\<close>: the file holds the line \<open>{{1}\<close>.\<close>

theorem torn_append_poisons_log_witness:
  "\<exists>x. log_load_run sample_event_codec log_calm ''run''
     (snd (log_append sample_event_codec log_calm (sample_planned ! 1)
       (snd (log_append sample_event_codec (log_calm\<lparr>li_written := Some 1\<rparr>) (sample_planned ! 0) None))))
   = Err x"
proof (rule torn_append_poisons_log [where l = "''{0}''" and l' = "''{1}''" and n = "Suc 0" and
      e = "sample_planned ! 0" and e' = "sample_planned ! 1" and f = None and
      g = "snd (log_append sample_event_codec (log_calm\<lparr>li_written := Some 1\<rparr>) (sample_planned ! 0) None)" and
      io = "log_calm\<lparr>li_written := Some 1\<rparr>" and io' = log_calm])
  show "log_intact sample_event_codec None" by code_simp
  show "ec_to_vec sample_event_codec (sample_planned ! 0) = Some ''{0}''" by code_simp
  show "ec_to_vec sample_event_codec (sample_planned ! 1) = Some ''{1}''" by code_simp
  show "newline \<notin> set ''{0}''" "newline \<notin> set ''{1}''" by code_simp+
  show "log_append sample_event_codec (log_calm\<lparr>li_written := Some 1\<rparr>) (sample_planned ! 0) None
    = (Err LOG_Write, snd (log_append sample_event_codec (log_calm\<lparr>li_written := Some 1\<rparr>)
        (sample_planned ! 0) None))"
    by (rule prod_eqI) (simp_all, code_simp)
  show "log_append sample_event_codec log_calm (sample_planned ! 1)
      (snd (log_append sample_event_codec (log_calm\<lparr>li_written := Some 1\<rparr>) (sample_planned ! 0) None))
    = (Ok (), snd (log_append sample_event_codec log_calm (sample_planned ! 1)
        (snd (log_append sample_event_codec (log_calm\<lparr>li_written := Some 1\<rparr>) (sample_planned ! 0) None))))"
    by (rule prod_eqI) (simp_all, code_simp)
  show "\<not> is_blank (strip_return (take (Suc 0) ''{0}'' @ ''{1}''))" by code_simp
  show "ec_from_str sample_event_codec (strip_return (take (Suc 0) ''{0}'' @ ''{1}'')) = None" by code_simp
qed (simp_all add: log_calm_def)

end
