(* ===== verification/Verified_Append_Properties.thy ===== *)
theory Verified_Append_Properties
  imports Verified_Append Goal_Runtime_Properties
begin

text \<open>
  The verified append over a sample run: its events, the evidence in the bank of
  \<open>Evidence_Bank_Properties\<close> and a source directory of one file.
\<close>

section \<open>A sample run\<close>

definition verified_event :: "nat \<Rightarrow> run_event_payload \<Rightarrow> run_event" where
  "verified_event n payload = coordinator_event ''run'' (of_nat n)
     (if n = 0 then None else Some [char_of (96 + n)]) \<lparr>es_id = [char_of (97 + n)], es_occurred_at = 10 + int n\<rparr>
     payload"

definition verified_created :: run_created where
  "verified_created = \<lparr>rc_project_id = ''project'', rc_goal_id = ''goal'', rc_task_ids = [''build''],
     rc_status = Draft, rc_created_at = 10, rc_updated_at = 10, rc_started_at = None, rc_finished_at = None\<rparr>"

definition verified_payloads :: "run_event_payload list" where
  "verified_payloads =
    [RunCreated verified_created, StatusTransition Draft Accepted, StatusTransition Accepted Planned,
     StatusTransition Planned Running, EvidenceReferenceRecorded (bundle_evidence_ref bundle_digest 7),
     CompletionEvidenceRecorded (vcm_completion_evidence bound_material)]"

definition verified_events :: "run_event list" where
  "verified_events = map (\<lambda>(n, payload). verified_event n payload) (enumerate 0 verified_payloads)"

definition completing :: run_event where
  "completing = verified_event 6 (StatusTransition Running Completed)"

text \<open>The replay of the events before the completion.\<close>

definition verified_record :: run_record where
  "verified_record =
    \<lparr>rr_contract_version = 1, rr_id = ''run'', rr_project_id = ''project'', rr_goal_id = ''goal'',
     rr_task_ids = [''build''], rr_status = Running, rr_event_count = 6, rr_last_event_sequence = Some 5,
     rr_last_event_id = Some [char_of (102 :: nat)], rr_evidence_refs = [er_id (bundle_evidence_ref bundle_digest 7)],
     rr_created_at = 10, rr_updated_at = 15, rr_started_at = Some 13, rr_finished_at = None\<rparr>"

definition verified_state :: replay_state where
  "verified_state =
    \<lparr>rp_run_record = verified_record, rp_execution_plan = None,
     rp_task_statuses = bm_collect [(''build'', TaskPending)],
     rp_evidence_references = [bundle_evidence_ref bundle_digest 7], rp_guard_outcomes = [],
     rp_review_audit_requirements = None, rp_review_decisions = [], rp_audit_decisions = [],
     rp_completion_evidence = Some (vcm_completion_evidence bound_material),
     rp_specialist_outputs = [], rp_final_response = None,
     rs_evidence_ids = {er_id (bundle_evidence_ref bundle_digest 7)}, rs_review_decision_ids = {},
     rs_audit_decision_ids = {}\<rparr>"

lemma verified_chain:
  "validate_event_chain verified_events = Ok ''run''"
  "validate_event_chain (verified_events @ [completing]) = Ok ''run''"
  by (simp_all add: validate_event_chain_def verified_events_def verified_payloads_def verified_event_def
      completing_def coordinator_event_def chain_step_def is_run_created_def Let_def)

lemma verified_ref: "er_contract_version (bundle_evidence_ref d t) = 1"
  "er_integrity (bundle_evidence_ref d t) = Some \<lparr>im_contract_version = 1, im_algorithm = ''sha256'', im_digest = d\<rparr>"
  by (simp_all add: bundle_evidence_ref_def)

lemma verified_evidence:
  "vcm_completion_evidence bound_material =
    \<lparr>ce_contract_version = 1, ce_evidence_refs = [er_id (bundle_evidence_ref bundle_digest 7)],
     ce_satisfied_acceptance_criteria = [], ce_satisfied_verification_criteria = [''it builds''],
     ce_satisfied_definition_of_done = []\<rparr>"
  by (simp add: bound_material_def aggregated_def admitted_evidence_def bound_goal_def bound_bundle_def)

lemma verified_state_reached: "replay_to_state verified_events (Some bound_goal) = Ok verified_state"
  by (simp add: replay_to_state_def verified_chain)
    (simp add: verified_events_def verified_payloads_def verified_event_def coordinator_event_def
      verified_created_def check_created_def bound_goal_def verified_goal_def insert_new_def
      initial_replay_state_def replay_event_def apply_payload_def apply_status_transition_def
      validate_run_transition_def validate_run_transition_with_guard_requirements_def set_run_status_def count_event_def is_terminal_def
      apply_evidence_reference_def apply_completion_evidence_def validate_nested_contract_version_def
      verified_ref push_evidence_def verified_state_def verified_record_def Let_def verified_evidence run_status_transitions_def)

lemma completing_applies:
  "is_ok (replay_event (Some bound_goal) declared verified_state completing)"
proof -
  have "apply_status_transition (Some bound_goal) completing Running Completed verified_state
      = Ok (verified_state\<lparr>rp_run_record := set_run_status Completed 16 verified_record\<rparr>)"
    by (simp add: apply_status_transition_def completing_def verified_event_def coordinator_event_def
        validate_run_transition_with_guard_requirements_def is_terminal_def run_status_transitions_def
        verified_state_def verified_record_def verified_evidence guard_requirements_of_def check_completion_def
        evaluate_review_audit_def derive_review_audit_policy_def completion_context_def first_of_def is_pass_def
        bound_goal_def verified_goal_def Let_def required_completion_gate_def validate_contract_version_def
        missing_criteria_def validate_criteria_def unique_evidence_count_def ordered_set_def)
  then show ?thesis
    by (simp add: replay_event_def apply_payload_def completing_def verified_event_def coordinator_event_def Let_def)
qed

lemma completing_replays: "is_ok (replay_run (verified_events @ [completing]) (Some bound_goal))"
proof -
  obtain created rest where events: "verified_events = created # rest" "ev_payload created = RunCreated verified_created"
    by (simp add: verified_events_def verified_payloads_def verified_event_def coordinator_event_def)
  let ?declared = "ordered_set (rc_task_ids verified_created)"
  have fold: "check_created (Some bound_goal) created verified_created = Ok ()"
      "try_fold (replay_event (Some bound_goal) ?declared) (initial_replay_state created verified_created) verified_events
        = Ok verified_state"
    using verified_state_reached by (simp_all add: replay_to_state_def events verified_chain [unfolded events] result_iff)
  obtain s where "replay_event (Some bound_goal) ?declared verified_state completing = Ok s"
    using completing_applies by (auto simp: is_ok_iff)
  then have "replay_to_state (verified_events @ [completing]) (Some bound_goal) = Ok s"
    using fold verified_chain(2)
    by (auto simp: replay_to_state_def events verified_chain(2) [unfolded events, simplified] result_iff try_fold_append)
  then show ?thesis by (simp add: replay_run_def is_ok_iff)
qed

section \<open>A sample log\<close>

definition verified_codec :: event_codec where
  "verified_codec = numbered_codec (verified_events @ [completing])"

definition verified_file :: log_file where
  "verified_file =
     Some (concat (map (\<lambda>l. l @ [newline]) [''{0}'', ''{1}'', ''{2}'', ''{3}'', ''{4}'', ''{5}'']))"

lemma verified_lines:
  "map sample_line (verified_events @ [completing])
     = [''{0}'', ''{1}'', ''{2}'', ''{3}'', ''{4}'', ''{5}'', ''{6}'']"
  by (simp add: verified_events_def verified_payloads_def verified_event_def completing_def coordinator_event_def
      sample_line_def char_of_def bit_0)

lemma verified_storable: "storable verified_codec e"
  unfolding verified_codec_def
  by (rule numbered_storable; simp only: verified_lines) (simp, code_simp)

lemma calm_loads:
  assumes "kept C run es f"
  shows "load_events_call C log_alone n run f = (Ok es, f)"
proof -
  have "log_load_all C log_calm f = Ok (log_recorded C f)"
    using assms by (simp add: kept_def log_intact_Ok)
  then show ?thesis
    using assms by (simp add: load_events_call_def log_alone_def log_load_run_def kept_def run_events_def)
qed

lemma calm_appends:
  assumes "ec_to_vec C e = Some l"
  shows "\<exists>f'. append_call C log_alone n e f = (Ok (), f')"
  using assms by (simp add: append_call_def log_append_def log_alone_def log_calm_def Let_def)

lemma verified_kept: "kept verified_codec ''run'' verified_events verified_file"
proof -
  have find: "ec_from_str verified_codec (sample_line e) = Some e" if "e \<in> set verified_events" for e
    using verified_storable [of e] that
    by (simp add: storable_def verified_codec_def numbered_codec_def)
  have parse: "parse_lines verified_codec n (map sample_line es) = Ok es" if "set es \<subseteq> set verified_events" for n es
    using that
  proof (induction es arbitrary: n)
    case (Cons e es)
    have "\<not> is_blank (sample_line e)" by (simp add: sample_line_def is_blank_def)
    then show ?case using Cons find by simp
  qed simp
  obtain t where stored: "verified_file = Some t" by (simp add: verified_file_def)
  have "case verified_file of None \<Rightarrow> False | Some t \<Rightarrow> terminated t \<and> is_utf8 t
      \<and> lines t = [''{0}'', ''{1}'', ''{2}'', ''{3}'', ''{4}'', ''{5}'']"
    by code_simp
  moreover have "map sample_line verified_events = [''{0}'', ''{1}'', ''{2}'', ''{3}'', ''{4}'', ''{5}'']"
    using verified_lines by simp
  ultimately have whole: "terminated t" "is_utf8 t" "lines t = map sample_line verified_events"
    by (simp_all add: stored)
  have "log_load_all verified_codec log_calm verified_file = Ok verified_events"
    by (simp add: log_load_all_def log_calm_def stored whole parse)
  moreover have "filter (\<lambda>e. ev_run_id e = ''run'') verified_events = verified_events"
    by (simp add: verified_events_def verified_payloads_def verified_event_def coordinator_event_def)
  ultimately show ?thesis
    using whole(1) by (simp add: kept_def log_intact_def run_events_def log_recorded_def stored)
qed

section \<open>A sample of the services\<close>

definition verified_manifest :: source_manifest where
  "verified_manifest = \<lparr>sm_files = [\<lparr>sf_logical_path = ''main'', sf_sha256 = verification_sha256_hex [1]\<rparr>]\<rparr>"

definition verified_source :: fs_node where
  "verified_source = FsDir [(''main'', FsFile [1])]"

definition verified_world :: freeze_world where
  "verified_world =
    \<lparr>fw_temporary = True, fw_io = \<lambda>_ _ _. False, fw_snapshot_io = \<lambda>_ _. False, fw_nested = False,
     fw_source_root = \<lparr>fr_absolute = True, fr_node = Some verified_source\<rparr>,
     fw_snapshot_root = \<lparr>fr_absolute = True, fr_node = Some (FsDir [])\<rparr>,
     fw_sources = \<lambda>_. verified_source, fw_after = verified_source, fw_final_io = \<lambda>_ _. False,
     fw_final = verified_source\<rparr>"

definition verified_services :: completion_services where
  "verified_services =
    \<lparr>cs_bundle = bound_codec, cs_manifest = \<lambda>_. Inr [], cs_bank = sample_bank_codec,
     cs_world = \<lambda>_. verified_world, cs_evidence_bank = Some sample_bank, cs_open_bank = Ok sample_bank,
     cs_bank_io = \<lambda>_. False\<rparr>"

definition verified_authority :: "enforced_material enforced_goal" where
  "verified_authority =
    \<lparr>eg_goal = bound_goal, eg_task_ids = [''build''],
     eg_material = \<lparr>em_tasks = cco_tasks bound_contract, em_source_manifest = verified_manifest,
       em_source_root = ''/src'', em_environment_bindings = bm_collect [(''RUST_LOG'', ''warn'')]\<rparr>\<rparr>"

definition verifying_runtime :: "(unit, unit, unit, unit) verified_runtime" where
  "verifying_runtime =
    \<lparr>gr_codec = verified_codec, gr_services = sample_services,
     gr_policy = PolicyEnforced (bm_collect [(''goal'', verified_authority)]),
     gr_gate = \<lparr>cg_projected = \<lambda>_ _. Some False, cg_database_exists = \<lambda>_. False,
       cg_evidence_key = \<lambda>_. sample_key, cg_lease = \<lambda>_. Ok bound_snapshot, cg_commit = \<lambda>_. Ok (),
       cg_matches = \<lambda>_ _ _ _. True\<rparr>\<rparr>"

lemma verified_path: "validate_logical_path ''main'' = Ok ()"
  by code_simp

lemma verified_fingerprint: "source_fingerprint (\<lambda>_. Inr []) verified_manifest = Ok line_feed_digest"
proof -
  have "validate_source_manifest verified_manifest = Ok ()"
    using sha256_valid_digest [of "[1]"] verified_path
    by (simp add: validate_source_manifest_def verified_manifest_def check_manifest_file_def valid_digest_def)
  then show ?thesis
    by (simp add: source_fingerprint_def source_manifest_bytes_def line_feed_digest_def)
qed

lemma verified_utf8: "is_utf8 ''main''" "is_utf8 ''warn''"
  by code_simp+

lemma verified_inspected:
  "inspect_tree (\<lambda>_. Inr []) (\<lambda>_ _. False) verified_manifest kind (FsDir [(''main'', FsFile [1])]) = Ok line_feed_digest"
proof -
  have "visit_tree (\<lambda>_ _. False) kind (FsDir [(''main'', FsFile [1])])
      = Ok [\<lparr>sf_logical_path = ''main'', sf_sha256 = verification_sha256_hex [1]\<rparr>]"
    by (simp add: visit_tree_def visit_file_def verified_path verified_utf8)
  then show ?thesis
    using verified_fingerprint by (simp add: inspect_tree_def verified_manifest_def)
qed

lemma verified_frozen:
  "freeze_source verified_services (eg_material verified_authority)
     = (Ok (line_feed_digest, line_feed_digest) :: (unit, unit, string \<times> string) completed)"
proof -
  have manifest: "validate_source_manifest verified_manifest = Ok ()"
    using verified_fingerprint by (simp add: source_fingerprint_def source_manifest_bytes_def result_iff)
  have parts: "join_logical ''main'' = [''main'']" by code_simp
  have copied: "copy_file (\<lambda>_ _. False) (\<lambda>_ _. False) [] (verified_source, hd (sm_files verified_manifest))
      = Ok [(''main'', FsFile [1])]"
    by (simp add: copy_file_def verified_manifest_def parts open_source_def copy_contents_def verified_source_def)
  have files: "enumerate 0 (sm_files verified_manifest) = [(0, hd (sm_files verified_manifest))]"
    by (simp add: verified_manifest_def)
  show ?thesis
    by (simp add: freeze_source_def verified_services_def verified_world_def verified_authority_def
        materialize_def preflight_roots_def manifest validate_root_def root_directory_def files copied
        verified_source_def [symmetric] source_post_fingerprint_def source_pre_fingerprint_def)
      (simp add: verified_source_def verified_inspected)
qed

lemma verified_observed:
  "try_fold (observe_task (em_environment_bindings (eg_material verified_authority)) (line_feed_digest, line_feed_digest))
     [] (em_tasks (eg_material verified_authority))
   = (Ok [bound_observation] :: (unit, unit, completion_observation list) completed)"
proof -
  let ?bindings = "bm_collect [(''RUST_LOG'', ''warn'')] :: environment_bindings"
  have "validate_capability bound_capability = Ok ()"
    using bound_capability_ok by (simp add: result_iff)
  moreover have "map (bm_keys \<circ> vcm_environment_names) (cd_commands bound_capability) = [bm_keys (bs_collect [''RUST_LOG''])]"
    by (simp add: bound_capability_def sample_capability_def)
  moreover have "ordered_set (bm_keys (bs_collect [''RUST_LOG''])) = [''RUST_LOG'']" by code_simp
  ultimately have "completion_environment_names (hd (cco_tasks bound_contract)) = Ok [''RUST_LOG'']"
    by (simp add: completion_environment_names_def bound_contract_def)
  moreover have "digest_for ?bindings [''RUST_LOG''] = Some bound_environment_digest"
  proof -
    have "bm_get ?bindings ''RUST_LOG'' = Some ''warn''" by (simp add: bm_get_collect)
    then show ?thesis
      by (simp add: digest_for_def bind_environment_def verified_utf8 bound_environment_digest_def string_bytes_def
          ascii_bytes_def)
  qed
  ultimately show ?thesis
    by (simp add: verified_authority_def bound_contract_def observe_task_def bound_observation_def task_of_def
        bound_fields)
qed

lemma verified_fresh:
  "fresh_completion_material verified_services verified_authority ''run'' [''build''] bound_snapshot
     = (Ok bound_material :: (unit, unit, completion_material) completed)"
proof -
  have "completion_of verified_authority = bound_contract"
    by (simp add: completion_of_def verified_authority_def bound_contract_def)
  moreover have "cs_bundle verified_services = bound_codec" by (simp add: verified_services_def)
  ultimately show ?thesis
    by (simp add: fresh_completion_material_def verified_frozen verified_observed bound_material_admitted)
qed

text \<open>The lease shows the sample snapshot.\<close>

lemma shown_bundle:
  assumes "shows_bundle sample_bank_codec sample_bank entry" and "ec_key (cab_current entry) = sample_key"
  shows "entry = hd (cas_bundles bound_snapshot)"
proof -
  obtain current found where entry: "entry = \<lparr>cab_current = current, cab_record = found\<rparr>"
    by (cases entry) auto
  have row: "bm_get (bk_bundle_current sample_bank) (key_columns sample_key) = Some sample_current_row"
    by (simp add: sample_bank_def)
  have current: "current = bank_evidence FreshCurrent 1"
    using assms row
    by (simp add: shows_bundle_def entry Let_def sample_current_row_def stored_generation_def bank_evidence_def)
  obtain stored where stored: "bm_get (bk_bundle_records sample_bank) (vb_bundle_id bound_bundle) = Some stored"
      "holds_bundle sample_bank_codec (vb_bundle_id bound_bundle) stored (bur_bundle found)"
    and shape: "found = bundle_record_of (bur_bundle found) bundle_digest"
    using assms(1) by (auto simp: shows_bundle_def entry current Let_def bundle_record_of_def bank_evidence_def)
  then have "bundle_bytes sample_bank_codec (bur_bundle found) = Ok [66]"
    by (auto simp: sample_bank_def holds_bundle_def)
  then have "bur_bundle found = bound_bundle"
    by (auto simp: bundle_bytes_def sample_bank_codec_def serialized_def result_iff split: if_splits)
  with shape have "found = bundle_record_of bound_bundle bundle_digest" by simp
  with current show ?thesis by (simp add: bound_snapshot_def entry)
qed

lemma shown_capability:
  assumes "shows_capability sample_bank_codec sample_bank entry" and "cc_capability_id (cac_current entry) = ''cap.build''"
  shows "entry = hd (cas_capabilities bound_snapshot)"
proof -
  obtain current found where entry: "entry = \<lparr>cac_current = current, cac_record = found\<rparr>"
    by (cases entry) auto
  have current: "current = sample_current"
    using assms
    by (simp add: shows_capability_def entry Let_def sample_bank_def stored_generation_def sample_current_def)
  obtain stored where "bm_get (bk_capability_records sample_bank) (''cap.build'', 1) = Some stored"
      "holds_capability sample_bank_codec (''cap.build'', 1) stored (car_definition found)"
    and digest: "car_digest found = capability_digest"
    using assms(1) by (auto simp: shows_capability_def entry current Let_def sample_current_def)
  then have "capability_bytes (bkc_rerun sample_bank_codec) (car_definition found) = Ok (ascii_bytes ''cap.build'')"
    by (auto simp: sample_bank_def holds_capability_def)
  then have "car_definition found = bound_capability"
    by (auto simp: capability_bytes_def sample_bank_codec_def bank_rerun_codec_def serialized_def result_iff
        split: if_splits)
  with digest have "found = \<lparr>car_definition = bound_capability, car_digest = capability_digest\<rparr>"
    by (intro capability_record.equality) simp_all
  with current show ?thesis by (simp add: bound_snapshot_def entry)
qed

lemma verified_lease:
  "with_completion_admission_lease sample_bank_codec (\<lambda>_. False) lift [sample_key] callback sample_bank s
     = callback bound_snapshot s"
proof -
  obtain snap where snap: "snapshot_of sample_bank_codec sample_bank [sample_key] snap"
      "with_completion_admission_lease sample_bank_codec (\<lambda>_. False) lift [sample_key] callback sample_bank s
        = callback snap s"
    using lease_entered [OF sample_bank_intact sample_bank_codec_ok working sample_lease_ready, of lift callback s]
    by (elim exE conjE)
  obtain capabilities bundles where parts: "snap = \<lparr>cas_capabilities = capabilities, cas_bundles = bundles\<rparr>"
    by (cases snap) auto
  have "bm_keys (bk_capability_current sample_bank) = [''cap.build'']"
    by (simp add: sample_bank_def bm_keys_def)
  then have "map (cc_capability_id \<circ> cac_current) capabilities = [''cap.build'']"
      "map (ec_key \<circ> cab_current) bundles = [sample_key]"
      "list_all (shows_capability sample_bank_codec sample_bank) capabilities"
      "list_all (shows_bundle sample_bank_codec sample_bank) bundles"
    using snap(1) by (simp_all add: snapshot_of_def parts)
  then have "capabilities = [hd (cas_capabilities bound_snapshot)]" "bundles = [hd (cas_bundles bound_snapshot)]"
    using shown_capability shown_bundle by auto
  then have "snap = bound_snapshot" by (simp add: parts bound_snapshot_def)
  with snap(2) show ?thesis by simp
qed

section \<open>The append\<close>

lemma verified_codec_of [simp]: "gr_codec verifying_runtime = verified_codec"
  by (simp add: verifying_runtime_def)

lemma verified_required:
  "enforced_authority (gr_policy verifying_runtime) verified_events bound_goal
     = (Ok verified_authority :: (unit, unit, enforced_material enforced_goal) completed)"
  "require_verified_goal (gr_policy verifying_runtime) verified_events bound_goal
     = (Ok verified_authority :: (unit, unit, enforced_material enforced_goal) completed)"
proof -
  obtain created where "first_of verified_events = Some created" "ev_payload created = RunCreated verified_created"
    by (simp add: verified_events_def verified_payloads_def verified_event_def coordinator_event_def first_of_def)
  moreover have "gr_policy verifying_runtime = PolicyEnforced (bm_collect [(''goal'', verified_authority)])"
      "bm_get (bm_collect [(''goal'', verified_authority)]) ''goal'' = Some verified_authority"
    by (simp_all add: verifying_runtime_def bm_get_collect)
  moreover have "rc_goal_id verified_created = ''goal''" "eg_goal verified_authority = bound_goal"
      "eg_task_ids verified_authority = rc_task_ids verified_created"
    by (simp_all add: verified_created_def verified_authority_def)
  ultimately show authority: "enforced_authority (gr_policy verifying_runtime) verified_events bound_goal
     = (Ok verified_authority :: (unit, unit, enforced_material enforced_goal) completed)"
    by (simp add: enforced_authority_def authoritative_completion_goal_def)
  have "requires_local_verification (eg_goal verified_authority)"
    by (simp add: requires_local_verification_def bound_goal_def verified_authority_def)
  then show "require_verified_goal (gr_policy verifying_runtime) verified_events bound_goal
     = (Ok verified_authority :: (unit, unit, enforced_material enforced_goal) completed)"
    by (simp add: require_verified_goal_def authority)
qed

lemma verified_inputs:
  "completion_lease_inputs verified_services verified_authority ''run''
     = (Ok ([sample_key], sample_bank) :: (unit, unit, evidence_key list \<times> bank) completed)"
proof -
  have "completion_of verified_authority = bound_contract"
    by (simp add: completion_of_def verified_authority_def bound_contract_def)
  then have "completion_evidence_keys bound_codec (completion_of verified_authority) ''run'' = Ok [sample_key]"
    by (simp add: completion_evidence_keys_def bound_contract_ok)
      (simp add: bound_contract_def bound_fields bound_goal_def verified_goal_def sample_key_def)
  then show ?thesis by (simp add: completion_lease_inputs_def verified_services_def)
qed

lemma verified_unreviewed:
  "load_issue6_execution verifying_runtime log_alone n alone k ''run'' media
     = (Ok None :: ((unit, unit, bank_error) durable_goal_error, (unit, unit) loaded_run option) result, media)"
  by (simp add: load_issue6_execution_def verifying_runtime_def log_alone_def alone_def Let_def)

lemma verified_loads:
  assumes "kept verified_codec ''run'' es (fst media)"
  shows "load_completion_events verifying_runtime log_alone n ''run'' media
     = (Ok es :: (unit, unit, run_event list) completed, media)"
  by (simp add: load_completion_events_def with_err_def on_first_def calm_loads [OF assms])

lemma verified_admitted:
  assumes kept: "kept verified_codec ''run'' verified_events (fst media)"
  shows "\<exists>media'. append_admitted verified_services verifying_runtime log_alone alone completing bound_goal
      bound_snapshot media = (Ok () :: (unit, unit, unit) completed, media')"
proof -
  have run: "ev_run_id completing = ''run''"
    by (simp add: completing_def verified_event_def coordinator_event_def)
  let ?current = "replayed_run.truncate verified_state"
  have replay: "replay_run verified_events (Some bound_goal) = Ok ?current"
    by (simp add: replay_run_def verified_state_reached)
  have current: "rr_task_ids (rp_run_record verified_state) = [''build'']"
      "rp_evidence_references verified_state = [bundle_evidence_ref bundle_digest 7]"
      "rp_completion_evidence verified_state = Some (vcm_completion_evidence bound_material)"
    by (simp_all add: verified_state_def verified_record_def)
  have persisted: "validate_persisted_completion_material bound_material [bundle_evidence_ref bundle_digest 7]
      (Some (vcm_completion_evidence bound_material)) = Ok ()"
    by (simp add: validate_persisted_completion_material_def check_persisted_reference_def bound_material_def
        bm_get_collect Let_def)
  have events: "verified_events \<noteq> []" by (simp add: verified_events_def verified_payloads_def)
  have authority: "eg_goal verified_authority = bound_goal" by (simp add: verified_authority_def)
  have review: "validate_independent_completion_snapshot verifying_runtime log_alone n alone k ''run'' ?current
      bound_snapshot media = (Ok () :: ((unit, unit, bank_error) durable_goal_error, unit) result, media)" for n k
    by (simp add: validate_independent_completion_snapshot_def verified_unreviewed)
  obtain v where after: "replay_run (verified_events @ [completing]) (Some bound_goal) = Ok v"
    using completing_replays by (auto simp: is_ok_iff)
  have "ec_to_vec verified_codec completing = Some (sample_line completing)"
    by (simp add: verified_codec_def numbered_codec_def)
  then obtain f' where "append_call verified_codec log_alone 4 completing (fst media) = (Ok (), f')"
    using calm_appends by blast
  then have "append_checked verifying_runtime log_alone 4 completing bound_goal verified_events media
      = (Ok () :: ((unit, unit, bank_error) durable_goal_error, unit) result, (f', snd media))"
    by (simp add: append_checked_def after on_first_def with_err_def)
  then show ?thesis
    by (simp add: append_admitted_def Let_def run verified_loads [OF kept] events verified_required authority
        replay current verified_fresh persisted review with_err_def)
qed

lemma verified_appends:
  "\<exists>v media'. append_verified_completion verified_services verifying_runtime log_alone alone completing bound_goal
     (verified_file, bm_empty) = (Ok v :: (unit, unit, replayed_run) completed, media')"
proof -
  have run: "ev_run_id completing = ''run''" "is_completed_transition (ev_payload completing)"
    by (simp_all add: completing_def verified_event_def coordinator_event_def is_completed_transition_def)
  have kept: "kept verified_codec ''run'' verified_events (fst (verified_file, bm_empty))"
    using verified_kept by simp
  have events: "verified_events \<noteq> []" by (simp add: verified_events_def verified_payloads_def)
  have versions: "validate_goal_contract_versions bound_goal = Ok ()"
    by (simp add: validate_goal_contract_versions_def bound_goal_def verified_goal_def)
  obtain f' db' where admitted: "append_admitted verified_services verifying_runtime log_alone alone completing
      bound_goal bound_snapshot (verified_file, bm_empty) = (Ok () :: (unit, unit, unit) completed, (f', db'))"
    using verified_admitted [OF kept] by auto
  have after: "kept verified_codec ''run'' (verified_events @ [completing]) f'"
    using append_admitted_Ok [OF _ _ _ admitted, of verified_events] single_writer_alone verified_storable kept run
    by simp
  obtain v where "replay_run (verified_events @ [completing]) (Some bound_goal) = Ok v"
    using completing_replays by (auto simp: is_ok_iff)
  then have "finish_append verifying_runtime log_alone 5 completing bound_goal (f', db')
      = (Ok v :: ((unit, unit, bank_error) durable_goal_error, replayed_run) result, (f', db'))"
    using calm_loads [OF after]
    by (simp add: finish_append_def load_goal_run_def versions replay_loaded_def run on_first_def with_err_def)
  moreover have "cs_bank verified_services = sample_bank_codec" "cs_bank_io verified_services = (\<lambda>_. False)"
    by (simp_all add: verified_services_def)
  ultimately show ?thesis
    using admitted
    by (simp add: append_verified_completion_def Let_def run versions verified_loads [OF kept] events
        verified_unreviewed verified_required verified_inputs verified_lease with_err_def)
qed

section \<open>Properties\<close>

text \<open>
  C39 (verified append sound). Appending a completion through the verified path, whatever call fails
  and however late, leaves an intact log in which the events of the run are as they were or are followed
  by just this event, with which the history replays; or, when the write of the line was cut short, an
  intact log with the events of the run as they were and a proper part of that line behind it. When it
  succeeds, the event is the transition to \<open>Completed\<close>; the policy names the goal of the run and its
  tasks; while the lease was held, the bank showed current evidence for each task, the sources matched
  the manifest before and after, the admission derived the material from both, and the run had recorded
  all of it before; and the result is the replay of the longer history.
\<close>

theorem verified_append_sound:
  assumes "single_writer (gr_codec R) (ev_run_id e) log_env" and "storable (gr_codec R) e"
    and "log_intact (gr_codec R) f" and "es = run_events (gr_codec R) (ev_run_id e) f"
    and "append_verified_completion V R log_env env e goal (f, db)
      = (r :: ('x, 'y, replayed_run) completed, (f', db'))"
  shows "(log_intact (gr_codec R) f' \<and> run_events (gr_codec R) (ev_run_id e) f' = es
      \<or> log_intact (gr_codec R) f' \<and> run_events (gr_codec R) (ev_run_id e) f' = es @ [e]
          \<and> is_ok (replay_run (es @ [e]) (Some goal))
      \<or> (\<exists>before. log_intact (gr_codec R) before \<and> run_events (gr_codec R) (ev_run_id e) before = es
          \<and> torn_line (gr_codec R) e before f') \<and> \<not> log_intact (gr_codec R) f'
          \<and> is_ok (replay_run (es @ [e]) (Some goal)))
    \<and> (\<forall>v. r = Ok v \<longrightarrow> is_completed_transition (ev_payload e)
        \<and> completion_established V (gr_policy R) (ev_run_id e) goal es
        \<and> log_intact (gr_codec R) f' \<and> run_events (gr_codec R) (ev_run_id e) f' = es @ [e]
        \<and> replay_run (es @ [e]) (Some goal) = Ok v)"
  using append_verified_result [OF assms(1,2) _ assms(5), of es] assms(3,4)
  by (simp add: append_outcome_def appended_at_most_iff kept_def)

theorem verified_append_sound_witness:
  "\<exists>f' v. log_intact verified_codec f' \<and> run_events verified_codec ''run'' f' = verified_events @ [completing]
    \<and> replay_run (verified_events @ [completing]) (Some bound_goal) = Ok v
    \<and> completion_established verified_services (gr_policy verifying_runtime) ''run'' bound_goal verified_events"
proof -
  obtain v f' db' where call: "append_verified_completion verified_services verifying_runtime log_alone alone
      completing bound_goal (verified_file, bm_empty) = (Ok v :: (unit, unit, replayed_run) completed, (f', db'))"
    using verified_appends by auto
  have run: "ev_run_id completing = ''run''"
    by (simp add: completing_def verified_event_def coordinator_event_def)
  show ?thesis
    using verified_append_sound [OF _ _ _ _ call, of verified_events] verified_kept
      single_writer_alone verified_storable run
    by (auto simp: kept_def)
qed

text \<open>
  C40 (reconciliation is truthful). Reconciliation. After an append whose outcome was lost, reconciliation leaves the log as it is and
  reports the truth: \<open>AlreadyCommitted\<close> only when exactly this event is recorded, \<open>RetryRequired\<close> only
  when no event of its identifier is, and appending it now would leave the run replayable.
\<close>

theorem reconciliation_is_truthful:
  assumes "single_writer (gr_codec R) (ev_run_id e) log_env" and "log_intact (gr_codec R) f"
    and "es = run_events (gr_codec R) (ev_run_id e) f"
    and "reconcile_verified_completion_append V R log_env env e goal (f, db)
      = (r :: ('x, 'y, completion_append_reconciliation) completed, (f', db'))"
  shows "log_intact (gr_codec R) f' \<and> run_events (gr_codec R) (ev_run_id e) f' = es
    \<and> (r = Ok AlreadyCommitted \<longrightarrow> e \<in> set es)
    \<and> (r = Ok RetryRequired \<longrightarrow> (\<forall>d \<in> set es. ev_id d \<noteq> ev_id e) \<and> is_ok (replay_run (es @ [e]) (Some goal)))"
  using reconcile_result [OF assms(1) _ assms(4), of es] assms(2,3) by (simp add: kept_def)

lemma verified_reconciles:
  "reconcile_verified_completion_append verified_services verifying_runtime log_alone alone completing bound_goal
     (verified_file, bm_empty)
   = (Ok RetryRequired :: (unit, unit, completion_append_reconciliation) completed, (verified_file, bm_empty))"
proof -
  have run: "ev_run_id completing = ''run''" "is_completed_transition (ev_payload completing)"
    by (simp_all add: completing_def verified_event_def coordinator_event_def is_completed_transition_def)
  have kept: "kept verified_codec ''run'' verified_events (fst (verified_file, bm_empty))"
    using verified_kept by simp
  have events: "verified_events \<noteq> []" by (simp add: verified_events_def verified_payloads_def)
  have versions: "validate_goal_contract_versions bound_goal = Ok ()"
    by (simp add: validate_goal_contract_versions_def bound_goal_def verified_goal_def)
  have goal: "eg_goal verified_authority = bound_goal" by (simp add: verified_authority_def)
  have unseen: "find (\<lambda>d. ev_id d = ev_id completing) verified_events = None"
    by (simp add: verified_events_def verified_payloads_def verified_event_def completing_def coordinator_event_def)
  have before: "replay_run verified_events (Some bound_goal) = Ok (replayed_run.truncate verified_state)"
    by (simp add: replay_run_def verified_state_reached)
  obtain v where after: "replay_run (verified_events @ [completing]) (Some bound_goal) = Ok v"
    using completing_replays by (auto simp: is_ok_iff)
  have review: "check_review_leased verified_services verifying_runtime log_alone alone ''run'' current media
      = (Ok () :: (unit, unit, unit) completed, media)" for current media
    by (simp add: check_review_leased_def independent_review_evidence_key_def verified_unreviewed with_err_def)
  show ?thesis
    by (simp add: reconcile_verified_completion_append_def Let_def run versions verified_loads [OF kept] events
        verified_unreviewed verified_required goal unseen before after review with_err_def)
qed

theorem reconciliation_is_truthful_witness:
  "run_events verified_codec ''run'' verified_file = verified_events
    \<and> ev_id completing \<notin> ev_id ` set verified_events
    \<and> is_ok (replay_run (verified_events @ [completing]) (Some bound_goal))"
proof -
  have "ev_run_id completing = ''run''"
    by (simp add: completing_def verified_event_def coordinator_event_def)
  then show ?thesis
    using reconciliation_is_truthful [OF _ _ _ verified_reconciles, of verified_events] verified_kept
      single_writer_alone
    by (auto simp: kept_def)
qed

end
