(* ===== verification/Guardrail_Safety.thy ===== *)
theory Guardrail_Safety
  imports Durable_Guardrails
begin

text \<open>
  What the approval ledger guarantees among other clients of the store: approvals only move
  from pending to decided to consumed, an effect runs only on an explicit owner approval of
  exactly its request, and at most once.
\<close>

section \<open>The life of an approval\<close>

definition approval_at ::
    "approval_codec \<Rightarrow> approval_request_id \<Rightarrow> contents \<Rightarrow> approval_envelope option" where
  "approval_at C i c = (case c (approval_key i) of
     None \<Rightarrow> None
   | Some v \<Rightarrow> (case decode_state C i v of Ok r \<Rightarrow> Some (dar_envelope r) | _ \<Rightarrow> None))"

inductive approval_step :: "approval_envelope \<Rightarrow> approval_envelope \<Rightarrow> bool" where
  decided: "ae_state e = ApprovalPending \<Longrightarrow> validate_decision_for e d = Ok () \<Longrightarrow>
    approval_step e (decided_envelope e d)"
| consumed: "ae_state e = ApprovalApproved \<Longrightarrow> approval_step e (e\<lparr>ae_state := ApprovalConsumed\<rparr>)"

inductive_cases approval_stepE: "approval_step e e'"

definition advances :: "approval_codec \<Rightarrow> approval_request_id \<Rightarrow> contents \<Rightarrow> contents \<Rightarrow> bool" where
  "advances C i c c' \<longleftrightarrow> (\<forall>e. approval_at C i c = Some e \<longrightarrow>
     (\<exists>e'. approval_at C i c' = Some e' \<and> approval_step\<^sup>*\<^sup>* e e'))"

lemma advances_refl [simp]: "advances C i c c"
  by (simp add: advances_def)

lemma advances_trans: "advances C i c c' \<Longrightarrow> advances C i c' c'' \<Longrightarrow> advances C i c c''"
  unfolding advances_def by (meson rtranclp_trans)

definition approvals_round_trip :: "approval_codec \<Rightarrow> bool" where
  "approvals_round_trip C \<longleftrightarrow> (\<forall>e payload. ac_encode C e = Some payload \<longrightarrow> ac_decode C payload = Some e)"

lemma decode_state_Ok:
  "decode_state C i v = Ok r \<longleftrightarrow> ac_decode C (vs_payload v) = Some (dar_envelope r)
     \<and> validate_envelope i (dar_envelope r) = Ok () \<and> dar_revision r = vs_revision v"
  by (cases r) (auto simp: decode_state_def result_iff)

lemma approval_at_Some:
  "approval_at C i c = Some e \<longleftrightarrow> (\<exists>v. c (approval_key i) = Some v
     \<and> ac_decode C (vs_payload v) = Some e \<and> validate_envelope i e = Ok ())"
proof
  assume "approval_at C i c = Some e"
  then show "\<exists>v. c (approval_key i) = Some v
     \<and> ac_decode C (vs_payload v) = Some e \<and> validate_envelope i e = Ok ()"
    by (auto simp: approval_at_def decode_state_Ok split: option.splits result.splits)
next
  assume "\<exists>v. c (approval_key i) = Some v
     \<and> ac_decode C (vs_payload v) = Some e \<and> validate_envelope i e = Ok ()"
  then show "approval_at C i c = Some e"
    by (auto simp: approval_at_def decode_state_def)
qed

lemma approval_at_written:
  assumes "approvals_round_trip C" and "ac_encode C e = Some (vs_payload w)"
    and "validate_envelope i e = Ok ()"
  shows "approval_at C i (c(approval_key i \<mapsto> w)) = Some e"
  using assms by (auto simp: approval_at_Some approvals_round_trip_def)

lemma approval_key_inject [simp]: "approval_key i = approval_key j \<longleftrightarrow> i = j"
  by (simp add: approval_key_def)

lemma approval_at_other [simp]:
  "j \<noteq> i \<Longrightarrow> approval_at C j (c(approval_key i \<mapsto> w)) = approval_at C j c"
  by (simp add: approval_at_def)

text \<open>A write of the successor of the approval that was read advances every approval.\<close>

lemma written_advances:
  assumes "approvals_round_trip C" and "ac_encode C e' = Some (vs_payload w)"
    and "validate_envelope i e' = Ok ()" and "approval_at C i c = Some e" and "approval_step e e'"
  shows "advances C j c (c(approval_key i \<mapsto> w))"
  using assms approval_at_written [OF assms(1-3), of c]
  by (cases "j = i") (auto simp: advances_def)

text \<open>A decision, once there, is never changed, and a consumed approval stays as it is.\<close>

lemma step_facts:
  assumes "approval_step e e'"
  shows "ae_state e \<noteq> ApprovalConsumed" "ae_state e \<noteq> ApprovalDenied"
    "ae_state e' \<noteq> ApprovalPending"
    "ae_state e \<noteq> ApprovalPending \<Longrightarrow> ae_decision e' = ae_decision e"
    "ae_approval_request e' = ae_approval_request e \<and> ae_required_gates e' = ae_required_gates e"
  using assms
  by (cases rule: approval_step.cases; simp add: decided_envelope_def split: approval_disposition.splits)+

lemma steps_from_final:
  assumes "approval_step\<^sup>*\<^sup>* e e'" and "ae_state e \<in> {ApprovalConsumed, ApprovalDenied}"
  shows "e' = e"
  using assms by (cases rule: converse_rtranclpE) (auto dest: step_facts(1,2))

lemma steps_keep_decision:
  "approval_step\<^sup>*\<^sup>* e e' \<Longrightarrow> ae_state e \<noteq> ApprovalPending \<Longrightarrow>
   ae_decision e' = ae_decision e \<and> ae_state e' \<noteq> ApprovalPending"
proof (induction rule: rtranclp_induct)
  case (step x y)
  then show ?case using step_facts(3,4) [OF step.hyps(2)] by simp
qed simp

lemma steps_keep_request:
  "approval_step\<^sup>*\<^sup>* e e' \<Longrightarrow> ae_approval_request e' = ae_approval_request e
     \<and> ae_required_gates e' = ae_required_gates e"
proof (induction rule: rtranclp_induct)
  case (step x y)
  then show ?case using step_facts(5) [OF step.hyps(2)] by simp
qed simp

section \<open>What validation establishes\<close>

lemma validate_decision_for_Ok [result_iff]:
  "validate_decision_for e d = Ok u \<longleftrightarrow> ad_contract_version d = current_version
     \<and> ad_authority d = ExplicitOwner
     \<and> ad_approval_request_id d = ar_id (ae_approval_request e)
     \<and> ad_guard_request_id d = gr_id (ar_guard_request (ae_approval_request e))
     \<and> ar_requested_at (ae_approval_request e) \<le> ad_decided_at d"
  by (auto simp: validate_decision_for_def validate_decision_shape_def result_iff)

lemma valid_envelope_approved:
  assumes "validate_envelope i e = Ok u" and "ae_state e \<in> {ApprovalApproved, ApprovalConsumed}"
  shows "\<exists>d. ae_decision e = Some d \<and> ad_disposition d = DispositionApproved
    \<and> validate_decision_for e d = Ok ()"
  using assms by (auto simp: validate_envelope_def Let_def validate_state_decision_def and_then_Err_iff
      result_iff split: option.splits approval_disposition.splits)

lemma valid_envelope_id: "validate_envelope i e = Ok u \<Longrightarrow> ar_id (ae_approval_request e) = i"
  by (simp add: validate_envelope_def Let_def result_iff)

section \<open>Resuming\<close>

lemma load_approval_Ok:
  assumes "orderly env" "valid_database db" "load_approval C env i db = (Ok loaded, db')"
  obtains v where "db' = snd (env 0) db" "valid_database db'" "stored db' (approval_key i) = Some v"
    "decode_state C i v = Ok loaded"
proof -
  obtain found where load: "load_call env 0 (approval_key i) db = (found, db')"
    using assms(3) by (auto simp: load_approval_def Let_def split: prod.splits)
  then obtain v where v: "found = Ok (Some v)" "decode_state C i v = Ok loaded"
    using assms(3) by (auto simp: load_approval_def result_iff)
  show ?thesis
    using load_call_Ok [OF assms(1,2) load [unfolded v(1)]] load v(2)
    by (intro that [of v]) (auto simp: load_call_def Let_def)
qed

lemma load_approval_db: "snd (load_approval C env i db) = snd (env 0) db"
  by (simp add: load_approval_def load_call_def Let_def)

text \<open>A resumption leaves world and store alone, or wins the swap that consumes the approval.\<close>

lemma resume_cases:
  assumes codec: "approvals_round_trip C" and env: "orderly env" and valid: "valid_database db"
    and run: "resume_approved C env i request effect w db = (r, w', db')"
  obtains (kept) "w' = w" "db' \<in> {snd (env 0) db, snd (env 1) (snd (env 0) db)}"
      "\<forall>out gates. r \<noteq> Ok (Executed out gates)"
      "\<forall>x rec gates. r \<noteq> Ok (EffectFailedAfterConsumption x rec gates)"
  | (won) e s where "approval_at C i (stored (snd (env 1) (snd (env 0) db))) = Some e"
      "ae_state e = ApprovalApproved" "ar_guard_request (ae_approval_request e) = request"
      "stored db' = (stored (snd (env 1) (snd (env 0) db)))(approval_key i \<mapsto> s)"
      "ac_encode C (e\<lparr>ae_state := ApprovalConsumed\<rparr>) = Some (vs_payload s)"
      "validate_envelope i (e\<lparr>ae_state := ApprovalConsumed\<rparr>) = Ok ()" "valid_database db'"
      "w' = snd (effect w)"
proof (cases "load_approval C env i db")
  case (Pair o0 db0)
  then have db0: "db0 = snd (env 0) db" using load_approval_db [of C env i db] by simp
  show ?thesis
  proof (cases "\<exists>loaded payload. o0 = Ok loaded
      \<and> ar_guard_request (ae_approval_request (dar_envelope loaded)) = request
      \<and> ae_state (dar_envelope loaded) = ApprovalApproved
      \<and> validate_envelope i ((dar_envelope loaded)\<lparr>ae_state := ApprovalConsumed\<rparr>) = Ok ()
      \<and> ac_encode C ((dar_envelope loaded)\<lparr>ae_state := ApprovalConsumed\<rparr>) = Some payload")
    case False
    then show ?thesis
      using run Pair db0
      by (intro kept) (auto simp: resume_approved_def Let_def result_iff split: result.splits
          if_splits approval_state.splits prod.splits)
  next
    case True
    then obtain loaded payload where o0: "o0 = Ok loaded"
      and e: "ar_guard_request (ae_approval_request (dar_envelope loaded)) = request"
        "ae_state (dar_envelope loaded) = ApprovalApproved"
      and ok: "validate_envelope i ((dar_envelope loaded)\<lparr>ae_state := ApprovalConsumed\<rparr>) = Ok ()"
      and payload: "ac_encode C ((dar_envelope loaded)\<lparr>ae_state := ApprovalConsumed\<rparr>) = Some payload"
      by blast
    from env valid Pair [unfolded o0] obtain v where valid0: "valid_database db0"
      and v: "stored db0 (approval_key i) = Some v" "decode_state C i v = Ok loaded"
      by (rule load_approval_Ok)
    have rev: "dar_revision loaded = vs_revision v" using v(2) by (simp add: decode_state_Ok)
    obtain o1 db1 where swap: "swap_call env 1 (approval_key i) (vs_revision v) payload db0 = (o1, db1)"
      by fastforce
    have result: "(r, w', db') = (case o1 of
        Err x \<Rightarrow> (Err (DA_Storage x), w, db1) | Panic \<Rightarrow> (Panic, w, db1)
      | Ok outcome \<Rightarrow> (let (r, w') = run_consumed C i (ae_required_gates (dar_envelope loaded))
          effect w outcome in (r, w', db1)))"
      unfolding run [symmetric] resume_approved_def
      by (simp add: Pair o0 e ok payload rev swap [unfolded One_nat_def] split: result.splits)
    show ?thesis
    proof (cases "\<exists>s. o1 = Ok (Applied s)")
      case True
      then obtain s where o1: "o1 = Ok (Applied s)" by blast
      note applied = swap_call_applied [OF env valid0 v(1) swap [unfolded o1]]
      have "valid_database db1" using swap_call_later [OF env valid0 swap] by simp
      moreover have "decode_state C i s = Ok \<lparr>dar_envelope = (dar_envelope loaded)
          \<lparr>ae_state := ApprovalConsumed\<rparr>, dar_revision = vs_revision s\<rparr>"
        using codec payload ok applied by (auto simp: decode_state_Ok approvals_round_trip_def)
      then have "db' = db1" "w' = snd (effect w)"
        using result by (auto simp: o1 run_consumed_def split: result.splits prod.splits)
      ultimately show ?thesis
        using applied v(2) e ok payload db0
        by (intro won [of "dar_envelope loaded" s]) (auto simp: approval_at_Some decode_state_Ok)
    next
      case False
      then have conflict: "db1 = snd (env 1) db0"
        using swap_call_conflict [OF env valid0] swap_call_failed [OF env valid0]
          swap_call_not_Panic [OF env valid0] swap
        by (cases o1; cases "case o1 of Ok outcome \<Rightarrow> outcome") (auto split: result.splits)
      show ?thesis
        using result False conflict db0
        by (intro kept) (auto simp: run_consumed_def result_iff and_then_Panic_iff
          split: result.splits compare_and_swap_outcome.splits if_splits)
    qed
  qed
qed

section \<open>Every operation advances the approvals\<close>

definition approving :: "approval_codec \<Rightarrow> environment \<Rightarrow> bool" where
  "approving C env \<longleftrightarrow> orderly env \<and> (\<forall>n db i. valid_database db \<longrightarrow>
     advances C i (stored db) (stored (snd (env n) db)))"

lemma approvingD:
  "approving C env \<Longrightarrow> orderly env"
  "approving C env \<Longrightarrow> valid_database db \<Longrightarrow> valid_database (snd (env n) db)"
  "approving C env \<Longrightarrow> valid_database db \<Longrightarrow> advances C i (stored db) (stored (snd (env n) db))"
  by (auto simp: approving_def orderly_def)

lemma resume_advances:
  assumes codec: "approvals_round_trip C" and env: "approving C env" and valid: "valid_database db"
    and run: "resume_approved C env i request effect w db = (r, w', db')"
  shows "advances C j (stored db) (stored db')"
proof -
  let ?db0 = "snd (env 0) db" and ?db1 = "snd (env 1) (snd (env 0) db)"
  have valid0: "valid_database ?db0" by (rule approvingD(2) [OF env valid])
  have adv0: "advances C j (stored db) (stored ?db0)" by (rule approvingD(3) [OF env valid])
  have adv1: "advances C j (stored db) (stored ?db1)"
    using adv0 approvingD(3) [OF env valid0] by (rule advances_trans)
  from codec approvingD(1) [OF env] valid run show ?thesis
  proof (cases rule: resume_cases)
    case kept
    then show ?thesis using adv0 adv1 by auto
  next
    case (won e s)
    have "advances C j (stored ?db1) (stored db')"
      unfolding won(4) by (rule written_advances [OF codec won(5,6,1) approval_step.consumed [OF won(2)]])
    with adv1 show ?thesis by (rule advances_trans)
  qed
qed

lemma prepare_decision_Ok:
  assumes "prepare_decision C d loaded = Ok (ToDecide payload)"
  shows "approval_step (dar_envelope loaded) (decided_envelope (dar_envelope loaded) d)"
    "validate_envelope (ad_approval_request_id d) (decided_envelope (dar_envelope loaded) d) = Ok ()"
    "ac_encode C (decided_envelope (dar_envelope loaded) d) = Some payload"
  using assms by (auto simp: prepare_decision_def Let_def and_then_Ok_iff map_err_Ok_iff require_Ok_iff
      ok_or_Ok_iff split: if_splits intro: approval_step.decided)

lemma decision_loop_advances:
  assumes codec: "approvals_round_trip C" and env: "approving C env"
  shows "valid_database db \<Longrightarrow> stored db (approval_key (ad_approval_request_id d)) = Some v \<Longrightarrow>
    decode_state C (ad_approval_request_id d) v = Ok loaded \<Longrightarrow>
    decision_loop C env d limit left loaded db = (r, db') \<Longrightarrow> advances C j (stored db) (stored db')"
proof (induction left arbitrary: db v loaded rule: less_induct)
  case (less left)
  let ?i = "ad_approval_request_id d" and ?n = "Suc (limit - left)"
  let ?db1 = "snd (env ?n) db"
  have adv: "advances C j (stored db) (stored ?db1)"
    and valid1: "valid_database ?db1"
    using approvingD(2,3) [OF env less.prems(1)] by auto
  note orderly = approvingD(1) [OF env]
  show ?case
  proof (cases "\<exists>payload. prepare_decision C d loaded = Ok (ToDecide payload)")
    case False
    then have "db' = db"
      using less.prems(4) by (auto simp: decision_loop.simps [of C env d limit left] Let_def
          split: result.splits decision_round.splits)
    then show ?thesis by simp
  next
    case True
    then obtain payload where prep: "prepare_decision C d loaded = Ok (ToDecide payload)" by blast
    have rev: "dar_revision loaded = vs_revision v"
      and e: "ac_decode C (vs_payload v) = Some (dar_envelope loaded)"
        "validate_envelope ?i (dar_envelope loaded) = Ok ()"
      using less.prems(3) by (simp_all add: decode_state_Ok)
    obtain o1 db1 where swap: "swap_call env ?n (approval_key ?i) (vs_revision v) payload db = (o1, db1)"
      by fastforce
    have loop: "decision_loop C env d limit left loaded db = (case o1 of
        Err x \<Rightarrow> (Err (DA_Storage x), db1) | Panic \<Rightarrow> (Panic, db1)
      | Ok (Applied state) \<Rightarrow> (and_then (decode_state C ?i state) (\<lambda>r.
           Ok \<lparr>ddr_record = r, ddr_applied = True\<rparr>), db1)
      | Ok (Conflict state) \<Rightarrow> (case decode_state C ?i state of
          Err e \<Rightarrow> (Err e, db1) | Panic \<Rightarrow> (Panic, db1)
        | Ok current \<Rightarrow> (case left of
            0 \<Rightarrow> (Err (DA_ContentionExhausted ?i limit (dar_revision current)), db1)
          | Suc left' \<Rightarrow> decision_loop C env d limit left' current db1)))"
      by (subst decision_loop.simps)
        (simp add: prep rev swap Let_def split: result.splits compare_and_swap_outcome.splits)
    show ?thesis
    proof (cases "\<exists>s. o1 = Ok (Applied s)")
      case True
      then obtain s where o1: "o1 = Ok (Applied s)" by blast
      note applied = swap_call_applied [OF orderly less.prems(1,2) swap [unfolded o1]]
      have "db' = db1" using less.prems(4) loop o1 by simp
      moreover have "approval_at C ?i (stored ?db1) = Some (dar_envelope loaded)"
        using applied e by (auto simp: approval_at_Some)
      then have "advances C j (stored ?db1) (stored db1)"
        using applied written_advances [OF codec _ prepare_decision_Ok(2) [OF prep] _
            prepare_decision_Ok(1) [OF prep], of s "stored ?db1" j] prepare_decision_Ok(3) [OF prep]
        by simp
      ultimately show ?thesis using adv advances_trans by blast
    next
      case False
      then have db1: "db1 = ?db1"
        using swap_call_conflict [OF orderly less.prems(1)] swap_call_failed [OF orderly less.prems(1)]
          swap_call_not_Panic [OF orderly less.prems(1)] swap
        by (cases o1; cases "case o1 of Ok outcome \<Rightarrow> outcome") (auto split: result.splits)
      show ?thesis
      proof (cases "\<exists>s current left'. o1 = Ok (Conflict s) \<and> decode_state C ?i s = Ok current
          \<and> left = Suc left'")
        case True
        then obtain s current left' where c: "o1 = Ok (Conflict s)" "decode_state C ?i s = Ok current"
          "left = Suc left'" by blast
        have "stored db1 (approval_key ?i) = Some s"
          using swap_call_conflict [OF orderly less.prems(1)] swap c(1) by blast
        then have "advances C j (stored db1) (stored db')"
          using less.IH [of left' db1 s current] c valid1 db1 less.prems(4) loop by simp
        then show ?thesis using adv db1 advances_trans by blast
      next
        case False
        then have "db' = db1"
          using less.prems(4) loop \<open>\<nexists>s. o1 = Ok (Applied s)\<close>
          by (auto split: result.splits compare_and_swap_outcome.splits nat.splits)
        then show ?thesis using adv db1 by simp
      qed
    qed
  qed
qed

lemma record_decision_advances:
  assumes codec: "approvals_round_trip C" and env: "approving C env" and valid: "valid_database db"
    and run: "record_decision C env limit d db = (r, db')"
  shows "advances C j (stored db) (stored db')"
proof -
  let ?db0 = "snd (env 0) db"
  have adv0: "advances C j (stored db) (stored ?db0)" by (rule approvingD(3) [OF env valid])
  show ?thesis
  proof (cases "\<exists>loaded. fst (load_approval C env (ad_approval_request_id d) db) = Ok loaded
      \<and> validate_decision_shape d = Ok ()")
    case True
    then obtain loaded where "load_approval C env (ad_approval_request_id d) db = (Ok loaded, ?db0)"
      and shape: "validate_decision_shape d = Ok ()"
      using load_approval_db by (metis prod.collapse)
    note load = this(1)
    from approvingD(1) [OF env] valid load obtain v where "valid_database ?db0"
      "stored ?db0 (approval_key (ad_approval_request_id d)) = Some v"
      "decode_state C (ad_approval_request_id d) v = Ok loaded"
      by (rule load_approval_Ok)
    from decision_loop_advances [OF codec env this, of limit limit r db' j] show ?thesis
      using run load shape adv0 advances_trans by (simp add: record_decision_def)
  next
    case False
    then have "db' = db \<or> db' = ?db0"
      using run load_approval_db [of C env "ad_approval_request_id d" db]
      by (auto simp: record_decision_def split: result.splits prod.splits)
    then show ?thesis using adv0 by auto
  qed
qed

lemma initialize_stored:
  assumes "initialize io others key payload db = (r, db')"
  obtains "db' = db" | "db' = others db"
  | "stored db key = None" "stored db' = (stored db)(key \<mapsto> \<lparr>vs_payload = payload, vs_revision = 0\<rparr>)"
proof (cases "stored db key")
  case None
  then show ?thesis
    using assms that by (auto simp: initialize_def sql_insert_def stored_def bm_contains_def entity_of_def
        fun_eq_iff split: result.splits prod.splits if_splits)
next
  case (Some v)
  then show ?thesis
    using assms that(1,2) by (auto simp: initialize_def sql_insert_def stored_def bm_contains_def Let_def
        split: result.splits prod.splits if_splits)
qed

lemma evaluate_and_record_advances:
  assumes env: "approving C env" and valid: "valid_database db"
    and run: "evaluate_and_record C env request context db = (r, db')"
  shows "advances C j (stored db) (stored db')"
proof -
  let ?db0 = "snd (env 0) db" and ?db1 = "snd (env (Suc 0)) (snd (env 0) db)"
  have adv0: "advances C j (stored db) (stored ?db0)" by (rule approvingD(3) [OF env valid])
  have adv1: "advances C j (stored db) (stored ?db1)"
    using adv0 approvingD(3) [OF env approvingD(2) [OF env valid]] by (rule advances_trans)
  have "db' = db \<or> (\<exists>i payload r. initialize_call env 0 (approval_key i) payload db = (r, db'))"
    using run by (auto simp: evaluate_and_record_def Let_def split: guard_outcome.splits result.splits
        prod.splits)
  then show ?thesis
  proof (elim disjE exE)
    fix i payload o0 assume "initialize_call env 0 (approval_key i) payload db = (o0, db')"
    then show ?thesis
      unfolding initialize_call_def
    proof (cases rule: initialize_stored)
      case 3
      have "advances C j (stored ?db0) (stored db')"
        using 3(1) unfolding 3(2) by (cases "j = i") (auto simp: advances_def approval_at_Some)
      with adv0 show ?thesis by (rule advances_trans)
    qed (use adv0 adv1 in auto)
  qed simp
qed

section \<open>A sample ledger\<close>

definition sample_pending :: approval_envelope where
  "sample_pending = pending_envelope
     \<lparr>ar_contract_version = 1, ar_id = ''ap1'',
      ar_guard_request = sample_guard_request NetworkAction R2, ar_requested_at = 7\<rparr>
     {OwnerApprovalGate, ReviewerGate, AuditorGate}"

definition sample_decision :: approval_decision_record where
  "sample_decision = \<lparr>ad_contract_version = 1, ad_approval_request_id = ''ap1'',
     ad_guard_request_id = ''g1'', ad_authority = ExplicitOwner,
     ad_disposition = DispositionApproved, ad_decided_at = 9\<rparr>"

definition sample_approved :: approval_envelope where
  "sample_approved = decided_envelope sample_pending sample_decision"

definition sample_envelopes :: "approval_envelope list" where
  "sample_envelopes = [sample_pending, sample_approved, sample_approved\<lparr>ae_state := ApprovalConsumed\<rparr>]"

definition sample_ledger_codec :: approval_codec where
  "sample_ledger_codec =
    \<lparr>ac_encode = \<lambda>e. map_option (\<lambda>n. [of_nat n]) (find (\<lambda>n. sample_envelopes ! n = e) [0..<3]),
     ac_decode = \<lambda>payload. map_option (\<lambda>n. sample_envelopes ! n)
       (find (\<lambda>n. payload = [of_nat n]) [0..<3])\<rparr>"

definition sample_ledger :: database where
  "sample_ledger = bm_insert ''guard_approval:ap1'' \<lparr>sr_payload = [1], sr_revision = 1\<rparr> bm_empty"

definition count_effect :: "(nat, unit, nat) guarded_effect" where
  "count_effect w = (Ok w, Suc w)"

lemma sample_ledger_valid [simp]: "valid_database sample_ledger"
  by (auto simp: valid_database_def sample_ledger_def split: if_splits)

lemma sample_ledger_stored: "stored sample_ledger (approval_key ''ap1'') =
    Some \<lparr>vs_payload = [1], vs_revision = 1\<rparr>"
  by (simp add: stored_def sample_ledger_def approval_key_def entity_of_def)

lemma sample_ledger_round_trip: "approvals_round_trip sample_ledger_codec"
proof -
  have "n < 3 \<Longrightarrow> find (\<lambda>m. [of_nat n :: 8 word] = [of_nat m]) [0..<3] = Some n" for n :: nat
    by (cases "n = 0"; cases "n = 1"; cases "n = 2") (simp_all add: upt_rec)
  then show ?thesis
    by (auto simp: approvals_round_trip_def sample_ledger_codec_def dest!: find_Some_elem)
qed

lemma sample_ledger_facts:
  "ac_decode sample_ledger_codec [1] = Some sample_approved"
  "ac_encode sample_ledger_codec (sample_approved\<lparr>ae_state := ApprovalConsumed\<rparr>) = Some [2]"
  "validate_envelope ''ap1'' sample_approved = Ok ()"
  "validate_envelope ''ap1'' (sample_approved\<lparr>ae_state := ApprovalConsumed\<rparr>) = Ok ()"
  "ar_guard_request (ae_approval_request sample_approved) = sample_guard_request NetworkAction R2"
  "ae_state sample_approved = ApprovalApproved"
  by code_simp+

lemma sample_load: "load_approval sample_ledger_codec alone ''ap1'' sample_ledger
    = (Ok \<lparr>dar_envelope = sample_approved, dar_revision = 1\<rparr>, sample_ledger)"
  by (simp add: load_approval_def load_state_succeeds sample_ledger_stored decode_state_def
      sample_ledger_facts)

lemma sample_swap:
  obtains db' where "compare_and_swap (\<lambda>_. False) (approval_key ''ap1'') 1 [2] sample_ledger
    = (Ok (Applied \<lparr>vs_payload = [2], vs_revision = 2\<rparr>), db')"
  using compare_and_swap_succeeds [OF sample_ledger_valid sample_ledger_stored, of "[2]"] by auto

lemma sample_resume:
  obtains db' where "resume_approved sample_ledger_codec alone ''ap1''
      (sample_guard_request NetworkAction R2) count_effect 0 sample_ledger
    = (Ok (Executed 0 (ae_required_gates sample_approved)), 1, db')"
proof -
  obtain db' where swap: "compare_and_swap (\<lambda>_. False) (approval_key ''ap1'') 1 [2] sample_ledger
    = (Ok (Applied \<lparr>vs_payload = [2], vs_revision = 2\<rparr>), db')" by (rule sample_swap)
  have "ac_decode sample_ledger_codec [2] = Some (sample_approved\<lparr>ae_state := ApprovalConsumed\<rparr>)"
    using sample_ledger_round_trip sample_ledger_facts(2) by (simp add: approvals_round_trip_def)
  then show ?thesis
    using swap by (intro that [of db']) (simp add: resume_approved_def sample_load sample_ledger_facts
        run_consumed_def decode_state_def count_effect_def del: One_nat_def)
qed

section \<open>Properties\<close>

abbreviation ran :: "('t, 'x) guarded_execution \<Rightarrow> bool" where
  "ran out \<equiv> (\<exists>t gates. out = Executed t gates)
     \<or> (\<exists>x consumed gates. out = EffectFailedAfterConsumption x consumed gates)"

lemma approving_alone [simp]: "approving C alone"
  by (simp add: approving_def) (simp add: alone_def)

text \<open>
  C20 (safety). A resumption touches the world only by running its effect once, and only if at
  the moment of its swap the stored approval is for exactly this guard request and approved
  by an explicit owner decision; the same swap marks the approval consumed.
\<close>

theorem resumed_effect_is_authorized:
  assumes "approvals_round_trip C" and "orderly env" and "valid_database db"
    and "resume_approved C env i request effect w db = (r, w', db')"
    and "w' \<noteq> w \<or> (\<exists>out. r = Ok out \<and> ran out)"
  shows "w' = snd (effect w) \<and> (\<exists>e d. approval_at C i (stored (snd (env 1) (snd (env 0) db))) = Some e
    \<and> ae_state e = ApprovalApproved \<and> ar_guard_request (ae_approval_request e) = request
    \<and> ae_decision e = Some d \<and> ad_disposition d = DispositionApproved
    \<and> ad_authority d = ExplicitOwner \<and> ad_approval_request_id d = i
    \<and> approval_at C i (stored db') = Some (e\<lparr>ae_state := ApprovalConsumed\<rparr>))"
  using assms(1-4)
proof (cases rule: resume_cases)
  case kept
  then show ?thesis using assms(5) by auto
next
  case (won e s)
  have valid: "validate_envelope i e = Ok ()" using won(1) by (auto simp: approval_at_Some)
  have "\<exists>d. ae_decision e = Some d \<and> ad_disposition d = DispositionApproved
      \<and> validate_decision_for e d = Ok ()"
    using valid won(2) by (intro valid_envelope_approved [of i]) auto
  moreover have "ar_id (ae_approval_request e) = i" by (rule valid_envelope_id [OF valid])
  moreover have "approval_at C i (stored db') = Some (e\<lparr>ae_state := ApprovalConsumed\<rparr>)"
    unfolding won(4) by (rule approval_at_written [OF assms(1) won(5,6)])
  ultimately show ?thesis using won by (auto simp: result_iff)
qed

theorem resumed_effect_is_authorized_witness:
  "\<exists>e d. approval_at sample_ledger_codec ''ap1'' (stored sample_ledger) = Some e
     \<and> ae_state e = ApprovalApproved \<and> ae_decision e = Some d \<and> ad_authority d = ExplicitOwner"
proof -
  obtain db' where "resume_approved sample_ledger_codec alone ''ap1''
      (sample_guard_request NetworkAction R2) count_effect 0 sample_ledger
    = (Ok (Executed 0 (ae_required_gates sample_approved)), 1, db')" by (rule sample_resume)
  from resumed_effect_is_authorized [OF sample_ledger_round_trip orderly_alone _ this] show ?thesis
    by (auto simp: alone_def)
qed

text \<open>
  C21 (safety). At most one resumption of an approval ever runs its effect: after one has, any
  other whose swap comes later leaves the world alone, whenever it was started and whatever
  approving clients did in between.
\<close>

theorem approved_effect_at_most_once:
  assumes codec: "approvals_round_trip C" and envs: "orderly env" "orderly env'"
    and valid: "valid_database db" "valid_database db2"
    and first: "resume_approved C env i request effect w db = (Ok out, w1, db1)" "ran out"
    and later: "advances C i (stored db1) (stored (snd (env' 1) (snd (env' 0) db2)))"
    and second: "resume_approved C env' i request' effect' w2 db2 = (r, w3, db3)"
  shows "w3 = w2 \<and> (\<forall>out. r = Ok out \<longrightarrow> \<not> ran out)"
proof -
  have "\<exists>e. approval_at C i (stored db1) = Some e \<and> ae_state e = ApprovalConsumed"
    using codec envs(1) valid(1) first(1)
  proof (cases rule: resume_cases)
    case kept
    then show ?thesis using first(2) by auto
  next
    case (won e s)
    then have "approval_at C i (stored db1) = Some (e\<lparr>ae_state := ApprovalConsumed\<rparr>)"
      using approval_at_written [OF codec won(5,6)] by simp
    then show ?thesis by auto
  qed
  then obtain e where e: "approval_at C i (stored (snd (env' 1) (snd (env' 0) db2))) = Some e"
    "ae_state e = ApprovalConsumed"
    using later steps_from_final by (auto simp: advances_def)
  from codec envs(2) valid(2) second show ?thesis
    by (cases rule: resume_cases) (use e in auto)
qed

theorem approved_effect_at_most_once_witness:
  "\<exists>db'. fst (snd (resume_approved sample_ledger_codec alone ''ap1''
      (sample_guard_request NetworkAction R2) count_effect 5 db')) = 5
    \<and> db' = snd (snd (resume_approved sample_ledger_codec alone ''ap1''
      (sample_guard_request NetworkAction R2) count_effect 0 sample_ledger))"
proof -
  obtain db' where first: "resume_approved sample_ledger_codec alone ''ap1''
      (sample_guard_request NetworkAction R2) count_effect 0 sample_ledger
    = (Ok (Executed 0 (ae_required_gates sample_approved)), 1, db')" by (rule sample_resume)
  have valid: "valid_database db'"
    using sample_ledger_round_trip orderly_alone sample_ledger_valid first
    by (cases rule: resume_cases) (auto simp: alone_def)
  let ?again = "resume_approved sample_ledger_codec alone ''ap1''
      (sample_guard_request NetworkAction R2) count_effect 5 db'"
  have "fst (snd ?again) = 5"
    using approved_effect_at_most_once [OF sample_ledger_round_trip orderly_alone orderly_alone
        sample_ledger_valid valid first, where request' = "sample_guard_request NetworkAction R2"
        and effect' = count_effect and ?w2.0 = 5]
    by (cases ?again) (simp add: alone_def)
  then show ?thesis using first by auto
qed

text \<open>
  Refinement. Every operation of the ledger only moves approvals along their life: a
  pending approval is decided once by a decision valid for it, an approved one is consumed,
  and denied or consumed ones never change, nor does any approval's request.
\<close>

theorem ledger_operations_advance:
  assumes "approvals_round_trip C" and "approving C env" and "valid_database db"
  shows "advances C i (stored db) (stored (snd (evaluate_and_record C env request context db)))
    \<and> advances C i (stored db) (stored (snd (record_decision C env limit d db)))
    \<and> advances C i (stored db) (stored (snd (snd (resume_approved C env j request effect w db))))"
  by (intro conjI; (rule evaluate_and_record_advances [OF assms(2,3) surjective_pairing]
      | rule record_decision_advances [OF assms surjective_pairing]
      | rule resume_advances [OF assms, where w' = "fst (snd (resume_approved C env j request effect w db))"
          and r = "fst (resume_approved C env j request effect w db)"])) simp_all

theorem ledger_operations_advance_witness:
  "advances sample_ledger_codec ''ap1'' (stored sample_ledger)
     (stored (snd (record_decision sample_ledger_codec alone 16 sample_decision sample_ledger)))"
  by (rule ledger_operations_advance [OF sample_ledger_round_trip approving_alone sample_ledger_valid,
        THEN conjunct2, THEN conjunct1])

end
