(* ===== verification/Failure_Routing.thy ===== *)
theory Failure_Routing
  imports Verification_Acceptance
begin

text \<open>
  Who a classified verification failure goes to, the second half of
  \<open>ovca-types/src/goal_runtime/local_verification/targeted_rerun.rs\<close>: the validation of a set of
  classifications, with the confirmation of sensitive failures by a second classifier, and the
  route of one failure. A blocked route of the source is the error of \<open>find_route\<close>.
\<close>

section \<open>Classified failures\<close>

record classified_verification_failure =
  cvf_failure :: verification_failure
  cvf_classifier_actor :: worker_id

text \<open>An instant counts nanoseconds; \<open>timestamp_subsec_nanos\<close> is their number in its second.\<close>

definition timestamp_subsec_nanos :: "timestamp \<Rightarrow> nat" where
  "timestamp_subsec_nanos t = nat (t mod 1000000000)"

definition validate_classified :: "classified_verification_failure \<Rightarrow> unit verification_result" where
  "validate_classified self =
    checks
      [validate_failure (cvf_failure self),
       require (timestamp_subsec_nanos (vf_recorded_at (cvf_failure self)) mod 1000 = 0)
         (invalid ''recorded_at_exceeds_microsecond_precision'' (vf_failure_id (cvf_failure self))),
       validate_stable_id (cvf_classifier_actor self) ''classifier_actor'']"

definition add_classification ::
    "(string, classified_verification_failure) btree_map \<Rightarrow> classified_verification_failure \<Rightarrow>
     (string, classified_verification_failure) btree_map verification_result" where
  "add_classification by_id classification =
    (let i = vf_failure_id (cvf_failure classification) in
     and_then (validate_classified classification) (\<lambda>_.
     if bm_contains by_id i then Err (invalid ''duplicate_failure_classification'' i)
     else Ok (bm_insert i classification by_id)))"

definition check_confirmation ::
    "(string, classified_verification_failure) btree_map \<Rightarrow> classified_verification_failure \<Rightarrow>
     unit verification_result" where
  "check_confirmation by_id classification =
    (let failure = cvf_failure classification in
     if vf_confirmation failure \<noteq> Confirmed \<or> \<not> confirmation_required (vf_category failure) then Ok ()
     else
       and_then (ok_or (vf_supersedes_failure_id failure)
         (invalid ''missing_provisional_failure'' (vf_failure_id failure))) (\<lambda>superseded_id.
       and_then (ok_or (bm_get by_id superseded_id)
         (invalid ''missing_provisional_failure'' superseded_id)) (\<lambda>prior.
       checks
         [require (\<not> (vf_confirmation (cvf_failure prior) \<noteq> Provisional
             \<or> vf_category (cvf_failure prior) \<noteq> vf_category failure
             \<or> vf_criterion_id (cvf_failure prior) \<noteq> vf_criterion_id failure))
            (invalid ''mismatched_provisional_failure'' superseded_id),
          require (\<not> vf_recorded_at failure < vf_recorded_at (cvf_failure prior))
            (invalid ''noncausal_failure_confirmation'' (vf_failure_id failure)),
          require (cvf_classifier_actor prior \<noteq> cvf_classifier_actor classification)
            (invalid ''classifier_not_independent'' (vf_failure_id failure))])))"

definition validate_failure_classifications ::
    "classified_verification_failure list \<Rightarrow> unit verification_result" where
  "validate_failure_classifications classifications =
    and_then (try_fold add_classification bm_empty classifications) (\<lambda>by_id.
    checks (map (check_confirmation by_id) classifications))"

section \<open>Routes\<close>

datatype failure_owner_binding =
    ImplementationActor | VerifierActor | CapabilityOwner | TestOwner | CoordinatorOwner
  | ConfirmationOwner

datatype failure_route_directive = RouteRetry | AwaitingConfirmation | EscalateToOwner | RouteBlocked

record failure_owner_bindings =
  fob_implementation_actor :: "worker_id option"
  fob_verifier_actor :: "worker_id option"
  fob_capability_owner :: "worker_id option"
  fob_test_owner :: "worker_id option"
  fob_coordinator :: "worker_id option"
  fob_confirmation_owner :: "worker_id option"

record verification_failure_route =
  vfr_directive :: failure_route_directive
  vfr_category :: verification_failure_category
  vfr_owner_binding :: "failure_owner_binding option"
  vfr_target_owner :: "worker_id option"
  vfr_reason :: string

primrec failure_owner_binding_of :: "verification_failure_category \<Rightarrow> failure_owner_binding" where
  "failure_owner_binding_of ProductBug = CapabilityOwner"
| "failure_owner_binding_of TestFragility = TestOwner"
| "failure_owner_binding_of SourceDrift = ImplementationActor"
| "failure_owner_binding_of PolicyBlock = VerifierActor"
| "failure_owner_binding_of ContractViolation = VerifierActor"
| "failure_owner_binding_of CategoryTimeout = CoordinatorOwner"
| "failure_owner_binding_of CategoryEnvironment = CoordinatorOwner"
| "failure_owner_binding_of Infrastructure = CoordinatorOwner"
| "failure_owner_binding_of TestFailedUnclassified = CoordinatorOwner"

primrec failure_owner_binding_name :: "failure_owner_binding \<Rightarrow> string" where
  "failure_owner_binding_name ImplementationActor = ''implementation_actor''"
| "failure_owner_binding_name VerifierActor = ''verifier_actor''"
| "failure_owner_binding_name CapabilityOwner = ''capability_owner''"
| "failure_owner_binding_name TestOwner = ''test_owner''"
| "failure_owner_binding_name CoordinatorOwner = ''coordinator''"
| "failure_owner_binding_name ConfirmationOwner = ''confirmation_owner''"

primrec bound_owner :: "failure_owner_bindings \<Rightarrow> failure_owner_binding \<Rightarrow> worker_id option" where
  "bound_owner bindings ImplementationActor = fob_implementation_actor bindings"
| "bound_owner bindings VerifierActor = fob_verifier_actor bindings"
| "bound_owner bindings CapabilityOwner = fob_capability_owner bindings"
| "bound_owner bindings TestOwner = fob_test_owner bindings"
| "bound_owner bindings CoordinatorOwner = fob_coordinator bindings"
| "bound_owner bindings ConfirmationOwner = fob_confirmation_owner bindings"

text \<open>A binding that must be present and well formed; an error is the binding and the reason.\<close>

definition require_owner ::
    "failure_owner_bindings \<Rightarrow> failure_owner_binding \<Rightarrow>
     (failure_owner_binding option \<times> string, worker_id) result" where
  "require_owner bindings binding =
    and_then (ok_or (bound_owner bindings binding)
      (Some binding, ''missing required '' @ failure_owner_binding_name binding @ '' binding'')) (\<lambda>actor.
    and_then (map_err (\<lambda>e. (Some binding, display_error e))
      (validate_stable_id actor (failure_owner_binding_name binding))) (\<lambda>_.
    Ok actor))"

primrec route_reason :: "failure_route_directive \<Rightarrow> string" where
  "route_reason RouteRetry = ''existing revision state permits retry''"
| "route_reason AwaitingConfirmation =
    ''sensitive provisional failure requires independent confirmation''"
| "route_reason EscalateToOwner = ''existing revision state exhausted its attempt budget''"
| "route_reason RouteBlocked = ''failure route is blocked''"

definition choose_route ::
    "verification_failure \<Rightarrow> bool \<Rightarrow> failure_route_directive \<times> failure_owner_binding" where
  "choose_route failure retry_permitted =
    (if vf_confirmation failure = Provisional \<and> confirmation_required (vf_category failure)
     then (AwaitingConfirmation, ConfirmationOwner)
     else (if retry_permitted then RouteRetry else EscalateToOwner,
           failure_owner_binding_of (vf_category failure)))"

definition find_route ::
    "classified_verification_failure \<Rightarrow> classified_verification_failure option \<Rightarrow>
     failure_owner_bindings \<Rightarrow> bool \<Rightarrow>
     (failure_owner_binding option \<times> string, verification_failure_route) result" where
  "find_route failure prior_failure bindings retry_permitted =
    (let classifications = (case prior_failure of None \<Rightarrow> [] | Some p \<Rightarrow> [p]) @ [failure] in
     and_then (map_err (\<lambda>e. (None, display_error e)) (validate_failure_classifications classifications)) (\<lambda>_.
     and_then (require_owner bindings ImplementationActor) (\<lambda>_.
     and_then (require_owner bindings VerifierActor) (\<lambda>_.
     and_then (require (fob_implementation_actor bindings \<noteq> fob_verifier_actor bindings)
       (None, ''implementation_actor and verifier_actor must differ'')) (\<lambda>_.
     let (directive, binding) = choose_route (cvf_failure failure) retry_permitted in
     and_then (require_owner bindings binding) (\<lambda>target_owner.
     and_then (require (\<not> (directive = AwaitingConfirmation \<and> target_owner = cvf_classifier_actor failure))
       (Some binding, ''confirmation_owner must differ from classifier_actor'')) (\<lambda>_.
     Ok \<lparr>vfr_directive = directive, vfr_category = vf_category (cvf_failure failure),
         vfr_owner_binding = Some binding, vfr_target_owner = Some target_owner,
         vfr_reason = route_reason directive\<rparr>)))))))"

definition route_classified_verification_failure ::
    "classified_verification_failure \<Rightarrow> classified_verification_failure option \<Rightarrow>
     failure_owner_bindings \<Rightarrow> bool \<Rightarrow> verification_failure_route" where
  "route_classified_verification_failure failure prior_failure bindings retry_permitted =
    (let blocked = (\<lambda>binding reason.
       \<lparr>vfr_directive = RouteBlocked, vfr_category = vf_category (cvf_failure failure),
        vfr_owner_binding = binding, vfr_target_owner = None, vfr_reason = reason\<rparr>)
     in case find_route failure prior_failure bindings retry_permitted of
          Ok route \<Rightarrow> route
        | Err (binding, reason) \<Rightarrow> blocked binding reason
        | Panic \<Rightarrow> blocked None [])"

section \<open>What is routed\<close>

definition classified_ok :: "classified_verification_failure \<Rightarrow> bool" where
  "classified_ok c \<longleftrightarrow> failure_ok (cvf_failure c) \<and> stable_id (cvf_classifier_actor c)
     \<and> timestamp_subsec_nanos (vf_recorded_at (cvf_failure c)) mod 1000 = 0"

lemma validate_classified_iff [result_iff]: "validate_classified c = Ok u \<longleftrightarrow> classified_ok c"
  by (auto simp: validate_classified_def result_iff classified_ok_def)

text \<open>A sensitive failure is confirmed by someone else, later, on the same grounds.\<close>

definition confirms :: "classified_verification_failure \<Rightarrow> classified_verification_failure \<Rightarrow> bool" where
  "confirms c prior \<longleftrightarrow> vf_supersedes_failure_id (cvf_failure c) = Some (vf_failure_id (cvf_failure prior))
     \<and> vf_confirmation (cvf_failure prior) = Provisional
     \<and> vf_category (cvf_failure prior) = vf_category (cvf_failure c)
     \<and> vf_criterion_id (cvf_failure prior) = vf_criterion_id (cvf_failure c)
     \<and> vf_recorded_at (cvf_failure prior) \<le> vf_recorded_at (cvf_failure c)
     \<and> cvf_classifier_actor prior \<noteq> cvf_classifier_actor c"

definition sensitive :: "verification_failure \<Rightarrow> failure_confirmation \<Rightarrow> bool" where
  "sensitive f confirmation \<longleftrightarrow> vf_confirmation f = confirmation \<and> confirmation_required (vf_category f)"

abbreviation failure_id :: "classified_verification_failure \<Rightarrow> string" where
  "failure_id c \<equiv> vf_failure_id (cvf_failure c)"

lemma add_classifications_iff:
  "try_fold add_classification m cs = Ok m' \<longleftrightarrow> (\<forall>c \<in> set cs. classified_ok c)
     \<and> distinct (map failure_id cs) \<and> failure_id ` set cs \<inter> set (bm_keys m) = {}
     \<and> m' = fold (\<lambda>c. bm_insert (failure_id c) c) cs m"
  by (induction cs arbitrary: m) (auto simp: result_iff add_classification_def Let_def bm_contains_iff)

lemma classifications_get:
  assumes "distinct (map failure_id cs)"
  shows "bm_get (fold (\<lambda>c. bm_insert (failure_id c) c) cs bm_empty) i = Some c \<longleftrightarrow>
    c \<in> set cs \<and> failure_id c = i"
proof -
  have "bm_get (fold (\<lambda>c. bm_insert (failure_id c) c) cs m) i = Some c \<longleftrightarrow>
      c \<in> set cs \<and> failure_id c = i \<or> i \<notin> failure_id ` set cs \<and> bm_get m i = Some c"
    for m :: "(string, classified_verification_failure) btree_map"
    using assms by (induction cs arbitrary: m) (auto split: if_splits)
  then show ?thesis by simp
qed

lemma validate_classifications_iff [result_iff]:
  "validate_failure_classifications cs = Ok u \<longleftrightarrow> (\<forall>c \<in> set cs. classified_ok c)
     \<and> distinct (map failure_id cs)
     \<and> (\<forall>c \<in> set cs. sensitive (cvf_failure c) Confirmed \<longrightarrow> (\<exists>prior \<in> set cs. confirms c prior))"
proof -
  have "check_confirmation (fold (\<lambda>c. bm_insert (failure_id c) c) cs bm_empty) c = Ok () \<longleftrightarrow>
      (sensitive (cvf_failure c) Confirmed \<longrightarrow> (\<exists>prior \<in> set cs. confirms c prior))"
    if "distinct (map failure_id cs)" for c
    by (auto simp: check_confirmation_def Let_def result_iff classifications_get [OF that]
        sensitive_def confirms_def not_less)
  then show ?thesis
    by (auto simp: validate_failure_classifications_def result_iff add_classifications_iff)
qed

text \<open>
  C31 (failure route safe). Failure routes. A failure is routed to somebody only when its classification is valid and
  the implementer and the verifier of the work are known and different. Then a provisional
  product bug or fragile test is never retried or escalated: it awaits confirmation from an
  owner who is not its classifier; a confirmed one was confirmed by a second classifier, no earlier,
  on the same grounds; and every other route goes to the owner of its category.
\<close>

theorem failure_route_safe:
  assumes "route_classified_verification_failure c prior bindings retry = route"
    and "vfr_directive route \<noteq> RouteBlocked"
  shows "classified_ok c
    \<and> (\<exists>i v. fob_implementation_actor bindings = Some i \<and> fob_verifier_actor bindings = Some v \<and> i \<noteq> v)
    \<and> (\<exists>owner binding. vfr_target_owner route = Some owner \<and> vfr_owner_binding route = Some binding
        \<and> bound_owner bindings binding = Some owner \<and> stable_id owner
        \<and> (if sensitive (cvf_failure c) Provisional
           then vfr_directive route = AwaitingConfirmation \<and> binding = ConfirmationOwner
             \<and> owner \<noteq> cvf_classifier_actor c
           else vfr_directive route = (if retry then RouteRetry else EscalateToOwner)
             \<and> binding = failure_owner_binding_of (vf_category (cvf_failure c))))
    \<and> (sensitive (cvf_failure c) Confirmed \<longrightarrow> (\<exists>p. prior = Some p \<and> confirms c p))"
proof -
  from assms obtain r where r: "find_route c prior bindings retry = Ok r" "r = route"
    by (cases "find_route c prior bindings retry")
      (auto simp: route_classified_verification_failure_def Let_def)
  obtain directive binding where choice: "choose_route (cvf_failure c) retry = (directive, binding)"
    by fastforce
  have not_self: "\<not> confirms c c" by (auto simp: confirms_def)
  have owner: "require_owner bindings b = Ok w \<longleftrightarrow> bound_owner bindings b = Some w \<and> stable_id w" for b w
    by (auto simp: require_owner_def result_iff)
  from r(1) obtain i v w where route:
      "validate_failure_classifications ((case prior of None \<Rightarrow> [] | Some p \<Rightarrow> [p]) @ [c]) = Ok ()"
      "fob_implementation_actor bindings = Some i" "fob_verifier_actor bindings = Some v" "i \<noteq> v"
      "bound_owner bindings binding = Some w" "stable_id w"
      "directive = AwaitingConfirmation \<longrightarrow> w \<noteq> cvf_classifier_actor c"
      "vfr_target_owner r = Some w" "vfr_owner_binding r = Some binding" "vfr_directive r = directive"
    unfolding find_route_def Let_def choice prod.case and_then_Ok_iff map_err_Ok_iff owner require_Ok_iff
    by auto
  from route(1) have "classified_ok c"
      "sensitive (cvf_failure c) Confirmed \<longrightarrow> (\<exists>p. prior = Some p \<and> confirms c p)"
    using not_self by (auto simp: result_iff split: option.splits)
  moreover have "if sensitive (cvf_failure c) Provisional
      then directive = AwaitingConfirmation \<and> binding = ConfirmationOwner
      else directive = (if retry then RouteRetry else EscalateToOwner)
        \<and> binding = failure_owner_binding_of (vf_category (cvf_failure c))"
    using choice by (auto simp: choose_route_def sensitive_def split: if_splits)
  ultimately show ?thesis
    using route(2-) r(2) by auto
qed

definition sample_failure :: classified_verification_failure where
  "sample_failure =
    \<lparr>cvf_failure = \<lparr>vf_contract_version = 1, vf_failure_id = ''failure.1'', vf_category = ProductBug,
       vf_confirmation = Provisional, vf_supersedes_failure_id = None, vf_criterion_id = None,
       vf_summary = ''it crashes'', vf_recorded_at = 7000\<rparr>,
     cvf_classifier_actor = ''verifier''\<rparr>"

definition sample_owners :: failure_owner_bindings where
  "sample_owners =
    \<lparr>fob_implementation_actor = Some ''engineer'', fob_verifier_actor = Some ''verifier'',
     fob_capability_owner = Some ''engineer'', fob_test_owner = None,
     fob_coordinator = Some ''coordinator'', fob_confirmation_owner = Some ''reviewer''\<rparr>"

lemma sample_route:
  "vfr_directive (route_classified_verification_failure sample_failure None sample_owners True)
     = AwaitingConfirmation"
  by code_simp

theorem failure_route_safe_witness:
  "sensitive (cvf_failure sample_failure) Provisional
   \<and> vfr_target_owner (route_classified_verification_failure sample_failure None sample_owners True)
       = Some ''reviewer''"
proof -
  have "sensitive (cvf_failure sample_failure) Provisional"
    by (simp add: sensitive_def sample_failure_def confirmation_required_def)
  then show ?thesis
    using failure_route_safe [OF refl, of sample_failure None sample_owners True] sample_route
    by (auto simp: sample_owners_def)
qed

end
