(* ===== verification/Spec2Isabelle.thy ===== *)
theory Spec2Isabelle
  imports Evidence_Bank_Properties Verified_Append_Properties Transitions Scheduler Finalization Guardrails Review_Audit Replay_Safety Durable_Safety Guardrail_Safety Goal_Runtime_Properties Targeted_Rerun_Properties Failure_Routing Verification_Binding_Properties
begin

text \<open>
  A verification development for the durable goal runtime of OVCA Core, the Rust library
  path (crates \<open>ovca-types\<close>, \<open>ovca-runtime-core\<close>, \<open>ovca-storage\<close>, \<open>ovca-observability\<close>,
  \<open>ovca-verifier\<close> and \<open>ovca-langgraph\<close> under \<open>src/rust\<close>) that plans a goal, records what happens to it, hands its
  tasks to workers, asks for approvals and decides when it is complete.

  \<^bold>\<open>The program and its parts.\<close>  An embedding application gives the runtime a goal, its tasks,
  identifiers and instants. The scheduler orders the tasks into waves. A run is then a chain of
  events in an append-only JSONL file; replaying the chain gives the record of the run. Workers
  claim tasks under leases that a lifecycle kernel hands out; its state lives in a SQLite table
  updated by compare and swap, and a second family of rows in the same table holds pending
  approvals of risky effects. Reviewer and Auditor decisions recorded in the chain pass a gate
  before the run may be marked completed. Local verification bundles of the tasks, once
  admitted, are the evidence a completion is built from: they are published to an evidence bank,
  and a run of an enforced goal completes only under a lease on that bank, over a fresh snapshot
  of the sources. Each part is one theory, or one for
  its operations and others for what is proved of it:

  \<^item> \<open>Prelude\<close>: results (\<open>Ok\<close>/\<open>Err\<close>, the \<open>?\<close> operator as \<open>and_then\<close> and \<open>bind_result\<close>),
    panics, checks over lists, pushes to vectors. \<open>Ordered_Map\<close>: \<open>BTreeMap\<close> and \<open>BTreeSet\<close>
    as sorted association lists with their laws.
  \<^item> \<open>Contracts\<close>: the version 1 data types of \<open>ovca-types/src/goal_runtime.rs\<close>, a record per
    struct and a datatype per enum. \<open>Transitions\<close>: the run status machine of the same file.
  \<^item> \<open>Scheduler\<close> (\<open>scheduler.rs\<close>), \<open>Finalization\<close> (\<open>finalization.rs\<close>), \<open>Guardrails\<close>
    (\<open>guardrails.rs\<close>) and \<open>Review_Audit\<close> (\<open>review_audit.rs\<close>): the pure kernels of
    \<open>ovca-runtime-core/src\<close>.
  \<^item> \<open>Replay\<close> (\<open>replay.rs\<close>) and \<open>Replay_Safety\<close>: the fold that reads a chain back, with every
    event kind and every error, and what holds of a chain it accepts.
  \<^item> \<open>Execution_Lifecycle\<close> (\<open>execution_lifecycle.rs\<close>) with \<open>Lifecycle_Safety\<close>,
    \<open>Lifecycle_Behaviour\<close> and \<open>Lifecycle_Properties\<close>: claim, heartbeat, complete, cancel and
    fail over leases, write keys and retry budgets.
  \<^item> \<open>Versioned_State\<close> (\<open>ovca-storage/src/versioned_state.rs\<close>): the SQLite table as a map
    from entity keys to revision and payload.
  \<^item> \<open>Durable_Execution\<close> and \<open>Durable_Safety\<close> (\<open>sqlite_execution.rs\<close>), \<open>Durable_Guardrails\<close>
    and \<open>Guardrail_Safety\<close> (\<open>durable_guardrails.rs\<close>): the lifecycle kernel and the approval
    ledger made durable over the table.
  \<^item> \<open>Run_Event_Log\<close> (\<open>ovca-storage/src/run_events.rs\<close>): the JSONL file as a list of bytes.
  \<^item> \<open>Goal_Runtime\<close>, \<open>Goal_Runtime_Safety\<close> and \<open>Goal_Runtime_Properties\<close>
    (\<open>ovca-langgraph/src/goal_runtime.rs\<close>, \<open>ovca-observability/src/lib.rs\<close>): planning,
    creating, loading, bootstrapping and appending to a run over the log and the table.
  \<^item> \<open>Verification_Digest\<close>, \<open>Verification_Contracts\<close>, \<open>Verification_Acceptance\<close>,
    \<open>Verification_Admission\<close> and \<open>Verification_Properties\<close>
    (\<open>ovca-types/src/goal_runtime/local_verification.rs\<close>): the SHA-256 of the contract layer,
    behaviors, capabilities and bundles with their validators, what each validator accepts,
    the admission of a bundle as evidence of its task and the aggregation of the evidence of a goal.
  \<^item> \<open>Targeted_Rerun\<close>, \<open>Targeted_Rerun_Safety\<close>, \<open>Targeted_Rerun_Properties\<close> and
    \<open>Failure_Routing\<close> (\<open>local_verification/targeted_rerun.rs\<close>): which capabilities a change
    makes a task verify again, and who a classified failure goes to.
  \<^item> \<open>Verification_Binding\<close> and \<open>Verification_Binding_Properties\<close> (\<open>local_verification.rs\<close>):
    the transcript of the commands that ran, the canonical digests, and the validator that binds
    a bundle to its behavior, its selection, its capabilities and its transcript.
  \<^item> \<open>Evidence_Bank\<close>, \<open>Evidence_Bank_Safety\<close>, \<open>Evidence_Lease\<close> and \<open>Evidence_Bank_Properties\<close>
    (\<open>ovca-storage/src/local_verification.rs\<close>): the tables of immutable records, generations and
    current projections, their transactions, what each keeps, and the completion lease.
  \<^item> \<open>Verified_Completion\<close> and \<open>Verified_Completion_Safety\<close>
    (\<open>ovca-runtime-core/src/local_verification_completion.rs\<close>): the admission of a lease
    snapshot with observed sources as completion material.
  \<^item> \<open>Source_Snapshot\<close> (\<open>ovca-verifier/src/snapshot.rs\<close>): the manifest, the inspection of a
    directory tree against it, and the frozen copy.
  \<^item> \<open>Completion_Runtime\<close>, \<open>Verified_Append\<close> and \<open>Verified_Append_Properties\<close>
    (\<open>goal_runtime.rs\<close>, \<open>ovca-verifier/src/execution.rs\<close>): preparing completion material,
    appending the verified completion under the lease, reconciling an append.
  \<^item> This theory: properties that span components.

  \<^bold>\<open>How code becomes definitions.\<close>  Each Rust function is one definition under its Rust name;
  a long body is cut at its statements into helper definitions named after what they check. An
  early return is \<open>Err\<close>, in the order of the source. Machine integers that only count up are
  \<open>nat\<close> with the checked bound of the source as a branch; a panic is a value of its own, never
  an unspecified one. Identifiers and texts are \<open>string\<close>, instants \<open>int\<close>. Operations on shared
  state pass it explicitly and return it updated next to their result. What happens when a disk
  or SQLite step fails is a parameter: a run is given the outcome of each step, so the theorems
  cover every pattern of failures, partial writes included. Other writers between the steps
  are an environment: a list of states the table may have moved to, over which the theorems
  quantify. JSON encoders and decoders, digests of third-party crates and the projection of rows
  are parameters with named hypotheses (for the codec, that decoding inverts encoding and that
  an encoded event holds no line feed).

  \<^bold>\<open>Interfaces.\<close>  The locale \<open>versioned_store\<close> is what the durable components use of the table,
  interpreted as \<open>sqlite\<close> on the modelled operations; the locale \<open>event_log\<close> is what the runtime
  uses of the log, interpreted as \<open>jsonl\<close> on the modelled file. Client lemmas are proved once
  inside the locales and used through the interpretations.

  \<^bold>\<open>What the lemmas show.\<close>  Pure kernels: each validator succeeds exactly under its stated
  conditions (\<open>_iff\<close> lemmas), a schedule is a topological order into waves that never share a
  write key and exists exactly for acyclic tasks, risky effects are never allowed without
  approval, a passing gate has bound evidence and the roles the policy asks for, and a sequence of
  accepted transitions reaches completion exactly through the phases its gate stands for. Replay:
  an accepted chain is linked, has unique events and ends in the state its folded
  projections give; a completed run passed its gate. Lifecycle: an invariant of leases and
  write keys that every operation keeps, mutual exclusion, monotone attempts, bounds on
  retries. Durable layers: each command refines the kernel step on the stored state, no
  update is lost, and an approved effect runs at most once. Log and runtime: successful appends keep
  the log intact and their events are read back, an append leaves a run replayable in an intact log
  unless its write is cut short, which leaves the recorded events before a part of a line (and no
  load gets past that line), a created run holds exactly its
  planning events, and a bootstrapped execution state holds the tasks of the replayed plan.
  Local verification: the digest loops compute the standard recurrence of SHA-256; an admitted
  bundle passed every required criterion by an independent verifier, and what the admitted bundles
  of a goal add up to is a completion the run status machine accepts; a rerun selection is
  the impact closure of the changed paths, and the cycle check behind it is exact. Evidence: every
  operation of the bank keeps its rows readable and its generations monotone, stale evidence shuts the
  lease over any further operations but a rebuild until other evidence takes its place, and a lease shows exactly the current bank; a verified append succeeds only on such a snapshot,
  on sources that match the manifest before and after, and on material the run has recorded, and
  changes the run by at most its event, or a part of its line, whatever fails; reconciliation reports what the log holds.

  \<^bold>\<open>Bounds and fuel.\<close>  No definition takes fuel. The retry loops of the durable layers
  (\<open>apply_loop\<close>, \<open>decision_loop\<close>) recurse on the bounded number of forgiven conflicts of
  the source. The visit of a directory tree recurses on
  the size of what is still to be visited, the padding loop on the missing zeros, the graph visit on the uncoloured nodes,
  the two closure loops on the capabilities not yet taken. Wave construction recurses on the number of tasks still unscheduled. The bound \<open>2 ^ 32\<close>
  on the number of tasks is that of the \<open>u32\<close> wave index of the source.

  \<^bold>\<open>Not modelled.\<close>  The operation and targeted-rerun stores beside the evidence bank (file archives and
  SQL over wire records), the verifier that runs executables, the Engineer-to-Verifier and
  independent review controllers with their states (the runtime takes a resolved review and its
  comparison with the snapshot as parameters), the workspace broker (native file system handles),
  the control plane contracts, the HTTP services, the MCP and LLM clients, the brain cache and the
  policy tools: I/O and glue around the runtime, or library paths of their own. Of the runtime,
  \<open>evaluate_run\<close>, which projects a report, is left out; of the bank and the snapshot, the
  checks of their paths in constructors and the case-insensitive names of Windows. The
  manifest lists each of these parts with its reason.
\<close>

section \<open>Scheduler and replay\<close>

text \<open>
  Planned runs replay: a plan the scheduler produces for at most \<open>2^32\<close> tasks is
  accepted by the plan check of replay for a run that declares exactly these tasks, so
  recording the plan never makes a run unreadable.
\<close>

theorem scheduled_plan_accepted:
  assumes "schedule_tasks tasks = Ok plan" and "length tasks \<le> 2 ^ 32"
    and "set declared = task_ids tasks"
  shows "validate_execution_plan sequence plan declared = Ok ()
    \<and> ep_contract_version plan = current_version"
  using assms by (rule planned_accepted)

theorem scheduled_plan_accepted_witness:
  "validate_execution_plan 3 sample_plan [''a'', ''b'', ''c'', ''d''] = Ok ()"
  by (rule scheduled_plan_accepted [OF sample_plan_Ok, THEN conjunct1])
    (auto simp: sample_tasks_def sample_task_def task_ids_def)

end
